(* ===== verification/Prelude.thy ===== *)
theory Prelude
  imports Main "HOL-Library.Word" "HOL-Library.Signed_Division"
begin

section \<open>Prelude: effects, integers, times, tables\<close>

text \<open>
  What every component of the development shares.

  \<^item> \<open>exec\<close> is the shape of a Go method that reads and writes a store and returns
    \<open>(value, error)\<close>. An error does \<^emph>\<open>not\<close> undo the writes made before it: undoing them
    is the business of a database transaction, which the theory Transactions models.
  \<^item> \<open>wpE\<close> is the weakest precondition of such a method, computed by rewriting
    (collection \<open>wp_simps\<close>).
  \<^item> Go's \<open>int64\<close> is \<open>int\<close> with the two's complement wrap-around written out (\<open>wrap64\<close>),
    a \<open>time.Time\<close> is an \<open>int\<close> number of nanoseconds since the zero time, a SQL table is
    the list of its rows.
\<close>

named_theorems wp_simps \<open>weakest preconditions of the building blocks\<close>

subsection \<open>Methods with errors over a store\<close>

type_synonym ('s, 'e, 'a) exec = "'s \<Rightarrow> ('e + 'a) \<times> 's"

definition retE :: "'a \<Rightarrow> ('s, 'e, 'a) exec" where
  "retE a s = (Inr a, s)"

definition failE :: "'e \<Rightarrow> ('s, 'e, 'a) exec" where
  "failE e s = (Inl e, s)"

definition bindE :: "('s, 'e, 'a) exec \<Rightarrow> ('a \<Rightarrow> ('s, 'e, 'b) exec) \<Rightarrow> ('s, 'e, 'b) exec" where
  "bindE m f s = (case m s of (Inl e, s') \<Rightarrow> (Inl e, s') | (Inr a, s') \<Rightarrow> f a s')"

definition readE :: "('s \<Rightarrow> 'a) \<Rightarrow> ('s, 'e, 'a) exec" where
  "readE f s = (Inr (f s), s)"

definition modifyE :: "('s \<Rightarrow> 's) \<Rightarrow> ('s, 'e, unit) exec" where
  "modifyE f s = (Inr (), f s)"

definition liftE :: "'e + 'a \<Rightarrow> ('s, 'e, 'a) exec" where
  "liftE r s = (r, s)"

definition optE :: "'e \<Rightarrow> 'a option \<Rightarrow> ('s, 'e, 'a) exec" where
  "optE e x s = (case x of None \<Rightarrow> (Inl e, s) | Some a \<Rightarrow> (Inr a, s))"

text \<open>\<open>if err := m(); err != nil { handler }\<close>, the writes of \<open>m\<close> kept.\<close>

definition catchE :: "('s, 'e, 'a) exec \<Rightarrow> ('e \<Rightarrow> ('s, 'f, 'a) exec) \<Rightarrow> ('s, 'f, 'a) exec" where
  "catchE m h s = (case m s of (Inl e, s') \<Rightarrow> h e s' | (Inr a, s') \<Rightarrow> (Inr a, s'))"

text \<open>A \<open>for _, x := range xs\<close> whose body may return an error early.\<close>

fun forE :: "('x \<Rightarrow> ('s, 'e, unit) exec) \<Rightarrow> 'x list \<Rightarrow> ('s, 'e, unit) exec" where
  "forE f [] = retE ()"
| "forE f (x # xs) = bindE (f x) (\<lambda>_. forE f xs)"

text \<open>Running a method of one component inside a larger store.\<close>

definition zoomE :: "('t \<Rightarrow> 's) \<Rightarrow> ('s \<Rightarrow> 't \<Rightarrow> 't) \<Rightarrow> ('s, 'e, 'a) exec \<Rightarrow> ('t, 'e, 'a) exec" where
  "zoomE get put m t = (case m (get t) of (r, s') \<Rightarrow> (r, put s' t))"

lemma bindE_assoc: "bindE (bindE m f) g = bindE m (\<lambda>x. bindE (f x) g)"
  by (rule ext) (simp add: bindE_def split: prod.split sum.split)

lemma bindE_ret_unit: "bindE m (\<lambda>_. retE ()) = m" for m :: "('s, 'e, unit) exec"
  by (rule ext) (simp add: bindE_def retE_def split: prod.split sum.split)

subsection \<open>Weakest preconditions\<close>

definition wpE :: "('s, 'e, 'a) exec \<Rightarrow> ('a \<Rightarrow> 's \<Rightarrow> bool) \<Rightarrow> ('e \<Rightarrow> 's \<Rightarrow> bool) \<Rightarrow> 's \<Rightarrow> bool" where
  "wpE m Q R s = (case m s of (Inl e, s') \<Rightarrow> R e s' | (Inr a, s') \<Rightarrow> Q a s')"

lemma wpE_ret [wp_simps]: "wpE (retE a) Q R s = Q a s"
  by (simp add: wpE_def retE_def)

lemma wpE_fail [wp_simps]: "wpE (failE e) Q R s = R e s"
  by (simp add: wpE_def failE_def)

lemma wpE_bind [wp_simps]: "wpE (bindE m f) Q R s = wpE m (\<lambda>a. wpE (f a) Q R) R s"
  by (simp add: wpE_def bindE_def split: prod.split sum.split)

lemma wpE_read [wp_simps]: "wpE (readE f) Q R s = Q (f s) s"
  by (simp add: wpE_def readE_def)

lemma wpE_modify [wp_simps]: "wpE (modifyE f) Q R s = Q () (f s)"
  by (simp add: wpE_def modifyE_def)

lemma wpE_lift [wp_simps]:
  "wpE (liftE r) Q R s = (case r of Inl e \<Rightarrow> R e s | Inr a \<Rightarrow> Q a s)"
  by (simp add: wpE_def liftE_def split: sum.split)

lemma wpE_opt [wp_simps]:
  "wpE (optE e x) Q R s = (case x of None \<Rightarrow> R e s | Some a \<Rightarrow> Q a s)"
  by (simp add: wpE_def optE_def split: option.split)

lemma wpE_catch [wp_simps]:
  "wpE (catchE m h) Q R s = wpE m Q (\<lambda>e. wpE (h e) Q R) s"
  by (simp add: wpE_def catchE_def split: prod.split sum.split)

lemma wpE_if [wp_simps]:
  "wpE (if b then m else n) Q R s = (if b then wpE m Q R s else wpE n Q R s)"
  by simp

lemma wpE_case_option [wp_simps]:
  "wpE (case x of None \<Rightarrow> m | Some a \<Rightarrow> f a) Q R s =
     (case x of None \<Rightarrow> wpE m Q R s | Some a \<Rightarrow> wpE (f a) Q R s)"
  by (simp split: option.split)

lemma wpE_case_prod [wp_simps]:
  "wpE (case p of (a, b) \<Rightarrow> f a b) Q R s = (case p of (a, b) \<Rightarrow> wpE (f a b) Q R s)"
  by (simp split: prod.split)

lemma wpE_mono:
  "wpE m Q R s \<Longrightarrow> (\<And>a t. Q a t \<Longrightarrow> Q' a t) \<Longrightarrow> (\<And>e t. R e t \<Longrightarrow> R' e t) \<Longrightarrow> wpE m Q' R' s"
  by (auto simp: wpE_def split: prod.splits sum.splits)

lemma wpE_conj:
  "wpE m Q R s \<Longrightarrow> wpE m Q' R' s \<Longrightarrow> wpE m (\<lambda>a t. Q a t \<and> Q' a t) (\<lambda>e t. R e t \<and> R' e t) s"
  by (auto simp: wpE_def split: prod.splits sum.splits)

lemma wpE_result: "wpE m Q R s \<Longrightarrow> m s = (Inr a, t) \<Longrightarrow> Q a t"
  and wpE_error: "wpE m Q R s \<Longrightarrow> m s = (Inl e, t) \<Longrightarrow> R e t"
  by (simp_all add: wpE_def)

lemma wpE_intro:
  "(\<And>a t. m s = (Inr a, t) \<Longrightarrow> Q a t) \<Longrightarrow> (\<And>e t. m s = (Inl e, t) \<Longrightarrow> R e t) \<Longrightarrow> wpE m Q R s"
  by (auto simp: wpE_def split: prod.splits sum.splits)

lemma wp_snd: "wpE m (\<lambda>_. I) (\<lambda>_. I) s \<Longrightarrow> I (snd (m s))"
  by (auto simp: wpE_def split: prod.splits sum.splits)

text \<open>A loop keeps what every round keeps.\<close>

lemma wpE_for:
  assumes step: "\<And>x t. x \<in> set xs \<Longrightarrow> I t \<Longrightarrow> wpE (f x) (\<lambda>_. I) R t"
    and start: "I s"
  shows "wpE (forE f xs) (\<lambda>_. I) R s"
  using assms
proof (induction xs arbitrary: s)
  case Nil
  then show ?case by (simp add: wp_simps)
next
  case (Cons x xs)
  have "wpE (f x) (\<lambda>_. I) R s"
    using Cons.prems by simp
  then show ?case
    unfolding forE.simps wpE_bind
    by (rule wpE_mono) (use Cons in auto)
qed

subsection \<open>Go's \<open>int64\<close>\<close>

text \<open>
  \<open>wrap64\<close> is the value the machine keeps of an exact result; \<open>add64\<close>, \<open>sub64\<close>, \<open>mul64\<close>
  are Go's \<open>+\<close>, \<open>-\<close>, \<open>*\<close> and \<open>quot64\<close> its \<open>/\<close>, which rounds towards zero.
\<close>

definition wrap64 :: "int \<Rightarrow> int" where
  "wrap64 x = signed_take_bit 63 x"

definition max_int64 :: int where "max_int64 = 9223372036854775807"
definition min_int64 :: int where "min_int64 = -9223372036854775808"

definition add64 :: "int \<Rightarrow> int \<Rightarrow> int" where "add64 a b = wrap64 (a + b)"
definition sub64 :: "int \<Rightarrow> int \<Rightarrow> int" where "sub64 a b = wrap64 (a - b)"
definition mul64 :: "int \<Rightarrow> int \<Rightarrow> int" where "mul64 a b = wrap64 (a * b)"
definition quot64 :: "int \<Rightarrow> int \<Rightarrow> int" where "quot64 a b = wrap64 (a sdiv b)"

definition is_int64 :: "int \<Rightarrow> bool" where
  "is_int64 x \<longleftrightarrow> min_int64 \<le> x \<and> x \<le> max_int64"

lemma wrap64_word: "wrap64 x = sint (word_of_int x :: 64 word)"
  by (simp add: wrap64_def) (transfer, simp)

lemma wrap64_id [simp]: "is_int64 x \<Longrightarrow> wrap64 x = x"
  by (simp add: wrap64_def is_int64_def min_int64_def max_int64_def
      signed_take_bit_int_eq_self_iff)

lemma is_int64_wrap64 [simp]: "is_int64 (wrap64 x)"
  using signed_take_bit_int_greater_eq_minus_exp [of 63 x]
    signed_take_bit_int_less_exp [of 63 x]
  by (simp add: wrap64_def is_int64_def min_int64_def max_int64_def)

lemma wrap64_cong: "\<exists>k. wrap64 x = x + k * 18446744073709551616"
proof -
  have "take_bit 64 (signed_take_bit 63 x) = take_bit 64 x"
    by (simp add: take_bit_signed_take_bit)
  then have "wrap64 x mod 2 ^ 64 = x mod 2 ^ 64"
    by (simp add: wrap64_def take_bit_eq_mod)
  then have "(2::int) ^ 64 dvd wrap64 x - x"
    by (simp add: mod_eq_dvd_iff)
  then obtain k where "wrap64 x - x = 2 ^ 64 * k"
    by (rule dvdE)
  then show ?thesis
    by (intro exI [of _ k]) (simp add: algebra_simps)
qed

lemma int64_unfold: "is_int64 x \<longleftrightarrow> -9223372036854775808 \<le> x \<and> x \<le> 9223372036854775807"
  by (simp add: is_int64_def min_int64_def max_int64_def)

lemma wrap64_range: "-9223372036854775808 \<le> wrap64 x \<and> wrap64 x \<le> 9223372036854775807"
  using is_int64_wrap64 [of x] by (simp only: int64_unfold)

lemma add64_exact: "is_int64 (a + b) \<Longrightarrow> add64 a b = a + b"
  and sub64_exact: "is_int64 (a - b) \<Longrightarrow> sub64 a b = a - b"
  and mul64_exact: "is_int64 (a * b) \<Longrightarrow> mul64 a b = a * b"
  by (simp_all add: add64_def sub64_def mul64_def)

text \<open>An addition of two non-negative \<open>int64\<close> values is exact or comes out negative.\<close>

lemma add64_nonneg_exact:
  assumes "is_int64 a" "is_int64 b" "0 \<le> a" "0 \<le> b" "0 \<le> add64 a b"
  shows "add64 a b = a + b"
proof -
  obtain k where k: "wrap64 (a + b) = a + b + k * 18446744073709551616"
    using wrap64_cong by blast
  have "k = 0"
    using assms k wrap64_range [of "a + b"]
    by (simp only: add64_def int64_unfold) arith
  with k show ?thesis by (simp add: add64_def)
qed

lemma sub64_nonneg_exact:
  assumes "is_int64 a" "is_int64 b" "0 \<le> a" "0 \<le> b"
  shows "sub64 a b = a - b"
  using assms by (intro sub64_exact) (simp add: int64_unfold)

subsection \<open>Times and strings\<close>

text \<open>
  \<open>Before\<close>, \<open>After\<close> are \<open><\<close>, \<open>>\<close> on the nanoseconds, \<open>IsZero\<close> is \<open>= 0\<close>, \<open>UTC()\<close> keeps the
  instant. \<open>Sub\<close> yields a \<open>time.Duration\<close>, an \<open>int64\<close> that saturates.
\<close>

type_synonym time = int
type_synonym duration = int

definition time_sub :: "time \<Rightarrow> time \<Rightarrow> duration" where
  "time_sub a b = max min_int64 (min max_int64 (a - b))"

definition minutes :: "int \<Rightarrow> duration" where "minutes n = n * 60000000000"
definition hours :: "int \<Rightarrow> duration" where "hours n = n * 3600000000000"

subsection \<open>Tables\<close>

text \<open>
  \<open>SELECT ... WHERE\<close> one row, \<open>UPDATE ... WHERE\<close>, and \<open>INSERT ... ON CONFLICT (key)
  DO UPDATE\<close>.
\<close>

definition row_select :: "('r \<Rightarrow> bool) \<Rightarrow> 'r list \<Rightarrow> 'r option" where
  "row_select p rows = List.find p rows"

definition row_update :: "('r \<Rightarrow> bool) \<Rightarrow> ('r \<Rightarrow> 'r) \<Rightarrow> 'r list \<Rightarrow> 'r list" where
  "row_update p f rows = map (\<lambda>r. if p r then f r else r) rows"

definition row_upsert :: "('r \<Rightarrow> 'k) \<Rightarrow> 'r \<Rightarrow> 'r list \<Rightarrow> 'r list" where
  "row_upsert key x rows =
     (if list_ex (\<lambda>r. key r = key x) rows
      then row_update (\<lambda>r. key r = key x) (\<lambda>_. x) rows else rows @ [x])"

lemma row_select_SomeD: "row_select p rows = Some r \<Longrightarrow> r \<in> set rows \<and> p r"
  by (auto simp: row_select_def find_Some_iff)

lemma row_select_None_iff: "row_select p rows = None \<longleftrightarrow> (\<forall>r \<in> set rows. \<not> p r)"
  by (auto simp: row_select_def find_None_iff)

lemma row_select_key:
  assumes "distinct (map key rows)" "r \<in> set rows"
  shows "row_select (\<lambda>x. key x = key r) rows = Some r"
  using assms by (induction rows) (auto simp: row_select_def)

lemma set_row_update: "set (row_update p f rows) = (\<lambda>r. if p r then f r else r) ` set rows"
  by (simp add: row_update_def)

lemma row_update_mem: "r \<in> set rows \<Longrightarrow> p r \<Longrightarrow> f r \<in> set (row_update p f rows)"
  by (auto simp: row_update_def)

lemma row_update_mem_if:
  "r \<in> set rows \<Longrightarrow> (if p r then f r else r) \<in> set (row_update p f rows)"
  by (auto simp: row_update_def)

lemma row_update_memE:
  assumes "x \<in> set (row_update p f rows)"
  obtains r where "r \<in> set rows" "x = (if p r then f r else r)"
  using assms by (auto simp: row_update_def)

lemma map_row_update:
  "(\<And>r. p r \<Longrightarrow> key (f r) = key r) \<Longrightarrow> map key (row_update p f rows) = map key rows"
  by (simp add: row_update_def)

lemma length_row_update [simp]: "length (row_update p f rows) = length rows"
  by (simp add: row_update_def)

lemma row_update_append [simp]: "row_update p f (xs @ ys) = row_update p f xs @ row_update p f ys"
  by (simp add: row_update_def)

lemma row_select_Cons:
  "row_select p (r # rs) = (if p r then Some r else row_select p rs)"
  by (simp add: row_select_def)

lemma row_select_Nil [simp]: "row_select p [] = None"
  by (simp add: row_select_def)

lemma row_select_upsert_same: "row_select (\<lambda>r. key r = key x) (row_upsert key x rows) = Some x"
proof (induction rows)
  case Nil
  then show ?case by (simp add: row_upsert_def row_select_Cons)
next
  case (Cons r rows)
  then show ?case
    by (auto simp: row_upsert_def row_update_def row_select_Cons split: if_splits)
qed

lemma row_select_update_other:
  assumes "k \<noteq> key x"
  shows "row_select (\<lambda>r. key r = k) (row_update (\<lambda>r. key r = key x) (\<lambda>_. x) rows)
       = row_select (\<lambda>r. key r = k) rows"
  using assms by (induction rows) (auto simp: row_update_def row_select_Cons)

lemma row_select_snoc:
  "row_select p (rows @ [x]) =
     (case row_select p rows of None \<Rightarrow> if p x then Some x else None | Some r \<Rightarrow> Some r)"
  by (induction rows) (auto simp: row_select_Cons)

lemma row_select_upsert_other:
  "k \<noteq> key x \<Longrightarrow> row_select (\<lambda>r. key r = k) (row_upsert key x rows) = row_select (\<lambda>r. key r = k) rows"
  by (simp add: row_upsert_def row_select_update_other row_select_snoc split: option.split)

lemma row_update_absent: "(\<And>r. r \<in> set rows \<Longrightarrow> \<not> p r) \<Longrightarrow> row_update p f rows = rows"
  by (simp add: row_update_def map_idI)

lemma row_update_split:
  assumes d: "distinct (map key (xs @ r # ys))"
  shows "row_update (\<lambda>x. key x = key r) f (xs @ r # ys) = xs @ f r # ys"
proof -
  have "row_update (\<lambda>x. key x = key r) f xs = xs" "row_update (\<lambda>x. key x = key r) f ys = ys"
    using d by (auto intro!: row_update_absent simp: image_iff)
  then show ?thesis by (simp add: row_update_def)
qed

lemma sum_row_update:
  fixes f :: "'r \<Rightarrow> int"
  assumes "distinct (map key rows)" "r \<in> set rows"
  shows "(\<Sum>x\<leftarrow>row_update (\<lambda>x. key x = key r) g rows. f x) = (\<Sum>x\<leftarrow>rows. f x) - f r + f (g r)"
proof -
  obtain xs ys where "rows = xs @ r # ys"
    using assms(2) by (meson split_list)
  with assms(1) show ?thesis
    using row_update_split [of key xs r ys g] by simp
qed

end
