(* ===== verification/Status_Machine.thy ===== *)
theory Status_Machine
  imports Prelude
begin

section \<open>Status machines\<close>

text \<open>
  The contract every entity with a status fulfils: its methods only move the status forward
  in a rank, and never touch its snapshot, the part of the entity fixed at creation. Clients
  get that no status is ever left and entered again, a bound on the number of changes, and
  that the snapshot of an entity is the one it was created with.
\<close>

locale ranked_fsm =
  fixes step :: "'a \<Rightarrow> 'a \<Rightarrow> bool"
    and status :: "'a \<Rightarrow> 'st"
    and rank :: "'st \<Rightarrow> nat"
  assumes step_rank: "step x y \<Longrightarrow> rank (status x) < rank (status y)"
begin

lemma steps_rank: "step\<^sup>*\<^sup>* x y \<Longrightarrow> rank (status x) \<le> rank (status y)"
  by (induction rule: rtranclp_induct) (auto dest: step_rank)

lemma never_again: "step\<^sup>+\<^sup>+ x y \<Longrightarrow> status x \<noteq> status y"
proof -
  assume "step\<^sup>+\<^sup>+ x y"
  then have "rank (status x) < rank (status y)"
    by (induction rule: tranclp_induct) (auto dest: step_rank)
  then show ?thesis by auto
qed

lemma length_bound: "(step ^^ n) x y \<Longrightarrow> rank (status x) + n \<le> rank (status y)"
proof (induction n arbitrary: y)
  case (Suc n)
  then obtain z where "(step ^^ n) x z" "step z y" by auto
  then show ?case using Suc.IH [of z] step_rank [of z y] by simp
qed simp

lemma same_status: "step\<^sup>*\<^sup>* x y \<Longrightarrow> status x = status y \<Longrightarrow> y = x"
  using never_again [of x y] by (metis rtranclpD)

end

locale snapshot_fsm = ranked_fsm step status rank
  for step :: "'a \<Rightarrow> 'a \<Rightarrow> bool" and status :: "'a \<Rightarrow> 'st" and rank :: "'st \<Rightarrow> nat" +
  fixes snapshot :: "'a \<Rightarrow> 'k"
  assumes step_snapshot: "step x y \<Longrightarrow> snapshot y = snapshot x"
begin

lemma steps_snapshot: "step\<^sup>*\<^sup>* x y \<Longrightarrow> snapshot y = snapshot x"
  by (induction rule: rtranclp_induct) (auto dest: step_snapshot)

lemma final_status:
  assumes "step\<^sup>*\<^sup>* x y" and "\<And>st. rank st \<le> rank (status x)"
  shows "y = x"
  using assms(1)
proof (cases rule: converse_rtranclpE)
  case base
  then show ?thesis by simp
next
  case (step z)
  then show ?thesis using step_rank [of x z] assms(2) [of "status z"] by simp
qed

end

end
