(* ===== verification/Sorting.thy ===== *)
theory Sorting
  imports Prelude "HOL-Library.Multiset"
begin

section \<open>Sorting with ties left open\<close>

text \<open>
  \<open>sort.Slice\<close> and \<open>ORDER BY\<close> promise a permutation in which no element comes after one it is
  less than; neither says how ties are broken. \<open>slice_sort\<close> is that contract, for any strict weak
  order. Go sorts a slice of at most twelve elements by \<open>insertionSort\<close>, which is stable:
  \<open>insertion_sort\<close> is that routine, and the contract's interpretation.
\<close>

definition weak_order :: "('a \<Rightarrow> 'a \<Rightarrow> bool) \<Rightarrow> bool" where
  "weak_order lt \<longleftrightarrow>
     (\<forall>x y. lt x y \<longrightarrow> \<not> lt y x) \<and> (\<forall>x y z. lt x z \<longrightarrow> lt x y \<or> lt y z)"

locale slice_sort =
  fixes sort_slice :: "('a \<Rightarrow> 'a \<Rightarrow> bool) \<Rightarrow> 'a list \<Rightarrow> 'a list"
  assumes perm: "mset (sort_slice lt xs) = mset xs"
    and ordered: "weak_order lt \<Longrightarrow> sorted_wrt (\<lambda>x y. \<not> lt y x) (sort_slice lt xs)"
begin

lemma set_sort: "set (sort_slice lt xs) = set xs"
  using perm mset_eq_setD by blast

lemma length_sort: "length (sort_slice lt xs) = length xs"
  using perm mset_eq_length by blast

lemma sort_eq_Nil: "sort_slice lt xs = [] \<longleftrightarrow> xs = []"
  using length_sort [of lt xs] by (metis length_0_conv)

lemma first_le_all:
  assumes "weak_order lt" "sort_slice lt xs = w # ws" "x \<in> set xs"
  shows "\<not> lt x w"
proof -
  have "x \<in> set (w # ws)"
    using assms(2,3) set_sort [of lt xs] by simp
  then show ?thesis
    using ordered [OF assms(1), of xs] assms(1,2) by (auto simp: weak_order_def)
qed

text \<open>Without ties there is one sorted order.\<close>

lemma unique_order:
  assumes w: "weak_order lt" and tot: "\<And>x y. x \<in> set xs \<Longrightarrow> y \<in> set xs \<Longrightarrow> x \<noteq> y \<Longrightarrow> lt x y \<or> lt y x"
    and m: "mset ys = mset xs" and s: "sorted_wrt (\<lambda>x y. \<not> lt y x) ys"
  shows "sort_slice lt xs = ys"
proof -
  have "zs = ys" if "mset zs = mset ys" "sorted_wrt (\<lambda>x y. \<not> lt y x) zs"
    "sorted_wrt (\<lambda>x y. \<not> lt y x) ys" "set ys \<subseteq> set xs" for zs ys
    using that
  proof (induction ys arbitrary: zs)
    case Nil
    then show ?case by simp
  next
    case (Cons y ys)
    then obtain z zs' where zs: "zs = z # zs'"
      by (cases zs) auto
    have "z \<in> set (y # ys)" "y \<in> set (z # zs')"
      using Cons.prems(1) zs by (metis list.set_intros(1) mset_eq_setD)+
    moreover have "set (z # zs') = set (y # ys)"
      using Cons.prems(1) zs by (metis mset_eq_setD)
    ultimately have "z = y"
      using Cons.prems tot [of z y] zs by auto
    then show ?case
      using Cons zs by auto
  qed
  from this [OF _ ordered [OF w] s] show ?thesis
    using perm [of lt xs] m mset_eq_setD [OF m] by simp
qed

end

fun insert_stable :: "('a \<Rightarrow> 'a \<Rightarrow> bool) \<Rightarrow> 'a \<Rightarrow> 'a list \<Rightarrow> 'a list" where
  "insert_stable lt x [] = [x]"
| "insert_stable lt x (y # ys) = (if lt x y then x # y # ys else y # insert_stable lt x ys)"

definition insertion_sort :: "('a \<Rightarrow> 'a \<Rightarrow> bool) \<Rightarrow> 'a list \<Rightarrow> 'a list" where
  "insertion_sort lt xs = foldl (\<lambda>acc x. insert_stable lt x acc) [] xs"

lemma mset_insert_stable [simp]: "mset (insert_stable lt x ys) = add_mset x (mset ys)"
  by (induction ys) auto

lemma set_insert_stable [simp]: "set (insert_stable lt x ys) = insert x (set ys)"
  by (metis mset_insert_stable set_mset_add_mset_insert set_mset_mset)

lemma sorted_insert_stable:
  assumes "weak_order lt" "sorted_wrt (\<lambda>x y. \<not> lt y x) ys"
  shows "sorted_wrt (\<lambda>x y. \<not> lt y x) (insert_stable lt x ys)"
  using assms(2)
proof (induction ys)
  case (Cons y ys)
  then show ?case
    using assms(1) unfolding weak_order_def by auto metis+
qed simp

lemma insertion_sort_aux:
  "mset (foldl (\<lambda>acc x. insert_stable lt x acc) acc xs) = mset acc + mset xs"
  "weak_order lt \<Longrightarrow> sorted_wrt (\<lambda>x y. \<not> lt y x) acc \<Longrightarrow>
     sorted_wrt (\<lambda>x y. \<not> lt y x) (foldl (\<lambda>acc x. insert_stable lt x acc) acc xs)"
  by (induction xs arbitrary: acc) (simp_all add: sorted_insert_stable)

interpretation stable_sort: slice_sort insertion_sort
  by unfold_locales (simp_all add: insertion_sort_def insertion_sort_aux)

end
