(* ===== verification/Auction.thy ===== *)
theory Auction
  imports Status_Machine Sorting
begin

section \<open>The auction aggregate (internal/trading/auction)\<close>

text \<open>
  \<open>Auction\<close>, \<open>Bid\<close> and their methods. A method with a pointer receiver returns the error or the
  events with the auction updated. \<open>sort.Slice\<close> is documented not to be stable, so the order of
  bids that tie is an argument: any function with the contract \<open>slice_sort\<close>. The contract is
  interpreted on the stable insertion sort, what \<open>sort.Slice\<close> does to short slices.
\<close>

subsection \<open>States, errors, events\<close>

datatype auction_state = StateDraft | StatePublished | StateClosed | StateWon | StateCancelled

fun auction_state_text :: "auction_state \<Rightarrow> string" where
  "auction_state_text StateDraft = ''DRAFT''"
| "auction_state_text StatePublished = ''PUBLISHED''"
| "auction_state_text StateClosed = ''CLOSED''"
| "auction_state_text StateWon = ''WON''"
| "auction_state_text StateCancelled = ''CANCELLED''"

definition parse_auction_state :: "string \<Rightarrow> auction_state option" where
  "parse_auction_state s = List.find (\<lambda>st. auction_state_text st = s)
     [StateDraft, StatePublished, StateClosed, StateWon, StateCancelled]"

definition isValidState :: "string \<Rightarrow> bool" where
  "isValidState s \<longleftrightarrow> parse_auction_state s \<noteq> None"

datatype auction_error =
    ErrAuctionCannotBePublished | ErrAuctionNotActive | ErrCannotCloseAuction
  | ErrInvalidStateTransition | ErrNoBids | ErrCannotCancelWithBids | ErrAuctionNotStarted
  | ErrAuctionAlreadyEnded | ErrInvalidSchedule | ErrBidTooLow | ErrBidStepTooSmall
  | ErrAuctionIDEmpty | ErrLotIDEmpty | ErrInvalidStartPrice | ErrInvalidMinBidStep
  | ErrBidderCompanyIDEmpty | ErrBidAmountNonPositive | ErrBidPlacedAtZero

datatype auction_event =
    AuctionPublished string
  | BidPlaced string string int time time
  | AuctionClosed string
  | AuctionWon string string "string list" int
  | AuctionCancelled string

subsection \<open>Bids\<close>

record bid =
  bid_company :: string
  bid_amount :: int
  bid_placedAt :: time

definition NewBid :: "string \<Rightarrow> int \<Rightarrow> time \<Rightarrow> auction_error + bid" where
  "NewBid bidderCompanyID amount placedAt =
     (if bidderCompanyID = '''' then Inl ErrBidderCompanyIDEmpty
      else if amount \<le> 0 then Inl ErrBidAmountNonPositive
      else if placedAt = 0 then Inl ErrBidPlacedAtZero
      else Inr \<lparr>bid_company = bidderCompanyID, bid_amount = amount, bid_placedAt = placedAt\<rparr>)"

subsection \<open>Auctions\<close>

record auction =
  au_id :: string
  au_lot :: string
  au_state :: auction_state
  au_startsAt :: time
  au_endsAt :: time
  au_startPrice :: int
  au_currentPrice :: int
  au_minBidStep :: int
  au_leader :: string
  au_extensionWindow :: duration
  au_extensionDuration :: duration

definition NewAuctionWithPricing ::
  "string \<Rightarrow> string \<Rightarrow> time \<Rightarrow> time \<Rightarrow> int \<Rightarrow> int \<Rightarrow> auction_error + auction" where
  "NewAuctionWithPricing id' lotID startsAt endsAt startPrice minBidStep =
     (if id' = '''' then Inl ErrAuctionIDEmpty
      else if lotID = '''' then Inl ErrLotIDEmpty
      else if startsAt = 0 \<or> endsAt = 0 \<or> \<not> startsAt < endsAt then Inl ErrInvalidSchedule
      else if startPrice < 0 then Inl ErrInvalidStartPrice
      else if minBidStep \<le> 0 then Inl ErrInvalidMinBidStep
      else Inr \<lparr>au_id = id', au_lot = lotID, au_state = StateDraft, au_startsAt = startsAt,
        au_endsAt = endsAt, au_startPrice = startPrice, au_currentPrice = startPrice,
        au_minBidStep = minBidStep, au_leader = '''', au_extensionWindow = minutes 5,
        au_extensionDuration = minutes 5\<rparr>)"

definition NewAuction :: "string \<Rightarrow> string \<Rightarrow> time \<Rightarrow> time \<Rightarrow> auction_error + auction" where
  "NewAuction id' lotID startsAt endsAt = NewAuctionWithPricing id' lotID startsAt endsAt 0 1"

definition RehydrateAuction ::
  "string \<Rightarrow> string \<Rightarrow> string \<Rightarrow> time \<Rightarrow> time \<Rightarrow> int \<Rightarrow> int \<Rightarrow> int \<Rightarrow> string
    \<Rightarrow> auction_error + auction" where
  "RehydrateAuction id' lotID st startsAt endsAt startPrice currentPrice minBidStep leader =
     (if id' = '''' then Inl ErrAuctionIDEmpty
      else if lotID = '''' then Inl ErrLotIDEmpty
      else if startsAt = 0 \<or> endsAt = 0 \<or> \<not> startsAt < endsAt then Inl ErrInvalidSchedule
      else case parse_auction_state st of
        None \<Rightarrow> Inl ErrInvalidStateTransition
      | Some st' \<Rightarrow>
          if minBidStep \<le> 0 then Inl ErrInvalidMinBidStep
          else if startPrice < 0 then Inl ErrInvalidStartPrice
          else Inr \<lparr>au_id = id', au_lot = lotID, au_state = st', au_startsAt = startsAt,
            au_endsAt = endsAt, au_startPrice = startPrice, au_currentPrice = currentPrice,
            au_minBidStep = minBidStep, au_leader = leader, au_extensionWindow = minutes 5,
            au_extensionDuration = minutes 5\<rparr>)"

subsection \<open>Transitions\<close>

fun allowedTransitions :: "auction_state \<Rightarrow> auction_state list" where
  "allowedTransitions StateDraft = [StatePublished, StateCancelled]"
| "allowedTransitions StatePublished = [StateClosed, StateCancelled]"
| "allowedTransitions StateClosed = [StateWon]"
| "allowedTransitions StateWon = []"
| "allowedTransitions StateCancelled = []"

definition canTransition :: "auction_state \<Rightarrow> auction_state \<Rightarrow> bool" where
  "canTransition from to \<longleftrightarrow> to \<in> set (allowedTransitions from)"

definition transitionTo :: "auction_state \<Rightarrow> auction \<Rightarrow> auction_error + auction" where
  "transitionTo next a =
     (if canTransition (au_state a) next then Inr (a\<lparr>au_state := next\<rparr>)
      else Inl ErrInvalidStateTransition)"

type_synonym auction_result = "auction_error + auction_event list \<times> auction"

definition with_events :: "auction_event list \<Rightarrow> auction_error + auction \<Rightarrow> auction_result" where
  "with_events evs r = map_sum id (\<lambda>a. (evs, a)) r"

definition au_Publish :: "auction \<Rightarrow> auction_result" where
  "au_Publish a =
     (if au_state a \<noteq> StateDraft then Inl ErrAuctionCannotBePublished
      else with_events [AuctionPublished (au_id a)] (transitionTo StatePublished a))"

subsection \<open>Bidding\<close>

definition minAllowed :: "auction \<Rightarrow> int" where
  "minAllowed a =
     (if au_leader a \<noteq> '''' then add64 (au_currentPrice a) (au_minBidStep a)
      else au_currentPrice a)"

definition newEndAt :: "bid \<Rightarrow> auction \<Rightarrow> time" where
  "newEndAt b a =
     (if time_sub (au_endsAt a) (bid_placedAt b) \<le> au_extensionWindow a
      then bid_placedAt b + au_extensionDuration a else au_endsAt a)"

definition au_PlaceBid :: "bid \<Rightarrow> auction \<Rightarrow> auction_result" where
  "au_PlaceBid b a =
     (if au_state a \<noteq> StatePublished then Inl ErrAuctionNotActive
      else if bid_placedAt b < au_startsAt a then Inl ErrAuctionNotStarted
      else if bid_placedAt b > au_endsAt a then Inl ErrAuctionAlreadyEnded
      else if bid_amount b < minAllowed a then Inl ErrBidStepTooSmall
      else Inr ([BidPlaced (au_id a) (bid_company b) (bid_amount b) (bid_placedAt b) (newEndAt b a)],
        a\<lparr>au_currentPrice := bid_amount b, au_leader := bid_company b, au_endsAt := newEndAt b a\<rparr>))"

subsection \<open>Closing\<close>

type_synonym bid_sort = "(bid \<Rightarrow> bid \<Rightarrow> bool) \<Rightarrow> bid list \<Rightarrow> bid list"

definition ranks_before :: "bid \<Rightarrow> bid \<Rightarrow> bool" where
  "ranks_before x y \<longleftrightarrow>
     (if bid_amount x \<noteq> bid_amount y then bid_amount x > bid_amount y
      else bid_placedAt x < bid_placedAt y)"

definition sortBidsForCloseRanking :: "bid_sort \<Rightarrow> bid list \<Rightarrow> bid list" where
  "sortBidsForCloseRanking sort_slice bids =
     (if length bids \<le> 1 then bids else sort_slice ranks_before bids)"

fun winner_scan :: "bid \<Rightarrow> bid list \<Rightarrow> bid" where
  "winner_scan w [] = w"
| "winner_scan w (b # bs) =
     (if bid_amount b > bid_amount w then winner_scan b bs
      else if bid_amount b = bid_amount w \<and> bid_placedAt b < bid_placedAt w then winner_scan b bs
      else winner_scan w bs)"

fun determineWinner :: "bid list \<Rightarrow> bid option" where
  "determineWinner [] = None"
| "determineWinner (b # bs) = Some (winner_scan b bs)"

definition maxWinnerCandidatesInAuctionWon :: nat where
  "maxWinnerCandidatesInAuctionWon = 3"

fun collect_companies :: "string list \<Rightarrow> bid list \<Rightarrow> string list" where
  "collect_companies seen [] = []"
| "collect_companies seen (b # bs) =
     (if bid_company b = '''' then collect_companies seen bs
      else if bid_company b \<in> set seen then collect_companies seen bs
      else bid_company b # collect_companies (bid_company b # seen) bs)"

definition collectWinnerCompanyIDs :: "bid list \<Rightarrow> string list" where
  "collectWinnerCompanyIDs bids =
     collect_companies [] (take maxWinnerCandidatesInAuctionWon bids)"

definition au_Close :: "bid_sort \<Rightarrow> bid list \<Rightarrow> auction \<Rightarrow> auction_result" where
  "au_Close sort_slice bids a =
     (if au_state a \<noteq> StatePublished then Inl ErrCannotCloseAuction
      else if bids = [] then
        with_events [AuctionCancelled (au_id a)] (transitionTo StateCancelled a)
      else
        let sortedBids = sortBidsForCloseRanking sort_slice bids in
        case determineWinner sortedBids of None \<Rightarrow> Inl ErrNoBids | Some winner \<Rightarrow>
        case transitionTo StateClosed a of Inl e \<Rightarrow> Inl e | Inr a1 \<Rightarrow>
        let a2 = a1\<lparr>au_currentPrice := bid_amount winner, au_leader := bid_company winner\<rparr> in
        case transitionTo StateWon a2 of Inl e \<Rightarrow> Inl e | Inr a3 \<Rightarrow>
        Inr ([AuctionClosed (au_id a3),
              AuctionWon (au_id a3) (au_lot a3) (collectWinnerCompanyIDs sortedBids)
                (au_currentPrice a3)], a3))"

subsection \<open>Cancelling\<close>

definition au_CancelAsSellerOrDraft :: "auction \<Rightarrow> auction_result" where
  "au_CancelAsSellerOrDraft a =
     (if au_state a = StateDraft then
        with_events [AuctionCancelled (au_id a)] (transitionTo StateCancelled a)
      else if au_state a \<noteq> StatePublished then Inl ErrInvalidStateTransition
      else if au_leader a \<noteq> '''' then Inl ErrCannotCancelWithBids
      else with_events [AuctionCancelled (au_id a)] (transitionTo StateCancelled a))"

definition au_CancelAsAdmin :: "auction \<Rightarrow> auction_result" where
  "au_CancelAsAdmin a =
     (if au_state a = StateDraft then
        with_events [AuctionCancelled (au_id a)] (transitionTo StateCancelled a)
      else if au_state a \<noteq> StatePublished then Inl ErrInvalidStateTransition
      else with_events [AuctionCancelled (au_id a)] (transitionTo StateCancelled a))"

definition au_Winner :: "auction \<Rightarrow> (string \<times> int) option" where
  "au_Winner a = (if au_leader a = '''' then None else Some (au_leader a, au_currentPrice a))"

end
