(* ===== verification/Auction_Correct.thy ===== *)
theory Auction_Correct
  imports Auction
begin

section \<open>The auction aggregate: its invariant and its life\<close>

text \<open>
  \<open>auction_ok a bs\<close> relates an auction to the bids it has accepted, in the order it accepted
  them; creation, publication, bidding and closing keep it (\<open>new_auction_ok\<close>, \<open>place_bid_ok\<close>,
  \<open>close_ok\<close>), as long as \<open>currentPrice + minBidStep\<close> is an \<open>int64\<close>. \<open>au_step\<close> is a change
  of state after any number of bids; it interprets the contract of status machines.
\<close>

subsection \<open>State changes\<close>

inductive au_bid_step :: "auction \<Rightarrow> auction \<Rightarrow> bool" where
  "au_PlaceBid b a = Inr (evs, a') \<Longrightarrow> au_bid_step a a'"

inductive au_move :: "auction \<Rightarrow> auction \<Rightarrow> bool" where
  publish: "au_Publish a = Inr (evs, a') \<Longrightarrow> au_move a a'"
| close: "au_Close srt bids a = Inr (evs, a') \<Longrightarrow> au_move a a'"
| cancel_seller: "au_CancelAsSellerOrDraft a = Inr (evs, a') \<Longrightarrow> au_move a a'"
| cancel_admin: "au_CancelAsAdmin a = Inr (evs, a') \<Longrightarrow> au_move a a'"

definition au_step :: "auction \<Rightarrow> auction \<Rightarrow> bool" where
  "au_step a a' \<longleftrightarrow> (\<exists>z. au_bid_step\<^sup>*\<^sup>* a z \<and> au_move z a')"

fun auction_rank :: "auction_state \<Rightarrow> nat" where
  "auction_rank StateDraft = 0"
| "auction_rank StatePublished = 1"
| "auction_rank StateClosed = 2"
| "auction_rank StateWon = 3"
| "auction_rank StateCancelled = 3"

definition au_snapshot :: "auction \<Rightarrow> string \<times> string \<times> time \<times> int \<times> int" where
  "au_snapshot a = (au_id a, au_lot a, au_startsAt a, au_startPrice a, au_minBidStep a)"

lemma transitionTo_iff: "transitionTo st a = Inr a' \<longleftrightarrow>
    canTransition (au_state a) st \<and> a' = a\<lparr>au_state := st\<rparr>"
  by (auto simp: transitionTo_def)

lemma with_events_iff: "with_events evs r = Inr (evs', a) \<longleftrightarrow> r = Inr a \<and> evs' = evs"
  by (cases r) (auto simp: with_events_def)

lemma Publish_iff: "au_Publish a = Inr (evs, a') \<longleftrightarrow>
    au_state a = StateDraft \<and> a' = a\<lparr>au_state := StatePublished\<rparr> \<and> evs = [AuctionPublished (au_id a)]"
  by (auto simp: au_Publish_def with_events_iff transitionTo_iff canTransition_def)

lemma PlaceBid_iff: "au_PlaceBid b a = Inr (evs, a') \<longleftrightarrow>
    au_state a = StatePublished \<and> au_startsAt a \<le> bid_placedAt b \<and> bid_placedAt b \<le> au_endsAt a
    \<and> minAllowed a \<le> bid_amount b
    \<and> a' = a\<lparr>au_currentPrice := bid_amount b, au_leader := bid_company b, au_endsAt := newEndAt b a\<rparr>
    \<and> evs = [BidPlaced (au_id a) (bid_company b) (bid_amount b) (bid_placedAt b) (newEndAt b a)]"
  by (auto simp: au_PlaceBid_def)

lemma cancel_iff:
  "au_CancelAsSellerOrDraft a = Inr (evs, a') \<longleftrightarrow>
     (au_state a = StateDraft \<or> au_state a = StatePublished \<and> au_leader a = '''')
     \<and> a' = a\<lparr>au_state := StateCancelled\<rparr> \<and> evs = [AuctionCancelled (au_id a)]"
  "au_CancelAsAdmin a = Inr (evs, a') \<longleftrightarrow>
     (au_state a = StateDraft \<or> au_state a = StatePublished)
     \<and> a' = a\<lparr>au_state := StateCancelled\<rparr> \<and> evs = [AuctionCancelled (au_id a)]"
  by (auto simp: au_CancelAsSellerOrDraft_def au_CancelAsAdmin_def with_events_iff transitionTo_iff
      canTransition_def)

lemma Close_iff:
  "au_Close srt bids a = Inr (evs, a') \<longleftrightarrow> au_state a = StatePublished \<and>
     (if bids = [] then a' = a\<lparr>au_state := StateCancelled\<rparr> \<and> evs = [AuctionCancelled (au_id a)]
      else \<exists>w. determineWinner (sortBidsForCloseRanking srt bids) = Some w
        \<and> a' = a\<lparr>au_state := StateWon, au_currentPrice := bid_amount w, au_leader := bid_company w\<rparr>
        \<and> evs = [AuctionClosed (au_id a), AuctionWon (au_id a) (au_lot a)
             (collectWinnerCompanyIDs (sortBidsForCloseRanking srt bids)) (bid_amount w)])"
  by (auto simp: au_Close_def with_events_iff transitionTo_iff transitionTo_def canTransition_def
      Let_def split: option.splits sum.splits if_splits)

lemmas au_move_iffs = Publish_iff Close_iff cancel_iff

lemma bid_step_keeps: "au_bid_step a z \<Longrightarrow> au_state z = au_state a \<and> au_snapshot z = au_snapshot a"
  by (auto elim!: au_bid_step.cases simp: PlaceBid_iff au_snapshot_def)

lemma bid_steps_keep: "au_bid_step\<^sup>*\<^sup>* a z \<Longrightarrow> au_state z = au_state a \<and> au_snapshot z = au_snapshot a"
  by (induction rule: rtranclp_induct) (auto dest: bid_step_keeps)

lemma move_rank: "au_move a z \<Longrightarrow>
    auction_rank (au_state a) < auction_rank (au_state z) \<and> au_snapshot z = au_snapshot a"
  by (auto elim!: au_move.cases simp: au_move_iffs au_snapshot_def split: if_splits)

interpretation auction_fsm: snapshot_fsm au_step au_state auction_rank au_snapshot
proof
  fix x y assume "au_step x y"
  then obtain z where "au_bid_step\<^sup>*\<^sup>* x z" "au_move z y"
    by (auto simp: au_step_def)
  then show "auction_rank (au_state x) < auction_rank (au_state y)"
    and "au_snapshot y = au_snapshot x"
    using bid_steps_keep [of x z] move_rank [of z y] by auto
qed

lemma auction_rank_le: "auction_rank st \<le> 3"
  by (cases st) auto

subsection \<open>The ranking of the bids\<close>

lemma ranks_before_weak: "weak_order ranks_before"
  by (auto simp: weak_order_def ranks_before_def)

lemma winner_scan_first:
  "(\<And>b. b \<in> set bs \<Longrightarrow> \<not> ranks_before b w) \<Longrightarrow> winner_scan w bs = w"
proof (induction bs)
  case (Cons b bs)
  have "winner_scan w (b # bs) = (if ranks_before b w then winner_scan b bs else winner_scan w bs)"
    by (simp add: ranks_before_def)
  then show ?case using Cons by simp
qed simp

context slice_sort
begin

lemma ranking_ordered:
  "weak_order lt \<Longrightarrow> sorted_wrt (\<lambda>x y. \<not> lt y x) (if length xs \<le> 1 then xs else sort_slice lt xs)"
  using ordered by (cases xs) auto

end

lemma ranking_facts:
  assumes "slice_sort srt"
  shows "mset (sortBidsForCloseRanking srt bids) = mset bids"
    and "set (sortBidsForCloseRanking srt bids) = set bids"
    and "sorted_wrt (\<lambda>x y. \<not> ranks_before y x) (sortBidsForCloseRanking srt bids)"
proof -
  show m: "mset (sortBidsForCloseRanking srt bids) = mset bids"
    using slice_sort.perm [OF assms] by (simp add: sortBidsForCloseRanking_def)
  show "set (sortBidsForCloseRanking srt bids) = set bids"
    using m mset_eq_setD by blast
  show "sorted_wrt (\<lambda>x y. \<not> ranks_before y x) (sortBidsForCloseRanking srt bids)"
    using slice_sort.ranking_ordered [OF assms ranks_before_weak, of bids]
    by (simp add: sortBidsForCloseRanking_def)
qed

lemma winner_is_best:
  assumes srt: "slice_sort srt" and w: "determineWinner (sortBidsForCloseRanking srt bids) = Some w"
  shows "\<exists>rest. sortBidsForCloseRanking srt bids = w # rest"
    and "w \<in> set bids"
    and "b \<in> set bids \<Longrightarrow> \<not> ranks_before b w"
proof -
  obtain c rest where c: "sortBidsForCloseRanking srt bids = c # rest"
    using w by (cases "sortBidsForCloseRanking srt bids") auto
  have "\<not> ranks_before b c" if "b \<in> set (c # rest)" for b
    using ranking_facts(3) [OF srt, of bids] that ranks_before_weak
    by (auto simp: c weak_order_def)
  moreover from this have "winner_scan c rest = c"
    by (intro winner_scan_first) auto
  ultimately show "\<exists>rest. sortBidsForCloseRanking srt bids = w # rest" "w \<in> set bids"
    "b \<in> set bids \<Longrightarrow> \<not> ranks_before b w"
    using c w ranking_facts(2) [OF srt, of bids] by auto
qed

lemma winner_exists:
  assumes "slice_sort srt" "bids \<noteq> []"
  shows "\<exists>w. determineWinner (sortBidsForCloseRanking srt bids) = Some w"
  using ranking_facts(1) [OF assms(1), of bids] assms(2)
  by (cases "sortBidsForCloseRanking srt bids") auto

lemma collect_companies_facts:
  "set (collect_companies seen bs) = bid_company ` set bs - {''''} - set seen \<and>
   distinct (collect_companies seen bs) \<and> length (collect_companies seen bs) \<le> length bs"
  by (induction seen bs rule: collect_companies.induct) (auto simp: le_SucI)

subsection \<open>Accepted bids\<close>

definition bids_ascend :: "int \<Rightarrow> bid list \<Rightarrow> bool" where
  "bids_ascend step bs \<longleftrightarrow> sorted_wrt (\<lambda>x y. bid_amount x + step \<le> bid_amount y) bs"

definition auction_ok :: "auction \<Rightarrow> bid list \<Rightarrow> bool" where
  "auction_ok a bs \<longleftrightarrow>
     au_id a \<noteq> '''' \<and> au_lot a \<noteq> '''' \<and> 0 < au_startsAt a
     \<and> au_startsAt a < au_endsAt a \<and> 0 \<le> au_startPrice a \<and> 0 < au_minBidStep a
     \<and> au_extensionWindow a = minutes 5 \<and> au_extensionDuration a = minutes 5
     \<and> (au_state a = StateDraft \<longrightarrow> bs = [])
     \<and> (bs = [] \<longrightarrow> au_leader a = '''' \<and> au_currentPrice a = au_startPrice a)
     \<and> (bs \<noteq> [] \<longrightarrow> au_leader a = bid_company (last bs) \<and> au_currentPrice a = bid_amount (last bs))
     \<and> bids_ascend (au_minBidStep a) bs
     \<and> (\<forall>b \<in> set bs. bid_company b \<noteq> '''' \<and> 0 < bid_amount b \<and> bid_placedAt b \<noteq> 0
          \<and> au_startPrice a \<le> bid_amount b
          \<and> au_startsAt a \<le> bid_placedAt b \<and> bid_placedAt b \<le> au_endsAt a)"

text \<open>The price the next bid is compared to does not overflow.\<close>

definition step_fits :: "auction \<Rightarrow> bool" where
  "step_fits a \<longleftrightarrow> is_int64 (au_currentPrice a + au_minBidStep a)"

lemma bids_ascend_snoc: "0 < step \<Longrightarrow> bids_ascend step (bs @ [b]) \<longleftrightarrow>
    bids_ascend step bs \<and> (bs \<noteq> [] \<longrightarrow> bid_amount (last bs) + step \<le> bid_amount b)"
  by (cases bs rule: rev_cases) (fastforce simp: bids_ascend_def sorted_wrt_append)+

lemma NewBid_iff: "NewBid c n t = Inr b \<longleftrightarrow>
    c \<noteq> '''' \<and> 0 < n \<and> t \<noteq> 0 \<and> b = \<lparr>bid_company = c, bid_amount = n, bid_placedAt = t\<rparr>"
  by (auto simp: NewBid_def)

lemma newEndAt_later:
  assumes "au_extensionWindow a = minutes 5" "au_extensionDuration a = minutes 5"
    and "bid_placedAt b \<le> au_endsAt a"
  shows "newEndAt b a = max (au_endsAt a) (bid_placedAt b + minutes 5)"
  using assms by (auto simp: newEndAt_def time_sub_def minutes_def max_int64_def min_int64_def)

lemma new_auction_ok:
  "NewAuctionWithPricing i l s e p st = Inr a \<Longrightarrow> 0 < s \<Longrightarrow> auction_ok a []"
  by (auto simp: NewAuctionWithPricing_def auction_ok_def bids_ascend_def split: if_splits)

lemma publish_ok: "auction_ok a bs \<Longrightarrow> au_Publish a = Inr (evs, a') \<Longrightarrow> auction_ok a' bs"
  by (auto simp: Publish_iff auction_ok_def)

lemma place_bid_ok:
  assumes ok: "auction_ok a bs" and fits: "step_fits a"
    and b: "NewBid c n t = Inr b" and op: "au_PlaceBid b a = Inr (evs, a')"
  shows "auction_ok a' (bs @ [b])"
proof -
  have e: "newEndAt b a = max (au_endsAt a) (t + minutes 5)"
    using newEndAt_later [of a b] ok op b by (auto simp: auction_ok_def PlaceBid_iff NewBid_iff)
  have m: "bs \<noteq> [] \<Longrightarrow> bid_amount (last bs) + au_minBidStep a \<le> n" "bs = [] \<Longrightarrow> au_startPrice a \<le> n"
    using ok op b fits
    by (auto simp: minAllowed_def PlaceBid_iff NewBid_iff auction_ok_def step_fits_def add64_exact)
  have "\<And>x. x \<in> set bs \<Longrightarrow> au_startPrice a \<le> bid_amount x" "0 < au_minBidStep a"
    using ok by (auto simp: auction_ok_def)
  then have "au_startPrice a \<le> n"
    using m by (cases "bs = []") (fastforce dest: last_in_set)+
  then show ?thesis
    using ok op b e m
    by (auto simp: auction_ok_def PlaceBid_iff NewBid_iff bids_ascend_snoc minutes_def)
qed

text \<open>The last accepted bid outranks all others, so closing names the leader the bidders saw.\<close>

lemma ascend_last_best:
  assumes "bids_ascend step bs" "0 < step" "x \<in> set bs" "x \<noteq> last bs"
  shows "bid_amount x < bid_amount (last bs)"
proof -
  have "x \<in> set (butlast bs)"
    using assms(3,4) in_set_butlastD by (metis append_butlast_last_id empty_iff empty_set
        rotate1.simps(2) set_ConsD set_rotate1)
  moreover have "bids_ascend step (butlast bs @ [last bs])"
    using assms(1,3) by (metis append_butlast_last_id empty_iff empty_set)
  ultimately show ?thesis
    using assms(2) by (fastforce simp: bids_ascend_def sorted_wrt_append)
qed

lemma winner_is_last:
  assumes ok: "auction_ok a bs" and m: "mset bids = mset bs" and srt: "slice_sort srt"
    and w: "determineWinner (sortBidsForCloseRanking srt bids) = Some w"
  shows "w = last bs" "bs \<noteq> []"
proof -
  have s: "set bids = set bs" using m mset_eq_setD by blast
  have w': "w \<in> set bs" "\<And>b. b \<in> set bs \<Longrightarrow> \<not> ranks_before b w"
    using winner_is_best [OF srt w] s by auto
  then show ne: "bs \<noteq> []" by auto
  then have l: "last bs \<in> set bs" by simp
  show "w = last bs"
  proof (rule ccontr)
    assume "w \<noteq> last bs"
    then have "bid_amount w < bid_amount (last bs)"
      using ascend_last_best w'(1) ok by (auto simp: auction_ok_def)
    then show False
      using w'(2) [OF l] by (simp add: ranks_before_def)
  qed
qed

lemma close_ok:
  assumes ok: "auction_ok a bs" and m: "mset bids = mset bs" and srt: "slice_sort srt"
    and op: "au_Close srt bids a = Inr (evs, a')"
  shows "auction_ok a' bs"
proof (cases "bids = []")
  case True
  then show ?thesis using ok op m by (auto simp: Close_iff auction_ok_def)
next
  case False
  then obtain w where w: "determineWinner (sortBidsForCloseRanking srt bids) = Some w"
    and a': "a' = a\<lparr>au_state := StateWon, au_currentPrice := bid_amount w, au_leader := bid_company w\<rparr>"
    using op by (auto simp: Close_iff)
  show ?thesis
    using winner_is_last [OF ok m srt w] ok a' by (auto simp: auction_ok_def)
qed

lemma cancel_ok:
  "auction_ok a bs \<Longrightarrow> au_CancelAsSellerOrDraft a = Inr (evs, a') \<Longrightarrow> auction_ok a' bs"
  "auction_ok a bs \<Longrightarrow> au_CancelAsAdmin a = Inr (evs, a') \<Longrightarrow> auction_ok a' bs"
  by (auto simp: cancel_iff auction_ok_def)

text \<open>A row read back is the auction that was saved.\<close>

lemma parse_auction_state_text [simp]: "parse_auction_state (auction_state_text st) = Some st"
  by (cases st) (simp_all add: parse_auction_state_def)

lemma rehydrate_saved:
  "auction_ok a bs \<Longrightarrow> RehydrateAuction (au_id a) (au_lot a) (auction_state_text (au_state a))
     (au_startsAt a) (au_endsAt a) (au_startPrice a) (au_currentPrice a) (au_minBidStep a)
     (au_leader a) = Inr a"
  by (auto simp: RehydrateAuction_def auction_ok_def)

end
