(* ===== verification/Outbox.thy ===== *)
theory Outbox
  imports Prelude
begin

section \<open>The transactional outbox (outbox_messages, internal/infra/outbox)\<close>

text \<open>
  The table every context writes its events to. A row has the columns of migrations 003, 004,
  011, 012 and 016; the payload is the event itself, where the code stores its JSON encoding,
  and a nullable text column that the code reads back as the empty string is a \<open>string\<close>.
\<close>

record 'p outbox_row =
  ob_id :: string
  ob_event_id :: string
  ob_event_type :: string
  ob_aggregate :: string
  ob_payload :: 'p
  ob_occurred_at :: time
  ob_created_at :: time
  ob_correlation :: string
  ob_causation :: string
  ob_company :: string
  ob_user :: string
  ob_source :: string
  ob_published_at :: "time option"
  ob_locked_at :: "time option"
  ob_attempts :: int
  ob_failed_at :: "time option"
  ob_last_error :: "string option"

definition outbox_insert :: "'e \<Rightarrow> 'p outbox_row \<Rightarrow> ('p outbox_row list, 'e, unit) exec" where
  "outbox_insert dup r rows =
     (if list_ex (\<lambda>x. ob_id x = ob_id r) rows then (Inl dup, rows) else (Inr (), rows @ [r]))"

subsection \<open>Publishing events\<close>

text \<open>
  The \<open>Add\<close> of every context draws two random identifiers per event and inserts a row. The contract
  names the state it lives in: the outbox rows and the number of identifiers drawn. When the
  identifiers never repeat, \<open>Add\<close> cannot fail.
\<close>

locale event_outbox =
  fixes ids :: "nat \<Rightarrow> string"
    and rows :: "'s \<Rightarrow> 'ev outbox_row list"
    and drawn :: "'s \<Rightarrow> nat"
    and put :: "'ev outbox_row list \<Rightarrow> nat \<Rightarrow> 's \<Rightarrow> 's"
    and row :: "string \<Rightarrow> string \<Rightarrow> 'ev \<Rightarrow> 'ev outbox_row"
    and add_one :: "'ev \<Rightarrow> ('s, 'e, unit) exec"
  assumes rows_put [simp]: "rows (put r n s) = r"
    and drawn_put [simp]: "drawn (put r n s) = n"
    and put_put [simp]: "put r n (put r' n' s) = put r n s"
    and put_same [simp]: "put (rows s) (drawn s) s = s"
    and row_id [simp]: "ob_id (row i j ev) = i"
    and row_payload [simp]: "ob_payload (row i j ev) = ev"
    and add_new: "ids (drawn s) \<notin> ob_id ` set (rows s) \<Longrightarrow>
      add_one ev s = (Inr (), put (rows s @ [row (ids (drawn s)) (ids (Suc (drawn s))) ev])
        (Suc (Suc (drawn s))) s)"
begin

definition ids_used :: "'s \<Rightarrow> bool" where
  "ids_used s \<longleftrightarrow> ob_id ` set (rows s) \<subseteq> ids ` {..<drawn s}"

lemma add_wp:
  assumes "inj ids"
  shows "ids_used s \<Longrightarrow> (\<And>rs n. map ob_payload rs = evs \<Longrightarrow> drawn s \<le> n \<Longrightarrow>
      ids_used (put (rows s @ rs) n s) \<Longrightarrow> Q () (put (rows s @ rs) n s)) \<Longrightarrow> wpE (forE add_one evs) Q R s"
proof (induction evs arbitrary: s)
  case Nil
  then show ?case
    using Nil(2) [of "[]" "drawn s"] by (simp add: wpE_ret)
next
  case (Cons ev evs)
  have new: "ids (drawn s) \<notin> ob_id ` set (rows s)"
    using Cons.prems(1) inj_image_mem_iff [OF assms, of "drawn s" "{..<drawn s}"]
    unfolding ids_used_def by blast
  define r where "r = row (ids (drawn s)) (ids (Suc (drawn s))) ev"
  define t where "t = put (rows s @ [r]) (Suc (Suc (drawn s))) s"
  have "ids ` {..<drawn s} \<subseteq> ids ` {..<Suc (Suc (drawn s))}"
    by (rule image_mono) auto
  then have used: "ids_used t"
    using Cons.prems(1) by (auto simp: ids_used_def t_def r_def)
  have "wpE (forE add_one evs) Q R t"
  proof (rule Cons.IH [OF used])
    fix rs n
    assume "map ob_payload rs = evs" "drawn t \<le> n" "ids_used (put (rows t @ rs) n t)"
    then show "Q () (put (rows t @ rs) n t)"
      using Cons.prems(2) [of "r # rs" n] by (simp add: t_def r_def)
  qed
  then show ?case
    using add_new [OF new] by (simp add: wpE_bind) (simp add: wpE_def t_def r_def)
qed

end

end
