(* ===== verification/Go_Format.thy ===== *)
theory Go_Format
  imports Prelude
begin

section \<open>Go's formatting of numbers, bytes and times\<close>

text \<open>
  What the code uses of \<open>strconv\<close>, \<open>fmt\<close>, \<open>encoding/hex\<close> and \<open>time\<close>: the verb \<open>%d\<close>,
  \<open>hex.EncodeToString\<close>, \<open>hex.DecodeString\<close> and the layout \<open>time.RFC3339Nano\<close> of a UTC time.
  The calendar date is counted from 0000-03-01, in eras of 400 years. Strings are byte strings.
\<close>

definition digit :: "int \<Rightarrow> char" where
  "digit n = (''0123456789abcdef'' ! nat n)"

function dec_digits :: "int \<Rightarrow> string" where
  "dec_digits n = (if n < 10 then [digit n] else dec_digits (n div 10) @ [digit (n mod 10)])"
  by auto
termination by (relation "measure nat") auto

declare dec_digits.simps [simp del]

definition format_int :: "int \<Rightarrow> string" where
  "format_int n = (if n < 0 then ''-'' else []) @ dec_digits \<bar>n\<bar>"

definition pad_int :: "nat \<Rightarrow> int \<Rightarrow> string" where
  "pad_int w n = (if n < 0 then ''-'' else []) @
     (let d = dec_digits \<bar>n\<bar> in replicate (w - length d) (CHR ''0'') @ d)"

definition hex_encode :: "string \<Rightarrow> string" where
  "hex_encode bs = concat (map (\<lambda>c. [digit (of_char c div 16), digit (of_char c mod 16)]) bs)"

definition is_hex_char :: "char \<Rightarrow> bool" where
  "is_hex_char c \<longleftrightarrow> c \<in> set ''0123456789abcdefABCDEF''"

definition hex_decodable :: "string \<Rightarrow> bool" where
  "hex_decodable s \<longleftrightarrow> even (length s) \<and> list_all is_hex_char s"

text \<open>\<open>strings.ToLower\<close> on ASCII letters.\<close>

definition to_lower :: "char \<Rightarrow> char" where
  "to_lower c = (let n = of_char c :: nat in if 65 \<le> n \<and> n \<le> 90 then char_of (n + 32) else c)"

text \<open>Go's \<open><\<close> on strings: byte by byte.\<close>

fun go_string_less :: "string \<Rightarrow> string \<Rightarrow> bool" where
  "go_string_less s [] = False"
| "go_string_less [] (y # ys) = True"
| "go_string_less (x # xs) (y # ys) =
     (if x = y then go_string_less xs ys else (of_char x :: nat) < of_char y)"

text \<open>The civil date of the \<open>n\<close>-th day after 0001-01-01.\<close>

definition civil_date :: "int \<Rightarrow> int \<times> int \<times> int" where
  "civil_date n =
     (let z = n + 306;
          era = z div 146097;
          doe = z mod 146097;
          yoe = (doe - doe div 1460 + doe div 36524 - doe div 146096) div 365;
          doy = doe - (365 * yoe + yoe div 4 - yoe div 100);
          mp = (5 * doy + 2) div 153;
          d = doy - (153 * mp + 2) div 5 + 1;
          m = (if mp < 10 then mp + 3 else mp - 9)
      in (yoe + era * 400 + (if m \<le> 2 then 1 else 0), m, d))"

definition format_nanos :: "int \<Rightarrow> string" where
  "format_nanos n =
     (if n = 0 then ''''
      else ''.'' @ rev (dropWhile (\<lambda>c. c = CHR ''0'') (rev (pad_int 9 n))))"

definition format_rfc3339nano :: "time \<Rightarrow> string" where
  "format_rfc3339nano t =
     (let secs = t div 1000000000;
          sod = secs mod 86400
      in case civil_date (secs div 86400) of (y, m, d) \<Rightarrow>
        pad_int 4 y @ ''-'' @ pad_int 2 m @ ''-'' @ pad_int 2 d @ ''T'' @
        pad_int 2 (sod div 3600) @ '':'' @ pad_int 2 (sod div 60 mod 60) @ '':'' @
        pad_int 2 (sod mod 60) @ format_nanos (t mod 1000000000) @ ''Z'')"

text \<open>The layouts \<open>20060102150405\<close> and \<open>20060102150405.000000000\<close>.\<close>

definition format_stamp :: "time \<Rightarrow> string" where
  "format_stamp t =
     (let secs = t div 1000000000;
          sod = secs mod 86400
      in case civil_date (secs div 86400) of (y, m, d) \<Rightarrow>
        pad_int 4 y @ pad_int 2 m @ pad_int 2 d @
        pad_int 2 (sod div 3600) @ pad_int 2 (sod div 60 mod 60) @ pad_int 2 (sod mod 60))"

definition format_stamp_nano :: "time \<Rightarrow> string" where
  "format_stamp_nano t = format_stamp t @ ''.'' @ pad_int 9 (t mod 1000000000)"

lemma format_rfc3339nano_epoch: "format_rfc3339nano 0 = ''0001-01-01T00:00:00Z''"
  by code_simp

lemma format_rfc3339nano_leap:
  "format_rfc3339nano (63844761600000000000 + 86399120000000) = ''2024-02-29T23:59:59.12Z''"
  by code_simp

end
