(* ===== verification/Wallet.thy ===== *)
theory Wallet
  imports Status_Machine
begin

section \<open>The wallet domain (internal/billing/wallet)\<close>

text \<open>
  The entities of billing and their methods, without any storage: accounts with an available
  and a held amount, auction deposits, top-ups, deal invoices, seller payouts and ledger
  entries. A method with a pointer receiver that may fail returns \<open>error + entity\<close>, the entity
  updated. Amounts are \<open>int64\<close>: \<open>+\<close> and \<open>-\<close> are \<open>add64\<close> and \<open>sub64\<close>. Receivers that are nil
  pointers are not represented.
\<close>

subsection \<open>Identifiers, currencies, errors\<close>

type_synonym currency = string

definition CurrencyRUB :: currency where "CurrencyRUB = ''RUB''"

definition is_blank_char :: "char \<Rightarrow> bool" where
  "is_blank_char r \<longleftrightarrow> r = CHR '' '' \<or> r = CHR 0x09 \<or> r = CHR 0x0A \<or> r = CHR 0x0D"

definition isBlank :: "string \<Rightarrow> bool" where
  "isBlank s \<longleftrightarrow> list_all is_blank_char s"

text \<open>
  The sentinel errors of the packages \<open>wallet\<close> and \<open>billing/app\<close>, the violations PostgreSQL
  reports, the failure of the payment provider, and the panic of a nil pointer.
\<close>

datatype billing_error =
    ErrInvalidIdentifier | ErrUnsupportedCurrency | ErrInvalidAmount
  | ErrInsufficientFunds | ErrInsufficientHeld | ErrInvalidDepositState | ErrInvalidTopUpStatus
  | ErrInvalidDealInvoice | ErrInvoiceNotPayable | ErrInvoiceNotExpirable
  | ErrInvoiceAmountMismatch | ErrInvoiceCurrencyMismatch
  | ErrInvalidSellerPayout | ErrSellerPayoutWrongStatus
  | ErrInsufficientFundsForDeposit | ErrDepositNotHeld | ErrDepositNotFound | ErrAccountNotFound
  | ErrTopUpNotFound | ErrTopUpAmountMismatch | ErrDealInvoiceNotFound | ErrSellerPayoutNotFound
  | ErrSellerPayoutInvoiceMismatch | ErrPlatformFeeDueMismatch | ErrInvoiceNotExpired
  | DbUniqueViolation | DbCheckViolation | DbForeignKeyViolation
  | ProviderError | NilDereference

subsection \<open>Accounts\<close>

record account =
  acc_id :: string
  acc_company :: string
  acc_currency :: currency
  acc_available :: int
  acc_held :: int

definition NewAccount :: "string \<Rightarrow> string \<Rightarrow> currency \<Rightarrow> billing_error + account" where
  "NewAccount id' companyID cur =
     (if isBlank id' \<or> isBlank companyID then Inl ErrInvalidIdentifier
      else if cur \<noteq> CurrencyRUB then Inl ErrUnsupportedCurrency
      else Inr \<lparr>acc_id = id', acc_company = companyID, acc_currency = cur,
                acc_available = 0, acc_held = 0\<rparr>)"

definition RehydrateAccount ::
  "string \<Rightarrow> string \<Rightarrow> currency \<Rightarrow> int \<Rightarrow> int \<Rightarrow> billing_error + account" where
  "RehydrateAccount id' companyID cur available held =
     (case NewAccount id' companyID cur of
        Inl e \<Rightarrow> Inl e
      | Inr a \<Rightarrow> if available < 0 \<or> held < 0 then Inl ErrInvalidAmount
                 else Inr (a\<lparr>acc_available := available, acc_held := held\<rparr>))"

definition acc_total :: "account \<Rightarrow> int" where
  "acc_total a = add64 (acc_available a) (acc_held a)"

definition acc_Deposit :: "int \<Rightarrow> account \<Rightarrow> billing_error + account" where
  "acc_Deposit amount a =
     (if amount \<le> 0 then Inl ErrInvalidAmount
      else Inr (a\<lparr>acc_available := add64 (acc_available a) amount\<rparr>))"

definition acc_Reserve :: "int \<Rightarrow> account \<Rightarrow> billing_error + account" where
  "acc_Reserve amount a =
     (if amount \<le> 0 then Inl ErrInvalidAmount
      else if acc_available a < amount then Inl ErrInsufficientFunds
      else Inr (a\<lparr>acc_available := sub64 (acc_available a) amount,
                  acc_held := add64 (acc_held a) amount\<rparr>))"

definition acc_Release :: "int \<Rightarrow> account \<Rightarrow> billing_error + account" where
  "acc_Release amount a =
     (if amount \<le> 0 then Inl ErrInvalidAmount
      else if acc_held a < amount then Inl ErrInsufficientHeld
      else Inr (a\<lparr>acc_held := sub64 (acc_held a) amount,
                  acc_available := add64 (acc_available a) amount\<rparr>))"

definition acc_Capture :: "int \<Rightarrow> account \<Rightarrow> billing_error + account" where
  "acc_Capture amount a =
     (if amount \<le> 0 then Inl ErrInvalidAmount
      else if acc_held a < amount then Inl ErrInsufficientHeld
      else Inr (a\<lparr>acc_held := sub64 (acc_held a) amount\<rparr>))"

text \<open>The amounts of an account that can be in the database: non-negative \<open>int64\<close>s.\<close>

definition acc_ok :: "account \<Rightarrow> bool" where
  "acc_ok a \<longleftrightarrow> 0 \<le> acc_available a \<and> is_int64 (acc_available a)
     \<and> 0 \<le> acc_held a \<and> is_int64 (acc_held a)"

subsection \<open>Auction deposits\<close>

datatype deposit_status = DepositHeld | DepositReleased | DepositCaptured | DepositSettled

record auction_deposit =
  dep_auction :: string
  dep_company :: string
  dep_account :: string
  dep_amount :: int
  dep_currency :: currency
  dep_status :: deposit_status
  dep_created_at :: time
  dep_released_at :: "time option"
  dep_captured_at :: "time option"

definition NewAuctionDeposit ::
  "string \<Rightarrow> string \<Rightarrow> string \<Rightarrow> int \<Rightarrow> currency \<Rightarrow> time \<Rightarrow> billing_error + auction_deposit" where
  "NewAuctionDeposit auctionID companyID accountID amount cur now =
     (if isBlank auctionID \<or> isBlank companyID \<or> isBlank accountID then Inl ErrInvalidIdentifier
      else if amount \<le> 0 then Inl ErrInvalidAmount
      else if cur \<noteq> CurrencyRUB then Inl ErrUnsupportedCurrency
      else Inr \<lparr>dep_auction = auctionID, dep_company = companyID, dep_account = accountID,
                dep_amount = amount, dep_currency = cur, dep_status = DepositHeld,
                dep_created_at = now, dep_released_at = None, dep_captured_at = None\<rparr>)"

definition dep_MarkReleased :: "time \<Rightarrow> auction_deposit \<Rightarrow> auction_deposit" where
  "dep_MarkReleased now d = d\<lparr>dep_status := DepositReleased, dep_released_at := Some now\<rparr>"

definition dep_MarkCaptured :: "time \<Rightarrow> auction_deposit \<Rightarrow> auction_deposit" where
  "dep_MarkCaptured now d = d\<lparr>dep_status := DepositCaptured, dep_captured_at := Some now\<rparr>"

definition dep_MarkSettled :: "time \<Rightarrow> auction_deposit \<Rightarrow> auction_deposit" where
  "dep_MarkSettled now d =
     d\<lparr>dep_status := DepositSettled, dep_released_at := Some now, dep_captured_at := Some now\<rparr>"

subsection \<open>Ledger entries\<close>

datatype ledger_type =
    LedgerTopUpConfirmed | LedgerBidDepositReserved | LedgerBidDepositReleased
  | LedgerBidDepositCaptured | LedgerPlatformFeeCaptured | LedgerPlatformFeeDue
  | LedgerSellerPayoutCredited

record ledger_entry =
  le_id :: string
  le_account :: string
  le_company :: string
  le_currency :: currency
  le_amount :: int
  le_type :: ledger_type
  le_reftype :: string
  le_refid :: string
  le_reason :: string
  le_created_at :: time

subsection \<open>Top-ups\<close>

datatype top_up_status = TopUpPending | TopUpSucceeded | TopUpFailed | TopUpCancelled

record top_up =
  tu_id :: string
  tu_company :: string
  tu_account :: string
  tu_amount :: int
  tu_currency :: currency
  tu_status :: top_up_status
  tu_provider :: string
  tu_payment_id :: string
  tu_url :: string
  tu_created_at :: time
  tu_confirmed_at :: "time option"
  tu_failed_at :: "time option"

definition NewTopUp ::
  "string \<Rightarrow> string \<Rightarrow> string \<Rightarrow> int \<Rightarrow> currency \<Rightarrow> string \<Rightarrow> time \<Rightarrow> billing_error + top_up" where
  "NewTopUp id' companyID accountID amount cur provider now =
     (if isBlank id' \<or> isBlank companyID \<or> isBlank accountID \<or> isBlank provider
        then Inl ErrInvalidIdentifier
      else if amount \<le> 0 then Inl ErrInvalidAmount
      else if cur \<noteq> CurrencyRUB then Inl ErrUnsupportedCurrency
      else Inr \<lparr>tu_id = id', tu_company = companyID, tu_account = accountID, tu_amount = amount,
                tu_currency = cur, tu_status = TopUpPending, tu_provider = provider,
                tu_payment_id = '''', tu_url = '''', tu_created_at = now,
                tu_confirmed_at = None, tu_failed_at = None\<rparr>)"

definition tu_AttachProviderPayment :: "string \<Rightarrow> string \<Rightarrow> top_up \<Rightarrow> billing_error + top_up" where
  "tu_AttachProviderPayment paymentID url t =
     (if tu_status t \<noteq> TopUpPending then Inl ErrInvalidTopUpStatus
      else if isBlank paymentID then Inl ErrInvalidIdentifier
      else Inr (t\<lparr>tu_payment_id := paymentID, tu_url := url\<rparr>))"

definition tu_MarkSucceeded :: "time \<Rightarrow> top_up \<Rightarrow> billing_error + top_up" where
  "tu_MarkSucceeded now t =
     (if tu_status t \<noteq> TopUpPending then Inl ErrInvalidTopUpStatus
      else if isBlank (tu_payment_id t) then Inl ErrInvalidIdentifier
      else Inr (t\<lparr>tu_status := TopUpSucceeded, tu_confirmed_at := Some now\<rparr>))"

definition tu_MarkFailed :: "time \<Rightarrow> top_up \<Rightarrow> billing_error + top_up" where
  "tu_MarkFailed now t =
     (if tu_status t \<noteq> TopUpPending then Inl ErrInvalidTopUpStatus
      else Inr (t\<lparr>tu_status := TopUpFailed, tu_failed_at := Some now\<rparr>))"

subsection \<open>Deal invoices\<close>

datatype invoice_status =
  InvoicePending | InvoicePaymentPending | InvoicePaid | InvoiceExpired | InvoiceCancelled
  | InvoiceFailed

record deal_invoice =
  inv_id :: string
  inv_deal :: string
  inv_auction :: string
  inv_buyer :: string
  inv_seller :: string
  inv_goods :: int
  inv_fee_due :: int
  inv_total :: int
  inv_currency :: currency
  inv_status :: invoice_status
  inv_provider :: string
  inv_provider_id :: string
  inv_url :: string
  inv_due_at :: time
  inv_created_at :: time
  inv_paid_at :: "time option"
  inv_expired_at :: "time option"
  inv_cancelled_at :: "time option"
  inv_failed_at :: "time option"

definition NewDealInvoice ::
  "string \<Rightarrow> string \<Rightarrow> string \<Rightarrow> string \<Rightarrow> string \<Rightarrow> int \<Rightarrow> int \<Rightarrow> currency \<Rightarrow> string \<Rightarrow> time \<Rightarrow> time
     \<Rightarrow> billing_error + deal_invoice" where
  "NewDealInvoice id' dealID auctionID buyerID sellerID goodsAmount platformFeeDue cur provider
       dueAt createdAt =
     (if id' = '''' \<or> dealID = '''' \<or> buyerID = '''' \<or> sellerID = '''' \<or> provider = ''''
        then Inl ErrInvalidIdentifier
      else if buyerID = sellerID then Inl ErrInvalidDealInvoice
      else if goodsAmount \<le> 0 \<or> platformFeeDue < 0 then Inl ErrInvalidAmount
      else if cur \<noteq> CurrencyRUB then Inl ErrUnsupportedCurrency
      else if dueAt < createdAt then Inl ErrInvalidDealInvoice
      else Inr \<lparr>inv_id = id', inv_deal = dealID, inv_auction = auctionID, inv_buyer = buyerID,
                inv_seller = sellerID, inv_goods = goodsAmount, inv_fee_due = platformFeeDue,
                inv_total = add64 goodsAmount platformFeeDue, inv_currency = cur,
                inv_status = InvoicePending, inv_provider = provider, inv_provider_id = '''',
                inv_url = '''', inv_due_at = dueAt, inv_created_at = createdAt,
                inv_paid_at = None, inv_expired_at = None, inv_cancelled_at = None,
                inv_failed_at = None\<rparr>)"

definition inv_AttachProvider :: "string \<Rightarrow> string \<Rightarrow> deal_invoice \<Rightarrow> billing_error + deal_invoice" where
  "inv_AttachProvider providerInvoiceID paymentURL iv =
     (if inv_status iv \<noteq> InvoicePending then Inl ErrInvalidDealInvoice
      else if providerInvoiceID = '''' \<or> paymentURL = '''' then Inl ErrInvalidDealInvoice
      else Inr (iv\<lparr>inv_provider_id := providerInvoiceID, inv_url := paymentURL,
                    inv_status := InvoicePaymentPending\<rparr>))"

definition inv_MarkPaid :: "int \<Rightarrow> currency \<Rightarrow> time \<Rightarrow> deal_invoice \<Rightarrow> billing_error + deal_invoice" where
  "inv_MarkPaid amount cur paidAt iv =
     (if inv_status iv \<noteq> InvoicePaymentPending then Inl ErrInvoiceNotPayable
      else if amount \<noteq> inv_total iv \<or> cur \<noteq> inv_currency iv
        then (if cur \<noteq> inv_currency iv then Inl ErrInvoiceCurrencyMismatch
              else Inl ErrInvoiceAmountMismatch)
      else Inr (iv\<lparr>inv_status := InvoicePaid, inv_paid_at := Some paidAt\<rparr>))"

definition inv_MarkExpired :: "time \<Rightarrow> deal_invoice \<Rightarrow> billing_error + deal_invoice" where
  "inv_MarkExpired now iv =
     (case inv_status iv of
        InvoicePaid \<Rightarrow> Inr iv
      | InvoiceExpired \<Rightarrow> Inr iv
      | InvoicePaymentPending \<Rightarrow> Inr (iv\<lparr>inv_status := InvoiceExpired, inv_expired_at := Some now\<rparr>)
      | _ \<Rightarrow> Inl ErrInvoiceNotExpirable)"

definition inv_MarkPaidIdempotent ::
  "int \<Rightarrow> currency \<Rightarrow> time \<Rightarrow> deal_invoice \<Rightarrow> billing_error + deal_invoice" where
  "inv_MarkPaidIdempotent amount cur paidAt iv =
     (if inv_status iv = InvoicePaid
      then (if amount \<noteq> inv_total iv then Inl ErrInvoiceAmountMismatch
            else if cur \<noteq> inv_currency iv then Inl ErrInvoiceCurrencyMismatch
            else Inr iv)
      else inv_MarkPaid amount cur paidAt iv)"

subsection \<open>Seller payouts\<close>

datatype payout_status =
  SellerPayoutPending | SellerPayoutReady | SellerPayoutPaid | SellerPayoutCancelled
  | SellerPayoutFailed

record seller_payout =
  sp_id :: string
  sp_deal :: string
  sp_invoice :: string
  sp_auction :: string
  sp_seller :: string
  sp_buyer :: string
  sp_amount :: int
  sp_currency :: currency
  sp_status :: payout_status
  sp_created_at :: time
  sp_ready_at :: "time option"
  sp_paid_at :: "time option"
  sp_cancelled_at :: "time option"
  sp_failed_at :: "time option"

definition NewSellerPayout ::
  "string \<Rightarrow> string \<Rightarrow> string \<Rightarrow> string \<Rightarrow> string \<Rightarrow> string \<Rightarrow> int \<Rightarrow> currency \<Rightarrow> payout_status \<Rightarrow> time
     \<Rightarrow> billing_error + seller_payout" where
  "NewSellerPayout id' dealID invoiceID auctionID sellerID buyerID amount cur status createdAt =
     (if id' = '''' \<or> dealID = '''' \<or> invoiceID = '''' \<or> auctionID = '''' \<or> sellerID = ''''
         \<or> buyerID = '''' then Inl ErrInvalidIdentifier
      else if sellerID = buyerID then Inl ErrInvalidSellerPayout
      else if amount \<le> 0 then Inl ErrInvalidAmount
      else if cur \<noteq> CurrencyRUB then Inl ErrUnsupportedCurrency
      else if createdAt = 0 then Inl ErrInvalidSellerPayout
      else Inr \<lparr>sp_id = id', sp_deal = dealID, sp_invoice = invoiceID, sp_auction = auctionID,
                sp_seller = sellerID, sp_buyer = buyerID, sp_amount = amount, sp_currency = cur,
                sp_status = status, sp_created_at = createdAt, sp_ready_at = None,
                sp_paid_at = None, sp_cancelled_at = None, sp_failed_at = None\<rparr>)"

definition sp_MarkReady :: "time \<Rightarrow> seller_payout \<Rightarrow> billing_error + seller_payout" where
  "sp_MarkReady now p =
     (if sp_status p = SellerPayoutReady \<or> sp_status p = SellerPayoutPaid then Inr p
      else if sp_status p \<noteq> SellerPayoutPending then Inl ErrSellerPayoutWrongStatus
      else Inr (p\<lparr>sp_status := SellerPayoutReady, sp_ready_at := Some now\<rparr>))"

definition sp_MarkFailed :: "time \<Rightarrow> seller_payout \<Rightarrow> billing_error + seller_payout" where
  "sp_MarkFailed now p =
     (if sp_status p = SellerPayoutFailed then Inr p
      else if sp_status p = SellerPayoutPaid then Inl ErrSellerPayoutWrongStatus
      else if sp_status p \<noteq> SellerPayoutPending \<and> sp_status p \<noteq> SellerPayoutReady
        then Inl ErrSellerPayoutWrongStatus
      else Inr (p\<lparr>sp_status := SellerPayoutFailed, sp_failed_at := Some now\<rparr>))"

definition sp_MarkPaid :: "time \<Rightarrow> seller_payout \<Rightarrow> billing_error + seller_payout" where
  "sp_MarkPaid now p =
     (if sp_status p = SellerPayoutPaid then Inr p
      else if sp_status p \<noteq> SellerPayoutReady then Inl ErrSellerPayoutWrongStatus
      else Inr (p\<lparr>sp_status := SellerPayoutPaid, sp_paid_at := Some now\<rparr>))"

end
