(* ===== verification/Wallet_Lemmas.thy ===== *)
theory Wallet_Lemmas
  imports Wallet
begin

section \<open>The wallet entities are correct\<close>

text \<open>
  When each account method succeeds and what it then does to the two amounts
  (\<open>account_results\<close>), the conservation law of reservations, and the status machines of
  invoices, payouts and top-ups as interpretations of \<open>snapshot_fsm\<close>.
\<close>

lemma acc_Deposit_iff:
  "acc_Deposit n a = Inr a' \<longleftrightarrow> 0 < n \<and> a' = a\<lparr>acc_available := add64 (acc_available a) n\<rparr>"
  by (auto simp: acc_Deposit_def)

lemma acc_Reserve_iff:
  "acc_Reserve n a = Inr a' \<longleftrightarrow> 0 < n \<and> n \<le> acc_available a \<and>
     a' = a\<lparr>acc_available := sub64 (acc_available a) n, acc_held := add64 (acc_held a) n\<rparr>"
  by (auto simp: acc_Reserve_def)

lemma acc_Release_iff:
  "acc_Release n a = Inr a' \<longleftrightarrow> 0 < n \<and> n \<le> acc_held a \<and>
     a' = a\<lparr>acc_held := sub64 (acc_held a) n, acc_available := add64 (acc_available a) n\<rparr>"
  by (auto simp: acc_Release_def)

lemma acc_Capture_iff:
  "acc_Capture n a = Inr a' \<longleftrightarrow> 0 < n \<and> n \<le> acc_held a \<and>
     a' = a\<lparr>acc_held := sub64 (acc_held a) n\<rparr>"
  by (auto simp: acc_Capture_def)

lemmas account_results = acc_Deposit_iff acc_Reserve_iff acc_Release_iff acc_Capture_iff

lemma RehydrateAccount_iff:
  "RehydrateAccount i c cur av h = Inr a \<longleftrightarrow>
     \<not> isBlank i \<and> \<not> isBlank c \<and> cur = CurrencyRUB \<and> 0 \<le> av \<and> 0 \<le> h \<and>
     a = \<lparr>acc_id = i, acc_company = c, acc_currency = cur, acc_available = av, acc_held = h\<rparr>"
  by (auto simp: RehydrateAccount_def NewAccount_def)

text \<open>A subtraction guarded by the code never leaves the range; an addition either is exact
  or turns the amount negative, which the database refuses.\<close>

lemma sub64_guarded:
  "is_int64 b \<Longrightarrow> is_int64 n \<Longrightarrow> 0 < n \<Longrightarrow> n \<le> b \<Longrightarrow> sub64 b n = b - n \<and> 0 \<le> sub64 b n"
  using sub64_nonneg_exact [of b n] by simp

lemma acc_conserves:
  assumes ok: "acc_ok a" and n: "is_int64 n" and sum: "acc_available a + acc_held a \<le> max_int64"
  shows "acc_Reserve n a = Inr a' \<Longrightarrow> acc_ok a' \<and> acc_available a' = acc_available a - n
           \<and> acc_held a' = acc_held a + n"
    and "acc_Release n a = Inr a' \<Longrightarrow> acc_ok a' \<and> acc_available a' = acc_available a + n
           \<and> acc_held a' = acc_held a - n"
    and "acc_Capture n a = Inr a' \<Longrightarrow> acc_ok a' \<and> acc_available a' = acc_available a
           \<and> acc_held a' = acc_held a - n"
proof -
  have *: "0 \<le> acc_available a" "0 \<le> acc_held a" "0 < n \<Longrightarrow> n \<le> acc_available a \<Longrightarrow>
      is_int64 (acc_available a - n) \<and> is_int64 (acc_held a + n)"
    "0 < n \<Longrightarrow> n \<le> acc_held a \<Longrightarrow> is_int64 (acc_held a - n) \<and> is_int64 (acc_available a + n)"
    using ok n sum by (auto simp: acc_ok_def is_int64_def min_int64_def)
  show "acc_Reserve n a = Inr a' \<Longrightarrow> acc_ok a' \<and> acc_available a' = acc_available a - n
           \<and> acc_held a' = acc_held a + n"
    using * by (auto simp: acc_Reserve_iff acc_ok_def sub64_exact add64_exact)
  show "acc_Release n a = Inr a' \<Longrightarrow> acc_ok a' \<and> acc_available a' = acc_available a + n
           \<and> acc_held a' = acc_held a - n"
    using * by (auto simp: acc_Release_iff acc_ok_def sub64_exact add64_exact)
  show "acc_Capture n a = Inr a' \<Longrightarrow> acc_ok a' \<and> acc_available a' = acc_available a
           \<and> acc_held a' = acc_held a - n"
    using * ok by (auto simp: acc_Capture_iff acc_ok_def sub64_exact)
qed

subsection \<open>Deal invoices\<close>

inductive invoice_step :: "deal_invoice \<Rightarrow> deal_invoice \<Rightarrow> bool" where
  attach: "inv_AttachProvider p u iv = Inr iv' \<Longrightarrow> invoice_step iv iv'"
| paid: "inv_MarkPaidIdempotent n c t iv = Inr iv' \<Longrightarrow> iv' \<noteq> iv \<Longrightarrow> invoice_step iv iv'"
| expired: "inv_MarkExpired t iv = Inr iv' \<Longrightarrow> iv' \<noteq> iv \<Longrightarrow> invoice_step iv iv'"

fun invoice_rank :: "invoice_status \<Rightarrow> nat" where
  "invoice_rank InvoicePending = 0"
| "invoice_rank InvoicePaymentPending = 1"
| "invoice_rank _ = 2"

definition invoice_snapshot where
  "invoice_snapshot iv = (inv_id iv, inv_deal iv, inv_auction iv, inv_buyer iv, inv_seller iv,
     inv_goods iv, inv_fee_due iv, inv_total iv, inv_currency iv, inv_provider iv,
     inv_due_at iv, inv_created_at iv)"

lemmas invoice_methods =
  inv_AttachProvider_def inv_MarkPaidIdempotent_def inv_MarkPaid_def inv_MarkExpired_def

lemma invoice_step_shape:
  "invoice_step iv iv' \<Longrightarrow>
     (inv_status iv = InvoicePending \<and>
        (\<exists>p u. p \<noteq> '''' \<and> u \<noteq> '''' \<and>
           iv' = iv\<lparr>inv_provider_id := p, inv_url := u, inv_status := InvoicePaymentPending\<rparr>)) \<or>
     (inv_status iv = InvoicePaymentPending \<and>
        (\<exists>t. iv' = iv\<lparr>inv_status := InvoicePaid, inv_paid_at := Some t\<rparr> \<or>
             iv' = iv\<lparr>inv_status := InvoiceExpired, inv_expired_at := Some t\<rparr>))"
  by (cases rule: invoice_step.cases)
     (auto simp: invoice_methods split: if_splits invoice_status.splits)

interpretation invoice: snapshot_fsm invoice_step inv_status invoice_rank invoice_snapshot
  by unfold_locales (auto dest!: invoice_step_shape simp: invoice_snapshot_def)

text \<open>What holds of every invoice a sequence of calls can reach.\<close>

definition invoice_wf :: "deal_invoice \<Rightarrow> bool" where
  "invoice_wf iv \<longleftrightarrow>
     inv_total iv = add64 (inv_goods iv) (inv_fee_due iv) \<and> 0 < inv_goods iv \<and> 0 \<le> inv_fee_due iv
     \<and> inv_buyer iv \<noteq> inv_seller iv \<and> inv_currency iv = CurrencyRUB
     \<and> inv_created_at iv \<le> inv_due_at iv
     \<and> (inv_status iv = InvoicePaid \<longleftrightarrow> inv_paid_at iv \<noteq> None)
     \<and> (inv_status iv = InvoiceExpired \<longleftrightarrow> inv_expired_at iv \<noteq> None)
     \<and> (inv_status iv \<noteq> InvoicePending \<longrightarrow> inv_provider_id iv \<noteq> '''' \<and> inv_url iv \<noteq> '''')"

lemma NewDealInvoice_wf:
  "NewDealInvoice i d a b s g f c p due at = Inr iv \<Longrightarrow>
     invoice_wf iv \<and> inv_status iv = InvoicePending \<and> inv_total iv = add64 g f"
  by (auto simp: NewDealInvoice_def invoice_wf_def split: if_splits)

lemma invoice_wf_step: "invoice_step iv iv' \<Longrightarrow> invoice_wf iv \<Longrightarrow> invoice_wf iv'"
  by (auto dest!: invoice_step_shape simp: invoice_wf_def)

lemma invoice_wf_steps: "invoice_step\<^sup>*\<^sup>* iv iv' \<Longrightarrow> invoice_wf iv \<Longrightarrow> invoice_wf iv'"
  by (induction rule: rtranclp_induct) (auto dest: invoice_wf_step)

subsection \<open>Seller payouts\<close>

inductive payout_step :: "seller_payout \<Rightarrow> seller_payout \<Rightarrow> bool" where
  ready: "sp_MarkReady t p = Inr p' \<Longrightarrow> p' \<noteq> p \<Longrightarrow> payout_step p p'"
| paid: "sp_MarkPaid t p = Inr p' \<Longrightarrow> p' \<noteq> p \<Longrightarrow> payout_step p p'"
| failed: "sp_MarkFailed t p = Inr p' \<Longrightarrow> p' \<noteq> p \<Longrightarrow> payout_step p p'"

fun payout_rank :: "payout_status \<Rightarrow> nat" where
  "payout_rank SellerPayoutPending = 0"
| "payout_rank SellerPayoutReady = 1"
| "payout_rank _ = 2"

definition payout_snapshot where
  "payout_snapshot p = (sp_id p, sp_deal p, sp_invoice p, sp_auction p, sp_seller p, sp_buyer p,
     sp_amount p, sp_currency p, sp_created_at p)"

lemmas payout_methods = sp_MarkReady_def sp_MarkPaid_def sp_MarkFailed_def

lemma payout_step_shape:
  "payout_step p p' \<Longrightarrow>
     (sp_status p = SellerPayoutPending \<and> (\<exists>t. p' = p\<lparr>sp_status := SellerPayoutReady, sp_ready_at := Some t\<rparr>)) \<or>
     (sp_status p = SellerPayoutReady \<and> (\<exists>t. p' = p\<lparr>sp_status := SellerPayoutPaid, sp_paid_at := Some t\<rparr>)) \<or>
     (sp_status p \<in> {SellerPayoutPending, SellerPayoutReady} \<and>
        (\<exists>t. p' = p\<lparr>sp_status := SellerPayoutFailed, sp_failed_at := Some t\<rparr>))"
  by (cases rule: payout_step.cases) (auto simp: payout_methods split: if_splits)

interpretation payout: snapshot_fsm payout_step sp_status payout_rank payout_snapshot
  by unfold_locales (auto dest!: payout_step_shape simp: payout_snapshot_def)

definition payout_wf :: "seller_payout \<Rightarrow> bool" where
  "payout_wf p \<longleftrightarrow> 0 < sp_amount p \<and> sp_seller p \<noteq> sp_buyer p \<and> sp_currency p = CurrencyRUB
     \<and> (sp_status p \<in> {SellerPayoutReady, SellerPayoutPaid} \<longrightarrow> sp_ready_at p \<noteq> None)
     \<and> (sp_status p = SellerPayoutPaid \<longleftrightarrow> sp_paid_at p \<noteq> None)
     \<and> (sp_status p = SellerPayoutFailed \<longleftrightarrow> sp_failed_at p \<noteq> None)"

lemma NewSellerPayout_wf:
  "NewSellerPayout i d iv a s b n c SellerPayoutPending at = Inr p \<Longrightarrow>
     payout_wf p \<and> sp_status p = SellerPayoutPending"
  by (auto simp: NewSellerPayout_def payout_wf_def split: if_splits)

lemma payout_wf_step: "payout_step p p' \<Longrightarrow> payout_wf p \<Longrightarrow> payout_wf p'"
  by (auto dest!: payout_step_shape simp: payout_wf_def)

lemma payout_wf_steps: "payout_step\<^sup>*\<^sup>* p p' \<Longrightarrow> payout_wf p \<Longrightarrow> payout_wf p'"
  by (induction rule: rtranclp_induct) (auto dest: payout_wf_step)

subsection \<open>Top-ups\<close>

inductive topup_step :: "top_up \<Rightarrow> top_up \<Rightarrow> bool" where
  succeeded: "tu_MarkSucceeded t u = Inr u' \<Longrightarrow> topup_step u u'"
| failed: "tu_MarkFailed t u = Inr u' \<Longrightarrow> topup_step u u'"

fun topup_rank :: "top_up_status \<Rightarrow> nat" where
  "topup_rank TopUpPending = 0"
| "topup_rank _ = 1"

definition topup_snapshot where
  "topup_snapshot u = (tu_id u, tu_company u, tu_account u, tu_amount u, tu_currency u,
     tu_provider u, tu_payment_id u, tu_created_at u)"

interpretation topup: snapshot_fsm topup_step tu_status topup_rank topup_snapshot
  by unfold_locales
     (auto elim!: topup_step.cases simp: tu_MarkSucceeded_def tu_MarkFailed_def topup_snapshot_def
       split: if_splits)

end
