(* ===== verification/Billing_Store.thy ===== *)
theory Billing_Store
  imports Wallet_Lemmas Outbox "HOL-Library.Char_ord" "HOL-Library.List_Lexorder"
begin

section \<open>The billing tables and repositories (internal/billing/postgres)\<close>

text \<open>
  \<open>billing_store\<close> holds one list of rows per table of migrations 025, 026, 027, 029 and 030. The
  repository methods are the SQL statements of the package \<open>billing/postgres\<close>; the constraints
  of the tables (\<open>CHECK\<close>, \<open>UNIQUE\<close>, \<open>PRIMARY KEY\<close>, \<open>REFERENCES\<close>) are the errors they raise.
  \<open>FOR UPDATE\<close> does not show: a transaction runs on a state of its own (theory Transactions).
  The texts of \<open>ORDER BY company_id\<close> are compared byte by byte (collation C).

  \<open>billing_env\<close> holds what the composition root passes to the use cases and the source tree does
  not define: the values \<open>crypto/rand\<close> yields, one per call of \<open>NewID\<close> or \<open>newOutboxID\<close>, and the
  payment provider. \<open>env_events\<close> says whether an event publisher is configured.
\<close>

datatype billing_event =
    AccountCreated string string currency
  | BalanceToppedUp string string int currency
  | AuctionDepositReserved string string int currency
  | AuctionDepositReleased string string int currency string
  | AuctionDepositCaptured string string int currency string
  | PlatformFeeCaptured string string int currency
  | PlatformFeePaymentRequired string string int currency
  | DealInvoiceCreated string string string string string int int int currency string time time
  | DealInvoiceExpired string string string string int currency time
  | DealInvoicePaid string string string string int int int currency time
  | SellerPayoutCreated string string string string string string int currency time
  | SellerPayoutMarkedReady string string string string int currency time
  | SellerPayoutMarkedPaid string string string string int currency time

fun billing_event_type :: "billing_event \<Rightarrow> string" where
  "billing_event_type (AccountCreated _ _ _) = ''billing.AccountCreated''"
| "billing_event_type (BalanceToppedUp _ _ _ _) = ''billing.BalanceToppedUp''"
| "billing_event_type (AuctionDepositReserved _ _ _ _) = ''billing.AuctionDepositReserved''"
| "billing_event_type (AuctionDepositReleased _ _ _ _ _) = ''billing.AuctionDepositReleased''"
| "billing_event_type (AuctionDepositCaptured _ _ _ _ _) = ''billing.AuctionDepositCaptured''"
| "billing_event_type (PlatformFeeCaptured _ _ _ _) = ''billing.PlatformFeeCaptured''"
| "billing_event_type (PlatformFeePaymentRequired _ _ _ _) = ''billing.PlatformFeePaymentRequired''"
| "billing_event_type
     (DealInvoiceCreated _ _ _ _ _ _ _ _ _ _ _ _) = ''billing.DealInvoiceCreated''"
| "billing_event_type (DealInvoiceExpired _ _ _ _ _ _ _) = ''billing.DealInvoiceExpired''"
| "billing_event_type (DealInvoicePaid _ _ _ _ _ _ _ _ _) = ''billing.DealInvoicePaid''"
| "billing_event_type (SellerPayoutCreated _ _ _ _ _ _ _ _ _) = ''billing.SellerPayoutCreated''"
| "billing_event_type (SellerPayoutMarkedReady _ _ _ _ _ _ _) = ''billing.SellerPayoutMarkedReady''"
| "billing_event_type (SellerPayoutMarkedPaid _ _ _ _ _ _ _) = ''billing.SellerPayoutMarkedPaid''"

record processed_top_up =
  ptu_external :: string
  ptu_company :: string
  ptu_account :: string
  ptu_amount :: int

record billing_store =
  bs_accounts :: "account list"
  bs_deposits :: "auction_deposit list"
  bs_ledger :: "ledger_entry list"
  bs_processed :: "processed_top_up list"
  bs_top_ups :: "top_up list"
  bs_invoices :: "deal_invoice list"
  bs_payouts :: "seller_payout list"
  bs_outbox :: "billing_event outbox_row list"
  bs_ids :: nat
  bs_now :: time

type_synonym 'a billing = "(billing_store, billing_error, 'a) exec"

record top_up_request =
  tur_id :: string
  tur_company :: string
  tur_amount :: int
  tur_currency :: string
  tur_return_url :: string

record invoice_request =
  ivr_id :: string
  ivr_deal :: string
  ivr_buyer :: string
  ivr_seller :: string
  ivr_amount :: int
  ivr_currency :: string
  ivr_due :: time
  ivr_return_url :: string

record billing_env =
  env_id :: "nat \<Rightarrow> string"
  env_events :: bool
  env_provider :: string
  env_return_url :: string
  env_base_url :: string
  env_create_top_up :: "top_up_request \<Rightarrow> (string \<times> string) option"
  env_create_invoice :: "invoice_request \<Rightarrow> (string \<times> string) option"

definition new_id :: "billing_env \<Rightarrow> string billing" where
  "new_id env s = (Inr (env_id env (bs_ids s)), s\<lparr>bs_ids := Suc (bs_ids s)\<rparr>)"

lemma wpE_new_id [wp_simps]:
  "wpE (new_id env) Q R s = Q (env_id env (bs_ids s)) (s\<lparr>bs_ids := Suc (bs_ids s)\<rparr>)"
  by (simp add: wpE_def new_id_def)

subsection \<open>Accounts\<close>

definition accounts_Create :: "account \<Rightarrow> unit billing" where
  "accounts_Create a s =
     (if acc_available a < 0 \<or> acc_held a < 0 then (Inl DbCheckViolation, s)
      else if list_ex (\<lambda>r. acc_id r = acc_id a \<or> acc_company r = acc_company a) (bs_accounts s)
        then (Inl DbUniqueViolation, s)
      else (Inr (), s\<lparr>bs_accounts := bs_accounts s @ [a]\<rparr>))"

definition accounts_ExistsByCompany :: "string \<Rightarrow> bool billing" where
  "accounts_ExistsByCompany companyID =
     readE (\<lambda>s. list_ex (\<lambda>r. acc_company r = companyID) (bs_accounts s))"

definition accounts_Load :: "string \<Rightarrow> account billing" where
  "accounts_Load companyID s =
     (case row_select (\<lambda>r. acc_company r = companyID) (bs_accounts s) of
        None \<Rightarrow> (Inl ErrAccountNotFound, s)
      | Some r \<Rightarrow> (RehydrateAccount (acc_id r) (acc_company r) (acc_currency r)
                    (acc_available r) (acc_held r), s))"

definition accounts_Save :: "account \<Rightarrow> unit billing" where
  "accounts_Save a s =
     (if \<not> list_ex (\<lambda>r. acc_id r = acc_id a) (bs_accounts s) then (Inl ErrAccountNotFound, s)
      else if acc_available a < 0 \<or> acc_held a < 0 then (Inl DbCheckViolation, s)
      else (Inr (), s\<lparr>bs_accounts := row_update (\<lambda>r. acc_id r = acc_id a)
              (\<lambda>r. r\<lparr>acc_available := acc_available a, acc_held := acc_held a\<rparr>) (bs_accounts s)\<rparr>))"

subsection \<open>Auction deposits\<close>

definition deposits_Find :: "string \<Rightarrow> string \<Rightarrow> auction_deposit option billing" where
  "deposits_Find auctionID companyID =
     readE (\<lambda>s. row_select (\<lambda>d. dep_auction d = auctionID \<and> dep_company d = companyID)
       (bs_deposits s))"

definition deposits_Create :: "auction_deposit \<Rightarrow> unit billing" where
  "deposits_Create d s =
     (if dep_amount d \<le> 0 then (Inl DbCheckViolation, s)
      else if list_ex (\<lambda>r. dep_auction r = dep_auction d \<and> dep_company r = dep_company d)
                (bs_deposits s) then (Inl DbUniqueViolation, s)
      else if \<not> list_ex (\<lambda>a. acc_id a = dep_account d) (bs_accounts s)
        then (Inl DbForeignKeyViolation, s)
      else (Inr (), s\<lparr>bs_deposits := bs_deposits s
              @ [d\<lparr>dep_released_at := None, dep_captured_at := None\<rparr>]\<rparr>))"

definition deposits_Save :: "auction_deposit \<Rightarrow> unit billing" where
  "deposits_Save d =
     modifyE (\<lambda>s. s\<lparr>bs_deposits := row_update
       (\<lambda>r. dep_auction r = dep_auction d \<and> dep_company r = dep_company d)
       (\<lambda>r. r\<lparr>dep_status := dep_status d, dep_released_at := dep_released_at d,
             dep_captured_at := dep_captured_at d\<rparr>) (bs_deposits s)\<rparr>)"

definition deposits_ListByAuction :: "string \<Rightarrow> auction_deposit list billing" where
  "deposits_ListByAuction auctionID =
     readE (\<lambda>s. sort_key dep_company (filter (\<lambda>d. dep_auction d = auctionID) (bs_deposits s)))"

subsection \<open>The ledger\<close>

definition ledger_key :: "ledger_entry \<Rightarrow> string \<times> string \<times> string \<times> ledger_type" where
  "ledger_key e = (le_company e, le_reftype e, le_refid e, le_type e)"

text \<open>A duplicate key is not an error: \<open>Append\<close> returns nil and inserts nothing.\<close>

definition ledger_Append :: "ledger_entry \<Rightarrow> unit billing" where
  "ledger_Append e s =
     (if le_amount e \<le> 0 then (Inl DbCheckViolation, s)
      else if list_ex (\<lambda>r. le_id r = le_id e \<or> ledger_key r = ledger_key e) (bs_ledger s)
        then (Inr (), s)
      else if \<not> list_ex (\<lambda>a. acc_id a = le_account e) (bs_accounts s)
        then (Inl DbForeignKeyViolation, s)
      else (Inr (), s\<lparr>bs_ledger := bs_ledger s @ [e]\<rparr>))"

definition ledger_ExistsByReference ::
  "string \<Rightarrow> string \<Rightarrow> string \<Rightarrow> ledger_type \<Rightarrow> bool billing" where
  "ledger_ExistsByReference companyID refType refID typ =
     readE (\<lambda>s. list_ex (\<lambda>e. ledger_key e = (companyID, refType, refID, typ)) (bs_ledger s))"

subsection \<open>Processed top-ups and top-ups\<close>

definition processed_InsertIfNew :: "string \<Rightarrow> string \<Rightarrow> string \<Rightarrow> int \<Rightarrow> bool billing" where
  "processed_InsertIfNew ext companyID accountID amount s =
     (if amount \<le> 0 then (Inl DbCheckViolation, s)
      else if list_ex (\<lambda>p. ptu_external p = ext) (bs_processed s) then (Inr False, s)
      else (Inr True, s\<lparr>bs_processed := bs_processed s
              @ [\<lparr>ptu_external = ext, ptu_company = companyID, ptu_account = accountID,
                  ptu_amount = amount\<rparr>]\<rparr>))"

definition top_up_clash :: "top_up \<Rightarrow> top_up \<Rightarrow> bool" where
  "top_up_clash t r \<longleftrightarrow> tu_payment_id t \<noteq> '''' \<and> tu_payment_id r = tu_payment_id t"

definition top_ups_Create :: "top_up \<Rightarrow> unit billing" where
  "top_ups_Create t s =
     (if tu_amount t \<le> 0 \<or> tu_currency t \<noteq> CurrencyRUB then (Inl DbCheckViolation, s)
      else if list_ex (\<lambda>r. tu_id r = tu_id t \<or> top_up_clash t r) (bs_top_ups s)
        then (Inl DbUniqueViolation, s)
      else if \<not> list_ex (\<lambda>a. acc_id a = tu_account t) (bs_accounts s)
        then (Inl DbForeignKeyViolation, s)
      else (Inr (), s\<lparr>bs_top_ups := bs_top_ups s @ [t]\<rparr>))"

definition top_ups_Save :: "top_up \<Rightarrow> unit billing" where
  "top_ups_Save t s =
     (if \<not> list_ex (\<lambda>r. tu_id r = tu_id t) (bs_top_ups s) then (Inl ErrTopUpNotFound, s)
      else if list_ex (\<lambda>r. tu_id r \<noteq> tu_id t \<and> top_up_clash t r) (bs_top_ups s)
        then (Inl DbUniqueViolation, s)
      else (Inr (), s\<lparr>bs_top_ups := row_update (\<lambda>r. tu_id r = tu_id t)
              (\<lambda>r. r\<lparr>tu_status := tu_status t, tu_payment_id := tu_payment_id t, tu_url := tu_url t,
                    tu_confirmed_at := tu_confirmed_at t, tu_failed_at := tu_failed_at t\<rparr>)
              (bs_top_ups s)\<rparr>))"

definition top_ups_Load :: "string \<Rightarrow> top_up billing" where
  "top_ups_Load id' s = optE ErrTopUpNotFound (row_select (\<lambda>r. tu_id r = id') (bs_top_ups s)) s"

definition top_ups_LoadByProviderPayment :: "string \<Rightarrow> string \<Rightarrow> top_up billing" where
  "top_ups_LoadByProviderPayment provider paymentID s =
     optE ErrTopUpNotFound
       (row_select (\<lambda>r. tu_provider r = provider \<and> tu_payment_id r = paymentID) (bs_top_ups s)) s"

subsection \<open>Deal invoices\<close>

definition invoice_check :: "deal_invoice \<Rightarrow> bool" where
  "invoice_check i \<longleftrightarrow> 0 < inv_goods i \<and> 0 \<le> inv_fee_due i
     \<and> inv_total i = inv_goods i + inv_fee_due i
     \<and> inv_currency i = CurrencyRUB \<and> inv_buyer i \<noteq> inv_seller i"

definition invoice_clash :: "deal_invoice \<Rightarrow> deal_invoice \<Rightarrow> bool" where
  "invoice_clash i r \<longleftrightarrow> inv_provider_id i \<noteq> '''' \<and> inv_provider_id r = inv_provider_id i
     \<and> inv_provider r = inv_provider i"

definition invoices_Create :: "deal_invoice \<Rightarrow> unit billing" where
  "invoices_Create i s =
     (if \<not> invoice_check i then (Inl DbCheckViolation, s)
      else if list_ex (\<lambda>r. inv_id r = inv_id i \<or> inv_deal r = inv_deal i \<or> invoice_clash i r)
                (bs_invoices s) then (Inl DbUniqueViolation, s)
      else (Inr (), s\<lparr>bs_invoices := bs_invoices s @ [i]\<rparr>))"

definition invoices_Save :: "deal_invoice \<Rightarrow> unit billing" where
  "invoices_Save i s =
     (if \<not> list_ex (\<lambda>r. inv_id r = inv_id i) (bs_invoices s) then (Inl ErrDealInvoiceNotFound, s)
      else if \<not> invoice_check i then (Inl DbCheckViolation, s)
      else if list_ex (\<lambda>r. inv_id r \<noteq> inv_id i \<and> invoice_clash i r) (bs_invoices s)
        then (Inl DbUniqueViolation, s)
      else (Inr (), s\<lparr>bs_invoices := row_update (\<lambda>r. inv_id r = inv_id i)
              (\<lambda>r. i\<lparr>inv_id := inv_id r, inv_deal := inv_deal r, inv_created_at := inv_created_at r\<rparr>)
              (bs_invoices s)\<rparr>))"

definition invoices_LoadByDealID :: "string \<Rightarrow> deal_invoice billing" where
  "invoices_LoadByDealID dealID s =
     optE ErrDealInvoiceNotFound (row_select (\<lambda>r. inv_deal r = dealID) (bs_invoices s)) s"

definition invoices_LoadByID :: "string \<Rightarrow> deal_invoice billing" where
  "invoices_LoadByID id' s =
     optE ErrDealInvoiceNotFound (row_select (\<lambda>r. inv_id r = id') (bs_invoices s)) s"

subsection \<open>Seller payouts\<close>

definition payouts_Create :: "seller_payout \<Rightarrow> unit billing" where
  "payouts_Create p s =
     (if sp_amount p \<le> 0 \<or> sp_currency p \<noteq> CurrencyRUB \<or> sp_buyer p = sp_seller p
        then (Inl DbCheckViolation, s)
      else if list_ex (\<lambda>r. sp_id r = sp_id p \<or> sp_deal r = sp_deal p \<or> sp_invoice r = sp_invoice p)
                (bs_payouts s) then (Inl DbUniqueViolation, s)
      else (Inr (), s\<lparr>bs_payouts := bs_payouts s @ [p]\<rparr>))"

definition payouts_Save :: "seller_payout \<Rightarrow> unit billing" where
  "payouts_Save p s =
     (if \<not> list_ex (\<lambda>r. sp_id r = sp_id p) (bs_payouts s) then (Inl ErrSellerPayoutNotFound, s)
      else (Inr (), s\<lparr>bs_payouts := row_update (\<lambda>r. sp_id r = sp_id p)
              (\<lambda>r. r\<lparr>sp_status := sp_status p, sp_ready_at := sp_ready_at p, sp_paid_at := sp_paid_at p,
                    sp_cancelled_at := sp_cancelled_at p, sp_failed_at := sp_failed_at p\<rparr>)
              (bs_payouts s)\<rparr>))"

definition payouts_LoadByDealID :: "string \<Rightarrow> seller_payout billing" where
  "payouts_LoadByDealID dealID s =
     optE ErrSellerPayoutNotFound (row_select (\<lambda>r. sp_deal r = dealID) (bs_payouts s)) s"

definition payouts_LoadByID :: "string \<Rightarrow> seller_payout billing" where
  "payouts_LoadByID id' s =
     optE ErrSellerPayoutNotFound (row_select (\<lambda>r. sp_id r = id') (bs_payouts s)) s"

subsection \<open>Events\<close>

definition billing_Publish :: "billing_env \<Rightarrow> string \<Rightarrow> string \<Rightarrow> billing_event \<Rightarrow> unit billing" where
  "billing_Publish env aggregateID companyID ev =
     bindE (new_id env) (\<lambda>id1.
     bindE (new_id env) (\<lambda>id2.
     (\<lambda>s. zoomE bs_outbox (\<lambda>rows t. t\<lparr>bs_outbox := rows\<rparr>) (outbox_insert DbUniqueViolation
        \<lparr>ob_id = id1, ob_event_id = id2, ob_event_type = billing_event_type ev,
         ob_aggregate = aggregateID, ob_payload = ev, ob_occurred_at = bs_now s,
         ob_created_at = bs_now s, ob_correlation = '''', ob_causation = '''',
         ob_company = companyID, ob_user = '''', ob_source = ''billing'',
         ob_published_at = None, ob_locked_at = None, ob_attempts = 0, ob_failed_at = None,
         ob_last_error = None\<rparr>) s)))"

text \<open>\<open>if uc.events != nil { return uc.events.Publish(...) }\<close>\<close>

definition publish_if :: "billing_env \<Rightarrow> string \<Rightarrow> string \<Rightarrow> billing_event \<Rightarrow> unit billing" where
  "publish_if env aggregateID companyID ev =
     (if env_events env then billing_Publish env aggregateID companyID ev else retE ())"

text \<open>How the statements act, for the calculus of weakest preconditions.\<close>

lemma wpE_accounts_Create [wp_simps]:
  "wpE (accounts_Create a) Q R s =
     (if acc_available a < 0 \<or> acc_held a < 0 then R DbCheckViolation s
      else if list_ex (\<lambda>r. acc_id r = acc_id a \<or> acc_company r = acc_company a) (bs_accounts s)
        then R DbUniqueViolation s
      else Q () (s\<lparr>bs_accounts := bs_accounts s @ [a]\<rparr>))"
  by (simp add: wpE_def accounts_Create_def)

lemma wpE_accounts_Load [wp_simps]:
  "wpE (accounts_Load c) Q R s =
     (case row_select (\<lambda>r. acc_company r = c) (bs_accounts s) of
        None \<Rightarrow> R ErrAccountNotFound s
      | Some r \<Rightarrow> (case RehydrateAccount (acc_id r) (acc_company r) (acc_currency r)
                    (acc_available r) (acc_held r) of Inl e \<Rightarrow> R e s | Inr a \<Rightarrow> Q a s))"
  by (simp add: wpE_def accounts_Load_def split: option.split)

lemma wpE_accounts_Save [wp_simps]:
  "wpE (accounts_Save a) Q R s =
     (if \<not> list_ex (\<lambda>r. acc_id r = acc_id a) (bs_accounts s) then R ErrAccountNotFound s
      else if acc_available a < 0 \<or> acc_held a < 0 then R DbCheckViolation s
      else Q () (s\<lparr>bs_accounts := row_update (\<lambda>r. acc_id r = acc_id a)
              (\<lambda>r. r\<lparr>acc_available := acc_available a, acc_held := acc_held a\<rparr>) (bs_accounts s)\<rparr>))"
  by (simp add: wpE_def accounts_Save_def)

lemma wpE_deposits_Create [wp_simps]:
  "wpE (deposits_Create d) Q R s =
     (if dep_amount d \<le> 0 then R DbCheckViolation s
      else if list_ex (\<lambda>r. dep_auction r = dep_auction d \<and> dep_company r = dep_company d)
                (bs_deposits s) then R DbUniqueViolation s
      else if \<not> list_ex (\<lambda>a. acc_id a = dep_account d) (bs_accounts s)
        then R DbForeignKeyViolation s
      else Q () (s\<lparr>bs_deposits := bs_deposits s
              @ [d\<lparr>dep_released_at := None, dep_captured_at := None\<rparr>]\<rparr>))"
  by (simp add: wpE_def deposits_Create_def)

lemma wpE_ledger_Append [wp_simps]:
  "wpE (ledger_Append e) Q R s =
     (if le_amount e \<le> 0 then R DbCheckViolation s
      else if list_ex (\<lambda>r. le_id r = le_id e \<or> ledger_key r = ledger_key e) (bs_ledger s)
        then Q () s
      else if \<not> list_ex (\<lambda>a. acc_id a = le_account e) (bs_accounts s)
        then R DbForeignKeyViolation s
      else Q () (s\<lparr>bs_ledger := bs_ledger s @ [e]\<rparr>))"
  by (simp add: wpE_def ledger_Append_def)

lemma wpE_processed_InsertIfNew [wp_simps]:
  "wpE (processed_InsertIfNew x c a n) Q R s =
     (if n \<le> 0 then R DbCheckViolation s
      else if list_ex (\<lambda>p. ptu_external p = x) (bs_processed s) then Q False s
      else Q True (s\<lparr>bs_processed := bs_processed s
              @ [\<lparr>ptu_external = x, ptu_company = c, ptu_account = a, ptu_amount = n\<rparr>]\<rparr>))"
  by (simp add: wpE_def processed_InsertIfNew_def)

lemma wpE_top_ups [wp_simps]:
  "wpE (top_ups_Create t) Q R s =
     (if tu_amount t \<le> 0 \<or> tu_currency t \<noteq> CurrencyRUB then R DbCheckViolation s
      else if list_ex (\<lambda>r. tu_id r = tu_id t \<or> top_up_clash t r) (bs_top_ups s)
        then R DbUniqueViolation s
      else if \<not> list_ex (\<lambda>a. acc_id a = tu_account t) (bs_accounts s)
        then R DbForeignKeyViolation s
      else Q () (s\<lparr>bs_top_ups := bs_top_ups s @ [t]\<rparr>))"
  "wpE (top_ups_Save t) Q R s =
     (if \<not> list_ex (\<lambda>r. tu_id r = tu_id t) (bs_top_ups s) then R ErrTopUpNotFound s
      else if list_ex (\<lambda>r. tu_id r \<noteq> tu_id t \<and> top_up_clash t r) (bs_top_ups s)
        then R DbUniqueViolation s
      else Q () (s\<lparr>bs_top_ups := row_update (\<lambda>r. tu_id r = tu_id t)
              (\<lambda>r. r\<lparr>tu_status := tu_status t, tu_payment_id := tu_payment_id t, tu_url := tu_url t,
                    tu_confirmed_at := tu_confirmed_at t, tu_failed_at := tu_failed_at t\<rparr>)
              (bs_top_ups s)\<rparr>))"
  "wpE (top_ups_Load i) Q' R s = (case row_select (\<lambda>r. tu_id r = i) (bs_top_ups s) of
      None \<Rightarrow> R ErrTopUpNotFound s | Some t \<Rightarrow> Q' t s)"
  "wpE (top_ups_LoadByProviderPayment p i) Q' R s =
     (case row_select (\<lambda>r. tu_provider r = p \<and> tu_payment_id r = i) (bs_top_ups s) of
      None \<Rightarrow> R ErrTopUpNotFound s | Some t \<Rightarrow> Q' t s)"
  by (simp_all add: wpE_def top_ups_Create_def top_ups_Save_def top_ups_Load_def
      top_ups_LoadByProviderPayment_def optE_def split: option.split)

lemma wpE_invoices [wp_simps]:
  "wpE (invoices_Create i) Q R s =
     (if \<not> invoice_check i then R DbCheckViolation s
      else if list_ex (\<lambda>r. inv_id r = inv_id i \<or> inv_deal r = inv_deal i \<or> invoice_clash i r)
                (bs_invoices s) then R DbUniqueViolation s
      else Q () (s\<lparr>bs_invoices := bs_invoices s @ [i]\<rparr>))"
  "wpE (invoices_Save i) Q R s =
     (if \<not> list_ex (\<lambda>r. inv_id r = inv_id i) (bs_invoices s) then R ErrDealInvoiceNotFound s
      else if \<not> invoice_check i then R DbCheckViolation s
      else if list_ex (\<lambda>r. inv_id r \<noteq> inv_id i \<and> invoice_clash i r) (bs_invoices s)
        then R DbUniqueViolation s
      else Q () (s\<lparr>bs_invoices := row_update (\<lambda>r. inv_id r = inv_id i)
              (\<lambda>r. i\<lparr>inv_id := inv_id r, inv_deal := inv_deal r, inv_created_at := inv_created_at r\<rparr>)
              (bs_invoices s)\<rparr>))"
  "wpE (invoices_LoadByDealID d) Q' R s = (case row_select (\<lambda>r. inv_deal r = d) (bs_invoices s) of
      None \<Rightarrow> R ErrDealInvoiceNotFound s | Some x \<Rightarrow> Q' x s)"
  "wpE (invoices_LoadByID d) Q' R s = (case row_select (\<lambda>r. inv_id r = d) (bs_invoices s) of
      None \<Rightarrow> R ErrDealInvoiceNotFound s | Some x \<Rightarrow> Q' x s)"
  by (simp_all add: wpE_def invoices_Create_def invoices_Save_def invoices_LoadByDealID_def
      invoices_LoadByID_def optE_def split: option.split)

lemma wpE_payouts [wp_simps]:
  "wpE (payouts_Create p) Q R s =
     (if sp_amount p \<le> 0 \<or> sp_currency p \<noteq> CurrencyRUB \<or> sp_buyer p = sp_seller p
        then R DbCheckViolation s
      else if list_ex (\<lambda>r. sp_id r = sp_id p \<or> sp_deal r = sp_deal p \<or> sp_invoice r = sp_invoice p)
                (bs_payouts s) then R DbUniqueViolation s
      else Q () (s\<lparr>bs_payouts := bs_payouts s @ [p]\<rparr>))"
  "wpE (payouts_Save p) Q R s =
     (if \<not> list_ex (\<lambda>r. sp_id r = sp_id p) (bs_payouts s) then R ErrSellerPayoutNotFound s
      else Q () (s\<lparr>bs_payouts := row_update (\<lambda>r. sp_id r = sp_id p)
              (\<lambda>r. r\<lparr>sp_status := sp_status p, sp_ready_at := sp_ready_at p, sp_paid_at := sp_paid_at p,
                    sp_cancelled_at := sp_cancelled_at p, sp_failed_at := sp_failed_at p\<rparr>)
              (bs_payouts s)\<rparr>))"
  "wpE (payouts_LoadByDealID d) Q' R s = (case row_select (\<lambda>r. sp_deal r = d) (bs_payouts s) of
      None \<Rightarrow> R ErrSellerPayoutNotFound s | Some x \<Rightarrow> Q' x s)"
  "wpE (payouts_LoadByID d) Q' R s = (case row_select (\<lambda>r. sp_id r = d) (bs_payouts s) of
      None \<Rightarrow> R ErrSellerPayoutNotFound s | Some x \<Rightarrow> Q' x s)"
  by (simp_all add: wpE_def payouts_Create_def payouts_Save_def payouts_LoadByDealID_def
      payouts_LoadByID_def optE_def split: option.split)

lemma wpE_deposits_Save [wp_simps]:
  "wpE (deposits_Save d) Q R s = Q () (s\<lparr>bs_deposits := row_update
       (\<lambda>r. dep_auction r = dep_auction d \<and> dep_company r = dep_company d)
       (\<lambda>r. r\<lparr>dep_status := dep_status d, dep_released_at := dep_released_at d,
             dep_captured_at := dep_captured_at d\<rparr>) (bs_deposits s)\<rparr>)"
  by (simp add: deposits_Save_def wp_simps)

lemmas billing_reads =
  accounts_ExistsByCompany_def deposits_Find_def deposits_ListByAuction_def
  ledger_ExistsByReference_def

definition billing_outbox_row :: "billing_env \<Rightarrow> string \<Rightarrow> string \<Rightarrow> billing_event \<Rightarrow>
    billing_store \<Rightarrow> billing_event outbox_row" where
  "billing_outbox_row env aggregateID companyID ev s =
     \<lparr>ob_id = env_id env (bs_ids s), ob_event_id = env_id env (Suc (bs_ids s)),
      ob_event_type = billing_event_type ev,
      ob_aggregate = aggregateID, ob_payload = ev, ob_occurred_at = bs_now s,
      ob_created_at = bs_now s, ob_correlation = '''', ob_causation = '''',
      ob_company = companyID, ob_user = '''', ob_source = ''billing'',
      ob_published_at = None, ob_locked_at = None, ob_attempts = 0, ob_failed_at = None,
      ob_last_error = None\<rparr>"

lemma wpE_publish_if [wp_simps]:
  "wpE (publish_if env a c ev) Q R s =
     (if \<not> env_events env then Q () s
      else if list_ex (\<lambda>x. ob_id x = env_id env (bs_ids s)) (bs_outbox s)
        then R DbUniqueViolation (s\<lparr>bs_ids := Suc (Suc (bs_ids s))\<rparr>)
      else Q () (s\<lparr>bs_ids := Suc (Suc (bs_ids s)),
                   bs_outbox := bs_outbox s @ [billing_outbox_row env a c ev s]\<rparr>))"
  by (simp add: publish_if_def billing_Publish_def zoomE_def outbox_insert_def
      wpE_def bindE_def new_id_def retE_def billing_outbox_row_def split: prod.split)

end
