(* ===== verification/Billing_Invariant.thy ===== *)
theory Billing_Invariant
  imports Billing_Store
begin

section \<open>The books balance: the invariant of the billing tables\<close>

text \<open>
  \<open>billing_ok\<close> relates the tables of billing: the held amount of an account is the sum of the
  HELD deposits of its company and also what the ledger says, the available amount is what the
  ledger says, every ledger entry is backed by the deposit, payment or payout it refers to, and
  a deposit with a closing entry is no longer HELD. The four lemmas \<open>account_step\<close>,
  \<open>reserve_step\<close>, \<open>close_step\<close> and \<open>credit_step\<close> are the only ways the use cases move money.
\<close>

subsection \<open>What a ledger entry does to the two amounts\<close>

definition avail_effect :: "ledger_entry \<Rightarrow> int" where
  "avail_effect e = (case le_type e of
      LedgerTopUpConfirmed \<Rightarrow> le_amount e
    | LedgerSellerPayoutCredited \<Rightarrow> le_amount e
    | LedgerBidDepositReserved \<Rightarrow> - le_amount e
    | LedgerBidDepositReleased \<Rightarrow> le_amount e
    | _ \<Rightarrow> 0)"

definition held_effect :: "ledger_entry \<Rightarrow> int" where
  "held_effect e = (case le_type e of
      LedgerBidDepositReserved \<Rightarrow> le_amount e
    | LedgerBidDepositReleased \<Rightarrow> - le_amount e
    | LedgerBidDepositCaptured \<Rightarrow> - le_amount e
    | LedgerPlatformFeeCaptured \<Rightarrow> - le_amount e
    | _ \<Rightarrow> 0)"

definition ledger_avail :: "string \<Rightarrow> ledger_entry list \<Rightarrow> int" where
  "ledger_avail c es = (\<Sum>e\<leftarrow>es. if le_company e = c then avail_effect e else 0)"

definition ledger_held :: "string \<Rightarrow> ledger_entry list \<Rightarrow> int" where
  "ledger_held c es = (\<Sum>e\<leftarrow>es. if le_company e = c then held_effect e else 0)"

definition held_sum :: "string \<Rightarrow> auction_deposit list \<Rightarrow> int" where
  "held_sum c ds =
     (\<Sum>d\<leftarrow>ds. if dep_company d = c \<and> dep_status d = DepositHeld then dep_amount d else 0)"

subsection \<open>What backs a ledger entry\<close>

definition dep_key :: "auction_deposit \<Rightarrow> string \<times> string" where
  "dep_key d = (dep_auction d, dep_company d)"

definition dep_ref :: "auction_deposit \<Rightarrow> string" where
  "dep_ref d = ''auction:'' @ dep_auction d @ '':company:'' @ dep_company d"

definition closing_keys :: "string \<Rightarrow> (string \<times> string \<times> ledger_type) list" where
  "closing_keys r =
     [(''auction_deposit_release'', r, LedgerBidDepositReleased),
      (''auction_deposit_capture'', r, LedgerBidDepositCaptured),
      (''platform_fee_from_deposit_zero'', r, LedgerBidDepositReleased),
      (''platform_fee_from_deposit'', r, LedgerPlatformFeeCaptured),
      (''platform_fee_deposit_remainder'', r @ '':remainder'', LedgerBidDepositReleased),
      (''platform_fee_due'', r @ '':due'', LedgerPlatformFeeDue),
      (''winner_deposit_after_invoice'', r, LedgerPlatformFeeCaptured),
      (''winner_deposit_after_invoice'', r @ '':remainder'', LedgerBidDepositReleased),
      (''winner_deposit_after_invoice'', r @ '':full_release'', LedgerBidDepositReleased),
      (''winner_deposit_after_invoice'', r @ '':fee_zero'', LedgerBidDepositReleased)]"

definition settles :: "ledger_entry \<Rightarrow> auction_deposit \<Rightarrow> bool" where
  "settles e d \<longleftrightarrow> le_company e = dep_company d
     \<and> (le_reftype e, le_refid e, le_type e) \<in> set (closing_keys (dep_ref d))"

definition entry_backed :: "auction_deposit list \<Rightarrow> processed_top_up list \<Rightarrow> seller_payout list
    \<Rightarrow> ledger_entry \<Rightarrow> bool" where
  "entry_backed ds ps pos e = (case le_type e of
      LedgerBidDepositReserved \<Rightarrow>
        (\<exists>d \<in> set ds. dep_company d = le_company e \<and> dep_ref d = le_refid e)
    | LedgerTopUpConfirmed \<Rightarrow> (\<exists>p \<in> set ps. ptu_external p = le_refid e)
    | LedgerSellerPayoutCredited \<Rightarrow>
        (\<exists>p \<in> set pos. sp_id p = le_refid e \<and> sp_status p = SellerPayoutPaid)
    | _ \<Rightarrow> (\<exists>d \<in> set ds. dep_status d \<noteq> DepositHeld \<and> settles e d))"

subsection \<open>The invariant\<close>

definition accounts_wf :: "account list \<Rightarrow> bool" where
  "accounts_wf as \<longleftrightarrow> distinct (map acc_id as) \<and> distinct (map acc_company as)
     \<and> (\<forall>a \<in> set as. acc_ok a \<and> \<not> isBlank (acc_id a) \<and> \<not> isBlank (acc_company a)
          \<and> acc_currency a = CurrencyRUB)"

definition owns :: "account list \<Rightarrow> string \<Rightarrow> string \<Rightarrow> bool" where
  "owns as company i \<longleftrightarrow> (\<exists>a \<in> set as. acc_company a = company \<and> acc_id a = i)"

definition deposits_wf :: "account list \<Rightarrow> auction_deposit list \<Rightarrow> bool" where
  "deposits_wf as ds \<longleftrightarrow> distinct (map dep_key ds)
     \<and> (\<forall>d \<in> set ds. 0 < dep_amount d \<and> is_int64 (dep_amount d)
          \<and> owns as (dep_company d) (dep_account d))"

definition ledger_wf :: "(nat \<Rightarrow> string) \<Rightarrow> nat \<Rightarrow> account list \<Rightarrow> auction_deposit list
    \<Rightarrow> processed_top_up list \<Rightarrow> seller_payout list \<Rightarrow> ledger_entry list \<Rightarrow> bool" where
  "ledger_wf nid n as ds ps pos es \<longleftrightarrow> distinct (map ledger_key es)
     \<and> (\<forall>e \<in> set es. le_id e \<in> nid ` {..<n} \<and> 0 < le_amount e
          \<and> owns as (le_company e) (le_account e) \<and> entry_backed ds ps pos e)"

definition payouts_wf :: "ledger_entry list \<Rightarrow> seller_payout list \<Rightarrow> bool" where
  "payouts_wf es pos \<longleftrightarrow> distinct (map sp_id pos)
     \<and> (\<forall>p \<in> set pos. 0 < sp_amount p \<and> is_int64 (sp_amount p)
          \<and> (sp_status p = SellerPayoutPaid \<longrightarrow>
              (\<exists>e \<in> set es. ledger_key e = (sp_seller p, ''seller_payout'', sp_id p,
                 LedgerSellerPayoutCredited) \<and> le_amount e = sp_amount p)))"

definition balanced :: "account list \<Rightarrow> auction_deposit list \<Rightarrow> ledger_entry list \<Rightarrow> bool" where
  "balanced as ds es \<longleftrightarrow> (\<forall>a \<in> set as.
     acc_held a = held_sum (acc_company a) ds
     \<and> acc_held a = ledger_held (acc_company a) es
     \<and> acc_available a = ledger_avail (acc_company a) es)"

definition requests_wf :: "top_up list \<Rightarrow> deal_invoice list \<Rightarrow> bool" where
  "requests_wf ts is \<longleftrightarrow> (\<forall>t \<in> set ts. is_int64 (tu_amount t))
     \<and> (\<forall>i \<in> set is. is_int64 (inv_goods i) \<and> invoice_check i)"

definition billing_ok where
  "billing_ok nid n as ds es ps pos ts is \<longleftrightarrow>
     accounts_wf as \<and> deposits_wf as ds \<and> ledger_wf nid n as ds ps pos es \<and> payouts_wf es pos
     \<and> balanced as ds es \<and> requests_wf ts is"

definition billing_inv :: "billing_env \<Rightarrow> billing_store \<Rightarrow> bool" where
  "billing_inv env s \<longleftrightarrow> inj (env_id env) \<and>
     billing_ok (env_id env) (bs_ids s) (bs_accounts s) (bs_deposits s) (bs_ledger s)
       (bs_processed s) (bs_payouts s) (bs_top_ups s) (bs_invoices s)"

lemmas billing_ok_defs = billing_ok_def accounts_wf_def deposits_wf_def ledger_wf_def
  payouts_wf_def balanced_def requests_wf_def

subsection \<open>Sums\<close>

lemma held_sum_simps [simp]:
  "held_sum c [] = 0"
  "held_sum c (d # ds) = (if dep_company d = c \<and> dep_status d = DepositHeld then dep_amount d else 0)
     + held_sum c ds"
  "held_sum c (ds @ ds') = held_sum c ds + held_sum c ds'"
  by (simp_all add: held_sum_def)

lemma ledger_sums_simps [simp]:
  "ledger_avail c [] = 0" "ledger_held c [] = 0"
  "ledger_avail c (e # es) = (if le_company e = c then avail_effect e else 0) + ledger_avail c es"
  "ledger_held c (e # es) = (if le_company e = c then held_effect e else 0) + ledger_held c es"
  "ledger_avail c (es @ es') = ledger_avail c es + ledger_avail c es'"
  "ledger_held c (es @ es') = ledger_held c es + ledger_held c es'"
  by (simp_all add: ledger_avail_def ledger_held_def)

lemma held_sum_update:
  assumes "distinct (map dep_key ds)" "d \<in> set ds" "dep_key (g d) = dep_key d"
  shows "held_sum c (row_update (\<lambda>r. dep_key r = dep_key d) g ds) =
     held_sum c ds - (if dep_company d = c \<and> dep_status d = DepositHeld then dep_amount d else 0)
     + (if dep_company d = c \<and> dep_status (g d) = DepositHeld then dep_amount (g d) else 0)"
  using sum_row_update [OF assms(1,2), of
      "\<lambda>d. if dep_company d = c \<and> dep_status d = DepositHeld then dep_amount d else 0" g] assms(3)
  by (simp add: held_sum_def dep_key_def)

text \<open>No entry and no deposit of a company, no amounts.\<close>

lemma sums_absent:
  "(\<And>e. e \<in> set es \<Longrightarrow> le_company e \<noteq> c) \<Longrightarrow> ledger_avail c es = 0 \<and> ledger_held c es = 0"
  by (induction es) auto

lemma held_sum_absent: "(\<And>d. d \<in> set ds \<Longrightarrow> dep_company d \<noteq> c) \<Longrightarrow> held_sum c ds = 0"
  by (induction ds) auto

subsection \<open>References determine the deposit\<close>

text \<open>The reference of the deposit, read off a closing key.\<close>

definition closing_base :: "string \<times> string \<times> ledger_type \<Rightarrow> string" where
  "closing_base k = (case k of (rt, r, ty) \<Rightarrow>
     if ty = LedgerPlatformFeeDue then take (length r - 4) r
     else if ty = LedgerBidDepositReleased \<and> last r = CHR ''r'' \<and> rt \<noteq> ''auction_deposit_release''
        \<and> rt \<noteq> ''platform_fee_from_deposit_zero'' then take (length r - 10) r
     else if ty = LedgerBidDepositReleased \<and> rt = ''winner_deposit_after_invoice''
       then (if last r = CHR ''e'' then take (length r - 13) r else take (length r - 9) r)
     else r)"

lemma closing_base: "k \<in> set (closing_keys r) \<Longrightarrow> closing_base k = r"
  by (simp add: closing_keys_def closing_base_def) (elim disjE; simp)

lemma closing_keys_inj: "k \<in> set (closing_keys r) \<Longrightarrow> k \<in> set (closing_keys r') \<Longrightarrow> r = r'"
  using closing_base by metis

lemma dep_ref_inj: "dep_company d = dep_company d' \<Longrightarrow> dep_ref d = dep_ref d' \<Longrightarrow> dep_key d = dep_key d'"
  by (simp add: dep_ref_def dep_key_def)

lemma settles_unique: "settles e d \<Longrightarrow> settles e d' \<Longrightarrow> dep_key d = dep_key d'"
  unfolding settles_def by (metis closing_keys_inj dep_ref_inj)

subsection \<open>Updating one account\<close>

abbreviation set_account :: "string \<Rightarrow> int \<Rightarrow> int \<Rightarrow> account list \<Rightarrow> account list" where
  "set_account i av h as \<equiv> row_update (\<lambda>r. acc_id r = i)
     (\<lambda>r. r\<lparr>acc_available := av, acc_held := h\<rparr>) as"

lemma account_eq_iff:
  "accounts_wf as \<Longrightarrow> a \<in> set as \<Longrightarrow> r \<in> set as \<Longrightarrow> acc_id r = acc_id a \<longleftrightarrow> r = a"
  "accounts_wf as \<Longrightarrow> a \<in> set as \<Longrightarrow> r \<in> set as \<Longrightarrow> acc_company r = acc_company a \<longleftrightarrow> r = a"
  unfolding accounts_wf_def by (metis eq_key_imp_eq_value distinct_map inj_on_def)+

lemma set_account_wf:
  assumes "accounts_wf as" "0 \<le> av" "is_int64 av" "0 \<le> h" "is_int64 h"
  shows "accounts_wf (set_account i av h as)"
  using assms unfolding accounts_wf_def acc_ok_def
  by (auto simp: set_row_update map_row_update)

lemma owns_set_account [simp]: "owns (set_account i av h as) c j = owns as c j"
  by (induction as) (auto simp: owns_def row_update_def)

lemma owns_append [simp]: "owns (as @ bs) c j \<longleftrightarrow> owns as c j \<or> owns bs c j"
  by (auto simp: owns_def)

lemma balanced_set_account:
  assumes wf: "accounts_wf as" and a: "a \<in> set as" and bal: "balanced as ds es"
    and other: "\<And>c. c \<noteq> acc_company a \<Longrightarrow> held_sum c ds' = held_sum c ds
        \<and> ledger_held c es' = ledger_held c es \<and> ledger_avail c es' = ledger_avail c es"
    and here: "h = held_sum (acc_company a) ds'" "h = ledger_held (acc_company a) es'"
      "av = ledger_avail (acc_company a) es'"
  shows "balanced (set_account (acc_id a) av h as) ds' es'"
  unfolding balanced_def set_row_update
proof (intro ballI)
  fix r assume "r \<in> (\<lambda>r. if acc_id r = acc_id a then r\<lparr>acc_available := av, acc_held := h\<rparr> else r) ` set as"
  then obtain q where q: "q \<in> set as"
    "r = (if acc_id q = acc_id a then q\<lparr>acc_available := av, acc_held := h\<rparr> else q)" by auto
  show "acc_held r = held_sum (acc_company r) ds' \<and> acc_held r = ledger_held (acc_company r) es'
      \<and> acc_available r = ledger_avail (acc_company r) es'"
  proof (cases "q = a")
    case True
    then show ?thesis using q here by simp
  next
    case False
    then have "acc_id q \<noteq> acc_id a" "acc_company q \<noteq> acc_company a"
      using wf a q(1) account_eq_iff by blast+
    then show ?thesis
      using q bal other [of "acc_company q"] by (auto simp: balanced_def)
  qed
qed

subsection \<open>Monotonicity of the parts\<close>

lemma entry_backed_mono:
  assumes "entry_backed ds ps pos e"
    and "\<And>d. d \<in> set ds \<Longrightarrow> \<exists>d' \<in> set ds'. dep_key d' = dep_key d
          \<and> (dep_status d \<noteq> DepositHeld \<longrightarrow> dep_status d' \<noteq> DepositHeld)"
    and "ptu_external ` set ps \<subseteq> ptu_external ` set ps'"
    and "\<And>p. p \<in> set pos \<Longrightarrow> sp_status p = SellerPayoutPaid \<Longrightarrow>
           \<exists>p' \<in> set pos'. sp_id p' = sp_id p \<and> sp_status p' = SellerPayoutPaid"
  shows "entry_backed ds' ps' pos' e"
proof -
  have *: "dep_key d' = dep_key d \<Longrightarrow> settles e d' = settles e d" for d d'
    by (simp add: settles_def dep_key_def dep_ref_def)
  consider "le_type e = LedgerBidDepositReserved" | "le_type e = LedgerTopUpConfirmed"
    | "le_type e = LedgerSellerPayoutCredited"
    | "le_type e \<in> {LedgerBidDepositReleased, LedgerBidDepositCaptured, LedgerPlatformFeeCaptured,
        LedgerPlatformFeeDue}"
    by (cases "le_type e") auto
  then show ?thesis
  proof cases
    case 1
    then obtain d where "d \<in> set ds" "dep_company d = le_company e" "dep_ref d = le_refid e"
      using assms(1) by (auto simp: entry_backed_def)
    moreover from this(1) obtain d' where "d' \<in> set ds'" "dep_key d' = dep_key d"
      using assms(2) by blast
    ultimately show ?thesis
      using 1 by (auto simp: entry_backed_def dep_key_def dep_ref_def)
  next
    case 2
    then obtain p where "p \<in> set ps" "ptu_external p = le_refid e"
      using assms(1) by (auto simp: entry_backed_def)
    then obtain p' where "p' \<in> set ps'" "ptu_external p' = le_refid e"
      using assms(3) by (metis imageE image_eqI subsetD)
    with 2 show ?thesis by (auto simp: entry_backed_def)
  next
    case 3
    then obtain p where "p \<in> set pos" "sp_id p = le_refid e" "sp_status p = SellerPayoutPaid"
      using assms(1) by (auto simp: entry_backed_def)
    then show ?thesis using 3 assms(4) [of p] by (auto simp: entry_backed_def)
  next
    case 4
    then have "\<exists>d \<in> set ds. dep_status d \<noteq> DepositHeld \<and> settles e d"
      using assms(1) by (auto simp: entry_backed_def)
    then have "\<exists>d \<in> set ds'. dep_status d \<noteq> DepositHeld \<and> settles e d"
      using assms(2) * by metis
    with 4 show ?thesis by (auto simp: entry_backed_def)
  qed
qed

lemma payouts_wf_mono: "payouts_wf es pos \<Longrightarrow> payouts_wf (es @ xs) pos"
  unfolding payouts_wf_def by (metis UnI1 set_append)

lemma ids_mono: "i \<in> nid ` {..<n} \<Longrightarrow> n \<le> m \<Longrightarrow> i \<in> nid ` {..<(m::nat)}"
  by (meson image_mono lessThan_subset_iff subsetD)

lemma ledger_wf_extend:
  assumes "ledger_wf nid n as ds ps pos es" "n \<le> m"
    and "\<And>c i. owns as c i \<Longrightarrow> owns as' c i"
    and "\<And>e. e \<in> set es \<Longrightarrow> entry_backed ds ps pos e \<Longrightarrow> entry_backed ds' ps' pos' e"
    and "distinct (map ledger_key xs)" "\<And>e. e \<in> set xs \<Longrightarrow> ledger_key e \<notin> ledger_key ` set es"
    and "\<And>e. e \<in> set xs \<Longrightarrow> le_id e \<in> nid ` {..<m} \<and> 0 < le_amount e
          \<and> owns as' (le_company e) (le_account e) \<and> entry_backed ds' ps' pos' e"
  shows "ledger_wf nid m as' ds' ps' pos' (es @ xs)"
  using assms ids_mono [of _ nid n m] unfolding ledger_wf_def by (auto simp: image_iff)

subsection \<open>The four ways money moves\<close>

lemma billing_ok_ids: "billing_ok nid n as ds es ps pos ts is \<Longrightarrow> n \<le> m \<Longrightarrow>
    billing_ok nid m as ds es ps pos ts is"
  using ids_mono [of _ nid n m] unfolding billing_ok_def ledger_wf_def by blast

lemma account_step:
  assumes ok: "billing_ok nid n as ds es ps pos ts is"
    and new: "\<And>r. r \<in> set as \<Longrightarrow> acc_id r \<noteq> acc_id a \<and> acc_company r \<noteq> acc_company a"
    and a: "acc_available a = 0" "acc_held a = 0" "\<not> isBlank (acc_id a)" "\<not> isBlank (acc_company a)"
      "acc_currency a = CurrencyRUB"
  shows "billing_ok nid n (as @ [a]) ds es ps pos ts is"
proof -
  have "acc_company a \<noteq> le_company e" if "e \<in> set es" for e
    using ok that new unfolding billing_ok_def ledger_wf_def owns_def by metis
  then have 1: "ledger_avail (acc_company a) es = 0 \<and> ledger_held (acc_company a) es = 0"
    by (intro sums_absent) metis
  have "acc_company a \<noteq> dep_company d" if "d \<in> set ds" for d
    using ok that new unfolding billing_ok_def deposits_wf_def owns_def by metis
  then have 2: "held_sum (acc_company a) ds = 0"
    by (intro held_sum_absent) metis
  have "acc_id a \<notin> acc_id ` set as" "acc_company a \<notin> acc_company ` set as"
    using new by (metis imageE)+
  then have "accounts_wf (as @ [a])"
    using ok a unfolding billing_ok_def accounts_wf_def by (simp add: acc_ok_def int64_unfold)
  then show ?thesis
    using ok 1 2 a unfolding billing_ok_def deposits_wf_def ledger_wf_def balanced_def by auto
qed

lemma reserve_step:
  assumes ok: "billing_ok nid n as ds es ps pos ts is" and m: "n \<le> m"
    and a: "a \<in> set as"
    and h: "h = acc_held a + dep_amount d" "0 \<le> h" "is_int64 h"
    and av: "av = acc_available a - dep_amount d" "0 \<le> av" "is_int64 av"
    and d: "dep_key d \<notin> dep_key ` set ds" "dep_company d = acc_company a" "dep_account d = acc_id a"
      "dep_status d = DepositHeld" "0 < dep_amount d" "is_int64 (dep_amount d)"
    and e: "le_id e \<in> nid ` {..<m}" "le_company e = acc_company a" "le_account e = acc_id a"
      "le_amount e = dep_amount d" "le_type e = LedgerBidDepositReserved" "le_refid e = dep_ref d"
      "ledger_key e \<notin> ledger_key ` set es"
  shows "billing_ok nid m (set_account (acc_id a) av h as) (ds @ [d]) (es @ [e]) ps pos ts is"
proof -
  have wf: "accounts_wf as" "deposits_wf as ds" "ledger_wf nid n as ds ps pos es"
    "payouts_wf es pos" "balanced as ds es" "requests_wf ts is"
    using ok by (simp_all add: billing_ok_def)
  have own: "owns as (acc_company a) (acc_id a)"
    using a by (auto simp: owns_def)
  have "deposits_wf (set_account (acc_id a) av h as) (ds @ [d])"
    using wf(2) d own unfolding deposits_wf_def by auto
  moreover have "ledger_wf nid m (set_account (acc_id a) av h as) (ds @ [d]) ps pos (es @ [e])"
  proof (rule ledger_wf_extend [OF wf(3) m])
    show "entry_backed (ds @ [d]) ps pos x" if "entry_backed ds ps pos x" for x
      by (rule entry_backed_mono [OF that]) auto
  qed (use d e own in \<open>auto simp: entry_backed_def\<close>)
  moreover have "balanced (set_account (acc_id a) av h as) (ds @ [d]) (es @ [e])"
  proof (rule balanced_set_account [OF wf(1) a wf(5)])
    show "h = held_sum (acc_company a) (ds @ [d])" "h = ledger_held (acc_company a) (es @ [e])"
      "av = ledger_avail (acc_company a) (es @ [e])"
      using wf(5) a h av d e by (auto simp: balanced_def held_effect_def avail_effect_def)
  qed (use d e in auto)
  ultimately show ?thesis
    using wf set_account_wf [OF wf(1) av(2,3) h(2,3)] payouts_wf_mono
    by (simp add: billing_ok_def)
qed

lemma settles_types:
  "settles e d \<Longrightarrow> le_type e \<in> {LedgerBidDepositReleased, LedgerBidDepositCaptured,
     LedgerPlatformFeeCaptured, LedgerPlatformFeeDue}"
  by (auto simp: settles_def closing_keys_def)

lemma settles_backed:
  "settles e d \<Longrightarrow> entry_backed ds ps pos e \<longleftrightarrow> (\<exists>d \<in> set ds. dep_status d \<noteq> DepositHeld \<and> settles e d)"
  using settles_types [of e d] by (auto simp: entry_backed_def)

text \<open>As long as a deposit is HELD, no key that closes it is taken.\<close>

lemma held_not_closed:
  assumes ok: "billing_ok nid n as ds es ps pos ts is"
    and d: "d \<in> set ds" "dep_status d = DepositHeld" and e: "settles e d"
  shows "ledger_key e \<notin> ledger_key ` set es"
proof
  assume "ledger_key e \<in> ledger_key ` set es"
  then obtain x where x: "x \<in> set es" "ledger_key x = ledger_key e" by auto
  then have sx: "settles x d"
    using e by (simp add: settles_def ledger_key_def)
  have "entry_backed ds ps pos x"
    using ok x unfolding billing_ok_def ledger_wf_def by blast
  then obtain d' where d': "d' \<in> set ds" "dep_status d' \<noteq> DepositHeld" "settles x d'"
    using settles_backed [OF sx] by blast
  have "dep_key d = dep_key d'"
    using settles_unique [OF sx d'(3)] .
  then have "d = d'"
    using ok d d' unfolding billing_ok_def deposits_wf_def by (auto dest: eq_key_imp_eq_value simp: distinct_map inj_on_def)
  with d d' show False by simp
qed

abbreviation close_deposit :: "auction_deposit \<Rightarrow> deposit_status \<Rightarrow> time option \<Rightarrow> time option
    \<Rightarrow> auction_deposit list \<Rightarrow> auction_deposit list" where
  "close_deposit d st x y ds \<equiv>
     row_update (\<lambda>r. dep_auction r = dep_auction d \<and> dep_company r = dep_company d)
       (\<lambda>r. r\<lparr>dep_status := st, dep_released_at := x, dep_captured_at := y\<rparr>) ds"

lemma close_deposit_key:
  "close_deposit d st x y ds = row_update (\<lambda>r. dep_key r = dep_key d)
     (\<lambda>r. r\<lparr>dep_status := st, dep_released_at := x, dep_captured_at := y\<rparr>) ds"
  by (simp add: dep_key_def)

lemma close_step:
  assumes ok: "billing_ok nid n as ds es ps pos ts is" and m: "n \<le> m"
    and a: "a \<in> set as" and d: "d \<in> set ds" "dep_status d = DepositHeld" "dep_company d = acc_company a"
    and st: "st \<noteq> DepositHeld"
    and xs: "distinct (map ledger_key xs)"
      "\<And>e. e \<in> set xs \<Longrightarrow> settles e d \<and> le_id e \<in> nid ` {..<m} \<and> 0 < le_amount e \<and> le_account e = acc_id a"
    and h: "h = acc_held a - dep_amount d" "0 \<le> h" "is_int64 h"
      "(\<Sum>e\<leftarrow>xs. held_effect e) = - dep_amount d"
    and av: "0 \<le> av" "is_int64 av" "av = acc_available a + (\<Sum>e\<leftarrow>xs. avail_effect e)"
  shows "billing_ok nid m (set_account (acc_id a) av h as) (close_deposit d st x y ds) (es @ xs)
     ps pos ts is"
proof -
  have wf: "accounts_wf as" "deposits_wf as ds" "ledger_wf nid n as ds ps pos es"
    "payouts_wf es pos" "balanced as ds es" "requests_wf ts is"
    using ok by (simp_all add: billing_ok_def)
  let ?ds = "close_deposit d st x y ds"
  have keys: "map dep_key ?ds = map dep_key ds"
    by (rule map_row_update) (simp add: dep_key_def)
  have comp: "le_company e = acc_company a" if "e \<in> set xs" for e
    using xs(2) [OF that] d(3) by (simp add: settles_def)
  have sums: "ledger_held c xs = (if c = acc_company a then - dep_amount d else 0) \<and>
      ledger_avail c xs = (if c = acc_company a then (\<Sum>e\<leftarrow>xs. avail_effect e) else 0)" for c
  proof -
    have "ledger_held c xs = (\<Sum>e\<leftarrow>xs. if acc_company a = c then held_effect e else 0)"
      "ledger_avail c xs = (\<Sum>e\<leftarrow>xs. if acc_company a = c then avail_effect e else 0)"
      using comp by (auto simp: ledger_held_def ledger_avail_def intro!: arg_cong [where f = sum_list])
    then show ?thesis using h(4) by (auto simp: sum_list_0)
  qed
  have hs: "held_sum c ?ds = held_sum c ds - (if c = acc_company a then dep_amount d else 0)" for c
    unfolding close_deposit_key
    by (subst held_sum_update) (use wf(2) d st in \<open>auto simp: deposits_wf_def dep_key_def\<close>)
  have closed: "\<exists>r \<in> set ?ds. dep_key r = dep_key d \<and> dep_status r \<noteq> DepositHeld"
    by (rule bexI [OF _ row_update_mem [OF d(1)]]) (use st in \<open>auto simp: dep_key_def\<close>)
  have "deposits_wf (set_account (acc_id a) av h as) ?ds"
    using wf(2) keys unfolding deposits_wf_def by (auto simp: set_row_update)
  moreover have "ledger_wf nid m (set_account (acc_id a) av h as) ?ds ps pos (es @ xs)"
  proof (rule ledger_wf_extend [OF wf(3) m])
    show "entry_backed ?ds ps pos e" if "entry_backed ds ps pos e" for e
      by (rule entry_backed_mono [OF that], rule bexI [OF _ row_update_mem_if])
        (use st in \<open>auto simp: dep_key_def\<close>)
    show "distinct (map ledger_key xs)" by (rule xs(1))
    show "ledger_key e \<notin> ledger_key ` set es" if "e \<in> set xs" for e
      using held_not_closed [OF ok d(1,2)] xs(2) [OF that] by simp
    show "le_id e \<in> nid ` {..<m} \<and> 0 < le_amount e
          \<and> owns (set_account (acc_id a) av h as) (le_company e) (le_account e)
          \<and> entry_backed ?ds ps pos e" if e: "e \<in> set xs" for e
    proof -
      obtain r where r: "r \<in> set ?ds" "dep_key r = dep_key d" "dep_status r \<noteq> DepositHeld"
        using closed by blast
      then have "settles e r"
        using xs(2) [OF e] by (simp add: settles_def dep_key_def dep_ref_def)
      moreover have "owns as (acc_company a) (acc_id a)"
        using a by (auto simp: owns_def)
      ultimately show ?thesis
        using xs(2) [OF e] comp [OF e] r settles_backed [of e r] by auto
    qed
  qed simp
  moreover have "balanced (set_account (acc_id a) av h as) ?ds (es @ xs)"
    by (rule balanced_set_account [OF wf(1) a wf(5)])
      (use wf(5) a h av sums hs in \<open>auto simp: balanced_def\<close>)
  ultimately show ?thesis
    using wf set_account_wf [OF wf(1) av(1,2) h(2,3)] payouts_wf_mono
    by (simp add: billing_ok_def)
qed

text \<open>A credit: a top-up or a payout adds to the available amount.\<close>

lemma credit_step:
  assumes ok: "billing_ok nid n as ds es ps pos ts is" and m: "n \<le> m"
    and a: "a \<in> set as"
    and av: "av = acc_available a + le_amount e" "0 \<le> av" "is_int64 av"
    and e: "le_id e \<in> nid ` {..<m}" "le_company e = acc_company a" "le_account e = acc_id a"
      "0 < le_amount e" "le_type e \<in> {LedgerTopUpConfirmed, LedgerSellerPayoutCredited}"
      "ledger_key e \<notin> ledger_key ` set es" "entry_backed ds ps' pos' e"
    and ps: "ptu_external ` set ps \<subseteq> ptu_external ` set ps'"
    and pos: "\<And>p. p \<in> set pos \<Longrightarrow> sp_status p = SellerPayoutPaid \<Longrightarrow>
           \<exists>p' \<in> set pos'. sp_id p' = sp_id p \<and> sp_status p' = SellerPayoutPaid"
      "payouts_wf (es @ [e]) pos'"
  shows "billing_ok nid m (set_account (acc_id a) av (acc_held a) as) ds (es @ [e]) ps' pos' ts is"
proof -
  have wf: "accounts_wf as" "deposits_wf as ds" "ledger_wf nid n as ds ps pos es"
    "balanced as ds es" "requests_wf ts is"
    using ok by (simp_all add: billing_ok_def)
  have aok: "acc_ok a" using wf(1) a by (simp add: accounts_wf_def)
  have own: "owns as (acc_company a) (acc_id a)"
    using a by (auto simp: owns_def)
  have "ledger_wf nid m (set_account (acc_id a) av (acc_held a) as) ds ps' pos' (es @ [e])"
  proof (rule ledger_wf_extend [OF wf(3) m])
    show "entry_backed ds ps' pos' x" if "entry_backed ds ps pos x" for x
      by (rule entry_backed_mono [OF that _ ps pos(1)]) auto
  qed (use e own in auto)
  moreover have "deposits_wf (set_account (acc_id a) av (acc_held a) as) ds"
    using wf(2) unfolding deposits_wf_def by simp
  moreover have "balanced (set_account (acc_id a) av (acc_held a) as) ds (es @ [e])"
    by (rule balanced_set_account [OF wf(1) a wf(4)])
      (use wf(4) a av e in \<open>auto simp: balanced_def held_effect_def avail_effect_def\<close>)
  ultimately show ?thesis
    using wf pos(2) set_account_wf [OF wf(1) av(2,3), of "acc_held a" "acc_id a"] aok
    by (simp add: billing_ok_def acc_ok_def)
qed

lemma topup_not_processed:
  assumes "billing_ok nid n as ds es ps pos ts is" "\<forall>p \<in> set ps. ptu_external p \<noteq> x"
  shows "(c, rt, x, LedgerTopUpConfirmed) \<notin> ledger_key ` set es"
proof
  assume "(c, rt, x, LedgerTopUpConfirmed) \<in> ledger_key ` set es"
  then obtain e where "e \<in> set es" "le_refid e = x" "le_type e = LedgerTopUpConfirmed"
    by (auto simp: ledger_key_def)
  then have "entry_backed ds ps pos e"
    using assms(1) by (simp add: billing_ok_def ledger_wf_def)
  then show False
    using assms(2) \<open>le_refid e = x\<close> \<open>le_type e = LedgerTopUpConfirmed\<close>
    by (auto simp: entry_backed_def)
qed

text \<open>A payout is credited in the ledger exactly when it is PAID.\<close>

lemma payout_paid_iff_credited:
  assumes ok: "billing_ok nid n as ds es ps pos ts is" and p: "p \<in> set pos"
  shows "(sp_seller p, ''seller_payout'', sp_id p, LedgerSellerPayoutCredited) \<in> ledger_key ` set es
     \<longleftrightarrow> sp_status p = SellerPayoutPaid"
proof
  assume "(sp_seller p, ''seller_payout'', sp_id p, LedgerSellerPayoutCredited) \<in> ledger_key ` set es"
  then obtain e where e: "e \<in> set es" "le_refid e = sp_id p" "le_type e = LedgerSellerPayoutCredited"
    by (auto simp: ledger_key_def)
  then have "entry_backed ds ps pos e"
    using ok by (simp add: billing_ok_def ledger_wf_def)
  then obtain q where q: "q \<in> set pos" "sp_id q = sp_id p" "sp_status q = SellerPayoutPaid"
    using e by (auto simp: entry_backed_def)
  have "distinct (map sp_id pos)"
    using ok by (simp add: billing_ok_def payouts_wf_def)
  then have "q = p" using q p by (auto simp: distinct_map inj_on_def)
  then show "sp_status p = SellerPayoutPaid" using q by simp
next
  assume "sp_status p = SellerPayoutPaid"
  then show "(sp_seller p, ''seller_payout'', sp_id p, LedgerSellerPayoutCredited) \<in> ledger_key ` set es"
    using ok p unfolding billing_ok_def payouts_wf_def by (auto simp: image_iff) metis
qed

text \<open>Tables that carry no money.\<close>

lemma requests_step:
  "billing_ok nid n as ds es ps pos ts is \<Longrightarrow> requests_wf ts' is' \<Longrightarrow>
     billing_ok nid n as ds es ps pos ts' is'"
  by (simp add: billing_ok_def)

lemma payout_create_step:
  assumes "billing_ok nid n as ds es ps pos ts is" "sp_id p \<notin> sp_id ` set pos"
    "0 < sp_amount p" "is_int64 (sp_amount p)" "sp_status p \<noteq> SellerPayoutPaid"
  shows "billing_ok nid n as ds es ps (pos @ [p]) ts is"
proof -
  have "entry_backed ds ps (pos @ [p]) e" if "entry_backed ds ps pos e" for e
    by (rule entry_backed_mono [OF that]) auto
  then have "ledger_wf nid n as ds ps (pos @ [p]) es"
    using assms(1) unfolding billing_ok_def ledger_wf_def by auto
  then show ?thesis
    using assms unfolding billing_ok_def payouts_wf_def by auto
qed

lemma payout_status_step:
  assumes ok: "billing_ok nid n as ds es ps pos ts is" and p: "p \<in> set pos"
    and st: "sp_status p \<noteq> SellerPayoutPaid" "st \<noteq> SellerPayoutPaid"
  shows "billing_ok nid n as ds es ps (row_update (\<lambda>r. sp_id r = sp_id p)
     (\<lambda>r. r\<lparr>sp_status := st, sp_ready_at := x, sp_paid_at := y, sp_cancelled_at := z,
           sp_failed_at := w\<rparr>) pos) ts is" (is "billing_ok nid n as ds es ps ?pos ts is")
proof -
  have d: "distinct (map sp_id pos)"
    using ok by (simp add: billing_ok_def payouts_wf_def)
  have same: "r = p" if "r \<in> set pos" "sp_id r = sp_id p" for r
    using d that p by (auto simp: distinct_map inj_on_def)
  have keep: "\<exists>p' \<in> set ?pos. sp_id p' = sp_id r \<and> sp_status p' = SellerPayoutPaid"
    if "r \<in> set pos" "sp_status r = SellerPayoutPaid" for r
    by (rule bexI [OF _ row_update_mem_if [OF that(1)]]) (use same that st in auto)
  have "entry_backed ds ps ?pos e" if "entry_backed ds ps pos e" for e
    by (rule entry_backed_mono [OF that _ _ keep]) auto
  then have "ledger_wf nid n as ds ps ?pos es"
    using ok unfolding billing_ok_def ledger_wf_def by auto
  moreover have "payouts_wf es ?pos"
    using ok same st unfolding billing_ok_def payouts_wf_def
    by (auto simp: map_row_update elim!: row_update_memE)
  ultimately show ?thesis
    using ok by (simp add: billing_ok_def)
qed

lemma payout_paid_step:
  assumes ok: "billing_ok nid n as ds es ps pos ts is" and m: "n \<le> m"
    and p: "p \<in> set pos" "sp_status p \<noteq> SellerPayoutPaid"
    and a: "a \<in> set as" "acc_company a = sp_seller p"
    and av: "av = acc_available a + sp_amount p" "0 \<le> av" "is_int64 av"
    and e: "le_id e \<in> nid ` {..<m}" "le_account e = acc_id a" "le_amount e = sp_amount p"
      "ledger_key e = (sp_seller p, ''seller_payout'', sp_id p, LedgerSellerPayoutCredited)"
  shows "billing_ok nid m (set_account (acc_id a) av (acc_held a) as) ds (es @ [e]) ps
     (row_update (\<lambda>r. sp_id r = sp_id p)
       (\<lambda>r. r\<lparr>sp_status := SellerPayoutPaid, sp_ready_at := x, sp_paid_at := y,
             sp_cancelled_at := z, sp_failed_at := w\<rparr>) pos) ts is"
    (is "billing_ok nid m _ ds _ ps ?pos ts is")
proof (rule credit_step [OF ok m a(1)])
  have wf: "payouts_wf es pos" using ok by (simp add: billing_ok_def)
  then have d: "distinct (map sp_id pos)" by (simp add: payouts_wf_def)
  have e': "le_company e = acc_company a" "le_type e = LedgerSellerPayoutCredited"
    "le_refid e = sp_id p"
    using e(4) a(2) by (simp_all add: ledger_key_def)
  show "av = acc_available a + le_amount e" "0 \<le> av" "is_int64 av" "le_id e \<in> nid ` {..<m}"
    "le_company e = acc_company a" "le_account e = acc_id a"
    "le_type e \<in> {LedgerTopUpConfirmed, LedgerSellerPayoutCredited}"
    using av e e' by simp_all
  show "0 < le_amount e"
    using wf p e(3) by (simp add: payouts_wf_def)
  show "ledger_key e \<notin> ledger_key ` set es"
    using payout_paid_iff_credited [OF ok p(1)] p(2) e(4) by simp
  have paid: "\<exists>r \<in> set ?pos. sp_id r = sp_id p \<and> sp_status r = SellerPayoutPaid"
    by (rule bexI [OF _ row_update_mem [OF p(1)]]) auto
  then show "entry_backed ds ps ?pos e"
    using e' by (simp add: entry_backed_def)
  show "\<exists>p' \<in> set ?pos. sp_id p' = sp_id r \<and> sp_status p' = SellerPayoutPaid"
    if "r \<in> set pos" "sp_status r = SellerPayoutPaid" for r
    by (rule bexI [OF _ row_update_mem_if [OF that(1)]]) (use that in auto)
  have same: "r = p" if "r \<in> set pos" "sp_id r = sp_id p" for r
    using d that p(1) by (auto simp: distinct_map inj_on_def)
  show "payouts_wf (es @ [e]) ?pos"
    unfolding payouts_wf_def
  proof (intro conjI ballI)
    show "distinct (map sp_id ?pos)"
      using d by (simp add: map_row_update)
  next
    fix r assume r: "r \<in> set ?pos"
    then show "0 < sp_amount r" "is_int64 (sp_amount r)"
      using wf by (auto simp: payouts_wf_def elim!: row_update_memE)
    show "sp_status r = SellerPayoutPaid \<longrightarrow> (\<exists>e' \<in> set (es @ [e]). ledger_key e' =
        (sp_seller r, ''seller_payout'', sp_id r, LedgerSellerPayoutCredited) \<and> le_amount e' = sp_amount r)"
    proof (rule row_update_memE [OF r])
      fix q assume q: "q \<in> set pos" "r = (if sp_id q = sp_id p then q\<lparr>sp_status := SellerPayoutPaid,
          sp_ready_at := x, sp_paid_at := y, sp_cancelled_at := z, sp_failed_at := w\<rparr> else q)"
      show ?thesis
      proof (cases "sp_id q = sp_id p")
        case True
        then show ?thesis using q same [OF q(1) True] e(3,4) by simp
      next
        case False
        then show ?thesis using q wf by (auto simp: payouts_wf_def)
      qed
    qed
  qed
qed simp

end
