(* ===== verification/Transactions.thy ===== *)
theory Transactions
  imports Prelude
begin

section \<open>Transactions: contexts that carry a database transaction\<close>

text \<open>
  \<open>internal/infra/postgresctx\<close> and the units of work over it. A \<open>context.Context\<close> either
  carries a \<open>*sql.Tx\<close> (\<open>TxCtx\<close>) or not (\<open>Background\<close>); \<open>FromContext\<close> sends a statement to
  the transaction in the first case and to the connection pool, where it commits at once, in
  the second (\<open>on_ctx\<close>). A session is the committed database with the view of the open
  transaction, \<open>None\<close> as long as no statement has reached it. A panic in the callback is an
  error like any other here: the deferred function rolls back before it panics again.

  The lemmas show that a callback that uses the context it is given runs atomically
  (\<open>within_tx_atomic\<close>), and that one that keeps using the context of its caller does not:
  \<open>uow_do\<close>, the \<open>UnitOfWork.Do\<close> of the trading and deals contexts, hands its callback no
  context, so every statement of a use case commits on its own (\<open>uow_do_plain\<close>).
  The locale \<open>tx_runner\<close> is the contract the use cases of billing are run under.
\<close>

datatype ctx = Background | TxCtx

record 's session =
  committed :: 's
  pending :: "'s option"

definition tx_view :: "'s session \<Rightarrow> 's" where
  "tx_view z = (case pending z of None \<Rightarrow> committed z | Some w \<Rightarrow> w)"

definition on_ctx :: "ctx \<Rightarrow> ('s, 'e, 'a) exec \<Rightarrow> ('s session, 'e, 'a) exec" where
  "on_ctx c m z = (case c of
      Background \<Rightarrow> (case m (committed z) of (r, s') \<Rightarrow> (r, z\<lparr>committed := s'\<rparr>))
    | TxCtx \<Rightarrow> (case m (tx_view z) of (r, s') \<Rightarrow> (r, z\<lparr>pending := Some s'\<rparr>)))"

definition begin_tx :: "'s session \<Rightarrow> 's session" where
  "begin_tx z = z\<lparr>pending := None\<rparr>"

definition rollback_tx :: "'s session \<Rightarrow> 's session" where
  "rollback_tx z = z\<lparr>pending := None\<rparr>"

definition commit_tx :: "'s session \<Rightarrow> 's session" where
  "commit_tx z = z\<lparr>committed := tx_view z, pending := None\<rparr>"

definition within_tx :: "(ctx \<Rightarrow> ('s session, 'e, 'a) exec) \<Rightarrow> ('s session, 'e, 'a) exec" where
  "within_tx fn z = (case fn TxCtx (begin_tx z) of
      (Inl e, z') \<Rightarrow> (Inl e, rollback_tx z')
    | (Inr a, z') \<Rightarrow> (Inr a, commit_tx z'))"

text \<open>
  \<open>UnitOfWork.Do\<close> (\<open>trading/postgres/uow.go\<close>, \<open>deals/postgres/uow.go\<close>): the callback takes the
  repositories only, so the context it passes to them is the one its closure captured.
  \<open>SimpleUnitOfWork.Do\<close> calls it straight away.
\<close>

definition uow_do :: "('s session, 'e, 'a) exec \<Rightarrow> ('s session, 'e, 'a) exec" where
  "uow_do fn = within_tx (\<lambda>_. fn)"

definition simple_uow_do :: "('s, 'e, 'a) exec \<Rightarrow> ('s, 'e, 'a) exec" where
  "simple_uow_do fn = fn"

text \<open>What a caller outside any transaction sees of the two.\<close>

definition new_session :: "'s \<Rightarrow> 's session" where
  "new_session s = \<lparr>committed = s, pending = None\<rparr>"

definition db_tx :: "('s, 'e, 'a) exec \<Rightarrow> ('s, 'e, 'a) exec" where
  "db_tx m s = (case within_tx (\<lambda>c. on_ctx c m) (new_session s) of (r, z) \<Rightarrow> (r, committed z))"

definition db_uow :: "('s, 'e, 'a) exec \<Rightarrow> ('s, 'e, 'a) exec" where
  "db_uow m s = (case uow_do (on_ctx Background m) (new_session s) of (r, z) \<Rightarrow> (r, committed z))"

text \<open>The specification: all the writes of \<open>m\<close>, or none.\<close>

definition atomically :: "('s, 'e, 'a) exec \<Rightarrow> ('s, 'e, 'a) exec" where
  "atomically m s = (case m s of (Inl e, _) \<Rightarrow> (Inl e, s) | (Inr a, s') \<Rightarrow> (Inr a, s'))"

lemma on_ctx_bind:
  "on_ctx c (bindE m f) z = bindE (on_ctx c m) (\<lambda>a. on_ctx c (f a)) z"
  by (auto simp: on_ctx_def bindE_def tx_view_def split: ctx.split prod.split sum.split)

lemma within_tx_atomic:
  "pending z = None \<Longrightarrow> within_tx (\<lambda>c. on_ctx c m) z =
     (case atomically m (committed z) of (r, s') \<Rightarrow> (r, z\<lparr>committed := s'\<rparr>))"
  by (cases z) (auto simp: within_tx_def on_ctx_def begin_tx_def rollback_tx_def commit_tx_def
      tx_view_def atomically_def split: prod.split sum.split)

lemma uow_do_plain:
  "pending z = None \<Longrightarrow> uow_do (on_ctx Background m) z = on_ctx Background m z"
  by (cases z) (auto simp: uow_do_def within_tx_def on_ctx_def begin_tx_def rollback_tx_def
      commit_tx_def tx_view_def split: prod.split sum.split)

lemma db_tx_atomically: "db_tx m = atomically m"
  by (rule ext) (simp add: db_tx_def new_session_def within_tx_atomic split: prod.split)

lemma db_uow_plain: "db_uow m = m"
  by (rule ext) (simp add: db_uow_def new_session_def uow_do_plain on_ctx_def split: prod.split)

subsection \<open>The contracts\<close>

text \<open>A runner keeps the effects of a method that succeeds; a transactional one also undoes
  those of a method that fails.\<close>

locale runner =
  fixes run :: "('s, 'e, 'a) exec \<Rightarrow> ('s, 'e, 'a) exec"
  assumes run_ok: "m s = (Inr a, s') \<Longrightarrow> run m s = (Inr a, s')"
begin

lemma run_success: "wpE m Q (\<lambda>_ _. False) s \<Longrightarrow> wpE (run m) Q (\<lambda>_ _. False) s"
  using run_ok [of m s] by (auto simp: wpE_def split: prod.splits sum.splits)

end

locale tx_runner = runner run
  for run :: "('s, 'e, 'a) exec \<Rightarrow> ('s, 'e, 'a) exec" +
  assumes run_error: "m s = (Inl e, s') \<Longrightarrow> run m s = (Inl e, s)"
begin

lemma run_wp: "wpE m Q (\<lambda>e _. R e s) s \<Longrightarrow> wpE (run m) Q R s"
  using run_ok [of m s] run_error [of m s]
  by (auto simp: wpE_def split: prod.splits sum.splits)

text \<open>What a method keeps whenever it succeeds, its transaction always keeps.\<close>

lemma run_keeps:
  assumes "wpE m (\<lambda>_. I) (\<lambda>_ _. True) s" "I s"
  shows "I (snd (run m s))"
proof -
  have "wpE (run m) (\<lambda>_. I) (\<lambda>_. I) s"
    by (rule run_wp) (use assms in \<open>auto intro: wpE_mono\<close>)
  then show ?thesis
    by (auto simp: wpE_def split: prod.splits sum.splits)
qed

lemma run_error_unchanged: "fst (run m s) = Inl e \<Longrightarrow> snd (run m s) = s"
  using run_ok [of m s] run_error [of m s] by (cases "m s"; cases "fst (m s)") auto

lemma run_result: "fst (run m s) = fst (m s)"
  using run_ok [of m s] run_error [of m s] by (cases "m s"; cases "fst (m s)") auto

end

interpretation sql_tx: tx_runner db_tx
  by unfold_locales (simp_all add: db_tx_atomically atomically_def)

interpretation sql_uow: runner db_uow
  by unfold_locales (simp add: db_uow_plain)

end
