(* ===== verification/Billing_Deposits.thy ===== *)
theory Billing_Deposits
  imports Billing_Store Transactions
begin

section \<open>Accounts and auction deposits: the use cases (internal/billing/app)\<close>

text \<open>
  One definition per use case, named after it, with the \<open>Execute\<close> method as its body: the
  reads, guards and writes in the order of the code. The clock of a use case is the argument
  \<open>now\<close>. Dependencies are never nil: the constructors refuse that. The callers run each of
  them in a billing transaction (\<open>db_tx\<close>), except the reservation, which \<open>PlaceBid\<close> calls.
\<close>

definition auctionDepositLedgerRef :: "string \<Rightarrow> string \<Rightarrow> string" where
  "auctionDepositLedgerRef auctionID companyID = ''auction:'' @ auctionID @ '':company:'' @ companyID"

definition platformFeeSettlementRef :: "string \<Rightarrow> string \<Rightarrow> string" where
  "platformFeeSettlementRef auctionID companyID = ''auction:'' @ auctionID @ '':company:'' @ companyID"

definition depositFromStartPrice :: "int \<Rightarrow> int" where
  "depositFromStartPrice startPrice =
     (let d = quot64 (mul64 startPrice 5) 100 in if d < 1 \<and> startPrice > 0 then 1 else d)"

definition platformFeeFromFinalPrice :: "int \<Rightarrow> int" where
  "platformFeeFromFinalPrice finalPrice =
     (if finalPrice \<le> 0 then 0 else quot64 (mul64 finalPrice 3) 100)"

subsection \<open>CreateAccount\<close>

definition CreateAccount :: "billing_env \<Rightarrow> string \<Rightarrow> unit billing" where
  "CreateAccount env companyID =
     (if isBlank companyID then failE ErrInvalidIdentifier else
      bindE (accounts_ExistsByCompany companyID) (\<lambda>ok.
      if ok then retE () else
      bindE (new_id env) (\<lambda>newID.
      bindE (liftE (NewAccount newID companyID CurrencyRUB)) (\<lambda>acc.
      bindE (accounts_Create acc) (\<lambda>_.
      publish_if env (acc_id acc) companyID
        (AccountCreated (acc_id acc) companyID (acc_currency acc)))))))"

subsection \<open>ReserveAuctionDeposit\<close>

definition ReserveAuctionDeposit ::
  "billing_env \<Rightarrow> time \<Rightarrow> string \<Rightarrow> string \<Rightarrow> int \<Rightarrow> currency \<Rightarrow> unit billing" where
  "ReserveAuctionDeposit env now companyID auctionID startPrice cur =
     (if isBlank companyID \<or> isBlank auctionID then failE ErrInvalidIdentifier
      else if cur \<noteq> CurrencyRUB then failE ErrUnsupportedCurrency
      else
      bindE (accounts_Load companyID) (\<lambda>acc.
      if acc_currency acc \<noteq> cur then failE ErrUnsupportedCurrency else
      bindE (deposits_Find auctionID companyID) (\<lambda>existing.
      case existing of
        Some d \<Rightarrow> if dep_status d = DepositHeld then retE () else failE ErrDepositNotHeld
      | None \<Rightarrow>
        (let amount = depositFromStartPrice startPrice in
         if amount \<le> 0 then failE ErrInvalidAmount else
         bindE (catchE (liftE (acc_Reserve amount acc))
           (\<lambda>e. failE (if e = ErrInsufficientFunds then ErrInsufficientFundsForDeposit else e))) (\<lambda>acc'.
         bindE (liftE (NewAuctionDeposit auctionID companyID (acc_id acc) amount cur now)) (\<lambda>dep.
         bindE (deposits_Create dep) (\<lambda>_.
         bindE (accounts_Save acc') (\<lambda>_.
         let ref = auctionDepositLedgerRef auctionID companyID in
         bindE (ledger_ExistsByReference companyID ''auction_deposit'' ref LedgerBidDepositReserved)
           (\<lambda>exists.
         if exists then retE () else
         bindE (new_id env) (\<lambda>newID.
         bindE (ledger_Append \<lparr>le_id = newID, le_account = acc_id acc, le_company = companyID,
             le_currency = cur, le_amount = amount, le_type = LedgerBidDepositReserved,
             le_reftype = ''auction_deposit'', le_refid = ref, le_reason = ''RESERVE_DEPOSIT'',
             le_created_at = now\<rparr>) (\<lambda>_.
         publish_if env (dep_auction dep) companyID
           (AuctionDepositReserved (dep_auction dep) companyID (dep_amount dep)
              (dep_currency dep)))))))))))))"

subsection \<open>ReleaseAuctionDeposit and CaptureAuctionDeposit\<close>

definition ReleaseAuctionDeposit ::
  "billing_env \<Rightarrow> time \<Rightarrow> string \<Rightarrow> string \<Rightarrow> string \<Rightarrow> unit billing" where
  "ReleaseAuctionDeposit env now companyID auctionID reason =
     (if isBlank companyID \<or> isBlank auctionID then failE ErrInvalidIdentifier else
      let refLedger = auctionDepositLedgerRef auctionID companyID in
      bindE (accounts_Load companyID) (\<lambda>acc.
      bindE (deposits_Find auctionID companyID) (\<lambda>found.
      case found of
        None \<Rightarrow> failE ErrDepositNotFound
      | Some dep \<Rightarrow>
        if dep_status dep = DepositReleased then retE ()
        else if dep_status dep \<noteq> DepositHeld then failE ErrDepositNotHeld
        else
        bindE (ledger_ExistsByReference companyID ''auction_deposit_release'' refLedger
                 LedgerBidDepositReleased) (\<lambda>exists.
        if exists then retE () else
        bindE (liftE (acc_Release (dep_amount dep) acc)) (\<lambda>acc'.
        let dep' = dep_MarkReleased now dep in
        bindE (deposits_Save dep') (\<lambda>_.
        bindE (accounts_Save acc') (\<lambda>_.
        bindE (new_id env) (\<lambda>newID.
        bindE (ledger_Append \<lparr>le_id = newID, le_account = acc_id acc, le_company = companyID,
            le_currency = dep_currency dep, le_amount = dep_amount dep,
            le_type = LedgerBidDepositReleased, le_reftype = ''auction_deposit_release'',
            le_refid = refLedger, le_reason = reason, le_created_at = now\<rparr>) (\<lambda>_.
        publish_if env (dep_auction dep) companyID
          (AuctionDepositReleased (dep_auction dep) companyID (dep_amount dep) (dep_currency dep)
             reason))))))))))"

definition CaptureAuctionDeposit ::
  "billing_env \<Rightarrow> time \<Rightarrow> string \<Rightarrow> string \<Rightarrow> string \<Rightarrow> unit billing" where
  "CaptureAuctionDeposit env now companyID auctionID reason =
     (if isBlank companyID \<or> isBlank auctionID then failE ErrInvalidIdentifier else
      let refLedger = auctionDepositLedgerRef auctionID companyID in
      bindE (accounts_Load companyID) (\<lambda>acc.
      bindE (deposits_Find auctionID companyID) (\<lambda>found.
      case found of
        None \<Rightarrow> failE ErrDepositNotFound
      | Some dep \<Rightarrow>
        if dep_status dep = DepositCaptured then retE ()
        else if dep_status dep \<noteq> DepositHeld then failE ErrDepositNotHeld
        else
        bindE (ledger_ExistsByReference companyID ''auction_deposit_capture'' refLedger
                 LedgerBidDepositCaptured) (\<lambda>exists.
        if exists then retE () else
        bindE (liftE (acc_Capture (dep_amount dep) acc)) (\<lambda>acc'.
        let dep' = dep_MarkCaptured now dep in
        bindE (deposits_Save dep') (\<lambda>_.
        bindE (accounts_Save acc') (\<lambda>_.
        bindE (new_id env) (\<lambda>newID.
        bindE (ledger_Append \<lparr>le_id = newID, le_account = acc_id acc, le_company = companyID,
            le_currency = dep_currency dep, le_amount = dep_amount dep,
            le_type = LedgerBidDepositCaptured, le_reftype = ''auction_deposit_capture'',
            le_refid = refLedger, le_reason = reason, le_created_at = now\<rparr>) (\<lambda>_.
        publish_if env (dep_auction dep) companyID
          (AuctionDepositCaptured (dep_auction dep) companyID (dep_amount dep) (dep_currency dep)
             reason))))))))))"

subsection \<open>ReleaseAuctionDepositsExceptCandidates\<close>

text \<open>The warning for a candidate without a deposit changes nothing and is left out.\<close>

definition release_one :: "billing_env \<Rightarrow> time \<Rightarrow> string \<Rightarrow> string list \<Rightarrow> string
    \<Rightarrow> auction_deposit \<Rightarrow> unit billing" where
  "release_one env now auctionID candidates reason dep =
     (if dep_company dep \<in> set candidates then retE ()
      else if dep_status dep \<noteq> DepositHeld then retE ()
      else
      let ref = auctionDepositLedgerRef auctionID (dep_company dep) in
      bindE (ledger_ExistsByReference (dep_company dep) ''auction_deposit_release'' ref
               LedgerBidDepositReleased) (\<lambda>exists.
      if exists then retE () else
      bindE (accounts_Load (dep_company dep)) (\<lambda>acc.
      bindE (liftE (acc_Release (dep_amount dep) acc)) (\<lambda>acc'.
      let dep' = dep_MarkReleased now dep in
      bindE (deposits_Save dep') (\<lambda>_.
      bindE (accounts_Save acc') (\<lambda>_.
      bindE (new_id env) (\<lambda>newID.
      bindE (ledger_Append \<lparr>le_id = newID, le_account = acc_id acc, le_company = dep_company dep,
          le_currency = dep_currency dep, le_amount = dep_amount dep,
          le_type = LedgerBidDepositReleased, le_reftype = ''auction_deposit_release'',
          le_refid = ref, le_reason = reason, le_created_at = now\<rparr>) (\<lambda>_.
      publish_if env (dep_auction dep) (dep_company dep)
        (AuctionDepositReleased (dep_auction dep) (dep_company dep) (dep_amount dep)
           (dep_currency dep) reason)))))))))"

definition ReleaseAuctionDepositsExceptCandidates ::
  "billing_env \<Rightarrow> time \<Rightarrow> string \<Rightarrow> string list \<Rightarrow> string \<Rightarrow> unit billing" where
  "ReleaseAuctionDepositsExceptCandidates env now auctionID candidateCompanyIDs reason =
     (if isBlank auctionID then failE ErrInvalidIdentifier
      else if list_ex isBlank candidateCompanyIDs then failE ErrInvalidIdentifier
      else
      bindE (deposits_ListByAuction auctionID) (\<lambda>deposits.
      forE (release_one env now auctionID candidateCompanyIDs reason) deposits))"

subsection \<open>CapturePlatformFeeFromDeposit\<close>

text \<open>The entry both settlements append, with the fields they vary.\<close>

definition deposit_entry ::
  "account \<Rightarrow> auction_deposit \<Rightarrow> string \<Rightarrow> time \<Rightarrow> string \<Rightarrow> int \<Rightarrow> ledger_type \<Rightarrow> string \<Rightarrow> string
     \<Rightarrow> string \<Rightarrow> ledger_entry" where
  "deposit_entry acc dep companyID now newID amount typ refType refID reason =
     \<lparr>le_id = newID, le_account = acc_id acc, le_company = companyID,
      le_currency = dep_currency dep, le_amount = amount, le_type = typ, le_reftype = refType,
      le_refid = refID, le_reason = reason, le_created_at = now\<rparr>"

definition fee_settlementAlreadyRecorded :: "string \<Rightarrow> string \<Rightarrow> bool billing" where
  "fee_settlementAlreadyRecorded companyID settlementRef =
     bindE (ledger_ExistsByReference companyID ''platform_fee_from_deposit'' settlementRef
              LedgerPlatformFeeCaptured) (\<lambda>ok.
     if ok then retE True else
     ledger_ExistsByReference companyID ''platform_fee_from_deposit_zero'' settlementRef
       LedgerBidDepositReleased)"

definition CapturePlatformFeeFromDeposit ::
  "billing_env \<Rightarrow> time \<Rightarrow> string \<Rightarrow> string \<Rightarrow> int \<Rightarrow> unit billing" where
  "CapturePlatformFeeFromDeposit env now companyID auctionID finalPrice =
     (if isBlank companyID \<or> isBlank auctionID then failE ErrInvalidIdentifier
      else if finalPrice < 0 then failE ErrInvalidAmount
      else
      let settlementRef = platformFeeSettlementRef auctionID companyID in
      bindE (fee_settlementAlreadyRecorded companyID settlementRef) (\<lambda>done.
      if done then retE () else
      bindE (accounts_Load companyID) (\<lambda>acc.
      bindE (deposits_Find auctionID companyID) (\<lambda>found.
      case found of
        None \<Rightarrow> failE ErrDepositNotFound
      | Some dep \<Rightarrow>
        if dep_status dep \<noteq> DepositHeld then failE ErrDepositNotHeld else
        let fee = platformFeeFromFinalPrice finalPrice; depositAmount = dep_amount dep in
        if fee \<le> 0 then
          bindE (liftE (acc_Release depositAmount acc)) (\<lambda>acc'.
          bindE (deposits_Save (dep_MarkReleased now dep)) (\<lambda>_.
          bindE (accounts_Save acc') (\<lambda>_.
          bindE (new_id env) (\<lambda>newID.
          ledger_Append (deposit_entry acc dep companyID now newID depositAmount
            LedgerBidDepositReleased ''platform_fee_from_deposit_zero'' settlementRef
            ''PLATFORM_FEE_ZERO'')))))
        else if depositAmount > fee then
          let remainder = sub64 depositAmount fee in
          bindE (liftE (acc_Capture fee acc)) (\<lambda>acc1.
          bindE (liftE (acc_Release remainder acc1)) (\<lambda>acc'.
          bindE (deposits_Save (dep_MarkSettled now dep)) (\<lambda>_.
          bindE (accounts_Save acc') (\<lambda>_.
          bindE (new_id env) (\<lambda>newID.
          bindE (ledger_Append (deposit_entry acc dep companyID now newID fee
            LedgerPlatformFeeCaptured ''platform_fee_from_deposit'' settlementRef
            ''PLATFORM_FEE'')) (\<lambda>_.
          bindE (new_id env) (\<lambda>newID2.
          bindE (ledger_Append (deposit_entry acc dep companyID now newID2 remainder
            LedgerBidDepositReleased ''platform_fee_deposit_remainder''
            (settlementRef @ '':remainder'') ''PLATFORM_FEE_REMAINDER'')) (\<lambda>_.
          publish_if env (dep_auction dep) companyID
            (PlatformFeeCaptured (dep_auction dep) companyID fee (dep_currency dep))))))))))
        else if depositAmount = fee then
          bindE (liftE (acc_Capture depositAmount acc)) (\<lambda>acc'.
          bindE (deposits_Save (dep_MarkCaptured now dep)) (\<lambda>_.
          bindE (accounts_Save acc') (\<lambda>_.
          bindE (new_id env) (\<lambda>newID.
          bindE (ledger_Append (deposit_entry acc dep companyID now newID depositAmount
            LedgerPlatformFeeCaptured ''platform_fee_from_deposit'' settlementRef
            ''PLATFORM_FEE'')) (\<lambda>_.
          publish_if env (dep_auction dep) companyID
            (PlatformFeeCaptured (dep_auction dep) companyID depositAmount (dep_currency dep)))))))
        else
          bindE (liftE (acc_Capture depositAmount acc)) (\<lambda>acc'.
          bindE (deposits_Save (dep_MarkCaptured now dep)) (\<lambda>_.
          bindE (accounts_Save acc') (\<lambda>_.
          bindE (new_id env) (\<lambda>newID.
          bindE (ledger_Append (deposit_entry acc dep companyID now newID depositAmount
            LedgerPlatformFeeCaptured ''platform_fee_from_deposit'' settlementRef
            ''PLATFORM_FEE'')) (\<lambda>_.
          let due = sub64 fee depositAmount in
          bindE (new_id env) (\<lambda>newID2.
          bindE (ledger_Append (deposit_entry acc dep companyID now newID2 due
            LedgerPlatformFeeDue ''platform_fee_due'' (settlementRef @ '':due'')
            ''PLATFORM_FEE_DUE'')) (\<lambda>_.
          bindE (publish_if env (dep_auction dep) companyID
            (PlatformFeeCaptured (dep_auction dep) companyID depositAmount (dep_currency dep)))
            (\<lambda>_.
          publish_if env (dep_auction dep) companyID
            (PlatformFeePaymentRequired (dep_auction dep) companyID due (dep_currency dep))
            ))))))))))))"

subsection \<open>SettleWinnerDepositAfterInvoicePaid\<close>

definition settlementLedgerReason :: "string \<Rightarrow> string \<Rightarrow> string" where
  "settlementLedgerReason scenario entryKind =
     (if isBlank scenario then entryKind else scenario @ '':'' @ entryKind)"

definition settle_settlementAlreadyRecorded :: "string \<Rightarrow> string \<Rightarrow> bool billing" where
  "settle_settlementAlreadyRecorded companyID settlementRef =
     (let check = ledger_ExistsByReference companyID ''winner_deposit_after_invoice'' in
      bindE (check settlementRef LedgerPlatformFeeCaptured) (\<lambda>ok1. if ok1 then retE True else
      bindE (check (settlementRef @ '':remainder'') LedgerBidDepositReleased) (\<lambda>ok2.
        if ok2 then retE True else
      bindE (check (settlementRef @ '':full_release'') LedgerBidDepositReleased) (\<lambda>ok3.
        if ok3 then retE True else
      check (settlementRef @ '':fee_zero'') LedgerBidDepositReleased))))"

definition appendFeeLedger ::
  "billing_env \<Rightarrow> account \<Rightarrow> string \<Rightarrow> auction_deposit \<Rightarrow> int \<Rightarrow> string \<Rightarrow> string \<Rightarrow> time \<Rightarrow> unit billing"
where
  "appendFeeLedger env acc companyID dep amount settlementRef reason now =
     bindE (new_id env) (\<lambda>newID.
     ledger_Append (deposit_entry acc dep companyID now newID amount LedgerPlatformFeeCaptured
       ''winner_deposit_after_invoice'' settlementRef
       (settlementLedgerReason reason ''PLATFORM_FEE_AFTER_INVOICE'')))"

definition appendReleaseLedger ::
  "billing_env \<Rightarrow> account \<Rightarrow> string \<Rightarrow> auction_deposit \<Rightarrow> int \<Rightarrow> string \<Rightarrow> string \<Rightarrow> time \<Rightarrow> unit billing"
where
  "appendReleaseLedger env acc companyID dep amount referenceID reason now =
     bindE (new_id env) (\<lambda>newID.
     ledger_Append (deposit_entry acc dep companyID now newID amount LedgerBidDepositReleased
       ''winner_deposit_after_invoice'' referenceID
       (settlementLedgerReason reason ''DEPOSIT_RELEASE_AFTER_INVOICE'')))"

definition publishCaptured ::
  "billing_env \<Rightarrow> auction_deposit \<Rightarrow> string \<Rightarrow> int \<Rightarrow> unit billing" where
  "publishCaptured env dep companyID amount =
     publish_if env (dep_auction dep) companyID
       (PlatformFeeCaptured (dep_auction dep) companyID amount (dep_currency dep))"

definition releaseFullDeposit ::
  "billing_env \<Rightarrow> account \<Rightarrow> auction_deposit \<Rightarrow> string \<Rightarrow> string \<Rightarrow> string \<Rightarrow> time \<Rightarrow> unit billing"
where
  "releaseFullDeposit env acc dep companyID settlementRef reason now =
     (let amount = dep_amount dep in
      bindE (liftE (acc_Release amount acc)) (\<lambda>acc'.
      bindE (deposits_Save (dep_MarkReleased now dep)) (\<lambda>_.
      bindE (accounts_Save acc') (\<lambda>_.
      appendReleaseLedger env acc companyID dep amount (settlementRef @ '':fee_zero'') reason now))))"

definition SettleWinnerDepositAfterInvoicePaid ::
  "billing_env \<Rightarrow> time \<Rightarrow> string \<Rightarrow> string \<Rightarrow> int \<Rightarrow> int \<Rightarrow> string \<Rightarrow> unit billing" where
  "SettleWinnerDepositAfterInvoicePaid env now auctionID companyID goodsAmount
       platformFeeOutstandingPaid reason =
     (if isBlank auctionID \<or> isBlank companyID then failE ErrInvalidIdentifier
      else if goodsAmount \<le> 0 then failE ErrInvalidAmount
      else
      bindE (deposits_Find auctionID companyID) (\<lambda>found.
      case found of
        None \<Rightarrow> failE ErrDepositNotFound
      | Some dep \<Rightarrow>
        if dep_status dep \<noteq> DepositHeld then retE () else
        let fee = platformFeeFromFinalPrice goodsAmount;
            d = sub64 fee (dep_amount dep);
            expectedDue = (if d < 0 then 0 else d) in
        if platformFeeOutstandingPaid \<noteq> expectedDue then failE ErrPlatformFeeDueMismatch else
        let settlementRef = platformFeeSettlementRef auctionID companyID in
        bindE (settle_settlementAlreadyRecorded companyID settlementRef) (\<lambda>done.
        if done then retE () else
        bindE (accounts_Load companyID) (\<lambda>acc.
        if fee \<le> 0 then releaseFullDeposit env acc dep companyID settlementRef reason now
        else
        let captureAmount = (if fee < dep_amount dep then fee else dep_amount dep);
            releaseAmount = sub64 (dep_amount dep) captureAmount in
        if captureAmount > 0 \<and> releaseAmount > 0 then
          bindE (liftE (acc_Capture captureAmount acc)) (\<lambda>acc1.
          bindE (liftE (acc_Release releaseAmount acc1)) (\<lambda>acc'.
          bindE (deposits_Save (dep_MarkSettled now dep)) (\<lambda>_.
          bindE (accounts_Save acc') (\<lambda>_.
          bindE (appendFeeLedger env acc companyID dep captureAmount settlementRef reason now) (\<lambda>_.
          bindE (appendReleaseLedger env acc companyID dep releaseAmount
            (settlementRef @ '':remainder'') reason now) (\<lambda>_.
          publishCaptured env dep companyID captureAmount))))))
        else if captureAmount > 0 \<and> releaseAmount = 0 then
          bindE (liftE (acc_Capture captureAmount acc)) (\<lambda>acc'.
          bindE (deposits_Save (dep_MarkCaptured now dep)) (\<lambda>_.
          bindE (accounts_Save acc') (\<lambda>_.
          bindE (appendFeeLedger env acc companyID dep captureAmount settlementRef reason now) (\<lambda>_.
          publishCaptured env dep companyID captureAmount))))
        else
          bindE (liftE (acc_Release releaseAmount acc)) (\<lambda>acc'.
          bindE (deposits_Save (dep_MarkReleased now dep)) (\<lambda>_.
          bindE (accounts_Save acc') (\<lambda>_.
          appendReleaseLedger env acc companyID dep releaseAmount
            (settlementRef @ '':full_release'') reason now)))))))"

end
