(* ===== verification/Billing_Payments.thy ===== *)
theory Billing_Payments
  imports Billing_Deposits
begin

section \<open>Top-ups, invoices and payouts: the use cases (internal/billing/app)\<close>

text \<open>
  As in Billing\_Deposits, one definition per use case. The payment provider is the part of
  \<open>billing_env\<close> the code reaches through the interface \<open>PaymentProvider\<close>; \<open>fake_provider_*\<close> is
  the provider of the package \<open>payment/fake\<close>, without the webhook it may call later.
\<close>

text \<open>\<open>x, err := load(); if err == nil { ... }; if !errors.Is(err, notFound) { return err }\<close>\<close>

definition try_load :: "billing_error \<Rightarrow> 'a billing \<Rightarrow> 'a option billing" where
  "try_load notFound m = catchE (bindE m (\<lambda>x. retE (Some x)))
     (\<lambda>e. if e = notFound then retE None else failE e)"

definition from_provider :: "'a option \<Rightarrow> 'a billing" where
  "from_provider r = optE ProviderError r"

definition fake_provider_top_up :: "top_up_request \<Rightarrow> (string \<times> string) option" where
  "fake_provider_top_up req = Some (''fake-pay-'' @ tur_id req,
     ''/billing/top-ups/'' @ tur_id req @ ''/fake-confirm'')"

definition trim_right_slash :: "string \<Rightarrow> string" where
  "trim_right_slash s = rev (dropWhile (\<lambda>c. c = CHR ''/'') (rev s))"

definition fake_provider_invoice :: "invoice_request \<Rightarrow> (string \<times> string) option" where
  "fake_provider_invoice req =
     (let rel = ''/billing/invoices/'' @ ivr_id req @ ''/fake-confirm'';
          b = trim_right_slash (ivr_return_url req) in
      Some (''fake-inv-'' @ ivr_id req, if b \<noteq> '''' then b @ rel else rel))"

subsection \<open>CreateTopUp\<close>

definition CreateTopUp :: "billing_env \<Rightarrow> time \<Rightarrow> string \<Rightarrow> int \<Rightarrow> currency \<Rightarrow> top_up billing" where
  "CreateTopUp env now companyID amount cur =
     (if isBlank companyID then failE ErrInvalidIdentifier
      else if amount \<le> 0 then failE ErrInvalidAmount
      else if cur \<noteq> CurrencyRUB then failE ErrUnsupportedCurrency
      else
      bindE (CreateAccount env companyID) (\<lambda>_.
      bindE (accounts_Load companyID) (\<lambda>acc.
      bindE (new_id env) (\<lambda>topUpID.
      bindE (liftE (NewTopUp topUpID companyID (acc_id acc) amount cur (env_provider env) now)) (\<lambda>tu.
      bindE (top_ups_Create tu) (\<lambda>_.
      bindE (from_provider (env_create_top_up env \<lparr>tur_id = topUpID, tur_company = companyID,
               tur_amount = amount, tur_currency = cur, tur_return_url = env_return_url env\<rparr>)) (\<lambda>resp.
      bindE (liftE (tu_AttachProviderPayment (fst resp) (snd resp) tu)) (\<lambda>tu'.
      bindE (top_ups_Save tu') (\<lambda>_.
      retE tu')))))))))"

subsection \<open>ConfirmTopUp and ConfirmTopUpByProvider\<close>

definition ConfirmTopUp :: "billing_env \<Rightarrow> time \<Rightarrow> string \<Rightarrow> int \<Rightarrow> string \<Rightarrow> unit billing" where
  "ConfirmTopUp env now companyID amount externalPaymentID =
     (if isBlank companyID \<or> isBlank externalPaymentID then failE ErrInvalidIdentifier
      else if amount \<le> 0 then failE ErrInvalidAmount
      else
      bindE (accounts_Load companyID) (\<lambda>acc.
      bindE (processed_InsertIfNew externalPaymentID companyID (acc_id acc) amount) (\<lambda>inserted.
      if \<not> inserted then retE () else
      bindE (liftE (acc_Deposit amount acc)) (\<lambda>acc'.
      bindE (accounts_Save acc') (\<lambda>_.
      bindE (new_id env) (\<lambda>newID.
      bindE (ledger_Append \<lparr>le_id = newID, le_account = acc_id acc, le_company = companyID,
          le_currency = CurrencyRUB, le_amount = amount, le_type = LedgerTopUpConfirmed,
          le_reftype = ''external_payment'', le_refid = externalPaymentID, le_reason = ''TOP_UP'',
          le_created_at = now\<rparr>) (\<lambda>_.
      publish_if env (acc_id acc) companyID
        (BalanceToppedUp (acc_id acc) companyID amount CurrencyRUB))))))))"

definition confirm_executeLoaded ::
  "billing_env \<Rightarrow> time \<Rightarrow> time \<Rightarrow> top_up \<Rightarrow> int \<Rightarrow> currency \<Rightarrow> unit billing" where
  "confirm_executeLoaded env now now2 tu amount cur =
     (if tu_status tu = TopUpSucceeded then retE ()
      else if tu_status tu \<noteq> TopUpPending then failE ErrInvalidTopUpStatus
      else if amount \<noteq> tu_amount tu \<or> cur \<noteq> tu_currency tu then failE ErrTopUpAmountMismatch
      else
      bindE (ConfirmTopUp env now (tu_company tu) amount (tu_payment_id tu)) (\<lambda>_.
      bindE (liftE (tu_MarkSucceeded now2 tu)) (\<lambda>tu'.
      top_ups_Save tu')))"

definition ConfirmTopUpByProvider ::
  "billing_env \<Rightarrow> time \<Rightarrow> time \<Rightarrow> string \<Rightarrow> string \<Rightarrow> int \<Rightarrow> currency \<Rightarrow> unit billing" where
  "ConfirmTopUpByProvider env now now2 provider paymentID amount cur =
     (if isBlank provider \<or> isBlank paymentID then failE ErrInvalidIdentifier else
      bindE (top_ups_LoadByProviderPayment provider paymentID) (\<lambda>tu.
      confirm_executeLoaded env now now2 tu amount cur))"

definition ConfirmTopUpByTopUpID :: "billing_env \<Rightarrow> time \<Rightarrow> time \<Rightarrow> string \<Rightarrow> unit billing" where
  "ConfirmTopUpByTopUpID env now now2 topUpID =
     (if isBlank topUpID then failE ErrInvalidIdentifier else
      bindE (top_ups_Load topUpID) (\<lambda>tu.
      confirm_executeLoaded env now now2 tu (tu_amount tu) (tu_currency tu)))"

subsection \<open>CreateDealInvoice\<close>

record create_invoice_command =
  cic_deal :: string
  cic_auction :: string
  cic_buyer :: string
  cic_seller :: string
  cic_goods :: int
  cic_currency :: currency
  cic_due :: time

definition invoice_held :: "string \<Rightarrow> string \<Rightarrow> int billing" where
  "invoice_held auctionID buyerID =
     (if isBlank auctionID then retE 0 else
      bindE (deposits_Find auctionID buyerID) (\<lambda>found.
      case found of
        None \<Rightarrow> failE NilDereference
      | Some dep \<Rightarrow> retE (if dep_status dep = DepositHeld then dep_amount dep else 0)))"

definition effective_due :: "time \<Rightarrow> time \<Rightarrow> time" where
  "effective_due now requested =
     (let due = (if requested = 0 then now + hours 24 else requested) in
      if due < now then now + hours 24 else due)"

definition CreateDealInvoice ::
  "billing_env \<Rightarrow> time \<Rightarrow> create_invoice_command \<Rightarrow> deal_invoice billing" where
  "CreateDealInvoice env now cmd =
     (if isBlank (cic_deal cmd) \<or> isBlank (cic_buyer cmd) \<or> isBlank (cic_seller cmd)
        then failE ErrInvalidIdentifier
      else if cic_buyer cmd = cic_seller cmd then failE ErrInvalidDealInvoice
      else if cic_goods cmd \<le> 0 then failE ErrInvalidAmount
      else if cic_currency cmd \<noteq> CurrencyRUB then failE ErrUnsupportedCurrency
      else
      bindE (try_load ErrDealInvoiceNotFound (invoices_LoadByDealID (cic_deal cmd))) (\<lambda>existing.
      case existing of
        Some i \<Rightarrow> retE i
      | None \<Rightarrow>
      bindE (invoice_held (cic_auction cmd) (cic_buyer cmd)) (\<lambda>held.
      let fee = platformFeeFromFinalPrice (cic_goods cmd);
          d = sub64 fee held;
          feeDue = (if d < 0 then 0 else d);
          due = effective_due now (cic_due cmd) in
      bindE (new_id env) (\<lambda>invID.
      bindE (liftE (NewDealInvoice invID (cic_deal cmd) (cic_auction cmd) (cic_buyer cmd)
               (cic_seller cmd) (cic_goods cmd) feeDue (cic_currency cmd) (env_provider env) due now))
        (\<lambda>i.
      bindE (invoices_Create i) (\<lambda>_.
      bindE (from_provider (env_create_invoice env \<lparr>ivr_id = invID, ivr_deal = cic_deal cmd,
               ivr_buyer = cic_buyer cmd, ivr_seller = cic_seller cmd, ivr_amount = inv_total i,
               ivr_currency = cic_currency cmd, ivr_due = due, ivr_return_url = env_base_url env\<rparr>))
        (\<lambda>resp.
      bindE (liftE (inv_AttachProvider (fst resp) (snd resp) i)) (\<lambda>i'.
      bindE (invoices_Save i') (\<lambda>_.
      bindE (catchE (publish_if env (inv_deal i') (inv_buyer i')
               (DealInvoiceCreated (inv_id i') (inv_deal i') (inv_auction i') (inv_buyer i')
                  (inv_seller i') (inv_goods i') (inv_fee_due i') (inv_total i') (inv_currency i')
                  (inv_url i') (inv_due_at i') (inv_created_at i'))) (\<lambda>_. retE ())) (\<lambda>_.
      retE i'))))))))))"

subsection \<open>ConfirmDealInvoicePaid and ExpireDealInvoice\<close>

definition ConfirmDealInvoicePaid :: "billing_env \<Rightarrow> time \<Rightarrow> string \<Rightarrow> unit billing" where
  "ConfirmDealInvoicePaid env paidAt invoiceID =
     (if isBlank invoiceID then failE ErrInvalidIdentifier else
      bindE (invoices_LoadByID invoiceID) (\<lambda>i.
      if inv_status i \<in> {InvoiceExpired, InvoiceCancelled, InvoiceFailed}
        then failE ErrInvoiceNotPayable else
      let alreadyPaid = (inv_status i = InvoicePaid) in
      bindE (liftE (inv_MarkPaidIdempotent (inv_total i) (inv_currency i) paidAt i)) (\<lambda>i'.
      if alreadyPaid then retE () else
      bindE (invoices_Save i') (\<lambda>_.
      publish_if env (inv_deal i') (inv_buyer i')
        (DealInvoicePaid (inv_id i') (inv_deal i') (inv_auction i') (inv_buyer i') (inv_goods i')
           (inv_fee_due i') (inv_total i') (inv_currency i') paidAt)))))"

definition ExpireDealInvoice :: "billing_env \<Rightarrow> time \<Rightarrow> string \<Rightarrow> unit billing" where
  "ExpireDealInvoice env now invoiceID =
     (if isBlank invoiceID then failE ErrInvalidIdentifier else
      bindE (invoices_LoadByID invoiceID) (\<lambda>i.
      if inv_status i \<in> {InvoicePaid, InvoiceExpired} then retE ()
      else if inv_status i \<noteq> InvoicePaymentPending then failE ErrInvoiceNotExpirable
      else if inv_due_at i > now then failE ErrInvoiceNotExpired
      else
      bindE (liftE (inv_MarkExpired now i)) (\<lambda>i'.
      bindE (invoices_Save i') (\<lambda>_.
      publish_if env (inv_deal i') (inv_buyer i')
        (DealInvoiceExpired (inv_id i') (inv_deal i') (inv_auction i') (inv_buyer i')
           (inv_total i') (inv_currency i') now)))))"

subsection \<open>Seller payouts\<close>

record create_payout_command =
  cpc_deal :: string
  cpc_auction :: string
  cpc_buyer :: string
  cpc_goods :: int
  cpc_fee_due :: int

definition CreateSellerPayout ::
  "billing_env \<Rightarrow> time \<Rightarrow> create_payout_command \<Rightarrow> seller_payout billing" where
  "CreateSellerPayout env now cmd =
     (if isBlank (cpc_deal cmd) \<or> isBlank (cpc_auction cmd) \<or> isBlank (cpc_buyer cmd)
        then failE ErrInvalidIdentifier
      else if cpc_goods cmd \<le> 0 then failE ErrInvalidAmount
      else
      bindE (try_load ErrSellerPayoutNotFound (payouts_LoadByDealID (cpc_deal cmd))) (\<lambda>existing.
      case existing of
        Some p \<Rightarrow> retE p
      | None \<Rightarrow>
      bindE (invoices_LoadByDealID (cpc_deal cmd)) (\<lambda>i.
      if inv_status i \<noteq> InvoicePaid then failE ErrInvoiceNotPayable
      else if inv_auction i \<noteq> cpc_auction cmd then failE ErrSellerPayoutInvoiceMismatch
      else if inv_buyer i \<noteq> cpc_buyer cmd then failE ErrSellerPayoutInvoiceMismatch
      else if inv_goods i \<noteq> cpc_goods cmd then failE ErrSellerPayoutInvoiceMismatch
      else if inv_fee_due i \<noteq> cpc_fee_due cmd then failE ErrSellerPayoutInvoiceMismatch
      else if inv_buyer i = inv_seller i then failE ErrInvalidSellerPayout
      else
      bindE (new_id env) (\<lambda>newID.
      bindE (liftE (NewSellerPayout newID (inv_deal i) (inv_id i) (inv_auction i) (inv_seller i)
               (inv_buyer i) (inv_goods i) (inv_currency i) SellerPayoutPending now)) (\<lambda>payout.
      bindE (catchE (bindE (payouts_Create payout) (\<lambda>_. retE None)) (\<lambda>e.
           if e = DbUniqueViolation
           then bindE (payouts_LoadByDealID (cpc_deal cmd)) (\<lambda>p. retE (Some p)) else failE e))
        (\<lambda>other. case other of
            Some p \<Rightarrow> retE p
          | None \<Rightarrow>
            bindE (publish_if env (inv_deal i) (inv_seller i)
              (SellerPayoutCreated (sp_id payout) (sp_deal payout) (sp_invoice payout)
                 (sp_auction payout) (sp_seller payout) (sp_buyer payout) (sp_amount payout)
                 (sp_currency payout) (sp_created_at payout))) (\<lambda>_.
            retE payout)))))))"

definition MarkSellerPayoutReady :: "billing_env \<Rightarrow> time \<Rightarrow> string \<Rightarrow> seller_payout billing" where
  "MarkSellerPayoutReady env now payoutID =
     (if isBlank payoutID then failE ErrInvalidIdentifier else
      bindE (payouts_LoadByID payoutID) (\<lambda>p.
      if sp_status p \<in> {SellerPayoutReady, SellerPayoutPaid} then retE p
      else if sp_status p \<noteq> SellerPayoutPending then failE ErrSellerPayoutWrongStatus
      else
      bindE (liftE (sp_MarkReady now p)) (\<lambda>p'.
      bindE (payouts_Save p') (\<lambda>_.
      bindE (publish_if env (sp_deal p') (sp_seller p')
        (SellerPayoutMarkedReady (sp_id p') (sp_deal p') (sp_invoice p') (sp_seller p')
           (sp_amount p') (sp_currency p') now)) (\<lambda>_.
      retE p')))))"

definition MarkSellerPayoutFailed :: "time \<Rightarrow> string \<Rightarrow> seller_payout billing" where
  "MarkSellerPayoutFailed now payoutID =
     (if isBlank payoutID then failE ErrInvalidIdentifier else
      bindE (payouts_LoadByID payoutID) (\<lambda>p.
      bindE (liftE (sp_MarkFailed now p)) (\<lambda>p'.
      bindE (payouts_Save p') (\<lambda>_.
      retE p'))))"

definition payout_entry :: "account \<Rightarrow> seller_payout \<Rightarrow> string \<Rightarrow> time \<Rightarrow> ledger_entry" where
  "payout_entry acc p newID now =
     \<lparr>le_id = newID, le_account = acc_id acc, le_company = sp_seller p, le_currency = sp_currency p,
      le_amount = sp_amount p, le_type = LedgerSellerPayoutCredited, le_reftype = ''seller_payout'',
      le_refid = sp_id p, le_reason = ''SELLER_PAYOUT_PAID'', le_created_at = now\<rparr>"

definition publish_paid :: "billing_env \<Rightarrow> seller_payout \<Rightarrow> time \<Rightarrow> unit billing" where
  "publish_paid env p now = publish_if env (sp_deal p) (sp_seller p)
     (SellerPayoutMarkedPaid (sp_id p) (sp_deal p) (sp_invoice p) (sp_seller p) (sp_amount p)
        (sp_currency p) now)"

definition payout_credited :: "seller_payout \<Rightarrow> bool billing" where
  "payout_credited p =
     ledger_ExistsByReference (sp_seller p) ''seller_payout'' (sp_id p) LedgerSellerPayoutCredited"

definition MarkSellerPayoutPaid :: "billing_env \<Rightarrow> time \<Rightarrow> string \<Rightarrow> seller_payout billing" where
  "MarkSellerPayoutPaid env now payoutID =
     (if isBlank payoutID then failE ErrInvalidIdentifier else
      bindE (payouts_LoadByID payoutID) (\<lambda>p.
      bindE (payout_credited p) (\<lambda>credited.
      if sp_status p = SellerPayoutPaid then
        (if credited then retE p else
         bindE (CreateAccount env (sp_seller p)) (\<lambda>_.
         bindE (accounts_Load (sp_seller p)) (\<lambda>acc.
         if acc_currency acc \<noteq> sp_currency p then failE ErrInvoiceCurrencyMismatch else
         bindE (new_id env) (\<lambda>newID.
         bindE (ledger_Append (payout_entry acc p newID now)) (\<lambda>_.
         retE p)))))
      else if sp_status p \<noteq> SellerPayoutReady then failE ErrSellerPayoutWrongStatus
      else if credited then
        bindE (liftE (sp_MarkPaid now p)) (\<lambda>p'.
        bindE (payouts_Save p') (\<lambda>_.
        bindE (publish_paid env p' now) (\<lambda>_.
        retE p')))
      else
        bindE (CreateAccount env (sp_seller p)) (\<lambda>_.
        bindE (accounts_Load (sp_seller p)) (\<lambda>acc.
        if acc_currency acc \<noteq> sp_currency p then failE ErrInvoiceCurrencyMismatch else
        bindE (liftE (acc_Deposit (sp_amount p) acc)) (\<lambda>acc'.
        bindE (liftE (sp_MarkPaid now p)) (\<lambda>p'.
        bindE (accounts_Save acc') (\<lambda>_.
        bindE (payouts_Save p') (\<lambda>_.
        bindE (new_id env) (\<lambda>newID.
        bindE (payout_credited p') (\<lambda>dup.
        bindE (if dup then retE () else ledger_Append (payout_entry acc p' newID now)) (\<lambda>_.
        bindE (publish_paid env p' now) (\<lambda>_.
        retE p')))))))))))))"

end
