(* ===== verification/Billing_Correct.thy ===== *)
theory Billing_Correct
  imports Billing_Invariant Billing_Payments
begin

section \<open>Every use case keeps the books\<close>

text \<open>\<open>keeps env m\<close>: whenever \<open>m\<close> succeeds from a store with the invariant, the invariant holds
  afterwards.\<close>

definition keeps :: "billing_env \<Rightarrow> 'a billing \<Rightarrow> bool" where
  "keeps env m \<longleftrightarrow> (\<forall>s. billing_inv env s \<longrightarrow> wpE m (\<lambda>_. billing_inv env) (\<lambda>_ _. True) s)"

lemma inv_accounts: "billing_inv env s \<Longrightarrow> accounts_wf (bs_accounts s)"
  by (simp add: billing_inv_def billing_ok_def)

lemma ledger_key_simp [simp]:
  "ledger_key \<lparr>le_id = i, le_account = a, le_company = c, le_currency = cu, le_amount = n,
     le_type = ty, le_reftype = rt, le_refid = r, le_reason = w, le_created_at = t\<rparr> = (c, rt, r, ty)"
  by (simp add: ledger_key_def)

lemma new_id_fresh:
  "billing_inv env s \<Longrightarrow> e \<in> set (bs_ledger s) \<Longrightarrow> le_id e \<noteq> env_id env (bs_ids s)"
  unfolding billing_inv_def billing_ok_def ledger_wf_def by (metis imageE injD lessThan_iff less_irrefl)

subsection \<open>Introduction rules for the building blocks\<close>

text \<open>
  A verification condition generator: the rules take a method apart, drop the branches that
  return an error and leave what has to hold where it succeeds.
\<close>

named_theorems wp_intro \<open>rules that take a use case apart\<close>

abbreviation ok_wp :: "'a billing \<Rightarrow> ('a \<Rightarrow> billing_store \<Rightarrow> bool) \<Rightarrow> billing_store \<Rightarrow> bool" where
  "ok_wp m Q s \<equiv> wpE m Q (\<lambda>_ _. True) s"

lemma ok_bind [wp_intro]: "ok_wp m (\<lambda>a. ok_wp (f a) Q) s \<Longrightarrow> ok_wp (bindE m f) Q s"
  by (simp add: wp_simps)

lemma ok_ret [wp_intro]: "Q a s \<Longrightarrow> ok_wp (retE a) Q s"
  by (simp add: wp_simps)

lemma ok_fail [wp_intro]: "ok_wp (failE e) Q s"
  by (simp add: wp_simps)

lemma ok_if [wp_intro]:
  "(b \<Longrightarrow> ok_wp m Q s) \<Longrightarrow> (\<not> b \<Longrightarrow> ok_wp n Q s) \<Longrightarrow> ok_wp (if b then m else n) Q s"
  by simp

lemma ok_case_option [wp_intro]:
  "(x = None \<Longrightarrow> ok_wp m Q s) \<Longrightarrow> (\<And>a. x = Some a \<Longrightarrow> ok_wp (f a) Q s)
     \<Longrightarrow> ok_wp (case x of None \<Rightarrow> m | Some a \<Rightarrow> f a) Q s"
  by (cases x) auto

lemma ok_lift [wp_intro]: "(\<And>a. r = Inr a \<Longrightarrow> Q a s) \<Longrightarrow> ok_wp (liftE r) Q s"
  by (simp add: wp_simps split: sum.split)

lemma ok_lift_err [wp_intro]:
  "(\<And>a. r = Inr a \<Longrightarrow> Q a s) \<Longrightarrow> ok_wp (catchE (liftE r) (\<lambda>e. failE (h e))) Q s"
  by (simp add: wp_simps split: sum.split)

lemma ok_new_id [wp_intro]:
  "Q (env_id env (bs_ids s)) (s\<lparr>bs_ids := Suc (bs_ids s)\<rparr>) \<Longrightarrow> ok_wp (new_id env) Q s"
  by (simp add: wp_simps)

lemma ok_exists [wp_intro]:
  "Q (list_ex (\<lambda>r. acc_company r = c) (bs_accounts s)) s \<Longrightarrow> ok_wp (accounts_ExistsByCompany c) Q s"
  by (simp add: wp_simps accounts_ExistsByCompany_def)

lemma ok_account_create [wp_intro]:
  "(\<not> list_ex (\<lambda>r. acc_id r = acc_id a \<or> acc_company r = acc_company a) (bs_accounts s) \<Longrightarrow>
      Q () (s\<lparr>bs_accounts := bs_accounts s @ [a]\<rparr>)) \<Longrightarrow> ok_wp (accounts_Create a) Q s"
  by (simp add: wp_simps)

lemma ok_load [wp_intro]:
  assumes "\<And>a. a \<in> set (bs_accounts s) \<Longrightarrow> acc_company a = c \<Longrightarrow> acc_available a \<ge> 0 \<Longrightarrow>
      acc_held a \<ge> 0 \<Longrightarrow> Q a s"
  shows "ok_wp (accounts_Load c) Q s"
proof (cases "row_select (\<lambda>r. acc_company r = c) (bs_accounts s)")
  case (Some r)
  then have r: "r \<in> set (bs_accounts s)" "acc_company r = c"
    by (auto dest: row_select_SomeD)
  have "a = r" if "RehydrateAccount (acc_id r) (acc_company r) (acc_currency r) (acc_available r)
      (acc_held r) = Inr a" for a
    using that by (cases r) (simp add: RehydrateAccount_iff)
  with Some r show ?thesis
    using assms [of r] by (auto simp: wp_simps split: sum.split) (simp add: RehydrateAccount_iff)
qed (simp add: wp_simps)

lemma ok_save [wp_intro]:
  "(0 \<le> acc_available a \<Longrightarrow> 0 \<le> acc_held a \<Longrightarrow> Q () (s\<lparr>bs_accounts :=
      set_account (acc_id a) (acc_available a) (acc_held a) (bs_accounts s)\<rparr>))
    \<Longrightarrow> ok_wp (accounts_Save a) Q s"
  by (simp add: wp_simps)

lemma ok_find [wp_intro]:
  assumes "\<And>d. d \<in> set (bs_deposits s) \<Longrightarrow> dep_auction d = a \<Longrightarrow> dep_company d = c \<Longrightarrow> Q (Some d) s"
    and "(\<And>d. d \<in> set (bs_deposits s) \<Longrightarrow> \<not> (dep_auction d = a \<and> dep_company d = c)) \<Longrightarrow> Q None s"
  shows "ok_wp (deposits_Find a c) Q s"
proof (cases "row_select (\<lambda>d. dep_auction d = a \<and> dep_company d = c) (bs_deposits s)")
  case None
  then have "Q None s"
    by (intro assms(2)) (simp add: row_select_None_iff)
  with None show ?thesis by (simp add: deposits_Find_def wpE_read)
next
  case (Some d)
  then have "Q (Some d) s"
    by (intro assms(1)) (auto dest: row_select_SomeD)
  with Some show ?thesis by (simp add: deposits_Find_def wpE_read)
qed

lemma ok_deposit_create [wp_intro]:
  assumes "0 < dep_amount d \<Longrightarrow> dep_key d \<notin> dep_key ` set (bs_deposits s) \<Longrightarrow>
      Q () (s\<lparr>bs_deposits := bs_deposits s @ [d\<lparr>dep_released_at := None, dep_captured_at := None\<rparr>]\<rparr>)"
  shows "ok_wp (deposits_Create d) Q s"
proof -
  have "dep_key d \<notin> dep_key ` set (bs_deposits s)"
    if "\<not> list_ex (\<lambda>r. dep_auction r = dep_auction d \<and> dep_company r = dep_company d) (bs_deposits s)"
    using that by (auto simp: dep_key_def list_ex_iff)
  then show ?thesis using assms by (simp add: wpE_deposits_Create)
qed

lemma ok_deposit_save:
  "Q () (s\<lparr>bs_deposits := close_deposit d (dep_status d) (dep_released_at d) (dep_captured_at d)
      (bs_deposits s)\<rparr>) \<Longrightarrow> ok_wp (deposits_Save d) Q s"
  by (simp add: wp_simps)

lemma ok_ledger_exists [wp_intro]:
  "Q ((c, rt, r, ty) \<in> ledger_key ` set (bs_ledger s)) s \<Longrightarrow>
    ok_wp (ledger_ExistsByReference c rt r ty) Q s"
  by (simp add: wp_simps ledger_ExistsByReference_def list_ex_iff image_iff eq_commute)

lemma ok_append [wp_intro]:
  assumes "0 < le_amount e \<Longrightarrow> ledger_key e \<notin> ledger_key ` set (bs_ledger s)
      \<and> le_id e \<notin> le_id ` set (bs_ledger s)"
    and "0 < le_amount e \<Longrightarrow> Q () (s\<lparr>bs_ledger := bs_ledger s @ [e]\<rparr>)"
  shows "ok_wp (ledger_Append e) Q s"
proof (cases "0 < le_amount e")
  case True
  then have "\<not> list_ex (\<lambda>r. le_id r = le_id e \<or> ledger_key r = ledger_key e) (bs_ledger s)"
    using assms(1) by (auto simp: list_ex_iff image_iff)
  then show ?thesis using assms(2) True by (simp add: wpE_ledger_Append)
qed (simp add: wpE_ledger_Append)

lemma ok_publish_inv [wp_intro]:
  assumes "billing_inv env s"
  shows "ok_wp (publish_if env a c ev) (\<lambda>_. billing_inv env) s"
  using assms billing_ok_ids by (auto simp: wp_simps billing_inv_def)

subsection \<open>What the account methods do to stored accounts\<close>

lemma exact_sub: "is_int64 b \<Longrightarrow> is_int64 n \<Longrightarrow> 0 < n \<Longrightarrow> n \<le> b \<Longrightarrow>
    sub64 b n = b - n \<and> is_int64 (b - n)"
  using sub64_nonneg_exact [of b n] is_int64_wrap64 [of "b - n"] by (simp add: sub64_def)

lemma exact_add: "is_int64 b \<Longrightarrow> is_int64 n \<Longrightarrow> 0 \<le> b \<Longrightarrow> 0 < n \<Longrightarrow> 0 \<le> add64 b n \<Longrightarrow>
    add64 b n = b + n \<and> is_int64 (b + n)"
  by (metis add64_def add64_nonneg_exact is_int64_wrap64 less_imp_le)

lemma exact_reserve:
  assumes "acc_ok a" "is_int64 n" "acc_Reserve n a = Inr a'" "0 \<le> acc_held a'"
  shows "acc_id a' = acc_id a \<and> acc_available a' = acc_available a - n \<and> acc_held a' = acc_held a + n
    \<and> acc_ok a'"
  using assms exact_sub [of "acc_available a" n] exact_add [of "acc_held a" n]
  by (simp add: acc_Reserve_iff acc_ok_def)

lemma exact_release:
  assumes "acc_ok a" "is_int64 n" "acc_Release n a = Inr a'" "0 \<le> acc_available a'"
  shows "acc_id a' = acc_id a \<and> acc_available a' = acc_available a + n \<and> acc_held a' = acc_held a - n
    \<and> acc_ok a'"
  using assms exact_sub [of "acc_held a" n] exact_add [of "acc_available a" n]
  by (simp add: acc_Release_iff acc_ok_def)

lemma exact_capture:
  assumes "acc_ok a" "is_int64 n" "acc_Capture n a = Inr a'"
  shows "acc_id a' = acc_id a \<and> acc_available a' = acc_available a \<and> acc_held a' = acc_held a - n
    \<and> acc_ok a'"
  using assms exact_sub [of "acc_held a" n]
  by (simp add: acc_Capture_iff acc_ok_def)

lemma exact_deposit:
  assumes "acc_ok a" "is_int64 n" "acc_Deposit n a = Inr a'" "0 \<le> acc_available a'"
  shows "acc_id a' = acc_id a \<and> acc_available a' = acc_available a + n \<and> acc_held a' = acc_held a
    \<and> acc_ok a'"
  using assms exact_add [of "acc_available a" n]
  by (simp add: acc_Deposit_iff acc_ok_def)

subsection \<open>The use cases of accounts and deposits\<close>

lemma inv_facts:
  assumes "billing_inv env s"
  shows "a \<in> set (bs_accounts s) \<Longrightarrow> acc_ok a"
    and "d \<in> set (bs_deposits s) \<Longrightarrow> is_int64 (dep_amount d) \<and> 0 < dep_amount d"
    and "inj (env_id env)"
  using assms by (auto simp: billing_inv_def billing_ok_def accounts_wf_def deposits_wf_def)

lemma close_fresh:
  assumes "billing_inv env s" "d \<in> set (bs_deposits s)" "dep_status d = DepositHeld" "settles e d"
    and "le_id e = env_id env n" "bs_ids s \<le> n"
  shows "ledger_key e \<notin> ledger_key ` set (bs_ledger s) \<and> le_id e \<notin> le_id ` set (bs_ledger s)"
proof
  show "ledger_key e \<notin> ledger_key ` set (bs_ledger s)"
    using assms held_not_closed unfolding billing_inv_def by blast
  have "le_id x \<noteq> env_id env n" if "x \<in> set (bs_ledger s)" for x
    using assms(1,6) that unfolding billing_inv_def billing_ok_def ledger_wf_def
    by (metis imageE injD leD lessThan_iff)
  then show "le_id e \<notin> le_id ` set (bs_ledger s)"
    using assms(5) by (metis imageE)
qed

text \<open>
  Between the update of a deposit and the last of its ledger entries the books do not balance.
  \<open>closing env s a d a' es S\<close> describes the store \<open>S\<close> there: the deposit \<open>d\<close> of \<open>s\<close> is no longer
  HELD, its account \<open>a\<close> has become \<open>a'\<close>, and \<open>es\<close> are the entries appended so far.
\<close>

definition closed_as :: "auction_deposit \<Rightarrow> auction_deposit list \<Rightarrow> auction_deposit list \<Rightarrow> bool" where
  "closed_as d ds ds' \<longleftrightarrow> (\<exists>st x y. st \<noteq> DepositHeld \<and> ds' = close_deposit d st x y ds)"

definition closing :: "billing_env \<Rightarrow> billing_store \<Rightarrow> account \<Rightarrow> auction_deposit \<Rightarrow> account
    \<Rightarrow> ledger_entry list \<Rightarrow> billing_store \<Rightarrow> bool" where
  "closing env s a d a' es S \<longleftrightarrow>
     billing_inv env s \<and> a \<in> set (bs_accounts s) \<and> d \<in> set (bs_deposits s)
     \<and> dep_status d = DepositHeld \<and> dep_company d = acc_company a
     \<and> acc_id a' = acc_id a \<and> acc_ok a' \<and> acc_held a' = acc_held a - dep_amount d
     \<and> bs_accounts S = set_account (acc_id a) (acc_available a') (acc_held a') (bs_accounts s)
     \<and> closed_as d (bs_deposits s) (bs_deposits S)
     \<and> bs_ledger S = bs_ledger s @ es \<and> bs_ids s \<le> bs_ids S
     \<and> bs_processed S = bs_processed s \<and> bs_payouts S = bs_payouts s
     \<and> bs_top_ups S = bs_top_ups s \<and> bs_invoices S = bs_invoices s
     \<and> distinct (map ledger_key es)
     \<and> (\<forall>e \<in> set es. settles e d \<and> le_id e \<in> env_id env ` {..<bs_ids S} \<and> 0 < le_amount e
          \<and> le_account e = acc_id a)"

lemma closing_start:
  assumes inv: "billing_inv env s" and a: "a \<in> set (bs_accounts s)"
    and d: "d \<in> set (bs_deposits s)" "dep_status d = DepositHeld" "dep_company d = acc_company a"
    and d': "dep_auction d' = dep_auction d" "dep_company d' = dep_company d"
      "dep_status d' \<noteq> DepositHeld"
    and a': "0 \<le> acc_available a' \<Longrightarrow> 0 \<le> acc_held a' \<Longrightarrow>
      acc_id a' = acc_id a \<and> acc_ok a' \<and> acc_held a' = acc_held a - dep_amount d"
    and T: "\<And>S. closing env s a d a' [] S \<Longrightarrow> ok_wp T Q S"
  shows "ok_wp (deposits_Save d') (\<lambda>_. ok_wp (bindE (accounts_Save a') (\<lambda>_. T)) Q) s"
proof (rule ok_deposit_save, intro ok_bind ok_save T)
  assume "0 \<le> acc_available a'" "0 \<le> acc_held a'"
  with a' have "acc_id a' = acc_id a \<and> acc_ok a' \<and> acc_held a' = acc_held a - dep_amount d" by simp
  with inv a d d' show "closing env s a d a' []
     (s\<lparr>bs_deposits := close_deposit d' (dep_status d') (dep_released_at d') (dep_captured_at d') (bs_deposits s),
        bs_accounts := set_account (acc_id a') (acc_available a') (acc_held a')
          (bs_accounts (s\<lparr>bs_deposits := close_deposit d' (dep_status d') (dep_released_at d')
             (dep_captured_at d') (bs_deposits s)\<rparr>))\<rparr>)"
    by (auto simp: closing_def closed_as_def)
qed

lemma closing_append:
  assumes C: "closing env s a d a' es S"
    and e: "le_id e = env_id env (bs_ids S)" "settles e d" "le_account e = acc_id a"
      "ledger_key e \<notin> ledger_key ` set es"
    and Q: "\<And>S'. closing env s a d a' (es @ [e]) S' \<Longrightarrow> Q () S'"
  shows "ok_wp (ledger_Append e) Q (S\<lparr>bs_ids := Suc (bs_ids S)\<rparr>)"
proof (rule ok_append)
  have fresh: "ledger_key e \<notin> ledger_key ` set (bs_ledger s)"
    "le_id e \<notin> le_id ` set (bs_ledger s)"
    using close_fresh [of env s d e "bs_ids S"] C e by (auto simp: closing_def)
  have "le_id x \<noteq> le_id e" if "x \<in> set es" for x
  proof -
    have "le_id x \<in> env_id env ` {..<bs_ids S}"
      using C that unfolding closing_def by blast
    then obtain k where "le_id x = env_id env k" "k < bs_ids S" by blast
    then show ?thesis
      using C e(1) inv_facts(3) by (metis closing_def injD less_irrefl)
  qed
  with fresh show "ledger_key e \<notin> ledger_key ` set (bs_ledger (S\<lparr>bs_ids := Suc (bs_ids S)\<rparr>))
      \<and> le_id e \<notin> le_id ` set (bs_ledger (S\<lparr>bs_ids := Suc (bs_ids S)\<rparr>))"
    using C e(4) by (auto simp: closing_def)
  assume "0 < le_amount e"
  then show "Q () (S\<lparr>bs_ids := Suc (bs_ids S), bs_ledger := bs_ledger (S\<lparr>bs_ids := Suc (bs_ids S)\<rparr>) @ [e]\<rparr>)"
    using C e by (intro Q) (auto simp: closing_def less_Suc_eq)
qed

lemma closing_new_append:
  assumes "closing env s a d a' es S"
    and "\<And>i. le_id (E i) = i \<and> settles (E i) d \<and> le_account (E i) = acc_id a
      \<and> ledger_key (E i) \<notin> ledger_key ` set es"
    and "\<And>i S'. closing env s a d a' (es @ [E i]) S' \<Longrightarrow> ok_wp K Q S'"
  shows "ok_wp (bindE (new_id env) (\<lambda>i. bindE (ledger_Append (E i)) (\<lambda>_. K))) Q S"
  using assms closing_append [of env s a d a' es S] by (intro ok_bind ok_new_id) auto

lemma closing_new_append_last:
  assumes "closing env s a d a' es S"
    and "\<And>i. le_id (E i) = i \<and> settles (E i) d \<and> le_account (E i) = acc_id a
      \<and> ledger_key (E i) \<notin> ledger_key ` set es"
    and "\<And>i S'. closing env s a d a' (es @ [E i]) S' \<Longrightarrow> Q () S'"
  shows "ok_wp (bindE (new_id env) (\<lambda>i. ledger_Append (E i))) Q S"
  using assms closing_append [of env s a d a' es S] by (intro ok_bind ok_new_id) auto

lemma closing_done:
  assumes "closing env s a d a' es S"
    and "(\<Sum>e\<leftarrow>es. held_effect e) = - dep_amount d"
    and "acc_available a' = acc_available a + (\<Sum>e\<leftarrow>es. avail_effect e)"
  shows "billing_inv env S"
proof -
  obtain st x y where st: "st \<noteq> DepositHeld" "bs_deposits S = close_deposit d st x y (bs_deposits s)"
    using assms(1) unfolding closing_def closed_as_def by blast
  have "billing_ok (env_id env) (bs_ids S)
     (set_account (acc_id a) (acc_available a') (acc_held a') (bs_accounts s))
     (close_deposit d st x y (bs_deposits s)) (bs_ledger s @ es) (bs_processed s) (bs_payouts s)
     (bs_top_ups s) (bs_invoices s)"
    by (rule close_step [of _ "bs_ids s"])
      (use assms st(1) in \<open>auto simp: closing_def billing_inv_def acc_ok_def\<close>)
  with assms(1) st show ?thesis
    by (simp add: closing_def billing_inv_def)
qed

lemmas mark_defs = dep_MarkReleased_def dep_MarkCaptured_def dep_MarkSettled_def

lemma new_account_inv:
  assumes inv: "billing_inv env s" and a: "NewAccount (env_id env (bs_ids s)) c CurrencyRUB = Inr a"
    and new: "\<not> list_ex (\<lambda>r. acc_id r = acc_id a \<or> acc_company r = acc_company a) (bs_accounts s)"
  shows "billing_inv env (s\<lparr>bs_ids := Suc (bs_ids s), bs_accounts := bs_accounts s @ [a]\<rparr>)"
proof -
  have "billing_ok (env_id env) (Suc (bs_ids s)) (bs_accounts s @ [a]) (bs_deposits s)
      (bs_ledger s) (bs_processed s) (bs_payouts s) (bs_top_ups s) (bs_invoices s)"
    by (rule account_step)
      (use a inv new billing_ok_ids in \<open>auto simp: NewAccount_def billing_inv_def list_ex_iff
          split: if_splits\<close>)
  then show ?thesis
    using inv by (simp add: billing_inv_def)
qed

lemma CreateAccount_keeps: "keeps env (CreateAccount env c)"
  unfolding keeps_def CreateAccount_def
  by (intro allI impI wp_intro) (simp_all add: new_account_inv)

lemma auctionDepositLedgerRef: "auctionDepositLedgerRef (dep_auction d) (dep_company d) = dep_ref d"
  and platformFeeSettlementRef: "platformFeeSettlementRef (dep_auction d) (dep_company d) = dep_ref d"
  by (simp_all add: auctionDepositLedgerRef_def platformFeeSettlementRef_def dep_ref_def)

lemmas entry_effects = avail_effect_def held_effect_def

lemmas settles_simps = settles_def closing_keys_def dep_ref_def auctionDepositLedgerRef_def
  platformFeeSettlementRef_def

text \<open>The common shape of releasing and capturing a whole deposit.\<close>

lemma ok_close_whole:
  assumes inv: "billing_inv env s" and a: "a \<in> set (bs_accounts s)"
    and d: "d \<in> set (bs_deposits s)" "dep_status d = DepositHeld" "dep_company d = acc_company a"
    and d': "dep_auction d' = dep_auction d" "dep_company d' = dep_company d"
      "dep_status d' \<noteq> DepositHeld"
    and op: "(acc_Release (dep_amount d) a = Inr a' \<and> ty = LedgerBidDepositReleased) \<or>
       (acc_Capture (dep_amount d) a = Inr a' \<and> ty \<in> {LedgerBidDepositCaptured, LedgerPlatformFeeCaptured})"
    and E: "\<And>i. le_id (E i) = i \<and> settles (E i) d \<and> le_account (E i) = acc_id a
       \<and> le_amount (E i) = dep_amount d \<and> le_type (E i) = ty"
    and K: "\<And>i S. billing_inv env S \<Longrightarrow> closing env s a d a' [E i] S \<Longrightarrow> ok_wp K Q S"
  shows "ok_wp (deposits_Save d') (\<lambda>_. ok_wp (bindE (accounts_Save a') (\<lambda>_.
      bindE (new_id env) (\<lambda>i. bindE (ledger_Append (E i)) (\<lambda>_. K)))) Q) s"
proof (rule closing_start [OF inv a d d'])
  have ok: "acc_ok a" "is_int64 (dep_amount d)"
    using inv_facts [OF inv] a d by auto
  assume nn: "0 \<le> acc_available a'" "0 \<le> acc_held a'"
  from op show "acc_id a' = acc_id a \<and> acc_ok a' \<and> acc_held a' = acc_held a - dep_amount d"
    using exact_release [OF ok] exact_capture [OF ok] nn by auto
next
  fix S assume C: "closing env s a d a' [] S"
  have ok: "acc_ok a" "is_int64 (dep_amount d)" "0 \<le> acc_available a'"
    using inv_facts [OF inv] a d C by (auto simp: closing_def acc_ok_def)
  show "ok_wp (bindE (new_id env) (\<lambda>i. bindE (ledger_Append (E i)) (\<lambda>_. K))) Q S"
  proof (rule closing_new_append [OF C])
    fix i S' assume C': "closing env s a d a' ([] @ [E i]) S'"
    consider "ty = LedgerBidDepositReleased" "acc_available a' = acc_available a + dep_amount d"
      | "ty \<in> {LedgerBidDepositCaptured, LedgerPlatformFeeCaptured}" "acc_available a' = acc_available a"
      using op exact_release [OF ok(1,2) _ ok(3)] exact_capture [OF ok(1,2)] by blast
    then have "billing_inv env S'"
      by cases (rule closing_done [OF C'], use E [of i] in \<open>auto simp: entry_effects\<close>)+
    with C' K show "ok_wp K Q S'" by simp
  qed (use E in auto)
qed

lemmas ok_release_whole = ok_close_whole [OF _ _ _ _ _ _ _ _ disjI1 [OF conjI [OF _ refl]]]
lemmas ok_capture_whole = ok_close_whole [OF _ _ _ _ _ _ _ _ disjI2 [OF conjI [OF _ insertI1]]]
lemmas ok_fee_whole = ok_close_whole [OF _ _ _ _ _ _ _ _ disjI2 [OF conjI [OF _ insertI2 [OF insertI1]]]]

lemma ReleaseAuctionDeposit_keeps: "keeps env (ReleaseAuctionDeposit env now c a reason)"
  unfolding keeps_def
proof (intro allI impI)
  fix s assume inv: "billing_inv env s"
  show "ok_wp (ReleaseAuctionDeposit env now c a reason) (\<lambda>_. billing_inv env) s"
    unfolding ReleaseAuctionDeposit_def Let_def
    by (intro wp_intro; (rule ok_release_whole [OF inv])?)
      (auto simp: inv mark_defs settles_simps intro: ok_publish_inv)
qed

lemma CaptureAuctionDeposit_keeps: "keeps env (CaptureAuctionDeposit env now c a reason)"
  unfolding keeps_def
proof (intro allI impI)
  fix s assume inv: "billing_inv env s"
  show "ok_wp (CaptureAuctionDeposit env now c a reason) (\<lambda>_. billing_inv env) s"
    unfolding CaptureAuctionDeposit_def Let_def
    by (intro wp_intro; (rule ok_capture_whole [OF inv])?)
      (auto simp: inv mark_defs settles_simps intro: ok_publish_inv)
qed

lemma deposit_int64: "is_int64 (depositFromStartPrice p)"
  by (simp add: depositFromStartPrice_def Let_def quot64_def) (simp add: int64_unfold)

lemma fee_int64: "is_int64 (platformFeeFromFinalPrice p)"
  by (simp add: platformFeeFromFinalPrice_def quot64_def) (simp add: int64_unfold)

lemma not_reserved:
  assumes inv: "billing_inv env s"
    and no: "\<And>d. d \<in> set (bs_deposits s) \<Longrightarrow> \<not> (dep_auction d = a \<and> dep_company d = c)"
  shows "(c, rt, auctionDepositLedgerRef a c, LedgerBidDepositReserved) \<notin> ledger_key ` set (bs_ledger s)"
proof
  assume "(c, rt, auctionDepositLedgerRef a c, LedgerBidDepositReserved) \<in> ledger_key ` set (bs_ledger s)"
  then obtain e where e: "e \<in> set (bs_ledger s)" "le_company e = c" "le_type e = LedgerBidDepositReserved"
    "le_refid e = auctionDepositLedgerRef a c"
    by (auto simp: ledger_key_def)
  then have "entry_backed (bs_deposits s) (bs_processed s) (bs_payouts s) e"
    using inv by (simp add: billing_inv_def billing_ok_def ledger_wf_def)
  then obtain d where "d \<in> set (bs_deposits s)" "dep_company d = c" "dep_ref d = auctionDepositLedgerRef a c"
    using e by (auto simp: entry_backed_def)
  with no show False
    by (auto simp: dep_ref_def auctionDepositLedgerRef_def)
qed

lemma new_id_fresh_set: "billing_inv env s \<Longrightarrow> env_id env (bs_ids s) \<notin> le_id ` set (bs_ledger s)"
  using new_id_fresh by fastforce

lemma reserve_final:
  assumes inv: "billing_inv env s"
    and op: "acc_Reserve n a = Inr a'" "0 \<le> acc_held a'"
    and a: "a \<in> set (bs_accounts s)" and n: "is_int64 n"
    and d: "dep_key d \<notin> dep_key ` set (bs_deposits s)" "dep_company d = acc_company a"
      "dep_account d = acc_id a" "dep_status d = DepositHeld" "dep_amount d = n"
    and e: "le_id e = env_id env (bs_ids s)" "le_company e = acc_company a" "le_account e = acc_id a"
      "le_amount e = n" "le_type e = LedgerBidDepositReserved" "le_refid e = dep_ref d"
      "ledger_key e \<notin> ledger_key ` set (bs_ledger s)"
  shows "billing_ok (env_id env) (Suc (bs_ids s))
     (set_account (acc_id a') (acc_available a') (acc_held a') (bs_accounts s)) (bs_deposits s @ [d])
     (bs_ledger s @ [e]) (bs_processed s) (bs_payouts s) (bs_top_ups s) (bs_invoices s)"
proof -
  have "acc_ok a" using inv_facts [OF inv] a by simp
  note x = exact_reserve [OF this n op]
  have "0 < n" using op by (simp add: acc_Reserve_iff)
  have id: "acc_id a' = acc_id a" using x by simp
  show ?thesis
    unfolding id
    by (rule reserve_step [of _ "bs_ids s"])
      (use inv a d e n x \<open>0 < n\<close> in \<open>auto simp: billing_inv_def acc_ok_def\<close>)
qed

lemma ReserveAuctionDeposit_keeps: "keeps env (ReserveAuctionDeposit env now c a price cur)"
  unfolding keeps_def
proof (intro allI impI)
  fix s assume inv: "billing_inv env s"
  show "ok_wp (ReserveAuctionDeposit env now c a price cur) (\<lambda>_. billing_inv env) s"
    unfolding ReserveAuctionDeposit_def Let_def
    apply (intro wp_intro)
           apply (simp_all add: inv new_id_fresh_set [OF inv])
      apply (rule FalseE)
    using not_reserved [OF inv, of a c] apply blast
    apply (simp add: billing_inv_def inv_facts(3) [OF inv])
    apply (erule (1) reserve_final [OF inv])
    apply (auto simp: NewAuctionDeposit_def dep_key_def dep_ref_def auctionDepositLedgerRef_def
        deposit_int64 split: if_splits)
    done
qed

lemma ok_publish:
  assumes inv: "billing_inv env s"
    and Q: "\<And>S. billing_inv env S \<Longrightarrow> bs_deposits S = bs_deposits s \<Longrightarrow> bs_payouts S = bs_payouts s
      \<Longrightarrow> Q () S"
  shows "ok_wp (publish_if env a c ev) Q s"
proof -
  have "billing_inv env (s\<lparr>bs_ids := Suc (Suc (bs_ids s)), bs_outbox := rows\<rparr>)" for rows
    using inv billing_ok_ids by (auto simp: billing_inv_def)
  then show ?thesis
    using inv by (auto simp: wp_simps intro: Q)
qed

lemma release_one_keeps:
  assumes inv: "billing_inv env s" and dep: "dep \<in> set (bs_deposits s)" "dep_auction dep = a"
  shows "ok_wp (release_one env now a cs reason dep) (\<lambda>_ S. billing_inv env S \<and>
     (\<forall>d \<in> set (bs_deposits s). dep_key d \<noteq> dep_key dep \<longrightarrow> d \<in> set (bs_deposits S))) s"
    (is "ok_wp _ (\<lambda>_. ?P) s")
proof -
  have rest: "ok_wp (publish_if env x y ev) (\<lambda>_. ?P) S"
    if i: "billing_inv env S" and C: "closing env s aa dep aa' es S" for S aa aa' es x y ev
  proof (rule ok_publish [OF i], intro conjI ballI impI)
    fix S' d assume S': "bs_deposits S' = bs_deposits S" and d: "d \<in> set (bs_deposits s)"
      "dep_key d \<noteq> dep_key dep"
    obtain st x y where "bs_deposits S = close_deposit dep st x y (bs_deposits s)"
      using C unfolding closing_def closed_as_def by blast
    then show "d \<in> set (bs_deposits S')"
      using row_update_mem_if [OF d(1), of "\<lambda>r. dep_auction r = dep_auction dep \<and> dep_company r = dep_company dep"]
        d(2) S' by (auto simp: dep_key_def)
  qed
  show ?thesis
    unfolding release_one_def Let_def
    by (intro wp_intro; (rule ok_release_whole [OF inv])?)
      (use dep in \<open>auto simp: inv mark_defs settles_simps intro: rest\<close>)
qed

lemma release_all_keeps:
  "billing_inv env s \<Longrightarrow> distinct (map dep_key ds) \<Longrightarrow> set ds \<subseteq> set (bs_deposits s) \<Longrightarrow>
     (\<And>d. d \<in> set ds \<Longrightarrow> dep_auction d = a) \<Longrightarrow>
   ok_wp (forE (release_one env now a cs reason) ds) (\<lambda>_. billing_inv env) s"
proof (induction ds arbitrary: s)
  case Nil
  then show ?case by (simp add: wp_simps)
next
  case (Cons d ds)
  have "ok_wp (release_one env now a cs reason d) (\<lambda>_ S. billing_inv env S \<and>
     (\<forall>x \<in> set (bs_deposits s). dep_key x \<noteq> dep_key d \<longrightarrow> x \<in> set (bs_deposits S))) s"
    by (rule release_one_keeps) (use Cons.prems in auto)
  then show ?case
    unfolding forE.simps wpE_bind
  proof (rule wpE_mono)
    fix u S assume "billing_inv env S \<and>
      (\<forall>x \<in> set (bs_deposits s). dep_key x \<noteq> dep_key d \<longrightarrow> x \<in> set (bs_deposits S))"
    then show "ok_wp (forE (release_one env now a cs reason) ds) (\<lambda>_. billing_inv env) S"
      using Cons.prems by (intro Cons.IH) (auto simp: image_iff, metis subsetD)
  qed simp
qed

lemma ReleaseAuctionDepositsExceptCandidates_keeps:
  "keeps env (ReleaseAuctionDepositsExceptCandidates env now a cs reason)"
  unfolding keeps_def
proof (intro allI impI)
  fix s assume inv: "billing_inv env s"
  have "distinct (map dep_key (bs_deposits s))"
    using inv by (simp add: billing_inv_def billing_ok_def deposits_wf_def)
  then have "distinct (map dep_key (sort_key dep_company (filter (\<lambda>d. dep_auction d = a) (bs_deposits s))))"
    by (auto simp: distinct_map inj_on_def)
  then have "ok_wp (forE (release_one env now a cs reason)
      (sort_key dep_company (filter (\<lambda>d. dep_auction d = a) (bs_deposits s)))) (\<lambda>_. billing_inv env) s"
    by (intro release_all_keeps [OF inv]) auto
  then show "ok_wp (ReleaseAuctionDepositsExceptCandidates env now a cs reason) (\<lambda>_. billing_inv env) s"
    unfolding ReleaseAuctionDepositsExceptCandidates_def deposits_ListByAuction_def
    by (simp add: wp_simps)
qed

lemma fee_recorded_wp [wp_intro]:
  "(\<And>b. Q b s) \<Longrightarrow> ok_wp (fee_settlementAlreadyRecorded c r) Q s"
  unfolding fee_settlementAlreadyRecorded_def by (intro wp_intro)

lemma settle_recorded_wp [wp_intro]:
  "(\<And>b. Q b s) \<Longrightarrow> ok_wp (settle_settlementAlreadyRecorded c r) Q s"
  unfolding settle_settlementAlreadyRecorded_def Let_def by (intro wp_intro)

lemma ok_close_two:
  assumes inv: "billing_inv env s" and a: "a \<in> set (bs_accounts s)"
    and d: "d \<in> set (bs_deposits s)" "dep_status d = DepositHeld" "dep_company d = acc_company a"
    and d': "dep_auction d' = dep_auction d" "dep_company d' = dep_company d"
      "dep_status d' \<noteq> DepositHeld"
    and a': "0 \<le> acc_available a' \<Longrightarrow> 0 \<le> acc_held a' \<Longrightarrow>
      acc_id a' = acc_id a \<and> acc_ok a' \<and> acc_held a' = acc_held a - dep_amount d
      \<and> (\<forall>i j. acc_available a' = acc_available a + avail_effect (E i) + avail_effect (F j))"
    and E: "\<And>i. le_id (E i) = i \<and> settles (E i) d \<and> le_account (E i) = acc_id a"
    and F: "\<And>i. le_id (F i) = i \<and> settles (F i) d \<and> le_account (F i) = acc_id a"
    and EF: "\<And>i j. ledger_key (F j) \<noteq> ledger_key (E i)
      \<and> held_effect (E i) + held_effect (F j) = - dep_amount d"
    and K: "\<And>S. billing_inv env S \<Longrightarrow> ok_wp K Q S"
  shows "ok_wp (deposits_Save d') (\<lambda>_. ok_wp (bindE (accounts_Save a') (\<lambda>_.
      bindE (new_id env) (\<lambda>i. bindE (ledger_Append (E i)) (\<lambda>_.
      bindE (new_id env) (\<lambda>j. bindE (ledger_Append (F j)) (\<lambda>_. K)))))) Q) s"
proof (rule closing_start [OF inv a d d'])
  fix S assume C: "closing env s a d a' [] S"
  show "ok_wp (bindE (new_id env) (\<lambda>i. bindE (ledger_Append (E i)) (\<lambda>_.
      bindE (new_id env) (\<lambda>j. bindE (ledger_Append (F j)) (\<lambda>_. K))))) Q S"
  proof (rule closing_new_append [OF C])
    fix i S' assume C1: "closing env s a d a' ([] @ [E i]) S'"
    show "ok_wp (bindE (new_id env) (\<lambda>j. bindE (ledger_Append (F j)) (\<lambda>_. K))) Q S'"
    proof (rule closing_new_append [OF C1])
      fix j S'' assume C2: "closing env s a d a' (([] @ [E i]) @ [F j]) S''"
      have "0 \<le> acc_available a'" "0 \<le> acc_held a'"
        using C2 by (simp_all add: closing_def acc_ok_def)
      then have "acc_available a' = acc_available a + avail_effect (E i) + avail_effect (F j)"
        using a' by blast
      then have "billing_inv env S''"
        by (intro closing_done [OF C2]) (use EF [of j i] in auto)
      then show "ok_wp K Q S''" by (rule K)
    qed (use F EF in auto)
  qed (use E in auto)
qed (use a' in blast)

lemmas ok_release_whole_last =
  ok_release_whole [where K = "retE ()", unfolded bindE_ret_unit]

lemma exact_capture_release:
  assumes "acc_ok a" "is_int64 m" "is_int64 n" "0 < n" "n < m"
    "acc_Capture n a = Inr a1" "acc_Release (sub64 m n) a1 = Inr a'" "0 \<le> acc_available a'"
  shows "acc_id a' = acc_id a \<and> acc_ok a' \<and> acc_available a' = acc_available a + (m - n)
    \<and> acc_held a' = acc_held a - m"
proof -
  note c = exact_capture [OF assms(1,3,6)]
  have "sub64 m n = m - n \<and> is_int64 (m - n)"
    using exact_sub [of m n] assms by simp
  then show ?thesis
    using exact_release [of a1 "m - n" a'] c assms(7,8) by simp
qed

lemma sub64_self: "sub64 x x = 0"
  by (simp add: sub64_def) (simp add: int64_unfold)

lemma settle_sub:
  assumes "billing_inv env s" "d \<in> set (bs_deposits s)" "is_int64 n" "\<not> n \<le> 0" "n < dep_amount d"
  shows "sub64 (dep_amount d) n = dep_amount d - n"
  using exact_sub [of "dep_amount d" n] inv_facts(2) [OF assms(1,2)] assms(3-) by simp

lemma settle_op:
  assumes "billing_inv env s" "a \<in> set (bs_accounts s)" "d \<in> set (bs_deposits s)" "is_int64 n" "\<not> n \<le> 0"
    "n < dep_amount d" "acc_Capture n a = Inr a1" "acc_Release (dep_amount d - n) a1 = Inr a'"
    "0 \<le> acc_available a'"
  shows "acc_id a' = acc_id a" "acc_ok a'" "acc_available a' = acc_available a + (dep_amount d - n)"
    "acc_held a' = acc_held a - dep_amount d"
  using exact_capture_release [of a "dep_amount d" n a1 a'] inv_facts [OF assms(1)] assms
    settle_sub [OF assms(1,3-6)] by auto

lemma capture_op:
  assumes "billing_inv env s" "a \<in> set (bs_accounts s)" "d \<in> set (bs_deposits s)"
    "acc_Capture (dep_amount d) a = Inr a'"
  shows "acc_id a' = acc_id a" "acc_ok a'" "acc_available a' = acc_available a"
    "acc_held a' = acc_held a - dep_amount d"
  using exact_capture [of a "dep_amount d" a'] inv_facts [OF assms(1)] assms by auto

lemma CapturePlatformFeeFromDeposit_keeps: "keeps env (CapturePlatformFeeFromDeposit env now c a price)"
  unfolding keeps_def
proof (intro allI impI)
  fix s assume inv: "billing_inv env s"
  have fee: "is_int64 (platformFeeFromFinalPrice price)" by (rule fee_int64)
  show "ok_wp (CapturePlatformFeeFromDeposit env now c a price) (\<lambda>_. billing_inv env) s"
    unfolding CapturePlatformFeeFromDeposit_def Let_def
    apply (intro wp_intro; (rule ok_close_two [OF inv])?; (rule ok_release_whole_last [OF inv] ok_fee_whole [OF inv])?)
            apply (simp_all add: inv mark_defs settles_simps deposit_entry_def entry_effects ok_ret ok_publish_inv)
    apply (auto simp: settle_sub [OF inv] fee intro: ok_bind ok_publish ok_publish_inv)
    apply ((rule capture_op [OF inv]; assumption) | (rule settle_op [OF inv _ _ fee]; assumption))+
    done
qed

lemma SettleWinnerDepositAfterInvoicePaid_keeps:
  "keeps env (SettleWinnerDepositAfterInvoicePaid env now a c goods paid reason)"
  unfolding keeps_def
proof (intro allI impI)
  fix s assume inv: "billing_inv env s"
  have fee: "is_int64 (platformFeeFromFinalPrice goods)" by (rule fee_int64)
  show "ok_wp (SettleWinnerDepositAfterInvoicePaid env now a c goods paid reason) (\<lambda>_. billing_inv env) s"
    unfolding SettleWinnerDepositAfterInvoicePaid_def Let_def releaseFullDeposit_def appendFeeLedger_def
      appendReleaseLedger_def publishCaptured_def bindE_assoc
    apply (intro wp_intro; (simp_all add: inv sub64_self split: if_splits)?;
        (simp_all add: settle_sub [OF inv] fee)?; (rule ok_close_two [OF inv])?;
        (rule ok_release_whole_last [OF inv] ok_fee_whole [OF inv])?)
    apply (simp_all add: inv mark_defs settles_simps deposit_entry_def entry_effects ok_ret ok_publish_inv)
    apply (auto simp: settle_sub [OF inv] fee dest: inv_facts(2) [OF inv])
    apply ((rule capture_op [OF inv]; assumption) | (rule settle_op [OF inv _ _ fee]; assumption))+
    done
qed

end
