(* ===== verification/Billing_Payments_Correct.thy ===== *)
theory Billing_Payments_Correct
  imports Billing_Correct
begin

section \<open>Top-ups, invoices and payouts keep the books\<close>

text \<open>Rules for the remaining statements, then one lemma per use case of Billing\_Payments.\<close>

lemma ok_create_account:
  assumes inv: "billing_inv env s"
    and Q: "\<And>S. billing_inv env S \<Longrightarrow> bs_payouts S = bs_payouts s \<Longrightarrow> Q () S"
  shows "ok_wp (CreateAccount env c) Q s"
  unfolding CreateAccount_def
  by (intro wp_intro; (rule ok_publish)?) (simp_all add: inv new_account_inv Q)

lemma inv_requests:
  "billing_inv env s \<Longrightarrow> requests_wf ts (bs_invoices s) \<Longrightarrow> billing_inv env (s\<lparr>bs_top_ups := ts\<rparr>)"
  "billing_inv env s \<Longrightarrow> requests_wf (bs_top_ups s) is \<Longrightarrow> billing_inv env (s\<lparr>bs_invoices := is\<rparr>)"
  by (simp_all add: billing_inv_def billing_ok_def)

lemma inv_requests_wf: "billing_inv env s \<Longrightarrow> requests_wf (bs_top_ups s) (bs_invoices s)"
  by (simp add: billing_inv_def billing_ok_def)

lemma inv_ids: "billing_inv env s \<Longrightarrow> billing_inv env (s\<lparr>bs_ids := Suc (bs_ids s)\<rparr>)"
  using billing_ok_ids by (auto simp: billing_inv_def)

lemma ok_provider [wp_intro]: "(\<And>r. Q r s) \<Longrightarrow> ok_wp (from_provider x) Q s"
  by (cases x) (simp_all add: from_provider_def wp_simps)

lemma ok_top_ups_create [wp_intro]:
  "Q () (s\<lparr>bs_top_ups := bs_top_ups s @ [t]\<rparr>) \<Longrightarrow> ok_wp (top_ups_Create t) Q s"
  by (simp add: wp_simps)

lemma ok_top_ups_save:
  assumes "billing_inv env s" "\<And>S. billing_inv env S \<Longrightarrow> Q () S"
  shows "ok_wp (top_ups_Save t) Q s"
proof -
  have "requests_wf (row_update (\<lambda>r. tu_id r = tu_id t)
      (\<lambda>r. r\<lparr>tu_status := tu_status t, tu_payment_id := tu_payment_id t, tu_url := tu_url t,
            tu_confirmed_at := tu_confirmed_at t, tu_failed_at := tu_failed_at t\<rparr>) (bs_top_ups s))
      (bs_invoices s)"
    using inv_requests_wf [OF assms(1)] by (auto simp: requests_wf_def elim!: row_update_memE)
  then show ?thesis
    using assms(2) inv_requests(1) [OF assms(1)] by (simp add: wp_simps)
qed

lemma ok_top_ups_load [wp_intro]:
  "(\<And>t. t \<in> set (bs_top_ups s) \<Longrightarrow> Q t s) \<Longrightarrow> ok_wp (top_ups_Load i) Q s"
  "(\<And>t. t \<in> set (bs_top_ups s) \<Longrightarrow> Q t s) \<Longrightarrow> ok_wp (top_ups_LoadByProviderPayment p i) Q s"
  by (auto simp: wp_simps dest: row_select_SomeD split: option.split)

lemma ok_try_invoice [wp_intro]:
  "(\<And>i. Q (Some i) s) \<Longrightarrow> Q None s \<Longrightarrow>
    ok_wp (try_load ErrDealInvoiceNotFound (invoices_LoadByDealID d)) Q s"
  by (simp add: try_load_def wp_simps split: option.split)

lemma ok_try_payout [wp_intro]:
  "(\<And>i. Q (Some i) s) \<Longrightarrow> Q None s \<Longrightarrow>
    ok_wp (try_load ErrSellerPayoutNotFound (payouts_LoadByDealID d)) Q s"
  by (simp add: try_load_def wp_simps split: option.split)

lemma ok_invoice_load [wp_intro]:
  "(\<And>i. i \<in> set (bs_invoices s) \<Longrightarrow> Q i s) \<Longrightarrow> ok_wp (invoices_LoadByDealID d) Q s"
  "(\<And>i. i \<in> set (bs_invoices s) \<Longrightarrow> inv_id i = d \<Longrightarrow> Q i s) \<Longrightarrow> ok_wp (invoices_LoadByID d) Q s"
  by (auto simp: wp_simps dest: row_select_SomeD split: option.split)

lemma ok_invoice_create [wp_intro]:
  "(invoice_check i \<Longrightarrow> Q () (s\<lparr>bs_invoices := bs_invoices s @ [i]\<rparr>)) \<Longrightarrow> ok_wp (invoices_Create i) Q s"
  by (simp add: wp_simps)

lemma invoice_check_update [simp]:
  "invoice_check (i\<lparr>inv_deal := b, inv_created_at := c\<rparr>) = invoice_check i"
  "invoice_check (i\<lparr>inv_id := a\<rparr>) = invoice_check i"
  by (simp_all add: invoice_check_def)

lemma ok_invoice_save:
  assumes "billing_inv env s" "is_int64 (inv_goods i)" "\<And>S. billing_inv env S \<Longrightarrow> Q () S"
  shows "ok_wp (invoices_Save i) Q s"
proof -
  have "requests_wf (bs_top_ups s) (row_update (\<lambda>r. inv_id r = inv_id i)
      (\<lambda>r. i\<lparr>inv_id := inv_id r, inv_deal := inv_deal r, inv_created_at := inv_created_at r\<rparr>)
      (bs_invoices s))" if "invoice_check i"
    using inv_requests_wf [OF assms(1)] assms(2) that
    by (auto simp: requests_wf_def elim!: row_update_memE)
  then show ?thesis
    using assms(3) inv_requests(2) [OF assms(1)] by (simp add: wp_simps)
qed

lemma ok_payout_load [wp_intro]:
  "(\<And>p. p \<in> set (bs_payouts s) \<Longrightarrow> Q p s) \<Longrightarrow> ok_wp (payouts_LoadByID d) Q s"
  "(\<And>p. p \<in> set (bs_payouts s) \<Longrightarrow> Q p s) \<Longrightarrow> ok_wp (payouts_LoadByDealID d) Q s"
  by (auto simp: wp_simps dest: row_select_SomeD split: option.split)

lemma ok_payout_create [wp_intro]:
  assumes new: "0 < sp_amount p \<Longrightarrow> sp_id p \<notin> sp_id ` set (bs_payouts s) \<Longrightarrow>
      Q None (s\<lparr>bs_payouts := bs_payouts s @ [p]\<rparr>)"
    and old: "\<And>q. Q (Some q) s"
  shows "ok_wp (catchE (bindE (payouts_Create p) (\<lambda>_. retE None)) (\<lambda>e.
     if e = DbUniqueViolation
     then bindE (payouts_LoadByDealID d) (\<lambda>p. retE (Some p)) else failE e)) Q s"
proof -
  have "sp_id p \<notin> sp_id ` set (bs_payouts s)"
    if "\<not> list_ex (\<lambda>r. sp_id r = sp_id p \<or> sp_deal r = sp_deal p \<or> sp_invoice r = sp_invoice p)
      (bs_payouts s)"
    using that by (auto simp: list_ex_iff)
  then show ?thesis
    using new old by (simp add: wp_simps split: option.split)
qed

lemma ok_publish_ignored:
  assumes inv: "billing_inv env s" and Q: "\<And>S. billing_inv env S \<Longrightarrow> Q () S"
  shows "ok_wp (catchE (publish_if env a c ev) (\<lambda>_. retE ())) Q s"
proof -
  have "billing_inv env (s\<lparr>bs_ids := Suc (Suc (bs_ids s)), bs_outbox := rows\<rparr>)"
    "billing_inv env (s\<lparr>bs_ids := Suc (Suc (bs_ids s))\<rparr>)" for rows
    using inv billing_ok_ids by (auto simp: billing_inv_def)
  then show ?thesis
    using inv by (auto simp: wp_simps intro: Q)
qed

subsection \<open>Top-ups\<close>

lemma NewTopUp_amount: "NewTopUp i c a n cur p now = Inr t \<Longrightarrow> tu_amount t = n"
  by (auto simp: NewTopUp_def split: if_splits)

lemma CreateTopUp_keeps:
  assumes n: "is_int64 n"
  shows "keeps env (CreateTopUp env now c n cur)"
  unfolding keeps_def
proof (intro allI impI)
  fix s assume inv: "billing_inv env s"
  have add: "billing_inv env (S\<lparr>bs_ids := Suc (bs_ids S), bs_top_ups := bs_top_ups S @ [t]\<rparr>)"
    if "billing_inv env S" "tu_amount t = n" for S t
    using inv_requests(1) [OF inv_ids [OF that(1)], of "bs_top_ups S @ [t]"]
      inv_requests_wf [OF that(1)] that(2) n
    by (auto simp: requests_wf_def)
  show "ok_wp (CreateTopUp env now c n cur) (\<lambda>_. billing_inv env) s"
    unfolding CreateTopUp_def
    by (intro wp_intro; (rule ok_create_account [OF inv])?; (intro wp_intro)?;
      (rule ok_top_ups_save)?) (auto dest: NewTopUp_amount intro: add ok_ret ok_top_ups_save [OF add])
qed

lemma exact_deposit':
  assumes inv: "billing_inv env s" and a: "a \<in> set (bs_accounts s)"
    and n: "is_int64 n" and op: "acc_Deposit n a = Inr a'" "0 \<le> acc_available a'"
  shows "acc_id a' = acc_id a \<and> acc_available a' = acc_available a + n \<and> acc_held a' = acc_held a
    \<and> acc_ok a' \<and> 0 < n"
proof -
  have "0 < n" using op(1) by (simp add: acc_Deposit_iff)
  then show ?thesis
    using exact_deposit [OF inv_facts(1) [OF inv a] n op] by simp
qed

lemma ok_insert_if_new:
  assumes "(\<forall>p \<in> set (bs_processed s). ptu_external p \<noteq> x) \<Longrightarrow> Q True (s\<lparr>bs_processed := bs_processed s @
      [\<lparr>ptu_external = x, ptu_company = c, ptu_account = a, ptu_amount = n\<rparr>]\<rparr>)"
    and "list_ex (\<lambda>p. ptu_external p = x) (bs_processed s) \<Longrightarrow> Q False s"
  shows "ok_wp (processed_InsertIfNew x c a n) Q s"
  using assms by (auto simp: wp_simps list_ex_iff)

lemma top_up_final:
  assumes inv: "billing_inv env s" and a: "a \<in> set (bs_accounts s)" "acc_company a = c"
    and n: "is_int64 n" and op: "acc_Deposit n a = Inr a'" "0 \<le> acc_available a'"
    and new: "\<forall>p \<in> set (bs_processed s). ptu_external p \<noteq> x"
    and e: "le_id e = env_id env (bs_ids s)" "le_account e = acc_id a" "le_amount e = n"
      "ledger_key e = (c, rt, x, LedgerTopUpConfirmed)"
    and p: "ptu_external p = x"
  shows "billing_ok (env_id env) (Suc (bs_ids s))
     (set_account (acc_id a') (acc_available a') (acc_held a') (bs_accounts s)) (bs_deposits s)
     (bs_ledger s @ [e]) (bs_processed s @ [p]) (bs_payouts s) (bs_top_ups s) (bs_invoices s)"
proof -
  have ok: "billing_ok (env_id env) (bs_ids s) (bs_accounts s) (bs_deposits s) (bs_ledger s)
      (bs_processed s) (bs_payouts s) (bs_top_ups s) (bs_invoices s)"
    using inv by (simp add: billing_inv_def)
  note x = exact_deposit' [OF inv a(1) n op]
  have id: "acc_id a' = acc_id a" "acc_held a' = acc_held a" using x by simp_all
  have e': "le_company e = acc_company a" "le_type e = LedgerTopUpConfirmed" "le_refid e = ptu_external p"
    using e(4) a(2) p by (simp_all add: ledger_key_def)
  show ?thesis
    unfolding id
    by (rule credit_step [OF ok])
      (use a e e' x topup_not_processed [OF ok new] ok payouts_wf_mono in
        \<open>auto simp: acc_ok_def entry_backed_def billing_ok_def\<close>)
qed

lemma ConfirmTopUp_keeps:
  assumes n: "is_int64 n"
  shows "keeps env (ConfirmTopUp env now c n x)"
  unfolding keeps_def
proof (intro allI impI)
  fix s assume inv: "billing_inv env s"
  show "ok_wp (ConfirmTopUp env now c n x) (\<lambda>_. billing_inv env) s"
    unfolding ConfirmTopUp_def
    apply (intro wp_intro; (rule ok_insert_if_new)?; (intro wp_intro)?)
    apply (simp_all add: inv new_id_fresh_set [OF inv])
    apply (rule topup_not_processed [OF inv [unfolded billing_inv_def, THEN conjunct2]]; assumption)
    apply (simp add: billing_inv_def inv_facts(3) [OF inv])
    apply (erule (2) top_up_final [OF inv _ _ n]; simp)
    done
qed

lemma keeps_bind:
  assumes "keeps env m" "billing_inv env s" "\<And>a S. billing_inv env S \<Longrightarrow> ok_wp (f a) Q S"
  shows "ok_wp (bindE m f) Q s"
  unfolding wpE_bind
  by (rule wpE_mono [where Q = "\<lambda>_. billing_inv env"]) (use assms in \<open>auto simp: keeps_def\<close>)

lemma confirm_executeLoaded_keeps:
  assumes n: "is_int64 (tu_amount t)"
  shows "keeps env (confirm_executeLoaded env now now2 t n cur)"
  unfolding keeps_def
proof (intro allI impI)
  fix s assume inv: "billing_inv env s"
  show "ok_wp (confirm_executeLoaded env now now2 t n cur) (\<lambda>_. billing_inv env) s"
    unfolding confirm_executeLoaded_def
    by (intro ok_if ok_ret ok_fail inv keeps_bind [OF ConfirmTopUp_keeps inv] ok_bind ok_lift
        ok_top_ups_save) (use n in auto)
qed

lemma ConfirmTopUpByProvider_keeps: "keeps env (ConfirmTopUpByProvider env now now2 p x n cur)"
  and ConfirmTopUpByTopUpID_keeps: "keeps env (ConfirmTopUpByTopUpID env now now2 i)"
  using confirm_executeLoaded_keeps inv_requests_wf
  unfolding keeps_def ConfirmTopUpByProvider_def ConfirmTopUpByTopUpID_def requests_wf_def
  by (safe; intro wp_intro; simp)+

subsection \<open>Invoices\<close>

lemma inv_held_wp [wp_intro]: "(\<And>h. Q h s) \<Longrightarrow> ok_wp (invoice_held a b) Q s"
  unfolding invoice_held_def by (intro wp_intro)

lemma NewDealInvoice_goods: "NewDealInvoice i d a b s g f c p due now = Inr x \<Longrightarrow> inv_goods x = g"
  by (auto simp: NewDealInvoice_def split: if_splits)

lemma AttachProvider_goods: "inv_AttachProvider p u i = Inr x \<Longrightarrow> inv_goods x = inv_goods i"
  by (auto simp: inv_AttachProvider_def split: if_splits)

lemma MarkPaid_goods: "inv_MarkPaidIdempotent n c t i = Inr x \<Longrightarrow> inv_goods x = inv_goods i"
  by (auto simp: inv_MarkPaidIdempotent_def inv_MarkPaid_def split: if_splits)

lemma MarkExpired_goods: "inv_MarkExpired t i = Inr x \<Longrightarrow> inv_goods x = inv_goods i"
  by (auto simp: inv_MarkExpired_def split: invoice_status.splits)

lemma inv_goods_int64: "billing_inv env s \<Longrightarrow> i \<in> set (bs_invoices s) \<Longrightarrow> is_int64 (inv_goods i)"
  using inv_requests_wf by (auto simp: requests_wf_def)

lemma CreateDealInvoice_keeps:
  assumes n: "is_int64 (cic_goods cmd)"
  shows "keeps env (CreateDealInvoice env now cmd)"
  unfolding keeps_def
proof (intro allI impI)
  fix s assume inv: "billing_inv env s"
  have add: "billing_inv env (s\<lparr>bs_ids := Suc (bs_ids s), bs_invoices := bs_invoices s @ [i]\<rparr>)"
    if "invoice_check i" "inv_goods i = cic_goods cmd" for i
    using inv_requests(2) [OF inv_ids [OF inv], of "bs_invoices s @ [i]"]
      inv_requests_wf [OF inv] that n
    by (auto simp: requests_wf_def)
  show "ok_wp (CreateDealInvoice env now cmd) (\<lambda>_. billing_inv env) s"
    unfolding CreateDealInvoice_def Let_def
    apply (intro wp_intro)
    by (auto simp: inv n dest!: NewDealInvoice_goods AttachProvider_goods
        intro!: ok_invoice_save [OF add] ok_bind ok_publish_ignored ok_ret)
qed

lemma ConfirmDealInvoicePaid_keeps: "keeps env (ConfirmDealInvoicePaid env now i)"
  unfolding keeps_def
proof (intro allI impI)
  fix s assume inv: "billing_inv env s"
  show "ok_wp (ConfirmDealInvoicePaid env now i) (\<lambda>_. billing_inv env) s"
    unfolding ConfirmDealInvoicePaid_def Let_def
    apply (intro wp_intro)
    by (auto simp: inv inv_goods_int64 [OF inv] dest!: MarkPaid_goods
        intro!: ok_invoice_save [OF inv] ok_publish_inv)
qed

lemma ExpireDealInvoice_keeps: "keeps env (ExpireDealInvoice env now i)"
  unfolding keeps_def
proof (intro allI impI)
  fix s assume inv: "billing_inv env s"
  show "ok_wp (ExpireDealInvoice env now i) (\<lambda>_. billing_inv env) s"
    unfolding ExpireDealInvoice_def
    apply (intro wp_intro)
    by (auto simp: inv inv_goods_int64 [OF inv] dest!: MarkExpired_goods
        intro!: ok_invoice_save [OF inv] ok_publish_inv)
qed

subsection \<open>Payouts\<close>

lemma inv_ok:
  "billing_inv env s \<Longrightarrow> billing_ok (env_id env) (bs_ids s) (bs_accounts s) (bs_deposits s) (bs_ledger s)
      (bs_processed s) (bs_payouts s) (bs_top_ups s) (bs_invoices s)"
  by (simp add: billing_inv_def)

lemma payout_created:
  assumes "billing_inv env s" "sp_id p \<notin> sp_id ` set (bs_payouts s)" "0 < sp_amount p"
    "is_int64 (sp_amount p)" "sp_status p \<noteq> SellerPayoutPaid"
  shows "billing_inv env (s\<lparr>bs_ids := Suc (bs_ids s), bs_payouts := bs_payouts s @ [p]\<rparr>)"
  using payout_create_step [OF inv_ok [OF inv_ids [OF assms(1)]], of p] assms
  by (simp add: billing_inv_def)

lemma NewSellerPayout_fields:
  "NewSellerPayout i d v a s b n c st now = Inr p \<Longrightarrow> sp_amount p = n \<and> sp_status p = st"
  by (auto simp: NewSellerPayout_def split: if_splits)

lemma CreateSellerPayout_keeps: "keeps env (CreateSellerPayout env now cmd)"
  unfolding keeps_def
proof (intro allI impI)
  fix s assume inv: "billing_inv env s"
  show "ok_wp (CreateSellerPayout env now cmd) (\<lambda>_. billing_inv env) s"
    unfolding CreateSellerPayout_def
    apply (intro wp_intro)
    by (auto simp: inv inv_ids [OF inv] dest: inv_goods_int64 [OF inv] dest!: NewSellerPayout_fields
        intro!: ok_publish payout_created [OF inv] ok_ret)
qed

lemma ok_payout_save:
  assumes inv: "billing_inv env s" and p: "p \<in> set (bs_payouts s)" "sp_id p' = sp_id p"
    and st: "sp_status p \<noteq> SellerPayoutPaid" "sp_status p' \<noteq> SellerPayoutPaid"
    and Q: "\<And>S. billing_inv env S \<Longrightarrow> Q () S"
  shows "ok_wp (payouts_Save p') Q s"
  using inv payout_status_step [OF inv_ok [OF inv] p(1) st] p(2)
  by (auto simp: wp_simps billing_inv_def intro!: Q)

lemma MarkSellerPayoutReady_keeps: "keeps env (MarkSellerPayoutReady env now i)"
  unfolding keeps_def
proof (intro allI impI)
  fix s assume inv: "billing_inv env s"
  show "ok_wp (MarkSellerPayoutReady env now i) (\<lambda>_. billing_inv env) s"
    unfolding MarkSellerPayoutReady_def
    apply (intro wp_intro)
    by (auto simp: inv sp_MarkReady_def split: if_splits
        intro!: ok_payout_save [OF inv] ok_bind ok_publish ok_ret)
qed

lemma MarkSellerPayoutFailed_keeps: "keeps env (MarkSellerPayoutFailed now i)"
  unfolding keeps_def
proof (intro allI impI)
  fix s assume inv: "billing_inv env s"
  show "ok_wp (MarkSellerPayoutFailed now i) (\<lambda>_. billing_inv env) s"
    unfolding MarkSellerPayoutFailed_def
    apply (intro wp_intro)
    by (auto simp: inv sp_MarkFailed_def split: if_splits
        intro!: ok_payout_save [OF inv] ok_ret)
qed

lemma ok_payout_save_raw [wp_intro]:
  "Q () (s\<lparr>bs_payouts := row_update (\<lambda>r. sp_id r = sp_id p)
      (\<lambda>r. r\<lparr>sp_status := sp_status p, sp_ready_at := sp_ready_at p, sp_paid_at := sp_paid_at p,
            sp_cancelled_at := sp_cancelled_at p, sp_failed_at := sp_failed_at p\<rparr>) (bs_payouts s)\<rparr>)
    \<Longrightarrow> ok_wp (payouts_Save p) Q s"
  by (simp add: wp_simps)

lemma ok_credited [wp_intro]:
  "Q ((sp_seller p, ''seller_payout'', sp_id p, LedgerSellerPayoutCredited)
      \<in> ledger_key ` set (bs_ledger s)) s \<Longrightarrow> ok_wp (payout_credited p) Q s"
  unfolding payout_credited_def by (rule ok_ledger_exists)

lemma paid_final:
  assumes ok: "billing_ok nid n as ds es ps pos ts is"
    and p: "p \<in> set pos" "sp_status p \<noteq> SellerPayoutPaid"
    and a: "a \<in> set as" "acc_company a = sp_seller p"
    and op: "acc_Deposit (sp_amount p) a = Inr a'" "0 \<le> acc_available a'"
    and e: "le_id e = nid n" "le_account e = acc_id a" "le_amount e = sp_amount p"
      "ledger_key e = (sp_seller p, ''seller_payout'', sp_id p, LedgerSellerPayoutCredited)"
  shows "billing_ok nid (Suc n) (set_account (acc_id a') (acc_available a') (acc_held a') as) ds
     (es @ [e]) ps (row_update (\<lambda>r. sp_id r = sp_id p)
       (\<lambda>r. r\<lparr>sp_status := SellerPayoutPaid, sp_ready_at := x, sp_paid_at := y,
             sp_cancelled_at := z, sp_failed_at := w\<rparr>) pos) ts is"
proof -
  have "is_int64 (sp_amount p)" "acc_ok a"
    using ok p(1) a(1) by (simp_all add: billing_ok_def payouts_wf_def accounts_wf_def)
  note x = exact_deposit [OF this(2,1) op]
  have id: "acc_id a' = acc_id a" "acc_held a' = acc_held a" using x by simp_all
  show ?thesis
    unfolding id
    by (rule payout_paid_step [OF ok _ p a]) (use x e in \<open>auto simp: acc_ok_def\<close>)
qed

lemma MarkSellerPayoutPaid_keeps: "keeps env (MarkSellerPayoutPaid env now i)"
  unfolding keeps_def
proof (intro allI impI)
  fix s assume inv: "billing_inv env s"
  note iff = payout_paid_iff_credited [OF inv_ok]
  have create: "ok_wp (bindE (CreateAccount env c) (\<lambda>_. T)) (\<lambda>_. billing_inv env) s"
    if "\<And>S. billing_inv env S \<Longrightarrow> bs_payouts S = bs_payouts s \<Longrightarrow> ok_wp T (\<lambda>_. billing_inv env) S"
    for c and T :: "seller_payout billing"
    by (rule ok_bind, rule ok_create_account [OF inv]) (rule that)
  have paid: "ok_wp (publish_paid env q now) (\<lambda>_. ok_wp (retE q) (\<lambda>_. billing_inv env)) S"
    if "billing_inv env S" for q S
    unfolding publish_paid_def by (rule ok_publish [OF that]) (rule ok_ret)
  show "ok_wp (MarkSellerPayoutPaid env now i) (\<lambda>_. billing_inv env) s"
    unfolding MarkSellerPayoutPaid_def
    apply (intro ok_if ok_fail ok_bind [of "payouts_LoadByID i"] ok_payout_load
        ok_bind [of "payout_credited _"] ok_credited create ok_ret inv)
    apply (simp_all add: iff [OF inv])
    apply (intro wp_intro paid)
      apply (auto simp: sp_MarkPaid_def payout_entry_def iff new_id_fresh_set billing_inv_def
        intro: inv_facts(3) split: if_splits)
     apply (drule (1) payout_paid_iff_credited, force simp: image_iff)
    apply (erule (1) paid_final; simp)
    done
qed

end
