(* ===== verification/Billing_System.thy ===== *)
theory Billing_System
  imports Billing_Payments_Correct
begin

section \<open>Billing as a whole: what its callers can do to the store\<close>

text \<open>
  The callers of billing: the HTTP handlers of \<open>internal/billing/http\<close>, the event handlers of
  \<open>internal/integration/runtime\<close> (each use case in a transaction, \<open>db_tx\<close>) and the deposit
  service of the trading context, whose statements commit one by one (\<open>db_uow\<close>, see
  Transactions). \<open>billing_reachable\<close> are the stores any sequence of such calls can produce.
\<close>

datatype billing_command =
    CmdCreateAccount string
  | CmdBidDeposit time string string int
  | CmdRelease time string string string
  | CmdCapture time string string string
  | CmdReleaseExcept time string "string list" string
  | CmdCaptureFee time string string int
  | CmdSettleWinner time string string int int string
  | CmdCreateTopUp time string int currency
  | CmdConfirmTopUp time string int string
  | CmdConfirmByProvider time time string string int currency
  | CmdConfirmByTopUpID time time string
  | CmdCreateInvoice time create_invoice_command
  | CmdInvoicePaid time string
  | CmdInvoiceExpire time string
  | CmdCreatePayout time create_payout_command
  | CmdPayoutReady time string
  | CmdPayoutFailed time string
  | CmdPayoutPaid time string

definition void :: "'a billing \<Rightarrow> unit billing" where
  "void m = bindE m (\<lambda>_. retE ())"

text \<open>\<open>billingdeposit.Service.ReserveAuctionDeposit\<close>, before the renaming of its error.\<close>

definition bid_deposit :: "billing_env \<Rightarrow> time \<Rightarrow> string \<Rightarrow> string \<Rightarrow> int \<Rightarrow> unit billing" where
  "bid_deposit env now companyID auctionID startPrice =
     bindE (CreateAccount env companyID) (\<lambda>_.
     ReserveAuctionDeposit env now companyID auctionID startPrice CurrencyRUB)"

fun exec_command :: "billing_env \<Rightarrow> billing_command \<Rightarrow> unit billing" where
  "exec_command env (CmdCreateAccount c) = CreateAccount env c"
| "exec_command env (CmdBidDeposit now c a p) = bid_deposit env now c a p"
| "exec_command env (CmdRelease now c a r) = ReleaseAuctionDeposit env now c a r"
| "exec_command env (CmdCapture now c a r) = CaptureAuctionDeposit env now c a r"
| "exec_command env (CmdReleaseExcept now a cs r) = ReleaseAuctionDepositsExceptCandidates env now a cs r"
| "exec_command env (CmdCaptureFee now c a p) = CapturePlatformFeeFromDeposit env now c a p"
| "exec_command env (CmdSettleWinner now a c g p r) =
     SettleWinnerDepositAfterInvoicePaid env now a c g p r"
| "exec_command env (CmdCreateTopUp now c n cur) = void (CreateTopUp env now c n cur)"
| "exec_command env (CmdConfirmTopUp now c n x) = ConfirmTopUp env now c n x"
| "exec_command env (CmdConfirmByProvider now now2 p x n cur) =
     ConfirmTopUpByProvider env now now2 p x n cur"
| "exec_command env (CmdConfirmByTopUpID now now2 i) = ConfirmTopUpByTopUpID env now now2 i"
| "exec_command env (CmdCreateInvoice now c) = void (CreateDealInvoice env now c)"
| "exec_command env (CmdInvoicePaid t i) = ConfirmDealInvoicePaid env t i"
| "exec_command env (CmdInvoiceExpire now i) = ExpireDealInvoice env now i"
| "exec_command env (CmdCreatePayout now c) = void (CreateSellerPayout env now c)"
| "exec_command env (CmdPayoutReady now i) = void (MarkSellerPayoutReady env now i)"
| "exec_command env (CmdPayoutFailed now i) = void (MarkSellerPayoutFailed now i)"
| "exec_command env (CmdPayoutPaid now i) = void (MarkSellerPayoutPaid env now i)"

fun run_command :: "billing_env \<Rightarrow> billing_command \<Rightarrow> unit billing" where
  "run_command env (CmdBidDeposit now c a p) = db_uow (exec_command env (CmdBidDeposit now c a p))"
| "run_command env cmd = db_tx (exec_command env cmd)"

text \<open>
  Amounts a caller passes are \<open>int64\<close>s. A bid deposit runs without a transaction, so it has a
  second condition: the held amount of the account does not overflow.
\<close>

fun command_ok :: "billing_store \<Rightarrow> billing_command \<Rightarrow> bool" where
  "command_ok s (CmdBidDeposit now c a p) \<longleftrightarrow>
     (\<forall>x \<in> set (bs_accounts s). is_int64 (acc_held x + depositFromStartPrice p))"
| "command_ok s (CmdCreateTopUp now c n cur) \<longleftrightarrow> is_int64 n"
| "command_ok s (CmdConfirmTopUp now c n x) \<longleftrightarrow> is_int64 n"
| "command_ok s (CmdCreateInvoice now c) \<longleftrightarrow> is_int64 (cic_goods c)"
| "command_ok s _ \<longleftrightarrow> True"

definition empty_store :: billing_store where
  "empty_store = \<lparr>bs_accounts = [], bs_deposits = [], bs_ledger = [], bs_processed = [],
     bs_top_ups = [], bs_invoices = [], bs_payouts = [], bs_outbox = [], bs_ids = 0, bs_now = 0\<rparr>"

inductive billing_reachable :: "billing_env \<Rightarrow> billing_store \<Rightarrow> bool" for env where
  start: "billing_reachable env empty_store"
| command: "billing_reachable env s \<Longrightarrow> command_ok s cmd
    \<Longrightarrow> billing_reachable env (snd (run_command env cmd s))"
| tick: "billing_reachable env s \<Longrightarrow> bs_now s \<le> t \<Longrightarrow> billing_reachable env (s\<lparr>bs_now := t\<rparr>)"

subsection \<open>The invariant\<close>

lemma void_keeps: "keeps env m \<Longrightarrow> keeps env (void m)"
  unfolding void_def keeps_def [of _ "bindE _ _"] by (auto intro: keeps_bind ok_ret)

lemma CreateAccount_keeps': "keeps env (CreateAccount env c)"
  unfolding keeps_def by (intro allI impI, rule ok_create_account)

lemma bid_deposit_keeps: "keeps env (bid_deposit env now c a p)"
  unfolding bid_deposit_def keeps_def
  by (intro allI impI, rule keeps_bind [OF CreateAccount_keeps'])
    (auto intro: ReserveAuctionDeposit_keeps [unfolded keeps_def, rule_format])

lemmas exec_keeps = CreateAccount_keeps' bid_deposit_keeps ReleaseAuctionDeposit_keeps
  CaptureAuctionDeposit_keeps ReleaseAuctionDepositsExceptCandidates_keeps
  CapturePlatformFeeFromDeposit_keeps SettleWinnerDepositAfterInvoicePaid_keeps
  CreateTopUp_keeps ConfirmTopUp_keeps ConfirmTopUpByProvider_keeps ConfirmTopUpByTopUpID_keeps
  CreateDealInvoice_keeps ConfirmDealInvoicePaid_keeps ExpireDealInvoice_keeps
  CreateSellerPayout_keeps MarkSellerPayoutReady_keeps MarkSellerPayoutFailed_keeps
  MarkSellerPayoutPaid_keeps

lemma exec_command_keeps: "command_ok s cmd \<Longrightarrow> keeps env (exec_command env cmd)"
  by (cases cmd) (simp_all add: exec_keeps void_keeps)

lemma tx_keeps: "keeps env m \<Longrightarrow> billing_inv env s \<Longrightarrow> billing_inv env (snd (db_tx m s))"
  by (rule sql_tx.run_keeps) (simp_all add: keeps_def)

text \<open>A failed reservation outside a transaction: what it leaves behind.\<close>

lemma reserve_save_possible:
  assumes inv: "billing_inv env s" and a: "a \<in> set (bs_accounts s)"
    and room: "is_int64 (acc_held a + n)" and op: "acc_Reserve n a = Inr a'"
  shows "0 \<le> acc_available a' \<and> 0 \<le> acc_held a' \<and> acc_id a' = acc_id a"
proof -
  have "acc_ok a" using inv_facts [OF inv] a by simp
  then show ?thesis
    using op room sub64_exact [of "acc_available a" n]
    by (auto simp: acc_Reserve_iff acc_ok_def add64_exact int64_unfold)
qed

text \<open>Statements that change nothing when they fail.\<close>

definition clean :: "'a billing \<Rightarrow> bool" where
  "clean m \<longleftrightarrow> (\<forall>s e t. m s = (Inl e, t) \<longrightarrow> t = s)"

lemma err_clean: "clean m \<Longrightarrow> R s \<Longrightarrow> ok_wp m Q s \<Longrightarrow> wpE m Q (\<lambda>_. R) s"
  unfolding clean_def by (force simp: wpE_def split: prod.splits sum.splits)

lemma clean_reads [simp, intro]:
  "clean (accounts_Load c)" "clean (deposits_Find a c)" "clean (ledger_ExistsByReference c rt r ty)"
  "clean (liftE r')" "clean (catchE (liftE r') (\<lambda>e. failE (h e)))" "clean (new_id env)"
  "clean (deposits_Create d)" "clean (failE e)" "clean (retE x)" "clean (accounts_ExistsByCompany c)"
  "clean (accounts_Create acc)"
  by (auto simp: clean_def accounts_Load_def billing_reads readE_def liftE_def catchE_def failE_def
      new_id_def deposits_Create_def retE_def accounts_Create_def
      split: option.splits if_splits sum.splits)

lemma err_bind: "wpE m (\<lambda>a. wpE (f a) Q R) R s \<Longrightarrow> wpE (bindE m f) Q R s"
  by (simp add: wp_simps)

lemma err_if: "(b \<Longrightarrow> wpE m Q R s) \<Longrightarrow> (\<not> b \<Longrightarrow> wpE n Q R s) \<Longrightarrow> wpE (if b then m else n) Q R s"
  by simp

lemma err_option: "(x = None \<Longrightarrow> wpE m Q R s) \<Longrightarrow> (\<And>a. x = Some a \<Longrightarrow> wpE (f a) Q R s)
    \<Longrightarrow> wpE (case x of None \<Rightarrow> m | Some a \<Rightarrow> f a) Q R s"
  by (cases x) auto

lemma acc_ids_set_account [simp]: "acc_id ` set (set_account i av h as) = acc_id ` set as"
  by (induction as) (auto simp: row_update_def)

lemma err_save:
  assumes "acc_id a \<in> acc_id ` set (bs_accounts s)" "0 \<le> acc_available a" "0 \<le> acc_held a"
    "Q () (s\<lparr>bs_accounts := set_account (acc_id a) (acc_available a) (acc_held a) (bs_accounts s)\<rparr>)"
  shows "wpE (accounts_Save a) Q R s"
  using assms by (auto simp: wp_simps list_ex_iff)

lemma err_append:
  assumes "0 < le_amount e" "le_account e \<in> acc_id ` set (bs_accounts s)"
    "ledger_key e \<notin> ledger_key ` set (bs_ledger s)" "le_id e \<notin> le_id ` set (bs_ledger s)"
    "Q () (s\<lparr>bs_ledger := bs_ledger s @ [e]\<rparr>)"
  shows "wpE (ledger_Append e) Q R s"
proof -
  have "\<not> list_ex (\<lambda>r. le_id r = le_id e \<or> ledger_key r = ledger_key e) (bs_ledger s)"
    using assms(3,4) by (auto simp: list_ex_iff image_iff)
  moreover have "list_ex (\<lambda>x. acc_id x = le_account e) (bs_accounts s)"
    using assms(2) by (auto simp: list_ex_iff)
  ultimately show ?thesis using assms(1,5) by (simp add: wp_simps)
qed

lemma err_publish:
  assumes "billing_inv env s"
  shows "wpE (publish_if env a c ev) (\<lambda>_. billing_inv env) (\<lambda>_. billing_inv env) s"
  using assms billing_ok_ids by (auto simp: wp_simps billing_inv_def)

lemma err_ledger_exists:
  "Q ((c, rt, r, ty) \<in> ledger_key ` set (bs_ledger s)) s \<Longrightarrow>
    wpE (ledger_ExistsByReference c rt r ty) Q R s"
  by (simp add: wp_simps ledger_ExistsByReference_def list_ex_iff image_iff eq_commute)

lemmas err_intro = err_bind err_if err_option err_publish
  err_clean [OF clean_reads(1) _ ok_load] err_clean [OF clean_reads(2) _ ok_find]
  err_clean [OF clean_reads(3) _ ok_ledger_exists] err_clean [OF clean_reads(4) _ ok_lift]
  err_clean [OF clean_reads(5) _ ok_lift_err] err_clean [OF clean_reads(6) _ ok_new_id]
  err_clean [OF clean_reads(7) _ ok_deposit_create] err_clean [OF clean_reads(8) _ ok_fail]
  err_clean [OF clean_reads(9) _ ok_ret] err_clean [OF clean_reads(10) _ ok_exists]
  err_clean [OF clean_reads(11) _ ok_account_create]

lemma reserve_tail:
  assumes inv: "billing_inv env s" and x: "x \<in> set (bs_accounts s)" "acc_company x = c"
    and op: "acc_Reserve n x = Inr y" "0 \<le> acc_available y" "0 \<le> acc_held y" "acc_id y = acc_id x"
    and n: "is_int64 n" "0 < n"
    and d: "dep_key d \<notin> dep_key ` set (bs_deposits s)" "dep_auction d = a" "dep_company d = c"
      "dep_account d = acc_id x" "dep_status d = DepositHeld" "dep_amount d = n"
  shows "wpE (accounts_Save y) (\<lambda>_. wpE (bindE (ledger_ExistsByReference c ''auction_deposit''
           (auctionDepositLedgerRef a c) LedgerBidDepositReserved) (\<lambda>e. if e then retE () else
         bindE (new_id env) (\<lambda>i. bindE (ledger_Append \<lparr>le_id = i, le_account = acc_id x,
             le_company = c, le_currency = cur, le_amount = n, le_type = LedgerBidDepositReserved,
             le_reftype = ''auction_deposit'', le_refid = auctionDepositLedgerRef a c,
             le_reason = r, le_created_at = now\<rparr>) (\<lambda>_. publish_if env a' c' ev))))
         (\<lambda>_. billing_inv env) (\<lambda>_. billing_inv env)) (\<lambda>_. billing_inv env)
       (s\<lparr>bs_deposits := bs_deposits s @ [d]\<rparr>)"
proof -
  have new: "(c, ''auction_deposit'', auctionDepositLedgerRef a c, LedgerBidDepositReserved)
      \<notin> ledger_key ` set (bs_ledger s)"
    by (rule not_reserved [OF inv]) (use d in \<open>auto simp: dep_key_def image_iff\<close>)
  show ?thesis
    apply (rule err_save)
       apply (use x op in simp)
      apply (rule op(2))
     apply (rule op(3))
    apply (simp only: wpE_bind)
    apply (rule err_ledger_exists)
    apply (simp add: new wpE_bind wpE_new_id)
    apply (rule err_append)
        apply (use x op n new new_id_fresh_set [OF inv] in simp_all)
    apply (rule err_publish)
    unfolding billing_inv_def
    apply (simp add: inv_facts(3) [OF inv])
    apply (rule reserve_final [OF inv op(1,3) x(1) n(1) d(1), unfolded op(4)])
    using x d new by (auto simp: dep_ref_def auctionDepositLedgerRef_def)
qed

lemma reserve_keeps_always:
  assumes inv: "billing_inv env s"
    and room: "\<And>x. x \<in> set (bs_accounts s) \<Longrightarrow> is_int64 (acc_held x + depositFromStartPrice p)"
  shows "wpE (ReserveAuctionDeposit env now c a p cur) (\<lambda>_. billing_inv env) (\<lambda>_. billing_inv env) s"
  unfolding ReserveAuctionDeposit_def Let_def
  apply (intro err_intro)
                   apply (simp_all add: inv)
  apply (frule (2) reserve_save_possible [OF inv _ room])
  apply (auto simp: NewAuctionDeposit_def deposit_int64 dep_key_def split: if_splits
      intro!: reserve_tail [OF inv])
  done

definition holds_within :: "billing_store \<Rightarrow> billing_store \<Rightarrow> bool" where
  "holds_within s S \<longleftrightarrow>
     (\<forall>x \<in> set (bs_accounts S). acc_held x = 0 \<or> acc_held x \<in> acc_held ` set (bs_accounts s))"

lemma create_account_keeps_always:
  assumes inv: "billing_inv env s"
    and Q: "\<And>S. billing_inv env S \<Longrightarrow> holds_within s S \<Longrightarrow> wpE m Q (\<lambda>_. billing_inv env) S"
  shows "wpE (bindE (CreateAccount env c) (\<lambda>_. m)) Q (\<lambda>_. billing_inv env) s"
proof -
  have pub: "wpE (publish_if env x y ev) (\<lambda>_. wpE m Q (\<lambda>_. billing_inv env)) (\<lambda>_. billing_inv env) S"
    if "billing_inv env S" "holds_within s S" for x y ev S
    using that billing_ok_ids
    by (auto simp: wp_simps billing_inv_def holds_within_def intro!: Q)
  have same: "holds_within s s" by (auto simp: holds_within_def)
  have new: "holds_within s (s\<lparr>bs_ids := n, bs_accounts := bs_accounts s @ [a]\<rparr>)"
    if "NewAccount i c cur = Inr a" for i cur a n
    using that by (auto simp: holds_within_def NewAccount_def split: if_splits)
  show ?thesis
    unfolding CreateAccount_def
    apply (intro err_intro)
         apply (simp_all add: inv inv_ids)
    by (auto intro!: Q pub same simp: inv new_account_inv [OF inv] new)
qed

lemma bid_deposit_keeps_always:
  assumes inv: "billing_inv env s"
    and room: "\<And>x. x \<in> set (bs_accounts s) \<Longrightarrow> is_int64 (acc_held x + depositFromStartPrice p)"
  shows "wpE (bid_deposit env now c a p) (\<lambda>_. billing_inv env) (\<lambda>_. billing_inv env) s"
  unfolding bid_deposit_def
proof (rule create_account_keeps_always [OF inv], rule reserve_keeps_always)
  fix S x assume "holds_within s S" "x \<in> set (bs_accounts S)"
  then show "is_int64 (acc_held x + depositFromStartPrice p)"
    using room deposit_int64 by (auto simp: holds_within_def)
qed

lemma run_command_inv:
  assumes inv: "billing_inv env s" and ok: "command_ok s cmd"
  shows "billing_inv env (snd (run_command env cmd s))"
proof -
  have tx: "billing_inv env (snd (db_tx (exec_command env cmd) s))"
    by (rule tx_keeps [OF exec_command_keeps [OF ok] inv])
  show ?thesis
  proof (cases cmd)
    case (CmdBidDeposit now c a p)
    then have "wpE (bid_deposit env now c a p) (\<lambda>_. billing_inv env) (\<lambda>_. billing_inv env) s"
      using ok by (intro bid_deposit_keeps_always [OF inv]) simp
    then show ?thesis
      using CmdBidDeposit by (auto simp: db_uow_plain wpE_def split: prod.splits sum.splits)
  qed (use tx in simp_all)
qed

lemma empty_store_inv: "inj (env_id env) \<Longrightarrow> billing_inv env empty_store"
  by (simp add: billing_inv_def billing_ok_defs empty_store_def)

lemma reachable_inv: "billing_reachable env s \<Longrightarrow> inj (env_id env) \<Longrightarrow> billing_inv env s"
proof (induction rule: billing_reachable.induct)
  case (tick s t)
  then show ?case by (simp add: billing_inv_def)
qed (auto intro: empty_store_inv run_command_inv)

end
