(* ===== verification/Trading_Store.thy ===== *)
theory Trading_Store
  imports Auction_Correct Outbox Go_Format Billing_System
begin

section \<open>The trading tables and repositories (internal/trading/postgres)\<close>

text \<open>
  \<open>trading_store\<close> holds one list of rows per table of migrations 005 - 007, 020, 025, 028 and
  031, the trading rows of the outbox and, in \<open>ts_wallet\<close>, whatever the deposit service keeps:
  the composition root passes the billing service, the tests a no-op. The repository methods are
  the SQL statements of \<open>trading/postgres\<close>, with the constraints of the tables as the errors
  they raise. \<open>ts_now\<close> is the clock of the database.

  \<open>trading_env\<close> holds what the source tree does not define: the values \<open>crypto/rand\<close> yields, the
  Keccak digest of \<open>golang.org/x/crypto\<close>, and how \<open>sort.Slice\<close> and \<open>ORDER BY\<close> break ties.
\<close>

datatype trading_error =
    AuctionError auction_error
  | ErrAuctionNotFound | ErrTradingInsufficientFunds | ErrCloseForbiddenBeforeEndWithBids
  | ErrCancelAuctionNotAllowed
  | DepositServiceError billing_error
  | TradingUniqueViolation | TradingCheckViolation
  | ErrBidRowNotFound string | ErrAuctionRowNotFound string
  | ErrMissingBidHash | ErrUnknownOpType string | ErrNoChainOp
  | ErrHexLength int | ErrHexByte

record auction_row =
  ar_id :: string
  ar_lot :: string
  ar_state :: string
  ar_startsAt :: time
  ar_endsAt :: time
  ar_startPrice :: int
  ar_currentPrice :: int
  ar_minBidStep :: int
  ar_leader :: string
  ar_result_hash :: "string option"
  ar_fin_tx :: "string option"
  ar_fin_status :: string
  ar_fin_wallet :: "string option"
  ar_fin_block :: "int option"

record bid_row =
  br_auction :: string
  br_company :: string
  br_amount :: int
  br_placedAt :: time
  br_hash :: "string option"
  br_tx :: "string option"
  br_status :: string
  br_wallet :: "string option"
  br_block :: "int option"

record winner_record =
  wr_place :: int
  wr_company :: string
  wr_amount :: int
  wr_placedAt :: time

record chain_operation =
  co_id :: int
  co_type :: string
  co_nonce :: int
  co_auction :: string
  co_ref_hash :: string
  co_bid_hash :: "string option"
  co_placedAt :: "time option"
  co_startsAt :: "time option"
  co_endsAt :: "time option"
  co_minBidStep :: "int option"
  co_result_hash :: "string option"
  co_winner :: "string option"
  co_final_price :: "int option"
  co_wallet :: "string option"
  co_status :: string
  co_tx :: "string option"
  co_block :: "int option"
  co_last_error :: "string option"
  co_attempts :: int
  co_next_retry :: time
  co_created :: time
  co_updated :: time

record 'w trading_store =
  ts_auctions :: "auction_row list"
  ts_bids :: "bid_row list"
  ts_winners :: "(string \<times> winner_record) list"
  ts_chain :: "chain_operation list"
  ts_chain_seq :: int
  ts_sync :: "(string \<times> string) list"
  ts_outbox :: "auction_event outbox_row list"
  ts_wallet :: 'w
  ts_ids :: nat
  ts_now :: time

type_synonym ('w, 'a) trading = "('w trading_store, trading_error, 'a) exec"

record trading_env =
  te_id :: "nat \<Rightarrow> string"
  te_keccak :: "string \<Rightarrow> string"
  te_sort_slice :: bid_sort
  te_order_bids :: bid_sort
  te_order_rows :: "(auction_row \<Rightarrow> auction_row \<Rightarrow> bool) \<Rightarrow> auction_row list \<Rightarrow> auction_row list"

record command_meta =
  cm_company :: string
  cm_user :: string
  cm_actor :: string
  cm_correlation :: string
  cm_causation :: string

definition next_id :: "trading_env \<Rightarrow> ('w, string) trading" where
  "next_id env s = (Inr (te_id env (ts_ids s)), s\<lparr>ts_ids := Suc (ts_ids s)\<rparr>)"

subsection \<open>Auctions\<close>

definition row_auction :: "auction_row \<Rightarrow> auction_error + auction" where
  "row_auction r = RehydrateAuction (ar_id r) (ar_lot r) (ar_state r) (ar_startsAt r) (ar_endsAt r)
     (ar_startPrice r) (ar_currentPrice r) (ar_minBidStep r) (ar_leader r)"

definition auctions_load :: "string \<Rightarrow> ('w, auction) trading" where
  "auctions_load id' s =
     (case row_select (\<lambda>r. ar_id r = id') (ts_auctions s) of
        None \<Rightarrow> (Inl ErrAuctionNotFound, s)
      | Some r \<Rightarrow> (map_sum AuctionError (\<lambda>a. a) (row_auction r), s))"

definition new_auction_row :: "auction \<Rightarrow> auction_row" where
  "new_auction_row a = \<lparr>ar_id = au_id a, ar_lot = au_lot a,
     ar_state = auction_state_text (au_state a), ar_startsAt = au_startsAt a,
     ar_endsAt = au_endsAt a, ar_startPrice = au_startPrice a, ar_currentPrice = au_currentPrice a,
     ar_minBidStep = au_minBidStep a, ar_leader = au_leader a, ar_result_hash = None,
     ar_fin_tx = None, ar_fin_status = ''NOT_FINALIZED'', ar_fin_wallet = None, ar_fin_block = None\<rparr>"

definition set_auction_row :: "auction \<Rightarrow> auction_row \<Rightarrow> auction_row" where
  "set_auction_row a r = r\<lparr>ar_lot := au_lot a, ar_state := auction_state_text (au_state a),
     ar_startsAt := au_startsAt a, ar_endsAt := au_endsAt a, ar_startPrice := au_startPrice a,
     ar_currentPrice := au_currentPrice a, ar_minBidStep := au_minBidStep a,
     ar_leader := au_leader a\<rparr>"

definition put_auction :: "auction \<Rightarrow> auction_row list \<Rightarrow> auction_row list" where
  "put_auction a rows =
     (if list_ex (\<lambda>r. ar_id r = au_id a) rows
      then row_update (\<lambda>r. ar_id r = au_id a) (set_auction_row a) rows
      else rows @ [new_auction_row a])"

definition auctions_Save :: "auction \<Rightarrow> ('w, unit) trading" where
  "auctions_Save a s =
     (if au_startPrice a \<le> 0 then (Inl TradingCheckViolation, s)
      else (Inr (), s\<lparr>ts_auctions := put_auction a (ts_auctions s)\<rparr>))"

definition earlier_end :: "auction_row \<Rightarrow> auction_row \<Rightarrow> bool" where
  "earlier_end x y \<longleftrightarrow> ar_endsAt x < ar_endsAt y"

definition ListExpired :: "trading_env \<Rightarrow> time \<Rightarrow> int \<Rightarrow> ('w, string list) trading" where
  "ListExpired env now limit = readE (\<lambda>s.
     let limit' = (if limit \<le> 0 then 100 else limit) in
     map ar_id (take (nat limit') (te_order_rows env earlier_end
       (filter (\<lambda>r. ar_state r = ''PUBLISHED'' \<and> ar_endsAt r \<le> now) (ts_auctions s)))))"

subsection \<open>Bids and winners\<close>

definition bids_Save :: "string \<Rightarrow> bid \<Rightarrow> ('w, unit) trading" where
  "bids_Save auctionID b = modifyE (\<lambda>s. s\<lparr>ts_bids := ts_bids s @
     [\<lparr>br_auction = auctionID, br_company = bid_company b, br_amount = bid_amount b,
       br_placedAt = bid_placedAt b, br_hash = None, br_tx = None, br_status = ''NOT_ANCHORED'',
       br_wallet = None, br_block = None\<rparr>]\<rparr>)"

fun scan_bids :: "bid list \<Rightarrow> auction_error + bid list" where
  "scan_bids [] = Inr []"
| "scan_bids (r # rs) = (case NewBid (bid_company r) (bid_amount r) (bid_placedAt r) of
     Inl e \<Rightarrow> Inl e
   | Inr b \<Rightarrow> map_sum (\<lambda>e. e) (\<lambda>bs. b # bs) (scan_bids rs))"

definition row_bid :: "bid_row \<Rightarrow> bid" where
  "row_bid r = \<lparr>bid_company = br_company r, bid_amount = br_amount r, bid_placedAt = br_placedAt r\<rparr>"

definition auction_bids :: "string \<Rightarrow> bid_row list \<Rightarrow> bid list" where
  "auction_bids auctionID rows = map row_bid (filter (\<lambda>r. br_auction r = auctionID) rows)"

definition TopBids :: "trading_env \<Rightarrow> string \<Rightarrow> ('w, bid list) trading" where
  "TopBids env auctionID s =
     (map_sum AuctionError (\<lambda>bs. bs)
       (scan_bids (te_order_bids env ranks_before (auction_bids auctionID (ts_bids s)))), s)"

definition winner_insert :: "string \<Rightarrow> winner_record \<Rightarrow> ('w, unit) trading" where
  "winner_insert auctionID w s =
     (if list_ex (\<lambda>(a, x). a = auctionID \<and> wr_place x = wr_place w) (ts_winners s)
      then (Inl TradingUniqueViolation, s)
      else (Inr (), s\<lparr>ts_winners := ts_winners s @ [(auctionID, w)]\<rparr>))"

definition winners_Save :: "string \<Rightarrow> winner_record list \<Rightarrow> ('w, unit) trading" where
  "winners_Save auctionID ws =
     bindE (modifyE (\<lambda>s. s\<lparr>ts_winners := filter (\<lambda>(a, x). a \<noteq> auctionID) (ts_winners s)\<rparr>)) (\<lambda>_.
     forE (winner_insert auctionID) ws)"

subsection \<open>The outbox\<close>

fun eventTypeFor :: "auction_event \<Rightarrow> string" where
  "eventTypeFor (AuctionPublished _) = ''trading.AuctionPublished''"
| "eventTypeFor (BidPlaced _ _ _ _ _) = ''trading.BidPlaced''"
| "eventTypeFor (AuctionClosed _) = ''trading.AuctionClosed''"
| "eventTypeFor (AuctionWon _ _ _ _) = ''trading.AuctionWon''"
| "eventTypeFor (AuctionCancelled _) = ''trading.AuctionCancelled''"

fun auctionIDFor :: "auction_event \<Rightarrow> string" where
  "auctionIDFor (AuctionPublished i) = i"
| "auctionIDFor (BidPlaced i _ _ _ _) = i"
| "auctionIDFor (AuctionClosed i) = i"
| "auctionIDFor (AuctionWon i _ _ _) = i"
| "auctionIDFor (AuctionCancelled i) = i"

definition outbox_row_for ::
  "time \<Rightarrow> command_meta \<Rightarrow> string \<Rightarrow> string \<Rightarrow> auction_event \<Rightarrow> auction_event outbox_row" where
  "outbox_row_for now meta messageID eventID ev =
     \<lparr>ob_id = messageID, ob_event_id = eventID, ob_event_type = eventTypeFor ev,
      ob_aggregate = auctionIDFor ev, ob_payload = ev, ob_occurred_at = now, ob_created_at = now,
      ob_correlation = cm_correlation meta, ob_causation = cm_causation meta,
      ob_company = cm_company meta, ob_user = cm_user meta, ob_source = ''trading'',
      ob_published_at = None, ob_locked_at = None, ob_attempts = 0, ob_failed_at = None,
      ob_last_error = None\<rparr>"

definition outbox_put :: "auction_event outbox_row \<Rightarrow> ('w, unit) trading" where
  "outbox_put r = zoomE ts_outbox (\<lambda>o' s. s\<lparr>ts_outbox := o'\<rparr>) (outbox_insert TradingUniqueViolation r)"

definition outbox_Add :: "trading_env \<Rightarrow> time \<Rightarrow> command_meta \<Rightarrow> auction_event list \<Rightarrow> ('w, unit) trading"
  where
  "outbox_Add env now meta events = forE (\<lambda>ev.
     bindE (next_id env) (\<lambda>messageID.
     bindE (next_id env) (\<lambda>eventID.
     outbox_put (outbox_row_for now meta messageID eventID ev)))) events"

end
