(* ===== verification/Trading_Chain.thy ===== *)
theory Trading_Chain
  imports Trading_Store
begin

section \<open>The queue of blockchain operations (trading/app/chain_ops.go, chain_ops_repository.go)\<close>

text \<open>
  Every publication, bid and closing queues an operation for the worker that anchors it on a
  chain. An operation is CREATED, then SENT with its transaction hash or FAILED and retried, then
  CONFIRMED; the bid or auction it belongs to carries a status of its own. The writes of the
  worker (\<open>MarkSubmitted\<close> and the others) are single statements on the pool, so an error in
  the second keeps the first.
\<close>

subsection \<open>Hashes\<close>

definition keccakHex :: "trading_env \<Rightarrow> string \<Rightarrow> string" where
  "keccakHex env value = ''0x'' @ hex_encode (te_keccak env value)"

definition buildAuctionRefHash :: "trading_env \<Rightarrow> string \<Rightarrow> string" where
  "buildAuctionRefHash env auctionID = keccakHex env (''auction|'' @ auctionID)"

definition buildBidHash :: "trading_env \<Rightarrow> string \<Rightarrow> string \<Rightarrow> int \<Rightarrow> time \<Rightarrow> string" where
  "buildBidHash env auctionID bidderCompanyID amount placedAt =
     keccakHex env (''bid|'' @ auctionID @ ''|'' @ bidderCompanyID @ ''|'' @ format_int amount
       @ ''|'' @ format_rfc3339nano placedAt)"

definition buildFinalizeResultHash :: "trading_env \<Rightarrow> string \<Rightarrow> string \<Rightarrow> int \<Rightarrow> string" where
  "buildFinalizeResultHash env auctionID winnerCompanyID finalPrice =
     keccakHex env (''result|'' @ auctionID @ ''|'' @ winnerCompanyID @ ''|'' @ format_int finalPrice)"

definition normalizeHex32 :: "string \<Rightarrow> trading_error + string" where
  "normalizeHex32 value =
     (let h = map to_lower (if take 2 value = ''0x'' then drop 2 value else value) in
      if length h \<noteq> 64 then Inl (ErrHexLength (int (length h)))
      else if \<not> hex_decodable h then Inl ErrHexByte
      else Inr (''0x'' @ h))"

subsection \<open>Enqueueing\<close>

definition nextNonce :: "string \<Rightarrow> ('w, int) trading" where
  "nextNonce auctionID = readE (\<lambda>s.
     foldl max (-1) (map co_nonce (filter (\<lambda>o'. co_auction o' = auctionID) (ts_chain s))) + 1)"

definition chain_op :: "string \<Rightarrow> int \<Rightarrow> string \<Rightarrow> string \<Rightarrow> chain_operation" where
  "chain_op opType nonce auctionID refHash =
     \<lparr>co_id = 0, co_type = opType, co_nonce = nonce, co_auction = auctionID, co_ref_hash = refHash,
      co_bid_hash = None, co_placedAt = None, co_startsAt = None, co_endsAt = None,
      co_minBidStep = None, co_result_hash = None, co_winner = None, co_final_price = None,
      co_wallet = None, co_status = ''CREATED'', co_tx = None, co_block = None,
      co_last_error = None, co_attempts = 0, co_next_retry = 0, co_created = 0, co_updated = 0\<rparr>"

text \<open>\<open>INSERT\<close>: the sequence gives \<open>op_id\<close>, the clock the times.\<close>

definition chain_insert :: "chain_operation \<Rightarrow> ('w, unit) trading" where
  "chain_insert o' s =
     (let s' = s\<lparr>ts_chain_seq := ts_chain_seq s + 1\<rparr> in
      if list_ex (\<lambda>x. co_auction x = co_auction o' \<and> co_nonce x = co_nonce o') (ts_chain s)
      then (Inl TradingUniqueViolation, s')
      else (Inr (), s'\<lparr>ts_chain := ts_chain s @
        [o'\<lparr>co_id := ts_chain_seq s, co_next_retry := ts_now s, co_created := ts_now s,
            co_updated := ts_now s\<rparr>]\<rparr>))"

definition EnqueueAuctionCreate ::
  "string \<Rightarrow> string \<Rightarrow> time \<Rightarrow> time \<Rightarrow> int \<Rightarrow> ('w, unit) trading" where
  "EnqueueAuctionCreate auctionID refHash startsAt endsAt minBidStep =
     bindE (nextNonce auctionID) (\<lambda>nonce.
     chain_insert ((chain_op ''AUCTION_CREATE'' nonce auctionID refHash)
       \<lparr>co_startsAt := Some startsAt, co_endsAt := Some endsAt, co_minBidStep := Some minBidStep\<rparr>))"

definition bid_hash_key :: "bid_row \<Rightarrow> (string \<times> string) option" where
  "bid_hash_key r = map_option (\<lambda>h. (br_auction r, h)) (br_hash r)"

definition hashes_unique :: "bid_row list \<Rightarrow> bool" where
  "hashes_unique rows \<longleftrightarrow> distinct (filter (\<lambda>k. k \<noteq> None) (map bid_hash_key rows))"

definition is_bid_row :: "string \<Rightarrow> string \<Rightarrow> int \<Rightarrow> time \<Rightarrow> bid_row \<Rightarrow> bool" where
  "is_bid_row auctionID company amount placedAt r \<longleftrightarrow>
     br_auction r = auctionID \<and> br_company r = company \<and> br_amount r = amount
     \<and> br_placedAt r = placedAt"

definition bids_set_hash ::
  "string \<Rightarrow> string \<Rightarrow> int \<Rightarrow> time \<Rightarrow> string \<Rightarrow> ('w, unit) trading" where
  "bids_set_hash auctionID company amount placedAt h s =
     (let p = is_bid_row auctionID company amount placedAt;
          rows = row_update p (\<lambda>r. r\<lparr>br_hash := Some h, br_status := ''PENDING_SUBMIT''\<rparr>) (ts_bids s)
      in if \<not> hashes_unique rows then (Inl TradingUniqueViolation, s)
         else if \<not> list_ex p (ts_bids s) then (Inl (ErrBidRowNotFound auctionID), s)
         else (Inr (), s\<lparr>ts_bids := rows\<rparr>))"

definition EnqueueBidAnchor ::
  "string \<Rightarrow> string \<Rightarrow> string \<Rightarrow> string \<Rightarrow> int \<Rightarrow> time \<Rightarrow> ('w, unit) trading" where
  "EnqueueBidAnchor auctionID refHash bidHash company amount placedAt =
     bindE (nextNonce auctionID) (\<lambda>nonce.
     bindE (chain_insert ((chain_op ''BID_ANCHOR'' nonce auctionID refHash)
       \<lparr>co_bid_hash := Some bidHash, co_placedAt := Some placedAt\<rparr>)) (\<lambda>_.
     bids_set_hash auctionID company amount placedAt bidHash))"

definition auctions_set_result :: "string \<Rightarrow> string \<Rightarrow> ('w, unit) trading" where
  "auctions_set_result auctionID h s =
     (if \<not> list_ex (\<lambda>r. ar_id r = auctionID) (ts_auctions s)
      then (Inl (ErrAuctionRowNotFound auctionID), s)
      else (Inr (), s\<lparr>ts_auctions := row_update (\<lambda>r. ar_id r = auctionID)
        (\<lambda>r. r\<lparr>ar_result_hash := Some h, ar_fin_status := ''PENDING_SUBMIT''\<rparr>) (ts_auctions s)\<rparr>))"

definition EnqueueAuctionFinalize ::
  "string \<Rightarrow> string \<Rightarrow> string \<Rightarrow> string \<Rightarrow> int \<Rightarrow> ('w, unit) trading" where
  "EnqueueAuctionFinalize auctionID refHash resultHash winner finalPrice =
     bindE (nextNonce auctionID) (\<lambda>nonce.
     bindE (chain_insert ((chain_op ''AUCTION_FINALIZE'' nonce auctionID refHash)
       \<lparr>co_result_hash := Some resultHash, co_winner := Some winner,
        co_final_price := Some finalPrice\<rparr>)) (\<lambda>_.
     auctions_set_result auctionID resultHash))"

subsection \<open>The worker's side\<close>

definition ready_op :: "time \<Rightarrow> chain_operation \<Rightarrow> bool" where
  "ready_op now o' \<longleftrightarrow>
     (co_status o' = ''CREATED'' \<or> co_status o' = ''FAILED'') \<and> co_next_retry o' \<le> now"

definition chain_list :: "(chain_operation \<Rightarrow> bool) \<Rightarrow> int \<Rightarrow> ('w, chain_operation list) trading" where
  "chain_list p limit = readE (\<lambda>s.
     take (nat (if limit \<le> 0 then 100 else limit)) (sort_key co_id (filter p (ts_chain s))))"

definition ListReadyForSubmit :: "time \<Rightarrow> int \<Rightarrow> ('w, chain_operation list) trading" where
  "ListReadyForSubmit now limit = chain_list (ready_op now) limit"

definition ListSubmitted :: "int \<Rightarrow> ('w, chain_operation list) trading" where
  "ListSubmitted limit = chain_list (\<lambda>o'. co_status o' = ''SENT'' \<and> co_tx o' \<noteq> None) limit"

text \<open>\<open>UPDATE ... RETURNING\<close> one operation; a hash that another operation has is refused.\<close>

definition tx_unique :: "chain_operation list \<Rightarrow> bool" where
  "tx_unique rows \<longleftrightarrow> distinct (filter (\<lambda>t. t \<noteq> None) (map co_tx rows))"

definition chain_update ::
  "(chain_operation \<Rightarrow> bool) \<Rightarrow> (chain_operation \<Rightarrow> chain_operation)
    \<Rightarrow> ('w, chain_operation option) trading" where
  "chain_update p f s =
     (let rows = row_update p (\<lambda>x. (f x)\<lparr>co_updated := ts_now s\<rparr>) (ts_chain s) in
      if \<not> tx_unique rows then (Inl TradingUniqueViolation, s)
      else (Inr (row_select p (ts_chain s)), s\<lparr>ts_chain := rows\<rparr>))"

definition bids_mark ::
  "string \<Rightarrow> string \<Rightarrow> (bid_row \<Rightarrow> bid_row) \<Rightarrow> ('w, unit) trading" where
  "bids_mark auctionID h f = modifyE (\<lambda>s. s\<lparr>ts_bids :=
     row_update (\<lambda>r. br_auction r = auctionID \<and> br_hash r = Some h) f (ts_bids s)\<rparr>)"

definition auctions_mark ::
  "string \<Rightarrow> (auction_row \<Rightarrow> auction_row) \<Rightarrow> ('w, unit) trading" where
  "auctions_mark auctionID f = modifyE (\<lambda>s. s\<lparr>ts_auctions :=
     row_update (\<lambda>r. ar_id r = auctionID) f (ts_auctions s)\<rparr>)"

text \<open>The \<open>switch opType\<close> all four methods share.\<close>

definition mark_target ::
  "chain_operation \<Rightarrow> (bid_row \<Rightarrow> bid_row) \<Rightarrow> (auction_row \<Rightarrow> auction_row) \<Rightarrow> ('w, unit) trading" where
  "mark_target o' f g =
     (if co_type o' = ''BID_ANCHOR'' then
        (case co_bid_hash o' of None \<Rightarrow> failE ErrMissingBidHash
         | Some h \<Rightarrow> bids_mark (co_auction o') h f)
      else if co_type o' = ''AUCTION_CREATE'' then retE ()
      else if co_type o' = ''AUCTION_FINALIZE'' then auctions_mark (co_auction o') g
      else failE (ErrUnknownOpType (co_type o')))"

definition MarkSubmitted :: "int \<Rightarrow> string \<Rightarrow> string \<Rightarrow> ('w, unit) trading" where
  "MarkSubmitted opID txHash wallet =
     bindE (chain_update (\<lambda>o'. co_id o' = opID) (\<lambda>o'. o'\<lparr>co_status := ''SENT'', co_tx := Some txHash,
       co_wallet := Some wallet, co_last_error := None, co_attempts := co_attempts o' + 1\<rparr>)) (\<lambda>found.
     case found of None \<Rightarrow> failE ErrNoChainOp
     | Some o' \<Rightarrow> mark_target o'
         (\<lambda>r. r\<lparr>br_tx := Some txHash, br_status := ''SENT'', br_wallet := Some wallet\<rparr>)
         (\<lambda>r. r\<lparr>ar_fin_tx := Some txHash, ar_fin_status := ''SENT'', ar_fin_wallet := Some wallet\<rparr>))"

definition MarkSubmitFailed :: "int \<Rightarrow> string \<Rightarrow> time \<Rightarrow> ('w, unit) trading" where
  "MarkSubmitFailed opID lastError retryAt =
     bindE (chain_update (\<lambda>o'. co_id o' = opID) (\<lambda>o'. o'\<lparr>co_status := ''FAILED'',
       co_last_error := Some lastError, co_attempts := co_attempts o' + 1,
       co_next_retry := retryAt\<rparr>)) (\<lambda>found.
     case found of None \<Rightarrow> failE ErrNoChainOp
     | Some o' \<Rightarrow> mark_target o' (\<lambda>r. r\<lparr>br_status := ''FAILED''\<rparr>) (\<lambda>r. r\<lparr>ar_fin_status := ''FAILED''\<rparr>))"

definition MarkConfirmedByTxHash :: "string \<Rightarrow> int \<Rightarrow> ('w, unit) trading" where
  "MarkConfirmedByTxHash txHash blockNumber =
     bindE (chain_update (\<lambda>o'. co_tx o' = Some txHash) (\<lambda>o'. o'\<lparr>co_status := ''CONFIRMED'',
       co_block := Some blockNumber\<rparr>)) (\<lambda>found.
     case found of None \<Rightarrow> retE ()
     | Some o' \<Rightarrow> mark_target o'
         (\<lambda>r. r\<lparr>br_status := ''CONFIRMED'', br_tx := Some txHash, br_block := Some blockNumber\<rparr>)
         (\<lambda>r. r\<lparr>ar_fin_status := ''CONFIRMED'', ar_fin_tx := Some txHash,
               ar_fin_block := Some blockNumber\<rparr>))"

definition MarkFailedByTxHash :: "string \<Rightarrow> string \<Rightarrow> time \<Rightarrow> ('w, unit) trading" where
  "MarkFailedByTxHash txHash lastError retryAt =
     bindE (chain_update (\<lambda>o'. co_tx o' = Some txHash) (\<lambda>o'. o'\<lparr>co_status := ''FAILED'',
       co_last_error := Some lastError, co_next_retry := retryAt\<rparr>)) (\<lambda>found.
     case found of None \<Rightarrow> retE ()
     | Some o' \<Rightarrow> mark_target o' (\<lambda>r. r\<lparr>br_status := ''FAILED''\<rparr>) (\<lambda>r. r\<lparr>ar_fin_status := ''FAILED''\<rparr>))"

text \<open>The last block the worker has seen. \<open>strconv.ParseUint\<close> takes digits up to \<open>2 ^ 64 - 1\<close>.\<close>

definition parse_uint64 :: "string \<Rightarrow> int option" where
  "parse_uint64 v =
     (if v = [] \<or> \<not> list_all (\<lambda>c. c \<in> set ''0123456789'') v then None
      else let n = foldl (\<lambda>n c. 10 * n + (of_char c - 48)) 0 v in
        if n < 18446744073709551616 then Some n else None)"

definition GetSyncBlock :: "string \<Rightarrow> ('w, int option) trading" where
  "GetSyncBlock key = readE (\<lambda>s. case map_of (ts_sync s) key of
     None \<Rightarrow> Some 0 | Some v \<Rightarrow> parse_uint64 v)"

definition SetSyncBlock :: "string \<Rightarrow> int \<Rightarrow> ('w, unit) trading" where
  "SetSyncBlock key block = modifyE (\<lambda>s. s\<lparr>ts_sync :=
     row_upsert fst (key, format_int block) (ts_sync s)\<rparr>)"

end
