(* ===== verification/Trading.thy ===== *)
theory Trading
  imports Trading_Chain
begin

section \<open>The trading use cases (internal/trading/app) and the closing of expired auctions\<close>

text \<open>
  One definition per use case. Each runs in \<open>UnitOfWork.Do\<close>, whose callback keeps the context of
  the caller: it is \<open>db_uow\<close>, so every statement commits on its own. The deposit service is the
  argument \<open>deposits\<close>, a method over \<open>ts_wallet\<close>; \<open>billing_deposits\<close> is the adapter the
  composition root passes. The clock is the argument \<open>now\<close>. \<open>PlaceBid\<close> is split where the
  auction has been loaded, so that two bids can be interleaved there.
\<close>

type_synonym 'w deposit_service = "time \<Rightarrow> string \<Rightarrow> string \<Rightarrow> int \<Rightarrow> ('w, trading_error, unit) exec"

text \<open>\<open>billingdeposit.Service.ReserveAuctionDeposit\<close>.\<close>

definition billing_deposits :: "billing_env \<Rightarrow> billing_store deposit_service" where
  "billing_deposits benv now companyID auctionID startPrice =
     catchE (bid_deposit benv now companyID auctionID startPrice)
       (\<lambda>e. failE (if e = ErrInsufficientFundsForDeposit then ErrTradingInsufficientFunds
                   else DepositServiceError e))"

definition NoopDepositService :: "'w deposit_service" where
  "NoopDepositService now companyID auctionID startPrice = retE ()"

definition on_wallet :: "('w, trading_error, 'a) exec \<Rightarrow> ('w, 'a) trading" where
  "on_wallet m = zoomE ts_wallet (\<lambda>w s. s\<lparr>ts_wallet := w\<rparr>) m"

definition domainE :: "auction_error + 'a \<Rightarrow> ('w, 'a) trading" where
  "domainE r = liftE (map_sum AuctionError (\<lambda>a. a) r)"

subsection \<open>CreateAuction and PublishAuction\<close>

text \<open>\<open>NewCreateAuction(uow, idFactory)\<close>: the identifier comes from the factory it is given, the random
  one in \<open>cmd/trading\<close>, a fixed one in the integration runtime.\<close>

definition CreateAuction_with ::
  "('w, string) trading \<Rightarrow> string \<Rightarrow> time \<Rightarrow> time \<Rightarrow> int \<Rightarrow> int \<Rightarrow> ('w, string) trading" where
  "CreateAuction_with idFactory lotID startsAt endsAt startPrice minBidStep =
     (let step = (if minBidStep \<le> 0 then 1 else minBidStep) in
      bindE idFactory (\<lambda>id'.
      bindE (db_uow (bindE (catchE (bindE (auctions_load id') (\<lambda>_. retE True))
           (\<lambda>e. if e = ErrAuctionNotFound then retE False else failE e)) (\<lambda>exists.
         if exists then retE () else
         bindE (domainE (NewAuctionWithPricing id' lotID startsAt endsAt startPrice step)) (\<lambda>a.
         auctions_Save a)))) (\<lambda>_. retE id')))"

definition CreateAuction ::
  "trading_env \<Rightarrow> string \<Rightarrow> time \<Rightarrow> time \<Rightarrow> int \<Rightarrow> int \<Rightarrow> ('w, string) trading" where
  "CreateAuction env = CreateAuction_with (next_id env)"

definition PublishAuction :: "trading_env \<Rightarrow> time \<Rightarrow> command_meta \<Rightarrow> string \<Rightarrow> ('w, unit) trading" where
  "PublishAuction env now meta id' = db_uow (
     bindE (auctions_load id') (\<lambda>a.
     bindE (domainE (au_Publish a)) (\<lambda>(events, a').
     bindE (auctions_Save a') (\<lambda>_.
     bindE (EnqueueAuctionCreate id' (buildAuctionRefHash env id') (au_startsAt a') (au_endsAt a')
       (au_minBidStep a')) (\<lambda>_.
     outbox_Add env now meta events)))))"

subsection \<open>PlaceBid\<close>

record place_bid_result =
  pb_auction :: string
  pb_bid_hash :: string
  pb_status :: string
  pb_tx :: string
  pb_wallet :: string

definition PlaceBid_loaded ::
  "trading_env \<Rightarrow> 'w deposit_service \<Rightarrow> time \<Rightarrow> command_meta \<Rightarrow> string \<Rightarrow> int \<Rightarrow> time \<Rightarrow> auction
    \<Rightarrow> ('w, place_bid_result) trading" where
  "PlaceBid_loaded env deposits now meta id' amount placedAt a =
     bindE (domainE (NewBid (cm_company meta) amount placedAt)) (\<lambda>b.
     bindE (domainE (au_PlaceBid b a)) (\<lambda>(events, a').
     bindE (on_wallet (deposits now (cm_company meta) id' (au_startPrice a'))) (\<lambda>_.
     bindE (bids_Save id' b) (\<lambda>_.
     bindE (auctions_Save a') (\<lambda>_.
     let bidHash = buildBidHash env id' (bid_company b) (bid_amount b) (bid_placedAt b) in
     bindE (EnqueueBidAnchor id' (buildAuctionRefHash env id') bidHash (bid_company b)
       (bid_amount b) (bid_placedAt b)) (\<lambda>_.
     bindE (outbox_Add env now meta events) (\<lambda>_.
     retE \<lparr>pb_auction = id', pb_bid_hash = bidHash, pb_status = ''PENDING_SUBMIT'',
           pb_tx = [], pb_wallet = []\<rparr>)))))))"

definition PlaceBid ::
  "trading_env \<Rightarrow> 'w deposit_service \<Rightarrow> time \<Rightarrow> command_meta \<Rightarrow> string \<Rightarrow> int \<Rightarrow> time
    \<Rightarrow> ('w, place_bid_result) trading" where
  "PlaceBid env deposits now meta id' amount placedAt = db_uow (
     bindE (auctions_load id') (PlaceBid_loaded env deposits now meta id' amount placedAt))"

text \<open>\<open>PlaceBidHandler.ServeHTTP\<close>: the time of the bid is the client's, if it sends one.\<close>

definition bid_time :: "time \<Rightarrow> time \<Rightarrow> time" where
  "bid_time now requested = (if requested = 0 then now else requested)"

subsection \<open>CloseAuction\<close>

definition effectiveActorKind :: "command_meta \<Rightarrow> string" where
  "effectiveActorKind meta = (if cm_actor meta \<noteq> [] then cm_actor meta else ''company'')"

definition allowPrivilegedEarlyAuctionClose :: "command_meta \<Rightarrow> bool" where
  "allowPrivilegedEarlyAuctionClose meta \<longleftrightarrow>
     effectiveActorKind meta = ''platform_admin'' \<or> effectiveActorKind meta = ''system''"

fun winner_records :: "int \<Rightarrow> bid list \<Rightarrow> winner_record list" where
  "winner_records i [] = []"
| "winner_records i (b # bs) =
     \<lparr>wr_place = i + 1, wr_company = bid_company b, wr_amount = bid_amount b,
      wr_placedAt = bid_placedAt b\<rparr> # winner_records (i + 1) bs"

definition winnerRecordsFromBids :: "bid list \<Rightarrow> nat \<Rightarrow> winner_record list" where
  "winnerRecordsFromBids bids limit = winner_records 0 (take limit bids)"

text \<open>The writes of \<open>Execute\<close>, from \<open>a.Close(bids)\<close> on.\<close>

definition CloseAuction_loaded ::
  "trading_env \<Rightarrow> time \<Rightarrow> command_meta \<Rightarrow> string \<Rightarrow> auction \<Rightarrow> bid list \<Rightarrow> ('w, unit) trading" where
  "CloseAuction_loaded env now meta id' a bids =
     bindE (domainE (au_Close (te_sort_slice env) bids a)) (\<lambda>(events, a').
     bindE (winners_Save id' (winnerRecordsFromBids bids 3)) (\<lambda>_.
     bindE (auctions_Save a') (\<lambda>_.
     bindE (case au_Winner a' of None \<Rightarrow> retE ()
       | Some (winner, price) \<Rightarrow> EnqueueAuctionFinalize id' (buildAuctionRefHash env id')
           (buildFinalizeResultHash env id' winner price) winner price) (\<lambda>_.
     outbox_Add env now meta events))))"

definition CloseAuction :: "trading_env \<Rightarrow> time \<Rightarrow> command_meta \<Rightarrow> string \<Rightarrow> ('w, unit) trading" where
  "CloseAuction env now meta id' = db_uow (
     bindE (auctions_load id') (\<lambda>a.
     bindE (TopBids env id') (\<lambda>bids.
     if au_state a = StatePublished \<and> bids \<noteq> [] \<and> now < au_endsAt a
        \<and> \<not> allowPrivilegedEarlyAuctionClose meta
     then failE ErrCloseForbiddenBeforeEndWithBids
     else CloseAuction_loaded env now meta id' a bids)))"

subsection \<open>Cancelling\<close>

definition cancel_with ::
  "trading_env \<Rightarrow> time \<Rightarrow> command_meta \<Rightarrow> string \<Rightarrow> (auction \<Rightarrow> auction_result) \<Rightarrow> ('w, unit) trading" where
  "cancel_with env now meta id' change = db_uow (
     bindE (auctions_load id') (\<lambda>a.
     bindE (domainE (change a)) (\<lambda>(events, a').
     bindE (auctions_Save a') (\<lambda>_.
     outbox_Add env now meta events))))"

definition SellerCancelAuction :: "trading_env \<Rightarrow> time \<Rightarrow> command_meta \<Rightarrow> string \<Rightarrow> ('w, unit) trading"
  where
  "SellerCancelAuction env now meta id' = cancel_with env now meta id' au_CancelAsSellerOrDraft"

definition AdminCancelAuction :: "trading_env \<Rightarrow> time \<Rightarrow> command_meta \<Rightarrow> string \<Rightarrow> ('w, unit) trading"
  where
  "AdminCancelAuction env now meta id' = cancel_with env now meta id' au_CancelAsAdmin"

subsection \<open>Closing expired auctions\<close>

text \<open>
  The loop is in \<open>cmd/trading\<close> (\<open>closeExpiredAuctionsOnce\<close>) and in the integration runtime
  (\<open>RunCloseExpired\<close>); they differ in the errors after which they go on.
\<close>

definition closer_skips :: "trading_error \<Rightarrow> bool" where
  "closer_skips e \<longleftrightarrow> e = ErrAuctionNotFound \<or> e = AuctionError ErrCannotCloseAuction
     \<or> e = AuctionError ErrAuctionNotActive \<or> e = AuctionError ErrInvalidStateTransition"

definition system_meta :: "string \<Rightarrow> command_meta" where
  "system_meta label = \<lparr>cm_company = ''system'', cm_user = ''system'', cm_actor = ''system'',
     cm_correlation = label, cm_causation = label\<rparr>"

definition close_one ::
  "(trading_error \<Rightarrow> bool) \<Rightarrow> trading_env \<Rightarrow> time \<Rightarrow> command_meta \<Rightarrow> string \<Rightarrow> ('w, unit) trading" where
  "close_one skips env now meta id' =
     catchE (CloseAuction env now meta id') (\<lambda>e. if skips e then retE () else failE e)"

definition closeExpiredAuctionsOnce :: "trading_env \<Rightarrow> time \<Rightarrow> int \<Rightarrow> ('w, unit) trading" where
  "closeExpiredAuctionsOnce env now limit =
     bindE (ListExpired env now limit) (\<lambda>ids.
     forE (close_one closer_skips env now (system_meta ''trading-close-expired'')) ids)"

definition runtime_skips :: "trading_error \<Rightarrow> bool" where
  "runtime_skips e \<longleftrightarrow> e = AuctionError ErrAuctionNotActive
     \<or> e = AuctionError ErrInvalidStateTransition \<or> e = AuctionError ErrAuctionAlreadyEnded"

definition RunCloseExpired :: "trading_env \<Rightarrow> time \<Rightarrow> int \<Rightarrow> ('w, unit) trading" where
  "RunCloseExpired env now limit =
     bindE (ListExpired env now limit) (\<lambda>ids.
     forE (close_one runtime_skips env now (system_meta ''scheduler-close'')) ids)"

end
