(* ===== verification/Trading_Correct.thy ===== *)
theory Trading_Correct
  imports Trading
begin

section \<open>The trading invariant\<close>

text \<open>
  \<open>auctions_ok\<close> ties every row of \<open>trading_auctions\<close> to the bids of its auction by \<open>auction_ok\<close>;
  \<open>ids_ok\<close> says that identifiers in use have been drawn. Every use case keeps both, whether it
  succeeds or fails half-way: there is no transaction to undo anything. The effect lemmas say
  what a use case that succeeds has done, and which ones cannot fail.
\<close>

definition row_ok :: "bid_row list \<Rightarrow> auction_row \<Rightarrow> bool" where
  "row_ok bids r \<longleftrightarrow> (\<exists>a. row_auction r = Inr a \<and> au_id a = ar_id r \<and> 0 < au_startPrice a
     \<and> auction_ok a (auction_bids (ar_id r) bids))"

definition auctions_ok :: "auction_row list \<Rightarrow> bid_row list \<Rightarrow> bool" where
  "auctions_ok rows bids \<longleftrightarrow> distinct (map ar_id rows) \<and> (\<forall>r \<in> set rows. row_ok bids r)
     \<and> (\<forall>b \<in> set bids. br_auction b \<in> ar_id ` set rows)"

definition ids_ok :: "trading_env \<Rightarrow> 'w trading_store \<Rightarrow> bool" where
  "ids_ok env s \<longleftrightarrow>
     ob_id ` set (ts_outbox s) \<union> ar_id ` set (ts_auctions s) \<subseteq> te_id env ` {..<ts_ids s}"

definition trading_inv :: "trading_env \<Rightarrow> 'w trading_store \<Rightarrow> bool" where
  "trading_inv env s \<longleftrightarrow> auctions_ok (ts_auctions s) (ts_bids s) \<and> ids_ok env s"

definition env_ok :: "trading_env \<Rightarrow> bool" where
  "env_ok env \<longleftrightarrow> inj (te_id env) \<and> slice_sort (te_sort_slice env) \<and> slice_sort (te_order_bids env)
     \<and> slice_sort (te_order_rows env)"

subsection \<open>Rows and their auctions\<close>

lemma row_auction_set [simp]:
  "auction_ok a bs \<Longrightarrow> ar_id r = au_id a \<Longrightarrow> row_auction (set_auction_row a r) = Inr a"
  using rehydrate_saved [of a bs] by (simp add: row_auction_def set_auction_row_def)

lemma row_auction_new [simp]: "auction_ok a bs \<Longrightarrow> row_auction (new_auction_row a) = Inr a"
  using rehydrate_saved [of a bs] by (simp add: row_auction_def new_auction_row_def)

lemma ar_id_set [simp]: "ar_id (set_auction_row a r) = ar_id r"
  and ar_id_new [simp]: "ar_id (new_auction_row a) = au_id a"
  by (simp_all add: set_auction_row_def new_auction_row_def)

lemma auction_bids_append [simp]:
  "auction_bids i (xs @ ys) = auction_bids i xs @ auction_bids i ys"
  by (simp add: auction_bids_def)

lemma row_ok_other:
  "(\<And>b. b \<in> set bs \<Longrightarrow> br_auction b \<noteq> ar_id r) \<Longrightarrow> row_ok (bids @ bs) r = row_ok bids r"
  by (simp add: row_ok_def auction_bids_def filter_empty_conv)

lemma put_ids: "ar_id ` set (put_auction a rows) = insert (au_id a) (ar_id ` set rows)"
proof -
  have "map ar_id (row_update (\<lambda>r. ar_id r = au_id a) (set_auction_row a) rows) = map ar_id rows"
    by (rule map_row_update) simp
  from arg_cong [where f = set, OF this] show ?thesis
    by (auto simp: put_auction_def list_ex_iff) (metis image_eqI)
qed

lemma put_distinct: "distinct (map ar_id rows) \<Longrightarrow> distinct (map ar_id (put_auction a rows))"
  by (auto simp: put_auction_def map_row_update list_ex_iff)

lemma put_rows:
  assumes "r \<in> set (put_auction a rows)"
  shows "r \<in> set rows \<and> ar_id r \<noteq> au_id a \<or> ar_id r = au_id a \<and>
    (r = new_auction_row a \<or> (\<exists>x \<in> set rows. r = set_auction_row a x \<and> ar_id x = au_id a))"
  using assms by (auto simp: put_auction_def set_row_update list_ex_iff split: if_splits)

lemma put_keeps:
  assumes ok: "auctions_ok rows bids" and a: "auction_ok a (auction_bids (au_id a) (bids @ bs))"
    and start: "0 < au_startPrice a" and bs: "\<And>b. b \<in> set bs \<Longrightarrow> br_auction b = au_id a"
  shows "auctions_ok (put_auction a rows) (bids @ bs)"
proof -
  have "row_ok (bids @ bs) r" if r: "r \<in> set (put_auction a rows)" for r
    using put_rows [OF r]
  proof (elim disjE conjE)
    assume "r \<in> set rows" "ar_id r \<noteq> au_id a"
    then show ?thesis
      using ok bs row_ok_other [of bs r bids] by (auto simp: auctions_ok_def)
  next
    assume i: "ar_id r = au_id a" and "r = new_auction_row a"
    then show ?thesis
      using a start unfolding row_ok_def by (intro exI [of _ a]) simp
  next
    assume i: "ar_id r = au_id a" and "\<exists>x \<in> set rows. r = set_auction_row a x \<and> ar_id x = au_id a"
    then show ?thesis
      using a start unfolding row_ok_def by (intro exI [of _ a]) auto
  qed
  moreover have "br_auction b \<in> ar_id ` set (put_auction a rows)" if "b \<in> set (bids @ bs)" for b
    using that ok bs unfolding put_ids by (auto simp: auctions_ok_def)
  moreover have "distinct (map ar_id (put_auction a rows))"
    using ok by (simp add: auctions_ok_def put_distinct)
  ultimately show ?thesis
    by (auto simp: auctions_ok_def)
qed

lemmas put_keeps' = put_keeps [where bs = "[]", simplified]

text \<open>The columns of the chain are nobody's business.\<close>

lemma mark_auctions_ok:
  assumes "\<And>r. row_auction (f r) = row_auction r" "\<And>r. ar_id (f r) = ar_id r"
  shows "auctions_ok (row_update p f rows) bids = auctions_ok rows bids"
proof -
  define g where "g = (\<lambda>r. if p r then f r else r)"
  have g: "row_ok bids (g r) = row_ok bids r" "ar_id (g r) = ar_id r" for r
    using assms by (simp_all add: g_def row_ok_def)
  have "row_update p f rows = map g rows"
    by (simp add: row_update_def g_def)
  then show ?thesis
    by (simp add: auctions_ok_def g o_def image_image)
qed

lemma mark_bids_ok:
  assumes "\<And>r. row_bid (f r) = row_bid r" "\<And>r. br_auction (f r) = br_auction r"
  shows "auctions_ok rows (row_update p f bids) = auctions_ok rows bids"
proof -
  define g where "g = (\<lambda>r. if p r then f r else r)"
  have g: "row_bid (g r) = row_bid r" "br_auction (g r) = br_auction r" for r
    using assms by (simp_all add: g_def)
  have m: "row_update p f bids = map g bids"
    by (simp add: row_update_def g_def)
  have "auction_bids i (map g bids) = auction_bids i bids" for i
    by (simp add: auction_bids_def filter_map o_def g)
  then have "row_ok (map g bids) r = row_ok bids r" for r
    by (simp add: row_ok_def)
  then show ?thesis
    by (simp add: m auctions_ok_def g)
qed

subsection \<open>Statements that keep the invariant\<close>

definition tkeeps :: "trading_env \<Rightarrow> ('w, 'a) trading \<Rightarrow> bool" where
  "tkeeps env m \<longleftrightarrow> (\<forall>s. trading_inv env s \<longrightarrow> wpE m (\<lambda>_. trading_inv env) (\<lambda>_. trading_inv env) s)"

named_theorems tkeeps_intro \<open>methods that keep the trading invariant\<close>

lemma tkeepsD: "tkeeps env m \<Longrightarrow> trading_inv env s
    \<Longrightarrow> wpE m (\<lambda>_. trading_inv env) (\<lambda>_. trading_inv env) s"
  by (simp add: tkeeps_def)

lemma tkeeps_bind [tkeeps_intro]:
  "tkeeps env m \<Longrightarrow> (\<And>a. tkeeps env (f a)) \<Longrightarrow> tkeeps env (bindE m f)"
  unfolding tkeeps_def wpE_bind by (blast intro: wpE_mono)

lemma tkeeps_catch: "tkeeps env m \<Longrightarrow> (\<And>e. tkeeps env (h e)) \<Longrightarrow> tkeeps env (catchE m h)"
  unfolding tkeeps_def wpE_catch by (blast intro: wpE_mono)

lemma tkeeps_if [tkeeps_intro]:
  "(b \<Longrightarrow> tkeeps env m) \<Longrightarrow> (\<not> b \<Longrightarrow> tkeeps env n) \<Longrightarrow> tkeeps env (if b then m else n)"
  by simp

lemma tkeeps_option [tkeeps_intro]:
  "(x = None \<Longrightarrow> tkeeps env m) \<Longrightarrow> (\<And>a. x = Some a \<Longrightarrow> tkeeps env (f a))
    \<Longrightarrow> tkeeps env (case x of None \<Rightarrow> m | Some a \<Rightarrow> f a)"
  by (cases x) auto

lemma tkeeps_prod [tkeeps_intro]:
  "(\<And>a b. tkeeps env (f a b)) \<Longrightarrow> tkeeps env (case p of (a, b) \<Rightarrow> f a b)"
  by (cases p) auto

lemma tkeeps_for [tkeeps_intro]: "(\<And>x. x \<in> set xs \<Longrightarrow> tkeeps env (f x)) \<Longrightarrow> tkeeps env (forE f xs)"
  unfolding tkeeps_def by (blast intro: wpE_for)

lemma tkeeps_base [tkeeps_intro]:
  "tkeeps env (retE a)" "tkeeps env (failE e)" "tkeeps env (liftE r)" "tkeeps env (readE g)"
  by (auto simp: tkeeps_def wp_simps split: sum.split)

lemma tkeeps_uow [simp]: "tkeeps env (db_uow m) = tkeeps env m"
  by (simp add: db_uow_plain)

lemma inv_frame:
  "trading_inv env s \<Longrightarrow> ts_auctions t = ts_auctions s \<Longrightarrow> ts_bids t = ts_bids s
    \<Longrightarrow> ts_outbox t = ts_outbox s \<Longrightarrow> ts_ids s \<le> ts_ids t \<Longrightarrow> trading_inv env t"
  using image_mono [of "{..<ts_ids s}" "{..<ts_ids t}" "te_id env"]
  by (simp add: trading_inv_def ids_ok_def) (blast intro: subset_trans)

lemma tkeeps_wallet [tkeeps_intro]: "tkeeps env (on_wallet m)"
  by (auto simp: tkeeps_def on_wallet_def zoomE_def wpE_def elim!: inv_frame
      split: prod.split sum.split)

lemma tkeeps_next_id [tkeeps_intro]: "tkeeps env (next_id env)"
  by (auto simp: tkeeps_def next_id_def wpE_def elim!: inv_frame)

lemma tkeeps_chain_insert [tkeeps_intro]: "tkeeps env (chain_insert op')"
  by (auto simp: tkeeps_def chain_insert_def wpE_def Let_def elim!: inv_frame)

lemma tkeeps_chain_update [tkeeps_intro]: "tkeeps env (chain_update p f)"
  by (auto simp: tkeeps_def chain_update_def wpE_def Let_def elim!: inv_frame)

lemma tkeeps_nonce [tkeeps_intro]: "tkeeps env (nextNonce i)"
  by (simp add: nextNonce_def tkeeps_base)

lemma tkeeps_top_bids [tkeeps_intro]: "tkeeps env (TopBids env' i)"
  by (auto simp: tkeeps_def TopBids_def wpE_def split: sum.split)

lemma tkeeps_winners [tkeeps_intro]: "tkeeps env (winners_Save i ws)"
  unfolding winners_Save_def
  by (intro tkeeps_intro)
    (auto simp: tkeeps_def modifyE_def winner_insert_def wpE_def elim!: inv_frame)

lemma mark_inv:
  assumes "trading_inv env s"
  shows "(\<And>r. row_auction (f r) = row_auction r) \<Longrightarrow> (\<And>r. ar_id (f r) = ar_id r)
      \<Longrightarrow> trading_inv env (s\<lparr>ts_auctions := row_update p f (ts_auctions s)\<rparr>)"
    and "(\<And>r. row_bid (g r) = row_bid r) \<Longrightarrow> (\<And>r. br_auction (g r) = br_auction r)
      \<Longrightarrow> trading_inv env (s\<lparr>ts_bids := row_update q g (ts_bids s)\<rparr>)"
proof -
  assume f: "\<And>r. row_auction (f r) = row_auction r" "\<And>r. ar_id (f r) = ar_id r"
  have "map ar_id (row_update p f (ts_auctions s)) = map ar_id (ts_auctions s)"
    by (rule map_row_update) (rule f)
  from arg_cong [where f = set, OF this] 
  show "trading_inv env (s\<lparr>ts_auctions := row_update p f (ts_auctions s)\<rparr>)"
    using assms f by (simp add: trading_inv_def mark_auctions_ok ids_ok_def)
qed (use assms in \<open>simp add: trading_inv_def mark_bids_ok ids_ok_def\<close>)

lemma tkeeps_set_hash [tkeeps_intro]: "tkeeps env (bids_set_hash i c n t h)"
  by (auto simp: tkeeps_def bids_set_hash_def wpE_def Let_def row_bid_def intro!: mark_inv(2))

lemma tkeeps_set_result [tkeeps_intro]: "tkeeps env (auctions_set_result i h)"
  by (auto simp: tkeeps_def auctions_set_result_def wpE_def row_auction_def intro!: mark_inv(1))

lemma tkeeps_mark [tkeeps_intro]:
  "(\<And>r. row_bid (f r) = row_bid r) \<Longrightarrow> (\<And>r. br_auction (f r) = br_auction r)
    \<Longrightarrow> (\<And>r. row_auction (g r) = row_auction r) \<Longrightarrow> (\<And>r. ar_id (g r) = ar_id r)
    \<Longrightarrow> tkeeps env (mark_target op' f g)"
  unfolding mark_target_def
  by (intro tkeeps_intro)
    (auto simp: tkeeps_def bids_mark_def auctions_mark_def wp_simps intro!: mark_inv)

lemma tkeeps_enqueue [tkeeps_intro]:
  "tkeeps env (EnqueueAuctionCreate i h s e st)"
  "tkeeps env (EnqueueBidAnchor i h h' c n t)"
  "tkeeps env (EnqueueAuctionFinalize i h h' w p)"
  unfolding EnqueueAuctionCreate_def EnqueueBidAnchor_def EnqueueAuctionFinalize_def
  by (intro tkeeps_intro)+

lemma outbox_put_wp [wp_simps]:
  "wpE (outbox_put r) Q R s =
     (if list_ex (\<lambda>x. ob_id x = ob_id r) (ts_outbox s) then R TradingUniqueViolation s
      else Q () (s\<lparr>ts_outbox := ts_outbox s @ [r]\<rparr>))"
  by (auto simp: outbox_put_def zoomE_def outbox_insert_def wpE_def)

lemma next_id_wp [wp_simps]:
  "wpE (next_id env) Q R s = Q (te_id env (ts_ids s)) (s\<lparr>ts_ids := Suc (ts_ids s)\<rparr>)"
  by (simp add: next_id_def wpE_def)

lemma tkeeps_outbox_Add [tkeeps_intro]: "tkeeps env (outbox_Add env now meta evs)"
  unfolding outbox_Add_def
  by (rule tkeeps_for)
    (auto simp: tkeeps_def wp_simps outbox_row_for_def trading_inv_def ids_ok_def lessThan_Suc)

subsection \<open>The use cases keep the invariant\<close>

definition loaded :: "string \<Rightarrow> 'w trading_store \<Rightarrow> auction_row \<Rightarrow> auction \<Rightarrow> bool" where
  "loaded i s r a \<longleftrightarrow> r \<in> set (ts_auctions s) \<and> ar_id r = i \<and> row_auction r = Inr a \<and> au_id a = i
     \<and> 0 < au_startPrice a \<and> auction_ok a (auction_bids i (ts_bids s))"

lemma load_wp:
  assumes inv: "trading_inv env s" and Q: "\<And>r a. loaded i s r a \<Longrightarrow> Q a s" and R: "R ErrAuctionNotFound s"
  shows "wpE (auctions_load i) Q R s"
proof (cases "row_select (\<lambda>r. ar_id r = i) (ts_auctions s)")
  case None
  then show ?thesis using R by (simp add: auctions_load_def wpE_def)
next
  case (Some r)
  then have r: "r \<in> set (ts_auctions s)" "ar_id r = i"
    using row_select_SomeD by fast+
  then obtain a where "row_auction r = Inr a" "loaded i s r a"
    using inv unfolding trading_inv_def auctions_ok_def row_ok_def loaded_def by blast
  with Some show ?thesis
    using Q by (simp add: auctions_load_def wpE_def)
qed

text \<open>Several auctions never share an identifier, so a load that succeeds says which row it read.\<close>

lemma load_found:
  assumes inv: "trading_inv env s" and r: "r \<in> set (ts_auctions s)" "ar_id r = i"
  obtains a where "loaded i s r a" "auctions_load i s = (Inr a, s)"
proof -
  obtain a where a: "row_auction r = Inr a" "loaded i s r a"
    using inv r unfolding trading_inv_def auctions_ok_def row_ok_def loaded_def by blast
  have "row_select (\<lambda>r. ar_id r = i) (ts_auctions s) = Some r"
    using inv r row_select_key [of ar_id "ts_auctions s" r] by (simp add: trading_inv_def auctions_ok_def)
  with a show ?thesis
    using that by (simp add: auctions_load_def)
qed

lemma save_inv:
  assumes inv: "trading_inv env s" and a: "auction_ok a (auction_bids (au_id a) (ts_bids s @ bs))"
    and start: "0 < au_startPrice a" and bs: "\<And>b. b \<in> set bs \<Longrightarrow> br_auction b = au_id a"
    and i: "au_id a \<in> te_id env ` {..<ts_ids s}"
  shows "trading_inv env (s\<lparr>ts_bids := ts_bids s @ bs, ts_auctions := put_auction a (ts_auctions s)\<rparr>)"
  using inv i put_keeps [OF _ a start bs]
  by (simp add: trading_inv_def ids_ok_def put_ids)

lemma loaded_drawn: "trading_inv env s \<Longrightarrow> loaded i s r a \<Longrightarrow> i \<in> te_id env ` {..<ts_ids s}"
  unfolding trading_inv_def ids_ok_def loaded_def by (metis UnI2 image_eqI subset_iff)

lemma save_wp [wp_simps]:
  "wpE (auctions_Save a) Q R s = (if au_startPrice a \<le> 0 then R TradingCheckViolation s
     else Q () (s\<lparr>ts_auctions := put_auction a (ts_auctions s)\<rparr>))"
  by (simp add: auctions_Save_def wpE_def)

lemma save_loaded_wp:
  assumes inv: "trading_inv env s" and l: "loaded i s r a"
    and a': "auction_ok a' (auction_bids i (ts_bids s))" "au_id a' = i" "0 < au_startPrice a'"
    and Q: "\<And>t. trading_inv env t \<Longrightarrow> Q () t"
  shows "wpE (auctions_Save a') Q R s"
proof -
  have "au_id a' \<in> te_id env ` {..<ts_ids s}"
    using loaded_drawn [OF inv l] a'(2) by simp
  then have "trading_inv env (s\<lparr>ts_auctions := put_auction a' (ts_auctions s)\<rparr>)"
    using save_inv [OF inv, of a' "[]"] a' by simp
  then show ?thesis
    using a'(3) Q by (simp add: auctions_Save_def wpE_def)
qed

lemma domain_wp [wp_simps]:
  "wpE (domainE r) Q R s = (case r of Inl e \<Rightarrow> R (AuctionError e) s | Inr a \<Rightarrow> Q a s)"
  by (simp add: domainE_def wpE_def liftE_def split: sum.split)

lemma wallet_wp:
  assumes "\<And>w a. m (ts_wallet s) = (Inr a, w) \<Longrightarrow> Q a (s\<lparr>ts_wallet := w\<rparr>)"
    and "\<And>w e. m (ts_wallet s) = (Inl e, w) \<Longrightarrow> R e (s\<lparr>ts_wallet := w\<rparr>)"
  shows "wpE (on_wallet m) Q R s"
  using assms by (auto simp: on_wallet_def zoomE_def wpE_def split: prod.split sum.split)

lemma method_keeps:
  assumes change: "\<And>a bs evs a'. auction_ok a bs \<Longrightarrow> change a = Inr (evs, a') \<Longrightarrow>
      auction_ok a' bs \<and> au_snapshot a' = au_snapshot a"
    and rest: "\<And>evs a'. tkeeps env (rest evs a')"
  shows "tkeeps env (bindE (auctions_load i) (\<lambda>a. bindE (domainE (change a)) (\<lambda>(evs, a').
    bindE (auctions_Save a') (\<lambda>_. rest evs a'))))"
proof -
  have "wpE (auctions_load i) (\<lambda>a. wpE (bindE (domainE (change a)) (\<lambda>(evs, a').
      bindE (auctions_Save a') (\<lambda>_. rest evs a'))) (\<lambda>_. trading_inv env) (\<lambda>_. trading_inv env))
      (\<lambda>_. trading_inv env) s" if inv: "trading_inv env s" for s
  proof (rule load_wp [OF inv])
    fix r a assume l: "loaded i s r a"
    show "wpE (bindE (domainE (change a)) (\<lambda>(evs, a'). bindE (auctions_Save a') (\<lambda>_. rest evs a')))
        (\<lambda>_. trading_inv env) (\<lambda>_. trading_inv env) s"
    proof (cases "change a")
      case (Inl e)
      then show ?thesis using inv by (simp add: wp_simps)
    next
      case (Inr x)
      obtain evs a' where x: "x = (evs, a')" by (cases x)
      have "auction_ok a' (auction_bids i (ts_bids s)) \<and> au_snapshot a' = au_snapshot a"
        using change [of a _ evs a'] l Inr x by (auto simp: loaded_def)
      then have a': "auction_ok a' (auction_bids i (ts_bids s))" "au_id a' = i" "0 < au_startPrice a'"
        using l by (auto simp: loaded_def au_snapshot_def)
      show ?thesis
        unfolding wpE_bind domain_wp Inr x sum.case prod.case
        by (rule save_loaded_wp [OF inv l a']) (rule tkeepsD [OF rest])
    qed
  qed (rule inv)
  then show ?thesis
    by (simp add: tkeeps_def wpE_bind)
qed

lemma cancel_with_keeps:
  assumes "\<And>a bs evs a'. auction_ok a bs \<Longrightarrow> change a = Inr (evs, a') \<Longrightarrow>
      auction_ok a' bs \<and> au_snapshot a' = au_snapshot a"
  shows "tkeeps env (cancel_with env now meta i change)"
  unfolding cancel_with_def tkeeps_uow by (rule method_keeps [OF assms]) (auto intro: tkeeps_intro)

lemma move_snapshot: "au_move a a' \<Longrightarrow> au_snapshot a' = au_snapshot a"
  by (simp add: move_rank)

lemma SellerCancel_keeps: "tkeeps env (SellerCancelAuction env now meta i)"
  and AdminCancel_keeps: "tkeeps env (AdminCancelAuction env now meta i)"
  unfolding SellerCancelAuction_def AdminCancelAuction_def
  by (rule cancel_with_keeps, auto intro: cancel_ok move_snapshot au_move.intros)+

lemma Publish_keeps: "tkeeps env (PublishAuction env now meta i)"
  unfolding PublishAuction_def tkeeps_uow
  by (rule method_keeps) (auto intro: tkeeps_intro publish_ok move_snapshot au_move.intros)

lemma scan_valid:
  "\<forall>b \<in> set bs. bid_company b \<noteq> [] \<and> 0 < bid_amount b \<and> bid_placedAt b \<noteq> 0 \<Longrightarrow> scan_bids bs = Inr bs"
  by (induction bs) (auto simp: NewBid_def)

lemma top_bids:
  assumes "loaded i s r a" "env_ok env"
  shows "TopBids env i s = (Inr (te_order_bids env ranks_before (auction_bids i (ts_bids s))), s)"
    and "mset (te_order_bids env ranks_before (auction_bids i (ts_bids s))) = mset (auction_bids i (ts_bids s))"
proof -
  let ?bs = "te_order_bids env ranks_before (auction_bids i (ts_bids s))"
  show m: "mset ?bs = mset (auction_bids i (ts_bids s))"
    using assms(2) by (intro slice_sort.perm) (simp add: env_ok_def)
  have "scan_bids ?bs = Inr ?bs"
    using assms(1) mset_eq_setD [OF m] by (intro scan_valid) (auto simp: loaded_def auction_ok_def)
  then show "TopBids env i s = (Inr ?bs, s)"
    by (simp add: TopBids_def)
qed

lemma top_bids_wp:
  assumes "loaded i s r a" "env_ok env"
    and "\<And>bids. mset bids = mset (auction_bids i (ts_bids s)) \<Longrightarrow> Q bids s"
  shows "wpE (TopBids env i) Q R s"
  using assms(3) top_bids [OF assms(1,2)] by (simp add: wpE_def)

text \<open>The places of the winners are distinct, so saving them cannot fail.\<close>

lemma winner_records_places:
  "distinct (map wr_place (winner_records i bs)) \<and> (\<forall>w \<in> set (winner_records i bs). i < wr_place w)"
  by (induction bs arbitrary: i) fastforce+

lemma winner_inserts:
  assumes "distinct (map wr_place ws)" "\<And>x w. (i, x) \<in> set (ts_winners s) \<Longrightarrow> w \<in> set ws
      \<Longrightarrow> wr_place x \<noteq> wr_place w"
  shows "forE (winner_insert i) ws s = (Inr (), s\<lparr>ts_winners := ts_winners s @ map (Pair i) ws\<rparr>)"
  using assms
proof (induction ws arbitrary: s)
  case Nil
  then show ?case by (simp add: retE_def)
next
  case (Cons w ws)
  have "\<not> list_ex (\<lambda>(a, x). a = i \<and> wr_place x = wr_place w) (ts_winners s)"
    using Cons.prems(2) by (auto simp: list_ex_iff)
  then have "winner_insert i w s = (Inr (), s\<lparr>ts_winners := ts_winners s @ [(i, w)]\<rparr>)"
    by (simp add: winner_insert_def)
  then show ?case
    using Cons.IH [of "s\<lparr>ts_winners := ts_winners s @ [(i, w)]\<rparr>"] Cons.prems
    by (auto simp: bindE_def)
qed

definition put_winners :: "string \<Rightarrow> bid list \<Rightarrow> 'w trading_store \<Rightarrow> 'w trading_store" where
  "put_winners i bids s = s\<lparr>ts_winners := filter (\<lambda>(a, x). a \<noteq> i) (ts_winners s)
     @ map (Pair i) (winnerRecordsFromBids bids 3)\<rparr>"

lemma winners_wp [wp_simps]:
  "wpE (winners_Save i (winnerRecordsFromBids bids 3)) Q R s = Q () (put_winners i bids s)"
proof -
  have "forE (winner_insert i) (winnerRecordsFromBids bids 3)
      (s\<lparr>ts_winners := filter (\<lambda>(a, x). a \<noteq> i) (ts_winners s)\<rparr>) = (Inr (), put_winners i bids s)"
    unfolding put_winners_def winnerRecordsFromBids_def
    by (subst winner_inserts) (use winner_records_places in auto)
  then show ?thesis
    by (simp add: winners_Save_def wp_simps) (simp add: wpE_def)
qed

lemma put_winners_simps [simp]:
  "ts_auctions (put_winners i bids s) = ts_auctions s" "ts_bids (put_winners i bids s) = ts_bids s"
  "ts_outbox (put_winners i bids s) = ts_outbox s" "ts_ids (put_winners i bids s) = ts_ids s"
  "ts_chain (put_winners i bids s) = ts_chain s" "ts_wallet (put_winners i bids s) = ts_wallet s"
  by (simp_all add: put_winners_def)

lemma Close_keeps:
  assumes env: "env_ok env"
  shows "tkeeps env (CloseAuction env now meta i :: ('w, unit) trading)"
proof -
  have "wpE (CloseAuction_loaded env now meta i a bids) (\<lambda>_. trading_inv env) (\<lambda>_. trading_inv env) s"
    if inv: "trading_inv env s" and l: "loaded i s r a"
      and m: "mset bids = mset (auction_bids i (ts_bids s))" for s :: "'w trading_store" and r a bids
  proof (cases "au_Close (te_sort_slice env) bids a")
    case (Inl e)
    then show ?thesis using inv by (simp add: CloseAuction_loaded_def wp_simps)
  next
    case (Inr x)
    obtain evs a' where x: "x = (evs, a')" by (cases x)
    let ?s = "put_winners i bids s"
    have inv': "trading_inv env ?s" and l': "loaded i ?s r a"
      using inv l by (simp_all add: trading_inv_def ids_ok_def loaded_def)
    have "auction_ok a' (auction_bids i (ts_bids ?s))"
      using close_ok [OF _ m _ Inr [unfolded x]] l env by (simp add: loaded_def env_ok_def)
    moreover have "au_id a' = i" "0 < au_startPrice a'"
      using move_snapshot [OF au_move.close [OF Inr [unfolded x]]] l
      by (auto simp: loaded_def au_snapshot_def)
    ultimately show ?thesis
      unfolding CloseAuction_loaded_def wpE_bind domain_wp Inr x sum.case prod.case winners_wp
      by (intro save_loaded_wp [OF inv' l'] tkeepsD [THEN wpE_mono])
        (auto intro!: tkeeps_intro intro: tkeepsD)
  qed
  then have "wpE (CloseAuction env now meta i) (\<lambda>_. trading_inv env) (\<lambda>_. trading_inv env) s"
    if "trading_inv env s" for s :: "'w trading_store"
    using that unfolding CloseAuction_def db_uow_plain wpE_bind
    by (intro load_wp [OF that] top_bids_wp [OF _ env]) (auto simp: wp_simps)
  then show ?thesis by (simp add: tkeeps_def)
qed

text \<open>The bid and the auction are saved by two statements; the invariant holds again after both.\<close>

lemma save_bid_wp:
  assumes inv: "trading_inv env s" and l: "loaded i s r a" and a': "au_id a' = i" "0 < au_startPrice a'"
    and ok: "auction_ok a' (auction_bids i (ts_bids s) @ [b])"
    and Q: "\<And>t. trading_inv env t \<Longrightarrow> ts_wallet t = ts_wallet s \<Longrightarrow>
      (\<exists>x. ts_bids t = ts_bids s @ [x] \<and> br_auction x = i \<and> row_bid x = b) \<Longrightarrow>
      ts_auctions t = put_auction a' (ts_auctions s) \<Longrightarrow> Q () t"
  shows "wpE (bids_Save i b) (\<lambda>_. wpE (auctions_Save a') Q R) R s"
proof -
  define x where "x = \<lparr>br_auction = i, br_company = bid_company b, br_amount = bid_amount b,
    br_placedAt = bid_placedAt b, br_hash = None, br_tx = None, br_status = ''NOT_ANCHORED'',
    br_wallet = None, br_block = None\<rparr>"
  have x: "br_auction x = i" "row_bid x = b"
    by (simp_all add: x_def row_bid_def)
  then have one: "auction_bids i [x] = [b]"
    by (simp add: auction_bids_def)
  have "trading_inv env (s\<lparr>ts_bids := ts_bids s @ [x], ts_auctions := put_auction a' (ts_auctions s)\<rparr>)"
    using loaded_drawn [OF inv l] ok a' x by (intro save_inv [OF inv]) (simp_all add: one)
  then show ?thesis
    using Q a'(2) x unfolding bids_Save_def x_def [symmetric] wpE_modify
    by (auto simp: save_wp)
qed

lemma PlaceBid_loaded_wp:
  assumes inv: "trading_inv env s" and l: "loaded i s r a" and fits: "step_fits a"
  shows "wpE (PlaceBid_loaded env deposits now meta i amount placedAt a)
     (\<lambda>_. trading_inv env) (\<lambda>_. trading_inv env) s"
proof (cases "NewBid (cm_company meta) amount placedAt")
  case (Inl e)
  then show ?thesis using inv by (simp add: PlaceBid_loaded_def wp_simps)
next
  case b: (Inr b)
  show ?thesis
  proof (cases "au_PlaceBid b a")
    case (Inl e)
    then show ?thesis using inv b by (simp add: PlaceBid_loaded_def wp_simps)
  next
    case (Inr x)
    obtain evs a' where x: "x = (evs, a')" by (cases x)
    have ok: "auction_ok a' (auction_bids i (ts_bids s) @ [b])"
      using place_bid_ok [OF _ fits b Inr [unfolded x]] l by (simp add: loaded_def)
    have a': "au_id a' = i" "0 < au_startPrice a'"
      using bid_step_keeps [OF au_bid_step.intros [OF Inr [unfolded x]]] l
      by (auto simp: loaded_def au_snapshot_def)
    have "trading_inv env (s\<lparr>ts_wallet := w\<rparr>)" "loaded i (s\<lparr>ts_wallet := w\<rparr>) r a" for w
      using inv l by (simp_all add: trading_inv_def ids_ok_def loaded_def)
    then show ?thesis
      unfolding PlaceBid_loaded_def wpE_bind domain_wp b Inr x sum.case prod.case Let_def
      using ok a'
      by (intro wallet_wp save_bid_wp [where env = env and r = r and a = a])
        (auto intro!: tkeepsD [THEN wpE_mono] tkeeps_intro simp: wp_simps)
  qed
qed

definition bids_fit :: "string \<Rightarrow> 'w trading_store \<Rightarrow> bool" where
  "bids_fit i s \<longleftrightarrow> (\<forall>r \<in> set (ts_auctions s). ar_id r = i \<longrightarrow>
     is_int64 (ar_currentPrice r + ar_minBidStep r))"

lemma loaded_fits: "loaded i s r a \<Longrightarrow> bids_fit i s \<Longrightarrow> step_fits a"
  by (auto simp: loaded_def bids_fit_def step_fits_def row_auction_def RehydrateAuction_def
      split: if_splits option.splits)

lemma PlaceBid_keeps:
  assumes inv: "trading_inv env s" and fits: "bids_fit i s"
  shows "wpE (PlaceBid env deposits now meta i amount placedAt)
     (\<lambda>_. trading_inv env) (\<lambda>_. trading_inv env) s"
  unfolding PlaceBid_def db_uow_plain wpE_bind
  by (rule load_wp [OF inv]) (auto intro: PlaceBid_loaded_wp inv loaded_fits fits)

lemma Create_with_keeps:
  assumes inv: "trading_inv env s" and drawn: "i \<in> te_id env ` {..<ts_ids s}" and start: "0 < startsAt"
  shows "wpE (CreateAuction_with (retE i) lotID startsAt endsAt startPrice step)
     (\<lambda>_. trading_inv env) (\<lambda>_. trading_inv env) s"
proof (cases "i \<in> ar_id ` set (ts_auctions s)")
  case True
  then obtain r where r: "row_select (\<lambda>r. ar_id r = i) (ts_auctions s) = Some r"
    by (cases "row_select (\<lambda>r. ar_id r = i) (ts_auctions s)") (auto simp: row_select_None_iff)
  then show ?thesis
    using inv by (cases "row_auction r") (simp_all add: CreateAuction_with_def db_uow_plain Let_def
        auctions_load_def wpE_def bindE_def catchE_def retE_def failE_def)
next
  case False
  then have "\<forall>b \<in> set (ts_bids s). br_auction b \<noteq> i"
    using inv by (auto simp: trading_inv_def auctions_ok_def)
  then have "auction_bids i (ts_bids s) = []"
    by (simp add: auction_bids_def)
  then have "trading_inv env (s\<lparr>ts_auctions := put_auction a (ts_auctions s)\<rparr>)"
    if "NewAuctionWithPricing i lotID startsAt endsAt startPrice st = Inr a" "0 < au_startPrice a" for a st
    using save_inv [OF inv, of a "[]"] new_auction_ok [OF that(1) start] that drawn
    by (auto simp: NewAuctionWithPricing_def split: if_splits)
  then show ?thesis
    unfolding CreateAuction_with_def db_uow_plain Let_def wpE_bind wpE_ret wpE_catch
    by (intro load_wp [OF inv])
      (auto simp: wp_simps inv split: sum.split)
qed

lemma create_next: "CreateAuction_with (next_id env) l st e p step s =
    CreateAuction_with (retE (te_id env (ts_ids s))) l st e p step (s\<lparr>ts_ids := Suc (ts_ids s)\<rparr>)"
  by (simp add: CreateAuction_with_def Let_def bindE_def next_id_def retE_def)

lemma Create_keeps:
  assumes "trading_inv env s" "0 < startsAt"
  shows "wpE (CreateAuction env lotID startsAt endsAt startPrice step)
     (\<lambda>_. trading_inv env) (\<lambda>_. trading_inv env) s"
proof -
  have "trading_inv env (s\<lparr>ts_ids := Suc (ts_ids s)\<rparr>)"
    by (rule inv_frame [OF assms(1)]) simp_all
  then have "wpE (CreateAuction_with (retE (te_id env (ts_ids s))) lotID startsAt endsAt startPrice step)
      (\<lambda>_. trading_inv env) (\<lambda>_. trading_inv env) (s\<lparr>ts_ids := Suc (ts_ids s)\<rparr>)"
    by (rule Create_with_keeps) (use assms(2) in simp_all)
  then show ?thesis
    by (simp add: CreateAuction_def wpE_def create_next)
qed

end
