(* ===== verification/Trading_Effects.thy ===== *)
theory Trading_Effects
  imports Trading_Correct
begin

section \<open>What closing an auction does\<close>

text \<open>
  In a store with the invariant the accepted bids of an auction have strictly increasing amounts,
  so there is one ranking, the reverse of the order of acceptance (\<open>ranking_is_reverse\<close>), however
  ties are broken. Closing then cannot fail (\<open>close_effect\<close>), nor can the loop over the expired
  auctions (\<open>close_all\<close>).
\<close>

subsection \<open>The ranking of accepted bids\<close>

lemma ascend_less:
  "bids_ascend step bs \<Longrightarrow> 0 < step \<Longrightarrow> sorted_wrt (\<lambda>x y. bid_amount x < bid_amount y) bs"
  unfolding bids_ascend_def by (erule sorted_wrt_mono_rel [rotated]) simp

lemma ascend_inj:
  "sorted_wrt (\<lambda>x y. bid_amount x < bid_amount y) bs \<Longrightarrow> x \<in> set bs \<Longrightarrow> y \<in> set bs \<Longrightarrow> x \<noteq> y
    \<Longrightarrow> bid_amount x \<noteq> bid_amount y"
  by (induction bs) auto

lemma ranking_is_reverse:
  assumes ok: "auction_ok a bs" and m: "mset bids = mset bs" and srt: "slice_sort srt"
  shows "srt ranks_before bids = rev bs"
proof -
  have asc: "sorted_wrt (\<lambda>x y. bid_amount x < bid_amount y) bs"
    using ok ascend_less unfolding auction_ok_def by blast
  have s: "set bids = set bs" using m mset_eq_setD by blast
  show ?thesis
  proof (rule slice_sort.unique_order [OF srt ranks_before_weak])
    fix x y assume "x \<in> set bids" "y \<in> set bids" "x \<noteq> y"
    then show "ranks_before x y \<or> ranks_before y x"
      using ascend_inj [OF asc] s by (force simp: ranks_before_def)
  next
    show "sorted_wrt (\<lambda>x y. \<not> ranks_before y x) (rev bs)"
      unfolding sorted_wrt_rev
      by (rule sorted_wrt_mono_rel [OF _ asc]) (auto simp: ranks_before_def)
  qed (simp add: m)
qed

lemma sorted_bids_reverse:
  assumes "auction_ok a bs" "mset bids = mset bs" "slice_sort srt"
  shows "sortBidsForCloseRanking srt bids = rev bs"
proof (cases "length bids \<le> 1")
  case True
  then have "length bs \<le> 1"
    using assms(2) mset_eq_length by force
  with True have "bids = rev bs"
    using assms(2) by (cases bids; cases bs) auto
  with True show ?thesis
    by (simp add: sortBidsForCloseRanking_def)
qed (simp add: sortBidsForCloseRanking_def ranking_is_reverse [OF assms])

text \<open>What closing makes of an auction: the events and the auction afterwards.\<close>

definition close_events :: "auction \<Rightarrow> bid list \<Rightarrow> auction_event list" where
  "close_events a bs = (if bs = [] then [AuctionCancelled (au_id a)]
     else [AuctionClosed (au_id a), AuctionWon (au_id a) (au_lot a)
       (collectWinnerCompanyIDs (rev bs)) (au_currentPrice a)])"

definition closed_auction :: "auction \<Rightarrow> bid list \<Rightarrow> auction" where
  "closed_auction a bs = a\<lparr>au_state := (if bs = [] then StateCancelled else StateWon)\<rparr>"

lemma winner_scan_top:
  "\<forall>b \<in> set bs. bid_amount b < bid_amount w \<Longrightarrow> winner_scan w bs = w"
  by (induction bs) auto

lemma close_result:
  assumes ok: "auction_ok a bs" and m: "mset bids = mset bs" and srt: "slice_sort srt"
    and st: "au_state a = StatePublished"
  shows "au_Close srt bids a = Inr (close_events a bs, closed_auction a bs)"
proof (cases "bs = []")
  case True
  then show ?thesis
    using m st by (simp add: Close_iff close_events_def closed_auction_def)
next
  case False
  then have ne: "bids \<noteq> []" using m by auto
  then obtain w where w: "determineWinner (sortBidsForCloseRanking srt bids) = Some w"
    using winner_exists [OF srt] by blast
  then have "w = last bs"
    using winner_is_last [OF ok m srt] by blast
  moreover have "au_leader a = bid_company (last bs)" "au_currentPrice a = bid_amount (last bs)"
    using ok False by (auto simp: auction_ok_def)
  ultimately show ?thesis
    using False ne st w sorted_bids_reverse [OF ok m srt]
    by (simp add: Close_iff close_events_def closed_auction_def)
qed

subsection \<open>Statements that cannot fail\<close>

lemma nonce_fresh: "x \<in> set xs \<Longrightarrow> x < foldl max (-1) xs + (1::int)"
proof -
  have "y \<le> foldl max y xs \<and> (\<forall>x \<in> set xs. x \<le> foldl max y xs)" for y
  proof (induction xs arbitrary: y)
    case (Cons x xs)
    show ?case using Cons.IH [of "max y x"] by auto
  qed simp
  then show "x \<in> set xs \<Longrightarrow> x < foldl max (-1) xs + 1" by fastforce
qed

lemma chain_insert_wp:
  "wpE (chain_insert op') Q R s =
    (if list_ex (\<lambda>x. co_auction x = co_auction op' \<and> co_nonce x = co_nonce op') (ts_chain s)
     then R TradingUniqueViolation (s\<lparr>ts_chain_seq := ts_chain_seq s + 1\<rparr>)
     else Q () (s\<lparr>ts_chain_seq := ts_chain_seq s + 1, ts_chain := ts_chain s @
       [op'\<lparr>co_id := ts_chain_seq s, co_next_retry := ts_now s, co_created := ts_now s,
            co_updated := ts_now s\<rparr>]\<rparr>))"
  by (simp add: wpE_def chain_insert_def Let_def)

text \<open>The next nonce of an auction is new, so its operation is always inserted.\<close>

lemma enqueue_wp:
  assumes "\<And>n. co_auction (op' n) = i" "\<And>n. co_nonce (op' n) = n"
    and Q: "\<And>op'' sq. Q () (s\<lparr>ts_chain_seq := sq, ts_chain := ts_chain s @ [op'']\<rparr>)"
  shows "wpE (nextNonce i) (\<lambda>n. wpE (chain_insert (op' n)) Q R) R s"
proof -
  let ?n = "foldl max (-1) (map co_nonce (filter (\<lambda>o'. co_auction o' = i) (ts_chain s))) + 1"
  have "\<not> list_ex (\<lambda>x. co_auction x = i \<and> co_nonce x = ?n) (ts_chain s)"
  proof
    assume "list_ex (\<lambda>x. co_auction x = i \<and> co_nonce x = ?n) (ts_chain s)"
    then obtain x where x: "x \<in> set (ts_chain s)" "co_auction x = i" "co_nonce x = ?n"
      by (auto simp: list_ex_iff)
    have "co_nonce x \<in> set (map co_nonce (filter (\<lambda>o'. co_auction o' = i) (ts_chain s)))"
      using x(1,2) by auto
    from nonce_fresh [OF this] x(3) show False by simp
  qed
  then show ?thesis
    using assms by (simp add: nextNonce_def wpE_read chain_insert_wp)
qed

text \<open>Identifiers are drawn fresh, so the events are always written.\<close>

definition outbox_grows :: "auction_event list \<Rightarrow> 'w trading_store \<Rightarrow> 'w trading_store \<Rightarrow> bool" where
  "outbox_grows evs s t \<longleftrightarrow> (\<exists>os n. t = s\<lparr>ts_outbox := ts_outbox s @ os, ts_ids := n\<rparr>
     \<and> map ob_payload os = evs)"

lemma outbox_Add_wp:
  assumes "ids_ok env s" "inj (te_id env)"
    and "\<And>t. outbox_grows evs s t \<Longrightarrow> ids_ok env t \<Longrightarrow> Q () t"
  shows "wpE (outbox_Add env now meta evs) Q R s"
proof -
  have "wpE (outbox_Add env now meta evs) (\<lambda>_ t. outbox_grows evs s t \<and> ids_ok env t) (\<lambda>_ _. False) s"
    using assms(1)
  proof (induction evs arbitrary: s)
    case Nil
    have "outbox_grows [] s s"
      unfolding outbox_grows_def by (intro exI [of _ "[]"] exI [of _ "ts_ids s"]) simp
    then show ?case using Nil by (simp add: outbox_Add_def wp_simps)
  next
    case (Cons ev evs)
    let ?i = "ts_ids s"
    let ?r = "outbox_row_for now meta (te_id env ?i) (te_id env (Suc ?i)) ev"
    let ?s = "s\<lparr>ts_ids := Suc (Suc ?i), ts_outbox := ts_outbox s @ [?r]\<rparr>"
    have "te_id env ?i \<notin> te_id env ` {..<?i}"
      using assms(2) by (auto dest: injD)
    then have "te_id env ?i \<notin> ob_id ` set (ts_outbox s)"
      using Cons.prems by (auto simp: ids_ok_def)
    then have new: "\<not> list_ex (\<lambda>x. ob_id x = ob_id ?r) (ts_outbox s)"
      by (auto simp: list_ex_iff outbox_row_for_def) (metis image_eqI)
    have "ids_ok env ?s"
      using Cons.prems by (auto simp: ids_ok_def lessThan_Suc outbox_row_for_def)
    note IH = Cons.IH [OF this]
    have "outbox_grows (ev # evs) s t" if "outbox_grows evs ?s t" for t
      using that unfolding outbox_grows_def
      by (elim exE conjE) (rule exI [of _ "?r # os" for os], auto simp: outbox_row_for_def)
    then show ?case
      using new IH unfolding outbox_Add_def forE.simps wpE_bind next_id_wp outbox_put_wp
      by (auto elim!: wpE_mono)
  qed
  then show ?thesis
    by (rule wpE_mono) (use assms(3) in auto)
qed

subsection \<open>CloseAuction\<close>

definition may_close :: "time \<Rightarrow> command_meta \<Rightarrow> auction \<Rightarrow> bid list \<Rightarrow> bool" where
  "may_close now meta a bs \<longleftrightarrow>
     bs = [] \<or> au_endsAt a \<le> now \<or> allowPrivilegedEarlyAuctionClose meta"

definition auction_closed ::
  "string \<Rightarrow> auction \<Rightarrow> bid list \<Rightarrow> 'w trading_store \<Rightarrow> 'w trading_store \<Rightarrow> bool" where
  "auction_closed i a bs s t \<longleftrightarrow>
     filter (\<lambda>r. ar_id r \<noteq> i) (ts_auctions t) = filter (\<lambda>r. ar_id r \<noteq> i) (ts_auctions s)
     \<and> (\<forall>r \<in> set (ts_auctions t). ar_id r = i \<longrightarrow> row_auction r = Inr (closed_auction a bs))
     \<and> ts_bids t = ts_bids s \<and> ts_wallet t = ts_wallet s
     \<and> ts_winners t = filter (\<lambda>(x, w). x \<noteq> i) (ts_winners s)
          @ map (Pair i) (winnerRecordsFromBids (rev bs) 3)
     \<and> (\<exists>os. ts_outbox t = ts_outbox s @ os \<and> map ob_payload os = close_events a bs)"

lemma filter_row_update:
  "(\<And>r. p r \<Longrightarrow> ar_id r = i \<and> ar_id (f r) = i)
    \<Longrightarrow> filter (\<lambda>r. ar_id r \<noteq> i) (row_update p f rows) = filter (\<lambda>r. ar_id r \<noteq> i) rows"
  by (induction rows) (auto simp: row_update_def)

lemma filter_put:
  "au_id a = i \<Longrightarrow> filter (\<lambda>r. ar_id r \<noteq> i) (put_auction a rows) = filter (\<lambda>r. ar_id r \<noteq> i) rows"
  by (auto simp: put_auction_def intro: filter_row_update)

lemma put_row_auction:
  "auction_ok a bs \<Longrightarrow> r \<in> set (put_auction a rows) \<Longrightarrow> ar_id r = au_id a \<Longrightarrow> row_auction r = Inr a"
  using put_rows [of r a rows] by auto

lemma finalize_wp:
  assumes i: "i \<in> ar_id ` set (ts_auctions s)"
    and Q: "\<And>op'' sq. Q () (s\<lparr>ts_chain_seq := sq, ts_chain := ts_chain s @ [op''],
      ts_auctions := row_update (\<lambda>r. ar_id r = i)
        (\<lambda>r. r\<lparr>ar_result_hash := Some h, ar_fin_status := ''PENDING_SUBMIT''\<rparr>) (ts_auctions s)\<rparr>)"
  shows "wpE (EnqueueAuctionFinalize i rh h w p) Q R s"
proof -
  have "list_ex (\<lambda>r. ar_id r = i) (ts_auctions s)"
    using i by (auto simp: list_ex_iff)
  then show ?thesis
    unfolding EnqueueAuctionFinalize_def wpE_bind
    by (intro enqueue_wp) (simp_all add: chain_op_def auctions_set_result_def wpE_def Q)
qed

lemma load_exact: "trading_inv env s \<Longrightarrow> loaded i s r a \<Longrightarrow> auctions_load i s = (Inr a, s)"
  using row_select_key [of ar_id "ts_auctions s" r]
  by (simp add: loaded_def auctions_load_def trading_inv_def auctions_ok_def)

text \<open>The store just before the events are written.\<close>

definition almost_closed ::
  "trading_env \<Rightarrow> string \<Rightarrow> auction \<Rightarrow> bid list \<Rightarrow> 'w trading_store \<Rightarrow> 'w trading_store \<Rightarrow> bool" where
  "almost_closed env i a bs s u \<longleftrightarrow> ids_ok env u
     \<and> filter (\<lambda>r. ar_id r \<noteq> i) (ts_auctions u) = filter (\<lambda>r. ar_id r \<noteq> i) (ts_auctions s)
     \<and> (\<forall>r \<in> set (ts_auctions u). ar_id r = i \<longrightarrow> row_auction r = Inr (closed_auction a bs))
     \<and> ts_bids u = ts_bids s \<and> ts_wallet u = ts_wallet s \<and> ts_outbox u = ts_outbox s
     \<and> ts_winners u = filter (\<lambda>(x, w). x \<noteq> i) (ts_winners s)
          @ map (Pair i) (winnerRecordsFromBids (rev bs) 3)"

lemma almost_closed_wp:
  assumes "almost_closed env i a bs s u" "inj (te_id env)"
  shows "wpE (outbox_Add env now meta (close_events a bs)) (\<lambda>_. auction_closed i a bs s) R u"
  using assms by (intro outbox_Add_wp)
    (auto simp: almost_closed_def auction_closed_def outbox_grows_def)

lemma almost_closed_mark:
  assumes "almost_closed env i a bs s u" "\<And>r. row_auction (f r) = row_auction r" "\<And>r. ar_id (f r) = ar_id r"
  shows "almost_closed env i a bs s (u\<lparr>ts_chain_seq := sq, ts_chain := ch,
    ts_auctions := row_update (\<lambda>r. ar_id r = i) f (ts_auctions u)\<rparr>)"
proof -
  have "map ar_id (row_update (\<lambda>r. ar_id r = i) f (ts_auctions u)) = map ar_id (ts_auctions u)"
    by (rule map_row_update) (rule assms)
  from arg_cong [where f = set, OF this]
  have "ar_id ` set (row_update (\<lambda>r. ar_id r = i) f (ts_auctions u)) = ar_id ` set (ts_auctions u)"
    by simp
  then show ?thesis
    using assms
    by (auto simp: almost_closed_def ids_ok_def filter_row_update elim!: row_update_memE)
qed

lemma close_loaded_effect:
  assumes inv: "trading_inv env s" and env: "env_ok env" and l: "loaded i s r a"
    and bids: "bids = rev (auction_bids i (ts_bids s))" and st: "au_state a = StatePublished"
  shows "wpE (CloseAuction_loaded env now meta i a bids)
    (\<lambda>_. auction_closed i a (auction_bids i (ts_bids s)) s) (\<lambda>_ _. False) s"
proof -
  let ?bs = "auction_bids i (ts_bids s)" and ?a = "closed_auction a (auction_bids i (ts_bids s))"
  let ?s = "(put_winners i bids s)\<lparr>ts_auctions := put_auction ?a (ts_auctions s)\<rparr>"
  have m: "mset bids = mset ?bs" by (simp add: bids)
  have ok: "auction_ok a ?bs" "au_id a = i" "0 < au_startPrice a"
    using l by (simp_all add: loaded_def)
  have res: "au_Close (te_sort_slice env) bids a = Inr (close_events a ?bs, ?a)"
    using close_result [OF ok(1) m _ st] env by (simp add: env_ok_def)
  have ok': "auction_ok ?a ?bs"
    using close_ok [OF ok(1) m _ res] env by (simp add: env_ok_def)
  have a': "au_id ?a = i" "0 < au_startPrice ?a"
    using ok by (simp_all add: closed_auction_def)
  have "ids_ok env ?s"
    using inv loaded_drawn [OF inv l] a' by (auto simp: trading_inv_def ids_ok_def put_ids)
  then have u: "almost_closed env i a ?bs s ?s"
    using put_row_auction [OF ok'] filter_put [OF a'(1)] a'
    by (simp add: almost_closed_def put_winners_def bids)
  note tail = almost_closed_wp [OF _ env [unfolded env_ok_def, THEN conjunct1]]
  have row: "i \<in> ar_id ` set (ts_auctions ?s)"
    using a' by (simp add: put_ids)
  have "wpE (EnqueueAuctionFinalize i rh h w p)
      (\<lambda>_. wpE (outbox_Add env now meta (close_events a ?bs)) (\<lambda>_. auction_closed i a ?bs s) R) R ?s"
    for rh h w p R
    by (rule finalize_wp [OF row], rule tail, rule almost_closed_mark [OF u])
      (simp_all add: row_auction_def)
  then show ?thesis
    unfolding CloseAuction_loaded_def wpE_bind domain_wp res sum.case prod.case winners_wp save_wp
    using a' tail [OF u]
    by (auto simp: wp_simps split: option.split)
qed

lemma close_effect:
  assumes inv: "trading_inv env s" and env: "env_ok env" and l: "loaded i s r a"
    and st: "au_state a = StatePublished" and may: "may_close now meta a (auction_bids i (ts_bids s))"
  shows "wpE (CloseAuction env now meta i)
    (\<lambda>_ t. trading_inv env t \<and> auction_closed i a (auction_bids i (ts_bids s)) s t) (\<lambda>_ _. False) s"
proof -
  let ?bs = "auction_bids i (ts_bids s)"
  have ok: "auction_ok a ?bs" using l by (simp add: loaded_def)
  have "te_order_bids env ranks_before ?bs = rev ?bs"
    using ranking_is_reverse [OF ok refl] env by (simp add: env_ok_def)
  then have top: "TopBids env i s = (Inr (rev ?bs), s)"
    using top_bids [OF l env] by simp
  have "wpE (CloseAuction env now meta i) (\<lambda>_. auction_closed i a ?bs s) (\<lambda>_ _. False) s"
    using close_loaded_effect [OF inv env l refl st, of now meta] may load_exact [OF inv l] top
    unfolding CloseAuction_def db_uow_plain may_close_def
    by (auto simp: wpE_def bindE_def)
  then show ?thesis
    using tkeepsD [OF Close_keeps [OF env] inv, of now meta i]
    by (auto simp: wpE_def split: prod.splits sum.splits)
qed

subsection \<open>PlaceBid\<close>

lemma anchor_wp:
  assumes "\<And>op'' sq. Q () (s\<lparr>ts_chain_seq := sq, ts_chain := ts_chain s @ [op''],
      ts_bids := row_update (is_bid_row i c n t)
        (\<lambda>r. r\<lparr>br_hash := Some h, br_status := ''PENDING_SUBMIT''\<rparr>) (ts_bids s)\<rparr>)"
    and R: "\<And>e op'' sq. e = TradingUniqueViolation \<or> e = ErrBidRowNotFound i \<Longrightarrow>
      R e (s\<lparr>ts_chain_seq := sq, ts_chain := ts_chain s @ [op'']\<rparr>)"
  shows "wpE (EnqueueBidAnchor i rh h c n t) Q R s"
  unfolding EnqueueBidAnchor_def wpE_bind
  by (intro enqueue_wp) (simp_all add: chain_op_def bids_set_hash_def wpE_def Let_def assms)

definition bids_of :: "'w trading_store \<Rightarrow> (string \<times> bid) list" where
  "bids_of s = map (\<lambda>r. (br_auction r, row_bid r)) (ts_bids s)"

definition bid_accepted ::
  "string \<Rightarrow> auction \<Rightarrow> bid \<Rightarrow> 'w trading_store \<Rightarrow> 'w trading_store \<Rightarrow> bool" where
  "bid_accepted i a b s t \<longleftrightarrow>
     filter (\<lambda>r. ar_id r \<noteq> i) (ts_auctions t) = filter (\<lambda>r. ar_id r \<noteq> i) (ts_auctions s)
     \<and> (\<exists>r \<in> set (ts_auctions t). ar_id r = i \<and> row_auction r = Inr (a\<lparr>au_currentPrice := bid_amount b,
           au_leader := bid_company b, au_endsAt := newEndAt b a\<rparr>))
     \<and> bids_of t = bids_of s @ [(i, b)] \<and> ts_winners t = ts_winners s
     \<and> (\<exists>os. ts_outbox t = ts_outbox s @ os \<and> map ob_payload os =
          [BidPlaced i (bid_company b) (bid_amount b) (bid_placedAt b) (newEndAt b a)])"

text \<open>The errors after which the bid is not recorded; all others are failures of the database.\<close>

fun bid_refused :: "trading_error \<Rightarrow> bool" where
  "bid_refused (AuctionError e) = True"
| "bid_refused ErrAuctionNotFound = True"
| "bid_refused ErrTradingInsufficientFunds = True"
| "bid_refused (DepositServiceError e) = True"
| "bid_refused _ = False"

definition only_wallet :: "'w trading_store \<Rightarrow> 'w trading_store \<Rightarrow> bool" where
  "only_wallet s t \<longleftrightarrow> (\<exists>w. t = s\<lparr>ts_wallet := w\<rparr>)"

lemma only_wallet_refl [simp]: "only_wallet s s"
  unfolding only_wallet_def by (rule exI [of _ "ts_wallet s"]) simp

lemma put_row:
  assumes "auction_ok a bs" "au_id a = i"
  shows "\<exists>r \<in> set (put_auction a rows). ar_id r = i \<and> row_auction r = Inr a"
proof -
  have "i \<in> ar_id ` set (put_auction a rows)"
    using assms by (simp add: put_ids)
  then show ?thesis
    using put_row_auction [OF assms(1)] assms(2) by auto
qed

lemma bids_of_hash: "map (\<lambda>r. (br_auction r, row_bid r)) (row_update p
    (\<lambda>r. r\<lparr>br_hash := h, br_status := st\<rparr>) rows) = map (\<lambda>r. (br_auction r, row_bid r)) rows"
  by (simp add: row_update_def row_bid_def)

lemma place_bid_effect:
  assumes inv: "trading_inv env s" and env: "env_ok env" and fits: "step_fits a"
    and l: "loaded i s r a"
  shows "wpE (PlaceBid_loaded env deposits now meta i n p a)
    (\<lambda>res t. \<exists>b evs a'. NewBid (cm_company meta) n p = Inr b \<and> au_PlaceBid b a = Inr (evs, a')
       \<and> bid_accepted i a b s t)
    (\<lambda>e t. bid_refused e \<longrightarrow> only_wallet s t) s"
proof (cases "NewBid (cm_company meta) n p")
  case (Inl e)
  then show ?thesis by (simp add: PlaceBid_loaded_def wp_simps)
next
  case b: (Inr b)
  show ?thesis
  proof (cases "au_PlaceBid b a")
    case (Inl e)
    then show ?thesis using b by (simp add: PlaceBid_loaded_def wp_simps)
  next
    case (Inr x)
    obtain evs a' where x: "x = (evs, a')" by (cases x)
    let ?a = "a\<lparr>au_currentPrice := bid_amount b, au_leader := bid_company b, au_endsAt := newEndAt b a\<rparr>"
    let ?evs = "[BidPlaced i (bid_company b) (bid_amount b) (bid_placedAt b) (newEndAt b a)]"
    have i: "au_id a = i" using l by (simp add: loaded_def)
    have x: "x = (?evs, ?a)"
      using Inr [unfolded x] i by (simp add: x PlaceBid_iff)
    have ok: "auction_ok ?a (auction_bids i (ts_bids s) @ [b])"
      using place_bid_ok [OF _ fits b Inr [unfolded x]] l by (simp add: loaded_def)
    define row where "row = \<lparr>br_auction = i, br_company = bid_company b, br_amount = bid_amount b,
      br_placedAt = bid_placedAt b, br_hash = None, br_tx = None, br_status = ''NOT_ANCHORED'',
      br_wallet = None, br_block = None\<rparr>"
    have row: "br_auction row = i" "row_bid row = b"
      by (simp_all add: row_def row_bid_def)
    have start: "0 < au_startPrice ?a" using l by (simp add: loaded_def)
    have drawn: "i \<in> te_id env ` {..<ts_ids s}" by (rule loaded_drawn [OF inv l])
    have put: "\<exists>r \<in> set (put_auction ?a rows). ar_id r = i \<and> row_auction r = Inr ?a" for rows
      by (rule put_row [OF ok]) (simp add: i)
    show ?thesis
      unfolding PlaceBid_loaded_def wpE_bind domain_wp b Inr x sum.case prod.case Let_def
    proof (rule wallet_wp, goal_cases)
      case (1 w u)
      show ?case
        unfolding bids_Save_def row_def [symmetric] wpE_modify save_wp
        apply (simp only: start [THEN linorder_not_le [THEN iffD2]] if_False)
        apply (rule anchor_wp)
        subgoal for op' sq
          apply (rule outbox_Add_wp)
            apply (use inv drawn i in \<open>simp add: trading_inv_def ids_ok_def put_ids\<close>)
           apply (use env in \<open>simp add: env_ok_def\<close>)
          apply (auto simp: wp_simps bid_accepted_def bids_of_def outbox_grows_def filter_put i put
              bids_of_hash row b Inr x)
          done
        subgoal by auto
        done
    next
      case (2 w e)
      then show ?case by (auto simp: only_wallet_def)
    qed
  qed
qed

end
