(* ===== verification/Billing_Effects.thy ===== *)
theory Billing_Effects
  imports Billing_System
begin

section \<open>What the use cases do to the amounts\<close>

text \<open>
  Functional behaviour, one lemma per use case, from a store with the invariant: which account
  changes by how much, what becomes of the deposit, what an error leaves. The properties of
  Billing\_Properties are these lemmas at the reachable stores.
\<close>

lemma ok_publish_frame [wp_intro]:
  "(\<And>n rows. Q () (s\<lparr>bs_ids := n, bs_outbox := rows\<rparr>)) \<Longrightarrow> ok_wp (publish_if env a c ev) Q s"
  by (auto simp: wp_simps) (metis billing_store.surjective billing_store.update_convs(8,9))+

lemma ok_append_frame [wp_intro]:
  "(\<And>es. Q () (s\<lparr>bs_ledger := es\<rparr>)) \<Longrightarrow> ok_wp (ledger_Append e) Q s"
  by (simp add: wp_simps) (metis billing_store.surjective billing_store.update_convs(3))

declare ok_append [wp_intro del]

subsection \<open>Reservation\<close>

definition fresh_deposit :: "billing_store \<Rightarrow> string \<Rightarrow> string \<Rightarrow> bool" where
  "fresh_deposit s a c \<longleftrightarrow> (\<forall>d \<in> set (bs_deposits s). \<not> (dep_auction d = a \<and> dep_company d = c))"

lemma reserve_effect:
  assumes inv: "billing_inv env s" and new: "fresh_deposit s a c"
  shows "ok_wp (ReserveAuctionDeposit env now c a p cur) (\<lambda>_ S.
     \<exists>x \<in> set (bs_accounts s). acc_company x = c \<and> 0 < depositFromStartPrice p
       \<and> depositFromStartPrice p \<le> acc_available x
       \<and> bs_accounts S = set_account (acc_id x) (acc_available x - depositFromStartPrice p)
            (acc_held x + depositFromStartPrice p) (bs_accounts s)
       \<and> (\<exists>d. bs_deposits S = bs_deposits s @ [d] \<and> dep_auction d = a \<and> dep_company d = c
            \<and> dep_amount d = depositFromStartPrice p \<and> dep_status d = DepositHeld)) s"
proof -
  have op: "acc_id y = acc_id x \<and> acc_available y = acc_available x - depositFromStartPrice p
      \<and> acc_held y = acc_held x + depositFromStartPrice p \<and> depositFromStartPrice p \<le> acc_available x"
    if "x \<in> set (bs_accounts s)" "acc_Reserve (depositFromStartPrice p) x = Inr y" "0 \<le> acc_held y" for x y
    using exact_reserve [OF inv_facts(1) [OF inv that(1)] deposit_int64 that(2,3)] that(2)
    by (simp add: acc_Reserve_iff)
  show ?thesis
    unfolding ReserveAuctionDeposit_def Let_def
    apply (intro wp_intro)
            apply (use new in \<open>auto simp: fresh_deposit_def not_reserved [OF inv] NewAuctionDeposit_def
              split: if_splits\<close>)
    subgoal for x y by (rule bexI [of _ x], frule (2) op) auto
    done
qed

lemma reserve_held:
  assumes "d \<in> set (bs_deposits s)" "dep_auction d = a" "dep_company d = c" "dep_status d = DepositHeld"
    and inv: "billing_inv env s" and "\<not> isBlank a" "\<not> isBlank c" "cur = CurrencyRUB"
  shows "ReserveAuctionDeposit env now c a p cur s = (Inr (), s)"
proof -
  have wf: "accounts_wf (bs_accounts s)" "deposits_wf (bs_accounts s) (bs_deposits s)"
    using inv by (simp_all add: billing_inv_def billing_ok_def)
  then obtain x where x: "x \<in> set (bs_accounts s)" "acc_company x = c"
    using assms(1,3) by (auto simp: deposits_wf_def owns_def)
  have one: "row_select (\<lambda>r. acc_company r = c) (bs_accounts s) = Some x"
    using wf(1) x by (auto simp: row_select_key accounts_wf_def)
  have two: "row_select (\<lambda>r. dep_auction r = a \<and> dep_company r = c) (bs_deposits s) = Some d"
    using row_select_key [of dep_key "bs_deposits s" d] wf(2) assms(1-3)
    by (simp add: deposits_wf_def dep_key_def)
  have "RehydrateAccount (acc_id x) c (acc_currency x) (acc_available x) (acc_held x) = Inr x"
    using wf(1) x by (cases x) (auto simp: RehydrateAccount_iff accounts_wf_def acc_ok_def)
  then show ?thesis
    using one two x assms wf
    by (auto simp: ReserveAuctionDeposit_def bindE_def accounts_Load_def deposits_Find_def readE_def
        retE_def accounts_wf_def)
qed

lemma reserve_insufficient:
  assumes inv: "billing_inv env s" and new: "fresh_deposit s a c"
    and x: "x \<in> set (bs_accounts s)" "acc_company x = c"
    and p: "0 < depositFromStartPrice p" "acc_available x < depositFromStartPrice p"
    and "\<not> isBlank a" "cur = CurrencyRUB"
  shows "ReserveAuctionDeposit env now c a p cur s = (Inl ErrInsufficientFundsForDeposit, s)"
proof -
  have wf: "accounts_wf (bs_accounts s)"
    using inv by (simp add: billing_inv_def billing_ok_def)
  have one: "row_select (\<lambda>r. acc_company r = c) (bs_accounts s) = Some x"
    using wf x by (auto simp: row_select_key accounts_wf_def)
  have two: "row_select (\<lambda>r. dep_auction r = a \<and> dep_company r = c) (bs_deposits s) = None"
    using new by (auto simp: row_select_None_iff fresh_deposit_def)
  have "RehydrateAccount (acc_id x) c (acc_currency x) (acc_available x) (acc_held x) = Inr x"
    using wf x by (cases x) (auto simp: RehydrateAccount_iff accounts_wf_def acc_ok_def)
  then show ?thesis
    using one two x assms wf
    by (auto simp: ReserveAuctionDeposit_def bindE_def accounts_Load_def deposits_Find_def readE_def
        retE_def accounts_wf_def Let_def catchE_def liftE_def failE_def acc_Reserve_def)
qed

subsection \<open>Settlement of the winner's deposit\<close>

text \<open>How much of a deposit of amount \<open>m\<close> a fee \<open>f\<close> takes.\<close>

definition captured_part :: "int \<Rightarrow> int \<Rightarrow> int" where
  "captured_part f m = (if f \<le> 0 then 0 else if f < m then f else m)"

definition settled_status :: "int \<Rightarrow> int \<Rightarrow> deposit_status" where
  "settled_status f m =
     (if f \<le> 0 then DepositReleased else if f < m then DepositSettled else DepositCaptured)"

lemma ok_deposit_save' [wp_intro]:
  "Q () (s\<lparr>bs_deposits := close_deposit d (dep_status d) (dep_released_at d) (dep_captured_at d)
      (bs_deposits s)\<rparr>) \<Longrightarrow> ok_wp (deposits_Save d) Q s"
  by (rule ok_deposit_save)

lemma held_key_free:
  assumes inv: "billing_inv env s" and d: "d \<in> set (bs_deposits s)" "dep_status d = DepositHeld"
    and k: "(rt, r, ty) \<in> set (closing_keys (dep_ref d))"
  shows "(dep_company d, rt, r, ty) \<notin> ledger_key ` set (bs_ledger s)"
proof
  assume "(dep_company d, rt, r, ty) \<in> ledger_key ` set (bs_ledger s)"
  then obtain e where e: "e \<in> set (bs_ledger s)" "ledger_key e = (dep_company d, rt, r, ty)"
    by auto
  then have "settles e d"
    using k by (simp add: settles_def ledger_key_def)
  then show False
    using held_not_closed [OF inv_ok [OF inv] d] e(1) by blast
qed

lemma settle_not_recorded:
  assumes inv: "billing_inv env s" and d: "d \<in> set (bs_deposits s)" "dep_status d = DepositHeld"
    and Q: "Q False s"
  shows "ok_wp (settle_settlementAlreadyRecorded (dep_company d)
     (platformFeeSettlementRef (dep_auction d) (dep_company d))) Q s"
  unfolding settle_settlementAlreadyRecorded_def Let_def platformFeeSettlementRef
  by (intro wp_intro) (use held_key_free [OF inv d] Q in \<open>simp_all add: closing_keys_def\<close>)

declare settle_recorded_wp [wp_intro del] fee_recorded_wp [wp_intro del]

lemma ok_find_known:
  assumes inv: "billing_inv env s" and d: "d \<in> set (bs_deposits s)" and Q: "Q (Some d) s"
  shows "ok_wp (deposits_Find (dep_auction d) (dep_company d)) Q s"
proof -
  have "distinct (map dep_key (bs_deposits s))"
    using inv by (simp add: billing_inv_def billing_ok_def deposits_wf_def)
  from row_select_key [OF this d] Q show ?thesis
    by (simp add: deposits_Find_def dep_key_def wp_simps)
qed

text \<open>The deposit \<open>d\<close> has ended with the status \<open>st\<close>, \<open>k\<close> of it captured.\<close>

definition deposit_ended :: "auction_deposit \<Rightarrow> deposit_status \<Rightarrow> int \<Rightarrow> billing_store \<Rightarrow> billing_store \<Rightarrow> bool"
where
  "deposit_ended d st k s S \<longleftrightarrow>
     (\<exists>x \<in> set (bs_accounts s). acc_company x = dep_company d
       \<and> bs_accounts S = set_account (acc_id x) (acc_available x + (dep_amount d - k))
           (acc_held x - dep_amount d) (bs_accounts s))
     \<and> (\<exists>r t. bs_deposits S = close_deposit d st r t (bs_deposits s))"

lemma deposit_endedI:
  assumes "x \<in> set (bs_accounts s)" "acc_company x = dep_company d"
    and "bs_accounts S = set_account (acc_id y) (acc_available y) (acc_held y) (bs_accounts s)"
    and "acc_id y = acc_id x" "acc_available y = acc_available x + (dep_amount d - k)"
      "acc_held y = acc_held x - dep_amount d"
    and "bs_deposits S = close_deposit d st r t (bs_deposits s)"
  shows "deposit_ended d st k s S"
  using assms by (auto simp: deposit_ended_def)

lemma release_op:
  assumes "billing_inv env s" "a \<in> set (bs_accounts s)" "d \<in> set (bs_deposits s)"
    "acc_Release (dep_amount d) a = Inr a'" "0 \<le> acc_available a'"
  shows "acc_id a' = acc_id a" "acc_available a' = acc_available a + dep_amount d"
    "acc_held a' = acc_held a - dep_amount d"
  using exact_release [of a "dep_amount d" a'] inv_facts [OF assms(1)] assms by auto

lemma ended_release:
  assumes "billing_inv env s" "d \<in> set (bs_deposits s)" "x \<in> set (bs_accounts s)"
    "acc_company x = dep_company d" "acc_Release (dep_amount d) x = Inr y" "0 \<le> acc_available y"
    and "bs_accounts S = set_account (acc_id y) (acc_available y) (acc_held y) (bs_accounts s)"
    and "bs_deposits S = close_deposit d st r t (bs_deposits s)"
  shows "deposit_ended d st 0 s S"
  by (rule deposit_endedI [OF assms(3,4,7) _ _ _ assms(8)])
    (use release_op [OF assms(1,3,2,5,6)] in simp_all)

lemma ended_capture:
  assumes "billing_inv env s" "d \<in> set (bs_deposits s)" "x \<in> set (bs_accounts s)"
    "acc_company x = dep_company d" "acc_Capture (dep_amount d) x = Inr y"
    and "bs_accounts S = set_account (acc_id y) (acc_available y) (acc_held y) (bs_accounts s)"
    and "bs_deposits S = close_deposit d st r t (bs_deposits s)"
  shows "deposit_ended d st (dep_amount d) s S"
  by (rule deposit_endedI [OF assms(3,4,6) _ _ _ assms(7)])
    (use capture_op [OF assms(1,3,2,5)] in simp_all)

lemma ended_settle:
  assumes "billing_inv env s" "d \<in> set (bs_deposits s)" "x \<in> set (bs_accounts s)"
    "acc_company x = dep_company d" "is_int64 n" "\<not> n \<le> 0" "n < dep_amount d"
    "acc_Capture n x = Inr z" "acc_Release (sub64 (dep_amount d) n) z = Inr y" "0 \<le> acc_available y"
    and "bs_accounts S = set_account (acc_id y) (acc_available y) (acc_held y) (bs_accounts s)"
    and "bs_deposits S = close_deposit d st r t (bs_deposits s)"
  shows "deposit_ended d st n s S"
  by (rule deposit_endedI [OF assms(3,4,11) _ _ _ assms(12)])
    (use settle_op [OF assms(1,3,2,5-8) _ assms(10)] settle_sub [OF assms(1,2,5-7)] assms(9) in simp_all)

lemma settle_effect:
  assumes inv: "billing_inv env s"
    and d: "d \<in> set (bs_deposits s)" "dep_status d = DepositHeld"
  shows "ok_wp (SettleWinnerDepositAfterInvoicePaid env now (dep_auction d) (dep_company d) goods paid reason)
     (\<lambda>_. deposit_ended d (settled_status (platformFeeFromFinalPrice goods) (dep_amount d))
        (captured_part (platformFeeFromFinalPrice goods) (dep_amount d)) s) s"
proof -
  note sub = settle_sub [OF inv d(1) fee_int64]
  note ok_find [wp_intro del]
  show ?thesis
    unfolding SettleWinnerDepositAfterInvoicePaid_def Let_def releaseFullDeposit_def appendFeeLedger_def
      appendReleaseLedger_def publishCaptured_def bindE_assoc
    apply (intro wp_intro settle_not_recorded [OF inv d(1,2)] ok_find_known [OF inv d(1)])
                   apply (simp_all add: mark_defs sub64_self split: if_splits)
                apply (use d sub inv_facts(2) [OF inv d(1)] in \<open>simp_all add: captured_part_def settled_status_def\<close>)
    by (auto intro: ended_release [OF inv] ended_capture [OF inv] ended_settle [OF inv _ _ _ fee_int64])
qed

subsection \<open>Releasing the losers of an auction\<close>

definition loser_of :: "string \<Rightarrow> string list \<Rightarrow> auction_deposit \<Rightarrow> bool" where
  "loser_of a cs d \<longleftrightarrow> dep_auction d = a \<and> dep_company d \<notin> set cs"

text \<open>What one round of the loop does: it touches at most its deposit, and a loser's deposit is
  not HELD afterwards.\<close>

definition round_done :: "string \<Rightarrow> string list \<Rightarrow> auction_deposit \<Rightarrow> billing_store \<Rightarrow> billing_store \<Rightarrow> bool"
where
  "round_done a cs d s S \<longleftrightarrow>
     (bs_deposits S = bs_deposits s \<and> \<not> (loser_of a cs d \<and> dep_status d = DepositHeld))
     \<or> (loser_of a cs d \<and> dep_status d = DepositHeld \<and> closed_as d (bs_deposits s) (bs_deposits S))"

lemma release_one_effect:
  assumes inv: "billing_inv env s" and d: "d \<in> set (bs_deposits s)" "dep_auction d = a"
  shows "ok_wp (release_one env now a cs reason d) (\<lambda>_ S. billing_inv env S \<and> round_done a cs d s S) s"
    (is "ok_wp _ (\<lambda>_. ?P) s")
proof -
  have rest: "ok_wp (publish_if env x y ev)
      (\<lambda>_ S. billing_inv env S \<and> closed_as d (bs_deposits s) (bs_deposits S)) S"
    if "billing_inv env S" "closing env s aa d aa' es S" for S aa aa' es x y ev
    by (rule ok_publish [OF that(1)]) (use that in \<open>auto simp: closing_def\<close>)
  have free: "dep_status d = DepositHeld \<Longrightarrow> (dep_company d, ''auction_deposit_release'',
      auctionDepositLedgerRef a (dep_company d), LedgerBidDepositReleased) \<notin> ledger_key ` set (bs_ledger s)"
    using held_key_free [OF inv d(1)] d(2)
    by (auto simp: closing_keys_def dep_ref_def auctionDepositLedgerRef_def)
  note ok_append [wp_intro] ok_append_frame [wp_intro del]
  note ok_deposit_save' [wp_intro del] ok_publish_frame [wp_intro del]
  show ?thesis
    unfolding release_one_def Let_def
    by (intro wp_intro; (rule ok_release_whole [OF inv])?)
      (use d free in \<open>auto simp: inv mark_defs settles_simps round_done_def loser_of_def intro: rest\<close>)
qed

lemma round_done_keep:
  assumes "round_done a cs d s S" "x \<in> set (bs_deposits s)" "dep_key x \<noteq> dep_key d"
  shows "x \<in> set (bs_deposits S)"
proof -
  have "x \<in> set (close_deposit d st r t (bs_deposits s))" for st r t
    using row_update_mem_if [OF assms(2), of "\<lambda>r. dep_key r = dep_key d"] assms(3)
    unfolding close_deposit_key by simp
  then show ?thesis using assms by (auto simp: round_done_def closed_as_def)
qed

text \<open>What a run of rounds does: nothing but close losers, and those of \<open>K\<close> for certain.\<close>

definition released :: "string \<Rightarrow> string list \<Rightarrow> (string \<times> string) set \<Rightarrow> auction_deposit list
    \<Rightarrow> auction_deposit list \<Rightarrow> bool" where
  "released a cs K ds ds' \<longleftrightarrow>
     (\<forall>x \<in> set ds'. \<exists>y \<in> set ds. dep_key x = dep_key y
        \<and> (x = y \<or> loser_of a cs y \<and> dep_status x \<noteq> DepositHeld))
     \<and> (\<forall>x \<in> set ds'. loser_of a cs x \<longrightarrow> dep_key x \<in> K \<longrightarrow> dep_status x \<noteq> DepositHeld)
     \<and> (\<forall>y \<in> set ds. \<not> loser_of a cs y \<longrightarrow> y \<in> set ds')"

lemma dep_key_update [simp]:
  "dep_key (d\<lparr>dep_status := st, dep_released_at := r, dep_captured_at := t\<rparr>) = dep_key d"
  by (simp add: dep_key_def)

lemma loser_key: "dep_key x = dep_key y \<Longrightarrow> loser_of a cs x = loser_of a cs y"
  by (simp add: loser_of_def dep_key_def)

lemma released_refl: "released a cs {} ds ds"
  by (auto simp: released_def)

lemma released_trans:
  assumes "released a cs K ds ds'" "released a cs K' ds' ds''"
  shows "released a cs (K \<union> K') ds ds''"
proof -
  have "\<exists>z \<in> set ds. dep_key x = dep_key z \<and> (x = z \<or> loser_of a cs z \<and> dep_status x \<noteq> DepositHeld)"
    "loser_of a cs x \<Longrightarrow> dep_key x \<in> K \<union> K' \<Longrightarrow> dep_status x \<noteq> DepositHeld" if x: "x \<in> set ds''" for x
  proof -
    obtain y where y: "y \<in> set ds'" "dep_key x = dep_key y"
      "x = y \<or> loser_of a cs y \<and> dep_status x \<noteq> DepositHeld"
      using assms(2) x unfolding released_def by blast
    obtain z where z: "z \<in> set ds" "dep_key y = dep_key z"
      "y = z \<or> loser_of a cs z \<and> dep_status y \<noteq> DepositHeld"
      using assms(1) y(1) unfolding released_def by blast
    show "\<exists>z \<in> set ds. dep_key x = dep_key z \<and> (x = z \<or> loser_of a cs z \<and> dep_status x \<noteq> DepositHeld)"
      using y z loser_key [OF z(2)] by auto
    show "loser_of a cs x \<Longrightarrow> dep_key x \<in> K \<union> K' \<Longrightarrow> dep_status x \<noteq> DepositHeld"
      using assms x y unfolding released_def by (metis UnE)
  qed
  moreover have "y \<in> set ds''" if "y \<in> set ds" "\<not> loser_of a cs y" for y
    using assms that unfolding released_def by blast
  ultimately show ?thesis unfolding released_def by blast
qed

lemma round_released:
  assumes "round_done a cs d s S" "d \<in> set (bs_deposits s)" "distinct (map dep_key (bs_deposits s))"
  shows "released a cs {dep_key d} (bs_deposits s) (bs_deposits S)"
proof -
  have same: "x = d" if "x \<in> set (bs_deposits s)" "dep_key x = dep_key d" for x
    using assms(2,3) that by (auto simp: distinct_map inj_on_def)
  consider "bs_deposits S = bs_deposits s" "\<not> (loser_of a cs d \<and> dep_status d = DepositHeld)"
    | st r t where "loser_of a cs d" "st \<noteq> DepositHeld"
        "bs_deposits S = close_deposit d st r t (bs_deposits s)"
    using assms(1) unfolding round_done_def closed_as_def by blast
  then show ?thesis
  proof cases
    case 1
    then show ?thesis unfolding released_def 1(1) using same by blast
  next
    case 2
    have "\<exists>y \<in> set (bs_deposits s). dep_key x = dep_key y
        \<and> (x = y \<and> dep_key y \<noteq> dep_key d \<or> loser_of a cs y \<and> dep_status x \<noteq> DepositHeld)"
      if x: "x \<in> set (bs_deposits S)" for x
    proof (rule row_update_memE [OF x [unfolded 2(3) close_deposit_key]])
      fix y assume y: "y \<in> set (bs_deposits s)" "x = (if dep_key y = dep_key d then y\<lparr>dep_status := st,
          dep_released_at := r, dep_captured_at := t\<rparr> else y)"
      show ?thesis
      proof (cases "dep_key y = dep_key d")
        case True
        then have "loser_of a cs y" using 2(1) loser_key by blast
        with True y 2(2) show ?thesis by (intro bexI [OF _ y(1)]) simp
      next
        case False
        with y show ?thesis by (intro bexI [OF _ y(1)]) simp
      qed
    qed
    moreover have "y \<in> set (bs_deposits S)" if "y \<in> set (bs_deposits s)" "\<not> loser_of a cs y" for y
      using round_done_keep [OF assms(1) that(1)] that(2) 2(1) loser_key [of y d] by blast
    ultimately show ?thesis unfolding released_def by (metis singletonD)
  qed
qed

lemma release_all_effect:
  assumes "billing_inv env s" "distinct (map dep_key ds)" "set ds \<subseteq> set (bs_deposits s)"
    "\<And>d. d \<in> set ds \<Longrightarrow> dep_auction d = a"
  shows "ok_wp (forE (release_one env now a cs reason) ds) (\<lambda>_ S. billing_inv env S
     \<and> released a cs (dep_key ` set ds) (bs_deposits s) (bs_deposits S)) s"
  using assms
proof (induction ds arbitrary: s)
  case Nil
  then show ?case by (simp add: wp_simps released_refl)
next
  case (Cons d ds)
  have d: "d \<in> set (bs_deposits s)" "dep_auction d = a" using Cons.prems by auto
  have dis: "distinct (map dep_key (bs_deposits s))"
    using Cons.prems(1) by (simp add: billing_inv_def billing_ok_def deposits_wf_def)
  show ?case
    unfolding forE.simps wpE_bind
  proof (rule wpE_mono [OF release_one_effect [OF Cons.prems(1) d]])
    fix u S assume S: "billing_inv env S \<and> round_done a cs d s S"
    note one = round_released [OF conjunct2 [OF S] d(1) dis]
    have "x \<in> set (bs_deposits S)" if "x \<in> set ds" for x
    proof (rule round_done_keep [OF conjunct2 [OF S]])
      show "x \<in> set (bs_deposits s)" using that Cons.prems(3) by auto
      have "dep_key x \<in> dep_key ` set ds" "dep_key d \<notin> dep_key ` set ds"
        using that Cons.prems(2) by simp_all
      then show "dep_key x \<noteq> dep_key d" by metis
    qed
    then have "ok_wp (forE (release_one env now a cs reason) ds) (\<lambda>_ T. billing_inv env T
        \<and> released a cs (dep_key ` set ds) (bs_deposits S) (bs_deposits T)) S"
      using Cons.prems S by (intro Cons.IH) auto
    then show "ok_wp (forE (release_one env now a cs reason) ds) (\<lambda>_ T. billing_inv env T
        \<and> released a cs (dep_key ` set (d # ds)) (bs_deposits s) (bs_deposits T)) S"
      by (rule wpE_mono) (use released_trans [OF one] in auto)
  qed simp
qed

lemma release_except_effect:
  assumes inv: "billing_inv env s"
  shows "ok_wp (ReleaseAuctionDepositsExceptCandidates env now a cs reason) (\<lambda>_ S.
     released a cs {k. fst k = a} (bs_deposits s) (bs_deposits S)) s"
proof -
  let ?ds = "sort_key dep_company (filter (\<lambda>d. dep_auction d = a) (bs_deposits s))"
  have "distinct (map dep_key (bs_deposits s))"
    using inv by (simp add: billing_inv_def billing_ok_def deposits_wf_def)
  then have "distinct (map dep_key ?ds)"
    by (auto simp: distinct_map inj_on_def)
  then have *: "ok_wp (forE (release_one env now a cs reason) ?ds) (\<lambda>_ S. billing_inv env S
      \<and> released a cs (dep_key ` set ?ds) (bs_deposits s) (bs_deposits S)) s"
    by (intro release_all_effect [OF inv]) auto
  have all: "released a cs {k. fst k = a} (bs_deposits s) ds'"
    if R: "released a cs (dep_key ` set ?ds) (bs_deposits s) ds'" for ds'
  proof -
    have "dep_key x \<in> dep_key ` set ?ds" if x: "x \<in> set ds'" "fst (dep_key x) = a" for x
    proof -
      obtain y where "y \<in> set (bs_deposits s)" "dep_key x = dep_key y"
        using R x(1) unfolding released_def by blast
      with x(2) show ?thesis by (auto simp: dep_key_def)
    qed
    with R show ?thesis unfolding released_def by blast
  qed
  have "ok_wp (forE (release_one env now a cs reason) ?ds) (\<lambda>_ S.
      released a cs {k. fst k = a} (bs_deposits s) (bs_deposits S)) s"
    by (rule wpE_mono [OF *]) (use all in blast)+
  then show ?thesis
    unfolding ReleaseAuctionDepositsExceptCandidates_def deposits_ListByAuction_def
    by (simp add: wp_simps)
qed

subsection \<open>Top-ups\<close>

definition processed_before :: "string \<Rightarrow> billing_store \<Rightarrow> bool" where
  "processed_before x s \<longleftrightarrow> list_ex (\<lambda>p. ptu_external p = x) (bs_processed s)"

lemma confirm_marks: "ok_wp (ConfirmTopUp env now c n x) (\<lambda>_. processed_before x) s"
  unfolding ConfirmTopUp_def
  by (intro wp_intro; (rule ok_insert_if_new)?; (intro wp_intro)?)
    (auto simp: processed_before_def wp_simps)

lemma confirm_again:
  "processed_before x s \<Longrightarrow>
    wpE (ConfirmTopUp env now c n x) (\<lambda>_ S. S = s) (\<lambda>_ S. S = s) s"
  unfolding ConfirmTopUp_def processed_before_def
  by (auto simp: wp_simps split: option.split sum.split)

text \<open>A confirmation of a new payment adds exactly its amount, and only to that company.\<close>

lemma confirm_effect:
  assumes inv: "billing_inv env s" and n: "is_int64 n" and new: "\<not> processed_before x s"
  shows "ok_wp (ConfirmTopUp env now c n x) (\<lambda>_ S. \<exists>a \<in> set (bs_accounts s). acc_company a = c
     \<and> bs_accounts S = set_account (acc_id a) (acc_available a + n) (acc_held a) (bs_accounts s)
     \<and> bs_deposits S = bs_deposits s) s"
proof -
  have ins: "ok_wp (processed_InsertIfNew x c i n) Q s"
    if "Q True (s\<lparr>bs_processed := bs_processed s @
      [\<lparr>ptu_external = x, ptu_company = c, ptu_account = i, ptu_amount = n\<rparr>]\<rparr>)" for i Q
    using that new by (simp add: wp_simps processed_before_def)
  show ?thesis
    unfolding ConfirmTopUp_def
    apply (intro wp_intro ins)
     apply simp_all
    subgoal for a y
      by (rule bexI [of _ a]) (use exact_deposit' [OF inv _ n, of a y] in auto)
    done
qed

subsection \<open>Invoices\<close>

text \<open>What a HELD deposit of the buyer contributes to the fee.\<close>

definition held_of :: "billing_store \<Rightarrow> string \<Rightarrow> string \<Rightarrow> int" where
  "held_of s a c = (if isBlank a then 0 else
     case row_select (\<lambda>d. dep_auction d = a \<and> dep_company d = c) (bs_deposits s) of
       None \<Rightarrow> 0 | Some d \<Rightarrow> if dep_status d = DepositHeld then dep_amount d else 0)"

lemma ok_invoice_held:
  "Q (held_of s a c) s \<Longrightarrow> ok_wp (invoice_held a c) Q s"
  unfolding invoice_held_def deposits_Find_def held_of_def
  by (auto simp: wp_simps split: option.split)

definition due_after :: "int \<Rightarrow> int \<Rightarrow> int" where
  "due_after fee held = (let d = sub64 fee held in if d < 0 then 0 else d)"

lemma ok_publish_caught:
  "(\<And>n rows. Q () (s\<lparr>bs_ids := n, bs_outbox := rows\<rparr>)) \<Longrightarrow>
    ok_wp (catchE (publish_if env a c ev) (\<lambda>_. retE ())) Q s"
  by (auto simp: wp_simps) (metis billing_store.surjective billing_store.update_convs(8,9))+

lemma invoice_create_effect:
  assumes none: "\<forall>i \<in> set (bs_invoices s). inv_deal i \<noteq> cic_deal cmd"
  shows "ok_wp (CreateDealInvoice env now cmd) (\<lambda>i S.
     inv_deal i = cic_deal cmd \<and> inv_goods i = cic_goods cmd
     \<and> inv_fee_due i = due_after (platformFeeFromFinalPrice (cic_goods cmd))
           (held_of s (cic_auction cmd) (cic_buyer cmd))
     \<and> inv_total i = inv_goods i + inv_fee_due i
     \<and> inv_status i = InvoicePaymentPending \<and> now \<le> inv_due_at i
     \<and> bs_invoices S = bs_invoices s @ [i]
     \<and> bs_accounts S = bs_accounts s \<and> bs_deposits S = bs_deposits s) s"
proof -
  have "row_select (\<lambda>r. inv_deal r = cic_deal cmd) (bs_invoices s) = None"
    using none by (simp add: row_select_None_iff)
  then have try': "ok_wp (try_load ErrDealInvoiceNotFound (invoices_LoadByDealID (cic_deal cmd))) Q s"
    if "Q None s" for Q
    using that by (simp add: try_load_def wp_simps)
  have create: "ok_wp (invoices_Create i) Q S"
    if "invoice_check i \<Longrightarrow> (\<And>r. r \<in> set (bs_invoices S) \<Longrightarrow> inv_id r \<noteq> inv_id i)
      \<Longrightarrow> Q () (S\<lparr>bs_invoices := bs_invoices S @ [i]\<rparr>)" for i S Q
    using that by (simp add: wp_simps list_ex_iff)
  have save: "ok_wp (invoices_Save j) Q (S\<lparr>bs_invoices := is @ [i]\<rparr>)"
    if "\<And>r. r \<in> set is \<Longrightarrow> inv_id r \<noteq> inv_id i" "inv_id j = inv_id i" "inv_deal j = inv_deal i"
      "inv_created_at j = inv_created_at i" "Q () (S\<lparr>bs_invoices := is @ [j]\<rparr>)" for i j "is" S Q
  proof -
    have "row_update (\<lambda>r. inv_id r = inv_id j) f is = is" for f
      by (rule row_update_absent) (use that in simp)
    then show ?thesis
      using that(2-) by (cases j) (simp add: wp_simps row_update_def)
  qed
  note ok_try_invoice [wp_intro del] inv_held_wp [wp_intro del] ok_invoice_create [wp_intro del]
  show ?thesis
    unfolding CreateDealInvoice_def Let_def
    apply (intro wp_intro try' ok_invoice_held create)
    apply simp
    apply (rule save)
        apply (auto simp: NewDealInvoice_def inv_AttachProvider_def due_after_def Let_def invoice_check_def
            intro!: ok_publish_caught ok_bind ok_ret split: if_splits)
    done
qed

text \<open>The fee the settlement expects is the fee the invoice asked for.\<close>

definition not_mismatch :: "billing_error \<Rightarrow> bool" where
  "not_mismatch e \<longleftrightarrow> e \<noteq> ErrPlatformFeeDueMismatch"

definition no_mismatch :: "'a billing \<Rightarrow> bool" where
  "no_mismatch m \<longleftrightarrow> (\<forall>s. wpE m (\<lambda>_ _. True) (\<lambda>e _. not_mismatch e) s)"

lemma no_mismatch_bind: "no_mismatch m \<Longrightarrow> (\<And>a. no_mismatch (f a)) \<Longrightarrow> no_mismatch (bindE m f)"
  unfolding no_mismatch_def wpE_bind by (auto intro: wpE_mono)

lemma no_mismatch_if: "(b \<Longrightarrow> no_mismatch m) \<Longrightarrow> (\<not> b \<Longrightarrow> no_mismatch n) \<Longrightarrow> no_mismatch (if b then m else n)"
  by simp

lemma no_mismatch_base:
  "not_mismatch e \<Longrightarrow> no_mismatch (failE e)" "no_mismatch (retE a)"
  "no_mismatch (ledger_ExistsByReference c rt r ty)" "no_mismatch (accounts_Load c)"
  "no_mismatch (liftE (acc_Capture n acc))" "no_mismatch (liftE (acc_Release n acc))"
  "no_mismatch (deposits_Save d)" "no_mismatch (accounts_Save acc)" "no_mismatch (new_id env)"
  "no_mismatch (ledger_Append en)" "no_mismatch (publish_if env a' c' ev)"
  by (auto simp: no_mismatch_def not_mismatch_def wp_simps billing_reads acc_Capture_def
      acc_Release_def RehydrateAccount_def NewAccount_def split: option.split sum.split)

lemma no_mismatch_find:
  assumes "row_select (\<lambda>x. dep_auction x = a \<and> dep_company x = c) (bs_deposits s) = Some d"
    and "no_mismatch (f (Some d))"
  shows "wpE (bindE (deposits_Find a c) f) (\<lambda>_ _. True) (\<lambda>e _. not_mismatch e) s"
  using assms by (simp add: wpE_bind deposits_Find_def wpE_read no_mismatch_def)

lemma settle_no_mismatch:
  assumes "row_select (\<lambda>x. dep_auction x = a \<and> dep_company x = c) (bs_deposits s) = Some d"
    and "paid = due_after (platformFeeFromFinalPrice goods) (dep_amount d)"
  shows "wpE (SettleWinnerDepositAfterInvoicePaid env now a c goods paid reason) (\<lambda>_ _. True)
     (\<lambda>e _. not_mismatch e) s"
  using assms(2)
  unfolding SettleWinnerDepositAfterInvoicePaid_def Let_def releaseFullDeposit_def appendFeeLedger_def
    appendReleaseLedger_def publishCaptured_def settle_settlementAlreadyRecorded_def due_after_def
    option.case
  apply (intro no_mismatch_find [OF assms(1)] err_if)
    apply (simp add: wp_simps not_mismatch_def)
   apply (simp add: wp_simps not_mismatch_def)
  apply (unfold option.case)
  apply (intro no_mismatch_if no_mismatch_bind no_mismatch_base)
   apply (simp_all add: not_mismatch_def)
  done

end
