(* ===== verification/Trading_System.thy ===== *)
theory Trading_System
  imports Trading_Effects Billing_Effects
begin

section \<open>Trading as a whole\<close>

text \<open>
  The loop that closes expired auctions, the commands of the trading context with the stores any
  sequence of them reaches, and the contract between \<open>PlaceBid\<close> and its deposit service,
  interpreted on the adapter to billing: behind every bid there is a HELD deposit.
\<close>

subsection \<open>Closing the expired auctions\<close>

lemma parse_text: "parse_auction_state x = Some st \<Longrightarrow> auction_state_text st = x"
  by (simp add: parse_auction_state_def split: if_splits)

lemma row_state: "row_auction r = Inr a \<Longrightarrow> ar_state r = auction_state_text (au_state a)"
  using parse_text by (fastforce simp: row_auction_def RehydrateAuction_def split: if_splits option.splits)

lemma row_fields: "row_auction r = Inr a \<Longrightarrow> au_endsAt a = ar_endsAt r \<and> au_currentPrice a = ar_currentPrice r
    \<and> au_leader a = ar_leader r \<and> au_lot a = ar_lot r \<and> au_id a = ar_id r
    \<and> au_startPrice a = ar_startPrice r \<and> au_minBidStep a = ar_minBidStep r
    \<and> au_startsAt a = ar_startsAt r"
  by (auto simp: row_auction_def RehydrateAuction_def split: if_splits option.splits)

definition published_ids :: "'w trading_store \<Rightarrow> string set" where
  "published_ids s = {ar_id r | r. r \<in> set (ts_auctions s) \<and> ar_state r = ''PUBLISHED''}"

lemma system_may_close: "may_close now (system_meta label) a bs"
  by (simp add: may_close_def allowPrivilegedEarlyAuctionClose_def effectiveActorKind_def
      system_meta_def)

lemma closed_not_published:
  assumes c: "auction_closed i a bs s t" and ok: "r \<in> set (ts_auctions t)"
  shows "ar_id r = i \<and> ar_state r \<noteq> ''PUBLISHED'' \<or> ar_id r \<noteq> i \<and> r \<in> set (ts_auctions s)"
proof (cases "ar_id r = i")
  case True
  then have "row_auction r = Inr (closed_auction a bs)"
    using c ok by (simp add: auction_closed_def)
  then have "ar_state r = auction_state_text (au_state (closed_auction a bs))"
    by (rule row_state)
  then show ?thesis using True by (simp add: closed_auction_def split: if_splits)
next
  case False
  then have "r \<in> set (filter (\<lambda>r. ar_id r \<noteq> i) (ts_auctions t))"
    using ok by simp
  moreover have "filter (\<lambda>r. ar_id r \<noteq> i) (ts_auctions t) = filter (\<lambda>r. ar_id r \<noteq> i) (ts_auctions s)"
    using c by (simp add: auction_closed_def)
  ultimately have "r \<in> set (filter (\<lambda>r. ar_id r \<noteq> i) (ts_auctions s))"
    by metis
  then show ?thesis
    using False by simp
qed

lemma closed_keeps_others:
  assumes "auction_closed i a bs s t" "r \<in> set (ts_auctions s)" "ar_id r \<noteq> i"
  shows "r \<in> set (ts_auctions t)"
proof -
  have "r \<in> set (filter (\<lambda>r. ar_id r \<noteq> i) (ts_auctions s))"
    using assms by simp
  then show ?thesis
    using assms(1) by (metis (no_types, lifting) auction_closed_def filter_is_subset subsetD)
qed

lemma published_after: "auction_closed i a bs s t \<Longrightarrow> published_ids t = published_ids s - {i}"
  using closed_not_published [of i a bs s t] closed_keeps_others [of i a bs s t]
  by (auto simp: published_ids_def)

definition same_rows_outside :: "string set \<Rightarrow> 'w trading_store \<Rightarrow> 'w trading_store \<Rightarrow> bool" where
  "same_rows_outside X s t \<longleftrightarrow>
     (\<forall>r. ar_id r \<notin> X \<longrightarrow> (r \<in> set (ts_auctions t) \<longleftrightarrow> r \<in> set (ts_auctions s)))"

lemma closed_same_rows: "auction_closed i a bs s t \<Longrightarrow> same_rows_outside {i} s t"
  using closed_not_published [of i a bs s t] closed_keeps_others [of i a bs s t]
  by (auto simp: same_rows_outside_def)

lemma close_ids:
  assumes env: "env_ok env"
  shows "trading_inv env s \<Longrightarrow> distinct ids \<Longrightarrow> set ids \<subseteq> published_ids s \<Longrightarrow>
    wpE (forE (close_one skips env now (system_meta label)) ids)
      (\<lambda>_ t. trading_inv env t \<and> published_ids t = published_ids s - set ids
         \<and> same_rows_outside (set ids) s t) (\<lambda>_ _. False) s"
proof (induction ids arbitrary: s)
  case Nil
  then show ?case by (simp add: wp_simps same_rows_outside_def)
next
  case (Cons i ids)
  obtain r where r: "r \<in> set (ts_auctions s)" "ar_id r = i" "ar_state r = ''PUBLISHED''"
    using Cons.prems(3) by (auto simp: published_ids_def)
  obtain a where l: "loaded i s r a"
    using load_found [OF Cons.prems(1) r(1,2)] by blast
  have "auction_state_text (au_state a) = ''PUBLISHED''"
    using row_state [of r a] l r(3) by (simp add: loaded_def)
  then have st: "au_state a = StatePublished"
    by (cases "au_state a") auto
  have "wpE (close_one skips env now (system_meta label) i)
      (\<lambda>_ t. trading_inv env t \<and> published_ids t = published_ids s - {i}
         \<and> same_rows_outside {i} s t) (\<lambda>_ _. False) s"
    unfolding close_one_def wpE_catch
    by (rule wpE_mono [OF close_effect [OF Cons.prems(1) env l st system_may_close]])
      (auto simp: published_after closed_same_rows)
  then show ?case
    unfolding forE.simps wpE_bind
  proof (rule wpE_mono, goal_cases)
    case (1 u t)
    then show ?case
      using Cons.prems by (intro wpE_mono [OF Cons.IH]) (auto simp: same_rows_outside_def)
  qed simp
qed

definition expired :: "time \<Rightarrow> 'w trading_store \<Rightarrow> auction_row list" where
  "expired now s = filter (\<lambda>r. ar_state r = ''PUBLISHED'' \<and> ar_endsAt r \<le> now) (ts_auctions s)"

lemma close_expired:
  assumes env: "env_ok env" and inv: "trading_inv env s"
    and few: "int (length (expired now s)) \<le> limit" "0 < limit"
  shows "wpE (bindE (ListExpired env now limit)
      (\<lambda>ids. forE (close_one skips env now (system_meta label)) ids))
    (\<lambda>_ t. trading_inv env t \<and> published_ids t = published_ids s - ar_id ` set (expired now s)
       \<and> same_rows_outside (ar_id ` set (expired now s)) s t)
    (\<lambda>_ _. False) s"
proof -
  define rows where "rows = te_order_rows env earlier_end (expired now s)"
  have m: "mset rows = mset (expired now s)"
    using env slice_sort.perm by (fastforce simp: env_ok_def rows_def)
  have "length rows \<le> nat limit"
    using few mset_eq_length [OF m] by simp
  then have "ListExpired env now limit s = (Inr (map ar_id rows), s)"
    using few by (simp add: ListExpired_def readE_def rows_def expired_def)
  moreover have "distinct (map ar_id (expired now s))"
    using inv by (simp add: expired_def trading_inv_def auctions_ok_def distinct_map_filter)
  then have "distinct (map ar_id rows)"
    using m by (metis mset_map mset_eq_imp_distinct_iff)
  moreover have "set (map ar_id rows) = ar_id ` set (expired now s)"
    using mset_eq_setD [OF m] by simp
  moreover have "ar_id ` set (expired now s) \<subseteq> published_ids s"
    by (auto simp: expired_def published_ids_def)
  ultimately show ?thesis
    using close_ids [OF env inv, of "map ar_id rows" skips now label]
    by (simp add: wpE_bind) (simp add: wpE_def)
qed

subsection \<open>Commands and reachable stores\<close>

datatype trading_command =
    TCreate string time time int int
  | TPublish time command_meta string
  | TBid time command_meta string int time
  | TClose time command_meta string
  | TSellerCancel time command_meta string
  | TAdminCancel time command_meta string
  | TCloseExpired time int
  | TMarkSubmitted int string string
  | TMarkSubmitFailed int string time
  | TMarkConfirmed string int
  | TMarkFailed string string time

definition void_t :: "('w, 'a) trading \<Rightarrow> ('w, unit) trading" where
  "void_t m = bindE m (\<lambda>_. retE ())"

fun exec_trading :: "trading_env \<Rightarrow> 'w deposit_service \<Rightarrow> trading_command \<Rightarrow> ('w, unit) trading" where
  "exec_trading env deposits (TCreate l s e p st) = void_t (CreateAuction env l s e p st)"
| "exec_trading env deposits (TPublish now meta i) = PublishAuction env now meta i"
| "exec_trading env deposits (TBid now meta i n t) =
     void_t (PlaceBid env deposits now meta i n (bid_time now t))"
| "exec_trading env deposits (TClose now meta i) = CloseAuction env now meta i"
| "exec_trading env deposits (TSellerCancel now meta i) = SellerCancelAuction env now meta i"
| "exec_trading env deposits (TAdminCancel now meta i) = AdminCancelAuction env now meta i"
| "exec_trading env deposits (TCloseExpired now limit) = closeExpiredAuctionsOnce env now limit"
| "exec_trading env deposits (TMarkSubmitted op' tx w) = MarkSubmitted op' tx w"
| "exec_trading env deposits (TMarkSubmitFailed op' e t) = MarkSubmitFailed op' e t"
| "exec_trading env deposits (TMarkConfirmed tx b) = MarkConfirmedByTxHash tx b"
| "exec_trading env deposits (TMarkFailed tx e t) = MarkFailedByTxHash tx e t"

text \<open>
  Auctions start after the zero time, and \<open>currentPrice + minBidStep\<close> of the auction a bid is
  for is an \<open>int64\<close>.
\<close>

fun trading_ok :: "'w trading_store \<Rightarrow> trading_command \<Rightarrow> bool" where
  "trading_ok s (TCreate l st e p step) \<longleftrightarrow> 0 < st"
| "trading_ok s (TBid now meta i n t) \<longleftrightarrow> bids_fit i s"
| "trading_ok s _ \<longleftrightarrow> True"

definition empty_trading :: "'w \<Rightarrow> 'w trading_store" where
  "empty_trading w = \<lparr>ts_auctions = [], ts_bids = [], ts_winners = [], ts_chain = [],
     ts_chain_seq = 1, ts_sync = [], ts_outbox = [], ts_wallet = w, ts_ids = 0, ts_now = 0\<rparr>"

inductive trading_reachable ::
  "trading_env \<Rightarrow> 'w deposit_service \<Rightarrow> 'w trading_store \<Rightarrow> bool" for env deposits where
  start: "trading_reachable env deposits (empty_trading w)"
| command: "trading_reachable env deposits s \<Longrightarrow> trading_ok s cmd
    \<Longrightarrow> trading_reachable env deposits (snd (exec_trading env deposits cmd s))"
| tick: "trading_reachable env deposits s \<Longrightarrow> ts_now s \<le> t
    \<Longrightarrow> trading_reachable env deposits (s\<lparr>ts_now := t\<rparr>)"

lemma marks_keep:
  "tkeeps env (MarkSubmitted op' tx w)" "tkeeps env (MarkSubmitFailed op' e t)"
  "tkeeps env (MarkConfirmedByTxHash tx b)" "tkeeps env (MarkFailedByTxHash tx e t)"
  unfolding MarkSubmitted_def MarkSubmitFailed_def MarkConfirmedByTxHash_def MarkFailedByTxHash_def
  by (intro tkeeps_intro; simp add: row_bid_def row_auction_def)+

lemma close_one_keeps: "env_ok env \<Longrightarrow> tkeeps env (close_one skips env now meta i)"
  unfolding close_one_def by (intro tkeeps_catch Close_keeps tkeeps_intro)

lemma closer_keeps: "env_ok env \<Longrightarrow> tkeeps env (closeExpiredAuctionsOnce env now limit)"
  unfolding closeExpiredAuctionsOnce_def ListExpired_def by (intro tkeeps_intro close_one_keeps)

lemma void_wp: "wpE (void_t m) (\<lambda>_. I) R s = wpE m (\<lambda>_. I) R s"
  by (auto simp: wpE_def void_t_def bindE_def retE_def split: prod.splits sum.splits)

lemma exec_trading_wp:
  assumes inv: "trading_inv env s" and env: "env_ok env" and ok: "trading_ok s cmd"
  shows "wpE (exec_trading env deposits cmd) (\<lambda>_. trading_inv env) (\<lambda>_. trading_inv env) s"
proof (cases cmd)
  case TCreate
  then show ?thesis using Create_keeps [OF inv] ok by (simp add: void_wp)
next
  case TBid
  then show ?thesis using PlaceBid_keeps [OF inv] ok by (simp add: void_wp)
qed (use inv env in \<open>auto intro!: tkeepsD Publish_keeps Close_keeps SellerCancel_keeps
  AdminCancel_keeps closer_keeps marks_keep\<close>)

lemma trading_reachable_inv:
  "trading_reachable env deposits s \<Longrightarrow> env_ok env \<Longrightarrow> trading_inv env s"
proof (induction rule: trading_reachable.induct)
  case (start w)
  then show ?case
    by (simp add: trading_inv_def auctions_ok_def ids_ok_def empty_trading_def)
next
  case (command s cmd)
  then show ?case by (intro wp_snd [where I = "trading_inv env"] exec_trading_wp) auto
next
  case (tick s t)
  then show ?case by (auto elim!: inv_frame)
qed

subsection \<open>The deposit service\<close>

text \<open>Methods that touch neither the wallet nor who has bid where.\<close>

definition same_bidders :: "'w trading_store \<Rightarrow> 'w trading_store \<Rightarrow> bool" where
  "same_bidders s t \<longleftrightarrow> ts_wallet t = ts_wallet s
     \<and> map (\<lambda>b. (br_auction b, br_company b)) (ts_bids t)
       = map (\<lambda>b. (br_auction b, br_company b)) (ts_bids s)"

definition quiet :: "('w, 'a) trading \<Rightarrow> bool" where
  "quiet m \<longleftrightarrow> (\<forall>s. wpE m (\<lambda>_. same_bidders s) (\<lambda>_. same_bidders s) s)"

named_theorems quiet_intro \<open>methods that leave the wallet and the bidders alone\<close>

lemma quiet_refl [simp]: "same_bidders s s"
  by (simp add: same_bidders_def)

lemma quiet_trans: "same_bidders s t \<Longrightarrow> same_bidders t u \<Longrightarrow> same_bidders s u"
  by (simp add: same_bidders_def)

lemma quiet_bind [quiet_intro]: "quiet m \<Longrightarrow> (\<And>a. quiet (f a)) \<Longrightarrow> quiet (bindE m f)"
  unfolding quiet_def wpE_bind by (blast intro: wpE_mono quiet_trans)

lemma quiet_catch [quiet_intro]: "quiet m \<Longrightarrow> (\<And>e. quiet (h e)) \<Longrightarrow> quiet (catchE m h)"
  unfolding quiet_def wpE_catch by (blast intro: wpE_mono quiet_trans)

lemma quiet_cases [quiet_intro]:
  "quiet m \<Longrightarrow> quiet n \<Longrightarrow> quiet (if b then m else n)"
  "quiet m' \<Longrightarrow> (\<And>a. quiet (f a)) \<Longrightarrow> quiet (case x of None \<Rightarrow> m' | Some a \<Rightarrow> f a)"
  "(\<And>a b. quiet (g a b)) \<Longrightarrow> quiet (case p of (a, b) \<Rightarrow> g a b)"
  by (simp_all split: option.split prod.split)

lemma quiet_for [quiet_intro]: "(\<And>x. quiet (f x)) \<Longrightarrow> quiet (forE f xs)"
proof (induction xs)
  case Nil
  then show ?case by (simp add: quiet_def wp_simps)
qed (auto intro: quiet_bind)

lemma same_bidders_update:
  "(\<And>r. br_auction (f r) = br_auction r \<and> br_company (f r) = br_company r)
    \<Longrightarrow> same_bidders s (s\<lparr>ts_bids := row_update p f (ts_bids s)\<rparr>)"
  by (simp add: same_bidders_def row_update_def)

lemma quiet_base [quiet_intro]:
  "quiet (retE a)" "quiet (failE e)" "quiet (domainE r)" "quiet (readE g)" "quiet (next_id env)"
  "quiet (auctions_load i)" "quiet (auctions_Save au)" "quiet (TopBids env i)" "quiet (nextNonce i)"
  "quiet (chain_insert op')" "quiet (chain_update p f)" "quiet (auctions_set_result i h)"
  "quiet (outbox_put row)" "quiet (auctions_mark i g')" "quiet (winner_insert i w)"
  by (auto simp: quiet_def wpE_def same_bidders_def retE_def failE_def domainE_def liftE_def
      readE_def next_id_def auctions_load_def auctions_Save_def TopBids_def nextNonce_def
      chain_insert_def chain_update_def auctions_set_result_def outbox_put_def zoomE_def
      outbox_insert_def auctions_mark_def modifyE_def winner_insert_def Let_def
      split: option.splits sum.splits)

lemma quiet_set_hash [quiet_intro]: "quiet (bids_set_hash i c n t h)"
  by (auto simp: quiet_def bids_set_hash_def wpE_def Let_def intro: same_bidders_update)

lemma quiet_mark [quiet_intro]:
  "(\<And>r. br_auction (f r) = br_auction r \<and> br_company (f r) = br_company r) \<Longrightarrow> quiet (mark_target op' f g)"
  unfolding mark_target_def
  by (intro quiet_intro) (auto simp: quiet_def bids_mark_def wp_simps intro: same_bidders_update)

lemma quiet_winners [quiet_intro]: "quiet (winners_Save i ws)"
  unfolding winners_Save_def
  by (intro quiet_intro) (simp add: quiet_def modifyE_def wpE_def same_bidders_def)

lemma quiet_uow [quiet_intro]: "quiet m \<Longrightarrow> quiet (db_uow m)"
  by (simp add: db_uow_plain)

lemma quiet_enqueue [quiet_intro]:
  "quiet (EnqueueAuctionCreate i h st e n)" "quiet (EnqueueAuctionFinalize i h h' w p)"
  unfolding EnqueueAuctionCreate_def EnqueueAuctionFinalize_def by (intro quiet_intro)+

lemma quiet_outbox [quiet_intro]: "quiet (outbox_Add env now meta evs)"
  unfolding outbox_Add_def by (intro quiet_intro)

lemma quiet_create: "quiet (CreateAuction env l s e p st)"
  unfolding CreateAuction_def CreateAuction_with_def Let_def by (intro quiet_intro)

lemma quiet_publish: "quiet (PublishAuction env now meta i)"
  unfolding PublishAuction_def by (intro quiet_intro)

lemma quiet_close [quiet_intro]: "quiet (CloseAuction env now meta i)"
  unfolding CloseAuction_def CloseAuction_loaded_def by (intro quiet_intro)

lemma quiet_cancel: "quiet (cancel_with env now meta i change)"
  unfolding cancel_with_def by (intro quiet_intro)

lemma quiet_closer: "quiet (closeExpiredAuctionsOnce env now limit)"
  unfolding closeExpiredAuctionsOnce_def close_one_def ListExpired_def by (intro quiet_intro)

lemma quiet_marks:
  "quiet (MarkSubmitted op' tx w)" "quiet (MarkSubmitFailed op' e t)"
  "quiet (MarkConfirmedByTxHash tx b)" "quiet (MarkFailedByTxHash tx e t)"
  unfolding MarkSubmitted_def MarkSubmitFailed_def MarkConfirmedByTxHash_def MarkFailedByTxHash_def
  by (intro quiet_intro; simp)+

lemma quiet_command:
  "(case cmd of TBid _ _ _ _ _ \<Rightarrow> False | _ \<Rightarrow> True) \<Longrightarrow> quiet (exec_trading env deposits cmd)"
  by (cases cmd)
    (auto simp: SellerCancelAuction_def AdminCancelAuction_def void_t_def intro!: quiet_create
      quiet_publish quiet_close quiet_cancel quiet_closer quiet_marks quiet_bind [OF _ quiet_base(1)])

text \<open>
  What \<open>PlaceBid\<close> asks of its deposit service: a reservation that succeeds leaves the deposit
  held, and no reservation, whether it succeeds or not, ends another one.
\<close>

locale deposit_contract =
  fixes deposits :: "'w deposit_service"
    and held :: "string \<Rightarrow> string \<Rightarrow> 'w \<Rightarrow> bool"
  assumes reserved: "deposits now c a p w = (Inr (), w') \<Longrightarrow> held a c w'"
    and stays: "held a c w \<Longrightarrow> held a c (snd (deposits now c' a' p w))"
begin

definition backed :: "'w trading_store \<Rightarrow> bool" where
  "backed s \<longleftrightarrow> (\<forall>b \<in> set (ts_bids s). held (br_auction b) (br_company b) (ts_wallet s))"

lemma backed_iff: "backed s \<longleftrightarrow> (\<forall>(a, c) \<in> set (map (\<lambda>b. (br_auction b, br_company b)) (ts_bids s)).
    held a c (ts_wallet s))"
  by (simp add: backed_def)

lemma same_bidders_backed: "same_bidders s t \<Longrightarrow> backed s \<Longrightarrow> backed t"
  unfolding backed_iff same_bidders_def by (elim conjE) (simp only:)

lemma quiet_backed: "quiet m \<Longrightarrow> backed s \<Longrightarrow> wpE m (\<lambda>_. backed) (\<lambda>_. backed) s"
  unfolding quiet_def by (blast intro: wpE_mono same_bidders_backed)

lemma bid_backed:
  assumes "backed s"
  shows "wpE (PlaceBid_loaded env deposits now meta i n t a) (\<lambda>_. backed) (\<lambda>_. backed) s"
proof -
  have rest: "wpE (bindE (auctions_Save a') (\<lambda>_. let h = buildBidHash env i (bid_company b)
        (bid_amount b) (bid_placedAt b) in
      bindE (EnqueueBidAnchor i (buildAuctionRefHash env i) h (bid_company b) (bid_amount b)
        (bid_placedAt b)) (\<lambda>_. bindE (outbox_Add env now meta evs) (\<lambda>_. retE (r h)))))
      (\<lambda>_. backed) (\<lambda>_. backed) u" if "backed u" for u a' evs b r
    unfolding Let_def EnqueueBidAnchor_def
    by (rule quiet_backed [OF _ that]) (intro quiet_intro)
  have ok: "backed (s\<lparr>ts_wallet := w\<rparr>)"
    if "deposits now c i p (ts_wallet s) = (res, w)" for c p res w
    using stays [of _ _ "ts_wallet s" now c i p] assms that by (simp add: backed_def)
  show ?thesis
  proof (cases "NewBid (cm_company meta) n t")
    case (Inl e)
    then show ?thesis using assms by (simp add: PlaceBid_loaded_def wp_simps)
  next
    case b: (Inr b)
    then have c: "bid_company b = cm_company meta"
      by (auto simp: NewBid_iff)
    show ?thesis
    proof (cases "au_PlaceBid b a")
      case (Inl e)
      then show ?thesis using assms b by (simp add: PlaceBid_loaded_def wp_simps)
    next
      case (Inr x)
      obtain evs a' where x: "x = (evs, a')" by (cases x)
      show ?thesis
        unfolding PlaceBid_loaded_def wpE_bind domain_wp b Inr x sum.case prod.case
      proof (rule wallet_wp, goal_cases)
        case (1 w u)
        let ?r = "\<lparr>br_auction = i, br_company = bid_company b, br_amount = bid_amount b,
          br_placedAt = bid_placedAt b, br_hash = None, br_tx = None, br_status = ''NOT_ANCHORED'',
          br_wallet = None, br_block = None\<rparr>"
        have "held i (bid_company b) w"
          using reserved [of now "bid_company b" i _ "ts_wallet s" w] 1 c by simp
        with ok [OF 1] have "backed (s\<lparr>ts_wallet := w, ts_bids := ts_bids s @ [?r]\<rparr>)"
          by (simp add: backed_def)
        then show ?case
          using rest by (simp add: bids_Save_def wpE_modify wpE_bind)
      next
        case (2 w e)
        then show ?case by (rule ok)
      qed
    qed
  qed
qed

lemma command_backed:
  assumes "backed s"
  shows "backed (snd (exec_trading env deposits cmd s))"
proof (rule wp_snd [where I = backed], cases "case cmd of TBid _ _ _ _ _ \<Rightarrow> False | _ \<Rightarrow> True")
  case True
  then show "wpE (exec_trading env deposits cmd) (\<lambda>_. backed) (\<lambda>_. backed) s"
    by (rule quiet_backed [OF quiet_command assms])
next
  case False
  then obtain now meta i n t where cmd: "cmd = TBid now meta i n t"
    by (cases cmd) auto
  have "wpE (PlaceBid env deposits now meta i n t') (\<lambda>_. backed) (\<lambda>_. backed) s" for t'
    unfolding PlaceBid_def db_uow_plain wpE_bind auctions_load_def
    using assms bid_backed [OF assms] by (auto simp: wpE_def split: option.split sum.split)
  then show "wpE (exec_trading env deposits cmd) (\<lambda>_. backed) (\<lambda>_. backed) s"
    by (simp add: cmd void_wp)
qed

lemma reachable_backed: "trading_reachable env deposits s \<Longrightarrow> backed s"
proof (induction rule: trading_reachable.induct)
  case (start w)
  then show ?case by (simp add: backed_def empty_trading_def)
next
  case (command s cmd)
  show ?case by (rule command_backed [OF command(3)])
next
  case (tick s t)
  then show ?case by (simp add: backed_def)
qed

end

subsection \<open>Billing provides it\<close>

definition deposit_held :: "string \<Rightarrow> string \<Rightarrow> billing_store \<Rightarrow> bool" where
  "deposit_held auctionID companyID w \<longleftrightarrow> (\<exists>d \<in> set (bs_deposits w).
     dep_auction d = auctionID \<and> dep_company d = companyID \<and> dep_status d = DepositHeld)"

definition deposits_grow :: "billing_store \<Rightarrow> billing_store \<Rightarrow> bool" where
  "deposits_grow w w' \<longleftrightarrow> (\<exists>ds. bs_deposits w' = bs_deposits w @ ds)"

definition grows :: "'a billing \<Rightarrow> bool" where
  "grows m \<longleftrightarrow> (\<forall>w. wpE m (\<lambda>_. deposits_grow w) (\<lambda>_. deposits_grow w) w)"

named_theorems grows_intro \<open>billing methods that end no deposit\<close>

lemma deposits_grow_refl [simp]: "deposits_grow w w"
  by (simp add: deposits_grow_def)

lemma deposits_grow_trans: "deposits_grow w w' \<Longrightarrow> deposits_grow w' w'' \<Longrightarrow> deposits_grow w w''"
  by (auto simp: deposits_grow_def)

lemma deposits_grow_held: "deposits_grow w w' \<Longrightarrow> deposit_held a c w \<Longrightarrow> deposit_held a c w'"
  by (auto simp: deposits_grow_def deposit_held_def)

lemma grows_bind [grows_intro]: "grows m \<Longrightarrow> (\<And>a. grows (f a)) \<Longrightarrow> grows (bindE m f)"
  unfolding grows_def wpE_bind by (blast intro: wpE_mono deposits_grow_trans)

lemma grows_catch [grows_intro]: "grows m \<Longrightarrow> (\<And>e. grows (h e)) \<Longrightarrow> grows (catchE m h)"
  unfolding grows_def wpE_catch by (blast intro: wpE_mono deposits_grow_trans)

lemma grows_cases [grows_intro]:
  "grows m \<Longrightarrow> grows n \<Longrightarrow> grows (if b then m else n)"
  "grows m' \<Longrightarrow> (\<And>a. grows (f a)) \<Longrightarrow> grows (case x of None \<Rightarrow> m' | Some a \<Rightarrow> f a)"
  by (simp_all split: option.split)

lemma grows_base [grows_intro]:
  "grows (retE a)" "grows (failE e)" "grows (liftE r)" "grows (new_id env)"
  "grows (accounts_ExistsByCompany c)" "grows (accounts_Create acc)" "grows (accounts_Load c)"
  "grows (accounts_Save acc)" "grows (deposits_Find au c)" "grows (deposits_Create d)"
  "grows (ledger_ExistsByReference c rt rf ty)" "grows (ledger_Append en)"
  by (auto simp: grows_def wpE_def deposits_grow_def retE_def failE_def liftE_def new_id_def
      readE_def accounts_ExistsByCompany_def accounts_Create_def accounts_Load_def
      accounts_Save_def deposits_Find_def deposits_Create_def ledger_ExistsByReference_def
      ledger_Append_def wp_simps split: option.splits sum.splits if_splits)

lemma grows_publish [grows_intro]: "grows (publish_if env x y ev)"
  by (auto simp: grows_def wp_simps deposits_grow_def)

lemma grows_bid_deposit: "grows (bid_deposit env now c a p)"
  unfolding bid_deposit_def CreateAccount_def ReserveAuctionDeposit_def Let_def
  by (intro grows_intro)

lemma reserve_holds: "ok_wp (ReserveAuctionDeposit env now c a p cur) (\<lambda>_. deposit_held a c) w"
proof -
  note ok_publish_inv [wp_intro del]
  show ?thesis
    unfolding ReserveAuctionDeposit_def Let_def
    by (intro wp_intro) (auto simp: deposit_held_def NewAuctionDeposit_def split: if_splits)
qed

lemma bid_deposit_holds: "ok_wp (bid_deposit env now c a p) (\<lambda>_. deposit_held a c) w"
proof -
  have "ok_wp m (\<lambda>_ _. True) w" for m :: "unit billing"
    by (simp add: wpE_def split: prod.split sum.split)
  then show ?thesis
    unfolding bid_deposit_def wpE_bind by (rule wpE_mono) (simp_all add: reserve_holds)
qed

lemma billing_deposits_wp:
  "wpE (billing_deposits env now c a p) Q (\<lambda>_. R) w = wpE (bid_deposit env now c a p) Q (\<lambda>_. R) w"
  by (auto simp: billing_deposits_def wpE_def catchE_def failE_def split: prod.split sum.split)

interpretation billing_service: deposit_contract "billing_deposits benv" deposit_held
proof
  fix now c a p w w'
  assume "billing_deposits benv now c a p w = (Inr (), w')"
  moreover have "wpE (billing_deposits benv now c a p) (\<lambda>_. deposit_held a c) (\<lambda>_ _. True) w"
    unfolding billing_deposits_wp by (rule bid_deposit_holds)
  ultimately show "deposit_held a c w'"
    by (simp add: wpE_def)
next
  fix a c w now c' a' p
  assume "deposit_held a c w"
  then have "wpE (billing_deposits benv now c' a' p) (\<lambda>_. deposit_held a c) (\<lambda>_. deposit_held a c) w"
    unfolding billing_deposits_wp
    by (intro wpE_mono [OF grows_bid_deposit [unfolded grows_def, rule_format]])
      (auto intro: deposits_grow_held)
  then show "deposit_held a c (snd (billing_deposits benv now c' a' p w))"
    by (rule wp_snd)
qed

end
