(* ===== verification/Billing_Properties.thy ===== *)
theory Billing_Properties
  imports Billing_Effects
begin

section \<open>What billing promises\<close>

text \<open>
  The properties of the billing context, over its use cases and its reachable stores. The
  witnesses run the use cases on a small store: \<open>demo_env\<close> counts its identifiers in unary, so
  they are distinct.
\<close>

definition demo_env :: billing_env where
  "demo_env = \<lparr>env_id = (\<lambda>n. replicate (Suc n) CHR ''i''), env_events = True,
     env_provider = ''fake'', env_return_url = '''', env_base_url = ''http://h/'',
     env_create_top_up = fake_provider_top_up, env_create_invoice = fake_provider_invoice\<rparr>"

definition demo_run :: "billing_command list \<Rightarrow> billing_store" where
  "demo_run cmds = foldl (\<lambda>s c. snd (run_command demo_env c s)) empty_store cmds"

fun demo_ok :: "billing_store \<Rightarrow> billing_command list \<Rightarrow> bool" where
  "demo_ok s [] = True"
| "demo_ok s (c # cs) = (command_ok s c \<and> demo_ok (snd (run_command demo_env c s)) cs)"

lemma demo_env_inj: "inj (env_id demo_env)"
  by (rule injI) (drule arg_cong [where f = length], simp add: demo_env_def)

lemma foldl_reachable:
  "billing_reachable demo_env s \<Longrightarrow> demo_ok s cmds \<Longrightarrow>
    billing_reachable demo_env (foldl (\<lambda>s c. snd (run_command demo_env c s)) s cmds)"
  by (induction cmds arbitrary: s) (auto intro: billing_reachable.command)

lemma demo_reachable: "demo_ok empty_store cmds \<Longrightarrow> billing_reachable demo_env (demo_run cmds)"
  unfolding demo_run_def by (rule foldl_reachable) (rule billing_reachable.start)

text \<open>A company tops up 1000 and bids on two auctions; one deposit is released again.\<close>

definition demo_cmds :: "billing_command list" where
  "demo_cmds = [CmdCreateAccount ''c1'', CmdConfirmTopUp 7 ''c1'' 1000 ''p1'',
     CmdBidDeposit 8 ''c1'' ''a1'' 2000, CmdBidDeposit 8 ''c1'' ''a2'' 4000,
     CmdRelease 9 ''c1'' ''a1'' ''LOST'']"

text \<open>C1: The books always balance. In every store that any sequence of billing calls can
  produce, the held amount of an account is the sum of the HELD deposits of its company, both
  amounts are what the ledger entries of the company add up to, and neither is negative.\<close>

theorem books_balance:
  assumes "inj (env_id env)" "billing_reachable env s" "a \<in> set (bs_accounts s)"
  shows "acc_held a = held_sum (acc_company a) (bs_deposits s)
    \<and> acc_held a = ledger_held (acc_company a) (bs_ledger s)
    \<and> acc_available a = ledger_avail (acc_company a) (bs_ledger s)
    \<and> 0 \<le> acc_held a \<and> 0 \<le> acc_available a"
  using reachable_inv [OF assms(2,1)] assms(3)
  by (auto simp: billing_inv_def billing_ok_def balanced_def accounts_wf_def acc_ok_def)

lemma demo_account:
  "\<lparr>acc_id = ''i'', acc_company = ''c1'', acc_currency = CurrencyRUB, acc_available = 800,
     acc_held = 200\<rparr> \<in> set (bs_accounts (demo_run demo_cmds))"
  by code_simp

lemma demo_cmds_ok: "demo_ok empty_store demo_cmds"
  by code_simp

theorem books_balance_witness:
  "200 = held_sum ''c1'' (bs_deposits (demo_run demo_cmds))
    \<and> 800 = ledger_avail ''c1'' (bs_ledger (demo_run demo_cmds))"
  using books_balance [OF demo_env_inj demo_reachable [OF demo_cmds_ok] demo_account] by simp



text \<open>C7: A payout is credited exactly when it is PAID: in every reachable store a payout has its
  credit entry in the ledger, with its amount, if and only if its status is PAID. So
  \<open>MarkSellerPayoutPaid\<close> never pays a seller twice and never forgets to.\<close>

theorem payout_credited_iff_paid:
  assumes "inj (env_id env)" "billing_reachable env s" "p \<in> set (bs_payouts s)"
  shows "sp_status p = SellerPayoutPaid \<longleftrightarrow>
    (\<exists>e \<in> set (bs_ledger s). ledger_key e =
      (sp_seller p, ''seller_payout'', sp_id p, LedgerSellerPayoutCredited))"
  using payout_paid_iff_credited [OF inv_ok [OF reachable_inv [OF assms(2,1)]] assms(3)]
  by (auto simp: image_iff eq_commute)

text \<open>The deal of an auction: the buyer tops up, bids, is invoiced and pays; the deposit is settled
  and the seller paid out.\<close>

definition demo_deal :: "billing_command list" where
  "demo_deal = [CmdCreateAccount ''c1'',
     CmdConfirmTopUp 7 ''c1'' 1000 ''p1'', CmdBidDeposit 8 ''c1'' ''a1'' 200,
     CmdCreateInvoice 9 \<lparr>cic_deal = ''d1'', cic_auction = ''a1'', cic_buyer = ''c1'',
       cic_seller = ''c2'', cic_goods = 1000, cic_currency = CurrencyRUB, cic_due = 0\<rparr>,
     CmdInvoicePaid 10 (replicate 10 CHR ''i''),
     CmdSettleWinner 11 ''a1'' ''c1'' 1000 20 '''',
     CmdCreatePayout 12 \<lparr>cpc_deal = ''d1'', cpc_auction = ''a1'', cpc_buyer = ''c1'',
       cpc_goods = 1000, cpc_fee_due = 20\<rparr>,
     CmdPayoutReady 13 (replicate 18 CHR ''i''), CmdPayoutPaid 14 (replicate 18 CHR ''i'')]"

lemma demo_deal_ok: "demo_ok empty_store demo_deal"
  by code_simp

theorem payout_credited_iff_paid_witness:
  "\<exists>p \<in> set (bs_payouts (demo_run demo_deal)). \<exists>e \<in> set (bs_ledger (demo_run demo_deal)).
     ledger_key e = (sp_seller p, ''seller_payout'', sp_id p, LedgerSellerPayoutCredited)"
proof -
  have "\<exists>p \<in> set (bs_payouts (demo_run demo_deal)). sp_status p = SellerPayoutPaid"
    by code_simp
  then obtain p where p: "p \<in> set (bs_payouts (demo_run demo_deal))" "sp_status p = SellerPayoutPaid"
    by blast
  then show ?thesis
    using payout_credited_iff_paid [OF demo_env_inj demo_reachable [OF demo_deal_ok] p(1)] by blast
qed

text \<open>C8: A reservation that succeeds for a company without a deposit in the auction moves exactly
  the deposit of the start price from the available to the held amount of that company's account,
  leaves every other account alone and adds one HELD deposit.\<close>

theorem reservation_moves_deposit:
  assumes "inj (env_id env)" "billing_reachable env s" "fresh_deposit s a c"
    and "ReserveAuctionDeposit env now c a price cur s = (Inr (), S)"
  shows "\<exists>x \<in> set (bs_accounts s). acc_company x = c \<and> 0 < depositFromStartPrice price
    \<and> depositFromStartPrice price \<le> acc_available x
    \<and> bs_accounts S = set_account (acc_id x) (acc_available x - depositFromStartPrice price)
         (acc_held x + depositFromStartPrice price) (bs_accounts s)
    \<and> (\<exists>d. bs_deposits S = bs_deposits s @ [d] \<and> dep_auction d = a \<and> dep_company d = c
         \<and> dep_amount d = depositFromStartPrice price \<and> dep_status d = DepositHeld)"
  using wpE_result [OF reserve_effect [OF reachable_inv [OF assms(2,1)] assms(3)] assms(4)] .

lemma demo_names: "\<not> isBlank ''c1''" "\<not> isBlank ''a2''" "\<not> isBlank ''a3''"
  by code_simp+

lemma demo_fresh: "fresh_deposit (demo_run demo_cmds) ''a3'' ''c1''"
  by code_simp

lemma demo_reserve:
  "fst (ReserveAuctionDeposit demo_env 9 ''c1'' ''a3'' 300 CurrencyRUB (demo_run demo_cmds)) = Inr ()"
  by code_simp

theorem reservation_moves_deposit_witness:
  "\<exists>x \<in> set (bs_accounts (demo_run demo_cmds)). acc_company x = ''c1''
     \<and> depositFromStartPrice 300 \<le> acc_available x"
  using reservation_moves_deposit [OF demo_env_inj demo_reachable [OF demo_cmds_ok] demo_fresh,
      of 9 300 CurrencyRUB] demo_reserve
  by (metis prod.collapse)

text \<open>Reserving again is harmless: as long as the deposit of the company in the auction is HELD,
  a reservation for any start price succeeds and changes nothing.\<close>

theorem reservation_idempotent:
  assumes "inj (env_id env)" "billing_reachable env s" "d \<in> set (bs_deposits s)"
    and "dep_status d = DepositHeld" "\<not> isBlank (dep_auction d)" "\<not> isBlank (dep_company d)"
  shows "ReserveAuctionDeposit env now (dep_company d) (dep_auction d) price CurrencyRUB s = (Inr (), s)"
  using reserve_held [OF assms(3) refl refl assms(4) reachable_inv [OF assms(2,1)] assms(5,6)] by simp

lemma demo_held: "\<exists>d \<in> set (bs_deposits (demo_run demo_cmds)). dep_status d = DepositHeld
    \<and> dep_auction d = ''a2'' \<and> dep_company d = ''c1''"
  by code_simp

theorem reservation_idempotent_witness:
  "ReserveAuctionDeposit demo_env 9 ''c1'' ''a2'' 7 CurrencyRUB (demo_run demo_cmds)
     = (Inr (), demo_run demo_cmds)"
proof -
  obtain d where d: "d \<in> set (bs_deposits (demo_run demo_cmds))" "dep_status d = DepositHeld"
    "dep_auction d = ''a2''" "dep_company d = ''c1''"
    using demo_held by blast
  show ?thesis
    using reservation_idempotent [OF demo_env_inj demo_reachable [OF demo_cmds_ok] d(1,2)]
    unfolding d(3,4) using demo_names by simp
qed

text \<open>Too little money: a reservation of a company whose available amount is below the deposit
  of the start price fails with \<open>ErrInsufficientFundsForDeposit\<close> and changes nothing.\<close>

theorem reservation_needs_funds:
  assumes "inj (env_id env)" "billing_reachable env s" "fresh_deposit s a (acc_company x)"
    and "x \<in> set (bs_accounts s)" "0 < depositFromStartPrice price"
    and "acc_available x < depositFromStartPrice price" "\<not> isBlank a"
  shows "ReserveAuctionDeposit env now (acc_company x) a price CurrencyRUB s
     = (Inl ErrInsufficientFundsForDeposit, s)"
  by (rule reserve_insufficient [OF reachable_inv [OF assms(2,1)] assms(3,4) refl assms(5,6,7) refl])

theorem reservation_needs_funds_witness:
  "ReserveAuctionDeposit demo_env 9 ''c1'' ''a3'' 20000 CurrencyRUB (demo_run demo_cmds)
     = (Inl ErrInsufficientFundsForDeposit, demo_run demo_cmds)"
proof -
  have price: "depositFromStartPrice 20000 = 1000" by code_simp
  show ?thesis
    using reservation_needs_funds [OF demo_env_inj demo_reachable [OF demo_cmds_ok] _ demo_account,
        of "''a3''" 20000] demo_fresh demo_names price by simp
qed

text \<open>C9: A payment is credited exactly once. Confirming a payment that was not processed before
  adds its amount to the available amount of the company and to nothing else; confirming it again,
  with whatever company and amount, changes nothing.\<close>

theorem payment_credited_once:
  assumes "inj (env_id env)" "billing_reachable env s" "is_int64 n" "\<not> processed_before x s"
    and "ConfirmTopUp env now c n x s = (Inr (), S)"
  shows "(\<exists>a \<in> set (bs_accounts s). acc_company a = c \<and>
       bs_accounts S = set_account (acc_id a) (acc_available a + n) (acc_held a) (bs_accounts s))
    \<and> (\<forall>now' c' n'. snd (ConfirmTopUp env now' c' n' x S) = S)"
proof -
  have "snd (ConfirmTopUp env now' c' n' x S) = S" for now' c' n'
    using confirm_again [OF wpE_result [OF confirm_marks assms(5)], of env now' c' n']
    by (auto simp: wpE_def split: prod.splits sum.splits)
  then show ?thesis
    using wpE_result [OF confirm_effect [OF reachable_inv [OF assms(2,1)] assms(3,4)] assms(5)]
    by blast
qed

lemma demo_new_payment: "\<not> processed_before ''p2'' (demo_run demo_cmds)"
  by code_simp

lemma demo_confirm: "fst (ConfirmTopUp demo_env 9 ''c1'' 50 ''p2'' (demo_run demo_cmds)) = Inr ()"
  by code_simp

theorem payment_credited_once_witness:
  "\<exists>S. ConfirmTopUp demo_env 9 ''c1'' 50 ''p2'' (demo_run demo_cmds) = (Inr (), S)
     \<and> snd (ConfirmTopUp demo_env 10 ''c2'' 60 ''p2'' S) = S"
proof -
  obtain S where S: "ConfirmTopUp demo_env 9 ''c1'' 50 ''p2'' (demo_run demo_cmds) = (Inr (), S)"
    using demo_confirm by (metis prod.collapse)
  show ?thesis
    using payment_credited_once [OF demo_env_inj demo_reachable [OF demo_cmds_ok] _
        demo_new_payment S] S by (simp add: int64_unfold)
qed

text \<open>C10: Settling the winner's HELD deposit after the invoice is paid takes the whole deposit out of
  the held amount, returns to the available amount what the fee does not take, and leaves the
  deposit RELEASED, SETTLED or CAPTURED depending on whether the fee takes none, a part or all.\<close>

theorem winner_deposit_settled:
  assumes "inj (env_id env)" "billing_reachable env s" "d \<in> set (bs_deposits s)"
    and "dep_status d = DepositHeld"
    and "SettleWinnerDepositAfterInvoicePaid env now (dep_auction d) (dep_company d) goods paid
           reason s = (Inr (), S)"
  shows "deposit_ended d (settled_status (platformFeeFromFinalPrice goods) (dep_amount d))
    (captured_part (platformFeeFromFinalPrice goods) (dep_amount d)) s S"
  using wpE_result [OF settle_effect [OF reachable_inv [OF assms(2,1)] assms(3,4)] assms(5)] .

lemma demo_settle: "fst (SettleWinnerDepositAfterInvoicePaid demo_env 9 ''a2'' ''c1'' 1000 0 ''''
    (demo_run demo_cmds)) = Inr ()"
  by code_simp

theorem winner_deposit_settled_witness:
  "\<exists>d S. SettleWinnerDepositAfterInvoicePaid demo_env 9 ''a2'' ''c1'' 1000 0 '''' (demo_run demo_cmds)
      = (Inr (), S)
    \<and> deposit_ended d (settled_status (platformFeeFromFinalPrice 1000) (dep_amount d))
        (captured_part (platformFeeFromFinalPrice 1000) (dep_amount d)) (demo_run demo_cmds) S"
proof -
  obtain d where d: "d \<in> set (bs_deposits (demo_run demo_cmds))" "dep_status d = DepositHeld"
    "dep_auction d = ''a2''" "dep_company d = ''c1''"
    using demo_held by blast
  obtain S where S: "SettleWinnerDepositAfterInvoicePaid demo_env 9 ''a2'' ''c1'' 1000 0 ''''
      (demo_run demo_cmds) = (Inr (), S)"
    using demo_settle by (metis prod.collapse)
  show ?thesis
    using winner_deposit_settled [OF demo_env_inj demo_reachable [OF demo_cmds_ok] d(1,2),
        unfolded d(3,4), OF S] S by blast
qed


lemma demo_release: "fst (ReleaseAuctionDepositsExceptCandidates demo_env 9 ''a2'' [''c2''] ''LOST''
    (demo_run demo_cmds)) = Inr ()"
  by code_simp


text \<open>C12: A billing call that fails leaves no trace: whatever the use case wrote before the error is
  rolled back, except for the reservation of a bid, which runs outside any transaction.\<close>

theorem failed_call_changes_nothing:
  assumes "fst (run_command env cmd s) = Inl e"
    and "\<And>now c a p. cmd \<noteq> CmdBidDeposit now c a p"
  shows "snd (run_command env cmd s) = s"
proof -
  have "run_command env cmd = db_tx (exec_command env cmd)"
    using assms(2) by (cases cmd) auto
  then show ?thesis
    using assms(1) sql_tx.run_error_unchanged by metis
qed

theorem failed_call_changes_nothing_witness:
  "fst (run_command demo_env (CmdRelease 9 ''c1'' ''a7'' '''') (demo_run demo_cmds)) = Inl ErrDepositNotFound
       \<and> snd (run_command demo_env (CmdRelease 9 ''c1'' ''a7'' '''') (demo_run demo_cmds)) = demo_run demo_cmds"
proof -
  have "fst (run_command demo_env (CmdRelease 9 ''c1'' ''a7'' '''') (demo_run demo_cmds))
      = Inl ErrDepositNotFound"
    by code_simp
  then show ?thesis
    using failed_call_changes_nothing by blast
qed

text \<open>The amounts of a new invoice. For a deal without an invoice the buyer is asked for the
  price of the goods plus the part of the platform fee that the HELD deposit of the buyer in the
  auction does not cover, and nothing below zero; the invoice awaits payment and is not yet due.\<close>

theorem invoice_amounts:
  assumes "\<forall>i \<in> set (bs_invoices s). inv_deal i \<noteq> cic_deal cmd"
    and "CreateDealInvoice env now cmd s = (Inr i, S)"
  shows "inv_deal i = cic_deal cmd \<and> inv_goods i = cic_goods cmd
    \<and> inv_fee_due i = due_after (platformFeeFromFinalPrice (cic_goods cmd))
         (held_of s (cic_auction cmd) (cic_buyer cmd))
    \<and> 0 \<le> inv_fee_due i \<and> inv_total i = inv_goods i + inv_fee_due i
    \<and> inv_status i = InvoicePaymentPending \<and> now \<le> inv_due_at i
    \<and> bs_invoices S = bs_invoices s @ [i] \<and> bs_accounts S = bs_accounts s"
proof -
  have "0 \<le> due_after f h" for f h by (simp add: due_after_def Let_def)
  then show ?thesis
    using wpE_result [OF invoice_create_effect [OF assms(1)] assms(2)] by simp
qed

definition demo_invoice :: create_invoice_command where
  "demo_invoice = \<lparr>cic_deal = ''d1'', cic_auction = ''a2'', cic_buyer = ''c1'', cic_seller = ''c2'',
     cic_goods = 10000, cic_currency = CurrencyRUB, cic_due = 0\<rparr>"

lemma demo_no_invoice: "\<forall>i \<in> set (bs_invoices (demo_run demo_cmds)). inv_deal i \<noteq> cic_deal demo_invoice"
  by code_simp

definition demo_created :: "(billing_error + deal_invoice) \<times> billing_store" where
  "demo_created = CreateDealInvoice demo_env 9 demo_invoice (demo_run demo_cmds)"

lemma demo_created: "isl (fst demo_created) = False"
  by code_simp

theorem invoice_amounts_witness:
  "\<exists>i S. CreateDealInvoice demo_env 9 demo_invoice (demo_run demo_cmds) = (Inr i, S)
     \<and> inv_total i = 10100"
proof -
  have "held_of (demo_run demo_cmds) (cic_auction demo_invoice) (cic_buyer demo_invoice) = 200"
    "platformFeeFromFinalPrice (cic_goods demo_invoice) = 300" "due_after 300 200 = 100"
    "cic_goods demo_invoice = 10000"
    by code_simp+
  moreover obtain i S where S: "CreateDealInvoice demo_env 9 demo_invoice (demo_run demo_cmds) = (Inr i, S)"
    using demo_created by (cases demo_created; cases "fst demo_created") (auto simp: demo_created_def)
  ultimately show ?thesis
    using invoice_amounts [OF demo_no_invoice S] by auto
qed

text \<open>Invoice and settlement agree on the fee. If the buyer's deposit that the invoice counted is
  still HELD with its amount when the invoice has been paid, then settling it with the fee of the
  invoice is never refused with \<open>ErrPlatformFeeDueMismatch\<close>.\<close>

theorem settlement_accepts_invoice:
  assumes "\<forall>i \<in> set (bs_invoices s). inv_deal i \<noteq> cic_deal cmd"
    and "CreateDealInvoice env now cmd s = (Inr i, S)"
    and "row_select (\<lambda>d. dep_auction d = cic_auction cmd \<and> dep_company d = cic_buyer cmd)
           (bs_deposits s') = Some d"
    and "dep_amount d = held_of s (cic_auction cmd) (cic_buyer cmd)"
  shows "fst (SettleWinnerDepositAfterInvoicePaid env' now' (cic_auction cmd) (cic_buyer cmd)
     (inv_goods i) (inv_fee_due i) reason s') \<noteq> Inl ErrPlatformFeeDueMismatch"
proof -
  have "inv_fee_due i = due_after (platformFeeFromFinalPrice (inv_goods i)) (dep_amount d)"
    using wpE_result [OF invoice_create_effect [OF assms(1)] assms(2)] assms(4) by simp
  from settle_no_mismatch [OF assms(3) this, of env' now' reason] show ?thesis
    by (auto simp: wpE_def not_mismatch_def split: prod.splits sum.splits)
qed

theorem settlement_accepts_invoice_witness:
  "\<exists>i S. CreateDealInvoice demo_env 9 demo_invoice (demo_run demo_cmds) = (Inr i, S)
     \<and> fst (SettleWinnerDepositAfterInvoicePaid demo_env 10 ''a2'' ''c1'' (inv_goods i) (inv_fee_due i)
          '''' S) \<noteq> Inl ErrPlatformFeeDueMismatch"
proof -
  obtain i S where S: "CreateDealInvoice demo_env 9 demo_invoice (demo_run demo_cmds) = (Inr i, S)"
    using demo_created by (cases demo_created; cases "fst demo_created") (auto simp: demo_created_def)
  have "map_option dep_amount (row_select (\<lambda>d. dep_auction d = cic_auction demo_invoice
      \<and> dep_company d = cic_buyer demo_invoice) (bs_deposits (snd demo_created)))
      = Some (held_of (demo_run demo_cmds) (cic_auction demo_invoice) (cic_buyer demo_invoice))"
    by code_simp
  then obtain d where d: "row_select (\<lambda>d. dep_auction d = cic_auction demo_invoice
      \<and> dep_company d = cic_buyer demo_invoice) (bs_deposits S) = Some d"
    "dep_amount d = held_of (demo_run demo_cmds) (cic_auction demo_invoice) (cic_buyer demo_invoice)"
    using S by (auto simp: demo_created_def)
  show ?thesis
    using settlement_accepts_invoice [OF demo_no_invoice S d, of demo_env 10 "''''"] S
    by (simp add: demo_invoice_def)
qed

text \<open>An invoice for a deal of an auction in which the buyer has no deposit panics: the code reads
  the status of the deposit that was not found. (The store is unchanged.)\<close>

theorem invoice_without_deposit_panics:
  assumes "\<forall>i \<in> set (bs_invoices s). inv_deal i \<noteq> cic_deal cmd"
    and "fresh_deposit s (cic_auction cmd) (cic_buyer cmd)" "\<not> isBlank (cic_auction cmd)"
    and "\<not> isBlank (cic_deal cmd)" "\<not> isBlank (cic_buyer cmd)" "\<not> isBlank (cic_seller cmd)"
    and "cic_buyer cmd \<noteq> cic_seller cmd" "0 < cic_goods cmd" "cic_currency cmd = CurrencyRUB"
  shows "CreateDealInvoice env now cmd s = (Inl NilDereference, s)"
proof -
  have "row_select (\<lambda>i. inv_deal i = cic_deal cmd) (bs_invoices s) = None"
    "row_select (\<lambda>d. dep_auction d = cic_auction cmd \<and> dep_company d = cic_buyer cmd) (bs_deposits s) = None"
    using assms(1,2) by (auto simp: row_select_None_iff fresh_deposit_def)
  then show ?thesis
    using assms(3-)
    by (simp add: CreateDealInvoice_def try_load_def invoices_LoadByDealID_def invoice_held_def
        deposits_Find_def bindE_def catchE_def optE_def retE_def readE_def failE_def)
qed

theorem invoice_without_deposit_panics_witness:
  "CreateDealInvoice demo_env 9 (demo_invoice\<lparr>cic_auction := ''a3''\<rparr>) (demo_run demo_cmds)
     = (Inl NilDereference, demo_run demo_cmds)"
proof -
  have "\<not> isBlank ''d1''" "\<not> isBlank ''c2''" by code_simp+
  then show ?thesis
    using invoice_without_deposit_panics [of "demo_run demo_cmds" "demo_invoice\<lparr>cic_auction := ''a3''\<rparr>"]
      demo_no_invoice demo_fresh demo_names by (simp add: demo_invoice_def)
qed

text \<open>The two percentages, where the multiplication does not overflow: the deposit is five percent
  of the start price rounded down but at least one unit, and never more than the price; the fee
  is three percent of the final price rounded down, between zero and the price.\<close>

theorem percentages:
  assumes "0 < price" "5 * price \<le> max_int64"
  shows "depositFromStartPrice price = max 1 (5 * price div 100)
    \<and> 1 \<le> depositFromStartPrice price \<and> depositFromStartPrice price \<le> price
    \<and> platformFeeFromFinalPrice price = 3 * price div 100
    \<and> 0 \<le> platformFeeFromFinalPrice price \<and> platformFeeFromFinalPrice price < price"
proof -
  have q: "quot64 (mul64 price k) 100 = k * price div 100" if "0 < k" "k \<le> 5" for k
  proof -
    have "0 \<le> price * k" "price * k \<le> 5 * price"
      using assms that by simp_all
    then have i: "is_int64 (price * k)" "is_int64 (k * price div 100)"
      using assms(2) by (auto simp: int64_unfold max_int64_def mult.commute)
    have "price * k sdiv 100 = price * k div 100"
      using assms(1) that(1) by (simp add: signed_divide_int_def)
    then show ?thesis
      using i by (simp add: quot64_def mul64_exact mult.commute)
  qed
  show ?thesis
    using assms(1) q [of 5] q [of 3]
    by (auto simp: depositFromStartPrice_def platformFeeFromFinalPrice_def Let_def)
qed

theorem percentages_witness: "depositFromStartPrice 19 = 1 \<and> platformFeeFromFinalPrice 19 = 0"
  using percentages [of 19] by (simp add: max_int64_def)

text \<open>Beyond that bound the multiplication by five wraps around: a start price that is a valid
  positive \<open>int64\<close> yields the minimal deposit of one unit.\<close>

theorem deposit_overflows:
  "is_int64 1844674407370955162 \<and> depositFromStartPrice 1844674407370955162 = 1"
  by code_simp

end
