(* ===== verification/Trading_Properties.thy ===== *)
theory Trading_Properties
  imports Trading_System Billing_Properties
begin

section \<open>What trading promises\<close>

text \<open>
  The properties of the trading context, over the auction aggregate and over the stores its
  commands reach. The witnesses run the use cases on a small auction: identifiers in unary, one
  byte of the input as the digest, insertion sort for the sorts.
\<close>

definition tdemo_env :: trading_env where
  "tdemo_env = \<lparr>te_id = (\<lambda>n. replicate (Suc n) CHR ''a''), te_keccak = (\<lambda>v. take 1 (drop 7 v)),
     te_sort_slice = insertion_sort, te_order_bids = insertion_sort, te_order_rows = insertion_sort\<rparr>"

definition tdemo_wallet :: billing_store where
  "tdemo_wallet = demo_run [CmdCreateAccount ''c1'', CmdConfirmTopUp 1 ''c1'' 1000 ''p1'',
     CmdCreateAccount ''c2'', CmdConfirmTopUp 1 ''c2'' 1000 ''p2'']"

definition actor :: "string \<Rightarrow> command_meta" where
  "actor c = \<lparr>cm_company = c, cm_user = ''u'', cm_actor = ''company'', cm_correlation = [],
     cm_causation = []\<rparr>"

definition tdemo_exec :: "trading_command \<Rightarrow> (billing_store, unit) trading" where
  "tdemo_exec cmd = exec_trading tdemo_env (billing_deposits demo_env) cmd"

definition tdemo_run :: "trading_command list \<Rightarrow> billing_store trading_store" where
  "tdemo_run cmds = foldl (\<lambda>s c. snd (tdemo_exec c s)) (empty_trading tdemo_wallet) cmds"

fun tdemo_ok :: "billing_store trading_store \<Rightarrow> trading_command list \<Rightarrow> bool" where
  "tdemo_ok s [] = True"
| "tdemo_ok s (c # cs) = (trading_ok s c \<and> tdemo_ok (snd (tdemo_exec c s)) cs)"

text \<open>A lot is auctioned from 10 to 1000 at a start price of 200 in steps of 10.\<close>

definition tdemo_open :: "trading_command list" where
  "tdemo_open = [TCreate ''lot'' 10 1000 200 10, TPublish 5 (actor ''s'') ''a'']"

definition tdemo_bids :: "trading_command list" where
  "tdemo_bids = tdemo_open @ [TBid 20 (actor ''c1'') ''a'' 200 0, TBid 30 (actor ''c2'') ''a'' 210 40]"

lemma tdemo_env_ok: "env_ok tdemo_env"
proof -
  have "inj (te_id tdemo_env)"
    by (rule injI) (drule arg_cong [where f = length], simp add: tdemo_env_def)
  then show ?thesis
    by (simp add: env_ok_def tdemo_env_def stable_sort.slice_sort_axioms)
qed

lemma tdemo_reachable:
  assumes "tdemo_ok (empty_trading tdemo_wallet) cmds"
  shows "trading_reachable tdemo_env (billing_deposits demo_env) (tdemo_run cmds)"
proof -
  have "trading_reachable tdemo_env (billing_deposits demo_env) s \<Longrightarrow> tdemo_ok s cmds \<Longrightarrow>
      trading_reachable tdemo_env (billing_deposits demo_env) (foldl (\<lambda>s c. snd (tdemo_exec c s)) s cmds)"
    for s
  proof (induction cmds arbitrary: s)
    case (Cons c cmds)
    then have "trading_reachable tdemo_env (billing_deposits demo_env) (snd (tdemo_exec c s))"
      unfolding tdemo_exec_def by (intro trading_reachable.command) auto
    then show ?case using Cons by simp
  qed simp
  from this [OF trading_reachable.start assms] show ?thesis
    by (simp add: tdemo_run_def)
qed

lemma tdemo_bids_ok: "tdemo_ok (empty_trading tdemo_wallet) tdemo_bids"
  by code_simp

lemma tdemo_open_ok: "tdemo_ok (empty_trading tdemo_wallet) tdemo_open"
  by code_simp

text \<open>C13: An auction that has been closed stays as it is: whatever methods are called on it later,
  its state, price, winner and schedule are those of the closing, and closing it again, bidding,
  publishing and cancelling are all refused.\<close>

theorem closed_once:
  assumes close: "au_Close srt bids a = Inr (evs, a')" and later: "au_step\<^sup>*\<^sup>* a' z"
  shows "z = a' \<and> au_Close srt' bids' z = Inl ErrCannotCloseAuction
    \<and> au_PlaceBid b z = Inl ErrAuctionNotActive \<and> au_Publish z = Inl ErrAuctionCannotBePublished
    \<and> au_CancelAsSellerOrDraft z = Inl ErrInvalidStateTransition
    \<and> au_CancelAsAdmin z = Inl ErrInvalidStateTransition"
proof -
  have st: "au_state a' = StateWon \<or> au_state a' = StateCancelled"
    using close by (auto simp: Close_iff split: if_splits)
  then have "z = a'"
    using auction_rank_le by (intro auction_fsm.final_status [OF later]) auto
  with st show ?thesis
    by (auto simp: au_Close_def au_PlaceBid_def au_Publish_def au_CancelAsSellerOrDraft_def
        au_CancelAsAdmin_def)
qed

definition tdemo_auction :: auction where
  "tdemo_auction = \<lparr>au_id = ''a'', au_lot = ''lot'', au_state = StatePublished, au_startsAt = 10,
     au_endsAt = 1000, au_startPrice = 200, au_currentPrice = 200, au_minBidStep = 10, au_leader = [],
     au_extensionWindow = minutes 5, au_extensionDuration = minutes 5\<rparr>"

definition tdemo_bid :: "string \<Rightarrow> int \<Rightarrow> time \<Rightarrow> bid" where
  "tdemo_bid c n t = \<lparr>bid_company = c, bid_amount = n, bid_placedAt = t\<rparr>"

theorem closed_once_witness:
  "\<exists>evs a'. au_Close insertion_sort [tdemo_bid ''c1'' 200 20] tdemo_auction = Inr (evs, a')
    \<and> au_Close insertion_sort [] a' = Inl ErrCannotCloseAuction"
proof -
  have "\<exists>evs a'. au_Close insertion_sort [tdemo_bid ''c1'' 200 20] tdemo_auction = Inr (evs, a')"
    by (simp add: au_Close_def tdemo_auction_def tdemo_bid_def sortBidsForCloseRanking_def
        transitionTo_def canTransition_def)
  then obtain evs a' where
    c: "au_Close insertion_sort [tdemo_bid ''c1'' 200 20] tdemo_auction = Inr (evs, a')" by blast
  then show ?thesis
    using closed_once [OF c rtranclp.rtrancl_refl, where srt' = insertion_sort and bids' = "[]"]
    by blast
qed

text \<open>C14: The highest bid wins, and of two equal ones the earlier: closing a published auction with
  any list of bids awards it to a bid of the list that no other bid outranks, at its amount,
  whichever sort with the contract of \<open>sort.Slice\<close> is used.\<close>

theorem highest_bid_wins:
  assumes "slice_sort srt" "au_state a = StatePublished" "bids \<noteq> []"
  shows "\<exists>w \<in> set bids. \<exists>evs a'. au_Close srt bids a = Inr (evs, a')
    \<and> au_Winner a' = (if bid_company w = [] then None else Some (bid_company w, bid_amount w))
    \<and> au_state a' = StateWon
    \<and> (\<forall>b \<in> set bids. bid_amount b \<le> bid_amount w
        \<and> (bid_amount b = bid_amount w \<longrightarrow> bid_placedAt w \<le> bid_placedAt b))"
proof -
  obtain w where w: "determineWinner (sortBidsForCloseRanking srt bids) = Some w"
    using winner_exists [OF assms(1,3)] by blast
  have "bid_amount b \<le> bid_amount w \<and> (bid_amount b = bid_amount w \<longrightarrow> bid_placedAt w \<le> bid_placedAt b)"
    if "b \<in> set bids" for b
    using winner_is_best(3) [OF assms(1) w that] by (auto simp: ranks_before_def split: if_splits)
  with w assms winner_is_best(2) [OF assms(1) w] show ?thesis
    by (intro bexI [of _ w]) (auto simp: Close_iff au_Winner_def)
qed

theorem highest_bid_wins_witness:
  "\<exists>w \<in> {tdemo_bid ''c1'' 200 20, tdemo_bid ''c2'' 210 30}. bid_amount w \<ge> 210"
  using highest_bid_wins [of insertion_sort tdemo_auction "[tdemo_bid ''c1'' 200 20, tdemo_bid ''c2'' 210 30]"]
    stable_sort.slice_sort_axioms
  by (auto simp: tdemo_auction_def tdemo_bid_def)

text \<open>The \<open>AuctionWon\<close> event names at most three candidates, each once, and the winner first;
  all of them have bid. They are what the deal later falls back on.\<close>

theorem winner_candidates:
  assumes srt: "slice_sort srt" and named: "\<forall>b \<in> set bids. bid_company b \<noteq> []"
    and won: "au_Close srt bids a = Inr (evs, a')" "AuctionWon i lot cs price \<in> set evs"
  shows "cs \<noteq> [] \<and> hd cs = au_leader a' \<and> distinct cs \<and> length cs \<le> 3
    \<and> set cs \<subseteq> bid_company ` set bids \<and> price = au_currentPrice a' \<and> i = au_id a \<and> lot = au_lot a"
proof -
  have ne: "bids \<noteq> []"
    using won by (auto simp: Close_iff)
  then obtain w rest where w: "determineWinner (sortBidsForCloseRanking srt bids) = Some w"
    "sortBidsForCloseRanking srt bids = w # rest"
    using winner_exists [OF srt] winner_is_best(1) [OF srt] by blast
  then have res: "cs = collect_companies [] (take 3 (w # rest))" "au_leader a' = bid_company w"
    "price = au_currentPrice a'" "i = au_id a" "lot = au_lot a"
    using won ne by (auto simp: Close_iff collectWinnerCompanyIDs_def maxWinnerCandidatesInAuctionWon_def)
  have "set (take 3 (w # rest)) \<subseteq> set bids"
    using ranking_facts(2) [OF srt, of bids] w(2) set_take_subset [of 3 "w # rest"] by simp
  moreover have "bid_company w \<noteq> []"
    using named winner_is_best(2) [OF srt w(1)] by blast
  ultimately show ?thesis
    using res collect_companies_facts [of "[]" "take 3 (w # rest)"]
    by (auto simp: numeral_3_eq_3)
qed

theorem winner_candidates_witness:
  "\<exists>cs. set cs \<subseteq> {''c1'', ''c2''} \<and> hd cs = ''c2'' \<and> distinct cs"
proof -
  let ?bids = "[tdemo_bid ''c1'' 200 20, tdemo_bid ''c2'' 210 30]"
  have "\<exists>evs a'. au_Close insertion_sort ?bids tdemo_auction = Inr (evs, a') \<and> au_leader a' = ''c2''
      \<and> AuctionWon ''a'' ''lot'' [''c2'', ''c1''] 210 \<in> set evs"
    by (simp add: au_Close_def tdemo_auction_def tdemo_bid_def sortBidsForCloseRanking_def Let_def
        transitionTo_def canTransition_def insertion_sort_def ranks_before_def
        collectWinnerCompanyIDs_def maxWinnerCandidatesInAuctionWon_def)
  then obtain evs a' where "au_Close insertion_sort ?bids tdemo_auction = Inr (evs, a')"
    "au_leader a' = ''c2''" "AuctionWon ''a'' ''lot'' [''c2'', ''c1''] 210 \<in> set evs"
    by blast
  from winner_candidates [OF stable_sort.slice_sort_axioms _ this(1,3)] this(2) show ?thesis
    by (intro exI [of _ "[''c2'', ''c1'']"]) (simp add: tdemo_bid_def)
qed


definition tdemo_facts :: "billing_store trading_store \<Rightarrow> bool" where
  "tdemo_facts s \<longleftrightarrow> (case ts_auctions s of
     [r] \<Rightarrow> ar_id r = ''a'' \<and> ar_state r = ''PUBLISHED'' \<and> ar_lot r = ''lot''
       \<and> auction_bids ''a'' (ts_bids s) = [tdemo_bid ''c1'' 200 20, tdemo_bid ''c2'' 210 40]
       \<and> ar_currentPrice r + ar_minBidStep r = 220 \<and> ar_endsAt r = 300000000040
       \<and> ar_leader r = ''c2'' \<and> map br_company (ts_bids s) = [''c1'', ''c2''] \<and> map br_auction (ts_bids s) = [''a'', ''a'']
   | _ \<Rightarrow> False)"

lemma tdemo_store: "tdemo_facts (tdemo_run tdemo_bids)"
  by code_simp

lemma tdemo_row:
  obtains r where "ts_auctions (tdemo_run tdemo_bids) = [r]" "ar_id r = ''a''"
    "ar_state r = ''PUBLISHED''" "ar_lot r = ''lot''" "ar_currentPrice r + ar_minBidStep r = 220"
    "ar_endsAt r = 300000000040"
    "auction_bids ''a'' (ts_bids (tdemo_run tdemo_bids))
       = [tdemo_bid ''c1'' 200 20, tdemo_bid ''c2'' 210 40]"
  using tdemo_store by (auto simp: tdemo_facts_def split: list.splits)



definition tdemo_bid_run ::
  "billing_store trading_store \<Rightarrow> (trading_error + place_bid_result) \<times> billing_store trading_store" where
  "tdemo_bid_run s = PlaceBid tdemo_env (billing_deposits demo_env) 20 (actor ''c1'') ''a'' 200 20 s"

lemma tdemo_bid_accepted:
  "bids_fit ''a'' (tdemo_run tdemo_open)
    \<and> (case fst (tdemo_bid_run (tdemo_run tdemo_open)) of Inl _ \<Rightarrow> False | Inr _ \<Rightarrow> True)"
  by code_simp




text \<open>C18: The scheduler closes every expired auction: when at most \<open>limit\<close> published auctions have
  reached their end, one run of \<open>closeExpiredAuctionsOnce\<close> succeeds and no expired auction is
  left. The same holds of \<open>RunCloseExpired\<close>. The rows of the other auctions are untouched.\<close>

theorem closer_closes_all_expired:
  assumes env: "env_ok env" and reach: "trading_reachable env deposits s"
    and few: "int (length (expired now s)) \<le> limit" "0 < limit"
    and run: "run = closeExpiredAuctionsOnce env now limit \<or> run = RunCloseExpired env now limit"
  shows "\<exists>t. run s = (Inr (), t) \<and> expired now t = []
    \<and> (\<forall>r. r \<notin> set (expired now s) \<and> r \<in> set (ts_auctions s) \<longrightarrow> r \<in> set (ts_auctions t))"
proof -
  note inv = trading_reachable_inv [OF reach env]
  let ?X = "ar_id ` set (expired now s)"
  obtain t where t: "run s = (Inr (), t)" "published_ids t = published_ids s - ?X"
    "same_rows_outside ?X s t"
    using run close_expired [OF env inv few, of closer_skips "''trading-close-expired''"]
      close_expired [OF env inv few, of runtime_skips "''scheduler-close''"]
    by (auto simp: closeExpiredAuctionsOnce_def RunCloseExpired_def wpE_def
        split: prod.splits sum.splits)
  have "False" if "r \<in> set (expired now t)" for r
  proof -
    have r: "r \<in> set (ts_auctions t)" "ar_state r = ''PUBLISHED''" "ar_endsAt r \<le> now"
      using that by (auto simp: expired_def)
    then have "ar_id r \<notin> ?X"
      using t(2) by (auto simp: published_ids_def)
    moreover from this have "r \<in> set (expired now s)"
      using r t(3) by (simp add: same_rows_outside_def expired_def)
    ultimately show False by blast
  qed
  then have "expired now t = []"
    by (metis equals0I set_empty)
  moreover have "ar_id r \<notin> ?X" if "r \<notin> set (expired now s)" "r \<in> set (ts_auctions s)" for r
  proof
    assume "ar_id r \<in> ?X"
    then obtain x where "x \<in> set (expired now s)" "ar_id x = ar_id r"
      by auto
    then show False
      using that inv by (auto simp: expired_def trading_inv_def auctions_ok_def dest: distinct_map [THEN iffD1]
          inj_onD)
  qed
  ultimately show ?thesis
    using t(1,3) by (auto simp: same_rows_outside_def)
qed

theorem closer_closes_all_expired_witness:
  "\<exists>t. closeExpiredAuctionsOnce tdemo_env 300000000040 5 (tdemo_run tdemo_bids) = (Inr (), t)
     \<and> expired 300000000040 t = []"
proof -
  obtain r where "ts_auctions (tdemo_run tdemo_bids) = [r]"
    by (rule tdemo_row)
  then have "int (length (expired 300000000040 (tdemo_run tdemo_bids))) \<le> 5"
    by (simp add: expired_def)
  from closer_closes_all_expired [OF tdemo_env_ok tdemo_reachable [OF tdemo_bids_ok] this _ disjI1 [OF refl]]
  show ?thesis by auto
qed

text \<open>The two loops differ on an auction that was closed after it was listed: the loop of
  \<open>cmd/trading\<close> skips it, while \<open>RunCloseExpired\<close> of the integration runtime stops with
  \<open>ErrCannotCloseAuction\<close> and leaves the rest of its batch open.\<close>

theorem stale_listing_stops_runtime:
  assumes env: "env_ok env" and reach: "trading_reachable env deposits s"
    and r: "r \<in> set (ts_auctions s)" "ar_id r = i" "ar_state r \<noteq> ''PUBLISHED''"
  shows "forE (close_one runtime_skips env now (system_meta l)) (i # ids) s =
      (Inl (AuctionError ErrCannotCloseAuction), s)
    \<and> forE (close_one closer_skips env now (system_meta l)) (i # ids) s =
      forE (close_one closer_skips env now (system_meta l)) ids s"
proof -
  note inv = trading_reachable_inv [OF reach env]
  obtain a where a: "loaded i s r a" "auctions_load i s = (Inr a, s)"
    using load_found [OF inv r(1,2)] by blast
  have "au_state a \<noteq> StatePublished"
    using row_state [of r a] a(1) r(3) by (auto simp: loaded_def)
  then have "CloseAuction env now (system_meta l) i s = (Inl (AuctionError ErrCannotCloseAuction), s)"
    using a(2) top_bids [OF a(1) env]
    by (simp add: CloseAuction_def db_uow_plain bindE_def CloseAuction_loaded_def au_Close_def
        domainE_def liftE_def)
  then show ?thesis
    by (simp add: close_one_def catchE_def bindE_def runtime_skips_def closer_skips_def failE_def retE_def)
qed

lemma tdemo_draft:
  "trading_reachable tdemo_env (billing_deposits demo_env)
     (tdemo_run [TCreate ''lot'' 10 1000 200 10])"
  by (rule tdemo_reachable) code_simp

lemma tdemo_draft_row:
  "map ar_state (ts_auctions (tdemo_run [TCreate ''lot'' 10 1000 200 10])) = [''DRAFT'']"
  by code_simp

theorem stale_listing_stops_runtime_witness:
  "\<exists>i. fst (forE (close_one runtime_skips tdemo_env 2000 (system_meta ''x'')) [i]
      (tdemo_run [TCreate ''lot'' 10 1000 200 10])) = Inl (AuctionError ErrCannotCloseAuction)"
proof -
  obtain r where "ts_auctions (tdemo_run [TCreate ''lot'' 10 1000 200 10]) = [r]" "ar_state r = ''DRAFT''"
    using tdemo_draft_row by (auto simp: map_eq_Cons_conv)
  then show ?thesis
    using stale_listing_stops_runtime [OF tdemo_env_ok tdemo_draft, of r _ 2000 "''x''" "[]"]
    by (intro exI [of _ "ar_id r"]) simp
qed

text \<open>C19: Behind every bid there is a held deposit. With billing as the deposit service, in every
  store the trading commands can reach each row of \<open>trading_bids\<close> has an auction deposit of its
  bidder, in its auction, that is HELD; this although no transaction ties the two together.\<close>

theorem bids_are_backed:
  assumes "trading_reachable env (billing_deposits benv) s" "b \<in> set (ts_bids s)"
  shows "\<exists>d \<in> set (bs_deposits (ts_wallet s)). dep_auction d = br_auction b
    \<and> dep_company d = br_company b \<and> dep_status d = DepositHeld"
  using billing_service.reachable_backed [OF assms(1)] assms(2)
  by (auto simp: billing_service.backed_def deposit_held_def)

theorem bids_are_backed_witness:
  "\<exists>d \<in> set (bs_deposits (ts_wallet (tdemo_run tdemo_bids))).
     dep_auction d = ''a'' \<and> dep_company d = ''c2'' \<and> dep_status d = DepositHeld"
proof -
  have "map br_company (ts_bids (tdemo_run tdemo_bids)) = [''c1'', ''c2'']"
    "map br_auction (ts_bids (tdemo_run tdemo_bids)) = [''a'', ''a'']"
    using tdemo_store by (auto simp: tdemo_facts_def split: list.splits)
  then obtain b where "b \<in> set (ts_bids (tdemo_run tdemo_bids))" "br_company b = ''c2''"
    "br_auction b = ''a''"
    by (auto simp: map_eq_Cons_conv) blast
  then show ?thesis
    using bids_are_backed [OF tdemo_reachable [OF tdemo_bids_ok]] by force
qed

text \<open>A bid that is refused leaves no trace in trading: when \<open>PlaceBid\<close> fails because the auction
  does not exist, the bid is invalid, the auction does not accept it or the deposit cannot be
  reserved, at most the wallet has changed.\<close>

theorem refused_bid_leaves_no_trace:
  assumes env: "env_ok env" and reach: "trading_reachable env deposits s" and fits: "bids_fit i s"
    and err: "PlaceBid env deposits now meta i amount placedAt s = (Inl e, t)" "bid_refused e"
  shows "\<exists>w. t = s\<lparr>ts_wallet := w\<rparr>"
proof -
  note inv = trading_reachable_inv [OF reach env]
  have "wpE (PlaceBid env deposits now meta i amount placedAt) (\<lambda>_ _. True)
      (\<lambda>e t. bid_refused e \<longrightarrow> only_wallet s t) s"
    unfolding PlaceBid_def db_uow_plain wpE_bind
  proof (rule load_wp [OF inv])
    fix r a assume l: "loaded i s r a"
    show "wpE (PlaceBid_loaded env deposits now meta i amount placedAt a) (\<lambda>_ _. True)
        (\<lambda>e t. bid_refused e \<longrightarrow> only_wallet s t) s"
      by (rule wpE_mono [OF place_bid_effect [OF inv env loaded_fits [OF l fits] l]]) auto
  qed simp
  then show ?thesis
    using err by (auto simp: wpE_def only_wallet_def)
qed

lemma tdemo_late_bid:
  "fst (PlaceBid tdemo_env (billing_deposits demo_env) 20 (actor ''c1'') ''a'' 200 1001
     (tdemo_run tdemo_open)) = Inl (AuctionError ErrAuctionAlreadyEnded)"
  by code_simp

theorem refused_bid_leaves_no_trace_witness:
  "\<exists>w. snd (PlaceBid tdemo_env (billing_deposits demo_env) 20 (actor ''c1'') ''a'' 200 1001
     (tdemo_run tdemo_open)) = (tdemo_run tdemo_open)\<lparr>ts_wallet := w\<rparr>"
proof -
  let ?r = "PlaceBid tdemo_env (billing_deposits demo_env) 20 (actor ''c1'') ''a'' 200 1001
     (tdemo_run tdemo_open)"
  have fits: "bids_fit ''a'' (tdemo_run tdemo_open)"
    using tdemo_bid_accepted by blast
  have "?r = (Inl (AuctionError ErrAuctionAlreadyEnded), snd ?r)"
    using tdemo_late_bid by (metis prod.collapse)
  from refused_bid_leaves_no_trace [OF tdemo_env_ok tdemo_reachable [OF tdemo_open_ok] fits this]
  show ?thesis by simp
qed

text \<open>The policies that protect bidders: while an auction with bids runs, only the platform admin
  or the system may close it; a seller can cancel an auction only as long as nobody has bid; an
  administrator can cancel it at any time before it is closed.\<close>

theorem guards_of_running_auctions:
  assumes env: "env_ok env" and reach: "trading_reachable env deposits s"
    and r: "r \<in> set (ts_auctions s)" "ar_id r = i" "ar_state r = ''PUBLISHED''" "ar_leader r \<noteq> []"
  shows "SellerCancelAuction env now meta i s = (Inl (AuctionError ErrCannotCancelWithBids), s)
    \<and> (now < ar_endsAt r \<and> \<not> allowPrivilegedEarlyAuctionClose meta \<longrightarrow>
         CloseAuction env now meta i s = (Inl ErrCloseForbiddenBeforeEndWithBids, s))
    \<and> (\<exists>t. AdminCancelAuction env now meta i s = (Inr (), t)
         \<and> (\<forall>x \<in> set (ts_auctions t). ar_id x = i \<longrightarrow> ar_state x = ''CANCELLED'')
         \<and> ts_wallet t = ts_wallet s)"
proof -
  note inv = trading_reachable_inv [OF reach env]
  obtain a where a: "loaded i s r a" "auctions_load i s = (Inr a, s)"
    using load_found [OF inv r(1,2)] by blast
  then have ra: "row_auction r = Inr a" and ok: "auction_ok a (auction_bids i (ts_bids s))"
    and i: "au_id a = i" "0 < au_startPrice a"
    by (simp_all add: loaded_def)
  have st: "au_state a = StatePublished"
    using row_state [OF ra] r(3) by (cases "au_state a") auto
  have lead: "au_leader a \<noteq> []" and ends: "au_endsAt a = ar_endsAt r"
    using row_fields [OF ra] r(4) by simp_all
  then have ne: "auction_bids i (ts_bids s) \<noteq> []"
    using ok by (auto simp: auction_ok_def)
  then have ne': "te_order_bids env ranks_before (auction_bids i (ts_bids s)) \<noteq> []"
    using top_bids(2) [OF a(1) env] by auto
  let ?a = "a\<lparr>au_state := StateCancelled\<rparr>"
  have cancel: "au_CancelAsAdmin a = Inr ([AuctionCancelled i], ?a)"
    using st i by (simp add: cancel_iff)
  have ok': "auction_ok ?a (auction_bids i (ts_bids s))"
    by (rule cancel_ok(2) [OF ok cancel])
  let ?s = "s\<lparr>ts_auctions := put_auction ?a (ts_auctions s)\<rparr>"
  have "ids_ok env ?s"
    using inv loaded_drawn [OF inv a(1)] i by (auto simp: trading_inv_def ids_ok_def put_ids)
  then have "wpE (outbox_Add env now meta [AuctionCancelled i]) (\<lambda>_ t. outbox_grows [AuctionCancelled i] ?s t)
      (\<lambda>_ _. False) ?s"
    using env by (intro outbox_Add_wp) (auto simp: env_ok_def)
  then obtain t where t: "outbox_Add env now meta [AuctionCancelled i] ?s = (Inr (), t)"
    "outbox_grows [AuctionCancelled i] ?s t"
    by (auto simp: wpE_def split: prod.splits sum.splits)
  have "ar_state x = ''CANCELLED''" if "x \<in> set (put_auction ?a (ts_auctions s))" "ar_id x = i" for x
    using row_state [OF put_row_auction [OF ok' that(1)]] that(2) i by simp
  then show ?thesis
    using a(2) t st lead ne' ends i cancel top_bids(1) [OF a(1) env]
    by (auto simp: SellerCancelAuction_def AdminCancelAuction_def cancel_with_def db_uow_plain
        CloseAuction_def bindE_def domainE_def liftE_def au_CancelAsSellerOrDraft_def failE_def
        auctions_Save_def outbox_grows_def)
qed

theorem guards_of_running_auctions_witness:
  "fst (SellerCancelAuction tdemo_env 500 (actor ''s'') ''a'' (tdemo_run tdemo_bids)) =
     Inl (AuctionError ErrCannotCancelWithBids)
   \<and> fst (CloseAuction tdemo_env 500 (actor ''s'') ''a'' (tdemo_run tdemo_bids)) =
     Inl ErrCloseForbiddenBeforeEndWithBids"
proof -
  obtain r where r: "ts_auctions (tdemo_run tdemo_bids) = [r]" "ar_id r = ''a''"
    "ar_state r = ''PUBLISHED''" "ar_endsAt r = 300000000040"
    by (rule tdemo_row)
  moreover have "ar_leader r \<noteq> []"
    using tdemo_store r(1) by (simp add: tdemo_facts_def)
  ultimately show ?thesis
    using guards_of_running_auctions [OF tdemo_env_ok tdemo_reachable [OF tdemo_bids_ok], of r "''a''"
        500 "actor ''s''"]
    by (simp add: allowPrivilegedEarlyAuctionClose_def effectiveActorKind_def actor_def)
qed

text \<open>What is saved is what is loaded: an auction that satisfies its invariant comes back from
  \<open>trading_auctions\<close> exactly as it was saved, and saving it does not change what is loaded for any
  other identifier.\<close>

theorem saved_auction_is_loaded:
  assumes ok: "auction_ok a bs" and rows: "distinct (map ar_id (ts_auctions s))"
    and save: "auctions_Save a s = (Inr (), t)"
  shows "auctions_load (au_id a) t = (Inr a, t)
    \<and> (i \<noteq> au_id a \<longrightarrow> fst (auctions_load i t) = fst (auctions_load i s))"
proof -
  have t: "t = s\<lparr>ts_auctions := put_auction a (ts_auctions s)\<rparr>"
    using save by (auto simp: auctions_Save_def split: if_splits)
  obtain r where r: "r \<in> set (ts_auctions t)" "ar_id r = au_id a" "row_auction r = Inr a"
    using put_row [OF ok refl] t by auto
  have "row_select (\<lambda>x. ar_id x = ar_id r) (ts_auctions t) = Some r"
    by (rule row_select_key) (use rows put_distinct t r(1) in auto)
  moreover have "row_select (\<lambda>x. ar_id x = i) (put_auction a rows') = row_select (\<lambda>x. ar_id x = i) rows'"
    if "i \<noteq> au_id a" for rows'
  proof -
    have "row_select (\<lambda>x. ar_id x = i) (row_update (\<lambda>x. ar_id x = au_id a) (set_auction_row a) xs)
        = row_select (\<lambda>x. ar_id x = i) xs" for xs
      using that by (induction xs) (auto simp: row_update_def row_select_Cons)
    then show ?thesis
      using that by (simp add: put_auction_def row_select_snoc split: option.split)
  qed
  ultimately show ?thesis
    using r t by (simp add: auctions_load_def split: option.split)
qed

theorem saved_auction_is_loaded_witness:
  "auctions_load ''a'' (snd (auctions_Save tdemo_auction (empty_trading ())))
     = (Inr tdemo_auction, snd (auctions_Save tdemo_auction (empty_trading ())))"
proof -
  have "auction_ok tdemo_auction []"
    by (simp add: auction_ok_def tdemo_auction_def bids_ascend_def)
  moreover have "auctions_Save tdemo_auction (empty_trading ()) =
      (Inr (), snd (auctions_Save tdemo_auction (empty_trading ())))"
    by (simp add: auctions_Save_def tdemo_auction_def)
  ultimately show ?thesis
    using saved_auction_is_loaded [of tdemo_auction "[]" "empty_trading ()"]
    by (auto simp: empty_trading_def tdemo_auction_def)
qed

text \<open>A bid of \<open>MaxInt64\<close> lets later bids undercut it: \<open>currentPrice + minBidStep\<close> wraps around to
  a negative number, so an auction started at 200 whose price is \<open>MaxInt64\<close> accepts a bid of 1.
  The deposit does not grow with the bid, so the first bid costs its bidder no more than any other.\<close>

theorem price_step_overflows:
  "\<exists>a1 a2 ev1 ev2.
     au_PlaceBid (tdemo_bid ''c1'' max_int64 20) tdemo_auction = Inr (ev1, a1)
     \<and> au_currentPrice a1 = max_int64 \<and> minAllowed a1 = min_int64 + 9
     \<and> au_PlaceBid (tdemo_bid ''c2'' 1 30) a1 = Inr (ev2, a2)
     \<and> au_currentPrice a2 = 1 \<and> au_leader a2 = ''c2''"
proof -
  let ?a1 = "tdemo_auction\<lparr>au_currentPrice := max_int64, au_leader := ''c1'',
    au_endsAt := newEndAt (tdemo_bid ''c1'' max_int64 20) tdemo_auction\<rparr>"
  have "au_PlaceBid (tdemo_bid ''c1'' max_int64 20) tdemo_auction = Inr
      ([BidPlaced ''a'' ''c1'' max_int64 20 (newEndAt (tdemo_bid ''c1'' max_int64 20) tdemo_auction)], ?a1)"
    by (simp add: au_PlaceBid_def tdemo_auction_def tdemo_bid_def minAllowed_def max_int64_def)
  moreover have low: "minAllowed ?a1 = min_int64 + 9"
    by (simp add: minAllowed_def add64_def wrap64_def tdemo_auction_def max_int64_def min_int64_def)
  moreover have "newEndAt (tdemo_bid ''c1'' max_int64 20) tdemo_auction = 300000000020"
    by (simp add: newEndAt_def time_sub_def tdemo_auction_def tdemo_bid_def minutes_def
        max_int64_def min_int64_def)
  moreover from this low have "\<exists>ev. au_PlaceBid (tdemo_bid ''c2'' 1 30) ?a1 = Inr (ev,
      ?a1\<lparr>au_currentPrice := 1, au_leader := ''c2'', au_endsAt := newEndAt (tdemo_bid ''c2'' 1 30) ?a1\<rparr>)"
    by (simp add: PlaceBid_iff min_int64_def) (simp add: tdemo_auction_def tdemo_bid_def)
  ultimately show ?thesis
    by (auto intro!: exI)
qed

text \<open>C20: Concurrent bids can lose the lead. \<open>SELECT ... FOR UPDATE\<close> outside a transaction gives its
  lock up at once, so two bids can both load the auction before either saves it. Then the later
  save wins: after bids of 500 and 300 that both loaded the price 200, both are recorded, but the
  auction shows 300 and the lower bidder as its leader.\<close>

definition race :: "(unit, place_bid_result) trading" where
  "race = bindE (auctions_load ''a'') (\<lambda>a.
     bindE (auctions_load ''a'') (\<lambda>a'.
     bindE (PlaceBid_loaded tdemo_env NoopDepositService 20 (actor ''c1'') ''a'' 500 20 a) (\<lambda>_.
     PlaceBid_loaded tdemo_env NoopDepositService 30 (actor ''c2'') ''a'' 300 30 a')))"

definition race_lost :: "(trading_error + place_bid_result) \<times> unit trading_store \<Rightarrow> bool" where
  "race_lost x \<longleftrightarrow> (case x of (Inl e, _) \<Rightarrow> False | (Inr _, t) \<Rightarrow>
     map (\<lambda>r. (ar_currentPrice r, ar_leader r)) (ts_auctions t) = [(300, ''c2'')]
     \<and> map (\<lambda>b. (br_amount b, br_company b)) (ts_bids t) = [(500, ''c1''), (300, ''c2'')])"


end
