(* ===== verification/Deal_Types.thy ===== *)
theory Deal_Types
  imports Go_Format
begin

section \<open>Deals: statuses, errors, events (internal/deals/deal)\<close>

text \<open>
  The data of the package \<open>deal\<close>. A Go string type with constants is a datatype with one
  constructor per constant and one, \<open>...Other\<close>, for every other string; \<open>const_of\<close> reads a
  string. A \<open>float64\<close>, which this context only copies, is its bit pattern. A pointer that may
  be nil is an option.
\<close>

type_synonym float64 = "64 word"

definition const_of :: "('a \<Rightarrow> string) \<Rightarrow> 'a list \<Rightarrow> (string \<Rightarrow> 'a) \<Rightarrow> string \<Rightarrow> 'a" where
  "const_of txt consts other s = (case List.find (\<lambda>c. txt c = s) consts of Some c \<Rightarrow> c | None \<Rightarrow> other s)"

subsection \<open>status.go\<close>

datatype deal_status =
    DealStatusPending | DealStatusConfirmed | DealStatusContractPrepared
  | DealStatusContractSigned | DealStatusPaymentRequested | DealStatusPaid
  | DealStatusShipmentRequested | DealStatusShipped | DealStatusCompleted
  | DealStatusCancelled | DealStatusOther string

fun deal_status_text :: "deal_status \<Rightarrow> string" where
  "deal_status_text DealStatusPending = ''pending''"
| "deal_status_text DealStatusConfirmed = ''confirmed''"
| "deal_status_text DealStatusContractPrepared = ''contract_prepared''"
| "deal_status_text DealStatusContractSigned = ''contract_signed''"
| "deal_status_text DealStatusPaymentRequested = ''payment_requested''"
| "deal_status_text DealStatusPaid = ''paid''"
| "deal_status_text DealStatusShipmentRequested = ''shipment_requested''"
| "deal_status_text DealStatusShipped = ''shipped''"
| "deal_status_text DealStatusCompleted = ''completed''"
| "deal_status_text DealStatusCancelled = ''cancelled''"
| "deal_status_text (DealStatusOther s) = s"

definition deal_status_of :: "string \<Rightarrow> deal_status" where
  "deal_status_of = const_of deal_status_text
     [DealStatusPending, DealStatusConfirmed, DealStatusContractPrepared, DealStatusContractSigned,
      DealStatusPaymentRequested, DealStatusPaid, DealStatusShipmentRequested, DealStatusShipped,
      DealStatusCompleted, DealStatusCancelled] DealStatusOther"

datatype deal_type = DealTypeDirect | DealTypeAuction | DealTypeOther string

fun deal_type_text :: "deal_type \<Rightarrow> string" where
  "deal_type_text DealTypeDirect = ''direct''"
| "deal_type_text DealTypeAuction = ''auction''"
| "deal_type_text (DealTypeOther s) = s"

definition deal_type_of :: "string \<Rightarrow> deal_type" where
  "deal_type_of = const_of deal_type_text [DealTypeDirect, DealTypeAuction] DealTypeOther"

definition ActiveStatuses :: "deal_status list" where
  "ActiveStatuses = [DealStatusPending, DealStatusConfirmed, DealStatusContractPrepared,
     DealStatusContractSigned, DealStatusPaymentRequested, DealStatusPaid,
     DealStatusShipmentRequested, DealStatusShipped]"

definition ModifiableStatuses :: "deal_status list" where
  "ModifiableStatuses = [DealStatusPending]"

definition ConfirmableStatuses :: "deal_status list" where
  "ConfirmableStatuses = [DealStatusPending]"

definition IsActive :: "deal_status \<Rightarrow> bool" where
  "IsActive s = list_ex (\<lambda>st. s = st) ActiveStatuses"

definition IsModifiable :: "deal_status \<Rightarrow> bool" where
  "IsModifiable s = list_ex (\<lambda>st. s = st) ModifiableStatuses"

definition IsConfirmable :: "deal_status \<Rightarrow> bool" where
  "IsConfirmable s = list_ex (\<lambda>st. s = st) ConfirmableStatuses"

definition CanTransitionTo :: "deal_status \<Rightarrow> deal_status \<Rightarrow> bool" where
  "CanTransitionTo s new =
     (if s = DealStatusCompleted \<or> s = DealStatusCancelled then False
      else case s of
        DealStatusPending \<Rightarrow> new = DealStatusConfirmed \<or> new = DealStatusCancelled
      | DealStatusConfirmed \<Rightarrow> new = DealStatusContractPrepared \<or> new = DealStatusCancelled
      | DealStatusContractPrepared \<Rightarrow> new = DealStatusContractSigned \<or> new = DealStatusCancelled
      | DealStatusContractSigned \<Rightarrow> new = DealStatusPaymentRequested \<or> new = DealStatusCancelled
      | DealStatusPaymentRequested \<Rightarrow> new = DealStatusPaid \<or> new = DealStatusCancelled
      | DealStatusPaid \<Rightarrow> new = DealStatusShipmentRequested \<or> new = DealStatusCancelled
      | DealStatusShipmentRequested \<Rightarrow> new = DealStatusShipped \<or> new = DealStatusCancelled
      | DealStatusShipped \<Rightarrow> new = DealStatusCompleted \<or> new = DealStatusCancelled
      | _ \<Rightarrow> False)"

subsection \<open>confirmation.go: stages, statuses, verification\<close>

datatype confirmation_stage = StageConfirmed | StagePaid | StageShipped | StageCompleted
  | StageCancelled | StageOther string

fun stage_text :: "confirmation_stage \<Rightarrow> string" where
  "stage_text StageConfirmed = ''confirmed''"
| "stage_text StagePaid = ''paid''"
| "stage_text StageShipped = ''shipped''"
| "stage_text StageCompleted = ''completed''"
| "stage_text StageCancelled = ''cancelled''"
| "stage_text (StageOther s) = s"

definition stage_of :: "string \<Rightarrow> confirmation_stage" where
  "stage_of = const_of stage_text
     [StageConfirmed, StagePaid, StageShipped, StageCompleted, StageCancelled] StageOther"

datatype confirmation_status = ConfirmationPending | ConfirmationApproved | ConfirmationRejected
  | ConfirmationExpired | ConfirmationOther string

fun confirmation_status_text :: "confirmation_status \<Rightarrow> string" where
  "confirmation_status_text ConfirmationPending = ''pending''"
| "confirmation_status_text ConfirmationApproved = ''approved''"
| "confirmation_status_text ConfirmationRejected = ''rejected''"
| "confirmation_status_text ConfirmationExpired = ''expired''"
| "confirmation_status_text (ConfirmationOther s) = s"

definition confirmation_status_of :: "string \<Rightarrow> confirmation_status" where
  "confirmation_status_of = const_of confirmation_status_text
     [ConfirmationPending, ConfirmationApproved, ConfirmationRejected, ConfirmationExpired]
     ConfirmationOther"

datatype verification = VerifyManual | VerifyEmail | VerifySignature | VerifyOther string

fun verification_text :: "verification \<Rightarrow> string" where
  "verification_text VerifyManual = ''manual''"
| "verification_text VerifyEmail = ''email''"
| "verification_text VerifySignature = ''signature''"
| "verification_text (VerifyOther s) = s"

definition verification_of :: "string \<Rightarrow> verification" where
  "verification_of = const_of verification_text [VerifyManual, VerifyEmail, VerifySignature] VerifyOther"

fun stage_Valid :: "confirmation_stage \<Rightarrow> bool" where
  "stage_Valid (StageOther s) = False"
| "stage_Valid st = True"

fun confirmation_status_Valid :: "confirmation_status \<Rightarrow> bool" where
  "confirmation_status_Valid (ConfirmationOther s) = False"
| "confirmation_status_Valid st = True"

fun verification_Valid :: "verification \<Rightarrow> bool" where
  "verification_Valid (VerifyOther s) = False"
| "verification_Valid m = True"

subsection \<open>errors.go\<close>

datatype deal_error =
    ErrDealIDRequired | ErrCustomerIDRequired | ErrSupplierIDRequired | ErrSellerCompanyRequired
  | ErrWinnerCompanyRequired | ErrAuctionIDRequired | ErrQuantityPositive | ErrUnitPricePositive
  | ErrPriceMustBePositive | ErrFinalPricePositive | ErrProductNameRequired | ErrCreatedAtRequired
  | ErrSnapshotMissingFields
  | ErrCannotConfirmDeal | ErrCannotPrepareContract | ErrContractAlreadyPrepared
  | ErrCannotSignContract | ErrContractAlreadySigned | ErrContractNumberRequired
  | ErrCannotRequestPayment | ErrPaymentAlreadyRequested | ErrCannotMarkAsPaid
  | ErrCannotRequestShipment | ErrShipmentAlreadyRequested | ErrCannotMarkAsShipped
  | ErrCannotCompleteDeal | ErrCannotCancelDeal | ErrCannotDeclineWinnerAfterConfirm
  | ErrCannotCancelForPaymentTimeout | ErrWinnerForfeitOnlyAuction | ErrDealNotCancelledForFallback
  | ErrWrongSelectedCandidate | ErrStaleWinnerSelection | ErrWinnerSelectionNotActive
  | ErrNoAvailableWinnerCandidate | ErrWinnerFallbackOnlyWhileActive
  | ErrWinnerSelectionMissingForAuctionDeal | ErrWinnerSelectionNotAwaitingPayment
  | ErrWinnerSelectionDealMismatch | ErrDealInvoicePaidInvariant | ErrDealCancelledPayment
  | ErrCannotUpdatePrice | ErrAuctionDealPriceImmutable | ErrInvalidStageTransition
  | ErrPaidOnlyThroughBilling | ErrContractNotPrepared | ErrContractNotSigned
  | ErrProjectionRequired | ErrProjectionNotActive | ErrProjectionNotFound | ErrSelectionNotFound
  | ErrConfirmationRequired | ErrConfirmationIDRequired | ErrConfirmationDealIDRequired
  | ErrConfirmationStageRequired | ErrConfirmationStatusRequired | ErrVerificationMethodRequired
  | ErrRequestedAtRequired | ErrRequestedByUserRequired | ErrRequestedByCompanyRequired
  | ErrCounterpartyCompanyRequired | ErrConfirmationNotFound | ErrConfirmationAlreadyPending
  | ErrConfirmationNotPending | ErrConfirmationExpired | ErrConfirmationNotApproved
  | ErrConfirmationDealMismatch | ErrCounterpartyRequired | ErrNotDealParticipant

subsection \<open>ProductSnapshot and events.go\<close>

record product_snapshot =
  ps_product :: string
  ps_name :: string
  ps_description :: string
  ps_category :: string
  ps_weight :: float64
  ps_unit :: string
  ps_size :: string
  ps_processing :: string
  ps_volume :: float64
  ps_origin :: string

datatype deal_event =
    DealCreated string string string string product_snapshot int time
  | DealConfirmationRequested string string confirmation_stage string string string verification time
      "time option" string
  | DealConfirmationApproved string string confirmation_stage string string time
  | DealConfirmationRejected string string confirmation_stage string string time string
  | DealConfirmed string time
  | ContractPrepared string string time string
  | ContractSigned string string time string string
  | PaymentRequested string string string string string int string "time option" time
  | DealPaid string string string time
  | ShipmentRequested string time
  | DealShipped string string string time
  | DealCompleted string time
  | DealCancelled string string string time
  | WinnerRejected string string string string time string
  | WinnerConfirmed string string string string int time
  | NextWinnerSelected string string string int string time
  | WinnerSelectionFailed string string time string
  | WinnerSelectionFinalized string string string string int int int time
  | PriceUpdated string int int string time

subsection \<open>projection.go\<close>

datatype projection_status = ProjectionStatusActive | ProjectionStatusConverted
  | ProjectionStatusCancelled | ProjectionStatusOther string

fun projection_status_text :: "projection_status \<Rightarrow> string" where
  "projection_status_text ProjectionStatusActive = ''active''"
| "projection_status_text ProjectionStatusConverted = ''converted''"
| "projection_status_text ProjectionStatusCancelled = ''cancelled''"
| "projection_status_text (ProjectionStatusOther s) = s"

definition projection_status_of :: "string \<Rightarrow> projection_status" where
  "projection_status_of = const_of projection_status_text
     [ProjectionStatusActive, ProjectionStatusConverted, ProjectionStatusCancelled]
     ProjectionStatusOther"

record deal_projection =
  pj_auction :: string
  pj_supplier :: string
  pj_snapshot :: product_snapshot
  pj_startPrice :: int
  pj_publishedAt :: time
  pj_status :: projection_status

definition NewDealProjection ::
  "string \<Rightarrow> string \<Rightarrow> product_snapshot \<Rightarrow> int \<Rightarrow> time \<Rightarrow> deal_projection" where
  "NewDealProjection auctionID supplierID snapshot startPrice publishedAt =
     \<lparr>pj_auction = auctionID, pj_supplier = supplierID, pj_snapshot = snapshot,
      pj_startPrice = startPrice, pj_publishedAt = publishedAt, pj_status = ProjectionStatusActive\<rparr>"

definition CanBeConverted :: "deal_projection \<Rightarrow> bool" where
  "CanBeConverted p \<longleftrightarrow> pj_status p = ProjectionStatusActive"

definition MarkAsConverted :: "deal_projection \<Rightarrow> deal_projection" where
  "MarkAsConverted p = p\<lparr>pj_status := ProjectionStatusConverted\<rparr>"

definition MarkAsCancelled :: "deal_projection \<Rightarrow> deal_projection" where
  "MarkAsCancelled p = p\<lparr>pj_status := ProjectionStatusCancelled\<rparr>"

end
