(* ===== verification/Deal_Selection.thy ===== *)
theory Deal_Selection
  imports Deal_Types
begin

section \<open>Winner selections and confirmations (selection.go, confirmation.go)\<close>

text \<open>
  The methods take the object they are called on and return it changed, next to the result: an
  error may leave it changed, as in the code. Their receivers are not nil: the repositories return
  an object or an error.
\<close>

type_synonym ('o, 'a) deal_method = "('o, deal_error, 'a) exec"

subsection \<open>selection.go\<close>

datatype selection_status = WinnerSelectionActive | WinnerSelectionConfirmedPendingPayment
  | WinnerSelectionStatusFinalized | WinnerSelectionExhausted | WinnerSelectionOther string

fun selection_status_text :: "selection_status \<Rightarrow> string" where
  "selection_status_text WinnerSelectionActive = ''active''"
| "selection_status_text WinnerSelectionConfirmedPendingPayment = ''confirmed_pending_payment''"
| "selection_status_text WinnerSelectionStatusFinalized = ''finalized''"
| "selection_status_text WinnerSelectionExhausted = ''exhausted''"
| "selection_status_text (WinnerSelectionOther s) = s"

definition selection_status_of :: "string \<Rightarrow> selection_status" where
  "selection_status_of = const_of selection_status_text
     [WinnerSelectionActive, WinnerSelectionConfirmedPendingPayment, WinnerSelectionStatusFinalized,
      WinnerSelectionExhausted] WinnerSelectionOther"

record winner_selection =
  ws_auction :: string
  ws_candidates :: "string list"
  ws_index :: int
  ws_status :: selection_status
  ws_finalPrice :: int
  ws_wonAt :: time
  ws_supplier :: string
  ws_snapshot :: product_snapshot
  ws_deal :: string

definition NewWinnerSelection ::
  "string \<Rightarrow> string list \<Rightarrow> int \<Rightarrow> time \<Rightarrow> string \<Rightarrow> product_snapshot \<Rightarrow> winner_selection" where
  "NewWinnerSelection auctionID candidates finalPrice wonAt supplierID snapshot =
     \<lparr>ws_auction = auctionID, ws_candidates = candidates, ws_index = 0,
      ws_status = WinnerSelectionActive, ws_finalPrice = finalPrice, ws_wonAt = wonAt,
      ws_supplier = supplierID, ws_snapshot = snapshot, ws_deal = ''''\<rparr>"

definition CurrentCandidate :: "winner_selection \<Rightarrow> string option" where
  "CurrentCandidate s =
     (if ws_status s = WinnerSelectionExhausted then None
      else if ws_index s < 0 \<or> ws_index s \<ge> int (length (ws_candidates s)) then None
      else if ws_candidates s ! nat (ws_index s) = '''' then None
      else Some (ws_candidates s ! nat (ws_index s)))"

definition Advance :: "winner_selection \<Rightarrow> bool \<times> winner_selection" where
  "Advance s =
     (if ws_status s \<noteq> WinnerSelectionActive then (False, s)
      else
        let nxt = ws_index s + 1 in
        if nxt \<ge> int (length (ws_candidates s))
        then (False, s\<lparr>ws_status := WinnerSelectionExhausted, ws_deal := ''''\<rparr>)
        else (True, s\<lparr>ws_index := nxt, ws_deal := ''''\<rparr>))"

definition MarkCurrentConfirmed :: "string \<Rightarrow> (winner_selection, unit) deal_method" where
  "MarkCurrentConfirmed dealID s =
     (if dealID = '''' then (Inl ErrDealIDRequired, s)
      else if ws_status s \<noteq> WinnerSelectionActive then (Inl ErrWinnerSelectionNotActive, s)
      else if ws_deal s \<noteq> '''' \<and> ws_deal s \<noteq> dealID then (Inl ErrStaleWinnerSelection, s)
      else
        let s' = s\<lparr>ws_deal := dealID\<rparr> in
        case CurrentCandidate s' of
          None \<Rightarrow> (Inl ErrNoAvailableWinnerCandidate, s')
        | Some _ \<Rightarrow> (Inr (), s'\<lparr>ws_status := WinnerSelectionConfirmedPendingPayment\<rparr>))"

definition ReopenAfterPaymentTimeout :: "string \<Rightarrow> (winner_selection, unit) deal_method" where
  "ReopenAfterPaymentTimeout dealID s =
     (if dealID = '''' then (Inl ErrDealIDRequired, s)
      else if ws_status s \<noteq> WinnerSelectionConfirmedPendingPayment
        then (Inl ErrWinnerSelectionNotAwaitingPayment, s)
      else if ws_deal s \<noteq> dealID then (Inl ErrWinnerSelectionDealMismatch, s)
      else (Inr (), s\<lparr>ws_status := WinnerSelectionActive, ws_deal := ''''\<rparr>))"

definition MarkFinalized :: "string \<Rightarrow> (winner_selection, unit) deal_method" where
  "MarkFinalized dealID s =
     (if dealID = '''' then (Inl ErrDealIDRequired, s)
      else if ws_status s = WinnerSelectionStatusFinalized
        then (if ws_deal s = dealID then (Inr (), s) else (Inl ErrWinnerSelectionDealMismatch, s))
      else if ws_status s \<noteq> WinnerSelectionConfirmedPendingPayment
        then (Inl ErrWinnerSelectionNotAwaitingPayment, s)
      else if ws_deal s \<noteq> dealID then (Inl ErrWinnerSelectionDealMismatch, s)
      else case CurrentCandidate s of
          None \<Rightarrow> (Inl ErrNoAvailableWinnerCandidate, s)
        | Some _ \<Rightarrow> (Inr (), s\<lparr>ws_status := WinnerSelectionStatusFinalized\<rparr>))"

definition MarkExhausted :: "winner_selection \<Rightarrow> winner_selection" where
  "MarkExhausted s = s\<lparr>ws_status := WinnerSelectionExhausted, ws_deal := ''''\<rparr>"

subsection \<open>confirmation.go\<close>

text \<open>\<open>DealConfirmationParams\<close> has the fields of the entity, so it is the same record.\<close>

record deal_confirmation =
  dc_id :: string
  dc_deal :: string
  dc_stage :: confirmation_stage
  dc_by_user :: string
  dc_by_company :: string
  dc_counterparty :: string
  dc_status :: confirmation_status
  dc_verification :: verification
  dc_token_hash :: string
  dc_signature :: string
  dc_requestedAt :: time
  dc_approvedAt :: "time option"
  dc_rejectedAt :: "time option"
  dc_expiresAt :: "time option"
  dc_comment :: string
  dc_reason :: string

definition confirmation_Validate :: "deal_confirmation \<Rightarrow> deal_error option" where
  "confirmation_Validate c =
     (if dc_id c = '''' then Some ErrConfirmationIDRequired
      else if dc_deal c = '''' then Some ErrConfirmationDealIDRequired
      else if \<not> stage_Valid (dc_stage c) then Some ErrConfirmationStageRequired
      else if dc_by_user c = '''' then Some ErrRequestedByUserRequired
      else if dc_by_company c = '''' then Some ErrRequestedByCompanyRequired
      else if dc_counterparty c = '''' then Some ErrCounterpartyCompanyRequired
      else if dc_by_company c = dc_counterparty c then Some ErrCounterpartyRequired
      else if \<not> confirmation_status_Valid (dc_status c) then Some ErrConfirmationStatusRequired
      else if \<not> verification_Valid (dc_verification c) then Some ErrVerificationMethodRequired
      else if dc_requestedAt c = 0 then Some ErrRequestedAtRequired
      else None)"

definition generateConfirmationID :: "time \<Rightarrow> string" where
  "generateConfirmationID now = ''dcf_'' @ format_stamp_nano now"

definition NewDealConfirmation :: "time \<Rightarrow> deal_confirmation \<Rightarrow> deal_error + deal_confirmation" where
  "NewDealConfirmation now params =
     (let c1 = (if dc_id params = '''' then params\<lparr>dc_id := generateConfirmationID now\<rparr> else params);
          c2 = (if dc_status c1 = ConfirmationOther ''''
                then c1\<lparr>dc_status := ConfirmationPending\<rparr> else c1);
          c3 = (if dc_requestedAt c2 = 0 then c2\<lparr>dc_requestedAt := now\<rparr> else c2)
      in case confirmation_Validate c3 of Some e \<Rightarrow> Inl e | None \<Rightarrow> Inr c3)"

text \<open>The guards \<open>Approve\<close> and \<open>Reject\<close> share, in the order of both.\<close>

definition resolve_guard ::
  "string \<Rightarrow> string \<Rightarrow> time \<Rightarrow> deal_confirmation \<Rightarrow> deal_error option" where
  "resolve_guard company user at' c =
     (if dc_status c \<noteq> ConfirmationPending then Some ErrConfirmationNotPending
      else if company = '''' \<or> user = '''' then Some ErrCounterpartyRequired
      else if company = dc_by_company c then Some ErrCounterpartyRequired
      else if company \<noteq> dc_counterparty c then Some ErrNotDealParticipant
      else case dc_expiresAt c of
          None \<Rightarrow> None
        | Some x \<Rightarrow> if at' > x then Some ErrConfirmationExpired else None)"

definition expire_if :: "deal_error \<Rightarrow> deal_confirmation \<Rightarrow> deal_confirmation" where
  "expire_if e c = (if e = ErrConfirmationExpired then c\<lparr>dc_status := ConfirmationExpired\<rparr> else c)"

definition Approve ::
  "string \<Rightarrow> string \<Rightarrow> time \<Rightarrow> (deal_confirmation, deal_event list) deal_method" where
  "Approve company user at' c = (case resolve_guard company user at' c of
      Some e \<Rightarrow> (Inl e, expire_if e c)
    | None \<Rightarrow> (Inr [DealConfirmationApproved (dc_id c) (dc_deal c) (dc_stage c) user company at'],
        c\<lparr>dc_status := ConfirmationApproved, dc_approvedAt := Some at'\<rparr>))"

definition Reject ::
  "string \<Rightarrow> string \<Rightarrow> string \<Rightarrow> time \<Rightarrow> (deal_confirmation, deal_event list) deal_method" where
  "Reject company user reason at' c = (case resolve_guard company user at' c of
      Some e \<Rightarrow> (Inl e, expire_if e c)
    | None \<Rightarrow>
        (Inr [DealConfirmationRejected (dc_id c) (dc_deal c) (dc_stage c) user company at' reason],
         c\<lparr>dc_status := ConfirmationRejected, dc_rejectedAt := Some at', dc_reason := reason\<rparr>))"

end
