(* ===== verification/Deal.thy ===== *)
theory Deal
  imports Deal_Selection
begin

section \<open>The deal (deal.go, factory.go, cancel_reasons.go)\<close>

text \<open>
  \<open>now\<close> is the value \<open>time.Now()\<close> returns. \<open>local\<close> turns it into the wall clock of the process,
  which \<open>generateID\<close> formats.
\<close>

record contract_info =
  ci_number :: string
  ci_preparedAt :: "time option"
  ci_signedAt :: "time option"
  ci_signedBy :: string
  ci_signatureRef :: string
  ci_documentURL :: string

record deal =
  d_id :: string
  d_customer :: string
  d_supplier :: string
  d_auction :: string
  d_quantity :: int
  d_unitPrice :: int
  d_status :: deal_status
  d_type :: deal_type
  d_createdAt :: time
  d_confirmedAt :: "time option"
  d_contractSignDeadline :: "time option"
  d_paymentDeadline :: "time option"
  d_contract :: "contract_info option"
  d_snapshot :: product_snapshot

type_synonym deal_call = "(deal, deal_event list) deal_method"

definition IsParticipant :: "deal \<Rightarrow> string \<Rightarrow> bool" where
  "IsParticipant d company \<longleftrightarrow> company \<noteq> '''' \<and> (company = d_customer d \<or> company = d_supplier d)"

definition CalculateTotal :: "deal \<Rightarrow> int" where
  "CalculateTotal d = mul64 (d_quantity d) (d_unitPrice d)"

definition hasSignedContract :: "deal \<Rightarrow> bool" where
  "hasSignedContract d = (case d_contract d of None \<Rightarrow> False | Some c \<Rightarrow> ci_signedAt c \<noteq> None)"

subsection \<open>The steps of a deal\<close>

definition deal_Confirm :: "time \<Rightarrow> deal_call" where
  "deal_Confirm now d =
     (if d_status d \<noteq> DealStatusPending then (Inl ErrCannotConfirmDeal, d)
      else (Inr [DealConfirmed (d_id d) now],
            d\<lparr>d_status := DealStatusConfirmed, d_confirmedAt := Some now\<rparr>))"

definition no_contract :: contract_info where
  "no_contract = \<lparr>ci_number = '''', ci_preparedAt = None, ci_signedAt = None, ci_signedBy = '''',
     ci_signatureRef = '''', ci_documentURL = ''''\<rparr>"

definition deal_PrepareContract :: "time \<Rightarrow> string \<Rightarrow> string \<Rightarrow> deal_call" where
  "deal_PrepareContract now contractNumber documentURL d =
     (if d_status d \<noteq> DealStatusConfirmed \<and> d_status d \<noteq> DealStatusPending
        then (Inl ErrCannotPrepareContract, d)
      else if (case d_contract d of None \<Rightarrow> False | Some c \<Rightarrow> ci_preparedAt c \<noteq> None)
        then (Inl ErrContractAlreadyPrepared, d)
      else if contractNumber = '''' then (Inl ErrContractNumberRequired, d)
      else
        let c = (case d_contract d of None \<Rightarrow> no_contract | Some c \<Rightarrow> c) in
        (Inr [ContractPrepared (d_id d) contractNumber now documentURL],
         d\<lparr>d_contract := Some (c\<lparr>ci_number := contractNumber, ci_preparedAt := Some now,
             ci_documentURL := documentURL\<rparr>),
           d_status := DealStatusContractPrepared\<rparr>))"

definition deal_SignContract :: "time \<Rightarrow> string \<Rightarrow> string \<Rightarrow> deal_call" where
  "deal_SignContract now signedBy signatureRef d =
     (if d_status d \<noteq> DealStatusContractPrepared then (Inl ErrCannotSignContract, d)
      else case d_contract d of
        None \<Rightarrow> (Inl ErrContractNotPrepared, d)
      | Some c \<Rightarrow>
          if ci_preparedAt c = None then (Inl ErrContractNotPrepared, d)
          else if ci_signedAt c \<noteq> None then (Inl ErrContractAlreadySigned, d)
          else (Inr [ContractSigned (d_id d) (ci_number c) now signedBy signatureRef],
            d\<lparr>d_contract := Some (c\<lparr>ci_signedAt := Some now, ci_signedBy := signedBy,
                ci_signatureRef := signatureRef\<rparr>),
              d_paymentDeadline := Some (now + hours 24), d_status := DealStatusContractSigned\<rparr>))"

definition deal_RequestPayment :: "time \<Rightarrow> string \<Rightarrow> time option \<Rightarrow> deal_call" where
  "deal_RequestPayment now invoiceNumber dueDate d =
     (if d_status d = DealStatusPaymentRequested then (Inl ErrPaymentAlreadyRequested, d)
      else if d_status d \<noteq> DealStatusContractSigned then (Inl ErrCannotRequestPayment, d)
      else if \<not> hasSignedContract d then (Inl ErrContractNotSigned, d)
      else
        (Inr [PaymentRequested (d_id d) (d_auction d) (d_customer d) (d_supplier d) ''RUB''
                (CalculateTotal d) invoiceNumber dueDate now],
         d\<lparr>d_status := DealStatusPaymentRequested\<rparr>))"

definition deal_MarkAsPaid :: "time \<Rightarrow> string \<Rightarrow> string \<Rightarrow> deal_call" where
  "deal_MarkAsPaid now paymentID paymentType d =
     (if d_status d \<noteq> DealStatusPaymentRequested then (Inl ErrCannotMarkAsPaid, d)
      else (Inr [DealPaid (d_id d) paymentID paymentType now], d\<lparr>d_status := DealStatusPaid\<rparr>))"

definition deal_RequestShipment :: "time \<Rightarrow> deal_call" where
  "deal_RequestShipment now d =
     (if d_status d \<noteq> DealStatusPaid then (Inl ErrCannotRequestShipment, d)
      else if d_status d = DealStatusShipmentRequested then (Inl ErrShipmentAlreadyRequested, d)
      else (Inr [ShipmentRequested (d_id d) now], d\<lparr>d_status := DealStatusShipmentRequested\<rparr>))"

definition deal_MarkAsShipped :: "time \<Rightarrow> string \<Rightarrow> string \<Rightarrow> deal_call" where
  "deal_MarkAsShipped now trackingNumber carrier d =
     (if d_status d \<noteq> DealStatusShipmentRequested then (Inl ErrCannotMarkAsShipped, d)
      else (Inr [DealShipped (d_id d) trackingNumber carrier now], d\<lparr>d_status := DealStatusShipped\<rparr>))"

definition deal_Complete :: "time \<Rightarrow> deal_call" where
  "deal_Complete now d =
     (if d_status d \<noteq> DealStatusShipped then (Inl ErrCannotCompleteDeal, d)
      else (Inr [DealCompleted (d_id d) now], d\<lparr>d_status := DealStatusCompleted\<rparr>))"

definition deal_UpdatePrice :: "time \<Rightarrow> int \<Rightarrow> string \<Rightarrow> deal_call" where
  "deal_UpdatePrice now newPrice updatedBy d =
     (if d_type d = DealTypeAuction then (Inl ErrAuctionDealPriceImmutable, d)
      else if \<not> IsModifiable (d_status d) then (Inl ErrCannotUpdatePrice, d)
      else if newPrice \<le> 0 then (Inl ErrPriceMustBePositive, d)
      else (Inr [PriceUpdated (d_id d) (d_unitPrice d) newPrice updatedBy now],
            d\<lparr>d_unitPrice := newPrice\<rparr>))"

subsection \<open>Cancelling (cancel_reasons.go)\<close>

definition DealCancelReasonWinnerRejected :: string where
  "DealCancelReasonWinnerRejected = ''WINNER_REJECTED''"
definition DealCancelReasonConfirmationTimeout :: string where
  "DealCancelReasonConfirmationTimeout = ''CONFIRMATION_TIMEOUT''"
definition DealCancelReasonLegacyDeadlineExceeded :: string where
  "DealCancelReasonLegacyDeadlineExceeded = ''deadline exceeded''"
definition DealCancelReasonPaymentTimeout :: string where
  "DealCancelReasonPaymentTimeout = ''PAYMENT_TIMEOUT''"
definition DealCancelReasonBuyerInitiatedCancel :: string where
  "DealCancelReasonBuyerInitiatedCancel = ''BUYER_INITIATED_CANCEL''"

lemmas cancel_reasons = DealCancelReasonWinnerRejected_def DealCancelReasonConfirmationTimeout_def
  DealCancelReasonLegacyDeadlineExceeded_def DealCancelReasonPaymentTimeout_def
  DealCancelReasonBuyerInitiatedCancel_def

definition ReasonForfeitsWinnerDeposit :: "string \<Rightarrow> bool" where
  "ReasonForfeitsWinnerDeposit reason \<longleftrightarrow> reason = DealCancelReasonWinnerRejected
     \<or> reason = DealCancelReasonConfirmationTimeout \<or> reason = DealCancelReasonLegacyDeadlineExceeded"

definition NormalizeWinnerForfeitReason :: "string \<Rightarrow> string" where
  "NormalizeWinnerForfeitReason reason =
     (if reason = DealCancelReasonLegacyDeadlineExceeded then DealCancelReasonConfirmationTimeout
      else reason)"

definition statusEligibleForBuyerInitiatedDepositForfeit :: "deal_status \<Rightarrow> bool" where
  "statusEligibleForBuyerInitiatedDepositForfeit st \<longleftrightarrow>
     st = DealStatusPending \<or> st = DealStatusConfirmed \<or> st = DealStatusContractPrepared
     \<or> st = DealStatusContractSigned \<or> st = DealStatusPaymentRequested"

definition winner_rejected :: "time \<Rightarrow> string \<Rightarrow> deal \<Rightarrow> deal_event" where
  "winner_rejected now reason d =
     WinnerRejected (d_auction d) (d_id d) (d_auction d) (d_customer d) now reason"

definition deal_Cancel :: "time \<Rightarrow> string \<Rightarrow> string \<Rightarrow> deal_call" where
  "deal_Cancel now reason cancelledBy d =
     (if d_status d = DealStatusCompleted \<or> d_status d = DealStatusCancelled
        then (Inl ErrCannotCancelDeal, d)
      else
        let cancelEv = DealCancelled (d_id d) reason cancelledBy now;
            d' = d\<lparr>d_status := DealStatusCancelled\<rparr> in
        if ReasonForfeitsWinnerDeposit reason then
          (if d_type d \<noteq> DealTypeAuction then (Inl ErrWinnerForfeitOnlyAuction, d)
           else if d_status d \<noteq> DealStatusPending then (Inl ErrCannotDeclineWinnerAfterConfirm, d)
           else if d_auction d = '''' then (Inl ErrAuctionIDRequired, d)
           else (Inr [cancelEv, winner_rejected now (NormalizeWinnerForfeitReason reason) d], d'))
        else if reason = DealCancelReasonPaymentTimeout then
          (if d_type d \<noteq> DealTypeAuction then (Inl ErrWinnerForfeitOnlyAuction, d)
           else if d_auction d = '''' then (Inl ErrAuctionIDRequired, d)
           else if d_status d = DealStatusConfirmed \<or> d_status d = DealStatusContractPrepared
                \<or> d_status d = DealStatusContractSigned \<or> d_status d = DealStatusPaymentRequested
             then (Inr [cancelEv, winner_rejected now DealCancelReasonPaymentTimeout d], d')
           else (Inl ErrCannotCancelForPaymentTimeout, d))
        else if d_type d = DealTypeAuction \<and> d_auction d \<noteq> '''' \<and> cancelledBy = d_customer d
                \<and> statusEligibleForBuyerInitiatedDepositForfeit (d_status d)
          then (Inr [cancelEv, winner_rejected now DealCancelReasonBuyerInitiatedCancel d], d')
        else (Inr [cancelEv], d'))"

subsection \<open>Confirmations of a deal\<close>

definition counterpartyCompanyID :: "deal \<Rightarrow> string \<Rightarrow> deal_error + string" where
  "counterpartyCompanyID d company =
     (if company = d_customer d then Inr (d_supplier d)
      else if company = d_supplier d then Inr (d_customer d)
      else Inl ErrNotDealParticipant)"

fun canRequestConfirmationStage :: "deal_status \<Rightarrow> confirmation_stage \<Rightarrow> bool" where
  "canRequestConfirmationStage st StageConfirmed = (st = DealStatusPending)"
| "canRequestConfirmationStage st StagePaid = False"
| "canRequestConfirmationStage st StageShipped = (st = DealStatusShipmentRequested)"
| "canRequestConfirmationStage st StageCompleted = (st = DealStatusShipped)"
| "canRequestConfirmationStage st StageCancelled =
     (st \<noteq> DealStatusCompleted \<and> st \<noteq> DealStatusCancelled)"
| "canRequestConfirmationStage st (StageOther s) = False"

definition confirmation_requested :: "deal_confirmation \<Rightarrow> deal_event" where
  "confirmation_requested c = DealConfirmationRequested (dc_id c) (dc_deal c) (dc_stage c)
     (dc_by_user c) (dc_by_company c) (dc_counterparty c) (dc_verification c) (dc_requestedAt c)
     (dc_expiresAt c) (dc_comment c)"

definition deal_RequestConfirmation ::
  "time \<Rightarrow> confirmation_stage \<Rightarrow> string \<Rightarrow> string \<Rightarrow> verification \<Rightarrow> string \<Rightarrow> string \<Rightarrow> string
    \<Rightarrow> time option \<Rightarrow> deal \<Rightarrow> deal_error + (deal_confirmation \<times> deal_event list)" where
  "deal_RequestConfirmation now stage byCompany byUser verif tokenHash signatureRef comment expiresAt d =
     (if \<not> IsParticipant d byCompany then Inl ErrNotDealParticipant
      else case counterpartyCompanyID d byCompany of
        Inl e \<Rightarrow> Inl e
      | Inr counterparty \<Rightarrow>
          if \<not> canRequestConfirmationStage (d_status d) stage then Inl ErrInvalidStageTransition
          else map_sum (\<lambda>e. e) (\<lambda>c. (c, [confirmation_requested c]))
            (NewDealConfirmation now
              \<lparr>dc_id = '''', dc_deal = d_id d, dc_stage = stage, dc_by_user = byUser,
               dc_by_company = byCompany, dc_counterparty = counterparty,
               dc_status = ConfirmationOther '''', dc_verification = verif,
               dc_token_hash = tokenHash, dc_signature = signatureRef, dc_requestedAt = now,
               dc_approvedAt = None, dc_rejectedAt = None, dc_expiresAt = expiresAt,
               dc_comment = comment, dc_reason = ''''\<rparr>))"

definition deal_ApplyApprovedConfirmation :: "time \<Rightarrow> deal_confirmation \<Rightarrow> deal_call" where
  "deal_ApplyApprovedConfirmation now c d =
     (if dc_deal c \<noteq> d_id d then (Inl ErrConfirmationDealMismatch, d)
      else if dc_status c \<noteq> ConfirmationApproved then (Inl ErrConfirmationNotApproved, d)
      else if \<not> canRequestConfirmationStage (d_status d) (dc_stage c)
        then (Inl ErrInvalidStageTransition, d)
      else case dc_stage c of
        StageConfirmed \<Rightarrow> deal_Confirm now d
      | StagePaid \<Rightarrow> (Inl ErrPaidOnlyThroughBilling, d)
      | StageShipped \<Rightarrow> deal_MarkAsShipped now '''' '''' d
      | StageCompleted \<Rightarrow> deal_Complete now d
      | StageCancelled \<Rightarrow>
          deal_Cancel now (if dc_comment c = '''' then ''cancelled by approved confirmation''
                           else dc_comment c) (dc_by_company c) d
      | StageOther _ \<Rightarrow> (Inl ErrInvalidStageTransition, d))"

subsection \<open>Validation, rehydration, the factory\<close>

definition deal_Validate :: "deal \<Rightarrow> deal_error option" where
  "deal_Validate d =
     (if d_id d = '''' then Some ErrDealIDRequired
      else if d_customer d = '''' then Some ErrCustomerIDRequired
      else if d_supplier d = '''' then Some ErrSupplierIDRequired
      else if d_auction d = '''' \<and> d_type d = DealTypeAuction then Some ErrAuctionIDRequired
      else if d_quantity d \<le> 0 then Some ErrQuantityPositive
      else if d_unitPrice d \<le> 0 then Some ErrUnitPricePositive
      else if ps_name (d_snapshot d) = '''' then Some ErrProductNameRequired
      else if d_createdAt d = 0 then Some ErrCreatedAtRequired
      else None)"

definition deal_Rehydrate :: "deal \<Rightarrow> deal_error + deal" where
  "deal_Rehydrate params = (case deal_Validate params of Some e \<Rightarrow> Inl e | None \<Rightarrow> Inr params)"

definition generateID :: "(time \<Rightarrow> time) \<Rightarrow> time \<Rightarrow> string" where
  "generateID local now = ''deal_'' @ format_stamp_nano (local now)"

text \<open>The literal both constructors of the factory build, and its event.\<close>

definition new_deal ::
  "string \<Rightarrow> string \<Rightarrow> string \<Rightarrow> product_snapshot \<Rightarrow> string \<Rightarrow> int \<Rightarrow> time \<Rightarrow> deal \<times> deal_event list" where
  "new_deal id' auctionID supplierID snapshot winner finalPrice wonAt =
     (\<lparr>d_id = id', d_customer = winner, d_supplier = supplierID, d_auction = auctionID,
       d_quantity = 1, d_unitPrice = finalPrice, d_status = DealStatusPending,
       d_type = DealTypeAuction, d_createdAt = wonAt, d_confirmedAt = None,
       d_contractSignDeadline = Some (wonAt + hours 24), d_paymentDeadline = None,
       d_contract = None, d_snapshot = snapshot\<rparr>,
      [DealCreated id' auctionID winner supplierID snapshot finalPrice wonAt])"

definition CreateFromProjection ::
  "(time \<Rightarrow> time) \<Rightarrow> time \<Rightarrow> string \<Rightarrow> int \<Rightarrow> time
    \<Rightarrow> (deal_projection, deal \<times> deal_event list) deal_method" where
  "CreateFromProjection local now winner finalPrice wonAt p =
     (if \<not> CanBeConverted p then (Inl ErrProjectionNotActive, p)
      else if winner = '''' then (Inl ErrWinnerCompanyRequired, p)
      else if finalPrice \<le> 0 then (Inl ErrPriceMustBePositive, p)
      else (Inr (new_deal (generateID local now) (pj_auction p) (pj_supplier p) (pj_snapshot p)
                   winner finalPrice wonAt), MarkAsConverted p))"

definition CreateFromSelection ::
  "(time \<Rightarrow> time) \<Rightarrow> time \<Rightarrow> string \<Rightarrow> string \<Rightarrow> product_snapshot \<Rightarrow> string \<Rightarrow> int \<Rightarrow> time
    \<Rightarrow> deal_error + (deal \<times> deal_event list)" where
  "CreateFromSelection local now auctionID supplierID snapshot winner finalPrice wonAt =
     (if auctionID = '''' then Inl ErrAuctionIDRequired
      else if supplierID = '''' then Inl ErrSupplierIDRequired
      else if winner = '''' then Inl ErrWinnerCompanyRequired
      else if finalPrice \<le> 0 then Inl ErrPriceMustBePositive
      else if wonAt = 0 then Inl ErrCreatedAtRequired
      else Inr (new_deal (generateID local now) auctionID supplierID snapshot winner finalPrice wonAt))"

end
