(* ===== verification/Deals_Store.thy ===== *)
theory Deals_Store
  imports Deal Outbox Sorting Transactions
begin

section \<open>The deals tables and repositories (internal/deals/postgres)\<close>

text \<open>
  \<open>deals_store\<close> holds one list of rows per table of migrations 008 - 010, 015, 021 and 022 and
  the deals rows of the outbox. A repository method is its SQL statement, with the conversions of
  the Go code between the columns and the entity; the ten columns \<open>product_*\<close> are one field. The
  JSON column of the candidates is the list it encodes. The constraints of
  \<open>deal_confirmations\<close> (a deal that exists, one pending row per deal and stage) are the errors of
  its \<open>Save\<close>.

  \<open>deals_env\<close> holds what the source tree does not define: the values of \<open>crypto/rand\<close>, the time
  zone of the process, how \<open>slices.SortFunc\<close> and \<open>ORDER BY\<close> break ties.
\<close>

datatype deals_error =
    DealError deal_error
  | AppDealNotFound | AppAuctionIDRequired | AppDealIDRequired | AppWinnerCompanyRequired
  | AppFinalPriceRequired | AppPublishedAtRequired | AppWonAtRequired | AppWinnerCandidatesRequired
  | AppNoAvailableWinner | AppMultipleActiveDealsForAuction | AppSupplierIDRequired
  | AppConfirmationIDRequired | AppPaymentIDRequired | AppPaymentTypeRequired
  | AppTrackingNumberRequired | AppCarrierRequired | AppReasonRequired | AppCancelledByRequired
  | AppUpdatedByRequired | AppSignedByRequired | AppSignatureRefRequired
  | AppStartPriceMustBePositive
  | DealsUniqueViolation | DealsForeignKeyViolation

record deal_row =
  dr_id :: string
  dr_customer :: string
  dr_supplier :: string
  dr_auction :: string
  dr_quantity :: int
  dr_unit_price :: int
  dr_status :: string
  dr_type :: string
  dr_created_at :: time
  dr_confirmed_at :: "time option"
  dr_sign_deadline :: "time option"
  dr_payment_deadline :: "time option"
  dr_contract_number :: "string option"
  dr_contract_prepared :: "time option"
  dr_contract_signed :: "time option"
  dr_signed_by :: "string option"
  dr_signature_ref :: "string option"
  dr_document_url :: "string option"
  dr_product :: product_snapshot

record confirmation_row =
  cr_id :: string
  cr_deal :: string
  cr_stage :: string
  cr_by_user :: string
  cr_by_company :: string
  cr_counterparty :: string
  cr_status :: string
  cr_verification :: string
  cr_token_hash :: "string option"
  cr_signature :: "string option"
  cr_requested_at :: time
  cr_approved_at :: "time option"
  cr_rejected_at :: "time option"
  cr_expires_at :: "time option"
  cr_comment :: "string option"
  cr_reason :: "string option"

record projection_row =
  pr_auction :: string
  pr_supplier :: string
  pr_start_price :: int
  pr_published_at :: time
  pr_status :: string
  pr_product :: product_snapshot

record selection_row =
  sr_auction :: string
  sr_candidates :: "string list"
  sr_index :: int
  sr_status :: string
  sr_final_price :: int
  sr_won_at :: time
  sr_supplier :: string
  sr_deal :: "string option"
  sr_product :: product_snapshot

record deals_store =
  dst_deals :: "deal_row list"
  dst_confirmations :: "confirmation_row list"
  dst_projections :: "projection_row list"
  dst_selections :: "selection_row list"
  dst_outbox :: "deal_event outbox_row list"
  dst_ids :: nat

type_synonym 'a deals = "(deals_store, deals_error, 'a) exec"

record deals_env =
  de_id :: "nat \<Rightarrow> string"
  de_local :: "time \<Rightarrow> time"
  de_sort_func :: "(deal_confirmation \<Rightarrow> deal_confirmation \<Rightarrow> bool) \<Rightarrow> deal_confirmation list
    \<Rightarrow> deal_confirmation list"
  de_order_rows :: "(deal_row \<Rightarrow> deal_row \<Rightarrow> bool) \<Rightarrow> deal_row list \<Rightarrow> deal_row list"

definition nullString :: "string \<Rightarrow> string option" where
  "nullString s = (if s = '''' then None else Some s)"

definition NullString_String :: "string option \<Rightarrow> string" where
  "NullString_String x = (case x of None \<Rightarrow> '''' | Some s \<Rightarrow> s)"

subsection \<open>deal_repository.go\<close>

definition deal_row_of :: "deal \<Rightarrow> deal_row" where
  "deal_row_of d =
     (let c = (case d_contract d of None \<Rightarrow> no_contract | Some c \<Rightarrow> c) in
      \<lparr>dr_id = d_id d, dr_customer = d_customer d, dr_supplier = d_supplier d,
       dr_auction = d_auction d, dr_quantity = d_quantity d, dr_unit_price = d_unitPrice d,
       dr_status = deal_status_text (d_status d), dr_type = deal_type_text (d_type d),
       dr_created_at = d_createdAt d, dr_confirmed_at = d_confirmedAt d,
       dr_sign_deadline = d_contractSignDeadline d, dr_payment_deadline = d_paymentDeadline d,
       dr_contract_number = nullString (ci_number c), dr_contract_prepared = ci_preparedAt c,
       dr_contract_signed = ci_signedAt c, dr_signed_by = nullString (ci_signedBy c),
       dr_signature_ref = nullString (ci_signatureRef c),
       dr_document_url = nullString (ci_documentURL c), dr_product = d_snapshot d\<rparr>)"

definition row_contract :: "deal_row \<Rightarrow> contract_info option" where
  "row_contract r =
     (if dr_contract_number r \<noteq> None \<or> dr_contract_prepared r \<noteq> None
        \<or> dr_contract_signed r \<noteq> None \<or> dr_signed_by r \<noteq> None \<or> dr_signature_ref r \<noteq> None
        \<or> dr_document_url r \<noteq> None
      then Some \<lparr>ci_number = NullString_String (dr_contract_number r),
        ci_preparedAt = dr_contract_prepared r, ci_signedAt = dr_contract_signed r,
        ci_signedBy = NullString_String (dr_signed_by r),
        ci_signatureRef = NullString_String (dr_signature_ref r),
        ci_documentURL = NullString_String (dr_document_url r)\<rparr>
      else None)"

definition row_deal_params :: "deal_row \<Rightarrow> deal" where
  "row_deal_params r =
     \<lparr>d_id = dr_id r, d_customer = dr_customer r, d_supplier = dr_supplier r,
      d_auction = dr_auction r, d_quantity = dr_quantity r, d_unitPrice = dr_unit_price r,
      d_status = deal_status_of (dr_status r), d_type = deal_type_of (dr_type r),
      d_createdAt = dr_created_at r, d_confirmedAt = dr_confirmed_at r,
      d_contractSignDeadline = dr_sign_deadline r, d_paymentDeadline = dr_payment_deadline r,
      d_contract = row_contract r, d_snapshot = dr_product r\<rparr>"

definition row_deal :: "deal_row \<Rightarrow> deal_error + deal" where
  "row_deal r = deal_Rehydrate (row_deal_params r)"

definition deals_Save :: "deal \<Rightarrow> unit deals" where
  "deals_Save d = modifyE (\<lambda>s. s\<lparr>dst_deals := row_upsert dr_id (deal_row_of d) (dst_deals s)\<rparr>)"

definition deals_GetByID :: "string \<Rightarrow> deal deals" where
  "deals_GetByID dealID s =
     (case row_select (\<lambda>r. dr_id r = dealID) (dst_deals s) of
        None \<Rightarrow> (Inl AppDealNotFound, s)
      | Some r \<Rightarrow> (map_sum DealError (\<lambda>d. d) (row_deal r), s))"

text \<open>\<open>FOR UPDATE\<close> locks the row until the end of its transaction and reads the same.\<close>

definition deals_GetByIDForUpdate :: "string \<Rightarrow> deal deals" where
  "deals_GetByIDForUpdate = deals_GetByID"

definition deals_GetActiveByAuctionID :: "string \<Rightarrow> deal deals" where
  "deals_GetActiveByAuctionID auctionID =
     bindE (readE (\<lambda>s. map dr_id (filter
         (\<lambda>r. dr_auction r = auctionID \<and> dr_status r \<noteq> ''cancelled'') (dst_deals s)))) (\<lambda>ids.
     case ids of
       [] \<Rightarrow> failE AppDealNotFound
     | [i] \<Rightarrow> deals_GetByID i
     | _ \<Rightarrow> failE AppMultipleActiveDealsForAuction)"

definition created_before :: "deal_row \<Rightarrow> deal_row \<Rightarrow> bool" where
  "created_before x y \<longleftrightarrow> dr_created_at x < dr_created_at y"

definition ListExpiredForFallback :: "deals_env \<Rightarrow> time \<Rightarrow> int \<Rightarrow> string list deals" where
  "ListExpiredForFallback env now limit = readE (\<lambda>s.
     map dr_id (take (nat limit) (de_order_rows env created_before
       (filter (\<lambda>r. dr_status r = ''pending'' \<and> dr_contract_signed r = None
            \<and> (case dr_sign_deadline r of None \<Rightarrow> False | Some x \<Rightarrow> x \<le> now)) (dst_deals s)))))"

subsection \<open>deal_confirmation_repository.go\<close>

definition confirmation_row_of :: "deal_confirmation \<Rightarrow> confirmation_row" where
  "confirmation_row_of c =
     \<lparr>cr_id = dc_id c, cr_deal = dc_deal c, cr_stage = stage_text (dc_stage c),
      cr_by_user = dc_by_user c, cr_by_company = dc_by_company c,
      cr_counterparty = dc_counterparty c, cr_status = confirmation_status_text (dc_status c),
      cr_verification = verification_text (dc_verification c),
      cr_token_hash = nullString (dc_token_hash c), cr_signature = nullString (dc_signature c),
      cr_requested_at = dc_requestedAt c, cr_approved_at = dc_approvedAt c,
      cr_rejected_at = dc_rejectedAt c, cr_expires_at = dc_expiresAt c,
      cr_comment = nullString (dc_comment c), cr_reason = nullString (dc_reason c)\<rparr>"

definition scanDealConfirmation :: "time \<Rightarrow> confirmation_row \<Rightarrow> deal_error + deal_confirmation" where
  "scanDealConfirmation now r = NewDealConfirmation now
     \<lparr>dc_id = cr_id r, dc_deal = cr_deal r, dc_stage = stage_of (cr_stage r),
      dc_by_user = cr_by_user r, dc_by_company = cr_by_company r,
      dc_counterparty = cr_counterparty r, dc_status = confirmation_status_of (cr_status r),
      dc_verification = verification_of (cr_verification r),
      dc_token_hash = NullString_String (cr_token_hash r),
      dc_signature = NullString_String (cr_signature r), dc_requestedAt = cr_requested_at r,
      dc_approvedAt = cr_approved_at r, dc_rejectedAt = cr_rejected_at r,
      dc_expiresAt = cr_expires_at r, dc_comment = NullString_String (cr_comment r),
      dc_reason = NullString_String (cr_reason r)\<rparr>"

definition same_pending :: "confirmation_row \<Rightarrow> confirmation_row \<Rightarrow> bool" where
  "same_pending x y \<longleftrightarrow> cr_status x = ''pending'' \<and> cr_status y = ''pending''
     \<and> cr_deal x = cr_deal y \<and> cr_stage x = cr_stage y"

definition confirmations_Save :: "deal_confirmation \<Rightarrow> unit deals" where
  "confirmations_Save c s =
     (let r = confirmation_row_of c in
      if \<not> list_ex (\<lambda>x. dr_id x = cr_deal r) (dst_deals s) then (Inl DealsForeignKeyViolation, s)
      else if list_ex (\<lambda>x. cr_id x \<noteq> cr_id r \<and> same_pending x r) (dst_confirmations s)
        then (Inl DealsUniqueViolation, s)
      else (Inr (), s\<lparr>dst_confirmations := row_upsert cr_id r (dst_confirmations s)\<rparr>))"

definition confirmations_find :: "time \<Rightarrow> (confirmation_row \<Rightarrow> bool) \<Rightarrow> deal_confirmation deals" where
  "confirmations_find now p s =
     (case row_select p (dst_confirmations s) of
        None \<Rightarrow> (Inl (DealError ErrConfirmationNotFound), s)
      | Some r \<Rightarrow> (map_sum DealError (\<lambda>c. c) (scanDealConfirmation now r), s))"

definition confirmations_GetByID :: "time \<Rightarrow> string \<Rightarrow> deal_confirmation deals" where
  "confirmations_GetByID now i = confirmations_find now (\<lambda>r. cr_id r = i)"

definition confirmations_GetPending ::
  "time \<Rightarrow> string \<Rightarrow> confirmation_stage \<Rightarrow> deal_confirmation deals" where
  "confirmations_GetPending now dealID stage = confirmations_find now (\<lambda>r. cr_deal r = dealID
     \<and> cr_stage r = stage_text stage \<and> cr_status r = ''pending'')"

fun scan_confirmations :: "time \<Rightarrow> confirmation_row list \<Rightarrow> deal_error + deal_confirmation list" where
  "scan_confirmations now [] = Inr []"
| "scan_confirmations now (r # rs) = (case scanDealConfirmation now r of
     Inl e \<Rightarrow> Inl e
   | Inr c \<Rightarrow> map_sum (\<lambda>e. e) (\<lambda>cs. c # cs) (scan_confirmations now rs))"

definition latest_first :: "deal_confirmation \<Rightarrow> deal_confirmation \<Rightarrow> bool" where
  "latest_first x y \<longleftrightarrow>
     (if dc_requestedAt x = dc_requestedAt y then go_string_less (dc_id x) (dc_id y)
      else dc_requestedAt x > dc_requestedAt y)"

definition confirmations_ListByDealID ::
  "deals_env \<Rightarrow> time \<Rightarrow> string \<Rightarrow> deal_confirmation list deals" where
  "confirmations_ListByDealID env now dealID s =
     (map_sum DealError (de_sort_func env latest_first)
        (scan_confirmations now (filter (\<lambda>r. cr_deal r = dealID) (dst_confirmations s))), s)"

subsection \<open>projection_repository.go\<close>

definition projection_row_of :: "deal_projection \<Rightarrow> projection_row" where
  "projection_row_of p =
     \<lparr>pr_auction = pj_auction p, pr_supplier = pj_supplier p, pr_start_price = pj_startPrice p,
      pr_published_at = pj_publishedAt p, pr_status = projection_status_text (pj_status p),
      pr_product = pj_snapshot p\<rparr>"

definition row_projection :: "projection_row \<Rightarrow> deal_projection" where
  "row_projection r =
     \<lparr>pj_auction = pr_auction r, pj_supplier = pr_supplier r, pj_snapshot = pr_product r,
      pj_startPrice = pr_start_price r, pj_publishedAt = pr_published_at r,
      pj_status = projection_status_of (pr_status r)\<rparr>"

definition projections_Save :: "deal_projection \<Rightarrow> unit deals" where
  "projections_Save p = modifyE (\<lambda>s. s\<lparr>dst_projections :=
     row_upsert pr_auction (projection_row_of p) (dst_projections s)\<rparr>)"

definition projections_Get :: "string \<Rightarrow> deal_projection deals" where
  "projections_Get auctionID s =
     (case row_select (\<lambda>r. pr_auction r = auctionID) (dst_projections s) of
        None \<Rightarrow> (Inl (DealError ErrProjectionNotFound), s)
      | Some r \<Rightarrow> (Inr (row_projection r), s))"

subsection \<open>selection_repository.go\<close>

definition selection_row_of :: "winner_selection \<Rightarrow> selection_row" where
  "selection_row_of x =
     \<lparr>sr_auction = ws_auction x, sr_candidates = ws_candidates x, sr_index = ws_index x,
      sr_status = selection_status_text (ws_status x), sr_final_price = ws_finalPrice x,
      sr_won_at = ws_wonAt x, sr_supplier = ws_supplier x, sr_deal = nullString (ws_deal x),
      sr_product = ws_snapshot x\<rparr>"

definition row_selection :: "selection_row \<Rightarrow> winner_selection" where
  "row_selection r =
     \<lparr>ws_auction = sr_auction r, ws_candidates = sr_candidates r, ws_index = sr_index r,
      ws_status = selection_status_of (sr_status r), ws_finalPrice = sr_final_price r,
      ws_wonAt = sr_won_at r, ws_supplier = sr_supplier r, ws_snapshot = sr_product r,
      ws_deal = NullString_String (sr_deal r)\<rparr>"

definition selections_Save :: "winner_selection \<Rightarrow> unit deals" where
  "selections_Save x = modifyE (\<lambda>s. s\<lparr>dst_selections :=
     row_upsert sr_auction (selection_row_of x) (dst_selections s)\<rparr>)"

definition selections_Get :: "string \<Rightarrow> winner_selection deals" where
  "selections_Get auctionID s =
     (case row_select (\<lambda>r. sr_auction r = auctionID) (dst_selections s) of
        None \<Rightarrow> (Inl (DealError ErrSelectionNotFound), s)
      | Some r \<Rightarrow> (Inr (row_selection r), s))"

definition selections_GetForUpdate :: "string \<Rightarrow> winner_selection deals" where
  "selections_GetForUpdate = selections_Get"

subsection \<open>outbox_repository.go\<close>

fun deal_event_name :: "deal_event \<Rightarrow> string" where
  "deal_event_name (DealCreated _ _ _ _ _ _ _) = ''DealCreated''"
| "deal_event_name (DealConfirmationRequested _ _ _ _ _ _ _ _ _ _) = ''DealConfirmationRequested''"
| "deal_event_name (DealConfirmationApproved _ _ _ _ _ _) = ''DealConfirmationApproved''"
| "deal_event_name (DealConfirmationRejected _ _ _ _ _ _ _) = ''DealConfirmationRejected''"
| "deal_event_name (DealConfirmed _ _) = ''DealConfirmed''"
| "deal_event_name (ContractPrepared _ _ _ _) = ''ContractPrepared''"
| "deal_event_name (ContractSigned _ _ _ _ _) = ''ContractSigned''"
| "deal_event_name (PaymentRequested _ _ _ _ _ _ _ _ _) = ''PaymentRequested''"
| "deal_event_name (DealPaid _ _ _ _) = ''DealPaid''"
| "deal_event_name (ShipmentRequested _ _) = ''ShipmentRequested''"
| "deal_event_name (DealShipped _ _ _ _) = ''DealShipped''"
| "deal_event_name (DealCompleted _ _) = ''DealCompleted''"
| "deal_event_name (DealCancelled _ _ _ _) = ''DealCancelled''"
| "deal_event_name (WinnerRejected _ _ _ _ _ _) = ''WinnerRejected''"
| "deal_event_name (WinnerConfirmed _ _ _ _ _ _) = ''WinnerConfirmed''"
| "deal_event_name (NextWinnerSelected _ _ _ _ _ _) = ''NextWinnerSelected''"
| "deal_event_name (WinnerSelectionFailed _ _ _ _) = ''WinnerSelectionFailed''"
| "deal_event_name (WinnerSelectionFinalized _ _ _ _ _ _ _ _) = ''WinnerSelectionFinalized''"
| "deal_event_name (PriceUpdated _ _ _ _ _) = ''PriceUpdated''"

fun dealIDFor :: "deal_event \<Rightarrow> string" where
  "dealIDFor (DealCreated d _ _ _ _ _ _) = d"
| "dealIDFor (DealConfirmationRequested _ d _ _ _ _ _ _ _ _) = d"
| "dealIDFor (DealConfirmationApproved _ d _ _ _ _) = d"
| "dealIDFor (DealConfirmationRejected _ d _ _ _ _ _) = d"
| "dealIDFor (DealConfirmed d _) = d"
| "dealIDFor (ContractPrepared d _ _ _) = d"
| "dealIDFor (ContractSigned d _ _ _ _) = d"
| "dealIDFor (PaymentRequested d _ _ _ _ _ _ _ _) = d"
| "dealIDFor (DealPaid d _ _ _) = d"
| "dealIDFor (ShipmentRequested d _) = d"
| "dealIDFor (DealShipped d _ _ _) = d"
| "dealIDFor (DealCompleted d _) = d"
| "dealIDFor (DealCancelled d _ _ _) = d"
| "dealIDFor (WinnerRejected _ d _ _ _ _) = d"
| "dealIDFor (WinnerConfirmed _ d _ _ _ _) = d"
| "dealIDFor (NextWinnerSelected _ _ _ _ d _) = d"
| "dealIDFor (WinnerSelectionFailed _ a _ _) = a"
| "dealIDFor (WinnerSelectionFinalized _ d _ _ _ _ _ _) = d"
| "dealIDFor (PriceUpdated d _ _ _ _) = d"

definition deals_newOutboxID :: "deals_env \<Rightarrow> string deals" where
  "deals_newOutboxID env s = (Inr (de_id env (dst_ids s)), s\<lparr>dst_ids := Suc (dst_ids s)\<rparr>)"

definition deals_outbox_row :: "time \<Rightarrow> string \<Rightarrow> string \<Rightarrow> deal_event \<Rightarrow> deal_event outbox_row" where
  "deals_outbox_row now messageID eventID ev =
     \<lparr>ob_id = messageID, ob_event_id = eventID, ob_event_type = ''deals.'' @ deal_event_name ev,
      ob_aggregate = dealIDFor ev, ob_payload = ev, ob_occurred_at = now, ob_created_at = now,
      ob_correlation = '''', ob_causation = '''', ob_company = '''', ob_user = '''',
      ob_source = ''deals'', ob_published_at = None, ob_locked_at = None, ob_attempts = 0,
      ob_failed_at = None, ob_last_error = None\<rparr>"

definition deals_outbox_put :: "deal_event outbox_row \<Rightarrow> unit deals" where
  "deals_outbox_put r =
     zoomE dst_outbox (\<lambda>o' s. s\<lparr>dst_outbox := o'\<rparr>) (outbox_insert DealsUniqueViolation r)"

definition deals_outbox_Add :: "deals_env \<Rightarrow> time \<Rightarrow> deal_event list \<Rightarrow> unit deals" where
  "deals_outbox_Add env now events = forE (\<lambda>ev.
     bindE (deals_newOutboxID env) (\<lambda>messageID.
     bindE (deals_newOutboxID env) (\<lambda>eventID.
     deals_outbox_put (deals_outbox_row now messageID eventID ev)))) events"

end
