(* ===== verification/Deals.thy ===== *)
theory Deals
  imports Deals_Store
begin

section \<open>The deals use cases (internal/deals/app)\<close>

text \<open>
  One definition per use case. As in trading, the callback of \<open>UnitOfWork.Do\<close> keeps the context of
  its caller, so each statement commits on its own (\<open>db_uow\<close>). The clock is the argument \<open>now\<close>.
  \<open>executeDealMutation\<close> is split where the deal has been loaded, so that two use cases can be
  interleaved there. The notifier is the no-op one, which the composition root passes.
\<close>

record deals_meta =
  dm_company :: string
  dm_user :: string
  dm_correlation :: string
  dm_causation :: string

definition actorFromMeta :: "deals_meta \<Rightarrow> string" where
  "actorFromMeta meta = (if dm_user meta \<noteq> '''' then dm_user meta else dm_company meta)"

text \<open>Calling a method of a loaded object, and raising the errors of the domain.\<close>

definition callE :: "('o, 'a) deal_method \<Rightarrow> 'o \<Rightarrow> ('a \<times> 'o) deals" where
  "callE m x s = (case m x of (Inl e, _) \<Rightarrow> (Inl (DealError e), s) | (Inr v, x') \<Rightarrow> (Inr (v, x'), s))"

definition raiseE :: "deal_error + 'a \<Rightarrow> 'a deals" where
  "raiseE r = liftE (map_sum DealError (\<lambda>a. a) r)"

definition checkE :: "deal_error option \<Rightarrow> unit deals" where
  "checkE x = (case x of None \<Rightarrow> retE () | Some e \<Rightarrow> failE (DealError e))"

text \<open>\<open>err != nil && !errors.Is(err, e)\<close> returns \<open>err\<close>; not found is \<open>None\<close>.\<close>

definition find_or :: "deal_error \<Rightarrow> 'a deals \<Rightarrow> 'a option deals" where
  "find_or e m = catchE (bindE m (\<lambda>x. retE (Some x)))
     (\<lambda>err. if err = DealError e then retE None else failE err)"

subsection \<open>Projections\<close>

definition CreateProjection ::
  "string \<Rightarrow> string \<Rightarrow> product_snapshot \<Rightarrow> int \<Rightarrow> time \<Rightarrow> unit deals" where
  "CreateProjection auctionID supplierID snapshot startPrice publishedAt =
     (if auctionID = '''' then failE AppAuctionIDRequired
      else if supplierID = '''' then failE AppSupplierIDRequired
      else if startPrice \<le> 0 then failE AppStartPriceMustBePositive
      else if publishedAt = 0 then failE AppPublishedAtRequired
      else
      bindE (find_or ErrProjectionNotFound (projections_Get auctionID)) (\<lambda>existing.
      if existing \<noteq> None then retE ()
      else projections_Save
        (NewDealProjection auctionID supplierID snapshot startPrice publishedAt)))"

definition GetProjectionByAuctionID :: "string \<Rightarrow> deal_projection deals" where
  "GetProjectionByAuctionID auctionID =
     (if auctionID = '''' then failE AppAuctionIDRequired else projections_Get auctionID)"

subsection \<open>The deal of the winner\<close>

definition CreateDealFromAuctionWon ::
  "deals_env \<Rightarrow> time \<Rightarrow> string \<Rightarrow> string \<Rightarrow> int \<Rightarrow> time \<Rightarrow> unit deals" where
  "CreateDealFromAuctionWon env now auctionID winner finalPrice wonAt =
     (if auctionID = '''' then failE AppAuctionIDRequired
      else if winner = '''' then failE AppWinnerCompanyRequired
      else if finalPrice \<le> 0 then failE AppFinalPriceRequired
      else if wonAt = 0 then failE AppWonAtRequired
      else db_uow (
      bindE (projections_Get auctionID) (\<lambda>p.
      bindE (callE (CreateFromProjection (de_local env) now winner finalPrice wonAt) p)
        (\<lambda>((item, events), p').
      bindE (checkE (deal_Validate item)) (\<lambda>_.
      bindE (deals_Save item) (\<lambda>_.
      bindE (projections_Save p') (\<lambda>_.
      deals_outbox_Add env now events)))))))"

text \<open>From \<open>selection.CurrentCandidate()\<close> on.\<close>

definition first_offer ::
  "deals_env \<Rightarrow> time \<Rightarrow> string \<Rightarrow> deal_projection \<Rightarrow> winner_selection \<Rightarrow> unit deals" where
  "first_offer env now auctionID p sel = (case CurrentCandidate sel of
      None \<Rightarrow> bindE (selections_Save (MarkExhausted sel)) (\<lambda>_. failE AppNoAvailableWinner)
    | Some current \<Rightarrow>
        bindE (raiseE (CreateFromSelection (de_local env) now auctionID (ws_supplier sel)
                 (ws_snapshot sel) current (ws_finalPrice sel) (ws_wonAt sel))) (\<lambda>(item, events).
        bindE (checkE (deal_Validate item)) (\<lambda>_.
        bindE (deals_Save item) (\<lambda>_.
        bindE (projections_Save (MarkAsConverted p)) (\<lambda>_.
        bindE (selections_Save (sel\<lparr>ws_deal := d_id item\<rparr>)) (\<lambda>_.
        deals_outbox_Add env now events))))))"

definition CreateDealSelectionFromAuctionWon ::
  "deals_env \<Rightarrow> time \<Rightarrow> string \<Rightarrow> string list \<Rightarrow> int \<Rightarrow> time \<Rightarrow> unit deals" where
  "CreateDealSelectionFromAuctionWon env now auctionID candidates finalPrice wonAt =
     (if auctionID = [] then failE AppAuctionIDRequired
      else if candidates = [] then failE AppWinnerCandidatesRequired
      else if finalPrice \<le> 0 then failE AppFinalPriceRequired
      else if wonAt = 0 then failE AppWonAtRequired
      else db_uow (
      bindE (projections_Get auctionID) (\<lambda>p.
      bindE (find_or ErrSelectionNotFound (selections_Get auctionID)) (\<lambda>existing.
      let sel = (case existing of Some x \<Rightarrow> x
                 | None \<Rightarrow> NewWinnerSelection auctionID candidates finalPrice wonAt
                             (pj_supplier p) (pj_snapshot p)) in
      if ws_deal sel \<noteq> [] then retE () else first_offer env now auctionID p sel))))"

text \<open>
  The second halves of \<open>HandleDealDeclined\<close> and \<open>HandleDealInvoiceExpired\<close>, from
  \<open>selection.Advance()\<close> on; \<open>pre\<close> are the events the latter has gathered before.
\<close>

definition selection_failed ::
  "deals_env \<Rightarrow> time \<Rightarrow> string \<Rightarrow> deal_event list \<Rightarrow> winner_selection \<Rightarrow> unit deals" where
  "selection_failed env now auctionID pre sel =
     bindE (selections_Save sel) (\<lambda>_.
     deals_outbox_Add env now
       (pre @ [WinnerSelectionFailed auctionID auctionID now ''NO_CANDIDATES_LEFT'']))"

definition offer_next ::
  "deals_env \<Rightarrow> time \<Rightarrow> string \<Rightarrow> deal_event list \<Rightarrow> winner_selection \<Rightarrow> unit deals" where
  "offer_next env now auctionID pre sel = (case Advance sel of
      (False, sel') \<Rightarrow> selection_failed env now auctionID pre sel'
    | (True, sel') \<Rightarrow> (case CurrentCandidate sel' of
        None \<Rightarrow> selection_failed env now auctionID pre (MarkExhausted sel')
      | Some nxt \<Rightarrow>
          bindE (raiseE (CreateFromSelection (de_local env) now (ws_auction sel') (ws_supplier sel')
                   (ws_snapshot sel') nxt (ws_finalPrice sel') (ws_wonAt sel'))) (\<lambda>(item, events).
          bindE (checkE (deal_Validate item)) (\<lambda>_.
          bindE (deals_Save item) (\<lambda>_.
          bindE (selections_Save (sel'\<lparr>ws_deal := d_id item\<rparr>)) (\<lambda>_.
          deals_outbox_Add env now (pre @ events @
            [NextWinnerSelected (ws_auction sel') (ws_auction sel') nxt (ws_index sel' + 1)
               (d_id item) now])))))))"

text \<open>\<open>HandleDealDeclined\<close>: the guards, then \<open>offer_next\<close>.\<close>

definition declined_auction :: "string \<Rightarrow> string \<Rightarrow> string deals" where
  "declined_auction auctionID dealID =
     (if auctionID = '''' \<and> dealID \<noteq> ''''
      then bindE (deals_GetByID dealID) (\<lambda>d. retE (d_auction d)) else retE auctionID)"

definition reopen_if_confirmed :: "winner_selection \<Rightarrow> winner_selection deals" where
  "reopen_if_confirmed sel =
     (if ws_status sel \<noteq> WinnerSelectionConfirmedPendingPayment then retE sel
      else if ws_deal sel = '''' then failE (DealError ErrWinnerSelectionDealMismatch)
      else
      bindE (deals_GetByID (ws_deal sel)) (\<lambda>cur.
      if d_status cur \<noteq> DealStatusCancelled then failE (DealError ErrWinnerFallbackOnlyWhileActive)
      else if CurrentCandidate sel \<noteq> Some (d_customer cur)
        then failE (DealError ErrWrongSelectedCandidate)
      else bindE (callE (ReopenAfterPaymentTimeout (ws_deal sel)) sel) (\<lambda>(_, sel'). retE sel')))"

definition HandleDealDeclined :: "deals_env \<Rightarrow> time \<Rightarrow> string \<Rightarrow> string \<Rightarrow> unit deals" where
  "HandleDealDeclined env now auctionID dealID = db_uow (
     bindE (declined_auction auctionID dealID) (\<lambda>resolved.
     if resolved = '''' then failE AppAuctionIDRequired else
     bindE (selections_Get resolved) (\<lambda>sel.
     if ws_status sel = WinnerSelectionExhausted then failE AppNoAvailableWinner else
     let effective = (if dealID = '''' then ws_deal sel else dealID) in
     if effective \<noteq> '''' \<and> ws_deal sel \<noteq> '''' \<and> ws_deal sel \<noteq> effective
       then failE (DealError ErrStaleWinnerSelection) else
     bindE (reopen_if_confirmed sel) (\<lambda>sel.
     case CurrentCandidate sel of
       None \<Rightarrow> failE AppNoAvailableWinner
     | Some cand \<Rightarrow>
         bindE (if ws_deal sel = '''' then retE () else
           bindE (deals_GetByID (ws_deal sel)) (\<lambda>cur.
           if d_status cur \<noteq> DealStatusCancelled
             then failE (DealError ErrDealNotCancelledForFallback)
           else if d_customer cur \<noteq> cand then failE (DealError ErrWrongSelectedCandidate)
           else retE ())) (\<lambda>_.
         offer_next env now resolved [] sel)))))"

subsection \<open>Reading deals\<close>

definition GetDealByID :: "string \<Rightarrow> deal deals" where
  "GetDealByID dealID = (if dealID = '''' then failE AppDealIDRequired else deals_GetByID dealID)"

definition GetDealByAuctionID :: "string \<Rightarrow> deal deals" where
  "GetDealByAuctionID auctionID =
     (if auctionID = '''' then failE AppAuctionIDRequired else db_uow (
      bindE (find_or ErrSelectionNotFound (selections_Get auctionID)) (\<lambda>found.
      case found of
        None \<Rightarrow> deals_GetActiveByAuctionID auctionID
      | Some sel \<Rightarrow>
          if ws_status sel = WinnerSelectionExhausted then failE AppDealNotFound
          else if ws_deal sel = '''' then deals_GetActiveByAuctionID auctionID
          else
          bindE (deals_GetByID (ws_deal sel)) (\<lambda>d.
          if d_status d = DealStatusCancelled
          then catchE (deals_GetActiveByAuctionID auctionID)
                 (\<lambda>_. failE (DealError ErrStaleWinnerSelection))
          else retE d))))"

subsection \<open>The steps of a deal\<close>

definition deal_mutation_loaded ::
  "deals_env \<Rightarrow> time \<Rightarrow> deal_call \<Rightarrow> deal \<Rightarrow> unit deals" where
  "deal_mutation_loaded env now mutate d =
     bindE (callE mutate d) (\<lambda>(events, d').
     bindE (deals_Save d') (\<lambda>_.
     deals_outbox_Add env now events))"

definition executeDealMutation :: "deals_env \<Rightarrow> time \<Rightarrow> string \<Rightarrow> deal_call \<Rightarrow> unit deals" where
  "executeDealMutation env now dealID mutate =
     (if dealID = '''' then failE AppDealIDRequired
      else db_uow (bindE (deals_GetByID dealID) (deal_mutation_loaded env now mutate)))"

definition winner_confirmed :: "deal \<Rightarrow> time \<Rightarrow> deal_event" where
  "winner_confirmed d at' = WinnerConfirmed (d_auction d) (d_id d) (d_auction d) (d_customer d)
     (d_unitPrice d) at'"

definition appendAuctionWinnerConfirmedIfNeeded :: "deal \<Rightarrow> deal_event list deals" where
  "appendAuctionWinnerConfirmedIfNeeded d =
     (if d_type d \<noteq> DealTypeAuction \<or> d_auction d = '''' then retE []
      else if d_status d \<noteq> DealStatusConfirmed then retE []
      else
      bindE (catchE (selections_GetForUpdate (d_auction d))
        (\<lambda>e. failE (if e = DealError ErrSelectionNotFound
                    then DealError ErrWinnerSelectionMissingForAuctionDeal else e))) (\<lambda>sel.
      if CurrentCandidate sel \<noteq> Some (d_customer d)
        then failE (DealError ErrWrongSelectedCandidate) else
      bindE (callE (MarkCurrentConfirmed (d_id d)) sel) (\<lambda>(_, sel').
      bindE (selections_Save sel') (\<lambda>_.
      case d_confirmedAt d of
        None \<Rightarrow> failE (DealError ErrCannotConfirmDeal)
      | Some at' \<Rightarrow> retE [winner_confirmed d at']))))"

definition ConfirmDeal :: "deals_env \<Rightarrow> time \<Rightarrow> string \<Rightarrow> unit deals" where
  "ConfirmDeal env now dealID =
     (if dealID = '''' then failE AppDealIDRequired else db_uow (
      bindE (deals_GetByIDForUpdate dealID) (\<lambda>d.
      bindE (callE (deal_Confirm now) d) (\<lambda>(dealEvents, d').
      bindE (appendAuctionWinnerConfirmedIfNeeded d') (\<lambda>extra.
      bindE (deals_Save d') (\<lambda>_.
      deals_outbox_Add env now (dealEvents @ extra)))))))"

definition contract_number_for :: "time \<Rightarrow> string \<Rightarrow> deal \<Rightarrow> string" where
  "contract_number_for now contractNumber d =
     (if contractNumber = '''' then ''CNT-'' @ d_id d @ ''-'' @ format_stamp now else contractNumber)"

definition PrepareContract ::
  "deals_env \<Rightarrow> time \<Rightarrow> string \<Rightarrow> string \<Rightarrow> string \<Rightarrow> unit deals" where
  "PrepareContract env now dealID contractNumber documentURL = executeDealMutation env now dealID
     (\<lambda>d. let number = contract_number_for now contractNumber d;
              url = (if documentURL = '''' then ''generated://contracts/'' @ number @ ''.pdf''
                     else documentURL)
          in deal_PrepareContract now number url d)"

definition SignContract :: "deals_env \<Rightarrow> time \<Rightarrow> deals_meta \<Rightarrow> string \<Rightarrow> string \<Rightarrow> unit deals" where
  "SignContract env now meta dealID signatureRef =
     (let signedBy = actorFromMeta meta in
      if signedBy = '''' then failE AppSignedByRequired
      else if signatureRef = '''' then failE AppSignatureRefRequired
      else executeDealMutation env now dealID (deal_SignContract now signedBy signatureRef))"

definition RequestPayment ::
  "deals_env \<Rightarrow> time \<Rightarrow> string \<Rightarrow> string \<Rightarrow> time option \<Rightarrow> unit deals" where
  "RequestPayment env now dealID invoiceNumber dueDate =
     (if dealID = '''' then failE AppDealIDRequired else db_uow (
      bindE (deals_GetByIDForUpdate dealID) (\<lambda>d.
      bindE (if d_type d = DealTypeAuction \<and> d_auction d \<noteq> '''' then
          bindE (catchE (selections_GetForUpdate (d_auction d))
            (\<lambda>e. failE (if e = DealError ErrSelectionNotFound
                        then DealError ErrWinnerSelectionMissingForAuctionDeal else e))) (\<lambda>sel.
          if ws_deal sel \<noteq> d_id d then failE (DealError ErrWinnerSelectionDealMismatch)
          else if ws_status sel \<noteq> WinnerSelectionConfirmedPendingPayment
            then failE (DealError ErrWinnerSelectionNotAwaitingPayment)
          else retE ())
        else retE ()) (\<lambda>_.
      deal_mutation_loaded env now (deal_RequestPayment now invoiceNumber dueDate) d))))"

definition MarkDealPaid :: "deals_env \<Rightarrow> time \<Rightarrow> string \<Rightarrow> string \<Rightarrow> string \<Rightarrow> unit deals" where
  "MarkDealPaid env now dealID paymentID paymentType =
     (if paymentID = '''' then failE AppPaymentIDRequired
      else if paymentType = '''' then failE AppPaymentTypeRequired
      else executeDealMutation env now dealID (deal_MarkAsPaid now paymentID paymentType))"

definition RequestShipment :: "deals_env \<Rightarrow> time \<Rightarrow> string \<Rightarrow> unit deals" where
  "RequestShipment env now dealID = executeDealMutation env now dealID (deal_RequestShipment now)"

definition MarkDealShipped :: "deals_env \<Rightarrow> time \<Rightarrow> string \<Rightarrow> string \<Rightarrow> string \<Rightarrow> unit deals" where
  "MarkDealShipped env now dealID trackingNumber carrier =
     (if trackingNumber = '''' then failE AppTrackingNumberRequired
      else if carrier = '''' then failE AppCarrierRequired
      else executeDealMutation env now dealID (deal_MarkAsShipped now trackingNumber carrier))"

definition CompleteDeal :: "deals_env \<Rightarrow> time \<Rightarrow> string \<Rightarrow> unit deals" where
  "CompleteDeal env now dealID = executeDealMutation env now dealID (deal_Complete now)"

definition cancelled_by :: "deals_meta \<Rightarrow> string" where
  "cancelled_by meta = (if dm_company meta = '''' then actorFromMeta meta else dm_company meta)"

definition CancelDeal :: "deals_env \<Rightarrow> time \<Rightarrow> deals_meta \<Rightarrow> string \<Rightarrow> string \<Rightarrow> unit deals" where
  "CancelDeal env now meta dealID reason =
     (if reason = '''' then failE AppReasonRequired
      else if cancelled_by meta = '''' then failE AppCancelledByRequired
      else executeDealMutation env now dealID (deal_Cancel now reason (cancelled_by meta)))"

definition UpdateDealPrice :: "deals_env \<Rightarrow> time \<Rightarrow> deals_meta \<Rightarrow> string \<Rightarrow> int \<Rightarrow> unit deals" where
  "UpdateDealPrice env now meta dealID newPrice =
     (if newPrice \<le> 0 then failE AppFinalPriceRequired
      else if actorFromMeta meta = '''' then failE AppUpdatedByRequired
      else executeDealMutation env now dealID (deal_UpdatePrice now newPrice (actorFromMeta meta)))"

subsection \<open>Confirmations\<close>

record confirmation_request =
  rq_stage :: confirmation_stage
  rq_verification :: verification
  rq_token_hash :: string
  rq_signature :: string
  rq_comment :: string
  rq_expiresAt :: "time option"

definition RequestDealConfirmation ::
  "deals_env \<Rightarrow> time \<Rightarrow> deals_meta \<Rightarrow> string \<Rightarrow> confirmation_request \<Rightarrow> deal_confirmation deals" where
  "RequestDealConfirmation env now meta dealID cmd =
     (if dealID = '''' then failE AppDealIDRequired else db_uow (
      bindE (deals_GetByID dealID) (\<lambda>d.
      bindE (find_or ErrConfirmationNotFound (confirmations_GetPending now dealID (rq_stage cmd)))
        (\<lambda>pending.
      if pending \<noteq> None then failE (DealError ErrConfirmationAlreadyPending) else
      bindE (raiseE (deal_RequestConfirmation now (rq_stage cmd) (dm_company meta) (dm_user meta)
               (rq_verification cmd) (rq_token_hash cmd) (rq_signature cmd) (rq_comment cmd)
               (rq_expiresAt cmd) d)) (\<lambda>(c, events).
      bindE (confirmations_Save c) (\<lambda>_.
      bindE (deals_outbox_Add env now events) (\<lambda>_.
      retE c)))))))"

definition ApproveDealConfirmation ::
  "deals_env \<Rightarrow> time \<Rightarrow> deals_meta \<Rightarrow> string \<Rightarrow> string \<Rightarrow> deal_confirmation deals" where
  "ApproveDealConfirmation env now meta dealID confirmationID =
     (if dealID = '''' then failE AppDealIDRequired
      else if confirmationID = '''' then failE AppConfirmationIDRequired
      else db_uow (
      bindE (deals_GetByIDForUpdate dealID) (\<lambda>d.
      bindE (confirmations_GetByID now confirmationID) (\<lambda>c.
      if dc_deal c \<noteq> d_id d then failE (DealError ErrConfirmationDealMismatch) else
      bindE (callE (Approve (dm_company meta) (dm_user meta) now) c) (\<lambda>(approvalEvents, c').
      bindE (callE (deal_ApplyApprovedConfirmation now c') d) (\<lambda>(dealEvents, d').
      bindE (appendAuctionWinnerConfirmedIfNeeded d') (\<lambda>extra.
      bindE (confirmations_Save c') (\<lambda>_.
      bindE (deals_Save d') (\<lambda>_.
      bindE (deals_outbox_Add env now (approvalEvents @ dealEvents @ extra)) (\<lambda>_.
      retE c'))))))))))"

definition RejectDealConfirmation ::
  "deals_env \<Rightarrow> time \<Rightarrow> deals_meta \<Rightarrow> string \<Rightarrow> string \<Rightarrow> string \<Rightarrow> deal_confirmation deals" where
  "RejectDealConfirmation env now meta dealID confirmationID reason =
     (if dealID = '''' then failE AppDealIDRequired
      else if confirmationID = '''' then failE AppConfirmationIDRequired
      else db_uow (
      bindE (deals_GetByID dealID) (\<lambda>d.
      bindE (confirmations_GetByID now confirmationID) (\<lambda>c.
      if dc_deal c \<noteq> d_id d then failE (DealError ErrConfirmationDealMismatch) else
      bindE (callE (Reject (dm_company meta) (dm_user meta) reason now) c) (\<lambda>(events, c').
      bindE (confirmations_Save c') (\<lambda>_.
      bindE (deals_outbox_Add env now events) (\<lambda>_.
      retE c')))))))"

definition GetDealConfirmations :: "deals_env \<Rightarrow> time \<Rightarrow> string \<Rightarrow> deal_confirmation list deals" where
  "GetDealConfirmations env now dealID =
     (if dealID = '''' then failE AppDealIDRequired else
      bindE (deals_GetByID dealID) (\<lambda>_. confirmations_ListByDealID env now dealID))"

subsection \<open>The invoice of the deal has been paid, or has expired\<close>

record deal_invoice_event =
  ie_invoice :: string
  ie_deal :: string
  ie_auction :: string
  ie_buyer :: string
  ie_goods :: int
  ie_fee_due :: int
  ie_amount :: int
  ie_paidAt :: time

definition invoice_ids_check :: "deal_invoice_event \<Rightarrow> deal_error option" where
  "invoice_ids_check evt =
     (if ie_deal evt = '''' then Some ErrDealIDRequired
      else if ie_auction evt = '''' then Some ErrAuctionIDRequired
      else if ie_buyer evt = '''' then Some ErrCustomerIDRequired
      else None)"

definition validateDealInvoicePaidPayload :: "deal \<Rightarrow> deal_invoice_event \<Rightarrow> deal_error option" where
  "validateDealInvoicePaidPayload d evt =
     (if ie_goods evt > 0 \<or> ie_fee_due evt > 0 then
        (if ie_goods evt \<noteq> CalculateTotal d then Some ErrDealInvoicePaidInvariant
         else if ie_amount evt \<noteq> add64 (ie_goods evt) (ie_fee_due evt)
           then Some ErrDealInvoicePaidInvariant
         else None)
      else if ie_amount evt < CalculateTotal d then Some ErrDealInvoicePaidInvariant
      else None)"

definition paid_check :: "deal_invoice_event \<Rightarrow> deal \<Rightarrow> deal_error option" where
  "paid_check evt d =
     (if d_customer d \<noteq> ie_buyer evt then Some ErrNotDealParticipant
      else if d_auction d \<noteq> ie_auction evt then Some ErrStaleWinnerSelection
      else case validateDealInvoicePaidPayload d evt of
        Some e \<Rightarrow> Some e
      | None \<Rightarrow> if d_status d \<noteq> DealStatusPaymentRequested then Some ErrCannotMarkAsPaid else None)"

definition HandleDealInvoicePaid :: "deals_env \<Rightarrow> time \<Rightarrow> deal_invoice_event \<Rightarrow> unit deals" where
  "HandleDealInvoicePaid env now evt =
     bindE (checkE (invoice_ids_check evt)) (\<lambda>_. db_uow (
     bindE (deals_GetByIDForUpdate (ie_deal evt)) (\<lambda>d.
     if d_status d = DealStatusCancelled then failE (DealError ErrDealCancelledPayment)
     else if d_status d = DealStatusPaid then retE () else
     bindE (checkE (paid_check evt d)) (\<lambda>_.
     bindE (callE (deal_MarkAsPaid now (ie_invoice evt) ''invoice'') d) (\<lambda>(paidEvents, d').
     bindE (selections_GetForUpdate (ie_auction evt)) (\<lambda>sel.
     if ws_deal sel \<noteq> d_id d' then failE (DealError ErrWinnerSelectionDealMismatch)
     else if ws_status sel = WinnerSelectionStatusFinalized then
       bindE (deals_Save d') (\<lambda>_. deals_outbox_Add env now paidEvents)
     else if ws_status sel \<noteq> WinnerSelectionConfirmedPendingPayment
       then failE (DealError ErrWinnerSelectionNotAwaitingPayment)
     else
     bindE (callE (MarkFinalized (d_id d')) sel) (\<lambda>(_, sel').
     case CurrentCandidate sel' of
       None \<Rightarrow> failE (DealError ErrNoAvailableWinnerCandidate)
     | Some cand \<Rightarrow>
         bindE (deals_Save d') (\<lambda>_.
         bindE (selections_Save sel') (\<lambda>_.
         deals_outbox_Add env now (paidEvents @
           [WinnerSelectionFinalized (ie_auction evt) (d_id d') (ie_auction evt) cand
              (ws_finalPrice sel') (ie_goods evt) (ie_fee_due evt) (ie_paidAt evt)]))))))))))"

definition isDealPostConfirmPrePaid :: "deal_status \<Rightarrow> bool" where
  "isDealPostConfirmPrePaid s \<longleftrightarrow> s = DealStatusConfirmed \<or> s = DealStatusContractPrepared
     \<or> s = DealStatusContractSigned \<or> s = DealStatusPaymentRequested"

definition HandleDealInvoiceExpired :: "deals_env \<Rightarrow> time \<Rightarrow> deal_invoice_event \<Rightarrow> unit deals" where
  "HandleDealInvoiceExpired env now evt =
     bindE (checkE (invoice_ids_check evt)) (\<lambda>_. db_uow (
     bindE (deals_GetByIDForUpdate (ie_deal evt)) (\<lambda>d.
     if d_status d = DealStatusPaid \<or> d_status d = DealStatusCancelled then retE ()
     else if d_auction d \<noteq> ie_auction evt \<or> d_customer d \<noteq> ie_buyer evt
       then failE (DealError ErrStaleWinnerSelection)
     else if \<not> isDealPostConfirmPrePaid (d_status d)
       then failE (DealError ErrCannotCancelForPaymentTimeout)
     else
     bindE (selections_GetForUpdate (ie_auction evt)) (\<lambda>sel.
     if ws_status sel \<noteq> WinnerSelectionConfirmedPendingPayment \<or> ws_deal sel \<noteq> d_id d then retE ()
     else
     bindE (callE (deal_Cancel now DealCancelReasonPaymentTimeout ''system'') d)
       (\<lambda>(cancelEvents, d').
     bindE (deals_Save d') (\<lambda>_.
     bindE (callE (ReopenAfterPaymentTimeout (d_id d')) sel) (\<lambda>(_, sel').
     offer_next env now (ie_auction evt) cancelEvents sel')))))))"

end
