(* ===== verification/Deal_Correct.thy ===== *)
theory Deal_Correct
  imports Deals_Store Status_Machine
begin

section \<open>The deal as a state machine, its columns as a code\<close>

text \<open>
  \<open>deal_step\<close> relates a deal to what a successful method makes of it. Its statuses only move
  forward and everything but status, dates and contract is fixed (\<open>deal_fsm\<close>, an interpretation of
  the contract of Status\_Machine). The second half shows that reading back what a repository has
  saved yields the entity (\<open>row_deal_saved\<close>).
\<close>

subsection \<open>Steps\<close>

inductive deal_step :: "deal \<Rightarrow> deal \<Rightarrow> bool" where
  confirmed: "deal_Confirm now d = (Inr evs, d') \<Longrightarrow> deal_step d d'"
| prepared: "deal_PrepareContract now nr url d = (Inr evs, d') \<Longrightarrow> deal_step d d'"
| signed: "deal_SignContract now who ref d = (Inr evs, d') \<Longrightarrow> deal_step d d'"
| requested: "deal_RequestPayment now nr due d = (Inr evs, d') \<Longrightarrow> deal_step d d'"
| paid: "deal_MarkAsPaid now i ty d = (Inr evs, d') \<Longrightarrow> deal_step d d'"
| shipping: "deal_RequestShipment now d = (Inr evs, d') \<Longrightarrow> deal_step d d'"
| shipped: "deal_MarkAsShipped now nr carrier d = (Inr evs, d') \<Longrightarrow> deal_step d d'"
| completed: "deal_Complete now d = (Inr evs, d') \<Longrightarrow> deal_step d d'"
| cancelled: "deal_Cancel now reason who d = (Inr evs, d') \<Longrightarrow> deal_step d d'"

lemmas deal_methods = deal_Confirm_def deal_PrepareContract_def deal_SignContract_def
  deal_RequestPayment_def deal_MarkAsPaid_def deal_RequestShipment_def deal_MarkAsShipped_def
  deal_Complete_def

text \<open>The part of a deal no step changes.\<close>

definition deal_terms :: "deal \<Rightarrow> string \<times> string \<times> string \<times> string \<times> int \<times> int \<times> deal_type \<times> time
    \<times> time option \<times> product_snapshot" where
  "deal_terms d = (d_id d, d_customer d, d_supplier d, d_auction d, d_quantity d, d_unitPrice d,
     d_type d, d_createdAt d, d_contractSignDeadline d, d_snapshot d)"

fun deal_rank :: "deal_status \<Rightarrow> nat" where
  "deal_rank DealStatusPending = 1"
| "deal_rank DealStatusConfirmed = 2"
| "deal_rank DealStatusContractPrepared = 3"
| "deal_rank DealStatusContractSigned = 4"
| "deal_rank DealStatusPaymentRequested = 5"
| "deal_rank DealStatusPaid = 6"
| "deal_rank DealStatusShipmentRequested = 7"
| "deal_rank DealStatusShipped = 8"
| "deal_rank DealStatusCompleted = 9"
| "deal_rank DealStatusCancelled = 10"
| "deal_rank (DealStatusOther s) = 0"

lemma deal_Cancel_ok:
  "deal_Cancel now reason who d = (Inr evs, d') \<Longrightarrow>
     d_status d \<noteq> DealStatusCompleted \<and> d_status d \<noteq> DealStatusCancelled
     \<and> d' = d\<lparr>d_status := DealStatusCancelled\<rparr>"
  by (auto simp: deal_Cancel_def Let_def split: if_splits)

lemma step_terms: "deal_step d d' \<Longrightarrow> deal_terms d' = deal_terms d"
  by (cases rule: deal_step.cases)
    (auto simp: deal_methods Let_def deal_terms_def dest!: deal_Cancel_ok
      split: if_splits option.splits)

lemma step_status:
  "deal_step d d' \<Longrightarrow> CanTransitionTo (d_status d) (d_status d')
     \<or> d_status d = DealStatusPending \<and> d_status d' = DealStatusContractPrepared
     \<or> d_status d' = DealStatusCancelled \<and> (\<exists>s. d_status d = DealStatusOther s)"
  by (cases "d_status d"; cases rule: deal_step.cases)
    (auto simp: deal_methods Let_def CanTransitionTo_def dest!: deal_Cancel_ok
      split: if_splits option.splits)

lemma transition_rank: "CanTransitionTo st st' \<Longrightarrow> deal_rank st < deal_rank st'"
  by (cases st) (auto simp: CanTransitionTo_def)

lemma step_rank: "deal_step d d' \<Longrightarrow> deal_rank (d_status d) < deal_rank (d_status d')"
  using step_status [of d d'] transition_rank by fastforce

interpretation deal_fsm: snapshot_fsm deal_step d_status deal_rank deal_terms
  by unfold_locales (auto dest: step_rank step_terms)

subsection \<open>Text columns\<close>

lemma text_const_of: "(\<And>s. txt (other s) = s) \<Longrightarrow> txt (const_of txt consts other s) = s"
  by (auto simp: const_of_def find_Some_iff split: option.split)

lemma texts [simp]:
  "deal_status_text (deal_status_of s) = s" "deal_type_text (deal_type_of s) = s"
  "stage_text (stage_of s) = s" "confirmation_status_text (confirmation_status_of s) = s"
  "verification_text (verification_of s) = s" "projection_status_text (projection_status_of s) = s"
  "selection_status_text (selection_status_of s) = s"
  by (simp_all add: text_const_of deal_status_of_def deal_type_of_def stage_of_def
      confirmation_status_of_def verification_of_def projection_status_of_def
      selection_status_of_def)

lemma deal_status_of_consts [simp]:
  "deal_status_of ''pending'' = DealStatusPending"
  "deal_status_of ''confirmed'' = DealStatusConfirmed"
  "deal_status_of ''contract_prepared'' = DealStatusContractPrepared"
  "deal_status_of ''contract_signed'' = DealStatusContractSigned"
  "deal_status_of ''payment_requested'' = DealStatusPaymentRequested"
  "deal_status_of ''paid'' = DealStatusPaid"
  "deal_status_of ''shipment_requested'' = DealStatusShipmentRequested"
  "deal_status_of ''shipped'' = DealStatusShipped"
  "deal_status_of ''completed'' = DealStatusCompleted"
  "deal_status_of ''cancelled'' = DealStatusCancelled"
  by (simp_all add: deal_status_of_def const_of_def)

lemma selection_status_of_consts [simp]:
  "selection_status_of ''active'' = WinnerSelectionActive"
  "selection_status_of ''confirmed_pending_payment'' = WinnerSelectionConfirmedPendingPayment"
  "selection_status_of ''finalized'' = WinnerSelectionStatusFinalized"
  "selection_status_of ''exhausted'' = WinnerSelectionExhausted"
  by (simp_all add: selection_status_of_def const_of_def)

lemma other_consts_of [simp]:
  "deal_type_of ''auction'' = DealTypeAuction" "deal_type_of ''direct'' = DealTypeDirect"
  "projection_status_of ''active'' = ProjectionStatusActive"
  "projection_status_of ''converted'' = ProjectionStatusConverted"
  "projection_status_of ''cancelled'' = ProjectionStatusCancelled"
  "confirmation_status_of ''pending'' = ConfirmationPending"
  "confirmation_status_of ''approved'' = ConfirmationApproved"
  "confirmation_status_of ''rejected'' = ConfirmationRejected"
  "confirmation_status_of ''expired'' = ConfirmationExpired"
  by (simp_all add: deal_type_of_def projection_status_of_def confirmation_status_of_def const_of_def)

lemma stage_of_consts [simp]:
  "stage_of ''confirmed'' = StageConfirmed" "stage_of ''paid'' = StagePaid"
  "stage_of ''shipped'' = StageShipped" "stage_of ''completed'' = StageCompleted"
  "stage_of ''cancelled'' = StageCancelled"
  "verification_of ''manual'' = VerifyManual" "verification_of ''email'' = VerifyEmail"
  "verification_of ''signature'' = VerifySignature"
  by (simp_all add: stage_of_def verification_of_def const_of_def)

lemma null_string [simp]: "NullString_String (nullString s) = s"
  by (simp add: NullString_String_def nullString_def)

subsection \<open>What is saved is what is loaded\<close>

text \<open>
  An entity a repository can represent: its strings are constants of their type or none of them,
  and a contract that is there has something in it.
\<close>

definition storable :: "deal \<Rightarrow> bool" where
  "storable d \<longleftrightarrow> deal_status_of (deal_status_text (d_status d)) = d_status d
     \<and> deal_type_of (deal_type_text (d_type d)) = d_type d \<and> d_contract d \<noteq> Some no_contract"

lemma row_contract_of: "d_contract d \<noteq> Some no_contract \<Longrightarrow> row_contract (deal_row_of d) = d_contract d"
  by (cases "d_contract d")
    (auto simp: row_contract_def deal_row_of_def no_contract_def nullString_def
      NullString_String_def intro!: contract_info.equality)

lemma params_saved: "storable d \<Longrightarrow> row_deal_params (deal_row_of d) = d"
  by (intro deal.equality)
    (simp_all add: row_deal_params_def row_contract_of storable_def, simp_all add: deal_row_of_def Let_def)

lemma row_deal_saved: "storable d \<Longrightarrow> deal_Validate d = None \<Longrightarrow> row_deal (deal_row_of d) = Inr d"
  by (simp add: row_deal_def params_saved deal_Rehydrate_def)

lemma row_selection_saved:
  "selection_status_of (selection_status_text (ws_status w)) = ws_status w
    \<Longrightarrow> row_selection (selection_row_of w) = w"
  by (simp add: row_selection_def selection_row_of_def)

lemma row_projection_saved:
  "projection_status_of (projection_status_text (pj_status p)) = pj_status p
    \<Longrightarrow> row_projection (projection_row_of p) = p"
  by (simp add: row_projection_def projection_row_of_def)

lemma scan_saved:
  assumes "stage_of (stage_text (dc_stage c)) = dc_stage c"
    "confirmation_status_of (confirmation_status_text (dc_status c)) = dc_status c"
    "verification_of (verification_text (dc_verification c)) = dc_verification c"
    and v: "confirmation_Validate c = None"
  shows "scanDealConfirmation now (confirmation_row_of c) = Inr c"
proof -
  have "dc_id c \<noteq> ''''" "dc_status c \<noteq> ConfirmationOther ''''" "dc_requestedAt c \<noteq> 0"
    using v by (auto simp: confirmation_Validate_def split: if_splits)
  with assms show ?thesis
    by (cases c) (simp add: scanDealConfirmation_def confirmation_row_of_def NewDealConfirmation_def Let_def)
qed

end
