(* ===== verification/Deals_Correct.thy ===== *)
theory Deals_Correct
  imports Deals Deal_Correct
begin

section \<open>The deals invariant\<close>

text \<open>
  The tables are seen through the entities they hold (\<open>stored_deals\<close>, \<open>stored_selection\<close>) and the
  payloads of the outbox. \<open>tables_ok\<close> says of every auction that the customers of its deals, in the
  order the deals were created, are the first candidates of its selection, that all its deals but
  the last are cancelled, and that the last one is where the status of the selection says it is
  (\<open>phase_ok\<close>). \<open>events_ok\<close> says of whom the outbox tells billing to forfeit or to settle a
  deposit. The updates the use cases make are lemmas about these views.
\<close>

subsection \<open>The views\<close>

definition stored_deals :: "deals_store \<Rightarrow> deal list" where
  "stored_deals s = map row_deal_params (dst_deals s)"

definition stored_selection :: "deals_store \<Rightarrow> string \<Rightarrow> winner_selection option" where
  "stored_selection s a =
     map_option row_selection (row_select (\<lambda>r. sr_auction r = a) (dst_selections s))"

definition payloads :: "deals_store \<Rightarrow> deal_event list" where
  "payloads s = map ob_payload (dst_outbox s)"

definition put_deal :: "deal \<Rightarrow> deals_store \<Rightarrow> deals_store" where
  "put_deal d s = s\<lparr>dst_deals := row_upsert dr_id (deal_row_of d) (dst_deals s)\<rparr>"

definition put_selection :: "winner_selection \<Rightarrow> deals_store \<Rightarrow> deals_store" where
  "put_selection w s = s\<lparr>dst_selections := row_upsert sr_auction (selection_row_of w) (dst_selections s)\<rparr>"

definition auction_deals :: "string \<Rightarrow> deal list \<Rightarrow> deal list" where
  "auction_deals a D = filter (\<lambda>d. d_auction d = a) D"

lemma row_select_map: "row_select p (map f xs) = map_option f (row_select (\<lambda>x. p (f x)) xs)"
  by (induction xs) (auto simp: row_select_Cons)

lemma map_row_upsert:
  assumes "\<And>r. key' (f r) = key r"
  shows "map f (row_upsert key x rows) = row_upsert key' (f x) (map f rows)"
  by (auto simp: row_upsert_def row_update_def list_ex_iff assms)

lemma params_id [simp]: "d_id (row_deal_params r) = dr_id r"
  by (simp add: row_deal_params_def)

lemma stored_put_deal [simp]:
  "storable d \<Longrightarrow> stored_deals (put_deal d s) = row_upsert d_id d (stored_deals s)"
  by (simp add: stored_deals_def put_deal_def map_row_upsert [of d_id] params_saved)

lemma sr_auction_of [simp]: "sr_auction (selection_row_of w) = ws_auction w"
  by (simp add: selection_row_of_def)

lemma stored_put_selection [simp]:
  assumes "selection_status_of (selection_status_text (ws_status w)) = ws_status w"
  shows "stored_selection (put_selection w s) = (stored_selection s)(ws_auction w \<mapsto> w)"
proof (rule ext)
  fix a
  show "stored_selection (put_selection w s) a = ((stored_selection s)(ws_auction w \<mapsto> w)) a"
    using row_select_upsert_same [of sr_auction "selection_row_of w" "dst_selections s"]
      row_select_upsert_other [of a sr_auction "selection_row_of w" "dst_selections s"]
      row_selection_saved [OF assms]
    by (simp add: stored_selection_def put_selection_def)
qed

lemma views_other [simp]:
  "stored_selection (put_deal d s) = stored_selection s" "payloads (put_deal d s) = payloads s"
  "stored_deals (put_selection w s) = stored_deals s" "payloads (put_selection w s) = payloads s"
  "stored_deals (s\<lparr>dst_outbox := o', dst_ids := n\<rparr>) = stored_deals s"
  "stored_selection (s\<lparr>dst_outbox := o', dst_ids := n\<rparr>) = stored_selection s"
  "stored_deals (s\<lparr>dst_confirmations := cs\<rparr>) = stored_deals s"
  "stored_selection (s\<lparr>dst_confirmations := cs\<rparr>) = stored_selection s"
  "payloads (s\<lparr>dst_confirmations := cs\<rparr>) = payloads s"
  "stored_deals (s\<lparr>dst_projections := ps\<rparr>) = stored_deals s"
  "stored_selection (s\<lparr>dst_projections := ps\<rparr>) = stored_selection s"
  "payloads (s\<lparr>dst_projections := ps\<rparr>) = payloads s"
  by (simp_all add: stored_deals_def stored_selection_def payloads_def put_deal_def put_selection_def
      fun_eq_iff)

subsection \<open>The repositories\<close>

lemma wpE_GetDeal [wp_simps]:
  "wpE (deals_GetByID i) Q R s =
     (case row_select (\<lambda>d. d_id d = i) (stored_deals s) of
        None \<Rightarrow> R AppDealNotFound s
      | Some d \<Rightarrow> (case deal_Validate d of Some e \<Rightarrow> R (DealError e) s | None \<Rightarrow> Q d s))"
  by (simp add: wpE_def deals_GetByID_def stored_deals_def row_select_map row_deal_def
      deal_Rehydrate_def split: option.split)

lemma wpE_GetDealForUpdate [wp_simps]:
  "wpE (deals_GetByIDForUpdate i) Q R s = wpE (deals_GetByID i) Q R s"
  by (simp add: deals_GetByIDForUpdate_def)

lemma wpE_SaveDeal [wp_simps]: "wpE (deals_Save d) Q R s = Q () (put_deal d s)"
  by (simp add: deals_Save_def wpE_modify put_deal_def)

lemma wpE_GetSelection [wp_simps]:
  "wpE (selections_Get a) Q R s =
     (case stored_selection s a of
        None \<Rightarrow> R (DealError ErrSelectionNotFound) s | Some w \<Rightarrow> Q w s)"
  by (simp add: wpE_def selections_Get_def stored_selection_def split: option.split)

lemma wpE_GetSelectionForUpdate [wp_simps]:
  "wpE (selections_GetForUpdate a) Q R s = wpE (selections_Get a) Q R s"
  by (simp add: selections_GetForUpdate_def)

lemma wpE_SaveSelection [wp_simps]: "wpE (selections_Save w) Q R s = Q () (put_selection w s)"
  by (simp add: selections_Save_def wpE_modify put_selection_def)

lemma wpE_call [wp_simps]:
  "wpE (callE m x) Q R s =
     (case m x of (Inl e, _) \<Rightarrow> R (DealError e) s | (Inr v, x') \<Rightarrow> Q (v, x') s)"
  by (simp add: wpE_def callE_def split: prod.split sum.split)

lemma wpE_raise [wp_simps]:
  "wpE (raiseE r) Q R s = (case r of Inl e \<Rightarrow> R (DealError e) s | Inr a \<Rightarrow> Q a s)"
  by (simp add: wpE_def raiseE_def liftE_def split: sum.split)

lemma wpE_check [wp_simps]:
  "wpE (checkE x) Q R s = (case x of None \<Rightarrow> Q () s | Some e \<Rightarrow> R (DealError e) s)"
  by (simp add: checkE_def wpE_ret wpE_fail split: option.split)

lemma wpE_deals_uow [wp_simps]: "wpE (db_uow m) Q R s = wpE m Q R s"
  by (simp add: db_uow_plain)

lemma wpE_find_or:
  "wpE (find_or e m) Q R s = wpE m (\<lambda>x. Q (Some x))
     (\<lambda>err t. if err = DealError e then Q None t else R err t) s"
  by (simp add: find_or_def wpE_def catchE_def bindE_def retE_def failE_def
      split: prod.split sum.split)

definition outbox_ids_ok :: "deals_env \<Rightarrow> deals_store \<Rightarrow> bool" where
  "outbox_ids_ok env s \<longleftrightarrow> ob_id ` set (dst_outbox s) \<subseteq> de_id env ` {..<dst_ids s}"

lemma outbox_one:
  assumes inj: "inj (de_id env)" and ids: "outbox_ids_ok env s"
    and Q: "\<And>r n. ob_payload r = ev \<Longrightarrow>
       outbox_ids_ok env (s\<lparr>dst_outbox := dst_outbox s @ [r], dst_ids := n\<rparr>) \<Longrightarrow>
       Q () (s\<lparr>dst_outbox := dst_outbox s @ [r], dst_ids := n\<rparr>)"
  shows "wpE (bindE (deals_newOutboxID env) (\<lambda>i. bindE (deals_newOutboxID env) (\<lambda>j.
       deals_outbox_put (deals_outbox_row now i j ev)))) Q R s"
proof -
  have new: "de_id env (dst_ids s) \<notin> ob_id ` set (dst_outbox s)"
    using ids inj_image_mem_iff [OF inj, of "dst_ids s" "{..<dst_ids s}"]
    unfolding outbox_ids_ok_def by blast
  have sub: "{..<dst_ids s} \<subseteq> {..<Suc (Suc (dst_ids s))}"
    by auto
  define r where
    "r = deals_outbox_row now (de_id env (dst_ids s)) (de_id env (Suc (dst_ids s))) ev"
  have r: "ob_id r = de_id env (dst_ids s)" "ob_payload r = ev"
    by (simp_all add: r_def deals_outbox_row_def)
  define t where "t = s\<lparr>dst_outbox := dst_outbox s @ [r], dst_ids := Suc (Suc (dst_ids s))\<rparr>"
  have ok: "outbox_ids_ok env t"
    using ids image_mono [OF sub, of "de_id env"]
    by (auto simp: outbox_ids_ok_def t_def r)
  have "bindE (deals_newOutboxID env) (\<lambda>i. bindE (deals_newOutboxID env) (\<lambda>j.
       deals_outbox_put (deals_outbox_row now i j ev))) s = (Inr (), t)"
    using new unfolding image_iff
    by (simp add: bindE_def deals_newOutboxID_def deals_outbox_put_def zoomE_def outbox_insert_def
        r_def [symmetric] r list_ex_iff t_def) metis
  then show ?thesis
    using Q [OF r(2) ok [unfolded t_def]] by (simp add: wpE_def t_def)
qed

lemma deals_outbox_Add_wp:
  assumes inj: "inj (de_id env)"
  shows "outbox_ids_ok env s \<Longrightarrow>
    (\<And>rows n. map ob_payload rows = evs \<Longrightarrow>
       outbox_ids_ok env (s\<lparr>dst_outbox := dst_outbox s @ rows, dst_ids := n\<rparr>) \<Longrightarrow>
       Q () (s\<lparr>dst_outbox := dst_outbox s @ rows, dst_ids := n\<rparr>)) \<Longrightarrow>
    wpE (deals_outbox_Add env now evs) Q R s"
proof (induction evs arbitrary: s)
  case Nil
  from Nil(2) [of "[]" "dst_ids s"] Nil(1) show ?case
    by (simp add: deals_outbox_Add_def wpE_ret)
next
  case (Cons ev evs)
  have "wpE (bindE (deals_newOutboxID env) (\<lambda>i. bindE (deals_newOutboxID env) (\<lambda>j.
       deals_outbox_put (deals_outbox_row now i j ev)))) (\<lambda>_. wpE (deals_outbox_Add env now evs) Q R) R s"
  proof (rule outbox_one [OF inj Cons.prems(1)])
    fix r n
    assume r: "ob_payload r = ev"
      and ok: "outbox_ids_ok env (s\<lparr>dst_outbox := dst_outbox s @ [r], dst_ids := n\<rparr>)"
    show "wpE (deals_outbox_Add env now evs) Q R (s\<lparr>dst_outbox := dst_outbox s @ [r], dst_ids := n\<rparr>)"
    proof (rule Cons.IH [OF ok], goal_cases)
      case (1 rows n')
      then show ?case
        using Cons.prems(2) [of "r # rows" n'] r by simp
    qed
  qed
  then show ?case
    by (simp add: deals_outbox_Add_def wpE_bind)
qed

subsection \<open>The tables\<close>

text \<open>Where the current deal is while its selection has a given status.\<close>

fun phase_ok :: "selection_status \<Rightarrow> deal_status \<Rightarrow> bool" where
  "phase_ok WinnerSelectionActive st \<longleftrightarrow> st \<in> {DealStatusPending, DealStatusContractPrepared,
     DealStatusContractSigned, DealStatusCancelled}"
| "phase_ok WinnerSelectionConfirmedPendingPayment st \<longleftrightarrow> st \<in> {DealStatusConfirmed,
     DealStatusContractPrepared, DealStatusContractSigned, DealStatusPaymentRequested,
     DealStatusCancelled}"
| "phase_ok WinnerSelectionStatusFinalized st \<longleftrightarrow> st \<in> {DealStatusPaid,
     DealStatusShipmentRequested, DealStatusShipped, DealStatusCompleted, DealStatusCancelled}"
| "phase_ok _ st \<longleftrightarrow> False"

definition deal_good :: "deal \<Rightarrow> bool" where
  "deal_good d \<longleftrightarrow> storable d \<and> deal_Validate d = None \<and> d_type d = DealTypeAuction
     \<and> d_quantity d = 1"

definition deal_of_selection :: "winner_selection \<Rightarrow> deal \<Rightarrow> bool" where
  "deal_of_selection w d \<longleftrightarrow> d_auction d = ws_auction w \<and> d_supplier d = ws_supplier w
     \<and> d_unitPrice d = ws_finalPrice w \<and> d_createdAt d = ws_wonAt w \<and> d_snapshot d = ws_snapshot w"

definition offers :: "winner_selection \<Rightarrow> deal list \<Rightarrow> bool" where
  "offers w ds \<longleftrightarrow> ds \<noteq> [] \<and> map d_customer ds = take (nat (ws_index w) + 1) (ws_candidates w)
     \<and> (\<forall>x \<in> set (butlast ds). d_status x = DealStatusCancelled)
     \<and> d_id (last ds) = ws_deal w \<and> phase_ok (ws_status w) (d_status (last ds))"

definition selection_good :: "winner_selection \<Rightarrow> deal list \<Rightarrow> bool" where
  "selection_good w ds \<longleftrightarrow> 0 \<le> ws_index w \<and> ws_index w < int (length (ws_candidates w))
     \<and> selection_status_of (selection_status_text (ws_status w)) = ws_status w
     \<and> (\<forall>d \<in> set ds. deal_of_selection w d)
     \<and> (if ws_status w = WinnerSelectionExhausted
        then ws_deal w = [] \<and> (\<exists>k. map d_customer ds = take k (ws_candidates w))
          \<and> (\<forall>x \<in> set ds. d_status x = DealStatusCancelled)
        else offers w ds)"

definition tables_ok :: "deal list \<Rightarrow> (string \<Rightarrow> winner_selection option) \<Rightarrow> bool" where
  "tables_ok D W \<longleftrightarrow> distinct (map d_id D) \<and> (\<forall>d \<in> set D. deal_good d \<and> W (d_auction d) \<noteq> None)
     \<and> (\<forall>a w. W a = Some w \<longrightarrow> ws_auction w = a \<and> selection_good w (auction_deals a D))"

lemma tables_deal: "tables_ok D W \<Longrightarrow> d \<in> set D \<Longrightarrow> deal_good d"
  by (simp add: tables_ok_def)

lemma tables_selection:
  "tables_ok D W \<Longrightarrow> W a = Some w \<Longrightarrow> ws_auction w = a \<and> selection_good w (auction_deals a D)"
  by (simp add: tables_ok_def)

lemma terms_iff: "deal_terms d' = deal_terms d \<longleftrightarrow> d_id d' = d_id d \<and> d_customer d' = d_customer d
    \<and> d_supplier d' = d_supplier d \<and> d_auction d' = d_auction d \<and> d_quantity d' = d_quantity d
    \<and> d_unitPrice d' = d_unitPrice d \<and> d_type d' = d_type d \<and> d_createdAt d' = d_createdAt d
    \<and> d_contractSignDeadline d' = d_contractSignDeadline d \<and> d_snapshot d' = d_snapshot d"
  by (simp add: deal_terms_def)

lemma last_if_not_before: "x \<in> set xs \<Longrightarrow> x \<notin> set (butlast xs) \<Longrightarrow> last xs = x"
  by (cases xs rule: rev_cases) auto

text \<open>A deal that is not cancelled is the current deal of its auction.\<close>

lemma current_deal:
  assumes T: "tables_ok D W" and d: "d \<in> set D" "d_status d \<noteq> DealStatusCancelled"
  obtains w where "W (d_auction d) = Some w" "ws_deal w = d_id d"
    "auction_deals (d_auction d) D \<noteq> []" "last (auction_deals (d_auction d) D) = d"
    "phase_ok (ws_status w) (d_status d)"
proof -
  obtain w where w: "W (d_auction d) = Some w"
    using T d by (auto simp: tables_ok_def)
  define ds where "ds = auction_deals (d_auction d) D"
  have g: "selection_good w ds"
    using tables_selection [OF T w] by (simp add: ds_def)
  have mem: "d \<in> set ds"
    using d by (simp add: ds_def auction_deals_def)
  have ne: "ws_status w \<noteq> WinnerSelectionExhausted"
    using g d mem by (auto simp: selection_good_def)
  then have off: "offers w ds"
    using g by (simp add: selection_good_def)
  then have l: "last ds = d"
    using d mem by (intro last_if_not_before) (auto simp: offers_def)
  show thesis
    by (rule that [OF w]) (use off l in \<open>auto simp: offers_def ds_def\<close>)
qed


lemma upsert_split:
  assumes "distinct (map d_id (xs @ d # ys))" "d_id d' = d_id d"
  shows "row_upsert d_id d' (xs @ d # ys) = xs @ d' # ys"
  using row_update_split [of d_id xs d ys "\<lambda>_. d'"] assms
  by (simp add: row_upsert_def)

lemma upsert_new: "d_id d \<notin> d_id ` set D \<Longrightarrow> row_upsert d_id d D = D @ [d]"
  by (simp add: row_upsert_def list_ex_iff image_iff) metis

lemma auction_deals_append [simp]:
  "auction_deals a (xs @ ys) = auction_deals a xs @ auction_deals a ys"
  "auction_deals a (d # ds) = (if d_auction d = a then d # auction_deals a ds else auction_deals a ds)"
  "auction_deals a [] = []"
  by (simp_all add: auction_deals_def)

lemma set_auction_deals [simp]: "set (auction_deals a D) = {d \<in> set D. d_auction d = a}"
  by (auto simp: auction_deals_def)

lemma tables_update:
  assumes T: "tables_ok D W" and "distinct (map d_id D')" "\<forall>d \<in> set D'. deal_good d"
    and D': "\<And>b. b \<noteq> a \<Longrightarrow> auction_deals b D' = auction_deals b D"
    and w: "ws_auction w = a" "selection_good w (auction_deals a D')"
  shows "tables_ok D' (W(a \<mapsto> w))"
proof -
  have "(W(a \<mapsto> w)) (d_auction d) \<noteq> None" if d: "d \<in> set D'" for d
  proof (cases "d_auction d = a")
    case False
    have "d \<in> set (auction_deals (d_auction d) D')"
      using d by simp
    then have "d \<in> set D"
      using D' [OF False] by simp
    then show ?thesis
      using T False by (simp add: tables_ok_def)
  qed simp
  then have 1: "\<forall>d \<in> set D'. deal_good d \<and> (W(a \<mapsto> w)) (d_auction d) \<noteq> None"
    using assms(3) by blast
  have "ws_auction x = b \<and> selection_good x (auction_deals b D')"
    if x: "(W(a \<mapsto> w)) b = Some x" for b x
  proof (cases "b = a")
    case True
    with x w show ?thesis by simp
  next
    case False
    with x D' [OF False] tables_selection [OF T, of b x] show ?thesis by simp
  qed
  then show ?thesis
    using assms(2) 1 unfolding tables_ok_def by blast
qed

text \<open>The current deal takes a step, and its selection may follow.\<close>

lemma tables_step:
  assumes T: "tables_ok D W" and d: "d \<in> set D" and w: "W (d_auction d) = Some w"
    and cur: "last (auction_deals (d_auction d) D) = d" "phase_ok (ws_status w) (d_status d)"
    and d': "deal_terms d' = deal_terms d" "deal_good d'"
    and w': "w' = w\<lparr>ws_status := st\<rparr>" "phase_ok st (d_status d')"
  shows "tables_ok (row_upsert d_id d' D) (W(d_auction d \<mapsto> w'))"
proof -
  obtain xs ys where D: "D = xs @ d # ys"
    using d by (meson split_list)
  have dist: "distinct (map d_id D)"
    using T by (simp add: tables_ok_def)
  have up: "row_upsert d_id d' D = xs @ d' # ys"
    using upsert_split [of xs d ys d'] dist d' by (simp add: D terms_iff)
  have ys: "auction_deals (d_auction d) ys = []"
  proof (rule ccontr)
    assume ne: "auction_deals (d_auction d) ys \<noteq> []"
    then have "last (auction_deals (d_auction d) ys) = d"
      using cur(1) by (simp add: D)
    then have "d \<in> set ys"
      using ne last_in_set by fastforce
    then show False
      using dist by (auto simp: D)
  qed
  define ds where "ds = auction_deals (d_auction d) xs"
  have g: "ws_auction w = d_auction d" "selection_good w (ds @ [d])"
    using tables_selection [OF T w] ys by (simp_all add: D ds_def)
  have st: "ws_status w \<noteq> WinnerSelectionExhausted" "st \<noteq> WinnerSelectionExhausted"
    "selection_status_of (selection_status_text st) = st"
    using cur(2) w'(2) by (cases "ws_status w"; cases st; simp)+
  have off: "offers w (ds @ [d])"
    using g(2) st by (simp add: selection_good_def)
  have "offers w' (ds @ [d'])"
    using off w' d'(1) by (simp add: offers_def terms_iff)
  then have own: "selection_good w' (ds @ [d'])"
    using g(2) st w' d'(1) by (simp add: selection_good_def terms_iff deal_of_selection_def)
  show ?thesis
    unfolding up
  proof (rule tables_update [OF T])
    show "distinct (map d_id (xs @ d' # ys))"
      using dist d' by (simp add: D terms_iff)
    show "\<forall>x \<in> set (xs @ d' # ys). deal_good x"
      using T d' by (simp add: D tables_ok_def)
    show "auction_deals b (xs @ d' # ys) = auction_deals b D" if "b \<noteq> d_auction d" for b
      using that d'(1) by (simp add: D terms_iff)
    show "ws_auction w' = d_auction d"
      using g w' by simp
    show "selection_good w' (auction_deals (d_auction d) (xs @ d' # ys))"
      using own d'(1) ys by (simp add: ds_def terms_iff)
  qed
qed

text \<open>The next candidate gets a deal, or there is none left.\<close>

definition all_cancelled :: "deal list \<Rightarrow> bool" where
  "all_cancelled ds \<longleftrightarrow> (\<forall>d \<in> set ds. d_status d = DealStatusCancelled)"

lemma tables_append:
  assumes T: "tables_ok D W" and n: "deal_good n" "d_id n \<notin> d_id ` set D" "d_auction n = a"
    and w: "ws_auction w = a" "selection_good w (auction_deals a D @ [n])"
  shows "tables_ok (row_upsert d_id n D) (W(a \<mapsto> w))"
  unfolding upsert_new [OF n(2)]
  by (rule tables_update [OF T]) (use T n w in \<open>auto simp: tables_ok_def\<close>)

lemma tables_next:
  assumes T: "tables_ok D W" and w: "W a = Some w" "ws_status w \<noteq> WinnerSelectionExhausted"
    and c: "all_cancelled (auction_deals a D)"
    and i: "ws_index w + 1 < int (length (ws_candidates w))"
    and n: "deal_good n" "d_id n \<notin> d_id ` set D" "deal_of_selection w n"
      "d_status n = DealStatusPending" "d_customer n = ws_candidates w ! nat (ws_index w + 1)"
    and w': "w' = w\<lparr>ws_index := ws_index w + 1, ws_status := WinnerSelectionActive,
      ws_deal := d_id n\<rparr>"
  shows "tables_ok (row_upsert d_id n D) (W(a \<mapsto> w'))"
proof (rule tables_append [OF T n(1,2)])
  have g: "ws_auction w = a" "selection_good w (auction_deals a D)"
    using tables_selection [OF T w(1)] by auto
  then have off: "offers w (auction_deals a D)" and i0: "0 \<le> ws_index w"
    using w(2) by (auto simp: selection_good_def)
  show "d_auction n = a" "ws_auction w' = a"
    using n(3) g w' by (simp_all add: deal_of_selection_def)
  have "take (nat (ws_index w + 1) + 1) (ws_candidates w)
      = take (nat (ws_index w) + 1) (ws_candidates w) @ [d_customer n]"
    using i i0 n(5) take_Suc_conv_app_nth [of "nat (ws_index w + 1)" "ws_candidates w"]
    by (simp add: nat_add_distrib)
  then have "offers w' (auction_deals a D @ [n])"
    using off c n(4) unfolding w' by (simp add: offers_def all_cancelled_def)
  then show "selection_good w' (auction_deals a D @ [n])"
    using g(2) i i0 n(3) unfolding w' by (simp add: selection_good_def deal_of_selection_def)
qed

lemma tables_exhaust:
  assumes T: "tables_ok D W" and w: "W a = Some w" and c: "all_cancelled (auction_deals a D)"
    and w': "w' = w\<lparr>ws_index := i, ws_status := WinnerSelectionExhausted, ws_deal := []\<rparr>"
      "0 \<le> i" "i < int (length (ws_candidates w))"
  shows "tables_ok D (W(a \<mapsto> w'))"
proof (rule tables_update [OF T])
  have g: "ws_auction w = a" "selection_good w (auction_deals a D)"
    using tables_selection [OF T w] by auto
  show "ws_auction w' = a"
    using g w' by simp
  have "\<exists>k. map d_customer (auction_deals a D) = take k (ws_candidates w)"
    using g(2) by (auto simp: selection_good_def offers_def split: if_splits)
  then show "selection_good w' (auction_deals a D)"
    using g(2) c w' by (simp add: selection_good_def deal_of_selection_def all_cancelled_def)
qed (use T in \<open>auto simp: tables_ok_def\<close>)

text \<open>The first deal of an auction, or none if the first candidate is blank.\<close>

lemma no_deals_yet: "tables_ok D W \<Longrightarrow> W a = None \<Longrightarrow> auction_deals a D = []"
  by (auto simp: tables_ok_def auction_deals_def filter_empty_conv)

lemma tables_first:
  assumes T: "tables_ok D W" and W: "W a = None"
    and n: "deal_good n" "d_id n \<notin> d_id ` set D" "deal_of_selection w n"
      "d_status n = DealStatusPending" "d_customer n = hd (ws_candidates w)"
    and w: "ws_auction w = a" "ws_index w = 0" "ws_candidates w \<noteq> []"
      "ws_status w = WinnerSelectionActive" "ws_deal w = d_id n"
  shows "tables_ok (row_upsert d_id n D) (W(a \<mapsto> w))"
proof (rule tables_append [OF T n(1,2)])
  show "d_auction n = a" "ws_auction w = a"
    using n(3) w by (simp_all add: deal_of_selection_def)
  show "selection_good w (auction_deals a D @ [n])"
    unfolding no_deals_yet [OF T W]
    using n w by (cases "ws_candidates w") (simp_all add: selection_good_def offers_def)
qed

lemma tables_no_first:
  assumes T: "tables_ok D W" and W: "W a = None"
    and w: "ws_auction w = a" "ws_index w = 0" "ws_candidates w \<noteq> []"
      "ws_status w = WinnerSelectionExhausted" "ws_deal w = []"
  shows "tables_ok D (W(a \<mapsto> w))"
proof (rule tables_update [OF T])
  show "selection_good w (auction_deals a D)"
    using no_deals_yet [OF T W] w by (simp add: selection_good_def exI [of _ 0])
qed (use T w in \<open>auto simp: tables_ok_def\<close>)


subsection \<open>What billing is told\<close>

fun rejected_deal :: "deal_event \<Rightarrow> string list" where
  "rejected_deal (WinnerRejected sel i a c t r) = [i]"
| "rejected_deal _ = []"

fun finalized_deal :: "deal_event \<Rightarrow> string list" where
  "finalized_deal (WinnerSelectionFinalized sel i a c p g f t) = [i]"
| "finalized_deal _ = []"

definition rejected :: "deal_event list \<Rightarrow> string list" where
  "rejected P = concat (map rejected_deal P)"

definition finalized :: "deal_event list \<Rightarrow> string list" where
  "finalized P = concat (map finalized_deal P)"

fun event_ok :: "deal list \<Rightarrow> (string \<Rightarrow> winner_selection option) \<Rightarrow> deal_event \<Rightarrow> bool" where
  "event_ok D W (WinnerRejected sel i a c t r) \<longleftrightarrow> sel = a \<and> (\<exists>d \<in> set D. d_id d = i
     \<and> d_auction d = a \<and> d_customer d = c \<and> d_status d = DealStatusCancelled)"
| "event_ok D W (WinnerSelectionFinalized sel i a c p g f t) \<longleftrightarrow> sel = a \<and> (\<exists>d \<in> set D. d_id d = i
     \<and> d_auction d = a \<and> d_customer d = c \<and> d_unitPrice d = p
     \<and> (\<exists>w. W a = Some w \<and> ws_status w = WinnerSelectionStatusFinalized \<and> ws_deal w = i))"
| "event_ok D W _ \<longleftrightarrow> True"

definition events_ok :: "deal list \<Rightarrow> (string \<Rightarrow> winner_selection option) \<Rightarrow> deal_event list \<Rightarrow> bool" where
  "events_ok D W P \<longleftrightarrow> distinct (rejected P @ finalized P) \<and> (\<forall>ev \<in> set P. event_ok D W ev)"

lemma told_append [simp]:
  "rejected (P @ Q) = rejected P @ rejected Q" "finalized (P @ Q) = finalized P @ finalized Q"
  "rejected [] = []" "finalized [] = []"
  "rejected (ev # P) = rejected_deal ev @ rejected P"
  "finalized (ev # P) = finalized_deal ev @ finalized P"
  by (simp_all add: rejected_def finalized_def)

text \<open>No deal is uncancelled and no selection is unfinalised.\<close>

definition grows :: "deal list \<Rightarrow> (string \<Rightarrow> winner_selection option) \<Rightarrow> deal list
    \<Rightarrow> (string \<Rightarrow> winner_selection option) \<Rightarrow> bool" where
  "grows D W D' W' \<longleftrightarrow>
     (\<forall>d \<in> set D. \<exists>d' \<in> set D'. deal_terms d' = deal_terms d
        \<and> (d_status d = DealStatusCancelled \<longrightarrow> d_status d' = DealStatusCancelled))
     \<and> (\<forall>a w. W a = Some w \<and> ws_status w = WinnerSelectionStatusFinalized \<longrightarrow>
        (\<exists>w'. W' a = Some w' \<and> ws_status w' = WinnerSelectionStatusFinalized \<and> ws_deal w' = ws_deal w))"

lemma grows_event: "grows D W D' W' \<Longrightarrow> event_ok D W ev \<Longrightarrow> event_ok D' W' ev"
  by (cases ev) (auto simp: grows_def terms_iff, (metis+)?)

lemma grows_events: "grows D W D' W' \<Longrightarrow> events_ok D W P \<Longrightarrow> events_ok D' W' P"
  using grows_event unfolding events_ok_def by blast

lemma grows_refl: "grows D W D W"
  by (auto simp: grows_def)

lemma same_id: "tables_ok D W \<Longrightarrow> d \<in> set D \<Longrightarrow> x \<in> set D \<Longrightarrow> d_id x = d_id d \<Longrightarrow> x = d"
  unfolding tables_ok_def by (meson distinct_map inj_onD)

lemma told_rejected: "i \<in> set (rejected P) \<Longrightarrow> events_ok D W P \<Longrightarrow>
    \<exists>d \<in> set D. d_id d = i \<and> d_status d = DealStatusCancelled"
proof -
  assume "i \<in> set (rejected P)" and ok: "events_ok D W P"
  then obtain ev where "ev \<in> set P" "i \<in> set (rejected_deal ev)"
    by (auto simp: rejected_def)
  moreover from this ok have "event_ok D W ev"
    by (simp add: events_ok_def)
  ultimately show ?thesis
    by (cases ev rule: deal_event.exhaust) auto
qed

lemma told_finalized: "i \<in> set (finalized P) \<Longrightarrow> events_ok D W P \<Longrightarrow>
    \<exists>d \<in> set D. d_id d = i \<and>
      (\<exists>w. W (d_auction d) = Some w \<and> ws_status w = WinnerSelectionStatusFinalized \<and> ws_deal w = i)"
proof -
  assume "i \<in> set (finalized P)" and ok: "events_ok D W P"
  then obtain ev where "ev \<in> set P" "i \<in> set (finalized_deal ev)"
    by (auto simp: finalized_def)
  moreover from this ok have "event_ok D W ev"
    by (simp add: events_ok_def)
  ultimately show ?thesis
    by (cases ev rule: deal_event.exhaust) auto
qed

lemma live_not_told:
  assumes T: "tables_ok D W" and E: "events_ok D W P" and d: "d \<in> set D"
    "d_status d \<noteq> DealStatusCancelled"
  shows "d_id d \<notin> set (rejected P)"
    and "\<not> phase_ok WinnerSelectionStatusFinalized (d_status d) \<Longrightarrow> d_id d \<notin> set (finalized P)"
proof -
  show "d_id d \<notin> set (rejected P)"
    using told_rejected [OF _ E] same_id [OF T d(1)] d(2) by blast
  obtain w where "W (d_auction d) = Some w" "phase_ok (ws_status w) (d_status d)"
    using current_deal [OF T d] by metis
  then show "\<not> phase_ok WinnerSelectionStatusFinalized (d_status d) \<Longrightarrow> d_id d \<notin> set (finalized P)"
    using told_finalized [OF _ E, of "d_id d"] same_id [OF T d(1)] by fastforce
qed

subsection \<open>The invariant\<close>

text \<open>Billing has been told of every selection that is finalised.\<close>

definition told_ok :: "(string \<Rightarrow> winner_selection option) \<Rightarrow> deal_event list \<Rightarrow> bool" where
  "told_ok W P \<longleftrightarrow> (\<forall>a w. W a = Some w \<and> ws_status w = WinnerSelectionStatusFinalized
     \<longrightarrow> ws_deal w \<in> set (finalized P))"

lemma told_ok_upd [simp]:
  "told_ok W P \<Longrightarrow> ws_status w \<noteq> WinnerSelectionStatusFinalized \<Longrightarrow> told_ok (W(a \<mapsto> w)) P"
  unfolding told_ok_def by (metis fun_upd_apply option.inject)

definition deals_inv :: "deals_env \<Rightarrow> deals_store \<Rightarrow> bool" where
  "deals_inv env s \<longleftrightarrow> tables_ok (stored_deals s) (stored_selection s)
     \<and> events_ok (stored_deals s) (stored_selection s) (payloads s)
     \<and> told_ok (stored_selection s) (payloads s) \<and> outbox_ids_ok env s"

lemma inv_tables: "deals_inv env s \<Longrightarrow> tables_ok (stored_deals s) (stored_selection s)"
  and inv_events: "deals_inv env s \<Longrightarrow> events_ok (stored_deals s) (stored_selection s) (payloads s)"
  and inv_told: "deals_inv env s \<Longrightarrow> told_ok (stored_selection s) (payloads s)"
  and inv_ids: "deals_inv env s \<Longrightarrow> outbox_ids_ok env s"
  by (simp_all add: deals_inv_def)

definition dkeeps :: "deals_env \<Rightarrow> 'a deals \<Rightarrow> bool" where
  "dkeeps env m \<longleftrightarrow> (\<forall>s. deals_inv env s \<longrightarrow> wpE m (\<lambda>_. deals_inv env) (\<lambda>_. deals_inv env) s)"

lemma ids_put [simp]:
  "outbox_ids_ok env (put_deal d s) = outbox_ids_ok env s"
  "outbox_ids_ok env (put_selection w s) = outbox_ids_ok env s"
  "outbox_ids_ok env (s\<lparr>dst_confirmations := cs\<rparr>) = outbox_ids_ok env s"
  "outbox_ids_ok env (s\<lparr>dst_projections := ps\<rparr>) = outbox_ids_ok env s"
  by (simp_all add: outbox_ids_ok_def put_deal_def put_selection_def)

lemma payloads_add: "payloads (s\<lparr>dst_outbox := dst_outbox s @ rows, dst_ids := n\<rparr>)
    = payloads s @ map ob_payload rows"
  by (simp add: payloads_def)

text \<open>Saying something: the deals it is about are in the tables, and not told before.\<close>

lemma say_final_wp:
  assumes inj: "inj (de_id env)" and T: "tables_ok (stored_deals s) (stored_selection s)"
    and E: "events_ok (stored_deals s) (stored_selection s) (payloads s)"
    and told: "told_ok (stored_selection s) (payloads s @ evs)" and ids: "outbox_ids_ok env s"
    and new: "distinct (rejected evs @ finalized evs)"
      "set (rejected evs) \<inter> (set (rejected (payloads s)) \<union> set (finalized (payloads s))) = {}"
      "set (finalized evs) \<inter> (set (rejected (payloads s)) \<union> set (finalized (payloads s))) = {}"
    and ok: "\<And>ev. ev \<in> set evs \<Longrightarrow> event_ok (stored_deals s) (stored_selection s) ev"
  shows "wpE (deals_outbox_Add env now evs) (\<lambda>_. deals_inv env) R s"
proof (rule deals_outbox_Add_wp [OF inj ids])
  fix rows n
  assume rows: "map ob_payload rows = evs"
    and ids': "outbox_ids_ok env (s\<lparr>dst_outbox := dst_outbox s @ rows, dst_ids := n\<rparr>)"
  have "events_ok (stored_deals s) (stored_selection s) (payloads s @ evs)"
    using E new ok unfolding events_ok_def by auto
  then show "deals_inv env (s\<lparr>dst_outbox := dst_outbox s @ rows, dst_ids := n\<rparr>)"
    using T told ids' by (simp add: deals_inv_def payloads_add rows)
qed

lemma say_wp:
  assumes "inj (de_id env)" and inv: "deals_inv env s"
    and "distinct (rejected evs @ finalized evs)"
      "set (rejected evs) \<inter> (set (rejected (payloads s)) \<union> set (finalized (payloads s))) = {}"
      "set (finalized evs) \<inter> (set (rejected (payloads s)) \<union> set (finalized (payloads s))) = {}"
    and "\<And>ev. ev \<in> set evs \<Longrightarrow> event_ok (stored_deals s) (stored_selection s) ev"
  shows "wpE (deals_outbox_Add env now evs) (\<lambda>_. deals_inv env) R s"
  by (rule say_final_wp [OF assms(1) inv_tables [OF inv] inv_events [OF inv] _ inv_ids [OF inv] assms(3-6)])
    (use inv_told [OF inv] in \<open>auto simp: told_ok_def\<close>)

lemma say_nothing_wp:
  assumes "inj (de_id env)" "deals_inv env s"
    and "rejected evs = []" "finalized evs = []"
  shows "wpE (deals_outbox_Add env now evs) (\<lambda>_. deals_inv env) R s"
proof (rule say_wp [OF assms(1,2)])
  fix ev assume "ev \<in> set evs"
  then have "rejected_deal ev = []" "finalized_deal ev = []"
    using assms(3,4) by (auto simp: rejected_def finalized_def)
  then show "event_ok (stored_deals s) (stored_selection s) ev"
    by (cases ev) auto
qed (simp_all add: assms(3,4))


subsection \<open>Steps of the current deal\<close>

lemma some_contract:
  "c\<lparr>ci_number := n, ci_preparedAt := Some t, ci_documentURL := u\<rparr> \<noteq> no_contract"
  "c\<lparr>ci_signedAt := Some t, ci_signedBy := w, ci_signatureRef := u\<rparr> \<noteq> no_contract"
  by (cases c; simp add: no_contract_def)+

lemma step_good:
  assumes "deal_step d d'" "deal_good d"
  shows "deal_good d'"
proof -
  have "deal_Validate d' = deal_Validate d" "d_type d' = d_type d" "d_quantity d' = d_quantity d"
    using step_terms [OF assms(1)] by (simp_all add: terms_iff deal_Validate_def)
  moreover have "storable d'"
    using assms by (cases rule: deal_step.cases)
      (auto simp: deal_methods Let_def storable_def deal_good_def some_contract
        dest!: deal_Cancel_ok split: if_splits option.splits)
  ultimately show ?thesis
    using assms(2) by (simp add: deal_good_def)
qed

definition good_move :: "deal \<Rightarrow> deal_event list \<Rightarrow> deal \<Rightarrow> bool" where
  "good_move d evs d' \<longleftrightarrow> d_status d \<noteq> DealStatusCancelled \<and> deal_step d d'
     \<and> (\<forall>st. phase_ok st (d_status d) \<longrightarrow> phase_ok st (d_status d'))
     \<and> finalized evs = [] \<and> (rejected evs = [] \<or> rejected evs = [d_id d]
        \<and> d_status d' = DealStatusCancelled \<and> \<not> phase_ok WinnerSelectionStatusFinalized (d_status d)
        \<and> (\<forall>ev \<in> set evs. rejected_deal ev \<noteq> [] \<longrightarrow> (\<exists>now r. ev = winner_rejected now r d)))"

lemma save_step:
  assumes inv: "deals_inv env s" and d: "d \<in> set (stored_deals s)"
    and live: "d_status d \<noteq> DealStatusCancelled" and step: "deal_step d d'"
    and ph: "\<And>st. phase_ok st (d_status d) \<Longrightarrow> phase_ok st (d_status d')"
  shows "deals_inv env (put_deal d' s)" "d' \<in> set (stored_deals (put_deal d' s))"
    "auction_deals (d_auction d) (stored_deals (put_deal d' s))
       = butlast (auction_deals (d_auction d) (stored_deals s)) @ [d']"
proof -
  have T: "tables_ok (stored_deals s) (stored_selection s)"
    using inv by (simp add: deals_inv_def)
  have g: "deal_good d'" and terms: "deal_terms d' = deal_terms d"
    using step_good [OF step tables_deal [OF T d]] step_terms [OF step] by auto
  have st: "storable d'"
    using g by (simp add: deal_good_def)
  obtain w where w: "stored_selection s (d_auction d) = Some w" "ws_deal w = d_id d"
    "auction_deals (d_auction d) (stored_deals s) \<noteq> []"
    "last (auction_deals (d_auction d) (stored_deals s)) = d"
    "phase_ok (ws_status w) (d_status d)"
    using current_deal [OF T d live] by metis
  have T': "tables_ok (row_upsert d_id d' (stored_deals s)) (stored_selection s)"
    using tables_step [OF T d w(1,4,5) terms g _ ph [OF w(5)], of w] w(1)
    by (simp add: fun_upd_idem)
  obtain xs ys where D: "stored_deals s = xs @ d # ys"
    using d by (meson split_list)
  have up: "row_upsert d_id d' (stored_deals s) = xs @ d' # ys"
    using T upsert_split [of xs d ys d'] terms by (simp add: D terms_iff tables_ok_def)
  have "grows (stored_deals s) (stored_selection s)
      (row_upsert d_id d' (stored_deals s)) (stored_selection s)"
    using terms live unfolding up by (auto simp: grows_def D)
  from grows_events [OF this, of "payloads s"]
  have E': "events_ok (row_upsert d_id d' (stored_deals s)) (stored_selection s) (payloads s)"
    using inv by (simp add: deals_inv_def)
  show "deals_inv env (put_deal d' s)"
    using T' E' inv st by (simp add: deals_inv_def)
  show "d' \<in> set (stored_deals (put_deal d' s))"
    by (simp add: st up)
  have ne: "auction_deals (d_auction d) ys = []"
  proof (rule ccontr)
    assume ne: "auction_deals (d_auction d) ys \<noteq> []"
    then have "d \<in> set (auction_deals (d_auction d) ys)"
      using w(4) last_in_set [OF ne] by (simp add: D)
    then show False
      using T by (auto simp: D tables_ok_def)
  qed
  show "auction_deals (d_auction d) (stored_deals (put_deal d' s))
       = butlast (auction_deals (d_auction d) (stored_deals s)) @ [d']"
    using terms ne by (simp add: st up [unfolded D] D terms_iff butlast_append)
qed

lemma move_wp:
  assumes inj: "inj (de_id env)" and inv: "deals_inv env s" and d: "d \<in> set (stored_deals s)"
    and m: "good_move d evs d'"
  shows "wpE (bindE (deals_Save d') (\<lambda>_. deals_outbox_Add env now evs)) (\<lambda>_. deals_inv env) R s"
proof -
  have live: "d_status d \<noteq> DealStatusCancelled" and step: "deal_step d d'"
    and ph: "\<And>st. phase_ok st (d_status d) \<Longrightarrow> phase_ok st (d_status d')"
    using m by (auto simp: good_move_def)
  note saved = save_step [OF inv d live step ph]
  have T: "tables_ok (stored_deals s) (stored_selection s)"
    and E: "events_ok (stored_deals s) (stored_selection s) (payloads s)"
    using inv by (simp_all add: deals_inv_def)
  have terms: "deal_terms d' = deal_terms d"
    by (rule step_terms [OF step])
  show ?thesis
    unfolding wpE_bind wpE_SaveDeal
  proof (rule say_wp [OF inj saved(1)])
    show "distinct (rejected evs @ finalized evs)"
      using m by (auto simp: good_move_def)
    show "set (rejected evs) \<inter> (set (rejected (payloads (put_deal d' s)))
        \<union> set (finalized (payloads (put_deal d' s)))) = {}"
      using m live_not_told [OF T E d live] by (auto simp: good_move_def)
    show "set (finalized evs) \<inter> (set (rejected (payloads (put_deal d' s)))
        \<union> set (finalized (payloads (put_deal d' s)))) = {}"
      using m by (simp add: good_move_def)
  next
    fix ev assume ev: "ev \<in> set evs"
    have nf: "finalized_deal ev = []"
      using m ev by (auto simp: good_move_def finalized_def)
    show "event_ok (stored_deals (put_deal d' s)) (stored_selection (put_deal d' s)) ev"
    proof (cases "rejected_deal ev = []")
      case True
      then show ?thesis
        using nf by (cases ev rule: deal_event.exhaust) auto
    next
      case False
      then have "rejected evs \<noteq> []"
        using ev by (auto simp: rejected_def)
      then obtain now' r where "ev = winner_rejected now' r d" "d_status d' = DealStatusCancelled"
        using m False ev by (auto simp: good_move_def)
      then show ?thesis
        using saved(2) terms by (auto simp: winner_rejected_def terms_iff)
    qed
  qed
qed

text \<open>The methods of a deal are such moves.\<close>

lemma phase_step:
  "deal_step d d' \<Longrightarrow> \<not> (d_status d = DealStatusPending \<and> d_status d' = DealStatusConfirmed) \<Longrightarrow>
   \<not> (d_status d = DealStatusContractSigned \<and> d_status d' = DealStatusPaymentRequested) \<Longrightarrow>
   \<not> (d_status d = DealStatusPaymentRequested \<and> d_status d' = DealStatusPaid) \<Longrightarrow>
   phase_ok st (d_status d) \<Longrightarrow> phase_ok st (d_status d')"
  using step_status [of d d']
  by (cases st; cases "d_status d") (auto simp: CanTransitionTo_def)

lemma quiet_move:
  "deal_step d d' \<Longrightarrow> d_status d \<noteq> DealStatusCancelled \<Longrightarrow>
   \<not> (d_status d = DealStatusPending \<and> d_status d' = DealStatusConfirmed) \<Longrightarrow>
   \<not> (d_status d = DealStatusContractSigned \<and> d_status d' = DealStatusPaymentRequested) \<Longrightarrow>
   \<not> (d_status d = DealStatusPaymentRequested \<and> d_status d' = DealStatusPaid) \<Longrightarrow>
   rejected evs = [] \<Longrightarrow> finalized evs = [] \<Longrightarrow> good_move d evs d'"
  using phase_step [of d d'] by (auto simp: good_move_def)

lemma cancel_move:
  assumes c: "deal_Cancel now reason who d = (Inr evs, d')"
  shows "good_move d evs d'"
proof -
  have d': "d' = d\<lparr>d_status := DealStatusCancelled\<rparr>" and live: "d_status d \<noteq> DealStatusCancelled"
    using deal_Cancel_ok [OF c] by auto
  have step: "deal_step d d'"
    by (rule deal_step.cancelled [OF c])
  have ph: "phase_ok st (d_status d) \<longrightarrow> phase_ok st (d_status d')" for st
    by (cases st) (auto simp: d')
  have "finalized evs = [] \<and> (rejected evs = [] \<or> rejected evs = [d_id d]
      \<and> \<not> phase_ok WinnerSelectionStatusFinalized (d_status d)
      \<and> (\<forall>ev \<in> set evs. rejected_deal ev \<noteq> [] \<longrightarrow> (\<exists>now r. ev = winner_rejected now r d)))"
    using c by (auto simp: deal_Cancel_def Let_def winner_rejected_def
        statusEligibleForBuyerInitiatedDepositForfeit_def split: if_splits)
  then show ?thesis
    using step live ph d' by (simp add: good_move_def)
qed

lemma prepare_move: "deal_PrepareContract now nr url d = (Inr evs, d') \<Longrightarrow> good_move d evs d'"
  by (rule quiet_move [OF deal_step.prepared], assumption)
    (auto simp: deal_methods Let_def split: if_splits option.splits)

lemma sign_move: "deal_SignContract now who ref d = (Inr evs, d') \<Longrightarrow> good_move d evs d'"
  by (rule quiet_move [OF deal_step.signed], assumption)
    (auto simp: deal_methods Let_def split: if_splits option.splits)

lemma request_shipment_move: "deal_RequestShipment now d = (Inr evs, d') \<Longrightarrow> good_move d evs d'"
  by (rule quiet_move [OF deal_step.shipping], assumption)
    (auto simp: deal_methods Let_def split: if_splits option.splits)

lemma ship_move: "deal_MarkAsShipped now nr carrier d = (Inr evs, d') \<Longrightarrow> good_move d evs d'"
  by (rule quiet_move [OF deal_step.shipped], assumption)
    (auto simp: deal_methods Let_def split: if_splits option.splits)

lemma complete_move: "deal_Complete now d = (Inr evs, d') \<Longrightarrow> good_move d evs d'"
  by (rule quiet_move [OF deal_step.completed], assumption)
    (auto simp: deal_methods Let_def split: if_splits option.splits)

lemmas moves = cancel_move prepare_move sign_move request_shipment_move ship_move complete_move

end
