(* ===== verification/Deals_Keeps.thy ===== *)
theory Deals_Keeps
  imports Deals_Correct
begin

section \<open>Every deals use case keeps the invariant\<close>

text \<open>
  Each use case keeps \<open>deals_inv\<close>, whether it succeeds or returns an error half-way. The two that
  create a deal for the next candidate need an identifier not yet in use (\<open>fresh_id\<close>): the code
  takes it from the clock.
\<close>

definition fresh_id :: "deals_env \<Rightarrow> time \<Rightarrow> deals_store \<Rightarrow> bool" where
  "fresh_id env now s \<longleftrightarrow> generateID (de_local env) now \<notin> d_id ` set (stored_deals s)"

lemma dkeepsI: "(\<And>s. deals_inv env s \<Longrightarrow> wpE m (\<lambda>_. deals_inv env) (\<lambda>_. deals_inv env) s) \<Longrightarrow> dkeeps env m"
  by (simp add: dkeeps_def)

lemma dkeepsD: "dkeeps env m \<Longrightarrow> deals_inv env s \<Longrightarrow> wpE m (\<lambda>_. deals_inv env) (\<lambda>_. deals_inv env) s"
  by (simp add: dkeeps_def)

lemma found_deal: "row_select (\<lambda>d. d_id d = i) D = Some d \<Longrightarrow> d \<in> set D \<and> d_id d = i"
  by (auto dest: row_select_SomeD)

text \<open>A loaded deal is valid.\<close>

lemma deals_load_wp:
  assumes "deals_inv env s" "\<And>e. R e s"
    and "\<And>d. d \<in> set (stored_deals s) \<Longrightarrow> d_id d = i \<Longrightarrow> deal_good d \<Longrightarrow> Q d s"
  shows "wpE (deals_GetByID i) Q R s"
  using assms tables_deal [OF inv_tables [OF assms(1)]]
  by (auto simp: wpE_GetDeal split: option.split dest!: found_deal)

lemma load_for_update_wp:
  assumes "deals_inv env s" "\<And>e. R e s"
    and "\<And>d. d \<in> set (stored_deals s) \<Longrightarrow> d_id d = i \<Longrightarrow> deal_good d \<Longrightarrow> Q d s"
  shows "wpE (deals_GetByIDForUpdate i) Q R s"
  unfolding wpE_GetDealForUpdate by (rule deals_load_wp) (use assms in auto)

lemma good_auction: "deal_good d \<Longrightarrow> d_auction d \<noteq> []"
  by (auto simp: deal_good_def deal_Validate_def split: if_splits)

lemma good_type: "deal_good d \<Longrightarrow> d_type d = DealTypeAuction"
  by (simp add: deal_good_def)

lemma good_id: "deal_good d \<Longrightarrow> d_id d \<noteq> []"
  by (auto simp: deal_good_def deal_Validate_def split: if_splits)

text \<open>The use cases of one deal start alike.\<close>

lemma start_wp:
  assumes inv: "deals_inv env s"
    and go: "\<And>d. d \<in> set (stored_deals s) \<Longrightarrow> wpE (f d) (\<lambda>_. deals_inv env) (\<lambda>_. deals_inv env) s"
  shows "wpE (if i = [] then failE e else db_uow (bindE (deals_GetByID i) f))
      (\<lambda>_. deals_inv env) (\<lambda>_. deals_inv env) s"
    "wpE (if i = [] then failE e else db_uow (bindE (deals_GetByIDForUpdate i) f))
      (\<lambda>_. deals_inv env) (\<lambda>_. deals_inv env) s"
  unfolding wpE_if wpE_fail wpE_deals_uow wpE_bind
  by (simp_all only: split: if_split)
    (intro conjI impI inv deals_load_wp [OF inv] load_for_update_wp [OF inv] go; assumption)+

subsection \<open>executeDealMutation\<close>

lemma mutation_wp:
  assumes "inj (de_id env)" "deals_inv env s" "d \<in> set (stored_deals s)"
    and "\<And>evs d'. mutate d = (Inr evs, d') \<Longrightarrow> good_move d evs d'"
  shows "wpE (deal_mutation_loaded env now mutate d) (\<lambda>_. deals_inv env) (\<lambda>_. deals_inv env) s"
  using assms
  by (auto simp: deal_mutation_loaded_def wpE_bind [of "callE _ _"] wpE_call intro!: move_wp
      split: prod.split sum.split)

lemma executeDealMutation_keeps:
  assumes "inj (de_id env)"
    and "\<And>d evs d'. deal_good d \<Longrightarrow> mutate d = (Inr evs, d') \<Longrightarrow> good_move d evs d'"
  shows "dkeeps env (executeDealMutation env now i mutate)"
proof (rule dkeepsI)
  fix s assume inv: "deals_inv env s"
  show "wpE (executeDealMutation env now i mutate) (\<lambda>_. deals_inv env) (\<lambda>_. deals_inv env) s"
    unfolding executeDealMutation_def
    by (rule start_wp [OF inv], rule mutation_wp [OF assms(1) inv])
      (auto intro: assms(2) tables_deal [OF inv_tables [OF inv]])
qed

lemma UpdatePrice_never: "deal_good d \<Longrightarrow> deal_UpdatePrice now p who d \<noteq> (Inr evs, d')"
  by (simp add: deal_UpdatePrice_def deal_good_def)

lemma dkeeps_if: "dkeeps env m \<Longrightarrow> dkeeps env n \<Longrightarrow> dkeeps env (if b then m else n)"
  by simp

lemma dkeeps_fail: "dkeeps env (failE e)"
  by (simp add: dkeeps_def wpE_fail)

lemmas dkeeps_intros = dkeeps_if dkeeps_fail executeDealMutation_keeps

lemma simple_keeps:
  assumes "inj (de_id env)"
  shows "dkeeps env (PrepareContract env now i nr url)"
    "dkeeps env (SignContract env now meta i ref)"
    "dkeeps env (RequestShipment env now i)"
    "dkeeps env (MarkDealShipped env now i nr carrier)"
    "dkeeps env (CompleteDeal env now i)"
    "dkeeps env (CancelDeal env now meta i reason)"
    "dkeeps env (UpdateDealPrice env now meta i p)"
  unfolding PrepareContract_def SignContract_def RequestShipment_def MarkDealShipped_def
    CompleteDeal_def CancelDeal_def UpdateDealPrice_def Let_def
  by (intro dkeeps_intros assms; auto dest: moves simp: UpdatePrice_never)+

subsection \<open>A step of the deal with one of its selection\<close>

lemma joint_step:
  assumes inv: "deals_inv env s" and d: "d \<in> set (stored_deals s)"
    "d_status d \<noteq> DealStatusCancelled" and step: "deal_step d d'"
    and w: "stored_selection s (d_auction d) = Some w"
    and w': "w' = w\<lparr>ws_status := st\<rparr>" "phase_ok st (d_status d')"
      "ws_status w \<noteq> WinnerSelectionStatusFinalized \<or> st = ws_status w"
  shows "tables_ok (row_upsert d_id d' (stored_deals s)) ((stored_selection s)(d_auction d \<mapsto> w'))"
    "events_ok (row_upsert d_id d' (stored_deals s)) ((stored_selection s)(d_auction d \<mapsto> w'))
       (payloads s)"
    "d' \<in> set (row_upsert d_id d' (stored_deals s))" "storable d'"
    "selection_status_of (selection_status_text st) = st"
proof -
  have T: "tables_ok (stored_deals s) (stored_selection s)"
    by (rule inv_tables [OF inv])
  have g: "deal_good d'" and terms: "deal_terms d' = deal_terms d"
    using step_good [OF step tables_deal [OF T d(1)]] step_terms [OF step] by auto
  obtain x where "stored_selection s (d_auction d) = Some x"
    "last (auction_deals (d_auction d) (stored_deals s)) = d" "phase_ok (ws_status x) (d_status d)"
    using current_deal [OF T d] by metis
  with w have cur: "last (auction_deals (d_auction d) (stored_deals s)) = d"
    "phase_ok (ws_status w) (d_status d)"
    by auto
  show "tables_ok (row_upsert d_id d' (stored_deals s)) ((stored_selection s)(d_auction d \<mapsto> w'))"
    by (rule tables_step [OF T d(1) w cur terms g w'(1,2)])
  obtain xs ys where D: "stored_deals s = xs @ d # ys"
    using d by (meson split_list)
  have up: "row_upsert d_id d' (stored_deals s) = xs @ d' # ys"
    using T upsert_split [of xs d ys d'] terms by (simp add: D terms_iff tables_ok_def)
  have "grows (stored_deals s) (stored_selection s) (row_upsert d_id d' (stored_deals s))
      ((stored_selection s)(d_auction d \<mapsto> w'))"
    using terms d w w' unfolding up by (auto simp: grows_def D)
  then show "events_ok (row_upsert d_id d' (stored_deals s)) ((stored_selection s)(d_auction d \<mapsto> w'))
       (payloads s)"
    by (rule grows_events [OF _ inv_events [OF inv]])
  show "d' \<in> set (row_upsert d_id d' (stored_deals s))"
    by (simp add: up)
  show "storable d'"
    using g by (simp add: deal_good_def)
  show "selection_status_of (selection_status_text st) = st"
    using w'(2) by (cases st) auto
qed

lemma inv_from_views:
  assumes "tables_ok D W" "events_ok D W P" "outbox_ids_ok env s" "told_ok W P"
    and "stored_deals s = D" "stored_selection s = W" "payloads s = P"
  shows "deals_inv env s"
  using assms by (simp add: deals_inv_def)

lemma selection_auction: "deals_inv env s \<Longrightarrow> stored_selection s a = Some w \<Longrightarrow> ws_auction w = a"
  using tables_selection [OF inv_tables] by blast

lemma RequestPayment_keeps:
  assumes inj: "inj (de_id env)"
  shows "dkeeps env (RequestPayment env now i nr due)"
proof (rule dkeepsI)
  fix s assume inv: "deals_inv env s"
  have go: "wpE (deal_mutation_loaded env now (deal_RequestPayment now nr due) d)
      (\<lambda>_. deals_inv env) (\<lambda>_. deals_inv env) s"
    if d: "d \<in> set (stored_deals s)" and w: "stored_selection s (d_auction d) = Some w"
      and st: "ws_status w = WinnerSelectionConfirmedPendingPayment" for d w
  proof (cases "deal_RequestPayment now nr due d")
    case (Pair r d')
    show ?thesis
    proof (cases r)
      case (Inl e)
      then show ?thesis
        using Pair inv by (simp add: deal_mutation_loaded_def wpE_bind wpE_call)
    next
      case (Inr evs)
      then have step: "deal_step d d'"
        using Pair by (blast intro: deal_step.requested)
      have o: "d_status d = DealStatusContractSigned" "d_status d' = DealStatusPaymentRequested"
        "rejected evs = []" "finalized evs = []"
        using Pair Inr by (auto simp: deal_RequestPayment_def split: if_splits)
      have js: "tables_ok (row_upsert d_id d' (stored_deals s)) (stored_selection s)"
        "events_ok (row_upsert d_id d' (stored_deals s)) (stored_selection s) (payloads s)"
        "storable d'"
        using joint_step [OF inv d _ step w, of w "ws_status w"] o st w by (simp_all add: fun_upd_idem)
      have "deals_inv env (put_deal d' s)"
        by (rule inv_from_views [OF js(1,2)]) (use inv js(3) in \<open>simp_all add: deals_inv_def\<close>)
      then show ?thesis
        using Pair Inr o say_nothing_wp [OF inj]
        by (simp add: deal_mutation_loaded_def wpE_bind wpE_call wpE_SaveDeal)
    qed
  qed
  show "wpE (RequestPayment env now i nr due) (\<lambda>_. deals_inv env) (\<lambda>_. deals_inv env) s"
    unfolding RequestPayment_def
  proof (rule start_wp(2) [OF inv])
    fix d assume d: "d \<in> set (stored_deals s)"
    have g: "deal_good d"
      by (rule tables_deal [OF inv_tables [OF inv] d])
    show "wpE (bindE (if d_type d = DealTypeAuction \<and> d_auction d \<noteq> [] then
          bindE (catchE (selections_GetForUpdate (d_auction d))
            (\<lambda>e. failE (if e = DealError ErrSelectionNotFound
                        then DealError ErrWinnerSelectionMissingForAuctionDeal else e))) (\<lambda>sel.
          if ws_deal sel \<noteq> d_id d then failE (DealError ErrWinnerSelectionDealMismatch)
          else if ws_status sel \<noteq> WinnerSelectionConfirmedPendingPayment
            then failE (DealError ErrWinnerSelectionNotAwaitingPayment)
          else retE ())
        else retE ()) (\<lambda>_. deal_mutation_loaded env now (deal_RequestPayment now nr due) d))
      (\<lambda>_. deals_inv env) (\<lambda>_. deals_inv env) s"
      using inv go [OF d] good_auction [OF g] good_type [OF g]
      by (simp add: wp_simps split: option.split)
  qed
qed

subsection \<open>Confirmations\<close>

lemma confirm_step:
  "deal_Confirm now d = (Inr evs, d') \<Longrightarrow> deal_step d d' \<and> d_status d = DealStatusPending
     \<and> d_status d' = DealStatusConfirmed \<and> d_confirmedAt d' = Some now
     \<and> rejected evs = [] \<and> finalized evs = []"
  by (auto simp: deal_Confirm_def intro: deal_step.confirmed split: if_splits)

lemma mark_confirmed:
  "MarkCurrentConfirmed i w = (Inr (), w') \<Longrightarrow> ws_deal w = i \<Longrightarrow>
     ws_status w = WinnerSelectionActive \<and> w' = w\<lparr>ws_status := WinnerSelectionConfirmedPendingPayment\<rparr>"
  by (auto simp: MarkCurrentConfirmed_def Let_def split: if_splits option.splits)

text \<open>A deal that is being confirmed takes its selection along; any other leaves it alone.\<close>

lemma append_other:
  "d_status d \<noteq> DealStatusConfirmed \<Longrightarrow> wpE (appendAuctionWinnerConfirmedIfNeeded d) Q R s = Q [] s"
  by (simp add: appendAuctionWinnerConfirmedIfNeeded_def wpE_ret)

lemma append_confirmed_wp:
  assumes inv: "deals_inv env s" and d: "d \<in> set (stored_deals s)"
    and c: "deal_Confirm now d = (Inr evs, d')"
    and R: "\<And>e. R e s"
    and Q: "\<And>w w'. stored_selection s (d_auction d) = Some w \<Longrightarrow>
        w' = w\<lparr>ws_status := WinnerSelectionConfirmedPendingPayment\<rparr> \<Longrightarrow>
        ws_status w = WinnerSelectionActive \<Longrightarrow> Q [winner_confirmed d' now] (put_selection w' s)"
  shows "wpE (appendAuctionWinnerConfirmedIfNeeded d') Q R s"
proof -
  have o: "deal_step d d'" "d_status d = DealStatusPending" "d_status d' = DealStatusConfirmed"
    "d_confirmedAt d' = Some now"
    using confirm_step [OF c] by auto
  have g: "deal_good d" and t: "deal_terms d' = deal_terms d"
    using tables_deal [OF inv_tables [OF inv] d] step_terms [OF o(1)] by auto
  obtain w where w: "stored_selection s (d_auction d) = Some w" "ws_deal w = d_id d"
    using current_deal [OF inv_tables [OF inv] d] o(2) by force
  have m: "MarkCurrentConfirmed (d_id d) w = (Inr (), w') \<Longrightarrow>
      Q [winner_confirmed d' now] (put_selection w' s)" for w'
    using mark_confirmed [OF _ w(2)] Q [OF w(1)] by blast
  show ?thesis
    unfolding appendAuctionWinnerConfirmedIfNeeded_def
    using w(1) t o R m good_type [OF g] good_auction [OF g]
    by (simp add: wp_simps terms_iff split: prod.split sum.split)
qed

lemma confirm_inv:
  assumes inv: "deals_inv env s" and d: "d \<in> set (stored_deals s)"
    and c: "deal_Confirm now d = (Inr evs, d')"
    and w: "stored_selection s (d_auction d) = Some w"
      "w' = w\<lparr>ws_status := WinnerSelectionConfirmedPendingPayment\<rparr>"
      "ws_status w = WinnerSelectionActive"
  shows "deals_inv env (put_deal d' (put_selection w' s))"
    "deals_inv env (put_deal d' ((put_selection w' s)\<lparr>dst_confirmations := cs\<rparr>))"
proof -
  have o: "deal_step d d'" "d_status d \<noteq> DealStatusCancelled" "d_status d' = DealStatusConfirmed"
    using confirm_step [OF c] by auto
  note js = joint_step [OF inv d o(2,1) w(1,2)]
  have js': "tables_ok (row_upsert d_id d' (stored_deals s)) ((stored_selection s)(d_auction d \<mapsto> w'))"
    "events_ok (row_upsert d_id d' (stored_deals s)) ((stored_selection s)(d_auction d \<mapsto> w'))
       (payloads s)"
    "storable d'" "selection_status_of (selection_status_text (ws_status w')) = ws_status w'"
    "ws_auction w' = d_auction d"
    using js o w selection_auction [OF inv w(1)] by auto
  show "deals_inv env (put_deal d' (put_selection w' s))"
    "deals_inv env (put_deal d' ((put_selection w' s)\<lparr>dst_confirmations := cs\<rparr>))"
    by (rule inv_from_views [OF js'(1,2)]; use inv js'(3,4,5) w(2) in \<open>simp add: deals_inv_def\<close>)+
qed

lemma ConfirmDeal_keeps:
  assumes inj: "inj (de_id env)"
  shows "dkeeps env (ConfirmDeal env now i)"
proof (rule dkeepsI)
  fix s assume inv: "deals_inv env s"
  have "wpE (bindE (callE (deal_Confirm now) d) (\<lambda>(dealEvents, d').
      bindE (appendAuctionWinnerConfirmedIfNeeded d') (\<lambda>extra.
      bindE (deals_Save d') (\<lambda>_. deals_outbox_Add env now (dealEvents @ extra)))))
      (\<lambda>_. deals_inv env) (\<lambda>_. deals_inv env) s" if d: "d \<in> set (stored_deals s)" for d
  proof (cases "deal_Confirm now d")
    case (Pair r d')
    show ?thesis
    proof (cases r)
      case (Inr evs)
      with Pair have c: "deal_Confirm now d = (Inr evs, d')" by simp
      have "rejected (evs @ [winner_confirmed d' now]) = []"
        "finalized (evs @ [winner_confirmed d' now]) = []"
        using confirm_step [OF c] by (simp_all add: winner_confirmed_def)
      then show ?thesis
        unfolding wpE_bind wpE_call c prod.case sum.case wpE_SaveDeal
        by (intro append_confirmed_wp [OF inv d c] inv say_nothing_wp [OF inj] confirm_inv [OF inv d c])
    qed (simp add: Pair inv wpE_bind wpE_call)
  qed
  then show "wpE (ConfirmDeal env now i) (\<lambda>_. deals_inv env) (\<lambda>_. deals_inv env) s"
    unfolding ConfirmDeal_def by (rule start_wp(2) [OF inv])
qed


lemma inv_confirmations [simp]:
  "deals_inv env (s\<lparr>dst_confirmations := cs\<rparr>) = deals_inv env s"
  "deals_inv env (s\<lparr>dst_projections := ps\<rparr>) = deals_inv env s"
  by (simp_all add: deals_inv_def)

text \<open>Reads and calls that may fail, in front of a method.\<close>

lemma call_bind_wp:
  assumes "\<And>e. R e s" "\<And>v x'. m x = (Inr v, x') \<Longrightarrow> wpE (f (v, x')) Q R s"
  shows "wpE (bindE (callE m x) f) Q R s"
  using assms by (simp add: wpE_bind wpE_call split: prod.split sum.split)

lemma raise_bind_wp:
  assumes "\<And>e. R e s" "\<And>v. r = Inr v \<Longrightarrow> wpE (f v) Q R s"
  shows "wpE (bindE (raiseE r) f) Q R s"
  using assms by (simp add: wpE_bind wpE_raise split: sum.split)

lemma check_bind_wp:
  assumes "\<And>e. R e s" "x = None \<Longrightarrow> wpE (f ()) Q R s"
  shows "wpE (bindE (checkE x) f) Q R s"
  using assms by (simp add: wpE_bind wpE_check split: option.split)

lemma confirmation_bind_wp:
  assumes "\<And>e. R e s" "\<And>c. wpE (f c) Q R s"
  shows "wpE (bindE (confirmations_find now p) f) Q R s"
  using assms by (simp add: wpE_bind, simp add: wpE_def confirmations_find_def
      split: option.split sum.split)

lemma find_confirmation_wp:
  assumes "\<And>e. R e s" "\<And>c. Q c s"
  shows "wpE (confirmations_find now p) Q R s"
  using assms by (simp add: wpE_def confirmations_find_def split: option.split sum.split)

lemma selection_bind_wp:
  assumes "\<And>e. R e s" "\<And>w. stored_selection s a = Some w \<Longrightarrow> wpE (f w) Q R s"
  shows "wpE (bindE (selections_Get a) f) Q R s" "wpE (bindE (selections_GetForUpdate a) f) Q R s"
  using assms by (simp_all add: wpE_bind wp_simps split: option.split)

lemma guard_wp:
  assumes "\<And>e. R e s" "\<not> b \<Longrightarrow> wpE m Q R s"
  shows "wpE (if b then failE e else m) Q R s"
  using assms by (simp add: wpE_fail)

lemma confirmation_save_wp:
  assumes "\<And>e. R e s" "\<And>cs. Q () (s\<lparr>dst_confirmations := cs\<rparr>)"
  shows "wpE (confirmations_Save c) Q R s"
  using assms by (simp add: wpE_def confirmations_Save_def Let_def)

text \<open>A confirmation that has been resolved, of a deal that exists, can be saved.\<close>

lemma resolved_save_wp:
  assumes "dc_deal c \<in> d_id ` set (stored_deals s)" "confirmation_status_text (dc_status c) \<noteq> ''pending''"
    and "\<And>cs. Q () (s\<lparr>dst_confirmations := cs\<rparr>)"
  shows "wpE (confirmations_Save c) Q R s"
proof -
  have "list_ex (\<lambda>x. dr_id x = dc_deal c) (dst_deals s)"
    using assms(1) by (auto simp: stored_deals_def list_ex_iff)
  moreover have "\<not> same_pending x (confirmation_row_of c)" for x
    using assms(2) by (simp add: same_pending_def confirmation_row_of_def)
  moreover have "cr_deal (confirmation_row_of c) = dc_deal c"
    by (simp add: confirmation_row_of_def)
  moreover have "\<not> list_ex (\<lambda>x. False) xs" for xs :: "confirmation_row list"
    by (induction xs) simp_all
  ultimately show ?thesis
    using assms(3) by (simp add: wpE_def confirmations_Save_def Let_def)
qed

lemma request_events:
  "deal_RequestConfirmation now st bc bu v th sr cm ex d = Inr (c, evs) \<Longrightarrow>
     rejected evs = [] \<and> finalized evs = []"
  by (auto simp: deal_RequestConfirmation_def confirmation_requested_def map_sum_def
      split: if_splits sum.splits)

lemma RequestDealConfirmation_keeps:
  assumes inj: "inj (de_id env)"
  shows "dkeeps env (RequestDealConfirmation env now meta i cmd)"
proof (rule dkeepsI)
  fix s assume inv: "deals_inv env s"
  have save: "wpE (bindE (confirmations_Save c) (\<lambda>_. bindE (deals_outbox_Add env now evs)
      (\<lambda>_. retE c))) (\<lambda>_. deals_inv env) (\<lambda>_. deals_inv env) s"
    if "rejected evs = []" "finalized evs = []" for c evs
    unfolding wpE_bind wpE_ret
    by (intro confirmation_save_wp inv say_nothing_wp [OF inj] that) (simp add: inv)
  show "wpE (RequestDealConfirmation env now meta i cmd) (\<lambda>_. deals_inv env) (\<lambda>_. deals_inv env) s"
    unfolding RequestDealConfirmation_def
  proof (rule start_wp(1) [OF inv])
    fix d assume "d \<in> set (stored_deals s)"
    show "wpE (bindE (find_or ErrConfirmationNotFound (confirmations_GetPending now i (rq_stage cmd)))
        (\<lambda>pending. if pending \<noteq> None then failE (DealError ErrConfirmationAlreadyPending) else
      bindE (raiseE (deal_RequestConfirmation now (rq_stage cmd) (dm_company meta) (dm_user meta)
               (rq_verification cmd) (rq_token_hash cmd) (rq_signature cmd) (rq_comment cmd)
               (rq_expiresAt cmd) d)) (\<lambda>(c, events).
      bindE (confirmations_Save c) (\<lambda>_.
      bindE (deals_outbox_Add env now events) (\<lambda>_. retE c)))))
      (\<lambda>_. deals_inv env) (\<lambda>_. deals_inv env) s"
      unfolding wpE_bind [of "find_or _ _"] wpE_find_or confirmations_GetPending_def
      by (rule find_confirmation_wp)
        (auto simp: inv wpE_fail wpE_bind [of "raiseE _"] wpE_raise intro: save
          dest!: request_events split: sum.split prod.split)
  qed
qed

lemma apply_cases:
  assumes a: "deal_ApplyApprovedConfirmation now c d = (Inr evs, d')"
  shows "deal_Confirm now d = (Inr evs, d') \<or> d_status d' \<noteq> DealStatusConfirmed \<and> good_move d evs d'"
proof (cases "dc_stage c")
  case StageShipped
  with a have m: "deal_MarkAsShipped now [] [] d = (Inr evs, d')"
    by (simp add: deal_ApplyApprovedConfirmation_def split: if_splits)
  then have "d_status d' = DealStatusShipped"
    by (auto simp: deal_MarkAsShipped_def split: if_splits)
  then show ?thesis using ship_move [OF m] by simp
next
  case StageCompleted
  with a have m: "deal_Complete now d = (Inr evs, d')"
    by (simp add: deal_ApplyApprovedConfirmation_def split: if_splits)
  then have "d_status d' = DealStatusCompleted"
    by (auto simp: deal_Complete_def split: if_splits)
  then show ?thesis using complete_move [OF m] by simp
next
  case StageCancelled
  with a obtain r w where m: "deal_Cancel now r w d = (Inr evs, d')"
    by (simp add: deal_ApplyApprovedConfirmation_def split: if_splits)
  then show ?thesis using cancel_move [OF m] deal_Cancel_ok [OF m] by simp
qed (use a in \<open>auto simp: deal_ApplyApprovedConfirmation_def split: if_splits\<close>)

lemma approve_ok:
  "Approve co u t c = (Inr evs, c') \<Longrightarrow> dc_status c' = ConfirmationApproved \<and> dc_deal c' = dc_deal c
     \<and> rejected evs = [] \<and> finalized evs = [] \<and> (\<forall>ev \<in> set evs. rejected_deal ev = [])"
  "Reject co u r t c = (Inr evs, c') \<Longrightarrow> dc_status c' = ConfirmationRejected \<and> dc_deal c' = dc_deal c
     \<and> rejected evs = [] \<and> finalized evs = []"
  by (auto simp: Approve_def Reject_def split: option.splits)

lemma good_move_pre:
  "good_move d evs d' \<Longrightarrow> finalized pre = [] \<Longrightarrow> rejected pre = [] \<Longrightarrow>
    (\<forall>ev \<in> set pre. rejected_deal ev = []) \<Longrightarrow> good_move d (pre @ evs) d'"
  by (auto simp: good_move_def)

text \<open>The tail of \<open>ApproveDealConfirmation\<close>, once the deal has been changed in memory.\<close>

lemma approve_tail_wp:
  assumes inj: "inj (de_id env)" and inv: "deals_inv env s" and d: "d \<in> set (stored_deals s)"
    and a: "Approve co u t c = (Inr pre, c')" and c: "dc_deal c = d_id d"
    and ap: "deal_ApplyApprovedConfirmation now c' d = (Inr evs, d')"
  shows "wpE (bindE (appendAuctionWinnerConfirmedIfNeeded d') (\<lambda>extra.
      bindE (confirmations_Save c') (\<lambda>_.
      bindE (deals_Save d') (\<lambda>_.
      bindE (deals_outbox_Add env now (pre @ evs @ extra)) (\<lambda>_.
      retE c'))))) (\<lambda>_. deals_inv env) (\<lambda>_. deals_inv env) s"
proof -
  note ok = approve_ok(1) [OF a]
  have res: "dc_deal c' \<in> d_id ` set (stored_deals s)"
    "confirmation_status_text (dc_status c') \<noteq> ''pending''"
    using ok c d by auto
  from apply_cases [OF ap] show ?thesis
  proof (elim disjE conjE)
    assume cf: "deal_Confirm now d = (Inr evs, d')"
    note o = confirm_step [OF cf]
    show ?thesis
      unfolding wpE_bind wpE_ret wpE_SaveDeal
    proof (rule append_confirmed_wp [OF inv d cf], rule inv)
      fix w w'
      assume "stored_selection s (d_auction d) = Some w" "ws_status w = WinnerSelectionActive"
        and "w' = w\<lparr>ws_status := WinnerSelectionConfirmedPendingPayment\<rparr>"
      then show "wpE (confirmations_Save c') (\<lambda>a s. wpE (deals_outbox_Add env now
          (pre @ evs @ [winner_confirmed d' now])) (\<lambda>a. deals_inv env) (\<lambda>_. deals_inv env)
          (put_deal d' s)) (\<lambda>_. deals_inv env) (put_selection w' s)"
        using res ok o
        by (intro resolved_save_wp say_nothing_wp [OF inj] confirm_inv(2) [OF inv d cf])
          (simp_all add: winner_confirmed_def)
    qed
  next
    assume st: "d_status d' \<noteq> DealStatusConfirmed" and m: "good_move d evs d'"
    have m': "good_move d (pre @ evs) d'"
      using good_move_pre [OF m] ok by simp
    have "wpE (bindE (deals_Save d') (\<lambda>_. deals_outbox_Add env now (pre @ evs)))
        (\<lambda>_. deals_inv env) (\<lambda>_. deals_inv env) (s\<lparr>dst_confirmations := cs\<rparr>)" for cs
      by (rule move_wp [OF inj _ _ m']) (simp_all add: inv d)
    then show ?thesis
      unfolding wpE_bind append_other [OF st] wpE_ret
      using res by (intro resolved_save_wp) (simp_all add: wpE_bind)
  qed
qed

lemma ApproveDealConfirmation_keeps:
  assumes inj: "inj (de_id env)"
  shows "dkeeps env (ApproveDealConfirmation env now meta i ci)"
proof (rule dkeepsI)
  fix s assume inv: "deals_inv env s"
  show "wpE (ApproveDealConfirmation env now meta i ci) (\<lambda>_. deals_inv env) (\<lambda>_. deals_inv env) s"
  proof (cases "ci = []")
    case True
    then show ?thesis
      by (simp add: ApproveDealConfirmation_def wpE_fail inv)
  next
    case False
    show ?thesis
      unfolding ApproveDealConfirmation_def if_not_P [OF False]
    proof (rule start_wp(2) [OF inv], goal_cases)
      case (1 d)
      show ?case
        unfolding confirmations_GetByID_def
      proof (rule confirmation_bind_wp, rule inv, rule guard_wp, rule inv, goal_cases)
        case (1 c)
        then have c: "dc_deal c = d_id d" by simp
        show ?case
        proof (rule call_bind_wp, rule inv, unfold prod.case, rule call_bind_wp, rule inv,
            unfold prod.case)
          fix pre c' evs d'
          assume "Approve (dm_company meta) (dm_user meta) now c = (Inr pre, c')"
            and "deal_ApplyApprovedConfirmation now c' d = (Inr evs, d')"
          then show "wpE (bindE (appendAuctionWinnerConfirmedIfNeeded d') (\<lambda>extra.
              bindE (confirmations_Save c') (\<lambda>_. bindE (deals_Save d') (\<lambda>_.
              bindE (deals_outbox_Add env now (pre @ evs @ extra)) (\<lambda>_. retE c')))))
              (\<lambda>_. deals_inv env) (\<lambda>_. deals_inv env) s"
            by (rule approve_tail_wp [OF inj inv \<open>d \<in> set (stored_deals s)\<close> _ c])
        qed
      qed
    qed
  qed
qed

lemma RejectDealConfirmation_keeps:
  assumes inj: "inj (de_id env)"
  shows "dkeeps env (RejectDealConfirmation env now meta i ci r)"
proof (rule dkeepsI)
  fix s assume inv: "deals_inv env s"
  have save: "wpE (bindE (confirmations_Save c) (\<lambda>_. bindE (deals_outbox_Add env now evs)
      (\<lambda>_. retE c))) (\<lambda>_. deals_inv env) (\<lambda>_. deals_inv env) s"
    if "rejected evs = []" "finalized evs = []" for c evs
    unfolding wpE_bind wpE_ret
    by (intro confirmation_save_wp inv say_nothing_wp [OF inj] that) (simp add: inv)
  show "wpE (RejectDealConfirmation env now meta i ci r) (\<lambda>_. deals_inv env) (\<lambda>_. deals_inv env) s"
  proof (cases "ci = []")
    case True
    then show ?thesis
      by (simp add: RejectDealConfirmation_def wpE_fail inv)
  next
    case False
    show ?thesis
      unfolding RejectDealConfirmation_def if_not_P [OF False]
    proof (rule start_wp(1) [OF inv], goal_cases)
      case (1 d)
      show ?case
        unfolding confirmations_GetByID_def
        by (rule confirmation_bind_wp, rule inv, rule guard_wp, rule inv, rule call_bind_wp, rule inv,
            unfold prod.case, rule save) (auto dest: approve_ok(2))
    qed
  qed
qed


subsection \<open>The next candidate\<close>

lemma new_deal_good:
  assumes "CreateFromSelection loc now a seller snap win p t = Inr (item, evs)" "deal_Validate item = None"
  shows "deal_good item" "d_id item = generateID loc now" "d_status item = DealStatusPending"
    "d_customer item = win" "d_auction item = a" "d_supplier item = seller" "d_unitPrice item = p"
    "d_createdAt item = t" "d_snapshot item = snap"
    "evs = [DealCreated (generateID loc now) a win seller snap p t]"
  using assms by (auto simp: CreateFromSelection_def new_deal_def deal_good_def storable_def
      split: if_splits)

text \<open>The selection \<open>offer_next\<close> is called with: finalised ones are left alone.\<close>

definition reopened :: "winner_selection \<Rightarrow> winner_selection \<Rightarrow> bool" where
  "reopened w sel \<longleftrightarrow> (if ws_status w = WinnerSelectionStatusFinalized then sel = w
     else \<exists>x. sel = w\<lparr>ws_status := WinnerSelectionActive, ws_deal := x\<rparr>)"

lemma grows_selection:
  assumes "W a = Some w" "ws_status w \<noteq> WinnerSelectionStatusFinalized" "set D \<subseteq> set D'"
  shows "grows D W D' (W(a \<mapsto> w'))"
  using assms by (auto simp: grows_def)

lemma event_mono: "event_ok D W ev \<Longrightarrow> grows D W D' W' \<Longrightarrow> event_ok D' W' ev"
  by (rule grows_event)

lemma put_selection_inv:
  assumes inv: "deals_inv env s"
    and T: "tables_ok (stored_deals s) ((stored_selection s)(ws_auction w' \<mapsto> w'))"
    and w: "stored_selection s (ws_auction w') = Some w" "ws_status w \<noteq> WinnerSelectionStatusFinalized"
    and st: "selection_status_of (selection_status_text (ws_status w')) = ws_status w'"
      "ws_status w' \<noteq> WinnerSelectionStatusFinalized"
  shows "deals_inv env (put_selection w' s)"
proof (rule inv_from_views [OF T])
  show "events_ok (stored_deals s) ((stored_selection s)(ws_auction w' \<mapsto> w')) (payloads s)"
    by (rule grows_events [OF grows_selection inv_events [OF inv]]) (use w in auto)
qed (use inv st in \<open>simp_all add: deals_inv_def\<close>)

lemma failed_wp:
  assumes inj: "inj (de_id env)" and inv: "deals_inv env (put_selection w' s)"
    and pre: "finalized pre = []" "distinct (rejected pre)"
      "set (rejected pre) \<inter> (set (rejected (payloads s)) \<union> set (finalized (payloads s))) = {}"
      "\<And>ev. ev \<in> set pre \<Longrightarrow>
         event_ok (stored_deals (put_selection w' s)) (stored_selection (put_selection w' s)) ev"
  shows "wpE (selection_failed env now a pre w') (\<lambda>_. deals_inv env) R s"
  unfolding selection_failed_def wpE_bind wpE_SaveSelection
  by (rule say_wp [OF inj inv]) (use pre in auto)

text \<open>What \<open>offer_next\<close> may say first, and when it is called.\<close>

definition sayable :: "deals_store \<Rightarrow> deal_event list \<Rightarrow> bool" where
  "sayable s pre \<longleftrightarrow> finalized pre = [] \<and> distinct (rejected pre)
     \<and> set (rejected pre) \<inter> (set (rejected (payloads s)) \<union> set (finalized (payloads s))) = {}
     \<and> (\<forall>ev \<in> set pre. event_ok (stored_deals s) (stored_selection s) ev)"

definition may_offer :: "deals_env \<Rightarrow> deals_store \<Rightarrow> string \<Rightarrow> winner_selection \<Rightarrow> bool" where
  "may_offer env s a w \<longleftrightarrow> deals_inv env s \<and> stored_selection s a = Some w
     \<and> ws_status w \<noteq> WinnerSelectionExhausted \<and> all_cancelled (auction_deals a (stored_deals s))"

lemma exhausted_wp:
  assumes inj: "inj (de_id env)" and w: "may_offer env s a w"
    and nf: "ws_status w \<noteq> WinnerSelectionStatusFinalized"
    and i: "0 \<le> i" "i < int (length (ws_candidates w))" and pre: "sayable s pre"
    and w': "w' = w\<lparr>ws_index := i, ws_status := WinnerSelectionExhausted, ws_deal := []\<rparr>"
  shows "wpE (selection_failed env now a pre w') (\<lambda>_. deals_inv env) R s"
proof (rule failed_wp [OF inj])
  have inv: "deals_inv env s" and wa: "ws_auction w = a"
    and c: "all_cancelled (auction_deals a (stored_deals s))" and ws: "stored_selection s a = Some w"
    using w selection_auction [of env s a w] by (auto simp: may_offer_def)
  have T': "tables_ok (stored_deals s) ((stored_selection s)(ws_auction w' \<mapsto> w'))"
    using tables_exhaust [OF inv_tables [OF inv] ws c w' i] wa by (simp add: w')
  show "deals_inv env (put_selection w' s)"
    by (rule put_selection_inv [OF inv T']) (use ws nf wa in \<open>simp_all add: w'\<close>)
  have gr: "grows (stored_deals s) (stored_selection s) (stored_deals s)
      ((stored_selection s)(a \<mapsto> w'))"
    by (rule grows_selection) (use ws nf in auto)
  show "event_ok (stored_deals (put_selection w' s)) (stored_selection (put_selection w' s)) ev"
    if "ev \<in> set pre" for ev
    using that event_mono [OF _ gr, of ev] pre wa by (simp add: sayable_def w')
qed (use pre in \<open>auto simp: sayable_def\<close>)

lemma next_deal_wp:
  assumes inj: "inj (de_id env)" and w: "may_offer env s a w" and fresh: "fresh_id env now s"
    and nf: "ws_status w \<noteq> WinnerSelectionStatusFinalized"
    and i: "ws_index w + 1 < int (length (ws_candidates w))" and pre: "sayable s pre"
    and v: "CreateFromSelection (de_local env) now a (ws_supplier w) (ws_snapshot w)
      (ws_candidates w ! nat (ws_index w + 1)) (ws_finalPrice w) (ws_wonAt w) = Inr (item, evs)"
    and valid: "deal_Validate item = None"
    and w': "w' = w\<lparr>ws_index := ws_index w + 1, ws_status := WinnerSelectionActive,
      ws_deal := d_id item\<rparr>"
    and ev': "rejected_deal ev' = []" "finalized_deal ev' = []"
  shows "wpE (bindE (deals_Save item) (\<lambda>_. bindE (selections_Save w') (\<lambda>_.
    deals_outbox_Add env now (pre @ evs @ [ev'])))) (\<lambda>_. deals_inv env) R s"
proof -
  have inv: "deals_inv env s" and wa: "ws_auction w = a" and ne: "ws_status w \<noteq> WinnerSelectionExhausted"
    and c: "all_cancelled (auction_deals a (stored_deals s))" and ws: "stored_selection s a = Some w"
    using w selection_auction [of env s a w] by (auto simp: may_offer_def)
  note n = new_deal_good [OF v valid]
  have fr: "d_id item \<notin> d_id ` set (stored_deals s)"
    using fresh n(2) by (simp add: fresh_id_def)
  have T': "tables_ok (row_upsert d_id item (stored_deals s)) ((stored_selection s)(a \<mapsto> w'))"
    by (rule tables_next [OF inv_tables [OF inv] ws ne c i n(1) fr _ n(3) _ w'])
      (use n wa in \<open>simp_all add: deal_of_selection_def\<close>)
  have gr: "grows (stored_deals s) (stored_selection s)
      (row_upsert d_id item (stored_deals s)) ((stored_selection s)(a \<mapsto> w'))"
    by (rule grows_selection) (use ws nf in \<open>auto simp: upsert_new [OF fr]\<close>)
  have st: "storable item" "ws_auction w' = a"
    "selection_status_of (selection_status_text (ws_status w')) = ws_status w'"
    using n(1) wa by (simp_all add: deal_good_def w')
  have inv': "deals_inv env (put_selection w' (put_deal item s))"
    by (rule inv_from_views [OF T' grows_events [OF gr inv_events [OF inv]]])
      (use st w' inv in \<open>simp_all add: deals_inv_def\<close>)
  have quiet: "event_ok D W ev'" for D W
    using ev' by (cases ev' rule: deal_event.exhaust) auto
  show ?thesis
    unfolding wpE_bind wpE_SaveDeal wpE_SaveSelection
  proof (rule say_wp [OF inj inv'])
    fix ev assume "ev \<in> set (pre @ evs @ [ev'])"
    then show "event_ok (stored_deals (put_selection w' (put_deal item s)))
        (stored_selection (put_selection w' (put_deal item s))) ev"
      using event_mono [OF _ gr, of ev] pre n(10) st quiet by (auto simp: sayable_def)
  qed (use pre n(10) ev' in \<open>auto simp: sayable_def\<close>)
qed

lemma offer_wp:
  assumes inj: "inj (de_id env)" and w: "may_offer env s a w" and fresh: "fresh_id env now s"
    and sel: "reopened w sel" and pre: "sayable s pre" and R: "\<And>e. R e s"
  shows "wpE (offer_next env now a pre sel) (\<lambda>_. deals_inv env) R s"
proof (cases "ws_status w = WinnerSelectionStatusFinalized")
  case True
  have inv: "deals_inv env s" and ws: "stored_selection s a = Some w"
    using w by (auto simp: may_offer_def)
  have adv: "Advance sel = (False, w)"
    using True sel by (simp add: Advance_def reopened_def)
  have same: "stored_selection (put_selection w s) = stored_selection s"
    using ws selection_auction [OF inv ws] True by (simp add: fun_upd_idem)
  have "deals_inv env (put_selection w s)"
    by (rule inv_from_views [OF inv_tables [OF inv] inv_events [OF inv]])
      (use same inv in \<open>simp_all add: deals_inv_def\<close>)
  then show ?thesis
    unfolding offer_next_def adv prod.case bool.case
    by (rule failed_wp [OF inj]) (use pre same in \<open>auto simp: sayable_def\<close>)
next
  case nf: False
  with sel obtain x where sel: "sel = w\<lparr>ws_status := WinnerSelectionActive, ws_deal := x\<rparr>"
    by (auto simp: reopened_def)
  have wa: "ws_auction w = a" and idx: "0 \<le> ws_index w" "ws_index w < int (length (ws_candidates w))"
    using w tables_selection [of "stored_deals s" "stored_selection s" a w]
    by (auto simp: selection_good_def may_offer_def deals_inv_def)
  show ?thesis
  proof (cases "ws_index w + 1 < int (length (ws_candidates w))")
    case False
    then have "Advance sel = (False, w\<lparr>ws_index := ws_index w,
        ws_status := WinnerSelectionExhausted, ws_deal := []\<rparr>)"
      by (simp add: Advance_def sel Let_def)
    then show ?thesis
      using exhausted_wp [OF inj w nf idx pre] by (simp add: offer_next_def)
  next
    case True
    define sel' where "sel' = w\<lparr>ws_index := ws_index w + 1, ws_status := WinnerSelectionActive,
      ws_deal := []\<rparr>"
    have adv: "Advance sel = (True, sel')"
      using True by (simp add: Advance_def sel Let_def sel'_def)
    show ?thesis
    proof (cases "CurrentCandidate sel'")
      case None
      then show ?thesis
        using exhausted_wp [OF inj w nf _ True pre] idx
        by (simp add: offer_next_def adv MarkExhausted_def sel'_def)
    next
      case (Some nxt)
      have nxt: "nxt = ws_candidates w ! nat (ws_index w + 1)"
        using Some by (simp add: CurrentCandidate_def sel'_def split: if_splits)
      show ?thesis
        unfolding offer_next_def adv prod.case bool.case Some option.case
        by (rule raise_bind_wp, rule R, clarsimp, rule check_bind_wp, rule R,
            rule next_deal_wp [OF inj w fresh nf True pre])
          (auto simp: sel'_def wa nxt)
    qed
  qed
qed


lemma last_cancelled:
  assumes inv: "deals_inv env s" and w: "stored_selection s a = Some w"
    "ws_status w \<noteq> WinnerSelectionExhausted"
    and d: "d \<in> set (stored_deals s)" "d_id d = ws_deal w" "d_status d = DealStatusCancelled"
  shows "all_cancelled (auction_deals a (stored_deals s))"
proof -
  define ds where "ds = auction_deals a (stored_deals s)"
  have off: "offers w ds"
    using tables_selection [OF inv_tables [OF inv] w(1)] w(2) by (simp add: selection_good_def ds_def)
  then have "last ds \<in> set ds"
    by (auto simp: offers_def)
  then have "last ds \<in> set (stored_deals s)"
    by (simp add: ds_def)
  then have "last ds = d"
    using same_id [OF inv_tables [OF inv] d(1)] off d(2) by (simp add: offers_def)
  then have "\<forall>x \<in> set (butlast ds @ [last ds]). d_status x = DealStatusCancelled"
    using off d(3) by (auto simp: offers_def)
  moreover have "butlast ds @ [last ds] = ds"
    using off by (simp add: offers_def)
  ultimately have "all_cancelled ds"
    by (simp add: all_cancelled_def)
  then show ?thesis
    by (simp add: ds_def)
qed

lemma deal_named:
  assumes inv: "deals_inv env s" and w: "stored_selection s a = Some w"
    "ws_status w \<noteq> WinnerSelectionExhausted"
  shows "ws_deal w \<noteq> []"
proof -
  define ds where "ds = auction_deals a (stored_deals s)"
  have off: "offers w ds"
    using tables_selection [OF inv_tables [OF inv] w(1)] w(2) by (simp add: selection_good_def ds_def)
  then have "last ds \<in> set (stored_deals s)"
    using last_in_set [of ds] by (simp add: ds_def offers_def)
  then show ?thesis
    using good_id [OF tables_deal [OF inv_tables [OF inv]]] off by (force simp: offers_def)
qed

lemma load_bind_wp:
  assumes "deals_inv env s" "\<And>e. R e s"
    and "\<And>d. d \<in> set (stored_deals s) \<Longrightarrow> d_id d = i \<Longrightarrow> wpE (f d) Q R s"
  shows "wpE (bindE (deals_GetByID i) f) Q R s" "wpE (bindE (deals_GetByIDForUpdate i) f) Q R s"
  unfolding wpE_bind
  by (rule deals_load_wp [OF assms(1)], rule assms(2), rule assms(3), assumption+,
      rule load_for_update_wp [OF assms(1)], rule assms(2), rule assms(3))

lemma bindE_ret: "bindE (retE a) f = f a"
  by (rule ext) (simp add: bindE_def retE_def)

lemma sayable_nothing: "sayable s []"
  by (simp add: sayable_def)

lemma declined_tail_wp:
  assumes inj: "inj (de_id env)" and inv: "deals_inv env s" and fresh: "fresh_id env now s"
    and w: "stored_selection s a = Some w" "ws_status w \<noteq> WinnerSelectionExhausted"
    and d: "d \<in> set (stored_deals s)" "d_id d = ws_deal w" "d_status d = DealStatusCancelled"
    and sel: "reopened w sel"
  shows "wpE (offer_next env now a [] sel) (\<lambda>_. deals_inv env) (\<lambda>_. deals_inv env) s"
  by (rule offer_wp [OF inj _ fresh sel sayable_nothing], unfold may_offer_def)
    (use inv w last_cancelled [OF inv w d] in auto)

lemma HandleDealDeclined_wp:
  assumes inj: "inj (de_id env)" and inv: "deals_inv env s" and fresh: "fresh_id env now s"
  shows "wpE (HandleDealDeclined env now ai di) (\<lambda>_. deals_inv env) (\<lambda>_. deals_inv env) s"
proof -
  have tail: "wpE (bindE (reopen_if_confirmed w) (\<lambda>sel.
     case CurrentCandidate sel of
       None \<Rightarrow> failE AppNoAvailableWinner
     | Some cand \<Rightarrow>
         bindE (if ws_deal sel = [] then retE () else
           bindE (deals_GetByID (ws_deal sel)) (\<lambda>cur.
           if d_status cur \<noteq> DealStatusCancelled
             then failE (DealError ErrDealNotCancelledForFallback)
           else if d_customer cur \<noteq> cand then failE (DealError ErrWrongSelectedCandidate)
           else retE ())) (\<lambda>_.
         offer_next env now a [] sel))) (\<lambda>_. deals_inv env) (\<lambda>_. deals_inv env) s"
    if w: "stored_selection s a = Some w" "ws_status w \<noteq> WinnerSelectionExhausted" for a w
  proof (cases "ws_status w = WinnerSelectionConfirmedPendingPayment")
    case True
    have "wpE (reopen_if_confirmed w) (\<lambda>sel t. t = s \<and> ws_deal sel = [] \<and> reopened w sel
        \<and> (\<exists>d \<in> set (stored_deals s). d_id d = ws_deal w \<and> d_status d = DealStatusCancelled))
        (\<lambda>_. deals_inv env) s"
      unfolding reopen_if_confirmed_def
      using True inv
      by (auto simp: wpE_fail intro!: load_bind_wp [OF inv] guard_wp call_bind_wp)
        (auto simp: wpE_ret ReopenAfterPaymentTimeout_def reopened_def split: if_splits)
    then show ?thesis
      unfolding wpE_bind [of "reopen_if_confirmed _"]
      by (rule wpE_mono)
        (auto simp: wpE_fail inv wpE_bind wpE_ret split: option.split
          intro: declined_tail_wp [OF inj inv fresh w])
  next
    case False
    have re: "reopen_if_confirmed w = retE w"
      using False by (simp add: reopen_if_confirmed_def)
    have ph: "ws_status w = WinnerSelectionActive \<or> ws_status w = WinnerSelectionStatusFinalized"
      using tables_selection [OF inv_tables [OF inv] w(1)] w(2) False
      by (cases "ws_status w") (auto simp: selection_good_def offers_def)
    then have "reopened w w"
      by (cases w) (auto simp: reopened_def)
    then show ?thesis
      unfolding re wpE_bind [of "retE _"] wpE_ret
      using deal_named [OF inv w]
      by (auto simp: wpE_fail inv split: option.split)
        (auto simp: wpE_bind [of "bindE _ _"] intro!: load_bind_wp [OF inv] guard_wp inv
          simp: wpE_ret intro: declined_tail_wp [OF inj inv fresh w])
  qed
  have resolved: "wpE (if a = [] then failE AppAuctionIDRequired else
     bindE (selections_Get a) (\<lambda>sel.
     if ws_status sel = WinnerSelectionExhausted then failE AppNoAvailableWinner else
     let effective = (if di = [] then ws_deal sel else di) in
     if effective \<noteq> [] \<and> ws_deal sel \<noteq> [] \<and> ws_deal sel \<noteq> effective
       then failE (DealError ErrStaleWinnerSelection) else
     bindE (reopen_if_confirmed sel) (\<lambda>sel.
     case CurrentCandidate sel of
       None \<Rightarrow> failE AppNoAvailableWinner
     | Some cand \<Rightarrow>
         bindE (if ws_deal sel = [] then retE () else
           bindE (deals_GetByID (ws_deal sel)) (\<lambda>cur.
           if d_status cur \<noteq> DealStatusCancelled
             then failE (DealError ErrDealNotCancelledForFallback)
           else if d_customer cur \<noteq> cand then failE (DealError ErrWrongSelectedCandidate)
           else retE ())) (\<lambda>_.
         offer_next env now a [] sel)))) (\<lambda>_. deals_inv env) (\<lambda>_. deals_inv env) s" for a
    unfolding Let_def
    by (intro guard_wp selection_bind_wp inv) (rule tail)
  show ?thesis
  proof (cases "ai = [] \<and> di \<noteq> []")
    case True
    show ?thesis
      unfolding HandleDealDeclined_def wpE_deals_uow declined_auction_def if_P [OF True]
        bindE_assoc bindE_ret
      by (rule load_bind_wp(1) [OF inv], rule inv, rule resolved)
  next
    case False
    show ?thesis
      unfolding HandleDealDeclined_def wpE_deals_uow declined_auction_def if_not_P [OF False] bindE_ret
      by (rule resolved)
  qed
qed


subsection \<open>Invoices\<close>

lemma upsert_ids:
  assumes "distinct (map d_id D)" "d \<in> set D" "d_id d' = d_id d"
  shows "d_id ` set (row_upsert d_id d' D) = d_id ` set D"
proof -
  obtain xs ys where D: "D = xs @ d # ys"
    using assms(2) by (meson split_list)
  then show ?thesis
    using upsert_split [of xs d ys d'] assms by simp
qed

lemma timeout_cancel:
  assumes "deal_Cancel now DealCancelReasonPaymentTimeout who d = (Inr evs, d')"
  shows "rejected evs = [d_id d]" "finalized evs = []"
    "\<And>ev. ev \<in> set evs \<Longrightarrow> rejected_deal ev \<noteq> [] \<Longrightarrow> ev = winner_rejected now DealCancelReasonPaymentTimeout d"
  using assms
  by (auto simp: deal_Cancel_def Let_def ReasonForfeitsWinnerDeposit_def cancel_reasons
      winner_rejected_def split: if_splits)

lemma timeout_sayable:
  assumes inv: "deals_inv env s" and d: "d \<in> set (stored_deals s)" "d_status d \<noteq> DealStatusCancelled"
    "\<not> phase_ok WinnerSelectionStatusFinalized (d_status d)"
    and c: "deal_Cancel now DealCancelReasonPaymentTimeout who d = (Inr evs, d')"
    and d': "d' \<in> set (stored_deals (put_deal d' s))"
  shows "sayable (put_deal d' s) evs"
proof -
  note told = live_not_told [OF inv_tables [OF inv] inv_events [OF inv] d(1,2)]
  have terms: "deal_terms d' = deal_terms d"
    by (rule step_terms [OF deal_step.cancelled [OF c]])
  have "event_ok (stored_deals (put_deal d' s)) (stored_selection (put_deal d' s)) ev"
    if ev: "ev \<in> set evs" for ev
  proof (cases "rejected_deal ev = []")
    case True
    moreover have "finalized_deal ev = []"
      using timeout_cancel(2) [OF c] ev by (auto simp: finalized_def)
    ultimately show ?thesis
      by (cases ev rule: deal_event.exhaust) auto
  next
    case False
    have "d_status d' = DealStatusCancelled"
      using deal_Cancel_ok [OF c] by simp
    then show ?thesis
      using timeout_cancel(3) [OF c ev False] terms
      by (auto simp: winner_rejected_def terms_iff intro!: bexI [OF _ d'])
  qed
  then show ?thesis
    using timeout_cancel(1,2) [OF c] told d(3) by (simp add: sayable_def)
qed

lemma expired_tail_wp:
  assumes inj: "inj (de_id env)" and inv: "deals_inv env s" and fresh: "fresh_id env now s"
    and d: "d \<in> set (stored_deals s)" "isDealPostConfirmPrePaid (d_status d)" "d_auction d = a"
    and w: "stored_selection s a = Some w" "ws_status w = WinnerSelectionConfirmedPendingPayment"
      "ws_deal w = d_id d"
  shows "wpE (bindE (callE (deal_Cancel now DealCancelReasonPaymentTimeout ''system'') d)
       (\<lambda>(cancelEvents, d').
     bindE (deals_Save d') (\<lambda>_.
     bindE (callE (ReopenAfterPaymentTimeout (d_id d')) w) (\<lambda>(_, sel').
     offer_next env now a cancelEvents sel')))) (\<lambda>_. deals_inv env) (\<lambda>_. deals_inv env) s"
proof (rule call_bind_wp, rule inv, unfold prod.case)
  fix evs d' assume c: "deal_Cancel now DealCancelReasonPaymentTimeout ''system'' d = (Inr evs, d')"
  note step = deal_step.cancelled [OF c]
  have live: "d_status d \<noteq> DealStatusCancelled" "\<not> phase_ok WinnerSelectionStatusFinalized (d_status d)"
    and d': "d_status d' = DealStatusCancelled"
    using d(2) deal_Cancel_ok [OF c] by (auto simp: isDealPostConfirmPrePaid_def)
  have terms: "deal_terms d' = deal_terms d"
    by (rule step_terms [OF step])
  have ph: "phase_ok st (d_status d) \<Longrightarrow> phase_ok st (d_status d')" for st
    using d' by (cases st) auto
  have saved: "deals_inv env (put_deal d' s)" "d' \<in> set (stored_deals (put_deal d' s))"
    using save_step(1,2) [OF inv d(1) live(1) step] ph by blast+
  have mo: "may_offer env (put_deal d' s) a w"
    using saved w last_cancelled [OF saved(1), of a w d'] terms d'
    by (simp add: may_offer_def terms_iff)
  have st: "storable d'"
    using tables_deal [OF inv_tables [OF saved(1)] saved(2)] by (simp add: deal_good_def)
  have fr: "fresh_id env now (put_deal d' s)"
    using fresh upsert_ids [OF _ d(1), of d'] inv_tables [OF inv] terms st
    by (simp add: fresh_id_def tables_ok_def terms_iff)
  show "wpE (bindE (deals_Save d') (\<lambda>_. bindE (callE (ReopenAfterPaymentTimeout (d_id d')) w)
      (\<lambda>(_, sel'). offer_next env now a evs sel'))) (\<lambda>_. deals_inv env) (\<lambda>_. deals_inv env) s"
    unfolding wpE_bind [of "deals_Save _"] wpE_SaveDeal
  proof (rule call_bind_wp, rule saved(1), unfold prod.case)
    fix u sel assume "ReopenAfterPaymentTimeout (d_id d') w = (Inr u, sel)"
    then have "reopened w sel"
      using w(2) by (auto simp: ReopenAfterPaymentTimeout_def reopened_def split: if_splits)
    then show "wpE (offer_next env now a evs sel) (\<lambda>_. deals_inv env) (\<lambda>_. deals_inv env)
        (put_deal d' s)"
      by (rule offer_wp [OF inj mo fr _ timeout_sayable [OF inv d(1) live c saved(2)]])
        (rule saved(1))
  qed
qed

lemma HandleDealInvoiceExpired_wp:
  assumes inj: "inj (de_id env)" and inv: "deals_inv env s" and fresh: "fresh_id env now s"
  shows "wpE (HandleDealInvoiceExpired env now evt) (\<lambda>_. deals_inv env) (\<lambda>_. deals_inv env) s"
  unfolding HandleDealInvoiceExpired_def wpE_deals_uow
proof (rule check_bind_wp, rule inv, unfold wpE_deals_uow, rule load_bind_wp(2) [OF inv], rule inv)
  fix d assume d: "d \<in> set (stored_deals s)" "d_id d = ie_deal evt"
  have tail: "wpE (bindE (selections_GetForUpdate (ie_auction evt)) (\<lambda>sel.
     if ws_status sel \<noteq> WinnerSelectionConfirmedPendingPayment \<or> ws_deal sel \<noteq> d_id d then retE ()
     else bindE (callE (deal_Cancel now DealCancelReasonPaymentTimeout ''system'') d)
       (\<lambda>(cancelEvents, d').
     bindE (deals_Save d') (\<lambda>_.
     bindE (callE (ReopenAfterPaymentTimeout (d_id d')) sel) (\<lambda>(_, sel').
     offer_next env now (ie_auction evt) cancelEvents sel')))))
     (\<lambda>_. deals_inv env) (\<lambda>_. deals_inv env) s"
    if "isDealPostConfirmPrePaid (d_status d)" "d_auction d = ie_auction evt"
    by (rule selection_bind_wp(2), rule inv)
      (simp add: wpE_ret inv expired_tail_wp [OF inj inv fresh d(1) that])
  show "wpE (if d_status d = DealStatusPaid \<or> d_status d = DealStatusCancelled then retE ()
     else if d_auction d \<noteq> ie_auction evt \<or> d_customer d \<noteq> ie_buyer evt
       then failE (DealError ErrStaleWinnerSelection)
     else if \<not> isDealPostConfirmPrePaid (d_status d)
       then failE (DealError ErrCannotCancelForPaymentTimeout)
     else bindE (selections_GetForUpdate (ie_auction evt)) (\<lambda>sel.
     if ws_status sel \<noteq> WinnerSelectionConfirmedPendingPayment \<or> ws_deal sel \<noteq> d_id d then retE ()
     else bindE (callE (deal_Cancel now DealCancelReasonPaymentTimeout ''system'') d)
       (\<lambda>(cancelEvents, d').
     bindE (deals_Save d') (\<lambda>_.
     bindE (callE (ReopenAfterPaymentTimeout (d_id d')) sel) (\<lambda>(_, sel').
     offer_next env now (ie_auction evt) cancelEvents sel')))))
     (\<lambda>_. deals_inv env) (\<lambda>_. deals_inv env) s"
    using inv tail by (simp add: wpE_ret wpE_fail)
qed

text \<open>A payment.\<close>

lemma paid_step:
  "deal_MarkAsPaid now i ty d = (Inr evs, d') \<Longrightarrow> deal_step d d' \<and> d_status d = DealStatusPaymentRequested
     \<and> d_status d' = DealStatusPaid \<and> rejected evs = [] \<and> finalized evs = []"
  by (auto simp: deal_MarkAsPaid_def intro: deal_step.paid split: if_splits)

lemma mark_finalized:
  "MarkFinalized i w = (Inr (), w') \<Longrightarrow> ws_status w = WinnerSelectionConfirmedPendingPayment \<Longrightarrow>
     w' = w\<lparr>ws_status := WinnerSelectionStatusFinalized\<rparr> \<and> CurrentCandidate w \<noteq> None"
  by (auto simp: MarkFinalized_def split: if_splits option.splits)

lemma last_customer:
  assumes off: "offers w ds" and i: "0 \<le> ws_index w" "ws_index w < int (length (ws_candidates w))"
  shows "d_customer (last ds) = ws_candidates w ! nat (ws_index w)"
proof -
  have "last (map d_customer ds) = last (take (nat (ws_index w) + 1) (ws_candidates w))"
    using off by (simp add: offers_def)
  moreover have "take (nat (ws_index w) + 1) (ws_candidates w)
      = take (nat (ws_index w)) (ws_candidates w) @ [ws_candidates w ! nat (ws_index w)]"
    using i take_Suc_conv_app_nth [of "nat (ws_index w)" "ws_candidates w"] by simp
  ultimately have "last (map d_customer ds) = ws_candidates w ! nat (ws_index w)"
    by (metis last_snoc)
  moreover have "last (map d_customer ds) = d_customer (last ds)"
    by (rule last_map) (use off in \<open>simp add: offers_def\<close>)
  ultimately show ?thesis
    by metis
qed

lemma current_customer:
  assumes inv: "deals_inv env s" and d: "d \<in> set (stored_deals s)" "d_status d \<noteq> DealStatusCancelled"
    and w: "stored_selection s (d_auction d) = Some w"
  shows "d_customer d = ws_candidates w ! nat (ws_index w)" "d_unitPrice d = ws_finalPrice w"
proof -
  define ds where "ds = auction_deals (d_auction d) (stored_deals s)"
  obtain x where x: "stored_selection s (d_auction d) = Some x" "ds \<noteq> []" "last ds = d"
    "phase_ok (ws_status x) (d_status d)"
    using current_deal [OF inv_tables [OF inv] d] ds_def by metis
  then have ne: "ws_status w \<noteq> WinnerSelectionExhausted"
    using w by auto
  have g: "selection_good w ds"
    using tables_selection [OF inv_tables [OF inv] w] by (simp add: ds_def)
  then have "offers w ds" and i: "0 \<le> ws_index w" "ws_index w < int (length (ws_candidates w))"
    using ne by (auto simp: selection_good_def)
  from last_customer [OF this] show "d_customer d = ws_candidates w ! nat (ws_index w)"
    by (simp add: x(3))
  show "d_unitPrice d = ws_finalPrice w"
    using g d(1) by (simp add: selection_good_def ds_def deal_of_selection_def)
qed

lemma paid_tail_wp:
  assumes inj: "inj (de_id env)" and inv: "deals_inv env s" and d: "d \<in> set (stored_deals s)"
    and p: "deal_MarkAsPaid now inv_id ty d = (Inr evs, d')" and a: "d_auction d = a"
    and w: "stored_selection s a = Some w" "ws_status w = WinnerSelectionConfirmedPendingPayment"
    and m: "MarkFinalized (d_id d') w = (Inr (), w')" and cand: "CurrentCandidate w' = Some cand"
  shows "wpE (bindE (deals_Save d') (\<lambda>_. bindE (selections_Save w') (\<lambda>_.
     deals_outbox_Add env now (evs @
       [WinnerSelectionFinalized a (d_id d') a cand (ws_finalPrice w') g f t]))))
     (\<lambda>_. deals_inv env) R s"
proof -
  note o = paid_step [OF p]
  then have step: "deal_step d d'" and live: "d_status d \<noteq> DealStatusCancelled"
    "\<not> phase_ok WinnerSelectionStatusFinalized (d_status d)" and d': "d_status d' = DealStatusPaid"
    by auto
  have terms: "deal_terms d' = deal_terms d"
    by (rule step_terms [OF step])
  have w': "w' = w\<lparr>ws_status := WinnerSelectionStatusFinalized\<rparr>"
    using mark_finalized [OF m w(2)] by simp
  have wd: "ws_deal w = d_id d"
    using current_deal [OF inv_tables [OF inv] d live(1)] w(1) a by (metis option.inject)
  have wa: "ws_auction w' = a"
    using selection_auction [OF inv w(1)] w' by simp
  have ca: "cand = d_customer d" "d_unitPrice d = ws_finalPrice w'"
    using current_customer [OF inv d live(1), of w] w(1) a cand w'
    by (auto simp: CurrentCandidate_def split: if_splits)
  note js = joint_step [OF inv d live(1) step, of w w' WinnerSelectionStatusFinalized, unfolded a,
      OF w(1) w']
  have js': "tables_ok (row_upsert d_id d' (stored_deals s)) ((stored_selection s)(a \<mapsto> w'))"
    "events_ok (row_upsert d_id d' (stored_deals s)) ((stored_selection s)(a \<mapsto> w')) (payloads s)"
    "d' \<in> set (row_upsert d_id d' (stored_deals s))" "storable d'"
    using js d' w(2) by simp_all
  have views: "stored_deals (put_selection w' (put_deal d' s)) = row_upsert d_id d' (stored_deals s)"
    "stored_selection (put_selection w' (put_deal d' s)) = (stored_selection s)(a \<mapsto> w')"
    using js'(4) wa w' by simp_all
  have told: "d_id d \<notin> set (rejected (payloads s))" "d_id d \<notin> set (finalized (payloads s))"
    using live_not_told [OF inv_tables [OF inv] inv_events [OF inv] d live(1)] live(2) by auto
  define ev' where "ev' = WinnerSelectionFinalized a (d_id d') a cand (ws_finalPrice w') g f t"
  have fin: "event_ok (row_upsert d_id d' (stored_deals s)) ((stored_selection s)(a \<mapsto> w')) ev'"
    using js'(3) ca terms a wd w' by (auto simp: ev'_def terms_iff intro!: bexI [of _ d'])
  have fin': "rejected_deal ev' = []" "finalized_deal ev' = [d_id d]"
    using terms by (simp_all add: ev'_def terms_iff)
  have old: "event_ok D W ev" if "ev \<in> set evs" for ev D W
    using that p by (auto simp: deal_MarkAsPaid_def split: if_splits)
  show ?thesis
    unfolding wpE_bind wpE_SaveDeal wpE_SaveSelection ev'_def [symmetric]
  proof (rule say_final_wp [OF inj])
    show "told_ok (stored_selection (put_selection w' (put_deal d' s)))
        (payloads (put_selection w' (put_deal d' s)) @ evs @ [ev'])"
      using inv_told [OF inv] views wd w' fin' by (auto simp: told_ok_def)
    show "outbox_ids_ok env (put_selection w' (put_deal d' s))"
      using inv_ids [OF inv] by simp
  qed (use js'(1,2,4) o told fin fin' old in \<open>auto simp: views\<close>)
qed

lemma HandleDealInvoicePaid_keeps:
  assumes inj: "inj (de_id env)"
  shows "dkeeps env (HandleDealInvoicePaid env now evt)"
proof (rule dkeepsI)
  fix s assume inv: "deals_inv env s"
  show "wpE (HandleDealInvoicePaid env now evt) (\<lambda>_. deals_inv env) (\<lambda>_. deals_inv env) s"
    unfolding HandleDealInvoicePaid_def
  proof (rule check_bind_wp, rule inv, unfold wpE_deals_uow, rule load_bind_wp(2) [OF inv], rule inv,
      rule guard_wp, rule inv)
    fix d assume d: "d \<in> set (stored_deals s)" "d_id d = ie_deal evt"
    show "wpE (if d_status d = DealStatusPaid then retE () else
       bindE (checkE (paid_check evt d)) (\<lambda>_.
       bindE (callE (deal_MarkAsPaid now (ie_invoice evt) ''invoice'') d) (\<lambda>(paidEvents, d').
       bindE (selections_GetForUpdate (ie_auction evt)) (\<lambda>sel.
       if ws_deal sel \<noteq> d_id d' then failE (DealError ErrWinnerSelectionDealMismatch)
       else if ws_status sel = WinnerSelectionStatusFinalized then
         bindE (deals_Save d') (\<lambda>_. deals_outbox_Add env now paidEvents)
       else if ws_status sel \<noteq> WinnerSelectionConfirmedPendingPayment
         then failE (DealError ErrWinnerSelectionNotAwaitingPayment)
       else
       bindE (callE (MarkFinalized (d_id d')) sel) (\<lambda>(_, sel').
       case CurrentCandidate sel' of
         None \<Rightarrow> failE (DealError ErrNoAvailableWinnerCandidate)
       | Some cand \<Rightarrow>
           bindE (deals_Save d') (\<lambda>_.
           bindE (selections_Save sel') (\<lambda>_.
           deals_outbox_Add env now (paidEvents @
             [WinnerSelectionFinalized (ie_auction evt) (d_id d') (ie_auction evt) cand
                (ws_finalPrice sel') (ie_goods evt) (ie_fee_due evt) (ie_paidAt evt)])))))))
       ) (\<lambda>_. deals_inv env) (\<lambda>_. deals_inv env) s"
    proof (cases "d_status d = DealStatusPaid")
      case False
      show ?thesis
        unfolding if_not_P [OF False]
      proof (rule check_bind_wp, rule inv, rule call_bind_wp, rule inv, unfold prod.case,
          rule selection_bind_wp(2), rule inv, rule guard_wp, rule inv)
        fix evs d' w
        assume pc: "paid_check evt d = None"
          and p: "deal_MarkAsPaid now (ie_invoice evt) ''invoice'' d = (Inr evs, d')"
          and w: "stored_selection s (ie_auction evt) = Some w"
        have a: "d_auction d = ie_auction evt"
          using pc by (auto simp: paid_check_def split: if_splits)
        have live: "d_status d \<noteq> DealStatusCancelled"
          using paid_step [OF p] by simp
        obtain x where x: "stored_selection s (d_auction d) = Some x" "phase_ok (ws_status x) (d_status d)"
          using current_deal [OF inv_tables [OF inv] d(1)] live by metis
        then have nf: "ws_status w \<noteq> WinnerSelectionStatusFinalized"
          using w a paid_step [OF p] by auto
        show "wpE (if ws_status w = WinnerSelectionStatusFinalized then
             bindE (deals_Save d') (\<lambda>_. deals_outbox_Add env now evs)
           else if ws_status w \<noteq> WinnerSelectionConfirmedPendingPayment
             then failE (DealError ErrWinnerSelectionNotAwaitingPayment)
           else
           bindE (callE (MarkFinalized (d_id d')) w) (\<lambda>(_, sel').
           case CurrentCandidate sel' of
             None \<Rightarrow> failE (DealError ErrNoAvailableWinnerCandidate)
           | Some cand \<Rightarrow>
               bindE (deals_Save d') (\<lambda>_.
               bindE (selections_Save sel') (\<lambda>_.
               deals_outbox_Add env now (evs @
                 [WinnerSelectionFinalized (ie_auction evt) (d_id d') (ie_auction evt) cand
                    (ws_finalPrice sel') (ie_goods evt) (ie_fee_due evt) (ie_paidAt evt)])))))
           (\<lambda>_. deals_inv env) (\<lambda>_. deals_inv env) s"
          unfolding if_not_P [OF nf]
          by (rule guard_wp, rule inv, rule call_bind_wp, rule inv, unfold prod.case,
              auto split: option.split simp: wpE_fail inv
                intro: paid_tail_wp [OF inj inv d(1) p a w])
      qed
    qed (simp add: wpE_ret inv)
  qed
qed

subsection \<open>The first deal of an auction\<close>

lemma first_deal_wp:
  assumes inj: "inj (de_id env)" and inv: "deals_inv env s" and fresh: "fresh_id env now s"
    and none: "stored_selection s a = None" and cs: "cs \<noteq> []"
    and sel: "sel = NewWinnerSelection a cs p t seller snap"
    and v: "CreateFromSelection (de_local env) now a seller snap (hd cs) p t = Inr (item, evs)"
    and valid: "deal_Validate item = None"
  shows "wpE (bindE (deals_Save item) (\<lambda>_. bindE (projections_Save pr) (\<lambda>_.
      bindE (selections_Save (sel\<lparr>ws_deal := d_id item\<rparr>)) (\<lambda>_.
      deals_outbox_Add env now evs)))) (\<lambda>_. deals_inv env) R s"
proof -
  note n = new_deal_good [OF v valid]
  define w where "w = sel\<lparr>ws_deal := d_id item\<rparr>"
  have w: "ws_auction w = a" "ws_index w = 0" "ws_candidates w = cs"
    "ws_status w = WinnerSelectionActive" "ws_deal w = d_id item" "deal_of_selection w item"
    using n by (simp_all add: w_def sel NewWinnerSelection_def deal_of_selection_def)
  have fr: "d_id item \<notin> d_id ` set (stored_deals s)"
    using fresh n(2) by (simp add: fresh_id_def)
  have T': "tables_ok (row_upsert d_id item (stored_deals s)) ((stored_selection s)(a \<mapsto> w))"
    by (rule tables_first [OF inv_tables [OF inv] none n(1) fr w(6) n(3) _ w(1,2) _ w(4,5)])
      (use w n cs in auto)
  have gr: "grows (stored_deals s) (stored_selection s)
      (row_upsert d_id item (stored_deals s)) ((stored_selection s)(a \<mapsto> w))"
    using none by (auto simp: grows_def upsert_new [OF fr])
  have st: "storable item"
    using n(1) by (simp add: deal_good_def)
  have inv': "deals_inv env (put_selection w ((put_deal item s)\<lparr>dst_projections := ps\<rparr>))" for ps
    by (rule inv_from_views [OF T' grows_events [OF gr inv_events [OF inv]]])
      (use st w inv in \<open>simp_all add: deals_inv_def\<close>)
  show ?thesis
    unfolding wpE_bind wpE_SaveDeal wpE_SaveSelection projections_Save_def wpE_modify w_def [symmetric]
    by (rule say_nothing_wp [OF inj inv']) (simp_all add: n(10))
qed


lemma no_first_wp:
  assumes inv: "deals_inv env s" and none: "stored_selection s a = None" and cs: "cs \<noteq> []"
    and sel: "sel = MarkExhausted (NewWinnerSelection a cs p t seller snap)"
  shows "deals_inv env (put_selection sel s)"
proof -
  have w: "ws_auction sel = a" "ws_index sel = 0" "ws_candidates sel = cs"
    "ws_status sel = WinnerSelectionExhausted" "ws_deal sel = []"
    by (simp_all add: sel MarkExhausted_def NewWinnerSelection_def)
  have T: "tables_ok (stored_deals s) ((stored_selection s)(a \<mapsto> sel))"
    by (rule tables_no_first [OF inv_tables [OF inv] none w(1,2) _ w(4,5)]) (simp add: w cs)
  have gr: "grows (stored_deals s) (stored_selection s) (stored_deals s)
      ((stored_selection s)(a \<mapsto> sel))"
    using none by (auto simp: grows_def)
  show ?thesis
    by (rule inv_from_views [OF T grows_events [OF gr inv_events [OF inv]]])
      (use inv w in \<open>simp_all add: deals_inv_def\<close>)
qed

lemma exhausted_stays:
  assumes inv: "deals_inv env s" and w: "stored_selection s a = Some w" "ws_deal w = []"
  shows "CurrentCandidate w = None" "deals_inv env (put_selection (MarkExhausted w) s)"
proof -
  have ex: "ws_status w = WinnerSelectionExhausted"
    using deal_named [OF inv w(1)] w(2) by blast
  then show "CurrentCandidate w = None"
    by (simp add: CurrentCandidate_def)
  have "MarkExhausted w = w"
    using ex w(2) by (simp add: MarkExhausted_def)
  then show "deals_inv env (put_selection (MarkExhausted w) s)"
    using inv w(1) ex selection_auction [OF inv w(1)]
    by (simp add: deals_inv_def fun_upd_idem)
qed

lemma new_selection_candidate:
  "cs \<noteq> [] \<Longrightarrow> CurrentCandidate (NewWinnerSelection a cs p t seller snap)
     = (if hd cs = [] then None else Some (hd cs))"
  by (simp add: CurrentCandidate_def NewWinnerSelection_def hd_conv_nth)

lemma CreateDealSelection_wp:
  assumes inj: "inj (de_id env)" and inv: "deals_inv env s" and fresh: "fresh_id env now s"
  shows "wpE (CreateDealSelectionFromAuctionWon env now a cs p t)
    (\<lambda>_. deals_inv env) (\<lambda>_. deals_inv env) s"
  unfolding CreateDealSelectionFromAuctionWon_def
proof (rule guard_wp, rule inv, rule guard_wp, rule inv, rule guard_wp, rule inv, rule guard_wp,
    rule inv, unfold wpE_deals_uow)
  assume cs: "cs \<noteq> []"
  have old: "wpE (first_offer env now a pr w) (\<lambda>_. deals_inv env) (\<lambda>_. deals_inv env) s"
    if "stored_selection s a = Some w" "ws_deal w = []" for w pr
    using exhausted_stays [OF inv that]
    by (simp add: first_offer_def wpE_bind wpE_SaveSelection wpE_fail)
  have new: "wpE (first_offer env now a pr (NewWinnerSelection a cs p t (pj_supplier pr)
      (pj_snapshot pr))) (\<lambda>_. deals_inv env) (\<lambda>_. deals_inv env) s"
    if none: "stored_selection s a = None" for pr
  proof (cases "hd cs = []")
    case True
    then show ?thesis
      using no_first_wp [OF inv none cs refl]
      by (simp add: first_offer_def new_selection_candidate [OF cs] wpE_bind wpE_SaveSelection wpE_fail)
  next
    case False
    show ?thesis
      unfolding first_offer_def new_selection_candidate [OF cs] if_not_P [OF False] option.case
      by (rule raise_bind_wp, rule inv, clarsimp, rule check_bind_wp, rule inv,
          rule first_deal_wp [OF inj inv fresh none cs refl]) (auto simp: NewWinnerSelection_def)
  qed
  have proj: "wpE (projections_Get a) Q (\<lambda>_. deals_inv env) s" if "\<And>pr. Q pr s" for Q
    using that inv by (simp add: wpE_def projections_Get_def split: option.split)
  have blank: "ws_deal (NewWinnerSelection a cs p t seller snap) = []" for seller snap
    by (simp add: NewWinnerSelection_def)
  show "wpE (bindE (projections_Get a) (\<lambda>pr.
      bindE (find_or ErrSelectionNotFound (selections_Get a)) (\<lambda>existing.
      let sel = (case existing of Some x \<Rightarrow> x
                 | None \<Rightarrow> NewWinnerSelection a cs p t (pj_supplier pr) (pj_snapshot pr)) in
      if ws_deal sel \<noteq> [] then retE () else first_offer env now a pr sel)))
      (\<lambda>_. deals_inv env) (\<lambda>_. deals_inv env) s"
    unfolding wpE_bind [of "projections_Get _"]
    by (rule proj) (use old new blank in
      \<open>auto simp: wpE_bind [of "find_or _ _"] wpE_find_or wpE_GetSelection Let_def wpE_ret inv
         split: option.split\<close>)
qed

subsection \<open>What does not touch deals\<close>

lemma CreateProjection_keeps: "dkeeps env (CreateProjection a sup' snap p t)"
proof (rule dkeepsI)
  fix s assume inv: "deals_inv env s"
  have "wpE (find_or ErrProjectionNotFound (projections_Get a)) (\<lambda>_. deals_inv env)
      (\<lambda>_. deals_inv env) s"
    using inv by (simp add: wpE_find_or, simp add: wpE_def projections_Get_def split: option.split)
  then show "wpE (CreateProjection a sup' snap p t) (\<lambda>_. deals_inv env) (\<lambda>_. deals_inv env) s"
    unfolding CreateProjection_def wpE_if wpE_fail wpE_bind
    using inv by (auto elim!: wpE_mono simp: wpE_ret projections_Save_def wpE_modify)
qed

end
