(* ===== verification/Deals_System.thy ===== *)
theory Deals_System
  imports Deals_Keeps
begin

section \<open>Deals as a whole\<close>

text \<open>
  The commands of the deals context (the HTTP routes, the events the integration process handles,
  the admin tool) and the stores any sequence of them reaches. \<open>CreateDealFromAuctionWon\<close> and
  \<open>MarkDealPaid\<close>, which no program constructs, are not among them. A command that creates a deal
  takes its identifier from the clock; it is assumed new (\<open>fresh_id\<close>).
\<close>

datatype deals_command =
    LotPublished string string product_snapshot int time
  | WinnersKnown time string "string list" int time
  | Decline time string string
  | Confirm time string
  | Prepare time string string string
  | Sign time deals_meta string string
  | AskPayment time string string "time option"
  | AskShipment time string
  | Ship time string string string
  | Finish time string
  | Cancel time deals_meta string string
  | Reprice time deals_meta string int
  | RequestConf time deals_meta string confirmation_request
  | ApproveConf time deals_meta string string
  | RejectConf time deals_meta string string string
  | InvoicePaid time deal_invoice_event
  | InvoiceExpired time deal_invoice_event

definition void_d :: "'a deals \<Rightarrow> unit deals" where
  "void_d m = bindE m (\<lambda>_. retE ())"

fun exec_deals :: "deals_env \<Rightarrow> deals_command \<Rightarrow> unit deals" where
  "exec_deals env (LotPublished a seller snap p t) = CreateProjection a seller snap p t"
| "exec_deals env (WinnersKnown now a cs p t) = CreateDealSelectionFromAuctionWon env now a cs p t"
| "exec_deals env (Decline now a d) = HandleDealDeclined env now a d"
| "exec_deals env (Confirm now d) = ConfirmDeal env now d"
| "exec_deals env (Prepare now d nr url) = PrepareContract env now d nr url"
| "exec_deals env (Sign now meta d ref) = SignContract env now meta d ref"
| "exec_deals env (AskPayment now d nr due) = RequestPayment env now d nr due"
| "exec_deals env (AskShipment now d) = RequestShipment env now d"
| "exec_deals env (Ship now d nr c) = MarkDealShipped env now d nr c"
| "exec_deals env (Finish now d) = CompleteDeal env now d"
| "exec_deals env (Cancel now meta d r) = CancelDeal env now meta d r"
| "exec_deals env (Reprice now meta d p) = UpdateDealPrice env now meta d p"
| "exec_deals env (RequestConf now meta d rq) = void_d (RequestDealConfirmation env now meta d rq)"
| "exec_deals env (ApproveConf now meta d c) = void_d (ApproveDealConfirmation env now meta d c)"
| "exec_deals env (RejectConf now meta d c r) = void_d (RejectDealConfirmation env now meta d c r)"
| "exec_deals env (InvoicePaid now evt) = HandleDealInvoicePaid env now evt"
| "exec_deals env (InvoiceExpired now evt) = HandleDealInvoiceExpired env now evt"

fun creates_deal :: "deals_command \<Rightarrow> time option" where
  "creates_deal (WinnersKnown now a cs p t) = Some now"
| "creates_deal (Decline now a d) = Some now"
| "creates_deal (InvoiceExpired now evt) = Some now"
| "creates_deal _ = None"

definition deals_ok :: "deals_env \<Rightarrow> deals_store \<Rightarrow> deals_command \<Rightarrow> bool" where
  "deals_ok env s cmd = (case creates_deal cmd of None \<Rightarrow> True | Some now \<Rightarrow> fresh_id env now s)"

definition empty_deals :: deals_store where
  "empty_deals = \<lparr>dst_deals = [], dst_confirmations = [], dst_projections = [], dst_selections = [],
     dst_outbox = [], dst_ids = 0\<rparr>"

inductive deals_reachable :: "deals_env \<Rightarrow> deals_store \<Rightarrow> bool" for env where
  start: "deals_reachable env empty_deals"
| command: "deals_reachable env s \<Longrightarrow> deals_ok env s cmd
    \<Longrightarrow> deals_reachable env (snd (exec_deals env cmd s))"

fun run_deals :: "deals_env \<Rightarrow> deals_command list \<Rightarrow> deals_store \<Rightarrow> deals_store" where
  "run_deals env [] s = s"
| "run_deals env (cmd # cmds) s = run_deals env cmds (snd (exec_deals env cmd s))"

fun run_ok :: "deals_env \<Rightarrow> deals_command list \<Rightarrow> deals_store \<Rightarrow> bool" where
  "run_ok env [] s = True"
| "run_ok env (cmd # cmds) s = (deals_ok env s cmd \<and> run_ok env cmds (snd (exec_deals env cmd s)))"

text \<open>Both at once, for evaluation.\<close>

fun run_checked :: "deals_env \<Rightarrow> deals_command list \<Rightarrow> deals_store \<Rightarrow> deals_store option" where
  "run_checked env [] s = Some s"
| "run_checked env (cmd # cmds) s =
     (if deals_ok env s cmd then run_checked env cmds (snd (exec_deals env cmd s)) else None)"

lemma run_checked: "run_checked env cmds s = Some t \<Longrightarrow> run_ok env cmds s \<and> run_deals env cmds s = t"
  by (induction cmds arbitrary: s) (simp_all split: if_splits)

lemma run_append:
  "run_deals env (cmds @ cmds') s = run_deals env cmds' (run_deals env cmds s)"
  "run_ok env (cmds @ cmds') s \<longleftrightarrow> run_ok env cmds s \<and> run_ok env cmds' (run_deals env cmds s)"
  by (induction cmds arbitrary: s) simp_all

lemma run_reachable:
  "deals_reachable env s \<Longrightarrow> run_ok env cmds s \<Longrightarrow> deals_reachable env (run_deals env cmds s)"
  by (induction cmds arbitrary: s) (auto intro: deals_reachable.command)

lemma deals_void_keeps: "dkeeps env m \<Longrightarrow> dkeeps env (void_d m)"
  unfolding dkeeps_def void_d_def wpE_bind by (auto elim!: wpE_mono simp: wpE_ret)

lemma exec_deals_wp:
  assumes inj: "inj (de_id env)" and inv: "deals_inv env s" and ok: "deals_ok env s cmd"
  shows "wpE (exec_deals env cmd) (\<lambda>_. deals_inv env) (\<lambda>_. deals_inv env) s"
proof (cases "creates_deal cmd")
  case None
  note keep = CreateProjection_keeps [of env] ConfirmDeal_keeps simple_keeps RequestPayment_keeps
    RequestDealConfirmation_keeps ApproveDealConfirmation_keeps RejectDealConfirmation_keeps
    HandleDealInvoicePaid_keeps
  have "dkeeps env (exec_deals env cmd)"
    using None inj by (cases cmd) (simp_all add: keep deals_void_keeps)
  then show ?thesis
    using inv by (rule dkeepsD)
next
  case (Some now)
  with ok have "fresh_id env now s"
    by (simp add: deals_ok_def)
  with Some show ?thesis
    using CreateDealSelection_wp [OF inj inv] HandleDealDeclined_wp [OF inj inv]
      HandleDealInvoiceExpired_wp [OF inj inv]
    by (cases cmd) simp_all
qed

lemma empty_inv: "deals_inv env empty_deals"
  by (simp add: deals_inv_def empty_deals_def tables_ok_def events_ok_def told_ok_def
      stored_deals_def stored_selection_def payloads_def outbox_ids_ok_def)

theorem deals_reachable_inv: "deals_reachable env s \<Longrightarrow> inj (de_id env) \<Longrightarrow> deals_inv env s"
  by (induction rule: deals_reachable.induct) (auto intro: empty_inv wp_snd exec_deals_wp)

subsection \<open>The deal of an auction\<close>

lemma live_unique:
  assumes T: "tables_ok D W" and x: "x \<in> set D" "d_status x \<noteq> DealStatusCancelled"
    and y: "y \<in> set D" "d_status y \<noteq> DealStatusCancelled" and a: "d_auction y = d_auction x"
  shows "y = x"
  using current_deal [OF T x] current_deal [OF T y] a by metis

lemma select_deal:
  assumes "tables_ok D W" "d \<in> set D"
  shows "row_select (\<lambda>x. d_id x = d_id d) D = Some d"
  using assms row_select_key [of d_id D d] by (simp add: tables_ok_def)

lemma get_deal:
  assumes inv: "deals_inv env s" and d: "d \<in> set (stored_deals s)"
  shows "deals_GetByID (d_id d) s = (Inr d, s)"
proof -
  have "wpE (deals_GetByID (d_id d)) (\<lambda>x t. x = d \<and> t = s) (\<lambda>_ _. False) s"
    using select_deal [OF inv_tables [OF inv] d] tables_deal [OF inv_tables [OF inv] d]
    by (simp add: wpE_GetDeal deal_good_def)
  then show ?thesis
    by (auto simp: wpE_def split: prod.splits sum.splits)
qed

lemma get_found:
  assumes inv: "deals_inv env s" and g: "deals_GetByID i s = (Inr d, t)"
  shows "d \<in> set (stored_deals s)" "d_id d = i" "t = s"
proof -
  have "wpE (deals_GetByID i) (\<lambda>x t. x \<in> set (stored_deals s) \<and> d_id x = i \<and> t = s) (\<lambda>_ _. True) s"
    by (rule deals_load_wp [OF inv]) auto
  then show "d \<in> set (stored_deals s)" "d_id d = i" "t = s"
    using g by (simp_all add: wpE_def)
qed

lemma live_rows:
  "map dr_id (filter (\<lambda>r. dr_auction r = a \<and> dr_status r \<noteq> ''cancelled'') (dst_deals s))
     = map d_id (filter (\<lambda>d. d_auction d = a \<and> deal_status_text (d_status d) \<noteq> ''cancelled'')
         (stored_deals s))"
  by (simp add: stored_deals_def filter_map o_def row_deal_params_def)

lemma cancelled_text:
  "deal_good d \<Longrightarrow> deal_status_text (d_status d) = ''cancelled'' \<longleftrightarrow> d_status d = DealStatusCancelled"
  by (cases "d_status d") (auto simp: deal_good_def storable_def)

lemma get_active:
  assumes inv: "deals_inv env s"
  shows "deals_GetActiveByAuctionID a s =
    (case filter (\<lambda>d. d_auction d = a \<and> d_status d \<noteq> DealStatusCancelled) (stored_deals s) of
       [] \<Rightarrow> (Inl AppDealNotFound, s) | d # _ \<Rightarrow> (Inr d, s))"
proof -
  define live where
    "live = filter (\<lambda>d. d_auction d = a \<and> d_status d \<noteq> DealStatusCancelled) (stored_deals s)"
  have T: "tables_ok (stored_deals s) (stored_selection s)"
    by (rule inv_tables [OF inv])
  have "filter (\<lambda>d. d_auction d = a \<and> deal_status_text (d_status d) \<noteq> ''cancelled'') (stored_deals s)
      = live"
    unfolding live_def by (rule filter_cong [OF refl]) (use tables_deal [OF T] cancelled_text in blast)
  then have ids: "map dr_id (filter (\<lambda>r. dr_auction r = a \<and> dr_status r \<noteq> ''cancelled'') (dst_deals s))
      = map d_id live"
    unfolding live_rows by simp
  have one: "x = y" if "x \<in> set live" "y \<in> set live" for x y
    using that live_unique [OF T] by (auto simp: live_def)
  have dist: "distinct live"
    using T by (auto simp: live_def tables_ok_def distinct_map)
  show ?thesis
  proof (cases live)
    case Nil
    then show ?thesis
      using ids unfolding live_def [symmetric]
      by (simp add: deals_GetActiveByAuctionID_def bindE_def readE_def failE_def)
  next
    case (Cons d ds)
    have ds: "ds = []"
    proof (cases ds)
      case (Cons x xs)
      then have "x \<in> set live" "d \<in> set live"
        using \<open>live = d # ds\<close> by simp_all
      then have "x = d"
        by (rule one)
      then show ?thesis
        using dist \<open>live = d # ds\<close> Cons by simp
    qed
    have "d \<in> set live"
      using Cons by simp
    then have "d \<in> set (stored_deals s)"
      by (simp add: live_def)
    then show ?thesis
      using ids Cons ds get_deal [OF inv] unfolding live_def [symmetric]
      by (simp add: deals_GetActiveByAuctionID_def bindE_def readE_def)
  qed
qed


text \<open>\<open>GetDealByAuctionID\<close> finds the live deal, whichever way it goes.\<close>

lemma live_filter:
  assumes T: "tables_ok D W" and d: "d \<in> set D" "d_auction d = a" "d_status d \<noteq> DealStatusCancelled"
  shows "filter (\<lambda>d. d_auction d = a \<and> d_status d \<noteq> DealStatusCancelled) D = [d]"
proof -
  define live where "live = filter (\<lambda>d. d_auction d = a \<and> d_status d \<noteq> DealStatusCancelled) D"
  have "x = d" if "x \<in> set live" for x
    using that live_unique [OF T d(1,3), of x] d(2) by (simp add: live_def)
  moreover have "d \<in> set live"
    using d by (simp add: live_def)
  ultimately have "set live = {d}"
    by blast
  moreover have "distinct live"
    using T by (auto simp: live_def tables_ok_def distinct_map)
  ultimately have "live = [d]"
    by (cases live; cases "tl live") auto
  then show ?thesis
    by (simp add: live_def)
qed

lemma no_live_filter:
  "(\<And>d. d \<in> set D \<Longrightarrow> d_auction d = a \<Longrightarrow> d_status d = DealStatusCancelled) \<Longrightarrow>
     filter (\<lambda>d. d_auction d = a \<and> d_status d \<noteq> DealStatusCancelled) D = []"
  by (auto simp: filter_empty_conv)

lemma get_by_auction_live:
  assumes inv: "deals_inv env s" and d: "d \<in> set (stored_deals s)" "d_auction d = a"
    "d_status d \<noteq> DealStatusCancelled"
  shows "GetDealByAuctionID a s = (Inr d, s)"
proof -
  obtain w where w: "stored_selection s (d_auction d) = Some w" "ws_deal w = d_id d"
    "phase_ok (ws_status w) (d_status d)"
    using current_deal [OF inv_tables [OF inv] d(1,3)] by metis
  have a: "a \<noteq> []" and i: "d_id d \<noteq> []"
    using good_auction [OF tables_deal [OF inv_tables [OF inv] d(1)]]
      good_id [OF tables_deal [OF inv_tables [OF inv] d(1)]] d(2) by auto
  have "ws_status w \<noteq> WinnerSelectionExhausted"
    using w(3) by auto
  moreover have "selections_Get a s = (Inr w, s)"
    using w(1) d(2) by (auto simp: selections_Get_def stored_selection_def)
  ultimately show ?thesis
    using a i w(2) d(3) get_deal [OF inv d(1)]
    by (simp add: GetDealByAuctionID_def db_uow_plain find_or_def catchE_def bindE_def retE_def)
qed

lemma get_by_auction_none:
  assumes inv: "deals_inv env s"
    and none: "\<And>d. d \<in> set (stored_deals s) \<Longrightarrow> d_auction d = a \<Longrightarrow> d_status d = DealStatusCancelled"
  shows "\<exists>e. GetDealByAuctionID a s = (Inl e, s) \<and> e \<noteq> AppMultipleActiveDealsForAuction"
proof -
  have act: "deals_GetActiveByAuctionID a s = (Inl AppDealNotFound, s)"
    using get_active [OF inv, of a] no_live_filter [of "stored_deals s" a] none by simp
  show ?thesis
  proof (cases "stored_selection s a")
    case None
    then have "selections_Get a s = (Inl (DealError ErrSelectionNotFound), s)"
      by (simp add: selections_Get_def stored_selection_def split: option.splits)
    then show ?thesis
      using act by (simp add: GetDealByAuctionID_def db_uow_plain find_or_def catchE_def bindE_def
          retE_def failE_def)
  next
    case (Some w)
    have sel: "selections_Get a s = (Inr w, s)"
      using Some by (auto simp: selections_Get_def stored_selection_def)
    show ?thesis
    proof (cases "ws_status w = WinnerSelectionExhausted")
      case True
      then show ?thesis
        using sel by (simp add: GetDealByAuctionID_def db_uow_plain find_or_def catchE_def bindE_def
            retE_def failE_def)
    next
      case False
      define ds where "ds = auction_deals a (stored_deals s)"
      have off: "offers w ds"
        using tables_selection [OF inv_tables [OF inv] Some] False
        by (simp add: selection_good_def ds_def)
      then have "last ds \<in> set ds"
        by (simp add: offers_def)
      then have l: "last ds \<in> set (stored_deals s)" "d_status (last ds) = DealStatusCancelled"
        using none by (auto simp: ds_def)
      have "deals_GetByID (ws_deal w) s = (Inr (last ds), s)"
        using get_deal [OF inv l(1)] off by (simp add: offers_def)
      then show ?thesis
        using sel False l(2) act deal_named [OF inv Some False]
        by (simp add: GetDealByAuctionID_def db_uow_plain find_or_def catchE_def bindE_def
            retE_def failE_def)
    qed
  qed
qed

subsection \<open>A declined deal passes to the next candidate\<close>

lemma declined_offers:
  assumes inv: "deals_inv env s" and w: "stored_selection s a = Some w"
    and st: "ws_status w = WinnerSelectionActive" and a: "a \<noteq> []"
    and nxt: "ws_index w + 1 < int (length (ws_candidates w))"
      "ws_candidates w ! nat (ws_index w + 1) \<noteq> []"
    and c: "d \<in> set (stored_deals s)" "d_id d = ws_deal w" "d_status d = DealStatusCancelled"
    and i: "generateID (de_local env) now = i" "i \<noteq> []" and fresh: "fresh_id env now s"
    and inj: "inj (de_id env)"
  shows "wpE (HandleDealDeclined env now a []) (\<lambda>_ t.
      stored_deals t = stored_deals s @ [fst (new_deal i a (ws_supplier w) (ws_snapshot w)
        (ws_candidates w ! nat (ws_index w + 1)) (ws_finalPrice w) (ws_wonAt w))]
      \<and> stored_selection t = (stored_selection s)(a \<mapsto>
          w\<lparr>ws_index := ws_index w + 1, ws_deal := i\<rparr>)) (\<lambda>_ _. False) s"
proof -
  have g: "deal_good d"
    by (rule tables_deal [OF inv_tables [OF inv] c(1)])
  define ds where "ds = auction_deals a (stored_deals s)"
  have wa: "ws_auction w = a" and sg: "selection_good w ds"
    using tables_selection [OF inv_tables [OF inv] w] by (simp_all add: ds_def)
  have off: "offers w ds"
    using sg st by (simp add: selection_good_def)
  then have "last ds \<in> set ds"
    by (simp add: offers_def)
  then have "last ds \<in> set (stored_deals s)" "d_auction (last ds) = a"
    by (simp_all add: ds_def)
  then have "d = last ds"
    using same_id [OF inv_tables [OF inv], of "last ds" d] c off by (simp add: offers_def)
  with \<open>last ds \<in> set ds\<close> have "d \<in> set ds" by simp
  then have dw: "deal_of_selection w d"
    using sg by (simp add: selection_good_def)
  have idx: "0 \<le> ws_index w"
    using sg by (simp add: selection_good_def)
  have ilen: "ws_index w < int (length (ws_candidates w))"
    using sg by (simp add: selection_good_def)
  have cust: "d_customer d = ws_candidates w ! nat (ws_index w)"
    using last_customer [OF off idx ilen] \<open>d = last ds\<close> by simp
  have valid: "d_customer d \<noteq> []" "ws_supplier w \<noteq> []" "0 < ws_finalPrice w" "ws_wonAt w \<noteq> 0"
    "ps_name (ws_snapshot w) \<noteq> []"
    using g dw by (auto simp: deal_good_def deal_Validate_def deal_of_selection_def split: if_splits)
  define n where "n = fst (new_deal i a (ws_supplier w) (ws_snapshot w)
    (ws_candidates w ! nat (ws_index w + 1)) (ws_finalPrice w) (ws_wonAt w))"
  have n: "d_id n = i" "storable n" "deal_Validate n = None"
    using valid i a nxt(2) by (simp_all add: n_def new_deal_def storable_def deal_Validate_def)
  define w1 where "w1 = w\<lparr>ws_index := ws_index w + 1, ws_deal := []\<rparr>"
  have cur: "CurrentCandidate w = Some (d_customer d)"
    using st idx ilen valid(1) cust by (simp add: CurrentCandidate_def)
  have adv: "Advance w = (True, w1)"
    using st nxt(1) by (simp add: Advance_def Let_def w1_def)
  have cur1: "CurrentCandidate w1 = Some (ws_candidates w ! nat (ws_index w + 1))"
    using st idx nxt by (simp add: CurrentCandidate_def w1_def)
  have create: "CreateFromSelection (de_local env) now (ws_auction w1) (ws_supplier w1) (ws_snapshot w1)
      (ws_candidates w ! nat (ws_index w + 1)) (ws_finalPrice w1) (ws_wonAt w1)
      = Inr (n, snd (new_deal i a (ws_supplier w) (ws_snapshot w)
          (ws_candidates w ! nat (ws_index w + 1)) (ws_finalPrice w) (ws_wonAt w)))"
    using valid a nxt(2) i wa by (simp add: CreateFromSelection_def w1_def n_def)
  have sel: "row_select (\<lambda>x. d_id x = ws_deal w) (stored_deals s) = Some d"
    using select_deal [OF inv_tables [OF inv] c(1)] c(2) by simp
  have offer: "wpE (offer_next env now a [] w) (\<lambda>_ t. stored_deals t = stored_deals s @ [n]
      \<and> stored_selection t = (stored_selection s)(a \<mapsto> w\<lparr>ws_index := ws_index w + 1, ws_deal := i\<rparr>))
      (\<lambda>_ _. False) s"
    unfolding offer_next_def adv prod.case bool.case cur1 option.case create raiseE_def
    using n fresh st wa inv_ids [OF inv] i
    by (auto simp: wpE_bind wpE_lift wpE_check wpE_SaveDeal wpE_SaveSelection w1_def fresh_id_def
        upsert_new intro!: deals_outbox_Add_wp [OF inj])
  have bad: "deal_Validate d = None"
    using g by (simp add: deal_good_def)
  show ?thesis
    using offer w st a sel bad c(3) cur deal_named [OF inv w]
    by (simp add: HandleDealDeclined_def declined_auction_def reopen_if_confirmed_def wp_simps
        n_def [symmetric])
qed

end
