(* ===== verification/Deals_Properties.thy ===== *)
theory Deals_Properties
  imports Deals_System
begin

section \<open>The properties of deals\<close>

text \<open>
  Each property with its witness. \<open>ddemo_*\<close> is a small run: an auction of one lot of fish with two
  winner candidates.
\<close>

subsection \<open>A run to try the properties on\<close>

definition ddemo_env :: deals_env where
  "ddemo_env = \<lparr>de_id = (\<lambda>n. replicate n (CHR ''a'')), de_local = (\<lambda>t. t),
     de_sort_func = insertion_sort, de_order_rows = insertion_sort\<rparr>"

definition ddemo_fish :: product_snapshot where
  "ddemo_fish = \<lparr>ps_product = ''P'', ps_name = ''cod'', ps_description = [], ps_category = [],
     ps_weight = 0, ps_unit = [], ps_size = [], ps_processing = [], ps_volume = 0, ps_origin = []\<rparr>"

definition ddemo_meta :: "string \<Rightarrow> deals_meta" where
  "ddemo_meta c = \<lparr>dm_company = c, dm_user = ''u'', dm_correlation = [], dm_causation = []\<rparr>"

definition ddemo_id :: string where
  "ddemo_id = ''deal_00010101000000.000000001''"

definition ddemo_open :: "deals_command list" where
  "ddemo_open = [LotPublished ''A'' ''S'' ddemo_fish 10 1,
     WinnersKnown 1 ''A'' [''B'', ''C''] 100 1]"

definition ddemo_payable :: "deals_command list" where
  "ddemo_payable = ddemo_open @ [Confirm 2 ddemo_id, Prepare 3 ddemo_id ''N'' ''U'',
     Sign 4 (ddemo_meta ''S'') ddemo_id ''R'', AskPayment 5 ddemo_id ''I'' None]"

definition ddemo_invoice :: deal_invoice_event where
  "ddemo_invoice = \<lparr>ie_invoice = ''I'', ie_deal = ddemo_id, ie_auction = ''A'', ie_buyer = ''B'',
     ie_goods = 100, ie_fee_due = 5, ie_amount = 105, ie_paidAt = 6\<rparr>"

definition ddemo_run :: "deals_command list \<Rightarrow> deals_store" where
  "ddemo_run cmds = run_deals ddemo_env cmds empty_deals"

lemma ddemo_inj: "inj (de_id ddemo_env)"
  by (rule injI) (drule arg_cong [where f = length], simp add: ddemo_env_def)

lemma ddemo_reachable:
  "run_ok ddemo_env cmds empty_deals \<Longrightarrow> deals_reachable ddemo_env (ddemo_run cmds)"
  unfolding ddemo_run_def by (rule run_reachable [OF deals_reachable.start])

definition ddemo_sees :: "deals_store \<Rightarrow> deal_status list \<Rightarrow> selection_status \<Rightarrow> int \<Rightarrow> bool" where
  "ddemo_sees s sts st i \<longleftrightarrow> map d_status (stored_deals s) = sts
     \<and> map d_auction (stored_deals s) = replicate (length sts) ''A''
     \<and> (case stored_selection s ''A'' of None \<Rightarrow> False | Some w \<Rightarrow> ws_status w = st \<and> ws_index w = i
          \<and> ws_candidates w = [''B'', ''C''])"

definition ddemo_declined :: "deals_command list" where
  "ddemo_declined = ddemo_open @ [Cancel 2 (ddemo_meta ''B'') ddemo_id ''WINNER_REJECTED'']"

definition ddemo_early :: "deals_command list" where
  "ddemo_early = ddemo_open @ [Prepare 3 ddemo_id ''N'' ''U'']"

definition ddemo_rq :: confirmation_request where
  "ddemo_rq = \<lparr>rq_stage = StageConfirmed, rq_verification = VerifyManual, rq_token_hash = [],
     rq_signature = [], rq_comment = [], rq_expiresAt = Some 5\<rparr>"

definition ddemo_waiting :: deals_store where
  "ddemo_waiting = ddemo_run (ddemo_open @ [RequestConf 2 (ddemo_meta ''B'') ddemo_id ddemo_rq])"

definition ddemo_conf :: string where
  "ddemo_conf = ''dcf_00010101000000.000000002''"

definition ddemo_cancels :: deal_call where
  "ddemo_cancels = deal_Cancel 7 ''changed my mind'' ''B''"

definition ddemo_overwritten :: deals_store where
  "ddemo_overwritten =
     (case fst (deals_GetByID ddemo_id (ddemo_run ddemo_payable)) of
        Inl e \<Rightarrow> empty_deals
      | Inr d \<Rightarrow> snd (deal_mutation_loaded ddemo_env 7 ddemo_cancels d
          (snd (HandleDealInvoicePaid ddemo_env 6 ddemo_invoice (ddemo_run ddemo_payable)))))"

text \<open>
  The two runs are evaluated once each, with everything the witnesses ask of them and of the
  commands that may follow.
\<close>

definition ddemo_shows :: "deals_command list \<Rightarrow> (deals_store \<Rightarrow> bool) \<Rightarrow> bool" where
  "ddemo_shows cmds P \<longleftrightarrow>
     (case run_checked ddemo_env cmds empty_deals of None \<Rightarrow> False | Some s \<Rightarrow> P s)"

lemma ddemo_shows: "ddemo_shows cmds P \<Longrightarrow> run_ok ddemo_env cmds empty_deals \<and> P (ddemo_run cmds)"
  by (auto simp: ddemo_shows_def ddemo_run_def dest: run_checked split: option.splits)

definition ddemo_after :: "deals_store \<Rightarrow> deals_command \<Rightarrow> (deals_store \<Rightarrow> bool) \<Rightarrow> bool" where
  "ddemo_after s cmd P \<longleftrightarrow> (case exec_deals ddemo_env cmd s of (r, t) \<Rightarrow> P t)"

definition ddemo_is_waiting :: "deals_store \<Rightarrow> bool" where
  "ddemo_is_waiting s \<longleftrightarrow>
     (case (fst (deals_GetByID ddemo_id s), fst (confirmations_GetByID 6 ddemo_conf s),
        fst (confirmations_GetPending 6 ddemo_id StageConfirmed s)) of
      (Inr d, Inr c, Inr p) \<Rightarrow> d_id d = dc_deal c \<and> dc_expiresAt c = Some 5 \<and> dc_stage c = StageConfirmed
    | _ \<Rightarrow> False)"

definition ddemo_is_declined :: "deals_store \<Rightarrow> bool" where
  "ddemo_is_declined s \<longleftrightarrow> ddemo_sees s [DealStatusCancelled] WinnerSelectionActive 0
     \<and> map d_id (stored_deals s) = [ddemo_id]
     \<and> map_option ws_deal (stored_selection s ''A'') = Some ddemo_id
     \<and> fresh_id ddemo_env 3 s \<and> generateID (de_local ddemo_env) 3 \<noteq> []"

definition ddemo_is_overwritten :: "deals_store \<Rightarrow> bool" where
  "ddemo_is_overwritten s \<longleftrightarrow> ddemo_sees s [DealStatusCancelled] WinnerSelectionStatusFinalized 0
     \<and> list_ex (\<lambda>i. i = ddemo_id) (finalized (payloads s))
     \<and> list_ex (\<lambda>i. i = ddemo_id) (rejected (payloads s))"

lemma ddemo_open_shows: "ddemo_shows ddemo_open (\<lambda>s.
    ddemo_sees s [DealStatusPending] WinnerSelectionActive 0
    \<and> ddemo_after s (Cancel 2 (ddemo_meta ''B'') ddemo_id ''WINNER_REJECTED'') ddemo_is_declined
    \<and> ddemo_after s (Prepare 3 ddemo_id ''N'' ''U'')
        (\<lambda>t. ddemo_sees t [DealStatusContractPrepared] WinnerSelectionActive 0)
    \<and> ddemo_after s (RequestConf 2 (ddemo_meta ''B'') ddemo_id ddemo_rq) ddemo_is_waiting)"
  by code_simp

lemma ddemo_payable_shows: "ddemo_shows ddemo_payable (\<lambda>s.
    ddemo_sees s [DealStatusPaymentRequested] WinnerSelectionConfirmedPendingPayment 0
    \<and> (case HandleDealInvoicePaid ddemo_env 6 ddemo_invoice s of (r, t) \<Rightarrow> r = Inr ()
        \<and> ddemo_sees t [DealStatusPaid] WinnerSelectionStatusFinalized 0
        \<and> (case fst (deals_GetByID ddemo_id s) of Inl e \<Rightarrow> False
           | Inr d \<Rightarrow> ddemo_is_overwritten (snd (deal_mutation_loaded ddemo_env 7 ddemo_cancels d t)))))"
  by code_simp

lemma ddemo_ok:
  "run_ok ddemo_env ddemo_open empty_deals" "run_ok ddemo_env ddemo_payable empty_deals"
  using ddemo_shows [OF ddemo_open_shows] ddemo_shows [OF ddemo_payable_shows] by blast+

lemma ddemo_one_more:
  "ddemo_run (cmds @ [cmd]) = snd (exec_deals ddemo_env cmd (ddemo_run cmds))"
  "run_ok ddemo_env cmds empty_deals \<Longrightarrow> creates_deal cmd = None
    \<Longrightarrow> run_ok ddemo_env (cmds @ [cmd]) empty_deals"
  by (simp_all add: ddemo_run_def run_append deals_ok_def)

lemma ddemo_after: "ddemo_after (ddemo_run cmds) cmd P \<Longrightarrow> P (ddemo_run (cmds @ [cmd]))"
  by (simp add: ddemo_after_def ddemo_one_more(1) split: prod.splits)

lemma ddemo_open_sees: "ddemo_sees (ddemo_run ddemo_open) [DealStatusPending] WinnerSelectionActive 0"
  and ddemo_early_sees:
    "ddemo_sees (ddemo_run ddemo_early) [DealStatusContractPrepared] WinnerSelectionActive 0"
  and ddemo_declined_is: "ddemo_is_declined (ddemo_run ddemo_declined)"
  and ddemo_waiting_is: "ddemo_is_waiting ddemo_waiting"
  using ddemo_shows [OF ddemo_open_shows]
  unfolding ddemo_early_def ddemo_declined_def ddemo_waiting_def by (blast intro: ddemo_after [where P = ddemo_is_declined]
      ddemo_after [where P = ddemo_is_waiting] ddemo_after [where
        P = "\<lambda>t. ddemo_sees t [DealStatusContractPrepared] WinnerSelectionActive 0"])+

lemma ddemo_payable_sees: "ddemo_sees (ddemo_run ddemo_payable) [DealStatusPaymentRequested]
    WinnerSelectionConfirmedPendingPayment 0"
  and ddemo_paid_sees: "ddemo_sees (ddemo_run (ddemo_payable @ [InvoicePaid 6 ddemo_invoice]))
    [DealStatusPaid] WinnerSelectionStatusFinalized 0"
  and ddemo_overwritten_is: "ddemo_is_overwritten ddemo_overwritten"
  using ddemo_shows [OF ddemo_payable_shows]
  by (cases "fst (deals_GetByID ddemo_id (ddemo_run ddemo_payable))";
      auto simp: ddemo_one_more(1) ddemo_overwritten_def split: prod.splits)+

lemmas ddemo_reached = ddemo_ok [THEN ddemo_reachable]
  ddemo_one_more(2) [OF ddemo_ok(1), THEN ddemo_reachable]
  ddemo_one_more(2) [OF ddemo_ok(2), THEN ddemo_reachable]

lemma ddemo_seen:
  assumes "ddemo_sees s sts st i"
  obtains w where "stored_selection s ''A'' = Some w" "ws_status w = st" "ws_index w = i"
    "ws_candidates w = [''B'', ''C'']"
  using assms by (auto simp: ddemo_sees_def split: option.splits)

lemma ddemo_deal:
  assumes "ddemo_sees s [st'] st i"
  obtains d where "stored_deals s = [d]" "d_status d = st'" "d_auction d = ''A''"
  using assms by (auto simp: ddemo_sees_def map_eq_Cons_conv)

subsection \<open>C30 - C32: one deal at a time, told once\<close>

text \<open>
  C21: the deals of an auction have been offered to its candidates in the order of the ranking, each
  candidate once, at the final price and by the seller of the lot, and there are never more of them
  than candidates.
\<close>

theorem candidates_offered_in_order:
  assumes "inj (de_id env)" "deals_reachable env s" "stored_selection s a = Some w"
  shows "map d_customer (auction_deals a (stored_deals s))
           = take (length (auction_deals a (stored_deals s))) (ws_candidates w)
     \<and> length (auction_deals a (stored_deals s)) \<le> length (ws_candidates w)
     \<and> (ws_status w \<noteq> WinnerSelectionExhausted
        \<longrightarrow> int (length (auction_deals a (stored_deals s))) = ws_index w + 1)
     \<and> (\<forall>d \<in> set (auction_deals a (stored_deals s)).
          d_quantity d = 1 \<and> d_unitPrice d = ws_finalPrice w \<and> d_supplier d = ws_supplier w)
     \<and> (distinct (ws_candidates w) \<longrightarrow> distinct (map d_customer (auction_deals a (stored_deals s))))"
proof -
  define ds where "ds = auction_deals a (stored_deals s)"
  have T: "tables_ok (stored_deals s) (stored_selection s)"
    by (rule inv_tables [OF deals_reachable_inv [OF assms(2,1)]])
  have g: "selection_good w ds"
    using tables_selection [OF T assms(3)] by (simp add: ds_def)
  then obtain k where k: "map d_customer ds = take k (ws_candidates w)"
    by (cases "ws_status w = WinnerSelectionExhausted") (auto simp: selection_good_def offers_def)
  then have len: "length ds = min k (length (ws_candidates w))"
    by (metis length_map length_take min.commute)
  then have cust: "map d_customer ds = take (length ds) (ws_candidates w)"
    using k by (simp add: min_def)
  have idx: "int (length ds) = ws_index w + 1" if "ws_status w \<noteq> WinnerSelectionExhausted"
  proof -
    have "length ds = min (nat (ws_index w) + 1) (length (ws_candidates w))"
      using g that by (simp add: selection_good_def offers_def) (metis length_map length_take min.commute)
    moreover have "0 \<le> ws_index w" "nat (ws_index w) + 1 \<le> length (ws_candidates w)"
      using g by (auto simp: selection_good_def nat_less_iff Suc_le_eq)
    ultimately show ?thesis
      by (simp add: min_absorb1)
  qed
  have "\<forall>d \<in> set ds. d_quantity d = 1 \<and> d_unitPrice d = ws_finalPrice w \<and> d_supplier d = ws_supplier w"
    using g tables_deal [OF T] by (auto simp: selection_good_def deal_of_selection_def ds_def deal_good_def)
  then show ?thesis
    using cust len idx unfolding ds_def [symmetric] by (metis distinct_take min.cobounded2)
qed

theorem candidates_offered_in_order_witness:
  "map d_customer (auction_deals ''A'' (stored_deals (ddemo_run ddemo_open))) = [''B'']"
proof -
  obtain w where w: "stored_selection (ddemo_run ddemo_open) ''A'' = Some w" "ws_index w = 0"
    "ws_status w = WinnerSelectionActive" "ws_candidates w = [''B'', ''C'']"
    using ddemo_seen [OF ddemo_open_sees] by metis
  then show ?thesis
    using candidates_offered_in_order [OF ddemo_inj ddemo_reached(1) w(1)] by simp
qed

text \<open>
  C22: of the deals of an auction at most one is not cancelled. It is the one
  \<open>GetDealByAuctionID\<close> returns, whether it follows the selection or searches the table; the error
  for several active deals is never raised.
\<close>

theorem the_live_deal:
  assumes "inj (de_id env)" "deals_reachable env s"
  shows "(GetDealByAuctionID a s = (Inr d, t) \<longleftrightarrow> t = s \<and> d \<in> set (stored_deals s)
       \<and> d_auction d = a \<and> d_status d \<noteq> DealStatusCancelled)
    \<and> fst (GetDealByAuctionID a s) \<noteq> Inl AppMultipleActiveDealsForAuction"
proof -
  have inv: "deals_inv env s"
    by (rule deals_reachable_inv [OF assms(2,1)])
  have "(\<exists>x. x \<in> set (stored_deals s) \<and> d_auction x = a \<and> d_status x \<noteq> DealStatusCancelled
        \<and> GetDealByAuctionID a s = (Inr x, s))
      \<or> (\<forall>x \<in> set (stored_deals s). d_auction x = a \<longrightarrow> d_status x = DealStatusCancelled)
        \<and> (\<exists>e. GetDealByAuctionID a s = (Inl e, s) \<and> e \<noteq> AppMultipleActiveDealsForAuction)"
    using get_by_auction_live [OF inv] get_by_auction_none [OF inv, of a] by blast
  moreover have "GetDealByAuctionID a s = (Inr d, s)"
    if "d \<in> set (stored_deals s)" "d_auction d = a" "d_status d \<noteq> DealStatusCancelled"
    by (rule get_by_auction_live [OF inv that])
  ultimately show ?thesis
    by auto
qed

theorem the_live_deal_witness:
  "\<exists>d. GetDealByAuctionID ''A'' (ddemo_run ddemo_open) = (Inr d, ddemo_run ddemo_open)"
proof -
  obtain d where "stored_deals (ddemo_run ddemo_open) = [d]" "d_status d = DealStatusPending"
    "d_auction d = ''A''"
    by (rule ddemo_deal [OF ddemo_open_sees])
  then show ?thesis
    using the_live_deal [OF ddemo_inj ddemo_reached(1), of "''A''" d] by auto
qed

text \<open>
  C23: billing is told about a deal at most once, either that its buyer forfeits the deposit or that
  the deal is settled. A forfeit names the buyer of a cancelled deal; a settlement names the buyer,
  the price and the auction of the deal its selection is finalised with; and every deal that is
  paid or further has been settled.
\<close>

theorem billing_told_once:
  assumes "inj (de_id env)" "deals_reachable env s"
  shows "distinct (rejected (payloads s) @ finalized (payloads s))
    \<and> (\<forall>ev \<in> set (payloads s). event_ok (stored_deals s) (stored_selection s) ev)
    \<and> (\<forall>d \<in> set (stored_deals s). d_status d \<in> {DealStatusPaid, DealStatusShipmentRequested,
          DealStatusShipped, DealStatusCompleted} \<longrightarrow> d_id d \<in> set (finalized (payloads s)))"
proof -
  have inv: "deals_inv env s"
    by (rule deals_reachable_inv [OF assms(2,1)])
  have "d_id d \<in> set (finalized (payloads s))"
    if d: "d \<in> set (stored_deals s)" "d_status d \<in> {DealStatusPaid, DealStatusShipmentRequested,
      DealStatusShipped, DealStatusCompleted}" for d
  proof -
    have "d_status d \<noteq> DealStatusCancelled"
      using d(2) by auto
    then obtain w where w: "stored_selection s (d_auction d) = Some w" "ws_deal w = d_id d"
      "phase_ok (ws_status w) (d_status d)"
      using current_deal [OF inv_tables [OF inv] d(1)] by metis
    then have "ws_status w = WinnerSelectionStatusFinalized"
      using d(2) by (cases "ws_status w") auto
    then show ?thesis
      using inv_told [OF inv] w by (metis told_ok_def)
  qed
  then show ?thesis
    using inv_events [OF inv] by (auto simp: events_ok_def)
qed

theorem billing_told_once_witness:
  "\<exists>i. i \<in> set (finalized (payloads (ddemo_run (ddemo_payable @ [InvoicePaid 6 ddemo_invoice]))))"
proof -
  obtain d where "stored_deals (ddemo_run (ddemo_payable @ [InvoicePaid 6 ddemo_invoice])) = [d]"
    "d_status d = DealStatusPaid"
    using ddemo_deal [OF ddemo_paid_sees] by metis
  then show ?thesis
    using billing_told_once [OF ddemo_inj ddemo_reached(4) [of "InvoicePaid 6 ddemo_invoice", simplified]] by auto
qed


subsection \<open>C33 - C35: the life of a deal, and its row\<close>

definition ddemo_base :: "deal_status \<Rightarrow> contract_info option \<Rightarrow> deal" where
  "ddemo_base st c = (fst (new_deal [] [] [] ddemo_fish [] 1 1))\<lparr>d_status := st, d_contract := c\<rparr>"

definition ddemo_draft :: "time option \<Rightarrow> contract_info option" where
  "ddemo_draft t = Some (no_contract\<lparr>ci_preparedAt := Some 1, ci_signedAt := t\<rparr>)"

lemma ddemo_base [simp]: "d_status (ddemo_base st c) = st" "d_contract (ddemo_base st c) = c"
  by (simp_all add: ddemo_base_def)

lemma reaches:
  assumes "\<And>d evs d'. m d = (Inr evs, d') \<Longrightarrow> deal_step d d'"
    and "\<exists>evs d'. m (ddemo_base st c) = (Inr evs, d') \<and> d_status d' = st'"
  shows "\<exists>d d'. deal_step d d' \<and> d_status d = st \<and> d_status d' = st'"
  using assms by (metis ddemo_base(1))

lemma table_move_reached:
  assumes "CanTransitionTo st st' \<or> st = DealStatusPending \<and> st' = DealStatusContractPrepared"
    "st' \<noteq> DealStatusCancelled"
  shows "\<exists>d d'. deal_step d d' \<and> d_status d = st \<and> d_status d' = st'"
proof -
  from assms consider
      "st = DealStatusPending" "st' = DealStatusConfirmed"
    | "st = DealStatusConfirmed \<or> st = DealStatusPending" "st' = DealStatusContractPrepared"
    | "st = DealStatusContractPrepared" "st' = DealStatusContractSigned"
    | "st = DealStatusContractSigned" "st' = DealStatusPaymentRequested"
    | "st = DealStatusPaymentRequested" "st' = DealStatusPaid"
    | "st = DealStatusPaid" "st' = DealStatusShipmentRequested"
    | "st = DealStatusShipmentRequested" "st' = DealStatusShipped"
    | "st = DealStatusShipped" "st' = DealStatusCompleted"
    by (cases st) (auto simp: CanTransitionTo_def)
  then show ?thesis
  proof cases
    case 1 then show ?thesis
      by (auto simp: deal_Confirm_def
          intro!: reaches [where c = None and m = "deal_Confirm 1"] deal_step.confirmed [of 1])
  next
    case 2 then show ?thesis
      by (auto simp: deal_PrepareContract_def Let_def intro!: deal_step.prepared [of 1 "''n''" "[]"]
          reaches [where c = None and m = "deal_PrepareContract 1 ''n'' []"])
  next
    case 3 then show ?thesis
      by (auto simp: deal_SignContract_def ddemo_draft_def no_contract_def
          intro!: deal_step.signed [of 1 "[]" "[]"]
          reaches [where c = "ddemo_draft None" and m = "deal_SignContract 1 [] []"])
  next
    case 4 then show ?thesis
      by (auto simp: deal_RequestPayment_def hasSignedContract_def ddemo_draft_def
          intro!: deal_step.requested [of 1 "[]" None]
          reaches [where c = "ddemo_draft (Some 1)" and m = "deal_RequestPayment 1 [] None"])
  next
    case 5 then show ?thesis
      by (auto simp: deal_MarkAsPaid_def intro!: deal_step.paid [of 1 "[]" "[]"]
          reaches [where c = None and m = "deal_MarkAsPaid 1 [] []"])
  next
    case 6 then show ?thesis
      by (auto simp: deal_RequestShipment_def intro!: deal_step.shipping [of 1]
          reaches [where c = None and m = "deal_RequestShipment 1"])
  next
    case 7 then show ?thesis
      by (auto simp: deal_MarkAsShipped_def intro!: deal_step.shipped [of 1 "[]" "[]"]
          reaches [where c = None and m = "deal_MarkAsShipped 1 [] []"])
  next
    case 8 then show ?thesis
      by (auto simp: deal_Complete_def intro!: deal_step.completed [of 1]
          reaches [where c = None and m = "deal_Complete 1"])
  qed
qed

lemma cancel_other:
  "d_status d \<noteq> DealStatusCompleted \<Longrightarrow> d_status d \<noteq> DealStatusCancelled \<Longrightarrow>
     \<exists>evs d'. deal_Cancel 1 ''x'' ''y'' d = (Inr evs, d') \<and> d_status d' = DealStatusCancelled"
  by (simp add: deal_Cancel_def Let_def ReasonForfeitsWinnerDeposit_def cancel_reasons)

lemma cancel_reached:
  assumes "st \<noteq> DealStatusCompleted" "st \<noteq> DealStatusCancelled"
  shows "\<exists>d d'. deal_step d d' \<and> d_status d = st \<and> d_status d' = DealStatusCancelled"
  by (rule reaches [where c = None and m = "deal_Cancel 1 ''x'' ''y''"], erule deal_step.cancelled)
    (use assms cancel_other in simp)

text \<open>
  C24: the methods of \<open>Deal\<close> move its status exactly along the table \<open>CanTransitionTo\<close>, with one
  exception: \<open>PrepareContract\<close> also accepts a deal that has not been confirmed. (A status string
  that is no constant can be cancelled.)
\<close>

theorem methods_are_the_table:
  "(\<exists>d d'. deal_step d d' \<and> d_status d = st \<and> d_status d' = st') \<longleftrightarrow>
     CanTransitionTo st st' \<or> st = DealStatusPending \<and> st' = DealStatusContractPrepared
     \<or> (\<exists>x. st = DealStatusOther x) \<and> st' = DealStatusCancelled"
proof
  assume "\<exists>d d'. deal_step d d' \<and> d_status d = st \<and> d_status d' = st'"
  then show "CanTransitionTo st st' \<or> st = DealStatusPending \<and> st' = DealStatusContractPrepared
     \<or> (\<exists>x. st = DealStatusOther x) \<and> st' = DealStatusCancelled"
    using step_status by blast
next
  assume r: "CanTransitionTo st st' \<or> st = DealStatusPending \<and> st' = DealStatusContractPrepared
     \<or> (\<exists>x. st = DealStatusOther x) \<and> st' = DealStatusCancelled"
  show "\<exists>d d'. deal_step d d' \<and> d_status d = st \<and> d_status d' = st'"
  proof (cases "st' = DealStatusCancelled")
    case True
    with r have "st \<noteq> DealStatusCompleted" "st \<noteq> DealStatusCancelled"
      by (auto simp: CanTransitionTo_def)
    then show ?thesis
      using cancel_reached True by blast
  next
    case False
    then show ?thesis
      using table_move_reached r by blast
  qed
qed





subsection \<open>C36 - C39: the next candidate, and how a deal gets stuck\<close>



lemma stuck_request:
  assumes inv: "deals_inv env s" and d: "d \<in> set (stored_deals s)"
    and w: "stored_selection s (d_auction d) = Some w" "ws_status w = WinnerSelectionActive"
      "ws_deal w = d_id d"
  shows "RequestPayment env now (d_id d) nr due s
    = (Inl (DealError ErrWinnerSelectionNotAwaitingPayment), s)"
proof -
  have "selections_Get (d_auction d) s = (Inr w, s)"
    using w(1) by (auto simp: selections_Get_def stored_selection_def)
  then show ?thesis
    using good_id [OF tables_deal [OF inv_tables [OF inv] d]] w(2,3) get_deal [OF inv d]
      good_type [OF tables_deal [OF inv_tables [OF inv] d]]
      good_auction [OF tables_deal [OF inv_tables [OF inv] d]]
    by (simp add: RequestPayment_def db_uow_plain bindE_def deals_GetByIDForUpdate_def
        selections_GetForUpdate_def catchE_def failE_def)
qed

lemma not_listed:
  assumes inv: "deals_inv env s" and d: "d \<in> set (stored_deals s)" "d_status d \<noteq> DealStatusPending"
    and sort: "\<And>rows. set (de_order_rows env created_before rows) = set rows"
    and l: "ListExpiredForFallback env now limit s = (Inr ids, t)"
  shows "d_id d \<notin> set ids"
proof
  assume "d_id d \<in> set ids"
  then obtain r where r: "r \<in> set (dst_deals s)" "dr_status r = ''pending''" "dr_id r = d_id d"
    using l by (auto simp: ListExpiredForFallback_def readE_def sort dest!: in_set_takeD)
  then have "row_deal_params r \<in> set (stored_deals s)"
    by (simp add: stored_deals_def)
  moreover have "d_status (row_deal_params r) = DealStatusPending"
    using r(2) by (simp add: row_deal_params_def)
  moreover have "row_deal_params r = d"
    using same_id [OF inv_tables [OF inv] d(1), of "row_deal_params r"] r 
      \<open>row_deal_params r \<in> set (stored_deals s)\<close> by simp
  ultimately show False
    using d(2) by simp
qed

text \<open>
  a contract prepared before the buyer has confirmed leaves the deal stuck. While the selection
  of its auction is still active, a deal that is past \<open>pending\<close> can neither be confirmed nor be
  billed nor be cancelled for the buyer's silence, and the scheduler does not list it; the other
  candidates wait until someone cancels it for another reason.
\<close>

theorem premature_contract_is_stuck:
  assumes "inj (de_id env)" "deals_reachable env s"
    and "d \<in> set (stored_deals s)" "d_status d \<noteq> DealStatusPending" "d_status d \<noteq> DealStatusCancelled"
    and "stored_selection s (d_auction d) = Some w" "ws_status w = WinnerSelectionActive"
    and "ReasonForfeitsWinnerDeposit reason" "cancelled_by meta \<noteq> []"
    and "\<And>rows. set (de_order_rows env created_before rows) = set rows"
  shows "ConfirmDeal env now (d_id d) s = (Inl (DealError ErrCannotConfirmDeal), s)
    \<and> RequestPayment env now (d_id d) nr due s
        = (Inl (DealError ErrWinnerSelectionNotAwaitingPayment), s)
    \<and> CancelDeal env now meta (d_id d) reason s
        = (Inl (DealError (if d_status d = DealStatusCompleted then ErrCannotCancelDeal
              else ErrCannotDeclineWinnerAfterConfirm)), s)
    \<and> (\<forall>ids. ListExpiredForFallback env now limit s = (Inr ids, s) \<longrightarrow> d_id d \<notin> set ids)"
proof -
  have inv: "deals_inv env s"
    by (rule deals_reachable_inv [OF assms(2,1)])
  have good: "deal_good d"
    by (rule tables_deal [OF inv_tables [OF inv] assms(3)])
  obtain w' where "stored_selection s (d_auction d) = Some w'" "ws_deal w' = d_id d"
    by (rule current_deal [OF inv_tables [OF inv] assms(3,5)])
  then have wd: "ws_deal w = d_id d"
    using assms(6) by simp
  have load: "deals_GetByID (d_id d) s = (Inr d, s)"
    by (rule get_deal [OF inv assms(3)])
  have "ConfirmDeal env now (d_id d) s = (Inl (DealError ErrCannotConfirmDeal), s)"
    using load assms(4) good_id [OF good]
    by (simp add: ConfirmDeal_def db_uow_plain bindE_def deals_GetByIDForUpdate_def callE_def
        deal_Confirm_def)
  moreover have "CancelDeal env now meta (d_id d) reason s
      = (Inl (DealError (if d_status d = DealStatusCompleted then ErrCannotCancelDeal
            else ErrCannotDeclineWinnerAfterConfirm)), s)"
    using load assms(4,5,8,9) good_id [OF good] good_type [OF good]
    by (auto simp: CancelDeal_def executeDealMutation_def deal_mutation_loaded_def db_uow_plain bindE_def
        callE_def deal_Cancel_def ReasonForfeitsWinnerDeposit_def cancel_reasons)
  ultimately show ?thesis
    using stuck_request [OF inv assms(3,6,7) wd] not_listed [OF inv assms(3,4,10)] by blast
qed

lemma ddemo_order: "set (de_order_rows ddemo_env created_before rows) = set rows"
  by (simp add: ddemo_env_def stable_sort.set_sort)

theorem premature_contract_is_stuck_witness:
  "\<exists>d. stored_deals (ddemo_run ddemo_early) = [d] \<and> d_status d = DealStatusContractPrepared
     \<and> ConfirmDeal ddemo_env 4 (d_id d) (ddemo_run ddemo_early)
         = (Inl (DealError ErrCannotConfirmDeal), ddemo_run ddemo_early)"
proof -
  obtain d where d: "stored_deals (ddemo_run ddemo_early) = [d]" "d_status d = DealStatusContractPrepared"
    "d_auction d = ''A''"
    using ddemo_deal [OF ddemo_early_sees] by metis
  obtain w where w: "stored_selection (ddemo_run ddemo_early) ''A'' = Some w"
    "ws_status w = WinnerSelectionActive" "ws_index w = 0"
    using ddemo_seen [OF ddemo_early_sees] by metis
  show ?thesis
    using premature_contract_is_stuck [OF ddemo_inj ddemo_reached(3) [of "Prepare 3 ddemo_id ''N'' ''U''", simplified,
      folded ddemo_early_def], of d w
      DealCancelReasonConfirmationTimeout "ddemo_meta ''system''"]
      d w ddemo_order by (simp add: ReasonForfeitsWinnerDeposit_def cancelled_by_def ddemo_meta_def)
qed


lemma deal_read: "fst (deals_GetByID i s) = Inr d \<Longrightarrow> deals_GetByID i s = (Inr d, s)"
  by (auto simp: deals_GetByID_def split: option.splits)

lemma confirmation_read: "fst (confirmations_find now q s) = Inr c \<Longrightarrow> confirmations_find now q s = (Inr c, s)"
  by (auto simp: confirmations_find_def split: option.splits)



end
