(* ===== verification/Go_Text.thy ===== *)
theory Go_Text
  imports Prelude
begin

section \<open>Go's \<open>strings.TrimSpace\<close>\<close>

text \<open>
  Strings are the bytes of their UTF-8 encoding, so a space of Unicode is a short sequence of bytes.
  \<open>space_at\<close> is the number of bytes of the space a string starts with (0 when it starts with
  something else); the last space of a string is found in its reverse.
\<close>

definition byte_of :: "char \<Rightarrow> nat" where
  "byte_of c = of_char c"

text \<open>U+2000 to U+200A, U+2028, U+2029, U+202F and U+205F, U+1680, U+3000.\<close>

definition wide_space :: "nat \<Rightarrow> nat \<Rightarrow> nat \<Rightarrow> bool" where
  "wide_space x y z \<longleftrightarrow>
     x = 0xE2 \<and> y = 0x80 \<and> (0x80 \<le> z \<and> z \<le> 0x8A \<or> z = 0xA8 \<or> z = 0xA9 \<or> z = 0xAF)
     \<or> x = 0xE2 \<and> y = 0x81 \<and> z = 0x9F \<or> x = 0xE1 \<and> y = 0x9A \<and> z = 0x80
     \<or> x = 0xE3 \<and> y = 0x80 \<and> z = 0x80"

definition ascii_space :: "nat \<Rightarrow> bool" where
  "ascii_space x \<longleftrightarrow> x = 0x20 \<or> 0x09 \<le> x \<and> x \<le> 0x0D"

definition latin_space :: "nat \<Rightarrow> nat \<Rightarrow> bool" where
  "latin_space x y \<longleftrightarrow> x = 0xC2 \<and> (y = 0x85 \<or> y = 0xA0)"

fun spaces_at :: "nat list \<Rightarrow> nat" where
  "spaces_at (x # xs) =
     (if ascii_space x then 1
      else case xs of [] \<Rightarrow> 0
        | y # ys \<Rightarrow> if latin_space x y then 2
            else case ys of [] \<Rightarrow> 0 | z # zs \<Rightarrow> if wide_space x y z then 3 else 0)"
| "spaces_at [] = 0"

fun spaces_before :: "nat list \<Rightarrow> nat" where
  "spaces_before (x # xs) =
     (if ascii_space x then 1
      else case xs of [] \<Rightarrow> 0
        | y # ys \<Rightarrow> if latin_space y x then 2
            else case ys of [] \<Rightarrow> 0 | z # zs \<Rightarrow> if wide_space z y x then 3 else 0)"
| "spaces_before [] = 0"

function drop_spaces :: "(nat list \<Rightarrow> nat) \<Rightarrow> string \<Rightarrow> string" where
  "drop_spaces k s =
     (let n = k (map byte_of s) in if n = 0 \<or> s = [] then s else drop_spaces k (drop n s))"
  by auto
termination by (relation "measure (\<lambda>(k, s). length s)") auto

declare drop_spaces.simps [simp del]

definition TrimSpace :: "string \<Rightarrow> string" where
  "TrimSpace s = rev (drop_spaces spaces_before (rev (drop_spaces spaces_at s)))"

definition is_blank :: "string \<Rightarrow> bool" where
  "is_blank s \<longleftrightarrow> TrimSpace s = ''''"

subsection \<open>Trimming twice\<close>

lemma drop_spaces_nil [simp]: "drop_spaces k [] = []"
  by (simp add: drop_spaces.simps)

lemma drop_spaces_stuck: "k (map byte_of (drop_spaces k s)) = 0 \<or> drop_spaces k s = []"
proof (induction k s rule: drop_spaces.induct)
  case (1 k s)
  then show ?case
    by (subst (1 2) drop_spaces.simps) (auto simp: Let_def)
qed

lemma drop_spaces_id: "k (map byte_of s) = 0 \<Longrightarrow> drop_spaces k s = s"
  by (simp add: drop_spaces.simps)

lemma drop_spaces_suffix: "\<exists>p. s = p @ drop_spaces k s"
proof (induction k s rule: drop_spaces.induct)
  case (1 k s)
  show ?case
  proof (cases "k (map byte_of s) = 0 \<or> s = []")
    case False
    define n where "n = k (map byte_of s)"
    obtain p where p: "drop n s = p @ drop_spaces k (drop n s)"
      using 1 False n_def by blast
    then have "s = (take n s @ p) @ drop_spaces k (drop n s)"
      by (metis append_assoc append_take_drop_id)
    moreover have "drop_spaces k s = drop_spaces k (drop n s)"
      using False n_def by (subst drop_spaces.simps) simp
    ultimately show ?thesis
      by metis
  qed (auto simp: drop_spaces.simps)
qed

text \<open>Taking bytes away at the end leaves no space at the start.\<close>

lemma spaces_at_prefix: "spaces_at (p @ q) = 0 \<Longrightarrow> spaces_at p = 0"
proof (cases p)
  case (Cons x xs)
  assume "spaces_at (p @ q) = 0"
  then show ?thesis
    using Cons by (cases xs; cases "tl xs") (simp_all split: if_splits)
qed simp

lemma TrimSpace_idem [simp]: "TrimSpace (TrimSpace s) = TrimSpace s"
proof -
  define l where "l = drop_spaces spaces_at s"
  define r where "r = drop_spaces spaces_before (rev l)"
  have t: "TrimSpace s = rev r"
    by (simp add: TrimSpace_def l_def r_def)
  obtain p where "rev l = p @ r"
    using drop_spaces_suffix [of "rev l" spaces_before] unfolding r_def by blast
  then have "l = rev r @ rev p"
    by (metis rev_append rev_rev_ident)
  moreover have "spaces_at (map byte_of l) = 0 \<or> l = []"
    unfolding l_def by (rule drop_spaces_stuck)
  ultimately have "spaces_at (map byte_of (rev r)) = 0"
    using spaces_at_prefix [of "map byte_of (rev r)" "map byte_of (rev p)"] by auto
  moreover have "spaces_before (map byte_of r) = 0 \<or> r = []"
    unfolding r_def by (rule drop_spaces_stuck)
  ultimately show ?thesis
    unfolding t by (auto simp: TrimSpace_def drop_spaces_id)
qed

lemma TrimSpace_nil [simp]: "TrimSpace [] = []"
  by (simp add: TrimSpace_def)

lemma is_blank_trim [simp]: "is_blank (TrimSpace s) \<longleftrightarrow> is_blank s"
  by (simp add: is_blank_def)

lemma is_blank_nil [simp]: "is_blank []"
  by (simp add: is_blank_def)

lemma trimmed: "TrimSpace s = s \<Longrightarrow> \<not> is_blank s \<longleftrightarrow> s \<noteq> []"
  by (simp add: is_blank_def)

subsection \<open>What a blank string consists of\<close>

definition space_byte :: "nat \<Rightarrow> bool" where
  "space_byte x \<longleftrightarrow> ascii_space x \<or> 0x80 \<le> x"

lemma take_spaces_at: "\<forall>b \<in> set (take (spaces_at bs) bs). space_byte b"
  by (cases bs; cases "tl bs"; cases "tl (tl bs)")
    (auto simp: space_byte_def latin_space_def wide_space_def)

lemma take_spaces_before: "\<forall>b \<in> set (take (spaces_before bs) bs). space_byte b"
  by (cases bs; cases "tl bs"; cases "tl (tl bs)")
    (auto simp: space_byte_def latin_space_def wide_space_def)

lemma dropped_are_spaces:
  assumes k: "\<And>bs. \<forall>b \<in> set (take (k bs) bs). space_byte b"
  shows "c \<in> set s \<Longrightarrow> \<not> space_byte (byte_of c) \<Longrightarrow> c \<in> set (drop_spaces k s)"
proof (induction "length s" arbitrary: s rule: less_induct)
  case less
  define n where "n = k (map byte_of s)"
  show ?case
  proof (cases "n = 0 \<or> s = []")
    case False
    have "c \<notin> set (take n s)"
      using k [of "map byte_of s"] less.prems(2) by (auto simp: n_def take_map)
    then have "c \<in> set (drop n s)"
      using less.prems(1) by (metis Un_iff append_take_drop_id set_append)
    then have "c \<in> set (drop_spaces k (drop n s))"
      using less.hyps [of "drop n s"] less.prems(2) False by simp
    moreover have "drop_spaces k s = drop_spaces k (drop n s)"
      using False by (subst drop_spaces.simps) (simp add: n_def)
    ultimately show ?thesis by simp
  next
    case True
    then show ?thesis
      using less.prems(1) by (auto simp: drop_spaces.simps n_def)
  qed
qed

lemma not_blank:
  assumes "c \<in> set s" "\<not> space_byte (byte_of c)"
  shows "\<not> is_blank s"
proof -
  have "c \<in> set (drop_spaces spaces_at s)"
    by (rule dropped_are_spaces [OF take_spaces_at assms])
  then have "c \<in> set (drop_spaces spaces_before (rev (drop_spaces spaces_at s)))"
    by (intro dropped_are_spaces [OF take_spaces_before _ assms(2)]) simp
  then show ?thesis
    by (auto simp: is_blank_def TrimSpace_def)
qed

end
