(* ===== verification/Catalog.thy ===== *)
theory Catalog
  imports Go_Text
begin

section \<open>The catalog domain (internal/catalog/domain)\<close>

text \<open>
  Fish, products and lots. A \<open>float64\<close> is its 64 bits. As in deals, a method of an entity is a
  function from the entity to a sum and the entity it leaves.
\<close>

type_synonym cat_float = "64 word"

text \<open>\<open>x <= 0\<close> on the bits: false of a NaN.\<close>

definition float_le_zero :: "cat_float \<Rightarrow> bool" where
  "float_le_zero x = (let m = uint x mod 2 ^ 63; negative = 2 ^ 63 \<le> uint x in
     m = 0 \<or> negative \<and> m \<le> 0x7FF0000000000000)"

datatype catalog_error = ErrInvalidIdentifier | ErrInvalidEnum | ErrInvalidQuantity
  | ErrForbiddenStateTransition | ErrPublishingRuleViolation | ErrModificationNotAllowed
  | ErrInvalidPrice | ErrInvalidSchedule | ErrAlreadyAssigned | CatErrAuctionIDRequired
  | ErrInvalidWeight | ErrInvalidUnit

subsection \<open>state.go, transitions.go\<close>

datatype product_status = ProductStatusDraft | ProductStatusPublished | ProductStatusUnpublished

fun product_status_text :: "product_status \<Rightarrow> string" where
  "product_status_text ProductStatusDraft = ''DRAFT''"
| "product_status_text ProductStatusPublished = ''PUBLISHED''"
| "product_status_text ProductStatusUnpublished = ''UNPUBLISHED''"

datatype lot_status = LotStatusDraft | LotStatusPublished | LotStatusClosed | LotStatusCancelled

fun lot_status_text :: "lot_status \<Rightarrow> string" where
  "lot_status_text LotStatusDraft = ''DRAFT''"
| "lot_status_text LotStatusPublished = ''PUBLISHED''"
| "lot_status_text LotStatusClosed = ''CLOSED''"
| "lot_status_text LotStatusCancelled = ''CANCELLED''"

definition productTransitions :: "(product_status \<times> product_status) list" where
  "productTransitions = [(ProductStatusDraft, ProductStatusPublished),
     (ProductStatusPublished, ProductStatusUnpublished),
     (ProductStatusUnpublished, ProductStatusPublished)]"

definition lotTransitions :: "(lot_status \<times> lot_status) list" where
  "lotTransitions = [(LotStatusDraft, LotStatusPublished), (LotStatusPublished, LotStatusClosed),
     (LotStatusPublished, LotStatusCancelled)]"

definition canTransitionLot :: "lot_status \<Rightarrow> lot_status \<Rightarrow> bool" where
  "canTransitionLot x y \<longleftrightarrow> (x, y) \<in> set lotTransitions"

subsection \<open>fish.go\<close>

record fish =
  fish_id :: string
  fish_name :: string
  fish_description :: string

definition NewFish :: "string \<Rightarrow> string \<Rightarrow> string \<Rightarrow> catalog_error + fish" where
  "NewFish fishID name description =
     (if is_blank fishID \<or> is_blank name then Inl ErrInvalidIdentifier
      else Inr \<lparr>fish_id = fishID, fish_name = name, fish_description = description\<rparr>)"

definition fish_Update :: "string \<Rightarrow> string \<Rightarrow> (fish, catalog_error, unit) exec" where
  "fish_Update name description f =
     (if is_blank name then (Inl ErrInvalidIdentifier, f)
      else (Inr (), f\<lparr>fish_name := name, fish_description := description\<rparr>))"

subsection \<open>auction\_schedule.go\<close>

record auction_schedule =
  sch_startsAt :: time
  sch_duration :: duration

definition NewAuctionScheduleAt :: "time \<Rightarrow> duration \<Rightarrow> auction_schedule" where
  "NewAuctionScheduleAt startsAt dur = \<lparr>sch_startsAt = startsAt, sch_duration = dur\<rparr>"

definition schedule_IsValid :: "auction_schedule \<Rightarrow> bool" where
  "schedule_IsValid s \<longleftrightarrow> sch_startsAt s \<noteq> 0 \<and> sch_duration s > 0"

definition schedule_EndsAt :: "auction_schedule \<Rightarrow> time" where
  "schedule_EndsAt s = sch_startsAt s + sch_duration s"

subsection \<open>events.go\<close>

record cat_snapshot =
  cs_product :: string
  cs_name :: string
  cs_weight :: cat_float
  cs_unit :: string
  cs_size :: string
  cs_processing :: string

record lot_published =
  lp_lot :: string
  lp_auction :: string
  lp_seller :: string
  lp_product :: string
  lp_snapshot :: cat_snapshot
  lp_startPrice :: int
  lp_minBidStep :: int
  lp_startsAt :: time
  lp_endsAt :: time
  lp_status :: lot_status

datatype catalog_event =
    LotAuctionLinked string string
  | ProductCreated string string string cat_float string string string product_status
  | ProductUpdated string string cat_float string string string product_status
  | ProductPublished string product_status
  | ProductUnpublished string product_status
  | LotCreated string string string string cat_float lot_status
  | CatLotPublished lot_published
  | LotUnpublished string lot_status
  | LotClosed string int lot_status
  | LotPriceUpdated string string int lot_status

subsection \<open>product.go\<close>

record product =
  p_id :: string
  p_fish :: string
  p_seller :: string
  p_weight :: cat_float
  p_size :: string
  p_unit :: string
  p_processing :: string
  p_status :: product_status

definition RestoreProduct :: "string \<Rightarrow> string \<Rightarrow> string \<Rightarrow> cat_float \<Rightarrow> string \<Rightarrow> string \<Rightarrow> string
    \<Rightarrow> product_status \<Rightarrow> catalog_error + product" where
  "RestoreProduct productID fishID seller weight unit' size' processing status =
     (if is_blank productID \<or> is_blank fishID then Inl ErrInvalidIdentifier
      else if is_blank unit' then Inl ErrInvalidUnit
      else if is_blank processing then Inl ErrInvalidEnum
      else if float_le_zero weight then Inl ErrInvalidWeight
      else Inr \<lparr>p_id = productID, p_fish = fishID, p_seller = TrimSpace seller, p_weight = weight,
        p_size = size', p_unit = TrimSpace unit', p_processing = TrimSpace processing,
        p_status = status\<rparr>)"

definition NewProduct :: "string \<Rightarrow> string \<Rightarrow> string \<Rightarrow> cat_float \<Rightarrow> string \<Rightarrow> string \<Rightarrow> string
    \<Rightarrow> catalog_error + (product \<times> catalog_event list)" where
  "NewProduct productID fishID seller weight unit' size' processing =
     (if is_blank seller then Inl ErrInvalidIdentifier
      else case RestoreProduct productID fishID seller weight unit' size' processing ProductStatusDraft of
        Inl e \<Rightarrow> Inl e
      | Inr p \<Rightarrow> Inr (p, [ProductCreated (p_id p) (p_seller p) (p_fish p) (p_weight p) (p_unit p)
          (p_size p) (p_processing p) (p_status p)]))"

definition product_Update :: "string \<Rightarrow> cat_float \<Rightarrow> string \<Rightarrow> string \<Rightarrow> string
    \<Rightarrow> (product, catalog_error, catalog_event list) exec" where
  "product_Update fishID weight unit' size' processing p =
     (if p_status p \<noteq> ProductStatusDraft then (Inl ErrModificationNotAllowed, p)
      else if is_blank fishID then (Inl ErrInvalidIdentifier, p)
      else if is_blank unit' then (Inl ErrInvalidUnit, p)
      else if is_blank processing then (Inl ErrInvalidEnum, p)
      else if float_le_zero weight then (Inl ErrInvalidWeight, p)
      else
        let p' = p\<lparr>p_fish := fishID, p_weight := weight, p_unit := TrimSpace unit', p_size := size',
            p_processing := TrimSpace processing\<rparr> in
        (Inr [ProductUpdated (p_id p') (p_fish p') (p_weight p') (p_unit p') (p_size p')
            (p_processing p') (p_status p')], p'))"

definition product_Publish :: "(product, catalog_error, catalog_event list) exec" where
  "product_Publish p =
     (if p_status p \<noteq> ProductStatusDraft then (Inl ErrForbiddenStateTransition, p)
      else (Inr [ProductPublished (p_id p) ProductStatusPublished],
            p\<lparr>p_status := ProductStatusPublished\<rparr>))"

definition product_Unpublish :: "(product, catalog_error, catalog_event list) exec" where
  "product_Unpublish p =
     (if p_status p \<noteq> ProductStatusPublished then (Inl ErrForbiddenStateTransition, p)
      else (Inr [ProductUnpublished (p_id p) ProductStatusDraft], p\<lparr>p_status := ProductStatusDraft\<rparr>))"

subsection \<open>lot.go\<close>

record lot =
  l_id :: string
  l_product :: string
  l_seller :: string
  l_auction :: string
  l_photo :: string
  l_quantity :: cat_float
  l_status :: lot_status
  l_snapshot :: cat_snapshot
  l_startPrice :: int
  l_minBidStep :: int
  l_finalPrice :: int
  l_curPrice :: int
  l_schedule :: auction_schedule

type_synonym 'a lot_call = "(lot, catalog_error, 'a) exec"

definition no_snapshot :: cat_snapshot where
  "no_snapshot = \<lparr>cs_product = '''', cs_name = '''', cs_weight = 0, cs_unit = '''', cs_size = '''',
     cs_processing = ''''\<rparr>"

definition NewLot :: "string \<Rightarrow> string \<Rightarrow> string \<Rightarrow> string \<Rightarrow> cat_float \<Rightarrow> int \<Rightarrow> int
    \<Rightarrow> auction_schedule \<Rightarrow> catalog_error + (lot \<times> catalog_event list)" where
  "NewLot lotID productID seller photo quantity startPrice minBidStep schedule =
     (if is_blank lotID \<or> is_blank productID \<or> is_blank seller then Inl ErrInvalidIdentifier
      else if float_le_zero quantity then Inl ErrInvalidQuantity
      else if startPrice \<le> 0 then Inl ErrInvalidPrice
      else if minBidStep \<le> 0 then Inl ErrInvalidPrice
      else if \<not> schedule_IsValid schedule then Inl ErrInvalidSchedule
      else
        let l = \<lparr>l_id = lotID, l_product = productID, l_seller = seller, l_auction = '''',
            l_photo = TrimSpace photo, l_quantity = quantity, l_status = LotStatusDraft,
            l_snapshot = no_snapshot, l_startPrice = startPrice, l_minBidStep = minBidStep,
            l_finalPrice = startPrice, l_curPrice = startPrice, l_schedule = schedule\<rparr> in
        Inr (l, [LotCreated (l_id l) (l_product l) (l_seller l) (l_photo l) (l_quantity l) (l_status l)]))"

definition lot_AssignAuctionID :: "string \<Rightarrow> catalog_event list lot_call" where
  "lot_AssignAuctionID auctionID l =
     (if is_blank auctionID then (Inl ErrInvalidIdentifier, l)
      else if \<not> is_blank (l_auction l) then (Inl ErrAlreadyAssigned, l)
      else (Inr [LotAuctionLinked (l_id l) auctionID], l\<lparr>l_auction := auctionID\<rparr>))"

definition lot_Publish :: "bool \<Rightarrow> cat_snapshot \<Rightarrow> catalog_event list lot_call" where
  "lot_Publish productIsPublished snapshot l =
     (if \<not> productIsPublished then (Inl ErrPublishingRuleViolation, l)
      else if \<not> canTransitionLot (l_status l) LotStatusPublished
        then (Inl ErrForbiddenStateTransition, l)
      else (Inr [CatLotPublished \<lparr>lp_lot = l_id l, lp_auction = l_auction l, lp_seller = l_seller l,
              lp_product = l_product l, lp_snapshot = snapshot, lp_startPrice = l_startPrice l,
              lp_minBidStep = l_minBidStep l, lp_startsAt = sch_startsAt (l_schedule l),
              lp_endsAt = schedule_EndsAt (l_schedule l), lp_status = LotStatusPublished\<rparr>],
            l\<lparr>l_status := LotStatusPublished, l_snapshot := snapshot\<rparr>))"

definition lot_Unpublish :: "catalog_event list lot_call" where
  "lot_Unpublish l =
     (if \<not> canTransitionLot (l_status l) LotStatusCancelled
        then (Inl ErrForbiddenStateTransition, l)
      else (Inr [LotUnpublished (l_id l) LotStatusCancelled], l\<lparr>l_status := LotStatusCancelled\<rparr>))"

definition lot_Close :: "int \<Rightarrow> catalog_event list lot_call" where
  "lot_Close finalPrice l =
     (if \<not> canTransitionLot (l_status l) LotStatusClosed then (Inl ErrForbiddenStateTransition, l)
      else if finalPrice \<le> 0 then (Inl ErrInvalidPrice, l)
      else (Inr [LotClosed (l_id l) finalPrice LotStatusClosed],
            l\<lparr>l_status := LotStatusClosed, l_finalPrice := finalPrice\<rparr>))"

definition lot_UpdateCurrentPrice :: "int \<Rightarrow> catalog_event list lot_call" where
  "lot_UpdateCurrentPrice currentPrice l =
     (if l_status l \<noteq> LotStatusPublished then (Inl ErrForbiddenStateTransition, l)
      else if currentPrice \<le> 0 then (Inl ErrInvalidPrice, l)
      else (Inr [LotPriceUpdated (l_id l) (l_auction l) currentPrice (l_status l)],
            l\<lparr>l_curPrice := currentPrice\<rparr>))"

lemma canTransitionLot_simps [simp]:
  "canTransitionLot st LotStatusPublished \<longleftrightarrow> st = LotStatusDraft"
  "canTransitionLot st LotStatusClosed \<longleftrightarrow> st = LotStatusPublished"
  "canTransitionLot st LotStatusCancelled \<longleftrightarrow> st = LotStatusPublished"
  "\<not> canTransitionLot st LotStatusDraft"
  by (cases st; simp add: canTransitionLot_def lotTransitions_def)+

lemmas lot_calls = lot_AssignAuctionID_def lot_Publish_def lot_Unpublish_def lot_Close_def
  lot_UpdateCurrentPrice_def

end
