(* ===== verification/Catalog_Store.thy ===== *)
theory Catalog_Store
  imports Catalog Outbox Transactions Sorting
begin

section \<open>The catalog tables and repositories (internal/catalog/postgres)\<close>

text \<open>
  One list of rows per table of migrations 001, 002, 013, 014, 016 and 020, and the catalog rows of
  the outbox. The partial unique index on \<open>auction_id\<close> is the error of \<open>lots_Save\<close>. A lot is
  rebuilt from its row by calling its methods (\<open>row_lot\<close>), so what is not a column, the product
  snapshot, comes back empty, and the events of the calls are thrown away.
\<close>

datatype cat_error =
    CatalogError catalog_error
  | CatNotFound | CatFishNotFound | CatUnitNotFound | CatProcessingTypeNotFound
  | CatMissingCompanyID | CatForbiddenOwner | CatListForbidden
  | UnsupportedLotStatus string | UnsupportedProductStatus string | CatUniqueViolation

record product_row =
  pw_id :: string
  pw_fish :: string
  pw_seller :: string
  pw_weight :: cat_float
  pw_unit :: string
  pw_size :: string
  pw_processing :: string
  pw_status :: string

record lot_row =
  lw_id :: string
  lw_product :: string
  lw_auction :: "string option"
  lw_seller :: string
  lw_photo :: "string option"
  lw_quantity :: cat_float
  lw_start_price :: int
  lw_min_bid_step :: int
  lw_cur_price :: int
  lw_final_price :: int
  lw_status :: string
  lw_starts_at :: time
  lw_duration_minutes :: int

record catalog_store =
  cst_fish :: "fish list"
  cst_units :: "string list"
  cst_processing_types :: "string list"
  cst_products :: "product_row list"
  cst_lots :: "lot_row list"
  cst_outbox :: "catalog_event outbox_row list"
  cst_ids :: nat

type_synonym 'a catalog = "(catalog_store, cat_error, 'a) exec"

text \<open>The random identifiers and the collation of the database.\<close>

record catalog_env =
  ce_id :: "nat \<Rightarrow> string"
  ce_text_before :: "string \<Rightarrow> string \<Rightarrow> bool"

definition domainC :: "catalog_error + 'a \<Rightarrow> cat_error + 'a" where
  "domainC r = map_sum CatalogError (\<lambda>a. a) r"

definition sum_bind :: "'e + 'a \<Rightarrow> ('a \<Rightarrow> 'e + 'b) \<Rightarrow> 'e + 'b" where
  "sum_bind r f = (case r of Inl e \<Rightarrow> Inl e | Inr a \<Rightarrow> f a)"

text \<open>The object a method leaves, its events dropped: \<open>if _, err := x.M(); err != nil { return err }\<close>.\<close>

definition leaving :: "('o, 'e, 'a) exec \<Rightarrow> 'o \<Rightarrow> 'e + 'o" where
  "leaving m x = (case m x of (Inl e, _) \<Rightarrow> Inl e | (Inr _, x') \<Rightarrow> Inr x')"

subsection \<open>Durations in minutes\<close>

text \<open>
  \<open>int64(d.Minutes())\<close>, where \<open>Minutes\<close> adds the \<open>float64\<close> of the whole minutes and of the
  fraction. \<open>round53\<close> rounds a non-negative number to 53 significant bits, ties to even; the numbers
  are scaled by \<open>2 ^ 141\<close>, the last bit of a quotient being set when it is not exact.
\<close>

function bit_length :: "int \<Rightarrow> nat" where
  "bit_length n = (if n \<le> 0 then 0 else Suc (bit_length (n div 2)))"
  by auto

termination by (relation "measure nat") auto

declare bit_length.simps [simp del]

definition div_even :: "int \<Rightarrow> int \<Rightarrow> int" where
  "div_even a b = (let q = a div b; r = a mod b in
     if 2 * r < b \<or> 2 * r = b \<and> even q then q else q + 1)"

definition round53 :: "int \<Rightarrow> int" where
  "round53 n = (let k = bit_length n - 53 in div_even n (2 ^ k) * 2 ^ k)"

definition minutes_of_pos :: "int \<Rightarrow> int" where
  "minutes_of_pos d =
     (let m = d div 60000000000; ns = d mod 60000000000;
          q = ns * 2 ^ 140 div 60000000000;
          sticky = (if ns * 2 ^ 140 mod 60000000000 = 0 then 0 else 1)
      in round53 (m * 2 ^ 141 + round53 (2 * q + sticky)) div 2 ^ 141)"

definition minutes_of :: "duration \<Rightarrow> int" where
  "minutes_of d = (if d < 0 then - minutes_of_pos (- d) else minutes_of_pos d)"

subsection \<open>fish\_repository.go and the reference tables\<close>

definition fish_Get :: "string \<Rightarrow> fish catalog" where
  "fish_Get fishID s = (case row_select (\<lambda>f. fish_id f = fishID) (cst_fish s) of
      None \<Rightarrow> (Inl CatNotFound, s)
    | Some f \<Rightarrow> (domainC (NewFish (fish_id f) (fish_name f) (fish_description f)), s))"

definition fish_Exists :: "string \<Rightarrow> bool catalog" where
  "fish_Exists fishID = readE (\<lambda>s. list_ex (\<lambda>f. fish_id f = fishID) (cst_fish s))"

fun scan_all :: "('r \<Rightarrow> 'e + 'a) \<Rightarrow> 'r list \<Rightarrow> 'e + 'a list" where
  "scan_all f [] = Inr []"
| "scan_all f (r # rs) = sum_bind (f r) (\<lambda>x. sum_bind (scan_all f rs) (\<lambda>xs. Inr (x # xs)))"

definition fish_before :: "catalog_env \<Rightarrow> fish \<Rightarrow> fish \<Rightarrow> bool" where
  "fish_before env x y \<longleftrightarrow>
     (if fish_name x = fish_name y then ce_text_before env (fish_id x) (fish_id y)
      else ce_text_before env (fish_name x) (fish_name y))"

definition fish_List :: "catalog_env \<Rightarrow> fish list catalog" where
  "fish_List env s = (domainC (scan_all (\<lambda>f. NewFish (fish_id f) (fish_name f) (fish_description f))
     (insertion_sort (fish_before env) (cst_fish s))), s)"

definition fish_Save :: "fish \<Rightarrow> unit catalog" where
  "fish_Save f = modifyE (\<lambda>s. s\<lparr>cst_fish := row_upsert fish_id f (cst_fish s)\<rparr>)"

definition units_Exists :: "string \<Rightarrow> bool catalog" where
  "units_Exists unit' = readE (\<lambda>s. list_ex (\<lambda>u. u = unit') (cst_units s))"

definition processing_types_Exists :: "string \<Rightarrow> bool catalog" where
  "processing_types_Exists code = readE (\<lambda>s. list_ex (\<lambda>u. u = code) (cst_processing_types s))"

subsection \<open>product\_repository.go\<close>

definition product_row_of :: "product \<Rightarrow> product_row" where
  "product_row_of p =
     \<lparr>pw_id = p_id p, pw_fish = p_fish p, pw_seller = p_seller p, pw_weight = p_weight p,
      pw_unit = p_unit p, pw_size = p_size p, pw_processing = p_processing p,
      pw_status = product_status_text (p_status p)\<rparr>"

definition productFromRow :: "product_row \<Rightarrow> cat_error + product" where
  "productFromRow r =
     sum_bind (domainC (RestoreProduct (pw_id r) (pw_fish r) (pw_seller r) (pw_weight r) (pw_unit r)
       (pw_size r) (pw_processing r) ProductStatusDraft)) (\<lambda>p.
     if pw_status r = ''DRAFT'' \<or> pw_status r = ''UNPUBLISHED'' then Inr p
     else if pw_status r = ''PUBLISHED'' then domainC (leaving product_Publish p)
     else Inl (UnsupportedProductStatus (pw_status r)))"

definition products_Get :: "string \<Rightarrow> product catalog" where
  "products_Get productID s = (case row_select (\<lambda>r. pw_id r = productID) (cst_products s) of
      None \<Rightarrow> (Inl CatNotFound, s) | Some r \<Rightarrow> (productFromRow r, s))"

definition products_where :: "catalog_env \<Rightarrow> (product_row \<Rightarrow> bool) \<Rightarrow> product list catalog" where
  "products_where env q s = (scan_all productFromRow (insertion_sort
     (\<lambda>x y. ce_text_before env (pw_id x) (pw_id y)) (filter q (cst_products s))), s)"

definition products_List :: "catalog_env \<Rightarrow> product list catalog" where
  "products_List env = products_where env (\<lambda>_. True)"

definition products_ListBySeller :: "catalog_env \<Rightarrow> string \<Rightarrow> product list catalog" where
  "products_ListBySeller env company = products_where env (\<lambda>r. pw_seller r = company)"

definition products_Save :: "product \<Rightarrow> unit catalog" where
  "products_Save p = modifyE (\<lambda>s. s\<lparr>cst_products := row_upsert pw_id (product_row_of p) (cst_products s)\<rparr>)"

subsection \<open>lot\_repository.go\<close>

definition nullIfBlank :: "string \<Rightarrow> string option" where
  "nullIfBlank v = (if v = '''' then None else Some v)"

definition cat_null_text :: "string option \<Rightarrow> string" where
  "cat_null_text x = (case x of None \<Rightarrow> '''' | Some s \<Rightarrow> s)"

definition lot_row_of :: "lot \<Rightarrow> lot_row" where
  "lot_row_of l =
     \<lparr>lw_id = l_id l, lw_product = l_product l, lw_auction = nullIfBlank (l_auction l),
      lw_seller = l_seller l, lw_photo = nullIfBlank (l_photo l), lw_quantity = l_quantity l,
      lw_start_price = l_startPrice l, lw_min_bid_step = l_minBidStep l,
      lw_cur_price = l_curPrice l, lw_final_price = l_finalPrice l,
      lw_status = lot_status_text (l_status l), lw_starts_at = sch_startsAt (l_schedule l),
      lw_duration_minutes = minutes_of (sch_duration (l_schedule l))\<rparr>"

definition rehydratePublishedLot :: "int \<Rightarrow> lot \<Rightarrow> catalog_error + lot" where
  "rehydratePublishedLot curPrice l =
     sum_bind (leaving (lot_Publish True no_snapshot) l) (\<lambda>l.
     if curPrice \<noteq> l_startPrice l then leaving (lot_UpdateCurrentPrice curPrice) l else Inr l)"

definition row_lot :: "lot_row \<Rightarrow> cat_error + lot" where
  "row_lot r =
     (if lw_duration_minutes r \<le> 0 then Inl (CatalogError ErrInvalidSchedule)
      else
      sum_bind (domainC (NewLot (lw_id r) (lw_product r) (lw_seller r) (cat_null_text (lw_photo r))
        (lw_quantity r) (lw_start_price r) (lw_min_bid_step r)
        (NewAuctionScheduleAt (lw_starts_at r) (mul64 (lw_duration_minutes r) 60000000000))))
        (\<lambda>(l, _).
      sum_bind (if cat_null_text (lw_auction r) \<noteq> ''''
          then domainC (leaving (lot_AssignAuctionID (cat_null_text (lw_auction r))) l) else Inr l) (\<lambda>l.
      if lw_status r = ''DRAFT'' then Inr l
      else if lw_status r = ''PUBLISHED'' then domainC (rehydratePublishedLot (lw_cur_price r) l)
      else if lw_status r = ''CANCELLED'' then
        domainC (sum_bind (rehydratePublishedLot (lw_cur_price r) l) (leaving lot_Unpublish))
      else if lw_status r = ''CLOSED'' then
        domainC (sum_bind (rehydratePublishedLot (lw_cur_price r) l)
          (leaving (lot_Close (lw_final_price r))))
      else Inl (UnsupportedLotStatus (lw_status r)))))"

definition lots_find :: "(lot_row \<Rightarrow> bool) \<Rightarrow> lot catalog" where
  "lots_find q s = (case row_select q (cst_lots s) of
      None \<Rightarrow> (Inl CatNotFound, s) | Some r \<Rightarrow> (row_lot r, s))"

definition lots_Get :: "string \<Rightarrow> lot catalog" where
  "lots_Get lotID = lots_find (\<lambda>r. lw_id r = lotID)"

definition lots_GetByAuctionID :: "string \<Rightarrow> lot catalog" where
  "lots_GetByAuctionID auctionID = lots_find (\<lambda>r. lw_auction r = Some auctionID)"

definition lots_where :: "catalog_env \<Rightarrow> (lot_row \<Rightarrow> bool) \<Rightarrow> lot list catalog" where
  "lots_where env q s = (scan_all row_lot (insertion_sort
     (\<lambda>x y. ce_text_before env (lw_id x) (lw_id y)) (filter q (cst_lots s))), s)"

definition lots_List :: "catalog_env \<Rightarrow> lot list catalog" where
  "lots_List env = lots_where env (\<lambda>_. True)"

definition lots_ListBySeller :: "catalog_env \<Rightarrow> string \<Rightarrow> lot list catalog" where
  "lots_ListBySeller env company = lots_where env (\<lambda>r. lw_seller r = company)"

definition same_auction :: "lot_row \<Rightarrow> lot_row \<Rightarrow> bool" where
  "same_auction x y \<longleftrightarrow> lw_id x \<noteq> lw_id y \<and> lw_auction x \<noteq> None \<and> lw_auction x = lw_auction y"

definition lots_Save :: "lot \<Rightarrow> unit catalog" where
  "lots_Save l s =
     (let r = lot_row_of l in
      if list_ex (\<lambda>x. same_auction x r) (cst_lots s) then (Inl CatUniqueViolation, s)
      else (Inr (), s\<lparr>cst_lots := row_upsert lw_id r (cst_lots s)\<rparr>))"

subsection \<open>outbox\_repository.go\<close>

fun catalog_event_name :: "catalog_event \<Rightarrow> string" where
  "catalog_event_name (LotAuctionLinked _ _) = ''LotAuctionLinked''"
| "catalog_event_name (ProductCreated _ _ _ _ _ _ _ _) = ''ProductCreated''"
| "catalog_event_name (ProductUpdated _ _ _ _ _ _ _) = ''ProductUpdated''"
| "catalog_event_name (ProductPublished _ _) = ''ProductPublished''"
| "catalog_event_name (ProductUnpublished _ _) = ''ProductUnpublished''"
| "catalog_event_name (LotCreated _ _ _ _ _ _) = ''LotCreated''"
| "catalog_event_name (CatLotPublished _) = ''LotPublished''"
| "catalog_event_name (LotUnpublished _ _) = ''LotUnpublished''"
| "catalog_event_name (LotClosed _ _ _) = ''LotClosed''"
| "catalog_event_name (LotPriceUpdated _ _ _ _) = ''LotPriceUpdated''"

fun aggregateIDFor :: "catalog_event \<Rightarrow> string" where
  "aggregateIDFor (LotAuctionLinked l _) = l"
| "aggregateIDFor (ProductCreated p _ _ _ _ _ _ _) = p"
| "aggregateIDFor (ProductUpdated p _ _ _ _ _ _) = p"
| "aggregateIDFor (ProductPublished p _) = p"
| "aggregateIDFor (ProductUnpublished p _) = p"
| "aggregateIDFor (LotCreated l _ _ _ _ _) = l"
| "aggregateIDFor (CatLotPublished e) = lp_lot e"
| "aggregateIDFor (LotUnpublished l _) = l"
| "aggregateIDFor (LotClosed l _ _) = l"
| "aggregateIDFor (LotPriceUpdated l _ _ _) = l"

definition catalog_random :: "catalog_env \<Rightarrow> string catalog" where
  "catalog_random env s = (Inr (ce_id env (cst_ids s)), s\<lparr>cst_ids := Suc (cst_ids s)\<rparr>)"

definition catalog_outbox_row ::
  "time \<Rightarrow> string \<Rightarrow> string \<Rightarrow> catalog_event \<Rightarrow> catalog_event outbox_row" where
  "catalog_outbox_row now messageID eventID ev =
     \<lparr>ob_id = messageID, ob_event_id = eventID, ob_event_type = ''catalog.'' @ catalog_event_name ev,
      ob_aggregate = aggregateIDFor ev, ob_payload = ev, ob_occurred_at = now, ob_created_at = now,
      ob_correlation = '''', ob_causation = '''', ob_company = '''', ob_user = '''',
      ob_source = ''catalog'', ob_published_at = None, ob_locked_at = None, ob_attempts = 0,
      ob_failed_at = None, ob_last_error = None\<rparr>"

definition catalog_outbox_one :: "catalog_env \<Rightarrow> time \<Rightarrow> catalog_event \<Rightarrow> unit catalog" where
  "catalog_outbox_one env now ev =
     bindE (catalog_random env) (\<lambda>messageID.
     bindE (catalog_random env) (\<lambda>eventID.
     zoomE cst_outbox (\<lambda>o' s. s\<lparr>cst_outbox := o'\<rparr>)
       (outbox_insert CatUniqueViolation (catalog_outbox_row now messageID eventID ev))))"

definition catalog_outbox_Add :: "catalog_env \<Rightarrow> time \<Rightarrow> catalog_event list \<Rightarrow> unit catalog" where
  "catalog_outbox_Add env now events = forE (catalog_outbox_one env now) events"

end
