(* ===== verification/Catalog_App.thy ===== *)
theory Catalog_App
  imports Catalog_Store
begin

section \<open>The catalog service (internal/catalog/app)\<close>

text \<open>
  One definition per method of \<open>CatalogService\<close>. \<open>WithinTx\<close> hands its callback the context of the
  transaction (the parameter shadows the outer \<open>ctx\<close>), so every call is atomic (\<open>db_tx\<close>). The actor
  of the context is an argument, \<open>None\<close> when none has been set.
\<close>

datatype actor_kind = ActorKindCompany | ActorKindPlatformAdmin | ActorKindOther string

record cat_actor =
  ca_company :: string
  ca_kind :: actor_kind
  ca_seller_access :: bool

definition isPlatformAdmin :: "cat_actor \<Rightarrow> bool" where
  "isPlatformAdmin a \<longleftrightarrow> ca_kind a = ActorKindPlatformAdmin"

definition ActorFromContext :: "cat_actor option \<Rightarrow> cat_actor option" where
  "ActorFromContext c = (case c of None \<Rightarrow> None | Some a \<Rightarrow> if ca_company a = '''' then None else Some a)"

definition with_actor :: "cat_actor option \<Rightarrow> (cat_actor \<Rightarrow> 'a catalog) \<Rightarrow> 'a catalog" where
  "with_actor c f = (case ActorFromContext c of None \<Rightarrow> failE CatMissingCompanyID | Some a \<Rightarrow> f a)"

definition actorOwnsProduct :: "cat_actor \<Rightarrow> product \<Rightarrow> bool" where
  "actorOwnsProduct a p \<longleftrightarrow> isPlatformAdmin a \<or> p_seller p = ca_company a"

definition actorOwnsLot :: "cat_actor \<Rightarrow> lot \<Rightarrow> bool" where
  "actorOwnsLot a l \<longleftrightarrow> isPlatformAdmin a \<or> l_seller l = ca_company a"

text \<open>Calling a method of a loaded entity, raising an error of the domain, guards.\<close>

definition callC :: "('o, catalog_error, 'a) exec \<Rightarrow> 'o \<Rightarrow> ('a \<times> 'o) catalog" where
  "callC m x s = (case m x of (Inl e, _) \<Rightarrow> (Inl (CatalogError e), s) | (Inr a, x') \<Rightarrow> (Inr (a, x'), s))"

definition requireC :: "cat_error \<Rightarrow> bool \<Rightarrow> unit catalog" where
  "requireC e b = (if b then retE () else failE e)"

definition addEvents :: "catalog_env \<Rightarrow> time \<Rightarrow> catalog_event list \<Rightarrow> unit catalog" where
  "addEvents env now events = (if events = [] then retE () else catalog_outbox_Add env now events)"

definition newID :: "catalog_env \<Rightarrow> string \<Rightarrow> string catalog" where
  "newID env prefix = bindE (catalog_random env) (\<lambda>hex. retE (prefix @ ''-'' @ hex))"

subsection \<open>Fish\<close>

definition CreateFish :: "catalog_env \<Rightarrow> string \<Rightarrow> string \<Rightarrow> string catalog" where
  "CreateFish env name description = db_tx (
     bindE (newID env ''fish'') (\<lambda>i.
     bindE (liftE (domainC (NewFish i name description))) (\<lambda>f.
     bindE (fish_Save f) (\<lambda>_. retE (fish_id f)))))"

definition ListFish :: "catalog_env \<Rightarrow> fish list catalog" where
  "ListFish env = fish_List env"

definition UpdateFish :: "string \<Rightarrow> string \<Rightarrow> string \<Rightarrow> unit catalog" where
  "UpdateFish fishID name description = db_tx (
     bindE (fish_Get fishID) (\<lambda>f.
     bindE (callC (fish_Update name description) f) (\<lambda>(_, f').
     fish_Save f')))"

subsection \<open>Products\<close>

definition validateProductRefs :: "string \<Rightarrow> string \<Rightarrow> string \<Rightarrow> unit catalog" where
  "validateProductRefs fishID unit' processing =
     bindE (fish_Exists fishID) (\<lambda>ok. bindE (requireC CatFishNotFound ok) (\<lambda>_.
     bindE (units_Exists (TrimSpace unit')) (\<lambda>ok. bindE (requireC CatUnitNotFound ok) (\<lambda>_.
     bindE (processing_types_Exists (TrimSpace processing)) (\<lambda>ok.
     requireC CatProcessingTypeNotFound ok)))))"

definition CreateProduct :: "catalog_env \<Rightarrow> time \<Rightarrow> cat_actor option \<Rightarrow> string \<Rightarrow> cat_float \<Rightarrow> string
    \<Rightarrow> string \<Rightarrow> string \<Rightarrow> string catalog" where
  "CreateProduct env now ctx fishID weight unit' size' processing = db_tx (
     with_actor ctx (\<lambda>actor.
     bindE (validateProductRefs fishID unit' processing) (\<lambda>_.
     bindE (newID env ''prod'') (\<lambda>i.
     bindE (liftE (domainC (NewProduct i fishID (ca_company actor) weight unit' size' processing)))
       (\<lambda>(p, evs).
     bindE (products_Save p) (\<lambda>_.
     bindE (addEvents env now evs) (\<lambda>_. retE (p_id p))))))))"

definition UpdateProduct :: "catalog_env \<Rightarrow> time \<Rightarrow> string \<Rightarrow> string \<Rightarrow> cat_float \<Rightarrow> string \<Rightarrow> string
    \<Rightarrow> string \<Rightarrow> unit catalog" where
  "UpdateProduct env now productID fishID weight unit' size' processing = db_tx (
     bindE (products_Get productID) (\<lambda>p.
     bindE (validateProductRefs fishID unit' processing) (\<lambda>_.
     bindE (callC (product_Update fishID weight unit' size' processing) p) (\<lambda>(evs, p').
     bindE (products_Save p') (\<lambda>_. addEvents env now evs)))))"

definition PublishProduct :: "catalog_env \<Rightarrow> time \<Rightarrow> cat_actor option \<Rightarrow> string \<Rightarrow> unit catalog" where
  "PublishProduct env now ctx productID = db_tx (
     with_actor ctx (\<lambda>actor.
     bindE (products_Get productID) (\<lambda>p.
     bindE (requireC CatForbiddenOwner (actorOwnsProduct actor p)) (\<lambda>_.
     bindE (callC product_Publish p) (\<lambda>(evs, p').
     bindE (products_Save p') (\<lambda>_. addEvents env now evs))))))"

definition UnpublishProduct :: "catalog_env \<Rightarrow> time \<Rightarrow> string \<Rightarrow> unit catalog" where
  "UnpublishProduct env now productID = db_tx (
     bindE (products_Get productID) (\<lambda>p.
     bindE (callC product_Unpublish p) (\<lambda>(evs, p').
     bindE (products_Save p') (\<lambda>_. addEvents env now evs))))"

subsection \<open>Lots\<close>

record create_lot =
  cl_product :: string
  cl_photo :: string
  cl_quantity :: cat_float
  cl_startPrice :: int
  cl_minBidStep :: int
  cl_startsAt :: time
  cl_minutes :: int

definition lot_duration :: "int \<Rightarrow> duration" where
  "lot_duration mins = (if mins > 0 then mul64 mins 60000000000 else 3600000000000)"

definition CreateLot :: "catalog_env \<Rightarrow> time \<Rightarrow> cat_actor option \<Rightarrow> create_lot \<Rightarrow> string catalog" where
  "CreateLot env now ctx cmd = db_tx (
     with_actor ctx (\<lambda>actor.
     bindE (products_Get (cl_product cmd)) (\<lambda>p.
     bindE (requireC CatForbiddenOwner (actorOwnsProduct actor p)) (\<lambda>_.
     bindE (newID env ''lot'') (\<lambda>i.
     bindE (liftE (domainC (NewLot i (cl_product cmd) (ca_company actor) (cl_photo cmd) (cl_quantity cmd)
         (cl_startPrice cmd) (if cl_minBidStep cmd \<le> 0 then 1 else cl_minBidStep cmd)
         (NewAuctionScheduleAt (cl_startsAt cmd) (lot_duration (cl_minutes cmd)))))) (\<lambda>(l, evs).
     bindE (lots_Save l) (\<lambda>_.
     bindE (addEvents env now evs) (\<lambda>_. retE (l_id l)))))))))"

text \<open>Load a lot, call a method of it, save it and publish its events.\<close>

definition lot_save_events :: "catalog_env \<Rightarrow> time \<Rightarrow> catalog_event list lot_call \<Rightarrow> lot \<Rightarrow> unit catalog" where
  "lot_save_events env now m l =
     bindE (callC m l) (\<lambda>(evs, l').
     bindE (lots_Save l') (\<lambda>_. addEvents env now evs))"

definition AssignAuctionID :: "catalog_env \<Rightarrow> time \<Rightarrow> string \<Rightarrow> string \<Rightarrow> unit catalog" where
  "AssignAuctionID env now lotID auctionID = db_tx (
     bindE (lots_Get lotID) (lot_save_events env now (lot_AssignAuctionID auctionID)))"

definition GetLotAuctionID :: "string \<Rightarrow> string catalog" where
  "GetLotAuctionID lotID = bindE (lots_Get lotID) (\<lambda>l. retE (l_auction l))"

definition product_snapshot_for :: "product \<Rightarrow> fish \<Rightarrow> cat_snapshot" where
  "product_snapshot_for p f = \<lparr>cs_product = p_id p, cs_name = fish_name f, cs_weight = p_weight p,
     cs_unit = p_unit p, cs_size = p_size p, cs_processing = p_processing p\<rparr>"

definition PublishLot :: "catalog_env \<Rightarrow> time \<Rightarrow> cat_actor option \<Rightarrow> string \<Rightarrow> unit catalog" where
  "PublishLot env now ctx lotID = db_tx (
     with_actor ctx (\<lambda>actor.
     bindE (lots_Get lotID) (\<lambda>l.
     bindE (requireC CatForbiddenOwner (actorOwnsLot actor l)) (\<lambda>_.
     bindE (products_Get (l_product l)) (\<lambda>p.
     bindE (requireC CatForbiddenOwner (actorOwnsProduct actor p)) (\<lambda>_.
     bindE (requireC CatForbiddenOwner (p_seller p = l_seller l)) (\<lambda>_.
     bindE (fish_Get (p_fish p)) (\<lambda>f.
     lot_save_events env now
       (lot_Publish (p_status p = ProductStatusPublished) (product_snapshot_for p f)) l))))))))"

definition UnpublishLot :: "catalog_env \<Rightarrow> time \<Rightarrow> string \<Rightarrow> unit catalog" where
  "UnpublishLot env now lotID = db_tx (bindE (lots_Get lotID) (lot_save_events env now lot_Unpublish))"

definition CloseLot :: "catalog_env \<Rightarrow> time \<Rightarrow> string \<Rightarrow> int \<Rightarrow> unit catalog" where
  "CloseLot env now lotID finalPrice = db_tx (
     bindE (lots_Get lotID) (lot_save_events env now (lot_Close finalPrice)))"

subsection \<open>Events of trading\<close>

definition HandleAuctionWon :: "catalog_env \<Rightarrow> time \<Rightarrow> string \<Rightarrow> int \<Rightarrow> unit catalog" where
  "HandleAuctionWon env now auctionID finalPrice = db_tx (
     bindE (lots_GetByAuctionID auctionID) (\<lambda>l.
     if l_status l = LotStatusClosed then retE ()
     else lot_save_events env now (lot_Close finalPrice) l))"

definition HandleBidPlaced :: "catalog_env \<Rightarrow> time \<Rightarrow> string \<Rightarrow> int \<Rightarrow> unit catalog" where
  "HandleBidPlaced env now auctionID amount = db_tx (
     bindE (lots_GetByAuctionID auctionID) (\<lambda>l.
     if l_status l \<noteq> LotStatusPublished then retE ()
     else lot_save_events env now (lot_UpdateCurrentPrice amount) l))"

definition HandleAuctionClosed :: "catalog_env \<Rightarrow> time \<Rightarrow> string \<Rightarrow> unit catalog" where
  "HandleAuctionClosed env now auctionID = db_tx (
     bindE (lots_GetByAuctionID auctionID) (\<lambda>l.
     if l_status l \<noteq> LotStatusPublished then retE ()
     else lot_save_events env now (lot_Close (l_curPrice l)) l))"

definition HandleAuctionCancelled :: "catalog_env \<Rightarrow> time \<Rightarrow> string \<Rightarrow> unit catalog" where
  "HandleAuctionCancelled env now auctionID = db_tx (
     bindE (lots_GetByAuctionID auctionID) (\<lambda>l.
     if l_status l \<noteq> LotStatusPublished then retE ()
     else lot_save_events env now lot_Unpublish l))"

subsection \<open>Listings\<close>

definition scoped_list :: "cat_actor option \<Rightarrow> 'a catalog \<Rightarrow> (string \<Rightarrow> 'a catalog) \<Rightarrow> 'a catalog" where
  "scoped_list ctx everything own = with_actor ctx (\<lambda>actor.
     if isPlatformAdmin actor then everything
     else if \<not> ca_seller_access actor then failE CatListForbidden
     else own (ca_company actor))"

definition ListProducts :: "catalog_env \<Rightarrow> cat_actor option \<Rightarrow> product list catalog" where
  "ListProducts env ctx = scoped_list ctx (products_List env) (products_ListBySeller env)"

definition ListLots :: "catalog_env \<Rightarrow> cat_actor option \<Rightarrow> lot list catalog" where
  "ListLots env ctx = scoped_list ctx (lots_List env) (lots_ListBySeller env)"

end
