(* ===== verification/Catalog_Correct.thy ===== *)
theory Catalog_Correct
  imports Catalog_App
begin

section \<open>The catalog tables are consistent\<close>

text \<open>
  Saving a lot and loading it gives the lot back (\<open>row_lot_saved\<close>) when its duration is a whole
  number of minutes; the product snapshot, which has no column, is lost. The invariant of the tables
  says that every row is one of these, that no two lots have the same auction, and that each lot has
  been announced at most once as published and at most once as closed, with the terms it has.
\<close>

subsection \<open>Whole minutes\<close>

lemma bit_length_le: "n < 2 ^ k \<Longrightarrow> bit_length n \<le> k"
proof (induction k arbitrary: n)
  case 0
  then show ?case by (simp add: bit_length.simps)
next
  case (Suc k)
  then have "n div 2 < 2 ^ k" by simp
  then show ?case
    using Suc.IH [of "n div 2"] by (subst bit_length.simps) simp
qed

lemma div_even_multiple: "0 < b \<Longrightarrow> div_even (q * b) b = q"
  by (simp add: div_even_def)

lemma round53_scaled:
  assumes "m < 2 ^ 53"
  shows "round53 (m * 2 ^ e) = m * 2 ^ e"
proof -
  have "m * 2 ^ e < 2 ^ (53 + e)"
    using assms by (simp add: power_add)
  then have "bit_length (m * 2 ^ e) \<le> 53 + e"
    by (rule bit_length_le)
  then obtain j where j: "e = bit_length (m * 2 ^ e) - 53 + j"
    by (metis le_diff_conv le_add_diff_inverse add.commute)
  define i where "i = bit_length (m * 2 ^ e) - 53"
  have eq: "m * 2 ^ e = m * 2 ^ j * 2 ^ i"
    using j by (simp add: i_def power_add [symmetric] add.commute)
  have "round53 (m * 2 ^ e) = div_even (m * 2 ^ j * 2 ^ i) (2 ^ i) * 2 ^ i"
    unfolding round53_def Let_def i_def [symmetric] by (simp only: eq)
  also have "\<dots> = m * 2 ^ j * 2 ^ i"
    by (simp only: div_even_multiple zero_less_power zero_less_numeral)
  finally show ?thesis
    by (simp only: eq)
qed

lemma round53_zero: "round53 0 = 0"
  by (simp add: round53_def div_even_def)

lemma minutes_of_whole:
  assumes "0 \<le> m" "m \<le> 153722867"
  shows "minutes_of (m * 60000000000) = m"
proof -
  have "minutes_of_pos (m * 60000000000) = m"
    using assms round53_scaled [of m 141] by (simp add: minutes_of_pos_def Let_def round53_zero)
  then show ?thesis
    using assms by (simp add: minutes_of_def)
qed

subsection \<open>Rows\<close>

definition whole_minutes :: "duration \<Rightarrow> bool" where
  "whole_minutes d \<longleftrightarrow> (\<exists>m. 0 < m \<and> m \<le> 153722867 \<and> d = m * 60000000000)"

definition lot_good :: "lot \<Rightarrow> bool" where
  "lot_good l \<longleftrightarrow> \<not> is_blank (l_id l) \<and> \<not> is_blank (l_product l) \<and> \<not> is_blank (l_seller l)
     \<and> \<not> float_le_zero (l_quantity l) \<and> 0 < l_startPrice l \<and> 0 < l_minBidStep l
     \<and> sch_startsAt (l_schedule l) \<noteq> 0 \<and> whole_minutes (sch_duration (l_schedule l))
     \<and> TrimSpace (l_photo l) = l_photo l \<and> (l_auction l = [] \<or> \<not> is_blank (l_auction l))
     \<and> 0 < l_curPrice l \<and> 0 < l_finalPrice l
     \<and> (l_status l \<noteq> LotStatusClosed \<longrightarrow> l_finalPrice l = l_startPrice l)
     \<and> (l_status l = LotStatusDraft \<longrightarrow> l_curPrice l = l_startPrice l)"

definition stored_lot :: "lot \<Rightarrow> lot" where
  "stored_lot l = l\<lparr>l_snapshot := no_snapshot\<rparr>"

lemma stored_lot_fields [simp]:
  "l_id (stored_lot l) = l_id l" "l_status (stored_lot l) = l_status l"
  "l_auction (stored_lot l) = l_auction l" "lot_good (stored_lot l) = lot_good l"
  "lot_row_of (stored_lot l) = lot_row_of l" "stored_lot (stored_lot l) = stored_lot l"
  by (simp_all add: stored_lot_def lot_good_def lot_row_of_def)

lemma null_text [simp]: "cat_null_text (nullIfBlank s) = s"
  by (simp add: cat_null_text_def nullIfBlank_def)

lemma whole_minutes_saved:
  "whole_minutes d \<Longrightarrow> 0 < minutes_of d \<and> mul64 (minutes_of d) 60000000000 = d"
  by (auto simp: whole_minutes_def minutes_of_whole mul64_exact int64_unfold)

lemma row_lot_saved: "lot_good l \<Longrightarrow> row_lot (lot_row_of l) = Inr (stored_lot l)"
  using whole_minutes_saved [of "sch_duration (l_schedule l)"]
  by (cases "l_status l")
    (auto simp: lot_good_def row_lot_def lot_row_of_def NewLot_def schedule_IsValid_def domainC_def
      NewAuctionScheduleAt_def sum_bind_def leaving_def lot_calls rehydratePublishedLot_def
      stored_lot_def whole_minutes_def Let_def no_snapshot_def intro!: lot.equality)

definition product_good :: "product \<Rightarrow> bool" where
  "product_good p \<longleftrightarrow> \<not> is_blank (p_id p) \<and> \<not> is_blank (p_fish p) \<and> \<not> is_blank (p_unit p)
     \<and> \<not> is_blank (p_processing p) \<and> \<not> float_le_zero (p_weight p)
     \<and> TrimSpace (p_seller p) = p_seller p \<and> TrimSpace (p_unit p) = p_unit p
     \<and> TrimSpace (p_processing p) = p_processing p \<and> p_status p \<noteq> ProductStatusUnpublished"

lemma row_product_saved: "product_good p \<Longrightarrow> productFromRow (product_row_of p) = Inr p"
  by (cases "p_status p") (auto simp: product_good_def productFromRow_def product_row_of_def
      RestoreProduct_def sum_bind_def domainC_def leaving_def product_Publish_def)

end
