(* ===== verification/Catalog_Keeps.thy ===== *)
theory Catalog_Keeps
  imports Catalog_Correct
begin

section \<open>What every catalog call keeps\<close>

text \<open>
  The invariant of the catalog tables (\<open>catalog_inv\<close>) and, call by call, that a transaction that
  commits keeps it. \<open>lot_move\<close> is what one method of a lot does to its row and says in its events.
\<close>

interpretation cat_outbox: event_outbox "ce_id env" cst_outbox cst_ids
  "\<lambda>r n s. s\<lparr>cst_outbox := r, cst_ids := n\<rparr>" "catalog_outbox_row now" "catalog_outbox_one env now"
  for env now
  by unfold_locales
    (auto simp: catalog_outbox_row_def catalog_outbox_one_def catalog_random_def bindE_def zoomE_def
      outbox_insert_def list_ex_iff image_iff)

subsection \<open>Rows replaced and added\<close>

lemma upsert_set:
  assumes "distinct (map key rows)" "r \<in> set rows" "key x = key r"
  shows "set (row_upsert key x rows) = insert x (set rows - {r})"
    and "map key (row_upsert key x rows) = map key rows"
proof -
  have "y = r" if "y \<in> set rows" "key y = key r" for y
    using assms(1,2) that by (auto simp: distinct_map dest: inj_onD)
  then have "(\<lambda>y. if key y = key x then x else y) ` set rows = insert x (set rows - {r})"
    using assms(2,3) by auto
  then show "set (row_upsert key x rows) = insert x (set rows - {r})"
    using assms(2,3) by (auto simp: row_upsert_def set_row_update list_ex_iff)
  show "map key (row_upsert key x rows) = map key rows"
    using assms(2,3) by (auto simp: row_upsert_def row_update_def list_ex_iff)
qed

lemma upsert_fresh: "key x \<notin> key ` set rows \<Longrightarrow> row_upsert key x rows = rows @ [x]"
  by (auto simp: row_upsert_def list_ex_iff) (metis image_eqI)

subsection \<open>The invariant\<close>

definition row_good :: "lot_row \<Rightarrow> bool" where
  "row_good r \<longleftrightarrow> (\<exists>l. lot_good l \<and> r = lot_row_of l)"

definition product_row_good :: "product_row \<Rightarrow> bool" where
  "product_row_good r \<longleftrightarrow> (\<exists>p. product_good p \<and> r = product_row_of p)"

definition catalog_payloads :: "catalog_store \<Rightarrow> catalog_event list" where
  "catalog_payloads s = map ob_payload (cst_outbox s)"

fun published_lot :: "catalog_event \<Rightarrow> string list" where
  "published_lot (CatLotPublished e) = [lp_lot e]"
| "published_lot _ = []"

fun closed_lot :: "catalog_event \<Rightarrow> string list" where
  "closed_lot (LotClosed i p st) = [i]"
| "closed_lot _ = []"

definition lots_published :: "catalog_event list \<Rightarrow> string list" where
  "lots_published P = concat (map published_lot P)"

definition lots_closed :: "catalog_event list \<Rightarrow> string list" where
  "lots_closed P = concat (map closed_lot P)"

lemma lots_told_append [simp]:
  "lots_published (P @ Q) = lots_published P @ lots_published Q" "lots_published [] = []"
  "lots_published (ev # P) = published_lot ev @ lots_published P"
  "lots_closed (P @ Q) = lots_closed P @ lots_closed Q" "lots_closed [] = []"
  "lots_closed (ev # P) = closed_lot ev @ lots_closed P"
  by (simp_all add: lots_published_def lots_closed_def)

definition announces :: "lot_published \<Rightarrow> lot_row \<Rightarrow> bool" where
  "announces e r \<longleftrightarrow> lp_lot e = lw_id r \<and> lp_seller e = lw_seller r \<and> lp_product e = lw_product r
     \<and> lp_startPrice e = lw_start_price r \<and> lp_minBidStep e = lw_min_bid_step r
     \<and> lp_startsAt e = lw_starts_at r
     \<and> lp_endsAt e = lw_starts_at r + lw_duration_minutes r * 60000000000"

fun cat_event_ok :: "lot_row set \<Rightarrow> catalog_event \<Rightarrow> bool" where
  "cat_event_ok rows (CatLotPublished e) \<longleftrightarrow> (\<exists>r \<in> rows. announces e r \<and> lw_status r \<noteq> ''DRAFT'')"
| "cat_event_ok rows (LotClosed i p st) \<longleftrightarrow>
     (\<exists>r \<in> rows. lw_id r = i \<and> lw_status r = ''CLOSED'' \<and> lw_final_price r = p)"
| "cat_event_ok rows _ \<longleftrightarrow> True"

definition lots_told :: "lot_row set \<Rightarrow> catalog_event list \<Rightarrow> bool" where
  "lots_told rows P \<longleftrightarrow> distinct (lots_published P) \<and> distinct (lots_closed P)
     \<and> (\<forall>ev \<in> set P. cat_event_ok rows ev)
     \<and> (\<forall>r \<in> rows. lw_status r \<noteq> ''DRAFT'' \<longrightarrow> lw_id r \<in> set (lots_published P))
     \<and> (\<forall>r \<in> rows. lw_status r = ''CLOSED'' \<longrightarrow> lw_id r \<in> set (lots_closed P))"

definition drawn_ids :: "catalog_env \<Rightarrow> string \<Rightarrow> nat \<Rightarrow> string set" where
  "drawn_ids env prefix n = (\<lambda>k. prefix @ ''-'' @ ce_id env k) ` {..<n}"

definition lots_ok :: "catalog_env \<Rightarrow> lot_row list \<Rightarrow> nat \<Rightarrow> bool" where
  "lots_ok env rows n \<longleftrightarrow> distinct (map lw_id rows) \<and> (\<forall>r \<in> set rows. row_good r)
     \<and> (\<forall>x \<in> set rows. \<forall>y \<in> set rows. \<not> same_auction x y)
     \<and> lw_id ` set rows \<subseteq> drawn_ids env ''lot'' n"

definition products_ok :: "catalog_env \<Rightarrow> product_row list \<Rightarrow> nat \<Rightarrow> bool" where
  "products_ok env rows n \<longleftrightarrow> distinct (map pw_id rows) \<and> (\<forall>r \<in> set rows. product_row_good r)
     \<and> pw_id ` set rows \<subseteq> drawn_ids env ''prod'' n"

definition sellers_match :: "lot_row set \<Rightarrow> product_row set \<Rightarrow> bool" where
  "sellers_match lots products \<longleftrightarrow> (\<forall>r \<in> lots. lw_status r \<noteq> ''DRAFT'' \<longrightarrow>
     (\<exists>q \<in> products. pw_id q = lw_product r \<and> pw_seller q = lw_seller r))"

definition catalog_inv :: "catalog_env \<Rightarrow> catalog_store \<Rightarrow> bool" where
  "catalog_inv env s \<longleftrightarrow> lots_ok env (cst_lots s) (cst_ids s)
     \<and> products_ok env (cst_products s) (cst_ids s)
     \<and> sellers_match (set (cst_lots s)) (set (cst_products s))
     \<and> lots_told (set (cst_lots s)) (catalog_payloads s)
     \<and> cat_outbox.ids_used env s"

lemma drawn_mono: "m \<le> n \<Longrightarrow> drawn_ids env prefix m \<subseteq> drawn_ids env prefix n"
  by (auto simp: drawn_ids_def)

lemma drawn_new:
  assumes "inj (ce_id env)"
  shows "prefix @ ''-'' @ ce_id env n \<notin> drawn_ids env prefix n"
  using assms by (auto simp: drawn_ids_def dest: injD)

text \<open>More identifiers and events that say nothing of lots change nothing.\<close>

definition quiet_events :: "catalog_event list \<Rightarrow> bool" where
  "quiet_events evs \<longleftrightarrow> lots_published evs = [] \<and> lots_closed evs = []"

lemma quiet_ok: "quiet_events evs \<Longrightarrow> ev \<in> set evs \<Longrightarrow> cat_event_ok rows ev"
  by (cases ev) (auto simp: quiet_events_def lots_published_def lots_closed_def)

lemma told_quiet: "lots_told rows P \<Longrightarrow> quiet_events evs \<Longrightarrow> lots_told rows (P @ evs)"
  using quiet_ok [of evs _ rows] by (auto simp: lots_told_def quiet_events_def)

lemma ok_more:
  "lots_ok env rows m \<Longrightarrow> m \<le> n \<Longrightarrow> lots_ok env rows n"
  "products_ok env ps m \<Longrightarrow> m \<le> n \<Longrightarrow> products_ok env ps n"
  using drawn_mono [of m n env] by (fastforce simp: lots_ok_def products_ok_def)+

text \<open>Appending events at the end of a call.\<close>

lemma add_events_wp:
  assumes inj: "inj (ce_id env)" and used: "cat_outbox.ids_used env s"
    and ok: "\<And>n. cst_ids s \<le> n \<Longrightarrow> lots_ok env (cst_lots s) n \<and> products_ok env (cst_products s) n"
    and told: "sellers_match (set (cst_lots s)) (set (cst_products s))"
      "lots_told (set (cst_lots s)) (catalog_payloads s @ evs)"
  shows "wpE (addEvents env now evs) (\<lambda>_. catalog_inv env) R s"
proof (cases "evs = []")
  case True
  then show ?thesis
    using assms by (simp add: addEvents_def wpE_ret catalog_inv_def)
next
  case False
  have "wpE (forE (catalog_outbox_one env now) evs) (\<lambda>_. catalog_inv env) R s"
    by (rule cat_outbox.add_wp [OF inj used])
      (use ok told in \<open>auto simp: catalog_inv_def catalog_payloads_def\<close>)
  then show ?thesis
    using False by (simp add: addEvents_def catalog_outbox_Add_def)
qed

subsection \<open>One lot changes\<close>

definition lot_move :: "lot_row \<Rightarrow> catalog_event list \<Rightarrow> lot_row \<Rightarrow> bool" where
  "lot_move r evs r' \<longleftrightarrow> row_good r' \<and> lw_id r' = lw_id r \<and> lw_product r' = lw_product r
     \<and> lw_seller r' = lw_seller r \<and> lw_start_price r' = lw_start_price r
     \<and> lw_min_bid_step r' = lw_min_bid_step r \<and> lw_starts_at r' = lw_starts_at r
     \<and> lw_duration_minutes r' = lw_duration_minutes r
     \<and> (quiet_events evs \<and> lw_final_price r' = lw_final_price r
          \<and> (lw_status r' = lw_status r \<or> lw_status r = ''PUBLISHED'' \<and> lw_status r' = ''CANCELLED'')
        \<or> lw_status r = ''DRAFT'' \<and> lw_status r' = ''PUBLISHED''
          \<and> (\<exists>e. evs = [CatLotPublished e] \<and> announces e r')
        \<or> lw_status r = ''PUBLISHED'' \<and> lw_status r' = ''CLOSED''
          \<and> evs = [LotClosed (lw_id r') (lw_final_price r') LotStatusClosed])"

lemma announces_id: "announces e r \<Longrightarrow> lp_lot e = lw_id r"
  by (simp add: announces_def)

lemma event_moves:
  assumes ok: "cat_event_ok (insert r rows) ev" and mv: "lot_move r evs r'"
  shows "cat_event_ok (insert r' rows) ev"
  using assms by (cases ev) (auto simp: lot_move_def announces_def)

lemma told_move:
  assumes told: "lots_told (insert r rows) P" and mv: "lot_move r evs r'"
    and other: "\<And>x. x \<in> rows \<Longrightarrow> lw_id x \<noteq> lw_id r"
  shows "lots_told (insert r' rows) (P @ evs)"
proof -
  have old: "\<forall>ev \<in> set P. cat_event_ok (insert r' rows) ev"
    using told event_moves [OF _ mv] by (auto simp: lots_told_def)
  have pub: "lw_id r \<notin> set (lots_published P)" if d: "lw_status r = ''DRAFT''"
  proof
    assume "lw_id r \<in> set (lots_published P)"
    then obtain ev where "ev \<in> set P" "lw_id r \<in> set (published_lot ev)"
      by (auto simp: lots_published_def)
    then obtain e where "CatLotPublished e \<in> set P" "lp_lot e = lw_id r"
      by (cases ev rule: catalog_event.exhaust) auto
    moreover from this(1) have "cat_event_ok (insert r rows) (CatLotPublished e)"
      using told unfolding lots_told_def by blast
    ultimately obtain x where "x \<in> insert r rows" "announces e x" "lw_status x \<noteq> ''DRAFT''"
      by auto
    then show False
      using other d \<open>lp_lot e = lw_id r\<close> by (auto simp: announces_def)
  qed
  have clo: "lw_id r \<notin> set (lots_closed P)" if d: "lw_status r = ''PUBLISHED''"
  proof
    assume "lw_id r \<in> set (lots_closed P)"
    then obtain ev where "ev \<in> set P" "lw_id r \<in> set (closed_lot ev)"
      by (auto simp: lots_closed_def)
    then obtain p st where "LotClosed (lw_id r) p st \<in> set P"
      by (cases ev rule: catalog_event.exhaust) auto
    then have "cat_event_ok (insert r rows) (LotClosed (lw_id r) p st)"
      using told unfolding lots_told_def by blast
    then show False
      using other d by auto
  qed
  show ?thesis
    using mv unfolding lot_move_def
    by (elim conjE disjE exE; insert told old pub clo)
      (auto simp: lots_told_def quiet_events_def announces_id intro: quiet_ok)
qed


subsection \<open>The methods of a lot\<close>

lemma row_of [simp]:
  "lw_id (lot_row_of l) = l_id l" "lw_status (lot_row_of l) = lot_status_text (l_status l)"
  "lw_product (lot_row_of l) = l_product l" "lw_seller (lot_row_of l) = l_seller l"
  "lw_start_price (lot_row_of l) = l_startPrice l" "lw_min_bid_step (lot_row_of l) = l_minBidStep l"
  "lw_final_price (lot_row_of l) = l_finalPrice l" "lw_cur_price (lot_row_of l) = l_curPrice l"
  "lw_starts_at (lot_row_of l) = sch_startsAt (l_schedule l)"
  "lw_duration_minutes (lot_row_of l) = minutes_of (sch_duration (l_schedule l))"
  "lw_auction (lot_row_of l) = nullIfBlank (l_auction l)"
  by (simp_all add: lot_row_of_def)

lemma status_text_inj [simp]: "lot_status_text x = lot_status_text y \<longleftrightarrow> x = y"
  by (cases x; cases y) simp_all

lemma status_texts [simp]:
  "lot_status_text x = ''DRAFT'' \<longleftrightarrow> x = LotStatusDraft"
  "lot_status_text x = ''PUBLISHED'' \<longleftrightarrow> x = LotStatusPublished"
  "lot_status_text x = ''CLOSED'' \<longleftrightarrow> x = LotStatusClosed"
  "lot_status_text x = ''CANCELLED'' \<longleftrightarrow> x = LotStatusCancelled"
  by (cases x; simp)+

lemma whole_minutes_exact: "whole_minutes d \<Longrightarrow> minutes_of d * 60000000000 = d"
  by (auto simp: whole_minutes_def minutes_of_whole)

lemma good_row: "lot_good l \<Longrightarrow> row_good (lot_row_of l)"
  by (auto simp: row_good_def)

definition lot_method_ok :: "catalog_event list lot_call \<Rightarrow> bool" where
  "lot_method_ok m \<longleftrightarrow> (\<forall>l evs l'. lot_good l \<longrightarrow> m l = (Inr evs, l') \<longrightarrow>
     lot_good l' \<and> lot_move (lot_row_of l) evs (lot_row_of l'))"

lemma lot_methods_ok:
  "lot_method_ok (lot_AssignAuctionID a)" "lot_method_ok (lot_Publish b snap)"
  "lot_method_ok lot_Unpublish" "lot_method_ok (lot_Close p)" "lot_method_ok (lot_UpdateCurrentPrice p)"
  unfolding lot_method_ok_def
  by (auto simp: lot_calls lot_move_def lot_good_def quiet_events_def announces_def
      schedule_EndsAt_def whole_minutes_exact split: if_splits intro!: good_row)

lemma loaded_lot: "row_good r \<Longrightarrow> row_lot r = Inr l \<Longrightarrow> lot_good l \<and> lot_row_of l = r"
  by (auto simp: row_good_def row_lot_saved)

lemma lot_found:
  assumes "catalog_inv env s" "r \<in> set (cst_lots s)"
  obtains l where "row_lot r = Inr l" "lot_good l" "lot_row_of l = r"
  using assms by (fastforce simp: catalog_inv_def lots_ok_def row_good_def row_lot_saved)

definition cat_keeps :: "catalog_env \<Rightarrow> 'a catalog \<Rightarrow> bool" where
  "cat_keeps env m \<longleftrightarrow> (\<forall>s. catalog_inv env s \<longrightarrow> wpE m (\<lambda>_. catalog_inv env) (\<lambda>_ _. True) s)"

lemma cat_keepsI: "(\<And>s. catalog_inv env s \<Longrightarrow> wpE m (\<lambda>_. catalog_inv env) (\<lambda>_ _. True) s) \<Longrightarrow> cat_keeps env m"
  by (simp add: cat_keeps_def)

lemma cat_keeps_tx: "cat_keeps env m \<Longrightarrow> catalog_inv env s \<Longrightarrow> catalog_inv env (snd (db_tx m s))"
  by (rule sql_tx.run_keeps) (simp_all add: cat_keeps_def)

lemma lots_find_wp:
  assumes inv: "catalog_inv env s"
    and Q: "\<And>l. lot_good l \<Longrightarrow> lot_row_of l \<in> set (cst_lots s) \<Longrightarrow> q (lot_row_of l) \<Longrightarrow> Q l s"
  shows "wpE (lots_find q) Q (\<lambda>_ _. True) s"
proof (cases "row_select q (cst_lots s)")
  case None
  then show ?thesis by (simp add: wpE_def lots_find_def)
next
  case (Some r)
  then have r: "r \<in> set (cst_lots s)" "q r"
    using row_select_SomeD [OF Some] by simp_all
  obtain l where "row_lot r = Inr l" "lot_good l" "lot_row_of l = r"
    by (rule lot_found [OF inv r(1)])
  then show ?thesis
    using Some r Q [of l] by (simp add: wpE_def lots_find_def)
qed

lemma lots_ok_move:
  assumes ok: "lots_ok env rows n" and r: "r \<in> set rows" and g: "row_good r'" "lw_id r' = lw_id r"
    and new: "\<not> list_ex (\<lambda>x. same_auction x r') rows"
  shows "lots_ok env (row_upsert lw_id r' rows) n"
proof -
  note up = upsert_set [of lw_id rows r r', OF _ r g(2)]
  have d: "distinct (map lw_id rows)"
    using ok by (simp add: lots_ok_def)
  have "lw_id ` set (row_upsert lw_id r' rows) = lw_id ` set rows"
    using up(2) [OF d] by (metis list.set_map)
  moreover have "\<forall>x \<in> set rows. \<not> same_auction x r' \<and> \<not> same_auction r' x"
    using new by (auto simp: list_ex_iff same_auction_def)
  moreover have "\<not> same_auction r' r'"
    by (simp add: same_auction_def)
  ultimately show ?thesis
    using ok g(1) d unfolding lots_ok_def up(1) [OF d] up(2) [OF d] by auto
qed

lemma lot_save_wp:
  assumes inj: "inj (ce_id env)" and inv: "catalog_inv env s"
    and l: "lot_good l" "lot_row_of l \<in> set (cst_lots s)" and m: "lot_method_ok m"
    and seller: "\<And>evs l'. m l = (Inr evs, l') \<Longrightarrow> l_status l = LotStatusDraft
      \<Longrightarrow> l_status l' \<noteq> LotStatusDraft
      \<Longrightarrow> \<exists>q \<in> set (cst_products s). pw_id q = l_product l \<and> pw_seller q = l_seller l"
  shows "wpE (lot_save_events env now m l) (\<lambda>_. catalog_inv env) (\<lambda>_ _. True) s"
proof (cases "m l")
  case (Pair x l')
  show ?thesis
  proof (cases x)
    case (Inl e)
    then show ?thesis
      using Pair by (simp add: lot_save_events_def bindE_def wpE_def callC_def)
  next
    case (Inr evs)
    define r r' where "r = lot_row_of l" and "r' = lot_row_of l'"
    have mv: "lot_move r evs r'" and g: "lot_good l'"
      using m l(1) Pair Inr by (auto simp: lot_method_ok_def r_def r'_def)
    show ?thesis
    proof (cases "list_ex (\<lambda>x. same_auction x r') (cst_lots s)")
      case True
      then show ?thesis
        using Pair Inr by (simp add: lot_save_events_def bindE_def wpE_def callC_def lots_Save_def
            r'_def [symmetric])
    next
      case False
      define t where "t = s\<lparr>cst_lots := row_upsert lw_id r' (cst_lots s)\<rparr>"
      have ok: "lots_ok env (cst_lots s) (cst_ids s)" and r: "r \<in> set (cst_lots s)"
        using inv l(2) by (auto simp: catalog_inv_def r_def)
      have d: "distinct (map lw_id (cst_lots s))" and id: "lw_id r' = lw_id r"
        using ok mv by (simp_all add: lots_ok_def lot_move_def)
      have set: "set (cst_lots t) = insert r' (set (cst_lots s) - {r})"
        using upsert_set(1) [OF d r id] by (simp add: t_def)
      have other: "lw_id y \<noteq> lw_id r" if "y \<in> set (cst_lots s) - {r}" for y
        using d r that by (auto simp: distinct_map dest: inj_onD)
      have "lots_told (set (cst_lots t)) (catalog_payloads s @ evs)"
        unfolding set by (rule told_move [OF _ mv other]) (use inv in \<open>simp_all add: insert_absorb r catalog_inv_def\<close>)
      moreover have "sellers_match (set (cst_lots t)) (set (cst_products t))"
      proof -
        have old: "sellers_match (set (cst_lots s)) (set (cst_products s))"
          using inv by (simp add: catalog_inv_def)
        have same: "lw_product r' = l_product l" "lw_seller r' = l_seller l"
          using mv by (simp_all add: lot_move_def r_def)
        have "\<exists>q \<in> set (cst_products s). pw_id q = l_product l \<and> pw_seller q = l_seller l"
          if d: "lw_status r' \<noteq> ''DRAFT''"
        proof (cases "l_status l = LotStatusDraft")
          case True
          then show ?thesis
            using seller d Pair Inr by (simp add: r'_def)
        next
          case False
          then show ?thesis
            using bspec [OF old [unfolded sellers_match_def] r] by (simp add: r_def)
        qed
        then show ?thesis
          unfolding set sellers_match_def using old by (auto simp: sellers_match_def same t_def)
      qed
      moreover have "lots_ok env (cst_lots t) (cst_ids s)"
        using lots_ok_move [OF ok r _ id False] g by (simp add: t_def r'_def good_row)
      ultimately have "wpE (addEvents env now evs) (\<lambda>_. catalog_inv env) (\<lambda>_ _. True) t"
        using inv ok_more by (intro add_events_wp [OF inj])
          (auto simp: catalog_inv_def t_def cat_outbox.ids_used_def catalog_payloads_def)
      then show ?thesis
        using Pair Inr False by (simp add: lot_save_events_def bindE_def wpE_def callC_def lots_Save_def
            r'_def [symmetric] t_def)
    qed
  qed
qed


subsection \<open>What is read\<close>

lemma seller_kept:
  assumes inv: "catalog_inv env s" and q: "row_select (\<lambda>r. pw_id r = k) (cst_products s) = Some r"
  obtains p where "productFromRow r = Inr p" "product_good p" "product_row_of p = r" "p_id p = k"
    "r \<in> set (cst_products s)"
proof -
  have r: "r \<in> set (cst_products s)" "pw_id r = k"
    using row_select_SomeD [OF q] by simp_all
  then obtain p where p: "product_good p" "r = product_row_of p"
    using inv by (auto simp: catalog_inv_def products_ok_def product_row_good_def)
  moreover from this have "p_id p = k"
    using r(2) by (simp add: product_row_of_def)
  ultimately show ?thesis
    using r(1) row_product_saved [OF p(1)] by (intro that) simp_all
qed

lemma products_Get_wp:
  assumes inv: "catalog_inv env s"
    and Q: "\<And>p. product_good p \<Longrightarrow> product_row_of p \<in> set (cst_products s) \<Longrightarrow> p_id p = k \<Longrightarrow> Q p s"
  shows "wpE (products_Get k) Q (\<lambda>_ _. True) s"
proof (cases "row_select (\<lambda>r. pw_id r = k) (cst_products s)")
  case None
  then show ?thesis by (simp add: wpE_def products_Get_def)
next
  case (Some r)
  then obtain p where "productFromRow r = Inr p" "product_good p" "product_row_of p = r" "p_id p = k"
    "r \<in> set (cst_products s)"
    by (rule seller_kept [OF inv])
  then show ?thesis
    using Some Q [of p] by (simp add: wpE_def products_Get_def)
qed

lemma cat_require_wp: "(b \<Longrightarrow> Q () s) \<Longrightarrow> wpE (requireC e b) Q (\<lambda>_ _. True) s"
  by (simp add: requireC_def wpE_ret wpE_fail)

lemma actor_wp: "(\<And>a. ActorFromContext c = Some a \<Longrightarrow> wpE (f a) Q (\<lambda>_ _. True) s)
    \<Longrightarrow> wpE (with_actor c f) Q (\<lambda>_ _. True) s"
  by (simp add: with_actor_def wpE_fail split: option.split)

lemma fish_Get_wp: "(\<And>f. Q f s) \<Longrightarrow> wpE (fish_Get i) Q (\<lambda>_ _. True) s"
  by (simp add: wpE_def fish_Get_def split: option.split sum.split)

lemma refs_wp: "Q () s \<Longrightarrow> wpE (validateProductRefs i u c) Q (\<lambda>_ _. True) s"
  by (simp add: validateProductRefs_def wpE_bind fish_Exists_def units_Exists_def
      processing_types_Exists_def wpE_read requireC_def wpE_ret wpE_fail)

lemma cat_call_wp: "(\<And>a x'. m x = (Inr a, x') \<Longrightarrow> Q (a, x') s) \<Longrightarrow> wpE (callC m x) Q (\<lambda>_ _. True) s"
  by (auto simp: wpE_def callC_def split: prod.split sum.split)

lemma newID_wp:
  "Q (prefix @ ''-'' @ ce_id env (cst_ids s)) (s\<lparr>cst_ids := Suc (cst_ids s)\<rparr>)
    \<Longrightarrow> wpE (newID env prefix) Q (\<lambda>_ _. True) s"
  unfolding newID_def wpE_bind wpE_ret by (simp add: catalog_random_def wpE_def)

text \<open>Drawing an identifier and writing to the fish table are harmless.\<close>

lemma inv_fish: "catalog_inv env s \<Longrightarrow> catalog_inv env (s\<lparr>cst_fish := fs\<rparr>)"
  by (simp add: catalog_inv_def catalog_payloads_def cat_outbox.ids_used_def)

lemma inv_drawn:
  assumes "catalog_inv env s" "cst_ids s \<le> n"
  shows "catalog_inv env (s\<lparr>cst_ids := n\<rparr>)"
  using assms image_mono [of "{..<cst_ids s}" "{..<n}" "ce_id env"]
  by (auto simp: catalog_inv_def catalog_payloads_def cat_outbox.ids_used_def intro: ok_more
      dest: subset_trans)

end
