(* ===== verification/Catalog_System.thy ===== *)
theory Catalog_System
  imports Catalog_Keeps
begin

section \<open>The catalog as a whole\<close>

text \<open>
  Every call of \<open>CatalogService\<close> keeps the invariant, and so do the stores that sequences of calls
  reach from tables that hold only units and processing types. A lot created with a duration of
  more than 153722867 minutes is excluded: its length in nanoseconds does not fit in an \<open>int64\<close>.
\<close>

subsection \<open>Products\<close>

lemma product_row_fields [simp]:
  "pw_id (product_row_of p) = p_id p" "pw_seller (product_row_of p) = p_seller p"
  by (simp_all add: product_row_of_def)

lemma good_product_row: "product_good p \<Longrightarrow> product_row_good (product_row_of p)"
  by (auto simp: product_row_good_def)

lemma save_product_wp:
  assumes inj: "inj (ce_id env)" and inv: "catalog_inv env s" and p: "product_good p"
    and r: "r \<in> set (cst_products s)" "pw_id r = p_id p" "pw_seller r = p_seller p"
    and evs: "quiet_events evs"
  shows "wpE (bindE (products_Save p) (\<lambda>_. addEvents env now evs)) (\<lambda>_. catalog_inv env) (\<lambda>_ _. True) s"
proof -
  define x where "x = product_row_of p"
  define rows where "rows = row_upsert pw_id x (cst_products s)"
  have ok: "products_ok env (cst_products s) (cst_ids s)"
    and match: "sellers_match (set (cst_lots s)) (set (cst_products s))"
    using inv by (simp_all add: catalog_inv_def)
  have d: "distinct (map pw_id (cst_products s))" and id: "pw_id x = pw_id r"
    using ok r by (simp_all add: products_ok_def x_def)
  have set: "set rows = insert x (set (cst_products s) - {r})"
    and ids: "map pw_id rows = map pw_id (cst_products s)"
    using upsert_set [of pw_id "cst_products s" r x, OF d r(1) id] by (simp_all add: rows_def)
  have "products_ok env rows (cst_ids s)"
    using ok p r ids set image_eqI [OF _ r(1), of _ pw_id] unfolding products_ok_def
    by (auto simp: x_def good_product_row)
  moreover have "sellers_match (set (cst_lots s)) (set rows)"
    using match r unfolding sellers_match_def set by (fastforce simp: x_def)
  moreover have "lots_told (set (cst_lots s)) (catalog_payloads s @ evs)"
    using inv evs by (intro told_quiet) (simp_all add: catalog_inv_def)
  ultimately have "wpE (addEvents env now evs) (\<lambda>_. catalog_inv env) (\<lambda>_ _. True)
      (s\<lparr>cst_products := rows\<rparr>)"
    using inv ok_more by (intro add_events_wp [OF inj])
      (auto simp: catalog_inv_def cat_outbox.ids_used_def catalog_payloads_def)
  then show ?thesis
    by (simp add: wpE_bind products_Save_def wpE_modify rows_def x_def)
qed

definition product_method_ok :: "(product, catalog_error, catalog_event list) exec \<Rightarrow> bool" where
  "product_method_ok m \<longleftrightarrow> (\<forall>p evs p'. product_good p \<longrightarrow> m p = (Inr evs, p') \<longrightarrow>
     product_good p' \<and> p_id p' = p_id p \<and> p_seller p' = p_seller p \<and> quiet_events evs)"

lemma product_methods_ok:
  "product_method_ok product_Publish" "product_method_ok product_Unpublish"
  "product_method_ok (product_Update i w u z c)"
  by (auto simp: product_method_ok_def product_Publish_def product_Unpublish_def product_Update_def
      product_good_def quiet_events_def is_blank_def Let_def split: if_splits)

lemma call_product_wp:
  assumes inj: "inj (ce_id env)" and inv: "catalog_inv env s" and p: "product_good p"
    "product_row_of p \<in> set (cst_products s)" and m: "product_method_ok m"
  shows "wpE (bindE (callC m p) (\<lambda>(evs, p'). bindE (products_Save p') (\<lambda>_. addEvents env now evs)))
    (\<lambda>_. catalog_inv env) (\<lambda>_ _. True) s"
  unfolding wpE_bind [of "callC m p"]
proof (rule cat_call_wp, simp only: prod.case)
  fix evs p' assume "m p = (Inr evs, p')"
  from m [unfolded product_method_ok_def, rule_format, OF p(1) this] show "wpE (bindE (products_Save p') (\<lambda>_. addEvents env now evs))
      (\<lambda>_. catalog_inv env) (\<lambda>_ _. True) s"
    by (intro save_product_wp [OF inj inv _ p(2)]) simp_all
qed

lemma UpdateProduct_keeps: "inj (ce_id env) \<Longrightarrow> cat_keeps env (bindE (products_Get i) (\<lambda>p.
     bindE (validateProductRefs f u c) (\<lambda>_.
     bindE (callC (product_Update f w u z c) p) (\<lambda>(evs, p').
     bindE (products_Save p') (\<lambda>_. addEvents env now evs)))))"
  by (intro cat_keepsI, subst wpE_bind, rule products_Get_wp, assumption, subst wpE_bind)
    (intro refs_wp call_product_wp product_methods_ok)

lemma PublishProduct_keeps: "inj (ce_id env) \<Longrightarrow> cat_keeps env (with_actor ctx (\<lambda>actor.
     bindE (products_Get i) (\<lambda>p.
     bindE (requireC CatForbiddenOwner (actorOwnsProduct actor p)) (\<lambda>_.
     bindE (callC product_Publish p) (\<lambda>(evs, p').
     bindE (products_Save p') (\<lambda>_. addEvents env now evs))))))"
  by (intro cat_keepsI actor_wp, subst wpE_bind, rule products_Get_wp, assumption, subst wpE_bind)
    (intro cat_require_wp call_product_wp product_methods_ok)

lemma UnpublishProduct_keeps: "inj (ce_id env) \<Longrightarrow> cat_keeps env (bindE (products_Get i) (\<lambda>p.
     bindE (callC product_Unpublish p) (\<lambda>(evs, p').
     bindE (products_Save p') (\<lambda>_. addEvents env now evs))))"
  by (intro cat_keepsI, subst wpE_bind, rule products_Get_wp, assumption)
    (intro call_product_wp product_methods_ok)


subsection \<open>New rows\<close>

lemma new_ids_not_blank:
  "\<not> is_blank (''lot'' @ ''-'' @ x)" "\<not> is_blank (''prod'' @ ''-'' @ x)"
  by (rule not_blank [of "CHR ''-''"]; simp add: space_byte_def ascii_space_def byte_of_def)+

lemma wp_then_ret: "wpE m (\<lambda>_. I) R s \<Longrightarrow> wpE (bindE m (\<lambda>_. retE a)) (\<lambda>_. I) R s"
  by (auto simp: wpE_def bindE_def retE_def split: prod.splits sum.splits)

lemma insert_product_wp:
  assumes inj: "inj (ce_id env)" and inv: "catalog_inv env s" and p: "product_good p"
    and id: "p_id p = ''prod'' @ ''-'' @ ce_id env (cst_ids s)" and evs: "quiet_events evs"
  shows "wpE (bindE (products_Save p) (\<lambda>_. bindE (addEvents env now evs) (\<lambda>_. retE (p_id p))))
    (\<lambda>_. catalog_inv env) (\<lambda>_ _. True) (s\<lparr>cst_ids := Suc (cst_ids s)\<rparr>)"
proof -
  have ok: "products_ok env (cst_products s) (cst_ids s)"
    and match: "sellers_match (set (cst_lots s)) (set (cst_products s))"
    and lots: "lots_ok env (cst_lots s) (cst_ids s)"
    using inv by (simp_all add: catalog_inv_def)
  have new: "p_id p \<notin> pw_id ` set (cst_products s)"
    using ok drawn_new [OF inj] unfolding products_ok_def id by blast
  define rows where "rows = row_upsert pw_id (product_row_of p) (cst_products s)"
  have rows: "rows = cst_products s @ [product_row_of p]"
    unfolding rows_def by (rule upsert_fresh) (use new in simp)
  have "p_id p \<in> drawn_ids env ''prod'' (Suc (cst_ids s))"
    by (auto simp: id drawn_ids_def)
  then have "products_ok env rows (Suc (cst_ids s))"
    using ok_more(2) [OF ok, of "Suc (cst_ids s)"] new p
    by (auto simp: rows products_ok_def good_product_row)
  moreover have "sellers_match (set (cst_lots s)) (set rows)"
    using match by (auto simp: rows sellers_match_def)
  moreover have "lots_told (set (cst_lots s)) (catalog_payloads s @ evs)"
    using inv evs by (intro told_quiet) (simp_all add: catalog_inv_def)
  moreover have "cat_outbox.ids_used env (s\<lparr>cst_ids := Suc (cst_ids s)\<rparr>)"
    using inv_drawn [OF inv, of "Suc (cst_ids s)"] by (simp add: catalog_inv_def)
  ultimately have "wpE (addEvents env now evs) (\<lambda>_. catalog_inv env) (\<lambda>_ _. True)
      (s\<lparr>cst_ids := Suc (cst_ids s), cst_products := rows\<rparr>)"
    using lots ok_more by (intro add_events_wp [OF inj])
      (auto simp: cat_outbox.ids_used_def catalog_payloads_def)
  from wp_then_ret [OF this, of "p_id p"] show ?thesis
    by (simp only: wpE_bind [of "products_Save p"]) (simp add: products_Save_def wpE_modify rows_def)
qed

lemma event_more: "cat_event_ok rows ev \<Longrightarrow> cat_event_ok (insert r rows) ev"
  by (cases ev) auto

lemma insert_lot_wp:
  assumes inj: "inj (ce_id env)" and inv: "catalog_inv env s" and l: "lot_good l"
    and id: "l_id l = ''lot'' @ ''-'' @ ce_id env (cst_ids s)" and evs: "quiet_events evs"
    and draft: "l_status l = LotStatusDraft" "l_auction l = []"
  shows "wpE (bindE (lots_Save l) (\<lambda>_. bindE (addEvents env now evs) (\<lambda>_. retE (l_id l))))
    (\<lambda>_. catalog_inv env) (\<lambda>_ _. True) (s\<lparr>cst_ids := Suc (cst_ids s)\<rparr>)"
proof -
  define r where "r = lot_row_of l"
  have ok: "products_ok env (cst_products s) (cst_ids s)"
    and match: "sellers_match (set (cst_lots s)) (set (cst_products s))"
    and lots: "lots_ok env (cst_lots s) (cst_ids s)"
    using inv by (simp_all add: catalog_inv_def)
  have new: "lw_id r \<notin> lw_id ` set (cst_lots s)"
    using lots drawn_new [OF inj] unfolding lots_ok_def r_def row_of id by blast
  have none: "lw_auction r = None" "\<not> list_ex (\<lambda>x. same_auction x r) (cst_lots s)"
    using draft by (auto simp: r_def nullIfBlank_def is_blank_def TrimSpace_def same_auction_def list_ex_iff)
  have rows: "row_upsert lw_id r (cst_lots s) = cst_lots s @ [r]"
    by (rule upsert_fresh [OF new])
  have "lw_id r \<in> drawn_ids env ''lot'' (Suc (cst_ids s))"
    by (auto simp: r_def id drawn_ids_def)
  then have "lots_ok env (cst_lots s @ [r]) (Suc (cst_ids s))"
    using ok_more(1) [OF lots, of "Suc (cst_ids s)"] new l none(1)
    by (auto simp: lots_ok_def good_row r_def same_auction_def)
  moreover have "sellers_match (set (cst_lots s @ [r])) (set (cst_products s))"
    using match draft by (auto simp: sellers_match_def r_def)
  moreover have "lots_told (set (cst_lots s @ [r])) (catalog_payloads s @ evs)"
  proof -
    have "lots_told (set (cst_lots s)) (catalog_payloads s)"
      using inv by (simp add: catalog_inv_def)
    then have "lots_told (set (cst_lots s @ [r])) (catalog_payloads s)"
      using draft by (auto simp: lots_told_def r_def intro: event_more)
    then show ?thesis
      using evs by (rule told_quiet)
  qed
  moreover have "cat_outbox.ids_used env (s\<lparr>cst_ids := Suc (cst_ids s)\<rparr>)"
    using inv_drawn [OF inv, of "Suc (cst_ids s)"] by (simp add: catalog_inv_def)
  ultimately have "wpE (addEvents env now evs) (\<lambda>_. catalog_inv env) (\<lambda>_ _. True)
      (s\<lparr>cst_ids := Suc (cst_ids s), cst_lots := cst_lots s @ [r]\<rparr>)"
    using ok ok_more by (intro add_events_wp [OF inj])
      (auto simp: cat_outbox.ids_used_def catalog_payloads_def)
  from wp_then_ret [OF this, of "l_id l"] show ?thesis
    using none(2) by (simp only: wpE_bind [of "lots_Save l"])
      (simp add: wpE_def lots_Save_def rows r_def [symmetric])
qed



lemma lot_duration_whole: "m \<le> 153722867 \<Longrightarrow> whole_minutes (lot_duration m)"
  unfolding whole_minutes_def
  by (rule exI [of _ "if 0 < m then m else 60"])
    (simp add: lot_duration_def mul64_exact int64_unfold)

lemma new_lot_good:
  assumes "NewLot i p a ph q sp st (NewAuctionScheduleAt t (lot_duration m)) = Inr (l, evs)"
    "m \<le> 153722867"
  shows "lot_good l \<and> l_id l = i \<and> l_status l = LotStatusDraft \<and> l_auction l = [] \<and> quiet_events evs"
  using assms lot_duration_whole [OF assms(2)]
  by (auto simp: NewLot_def Let_def lot_good_def schedule_IsValid_def NewAuctionScheduleAt_def
      quiet_events_def split: if_splits)

lemma new_product_good:
  "NewProduct i f a w u z c = Inr (p, evs) \<Longrightarrow> product_good p \<and> p_id p = i \<and> quiet_events evs"
  by (auto simp: NewProduct_def RestoreProduct_def product_good_def quiet_events_def is_blank_def
      split: if_splits)

lemma catalog_domain_wp:
  "(\<And>a. r = Inr a \<Longrightarrow> Q a s) \<Longrightarrow> wpE (liftE (domainC r)) Q (\<lambda>_ _. True) s"
  by (cases r) (simp_all add: wpE_lift domainC_def)

subsection \<open>Every call\<close>

lemma CreateFish_keeps: "cat_keeps env (bindE (newID env ''fish'') (\<lambda>i.
     bindE (liftE (domainC (NewFish i name d))) (\<lambda>f. bindE (fish_Save f) (\<lambda>_. retE (fish_id f)))))"
proof (intro cat_keepsI, subst wpE_bind, rule newID_wp, subst wpE_bind, rule catalog_domain_wp)
  fix s f
  assume "catalog_inv env s"
  then show "wpE (bindE (fish_Save f) (\<lambda>_. retE (fish_id f))) (\<lambda>_. catalog_inv env) (\<lambda>_ _. True)
      (s\<lparr>cst_ids := Suc (cst_ids s)\<rparr>)"
    using inv_fish [OF inv_drawn [of env s "Suc (cst_ids s)"]]
    by (intro wp_then_ret) (simp add: fish_Save_def wpE_modify)
qed

lemma UpdateFish_keeps: "cat_keeps env (bindE (fish_Get i) (\<lambda>f.
     bindE (callC (fish_Update name d) f) (\<lambda>(_, f'). fish_Save f')))"
  by (intro cat_keepsI, subst wpE_bind, intro fish_Get_wp, subst wpE_bind, rule cat_call_wp)
    (simp add: fish_Save_def wpE_modify inv_fish)

lemma CreateProduct_keeps: "inj (ce_id env) \<Longrightarrow> cat_keeps env (with_actor ctx (\<lambda>actor.
     bindE (validateProductRefs f u c) (\<lambda>_.
     bindE (newID env ''prod'') (\<lambda>i.
     bindE (liftE (domainC (NewProduct i f (ca_company actor) w u z c))) (\<lambda>(p, evs).
     bindE (products_Save p) (\<lambda>_.
     bindE (addEvents env now evs) (\<lambda>_. retE (p_id p))))))))"
  by (intro cat_keepsI actor_wp, subst wpE_bind, rule refs_wp, subst wpE_bind, rule newID_wp,
      subst wpE_bind, rule catalog_domain_wp, clarify)
    (drule new_product_good, intro insert_product_wp, simp_all)

lemma CreateLot_keeps: "inj (ce_id env) \<Longrightarrow> cl_minutes cmd \<le> 153722867 \<Longrightarrow>
   cat_keeps env (with_actor ctx (\<lambda>actor.
     bindE (products_Get (cl_product cmd)) (\<lambda>p.
     bindE (requireC CatForbiddenOwner (actorOwnsProduct actor p)) (\<lambda>_.
     bindE (newID env ''lot'') (\<lambda>i.
     bindE (liftE (domainC (NewLot i (cl_product cmd) (ca_company actor) (cl_photo cmd) (cl_quantity cmd)
         (cl_startPrice cmd) (if cl_minBidStep cmd \<le> 0 then 1 else cl_minBidStep cmd)
         (NewAuctionScheduleAt (cl_startsAt cmd) (lot_duration (cl_minutes cmd)))))) (\<lambda>(l, evs).
     bindE (lots_Save l) (\<lambda>_.
     bindE (addEvents env now evs) (\<lambda>_. retE (l_id l)))))))))"
  by (intro cat_keepsI actor_wp, subst wpE_bind, rule products_Get_wp, assumption, subst wpE_bind,
      rule cat_require_wp, subst wpE_bind, rule newID_wp, subst wpE_bind, rule catalog_domain_wp, clarify)
    (drule new_lot_good, assumption, intro insert_lot_wp, simp_all)

lemma lot_calls_keep:
  assumes inj: "inj (ce_id env)" and m: "lot_method_ok m"
    and d: "\<And>l evs l'. lot_good l \<Longrightarrow> m l = (Inr evs, l') \<Longrightarrow> l_status l = LotStatusDraft
      \<Longrightarrow> l_status l' = LotStatusDraft"
  shows "cat_keeps env (bindE (lots_Get i) (lot_save_events env now m))"
proof (intro cat_keepsI, subst wpE_bind, unfold lots_Get_def, rule lots_find_wp, assumption)
  fix s l
  assume s: "catalog_inv env s" and l: "lot_good l" "lot_row_of l \<in> set (cst_lots s)"
  show "wpE (lot_save_events env now m l) (\<lambda>_. catalog_inv env) (\<lambda>_ _. True) s"
    by (rule lot_save_wp [OF inj s l m]) (use d [OF l(1)] in blast)
qed



lemma not_published_here:
  "lot_AssignAuctionID a l = (Inr evs, l') \<Longrightarrow> l_status l = LotStatusDraft \<Longrightarrow> l_status l' = LotStatusDraft"
  "lot_Unpublish l = (Inr evs, l') \<Longrightarrow> l_status l = LotStatusDraft \<Longrightarrow> l_status l' = LotStatusDraft"
  "lot_Close p l = (Inr evs, l') \<Longrightarrow> l_status l = LotStatusDraft \<Longrightarrow> l_status l' = LotStatusDraft"
  "lot_UpdateCurrentPrice p l = (Inr evs, l') \<Longrightarrow> l_status l = LotStatusDraft \<Longrightarrow> l_status l' = LotStatusDraft"
  by (auto simp: lot_calls split: if_splits)

lemma auction_call_keeps:
  assumes inj: "inj (ce_id env)" and m: "\<And>l. lot_method_ok (m l)"
    and d: "\<And>l evs l'. m l l = (Inr evs, l') \<Longrightarrow> l_status l = LotStatusDraft
      \<Longrightarrow> l_status l' = LotStatusDraft"
  shows "cat_keeps env (bindE (lots_GetByAuctionID i)
    (\<lambda>l. if q l then retE () else lot_save_events env now (m l) l))"
proof (intro cat_keepsI, subst wpE_bind, unfold lots_GetByAuctionID_def, rule lots_find_wp, assumption)
  fix s l
  assume s: "catalog_inv env s" and l: "lot_good l" "lot_row_of l \<in> set (cst_lots s)"
  have "wpE (lot_save_events env now (m l) l) (\<lambda>_. catalog_inv env) (\<lambda>_ _. True) s"
    by (rule lot_save_wp [OF inj s l m]) (use d in blast)
  then show "wpE (if q l then retE () else lot_save_events env now (m l) l)
      (\<lambda>_. catalog_inv env) (\<lambda>_ _. True) s"
    using s by (simp add: wpE_ret)
qed

lemma PublishLot_keeps:
  assumes inj: "inj (ce_id env)"
  shows "cat_keeps env (with_actor ctx (\<lambda>actor.
     bindE (lots_Get i) (\<lambda>l.
     bindE (requireC CatForbiddenOwner (actorOwnsLot actor l)) (\<lambda>_.
     bindE (products_Get (l_product l)) (\<lambda>p.
     bindE (requireC CatForbiddenOwner (actorOwnsProduct actor p)) (\<lambda>_.
     bindE (requireC CatForbiddenOwner (p_seller p = l_seller l)) (\<lambda>_.
     bindE (fish_Get (p_fish p)) (\<lambda>f.
     lot_save_events env now
       (lot_Publish (p_status p = ProductStatusPublished) (product_snapshot_for p f)) l))))))))"
proof (intro cat_keepsI actor_wp, subst wpE_bind, unfold lots_Get_def, rule lots_find_wp, assumption,
    subst wpE_bind, rule cat_require_wp, subst wpE_bind, rule products_Get_wp, assumption,
    subst wpE_bind, rule cat_require_wp, subst wpE_bind, rule cat_require_wp, subst wpE_bind,
    rule fish_Get_wp)
  fix s a l p f
  assume s: "catalog_inv env s" and l: "lot_good l" "lot_row_of l \<in> set (cst_lots s)"
    and p: "product_row_of p \<in> set (cst_products s)" "p_id p = l_product l" "p_seller p = l_seller l"
  have q: "\<exists>q \<in> set (cst_products s). pw_id q = l_product l \<and> pw_seller q = l_seller l"
    by (rule bexI [OF _ p(1)]) (simp add: p)
  show "wpE (lot_save_events env now
      (lot_Publish (p_status p = ProductStatusPublished) (product_snapshot_for p f)) l)
      (\<lambda>_. catalog_inv env) (\<lambda>_ _. True) s"
    by (rule lot_save_wp [OF inj s l lot_methods_ok(2) q])
qed

subsection \<open>Sequences of calls\<close>

datatype catalog_command =
    CmdCreateFish string string
  | CmdUpdateFish string string string
  | CmdCreateProduct time "cat_actor option" string cat_float string string string
  | CmdUpdateProduct time string string cat_float string string string
  | CmdPublishProduct time "cat_actor option" string
  | CmdUnpublishProduct time string
  | CmdCreateLot time "cat_actor option" create_lot
  | CmdAssignAuction time string string
  | CmdPublishLot time "cat_actor option" string
  | CmdUnpublishLot time string
  | CmdCloseLot time string int
  | OnAuctionWon time string int
  | OnBidPlaced time string int
  | OnAuctionClosed time string
  | OnAuctionCancelled time string

definition void_c :: "'a catalog \<Rightarrow> unit catalog" where
  "void_c m = bindE m (\<lambda>_. retE ())"

fun exec_catalog :: "catalog_env \<Rightarrow> catalog_command \<Rightarrow> unit catalog" where
  "exec_catalog env (CmdCreateFish n d) = void_c (CreateFish env n d)"
| "exec_catalog env (CmdUpdateFish i n d) = UpdateFish i n d"
| "exec_catalog env (CmdCreateProduct now c f w u z t) = void_c (CreateProduct env now c f w u z t)"
| "exec_catalog env (CmdUpdateProduct now i f w u z t) = UpdateProduct env now i f w u z t"
| "exec_catalog env (CmdPublishProduct now c i) = PublishProduct env now c i"
| "exec_catalog env (CmdUnpublishProduct now i) = UnpublishProduct env now i"
| "exec_catalog env (CmdCreateLot now c cmd) = void_c (CreateLot env now c cmd)"
| "exec_catalog env (CmdAssignAuction now i a) = AssignAuctionID env now i a"
| "exec_catalog env (CmdPublishLot now c i) = PublishLot env now c i"
| "exec_catalog env (CmdUnpublishLot now i) = UnpublishLot env now i"
| "exec_catalog env (CmdCloseLot now i p) = CloseLot env now i p"
| "exec_catalog env (OnAuctionWon now a p) = HandleAuctionWon env now a p"
| "exec_catalog env (OnBidPlaced now a p) = HandleBidPlaced env now a p"
| "exec_catalog env (OnAuctionClosed now a) = HandleAuctionClosed env now a"
| "exec_catalog env (OnAuctionCancelled now a) = HandleAuctionCancelled env now a"

fun catalog_ok :: "catalog_command \<Rightarrow> bool" where
  "catalog_ok (CmdCreateLot now c cmd) = (cl_minutes cmd \<le> 153722867)"
| "catalog_ok _ = True"

definition new_catalog :: "string list \<Rightarrow> string list \<Rightarrow> catalog_store" where
  "new_catalog units types = \<lparr>cst_fish = [], cst_units = units, cst_processing_types = types,
     cst_products = [], cst_lots = [], cst_outbox = [], cst_ids = 0\<rparr>"

fun run_catalog :: "catalog_env \<Rightarrow> catalog_command list \<Rightarrow> catalog_store \<Rightarrow> catalog_store" where
  "run_catalog env [] s = s"
| "run_catalog env (cmd # cmds) s = run_catalog env cmds (snd (exec_catalog env cmd s))"

lemma void_c_snd: "snd (void_c m s) = snd (m s)"
  by (simp add: void_c_def bindE_def retE_def split: prod.split sum.split)

lemma exec_catalog_inv:
  assumes inj: "inj (ce_id env)" and inv: "catalog_inv env s" and ok: "catalog_ok cmd"
  shows "catalog_inv env (snd (exec_catalog env cmd s))"
  using ok
  by (cases cmd; simp only: exec_catalog.simps void_c_snd CreateFish_def UpdateFish_def
      CreateProduct_def UpdateProduct_def PublishProduct_def UnpublishProduct_def CreateLot_def
      AssignAuctionID_def PublishLot_def UnpublishLot_def CloseLot_def HandleAuctionWon_def
      HandleBidPlaced_def HandleAuctionClosed_def HandleAuctionCancelled_def catalog_ok.simps;
    intro cat_keeps_tx [OF _ inv] CreateFish_keeps UpdateFish_keeps CreateProduct_keeps [OF inj]
      UpdateProduct_keeps [OF inj] PublishProduct_keeps [OF inj] UnpublishProduct_keeps [OF inj]
      CreateLot_keeps [OF inj] lot_calls_keep [OF inj] auction_call_keeps [OF inj]
      PublishLot_keeps [OF inj] lot_methods_ok; (assumption | blast dest: not_published_here)?)

lemma new_catalog_inv: "catalog_inv env (new_catalog units types)"
  by (simp add: catalog_inv_def new_catalog_def lots_ok_def products_ok_def sellers_match_def
      lots_told_def catalog_payloads_def cat_outbox.ids_used_def)

theorem run_catalog_inv:
  "inj (ce_id env) \<Longrightarrow> list_all catalog_ok cmds \<Longrightarrow> catalog_inv env s
    \<Longrightarrow> catalog_inv env (run_catalog env cmds s)"
  by (induction cmds arbitrary: s) (simp_all add: exec_catalog_inv)


end
