(* ===== verification/Catalog_Properties.thy ===== *)
theory Catalog_Properties
  imports Catalog_System
begin

section \<open>The properties of the catalog\<close>

text \<open>
  Each property with its witness. \<open>cdemo_*\<close> is a small run: a product with a lot that is linked to
  an auction and published.
\<close>

subsection \<open>The outbox only grows\<close>

definition cat_grows :: "'a catalog \<Rightarrow> bool" where
  "cat_grows m \<longleftrightarrow> (\<forall>s. \<exists>es. catalog_payloads (snd (m s)) = catalog_payloads s @ es)"

lemma cat_grows_bind: "cat_grows m \<Longrightarrow> (\<And>a. cat_grows (f a)) \<Longrightarrow> cat_grows (bindE m f)"
  unfolding cat_grows_def bindE_def
  by (simp split: prod.split sum.split) (metis append.assoc snd_conv)

lemma cat_grows_tx: "cat_grows m \<Longrightarrow> cat_grows (db_tx m)"
  unfolding cat_grows_def db_tx_atomically atomically_def
  by (simp split: prod.split sum.split) (metis append_Nil2 snd_conv)

lemma cat_grows_case: "(\<And>a b. cat_grows (f a b)) \<Longrightarrow> cat_grows (case p of (a, b) \<Rightarrow> f a b)"
  by (cases p) simp

lemma cat_grows_if: "cat_grows m \<Longrightarrow> cat_grows n \<Longrightarrow> cat_grows (if b then m else n)"
  by simp

lemma cat_grows_actor: "(\<And>a. cat_grows (f a)) \<Longrightarrow> cat_grows (with_actor c f)"
  by (simp add: with_actor_def cat_grows_def failE_def split: option.split)

lemma cat_grows_quiet:
  assumes "\<And>s. cst_outbox (snd (m s)) = cst_outbox s"
  shows "cat_grows m"
  using assms by (simp add: cat_grows_def catalog_payloads_def)

lemma cat_grows_basic:
  "cat_grows (retE a)" "cat_grows (failE e)" "cat_grows (liftE r)" "cat_grows (callC m x)"
  "cat_grows (requireC e b)" "cat_grows (newID env pre)" "cat_grows (fish_Get i)"
  "cat_grows (fish_Save fi)" "cat_grows (products_Get i)" "cat_grows (products_Save p)"
  "cat_grows (lots_find q)" "cat_grows (lots_Save l)" "cat_grows (validateProductRefs f u c)"
  by (rule cat_grows_quiet; simp add: retE_def failE_def liftE_def callC_def requireC_def newID_def
      catalog_random_def fish_Get_def fish_Save_def products_Get_def products_Save_def lots_find_def
      lots_Save_def validateProductRefs_def fish_Exists_def units_Exists_def readE_def modifyE_def
      processing_types_Exists_def bindE_def Let_def split: prod.split sum.split option.split)+

lemma cat_grows_add: "cat_grows (addEvents env now evs)"
proof -
  have one: "cat_grows (catalog_outbox_one env now ev)" for ev
    by (auto simp: cat_grows_def catalog_outbox_one_def bindE_def catalog_random_def zoomE_def
        outbox_insert_def catalog_payloads_def split: prod.split)
  have "cat_grows (forE (catalog_outbox_one env now) xs)" for xs
    by (induction xs) (auto intro: cat_grows_basic cat_grows_bind one)
  then show ?thesis
    by (simp add: addEvents_def catalog_outbox_Add_def cat_grows_basic)
qed

lemma cat_grows_save: "cat_grows (lot_save_events env now m l)"
  unfolding lot_save_events_def by (intro cat_grows_bind cat_grows_case cat_grows_basic cat_grows_add)

lemmas cat_grows_rules = cat_grows_bind cat_grows_tx cat_grows_case cat_grows_if cat_grows_actor cat_grows_basic cat_grows_add cat_grows_save

lemma exec_grows: "cat_grows (exec_catalog env cmd)"
  by (cases cmd; simp only: exec_catalog.simps void_c_def CreateFish_def UpdateFish_def
      CreateProduct_def UpdateProduct_def PublishProduct_def UnpublishProduct_def CreateLot_def
      AssignAuctionID_def PublishLot_def UnpublishLot_def CloseLot_def HandleAuctionWon_def
      HandleBidPlaced_def HandleAuctionClosed_def HandleAuctionCancelled_def lots_Get_def
      lots_GetByAuctionID_def; intro cat_grows_rules)

lemma run_grows: "\<exists>es. catalog_payloads (run_catalog env cmds s) = catalog_payloads s @ es"
proof (induction cmds arbitrary: s)
  case (Cons cmd cmds)
  obtain es where "catalog_payloads (snd (exec_catalog env cmd s)) = catalog_payloads s @ es"
    using exec_grows unfolding cat_grows_def by blast
  then show ?case
    using Cons.IH [of "snd (exec_catalog env cmd s)"] by auto
qed simp

lemma run_catalog_append:
  "run_catalog env (cmds @ cmds') s = run_catalog env cmds' (run_catalog env cmds s)"
  by (induction cmds arbitrary: s) simp_all

subsection \<open>Listings\<close>

lemma scan_all_ok:
  "(\<And>r. r \<in> set rs \<Longrightarrow> \<exists>x. f r = Inr x \<and> g x = r) \<Longrightarrow> \<exists>xs. scan_all f rs = Inr xs \<and> map g xs = rs"
  by (induction rs) (fastforce simp: sum_bind_def)+

lemma scan_all_fails:
  "(\<And>r. r \<in> set rs \<Longrightarrow> f r = Inl e \<or> (\<exists>x. f r = Inr x)) \<Longrightarrow> r \<in> set rs \<Longrightarrow> f r = Inl e
    \<Longrightarrow> scan_all f rs = Inl e"
proof (induction rs)
  case (Cons x rs)
  then consider "f x = Inl e" | y where "f x = Inr y" "r \<in> set rs"
    by (metis Inl_Inr_False list.set_intros(1) set_ConsD)
  then show ?case
    using Cons by cases (auto simp: sum_bind_def)
qed simp

lemma stable_set: "set (insertion_sort lt xs) = set xs"
  by (rule stable_sort.set_sort)

subsection \<open>Saving a lot that changed\<close>

lemma addEvents_tables:
  assumes "inj (ce_id env)" "cat_outbox.ids_used env s"
  shows "wpE (addEvents env now evs) (\<lambda>_ t. cst_lots t = cst_lots s \<and> cst_products t = cst_products s
    \<and> catalog_payloads t = catalog_payloads s @ evs) (\<lambda>_ _. False) s"
proof (cases "evs = []")
  case True
  then show ?thesis
    by (simp add: addEvents_def wpE_ret)
next
  case False
  then show ?thesis
    unfolding addEvents_def catalog_outbox_Add_def
    by (simp, intro cat_outbox.add_wp [OF assms]) (simp add: catalog_payloads_def)
qed

lemma no_clash:
  assumes "catalog_inv env s" "lot_row_of l \<in> set (cst_lots s)" "l_id l' = l_id l" "l_auction l' = l_auction l"
  shows "\<not> list_ex (\<lambda>x. same_auction x (lot_row_of l')) (cst_lots s)"
proof -
  have "same_auction x (lot_row_of l') \<longleftrightarrow> same_auction x (lot_row_of l)" for x
    using assms(3,4) by (simp add: same_auction_def)
  then show ?thesis
    using assms(1,2) by (simp add: catalog_inv_def lots_ok_def list_ex_iff)
qed

lemma save_changed:
  assumes inj: "inj (ce_id env)" and inv: "catalog_inv env s" and l: "lot_row_of l \<in> set (cst_lots s)"
    and m: "m l = (Inr evs, l')" "l_id l' = l_id l" "l_auction l' = l_auction l"
  shows "wpE (lot_save_events env now m l)
    (\<lambda>_ t. cst_lots t = row_upsert lw_id (lot_row_of l') (cst_lots s)
      \<and> cst_products t = cst_products s \<and> catalog_payloads t = catalog_payloads s @ evs)
    (\<lambda>_ _. False) s"
proof -
  define t where "t = s\<lparr>cst_lots := row_upsert lw_id (lot_row_of l') (cst_lots s)\<rparr>"
  have "cat_outbox.ids_used env t"
    using inv by (simp add: catalog_inv_def t_def cat_outbox.ids_used_def)
  from addEvents_tables [OF inj this, of now evs] show ?thesis
    using m no_clash [OF inv l m(2,3)]
    by (simp add: lot_save_events_def bindE_def wpE_def callC_def lots_Save_def t_def
        catalog_payloads_def)
qed


subsection \<open>A run to try the properties on\<close>

definition cdemo_env :: catalog_env where
  "cdemo_env = \<lparr>ce_id = (\<lambda>n. replicate n (CHR ''a'')), ce_text_before = (\<lambda>x y. length x < length y)\<rparr>"

definition cdemo_actor :: "cat_actor option" where
  "cdemo_actor = Some \<lparr>ca_company = ''S'', ca_kind = ActorKindCompany, ca_seller_access = True\<rparr>"

definition cdemo_lot :: create_lot where
  "cdemo_lot = \<lparr>cl_product = ''prod-a'', cl_photo = ''p.jpg'', cl_quantity = 0x4024000000000000,
     cl_startPrice = 100, cl_minBidStep = 5, cl_startsAt = 1000, cl_minutes = 30\<rparr>"

definition cdemo_start :: catalog_store where
  "cdemo_start = new_catalog [''kg''] [''frozen'']"

definition cdemo_run :: "catalog_command list \<Rightarrow> catalog_store" where
  "cdemo_run cmds = run_catalog cdemo_env cmds cdemo_start"

definition cdemo_product :: "catalog_command list" where
  "cdemo_product = [CmdCreateFish ''cod'' ''white'',
     CmdCreateProduct 1 cdemo_actor ''fish-'' 0x4024000000000000 ''kg'' ''L'' ''frozen'',
     CmdPublishProduct 2 cdemo_actor ''prod-a'']"

definition cdemo_ready :: "catalog_command list" where
  "cdemo_ready = cdemo_product @ [CmdCreateLot 3 cdemo_actor cdemo_lot,
     CmdAssignAuction 4 ''lot-aaaaaa'' ''A'']"

definition cdemo_open :: "catalog_command list" where
  "cdemo_open = cdemo_ready @ [CmdPublishLot 5 cdemo_actor ''lot-aaaaaa'', OnBidPlaced 6 ''A'' 120]"

lemma cdemo_inj: "inj (ce_id cdemo_env)"
  by (rule injI) (drule arg_cong [where f = length], simp add: cdemo_env_def)

lemma cdemo_ok: "list_all catalog_ok cdemo_product" "list_all catalog_ok cdemo_ready"
  "list_all catalog_ok cdemo_open"
  by (simp_all add: cdemo_product_def cdemo_ready_def cdemo_open_def cdemo_lot_def)


lemma cdemo_inv: "list_all catalog_ok cmds \<Longrightarrow> catalog_inv cdemo_env (cdemo_run cmds)"
  unfolding cdemo_run_def cdemo_start_def by (rule run_catalog_inv [OF cdemo_inj _ new_catalog_inv])

lemma reached_inv:
  "inj (ce_id env) \<Longrightarrow> list_all catalog_ok cmds
    \<Longrightarrow> catalog_inv env (run_catalog env cmds (new_catalog units types))"
  by (rule run_catalog_inv [OF _ _ new_catalog_inv])

subsection \<open>What is told of a lot\<close>

lemma published_in: "i \<in> set (lots_published P) \<longleftrightarrow> (\<exists>e. CatLotPublished e \<in> set P \<and> lp_lot e = i)"
proof -
  have "i \<in> set (published_lot ev) \<longleftrightarrow> (\<exists>e. ev = CatLotPublished e \<and> lp_lot e = i)" for ev
    by (cases ev rule: catalog_event.exhaust) auto
  then show ?thesis
    by (auto simp: lots_published_def)
qed

lemma closed_in: "i \<in> set (lots_closed P) \<longleftrightarrow> (\<exists>p st. LotClosed i p st \<in> set P)"
proof -
  have "i \<in> set (closed_lot ev) \<longleftrightarrow> (\<exists>p st. ev = LotClosed i p st)" for ev
    by (cases ev rule: catalog_event.exhaust) auto
  then show ?thesis
    by (auto simp: lots_closed_def)
qed

lemma told_of:
  assumes "catalog_inv env s"
  shows "CatLotPublished e \<in> set (catalog_payloads s)
      \<Longrightarrow> \<exists>r \<in> set (cst_lots s). announces e r \<and> lw_status r \<noteq> ''DRAFT''"
    and "LotClosed i p st \<in> set (catalog_payloads s)
      \<Longrightarrow> \<exists>r \<in> set (cst_lots s). lw_id r = i \<and> lw_status r = ''CLOSED'' \<and> lw_final_price r = p"
  using assms unfolding catalog_inv_def lots_told_def by fastforce+

text \<open>
  C30: In every reachable store no lot is announced as published twice or as closed twice, and the
  announcements say exactly what the rows say: the lots announced as published are the ones that
  left the draft state, the lots announced as closed are the closed ones, each at its final price.
\<close>

theorem lot_events_true:
  fixes units types :: "string list"
  assumes "inj (ce_id env)" "list_all catalog_ok cmds"
  defines "s \<equiv> run_catalog env cmds (new_catalog units types)"
  shows "distinct (lots_published (catalog_payloads s)) \<and> distinct (lots_closed (catalog_payloads s))
    \<and> set (lots_published (catalog_payloads s))
        = lw_id ` {r \<in> set (cst_lots s). lw_status r \<noteq> ''DRAFT''}
    \<and> {(i, p). \<exists>st. LotClosed i p st \<in> set (catalog_payloads s)}
        = (\<lambda>r. (lw_id r, lw_final_price r)) ` {r \<in> set (cst_lots s). lw_status r = ''CLOSED''}"
proof -
  have inv: "catalog_inv env s"
    unfolding s_def by (rule reached_inv [OF assms(1,2)])
  then have told: "lots_told (set (cst_lots s)) (catalog_payloads s)"
    and d: "distinct (map lw_id (cst_lots s))"
    by (simp_all add: catalog_inv_def lots_ok_def)
  have "set (lots_published (catalog_payloads s))
      = lw_id ` {r \<in> set (cst_lots s). lw_status r \<noteq> ''DRAFT''}"
    using told_of(1) [OF inv] told unfolding lots_told_def published_in set_eq_iff
    by (fastforce simp: announces_id published_in)
  moreover have "(\<exists>st. LotClosed (lw_id r) (lw_final_price r) st \<in> set (catalog_payloads s))"
    if r: "r \<in> set (cst_lots s)" "lw_status r = ''CLOSED''" for r
  proof -
    obtain p st where c: "LotClosed (lw_id r) p st \<in> set (catalog_payloads s)"
      using told r by (auto simp: lots_told_def closed_in)
    then obtain x where "x \<in> set (cst_lots s)" "lw_id x = lw_id r" "lw_final_price x = p"
      using told_of(2) [OF inv] by blast
    then have "p = lw_final_price r"
      using d r(1) by (auto simp: distinct_map dest: inj_onD)
    with c show ?thesis
      by blast
  qed
  ultimately show ?thesis
    using told told_of(2) [OF inv] unfolding lots_told_def by fast
qed

text \<open>
  C31: What has been announced stays true: whatever calls follow, a lot announced as published keeps
  its seller, product, prices and schedule and never goes back to the draft state, and a lot announced
  as closed stays closed at the same final price.
\<close>

theorem announced_stays_true:
  fixes units types :: "string list"
  assumes "inj (ce_id env)" "list_all catalog_ok (cmds @ later)"
  defines "s \<equiv> run_catalog env cmds (new_catalog units types)"
  defines "t \<equiv> run_catalog env later s"
  shows "(\<forall>e. CatLotPublished e \<in> set (catalog_payloads s) \<longrightarrow>
       (\<exists>r \<in> set (cst_lots t). announces e r \<and> lw_status r \<noteq> ''DRAFT''))
    \<and> (\<forall>i p st. LotClosed i p st \<in> set (catalog_payloads s) \<longrightarrow>
       (\<exists>r \<in> set (cst_lots t). lw_id r = i \<and> lw_status r = ''CLOSED'' \<and> lw_final_price r = p))"
proof -
  have "catalog_inv env t"
    using reached_inv [OF assms(1,2)] by (simp add: t_def s_def run_catalog_append)
  moreover obtain es where "catalog_payloads t = catalog_payloads s @ es"
    using run_grows t_def by blast
  ultimately show ?thesis
    using told_of [of env t] by simp blast
qed

subsection \<open>Saving and loading, listing\<close>

text \<open>
  A lot that is saved and loaded again comes back as it was, its product snapshot excepted, which
  the table has no column for.
\<close>

theorem saved_lot_loads:
  assumes "lot_good l" "lots_Save l s = (Inr (), t)"
  shows "lots_Get (l_id l) t = (Inr (l\<lparr>l_snapshot := no_snapshot\<rparr>), t)"
proof -
  have t: "cst_lots t = row_upsert lw_id (lot_row_of l) (cst_lots s)"
    using assms(2) by (auto simp: lots_Save_def Let_def split: if_splits)
  have "row_select (\<lambda>r. lw_id r = l_id l) (cst_lots t) = Some (lot_row_of l)"
    unfolding t using row_select_upsert_same [of lw_id "lot_row_of l"] by simp
  then show ?thesis
    using row_lot_saved [OF assms(1)] by (simp add: lots_Get_def lots_find_def stored_lot_def)
qed

text \<open>
  In every reachable store the administrator's listing of the lots succeeds and shows every row
  of the table, in the order of the identifiers.
\<close>

theorem all_lots_listed:
  fixes units types :: "string list"
  assumes "inj (ce_id env)" "list_all catalog_ok cmds"
    and "ActorFromContext ctx = Some actor" "isPlatformAdmin actor"
  defines "s \<equiv> run_catalog env cmds (new_catalog units types)"
  shows "\<exists>ls. ListLots env ctx s = (Inr ls, s) \<and> map lot_row_of ls =
    insertion_sort (\<lambda>x y. ce_text_before env (lw_id x) (lw_id y)) (cst_lots s)"
proof -
  have inv: "catalog_inv env s"
    unfolding s_def by (rule reached_inv [OF assms(1,2)])
  have "\<exists>l. row_lot r = Inr l \<and> lot_row_of l = r" if "r \<in> set (cst_lots s)" for r
    using lot_found [OF inv that] by metis
  then have "\<exists>ls. scan_all row_lot (insertion_sort (\<lambda>x y. ce_text_before env (lw_id x) (lw_id y))
      (cst_lots s)) = Inr ls \<and> map lot_row_of ls =
      insertion_sort (\<lambda>x y. ce_text_before env (lw_id x) (lw_id y)) (cst_lots s)"
    by (intro scan_all_ok) (simp add: stable_set)
  then show ?thesis
    using assms(3,4) by (auto simp: ListLots_def scoped_list_def with_actor_def lots_List_def lots_where_def)
qed



subsection \<open>The life of a lot\<close>

lemma find_auction:
  assumes inv: "catalog_inv env s" and r: "r \<in> set (cst_lots s)" "lw_auction r = Some a"
  obtains l where "lots_GetByAuctionID a s = (Inr l, s)" "lot_good l" "lot_row_of l = r"
proof -
  obtain x where x: "row_select (\<lambda>x. lw_auction x = Some a) (cst_lots s) = Some x"
    using r by (cases "row_select (\<lambda>x. lw_auction x = Some a) (cst_lots s)")
      (auto simp: row_select_None_iff)
  then have "x \<in> set (cst_lots s)" "lw_auction x = Some a"
    using row_select_SomeD [OF x] by simp_all
  moreover from this have "\<not> same_auction x r"
    using inv r(1) by (simp add: catalog_inv_def lots_ok_def)
  ultimately have "x \<in> set (cst_lots s)" "lw_id x = lw_id r"
    using r(2) by (simp_all add: same_auction_def)
  then have "x = r"
    using inv r(1) by (auto simp: catalog_inv_def lots_ok_def distinct_map dest: inj_onD)
  then show ?thesis
    using lot_found [OF inv r(1)] that x
    by (metis (no_types, lifting) lots_GetByAuctionID_def lots_find_def option.simps(5))
qed

lemma upsert_mem: "x \<in> set (row_upsert key x rows)"
  by (auto simp: row_upsert_def set_row_update list_ex_iff)

text \<open>
  When the end of an auction is handled, its published lot is closed at the price of the last bid
  handled so far, and the later report of the winner, whatever price it names, changes nothing.
\<close>

theorem closed_at_last_price_seen:
  fixes units types :: "string list"
  assumes inj: "inj (ce_id env)" and ok: "list_all catalog_ok cmds"
  defines "s \<equiv> run_catalog env cmds (new_catalog units types)"
  assumes r: "r \<in> set (cst_lots s)" "lw_status r = ''PUBLISHED''" "lw_auction r = Some a"
    and t: "HandleAuctionClosed env now a s = (res, t)"
  shows "res = Inr () \<and> r\<lparr>lw_status := ''CLOSED'', lw_final_price := lw_cur_price r\<rparr> \<in> set (cst_lots t)
    \<and> HandleAuctionWon env later a price t = (Inr (), t)"
proof -
  have inv: "catalog_inv env s"
    unfolding s_def by (rule reached_inv [OF inj ok])
  obtain l where l: "lots_GetByAuctionID a s = (Inr l, s)" "lot_good l" "lot_row_of l = r"
    by (rule find_auction [OF inv r(1,3)])
  then have st: "l_status l = LotStatusPublished" and cur: "0 < l_curPrice l"
    using r(2) by (auto simp: lot_good_def)
  define l' where "l' = l\<lparr>l_status := LotStatusClosed, l_finalPrice := l_curPrice l\<rparr>"
  have m: "lot_Close (l_curPrice l) l = (Inr [LotClosed (l_id l) (l_curPrice l) LotStatusClosed], l')"
    using st cur by (simp add: lot_Close_def l'_def)
  have saved: "wpE (lot_save_events env now (lot_Close (l_curPrice l)) l)
      (\<lambda>_ t. cst_lots t = row_upsert lw_id (lot_row_of l') (cst_lots s)
        \<and> cst_products t = cst_products s
        \<and> catalog_payloads t = catalog_payloads s @ [LotClosed (l_id l) (l_curPrice l) LotStatusClosed])
      (\<lambda>_ _. False) s"
    by (rule save_changed [where m = "lot_Close (l_curPrice l)", OF inj inv _ m])
      (use l r in \<open>simp_all add: l'_def\<close>)
  have call: "bindE (lots_GetByAuctionID a)
      (\<lambda>l. if l_status l \<noteq> LotStatusPublished then retE ()
        else lot_save_events env now (lot_Close (l_curPrice l)) l) s
      = lot_save_events env now (lot_Close (l_curPrice l)) l s"
    using l st by (simp add: bindE_def)
  have res: "res = Inr ()" "cst_lots t = row_upsert lw_id (lot_row_of l') (cst_lots s)"
    using t saved unfolding HandleAuctionClosed_def db_tx_atomically atomically_def call
    by (auto simp: wpE_def split: prod.splits sum.splits)
  have row: "lot_row_of l' = r\<lparr>lw_status := ''CLOSED'', lw_final_price := lw_cur_price r\<rparr>"
    using l(3) by (auto simp: l'_def lot_row_of_def)
  then have in_t: "lot_row_of l' \<in> set (cst_lots t)"
    by (simp add: res upsert_mem)
  have "catalog_inv env t"
    using exec_catalog_inv [OF inj inv, of "OnAuctionClosed now a"] t by simp
  then obtain k where k: "lots_GetByAuctionID a t = (Inr k, t)" "lot_row_of k = lot_row_of l'"
    by (rule find_auction [OF _ in_t]) (use row r in auto)
  have "l_status k = LotStatusClosed"
    using arg_cong [OF k(2), of lw_status] by (simp add: l'_def)
  then have "HandleAuctionWon env later a price t = (Inr (), t)"
    using k by (simp add: HandleAuctionWon_def db_tx_atomically atomically_def bindE_def retE_def)
  then show ?thesis
    using res(1) in_t row by simp
qed

text \<open>
  A call of PublishLot that succeeds found the lot a draft and its product published, both of the
  seller the caller is (an administrator may be anyone), and leaves that lot published with nothing
  else changed and exactly one event, which carries the lot's terms and the product as it is now.
\<close>

theorem publish_lot_checks:
  fixes units types :: "string list"
  assumes inj: "inj (ce_id env)" and ok: "list_all catalog_ok cmds"
  defines "s \<equiv> run_catalog env cmds (new_catalog units types)"
  assumes run: "PublishLot env now ctx i s = (Inr (), t)"
  shows "\<exists>actor l p f l' ev. ActorFromContext ctx = Some actor \<and> actorOwnsLot actor l
    \<and> p_seller p = l_seller l \<and> lot_row_of l \<in> set (cst_lots s) \<and> l_id l = i
    \<and> l_status l = LotStatusDraft \<and> product_row_of p \<in> set (cst_products s)
    \<and> p_id p = l_product l \<and> p_status p = ProductStatusPublished \<and> fish_Get (p_fish p) s = (Inr f, s)
    \<and> lot_Publish True (product_snapshot_for p f) l = (Inr [CatLotPublished ev], l')
    \<and> announces ev (lot_row_of l') \<and> lp_snapshot ev = product_snapshot_for p f
    \<and> cst_lots t = row_upsert lw_id (lot_row_of l') (cst_lots s) \<and> cst_products t = cst_products s
    \<and> catalog_payloads t = catalog_payloads s @ [CatLotPublished ev]"
    (is "\<exists>actor l p f l' ev. ?shape actor l p f l' ev t")
proof -
  have inv: "catalog_inv env s"
    unfolding s_def by (rule reached_inv [OF inj ok])
  have fish: "wpE (fish_Get k) Q (\<lambda>_ _. True) s" if "\<And>f. fish_Get k s = (Inr f, s) \<Longrightarrow> Q f s" for k Q
    using that by (auto simp: wpE_def fish_Get_def split: option.split sum.split)
  have "wpE (with_actor ctx (\<lambda>actor.
     bindE (lots_Get i) (\<lambda>l.
     bindE (requireC CatForbiddenOwner (actorOwnsLot actor l)) (\<lambda>_.
     bindE (products_Get (l_product l)) (\<lambda>p.
     bindE (requireC CatForbiddenOwner (actorOwnsProduct actor p)) (\<lambda>_.
     bindE (requireC CatForbiddenOwner (p_seller p = l_seller l)) (\<lambda>_.
     bindE (fish_Get (p_fish p)) (\<lambda>f.
     lot_save_events env now
       (lot_Publish (p_status p = ProductStatusPublished) (product_snapshot_for p f)) l))))))))
     (\<lambda>_ t. \<exists>actor l p f l' ev. ?shape actor l p f l' ev t) (\<lambda>_ _. True) s"
  proof (intro actor_wp, subst wpE_bind, unfold lots_Get_def, rule lots_find_wp [OF inv],
      subst wpE_bind, rule cat_require_wp, subst wpE_bind, rule products_Get_wp [OF inv],
      subst wpE_bind, rule cat_require_wp, subst wpE_bind, rule cat_require_wp, subst wpE_bind,
      rule fish)
    fix actor l p f
    assume facts: "ActorFromContext ctx = Some actor" "lot_good l" "lot_row_of l \<in> set (cst_lots s)"
      "lw_id (lot_row_of l) = i" "actorOwnsLot actor l" "product_row_of p \<in> set (cst_products s)"
      "p_id p = l_product l" "p_seller p = l_seller l" "fish_Get (p_fish p) s = (Inr f, s)"
    let ?snap = "product_snapshot_for p f"
    let ?m = "lot_Publish (p_status p = ProductStatusPublished) ?snap"
    show "wpE (lot_save_events env now ?m l)
        (\<lambda>_ t. \<exists>actor l p f l' ev. ?shape actor l p f l' ev t) (\<lambda>_ _. True) s"
    proof (cases "p_status p = ProductStatusPublished \<and> l_status l = LotStatusDraft")
      case False
      then show ?thesis
        by (auto simp: lot_save_events_def bindE_def callC_def wpE_def lot_Publish_def)
    next
      case True
      then obtain ev l' where m: "?m l = (Inr [CatLotPublished ev], l')" "l_id l' = l_id l"
          "l_auction l' = l_auction l" "lp_snapshot ev = ?snap"
        by (simp add: lot_Publish_def)
      then have "announces ev (lot_row_of l')"
        using lot_methods_ok(2) [unfolded lot_method_ok_def] facts(2) True
        by (fastforce simp: lot_move_def quiet_events_def)
      with m facts True show ?thesis
        by (intro wpE_mono [OF save_changed [where m = ?m, OF inj inv facts(3) m(1-3)]]) auto
    qed
  qed
  then show ?thesis
    using run unfolding PublishLot_def db_tx_atomically atomically_def
    by (auto simp: wpE_def split: prod.splits sum.splits)
qed



lemma seconds_of_wrapped: "minutes_of 26290448384 = 0"
  by code_simp

lemma wrapped_duration: "lot_duration 307445735 = 26290448384"
  by (simp add: lot_duration_def mul64_def wrap64_def)

lemma scan_rest:
  assumes "\<And>r. r \<in> set rs \<Longrightarrow> \<exists>l. row_lot r = Inr l" "row_lot r = Inl e" "set xs = insert r (set rs)"
  shows "scan_all row_lot xs = Inl e"
  by (rule scan_all_fails [of xs row_lot e r]) (use assms in auto)

lemma create_lot_wp:
  assumes inj: "inj (ce_id env)" and inv: "catalog_inv env s"
  shows "wpE (CreateLot env now owner cmd) (\<lambda>i t. \<exists>r. cst_lots t = cst_lots s @ [r] \<and> lw_id r = i
      \<and> lw_duration_minutes r = minutes_of (lot_duration (cl_minutes cmd))
      \<and> i \<notin> lw_id ` set (cst_lots s)) (\<lambda>_ _. True) s"
  unfolding CreateLot_def
proof (rule sql_tx.run_wp, intro actor_wp, subst wpE_bind, rule products_Get_wp [OF inv], subst wpE_bind,
    rule cat_require_wp, subst wpE_bind, rule newID_wp, subst wpE_bind, rule catalog_domain_wp, clarify)
  fix actor p l evs
  let ?u = "s\<lparr>cst_ids := Suc (cst_ids s)\<rparr>"
  assume l: "NewLot (''lot'' @ ''-'' @ ce_id env (cst_ids s)) (cl_product cmd) (ca_company actor)
      (cl_photo cmd) (cl_quantity cmd) (cl_startPrice cmd)
      (if cl_minBidStep cmd \<le> 0 then 1 else cl_minBidStep cmd)
      (NewAuctionScheduleAt (cl_startsAt cmd) (lot_duration (cl_minutes cmd))) = Inr (l, evs)"
  then have id: "l_id l = ''lot'' @ ''-'' @ ce_id env (cst_ids s)"
    and a: "l_auction l = []" and d: "sch_duration (l_schedule l) = lot_duration (cl_minutes cmd)"
    by (auto simp: NewLot_def Let_def NewAuctionScheduleAt_def split: if_splits)
  define r where "r = lot_row_of l"
  have new: "lw_id r \<notin> lw_id ` set (cst_lots s)"
    using inv drawn_new [OF inj] unfolding catalog_inv_def lots_ok_def r_def row_of id by blast
  have none: "\<not> list_ex (\<lambda>x. same_auction x r) (cst_lots s)"
    using a by (auto simp: r_def nullIfBlank_def same_auction_def list_ex_iff)
  define t where "t = ?u\<lparr>cst_lots := cst_lots s @ [r]\<rparr>"
  have "cat_outbox.ids_used env t"
    using inv_drawn [OF inv, of "Suc (cst_ids s)"]
    by (simp add: t_def catalog_inv_def cat_outbox.ids_used_def)
  from addEvents_tables [OF inj this, of now evs]
  have "wpE (bindE (addEvents env now evs) (\<lambda>_. retE (l_id l))) (\<lambda>i t. \<exists>r. cst_lots t = cst_lots s @ [r]
      \<and> lw_id r = i \<and> lw_duration_minutes r = minutes_of (lot_duration (cl_minutes cmd))
      \<and> i \<notin> lw_id ` set (cst_lots s)) (\<lambda>_ _. True) t"
    unfolding wpE_bind wpE_ret
    by (rule wpE_mono) (use new in \<open>auto simp: t_def r_def d\<close>)
  then show "wpE (bindE (lots_Save l) (\<lambda>_. bindE (addEvents env now evs) (\<lambda>_. retE (l_id l))))
      (\<lambda>i t. \<exists>r. cst_lots t = cst_lots s @ [r] \<and> lw_id r = i
        \<and> lw_duration_minutes r = minutes_of (lot_duration (cl_minutes cmd))
        \<and> i \<notin> lw_id ` set (cst_lots s)) (\<lambda>_ _. True) ?u"
    using none upsert_fresh [OF new]
    by (simp only: wpE_bind [of "lots_Save l"])
      (simp add: wpE_def lots_Save_def r_def [symmetric] t_def)
qed

text \<open>
  A lot created for 307445735 minutes, a duration whose nanoseconds wrap around to 26 seconds, is
  accepted and stored with a duration of zero minutes; from then on the administrator's listing of the
  lots fails, whatever other lots there are.
\<close>

theorem long_lot_breaks_listing:
  fixes units types :: "string list"
  assumes inj: "inj (ce_id env)" and ok: "list_all catalog_ok cmds"
  defines "s \<equiv> run_catalog env cmds (new_catalog units types)"
  assumes run: "CreateLot env now owner cmd s = (Inr i, t)" and long: "cl_minutes cmd = 307445735"
    and admin: "ActorFromContext ctx = Some actor" "isPlatformAdmin actor"
  shows "lots_Get i t = (Inl (CatalogError ErrInvalidSchedule), t)
    \<and> ListLots env ctx t = (Inl (CatalogError ErrInvalidSchedule), t)"
proof -
  have inv: "catalog_inv env s"
    unfolding s_def by (rule reached_inv [OF inj ok])
  obtain r where r: "cst_lots t = cst_lots s @ [r]" "lw_id r = i" "lw_duration_minutes r = 0"
      "i \<notin> lw_id ` set (cst_lots s)"
    using wpE_result [OF create_lot_wp [OF inj inv] run] long wrapped_duration seconds_of_wrapped
    by auto
  have bad: "row_lot r = Inl (CatalogError ErrInvalidSchedule)"
    by (simp add: row_lot_def r)
  have "row_select (\<lambda>x. lw_id x = i) (cst_lots t) = Some r"
    using row_select_key [of lw_id "cst_lots t" r] inv r by (auto simp: catalog_inv_def lots_ok_def)
  moreover have "scan_all row_lot (insertion_sort (\<lambda>x y. ce_text_before env (lw_id x) (lw_id y)) (cst_lots t))
      = Inl (CatalogError ErrInvalidSchedule)"
  proof (rule scan_rest [OF _ bad])
    fix x assume "x \<in> set (cst_lots s)"
    then show "\<exists>l. row_lot x = Inr l"
      using lot_found [OF inv] by blast
  qed (simp add: stable_set r)
  ultimately show ?thesis
    using bad admin by (simp add: lots_Get_def lots_find_def ListLots_def scoped_list_def with_actor_def
        lots_List_def lots_where_def)
qed


subsection \<open>The witnesses\<close>

definition cdemo_sees :: "catalog_store \<Rightarrow> string \<Rightarrow> int \<Rightarrow> int \<Rightarrow> bool" where
  "cdemo_sees s st cur final \<longleftrightarrow> map lw_id (cst_lots s) = [''lot-aaaaaa''] \<and> map lw_status (cst_lots s) = [st]
     \<and> map lw_auction (cst_lots s) = [Some ''A''] \<and> map lw_cur_price (cst_lots s) = [cur]
     \<and> map lw_final_price (cst_lots s) = [final]"

lemma cdemo_ready_shows: "case run_catalog cdemo_env cdemo_ready cdemo_start of s \<Rightarrow>
    cdemo_sees s ''DRAFT'' 100 100
    \<and> (case PublishLot cdemo_env 5 cdemo_actor ''lot-aaaaaa'' s of (res, t) \<Rightarrow> res = Inr ())"
  by code_simp

lemma cdemo_open_shows: "case run_catalog cdemo_env cdemo_open cdemo_start of s \<Rightarrow>
    cdemo_sees s ''PUBLISHED'' 120 100 \<and> lots_published (catalog_payloads s) = [''lot-aaaaaa'']
    \<and> (case HandleAuctionClosed cdemo_env 7 ''A'' s of (res, t) \<Rightarrow> res = Inr ()
        \<and> cdemo_sees t ''CLOSED'' 120 120)"
  by code_simp

lemma cdemo_long_shows: "case run_catalog cdemo_env cdemo_product cdemo_start of s \<Rightarrow>
    (case CreateLot cdemo_env 3 cdemo_actor (cdemo_lot\<lparr>cl_minutes := 307445735\<rparr>) s of (res, t) \<Rightarrow>
       res = Inr ''lot-aaaaaa'')"
  by code_simp


theorem lot_events_true_witness:
  "set (lots_published (catalog_payloads (run_catalog cdemo_env cdemo_open (new_catalog [''kg''] [''frozen'']))))
    = lw_id ` {r \<in> set (cst_lots (run_catalog cdemo_env cdemo_open (new_catalog [''kg''] [''frozen'']))).
        lw_status r \<noteq> ''DRAFT''}
   \<and> lots_published (catalog_payloads (run_catalog cdemo_env cdemo_open (new_catalog [''kg''] [''frozen''])))
    = [''lot-aaaaaa'']"
  using lot_events_true [OF cdemo_inj cdemo_ok(3), of "[''kg'']" "[''frozen'']"] cdemo_open_shows
  unfolding cdemo_start_def by simp

theorem announced_stays_true_witness:
  "\<exists>e. CatLotPublished e \<in> set (catalog_payloads (run_catalog cdemo_env cdemo_open (new_catalog [''kg''] [''frozen''])))
    \<and> (\<exists>r \<in> set (cst_lots (run_catalog cdemo_env [OnAuctionClosed 7 ''A'']
          (run_catalog cdemo_env cdemo_open (new_catalog [''kg''] [''frozen''])))).
        announces e r \<and> lw_status r \<noteq> ''DRAFT'')"
proof -
  have ok: "list_all catalog_ok (cdemo_open @ [OnAuctionClosed 7 ''A''])"
    by (simp add: cdemo_ok)
  have "''lot-aaaaaa'' \<in> set (lots_published (catalog_payloads
      (run_catalog cdemo_env cdemo_open (new_catalog [''kg''] [''frozen'']))))"
    using cdemo_open_shows unfolding cdemo_start_def by simp
  then obtain e where "CatLotPublished e \<in> set (catalog_payloads
      (run_catalog cdemo_env cdemo_open (new_catalog [''kg''] [''frozen''])))"
    by (auto simp: published_in)
  then show ?thesis
    using announced_stays_true [OF cdemo_inj ok, of "[''kg'']" "[''frozen'']"] by blast
qed

definition cdemo_saved :: lot where
  "cdemo_saved = \<lparr>l_id = ''i'', l_product = ''p'', l_seller = ''S'', l_auction = ''A'', l_photo = [],
     l_quantity = 0x4024000000000000, l_status = LotStatusPublished,
     l_snapshot = no_snapshot\<lparr>cs_name := ''cod''\<rparr>, l_startPrice = 100, l_minBidStep = 5,
     l_finalPrice = 100, l_curPrice = 120,
     l_schedule = \<lparr>sch_startsAt = 1000, sch_duration = 1800000000000\<rparr>\<rparr>"

lemma cdemo_saved_good: "lot_good cdemo_saved"
proof -
  have "whole_minutes 1800000000000"
    unfolding whole_minutes_def by (rule exI [of _ 30]) simp
  moreover have "\<not> is_blank ''i'' \<and> \<not> is_blank ''p'' \<and> \<not> is_blank ''S'' \<and> \<not> is_blank ''A''
      \<and> \<not> float_le_zero 0x4024000000000000 \<and> TrimSpace [] = []"
    by code_simp
  ultimately show ?thesis
    by (simp add: lot_good_def cdemo_saved_def)
qed

theorem saved_lot_loads_witness:
  "\<exists>t. lots_Save cdemo_saved cdemo_start = (Inr (), t)
    \<and> lots_Get ''i'' t = (Inr (cdemo_saved\<lparr>l_snapshot := no_snapshot\<rparr>), t)"
proof -
  have "lots_Save cdemo_saved cdemo_start
      = (Inr (), cdemo_start\<lparr>cst_lots := [lot_row_of cdemo_saved]\<rparr>)"
    by (simp add: lots_Save_def cdemo_start_def new_catalog_def row_upsert_def Let_def)
  from saved_lot_loads [OF cdemo_saved_good this] this show ?thesis
    by (simp add: cdemo_saved_def)
qed

definition cdemo_admin :: cat_actor where
  "cdemo_admin = \<lparr>ca_company = ''admin'', ca_kind = ActorKindPlatformAdmin, ca_seller_access = False\<rparr>"

lemma cdemo_admin: "ActorFromContext (Some cdemo_admin) = Some cdemo_admin" "isPlatformAdmin cdemo_admin"
  by (simp_all add: ActorFromContext_def cdemo_admin_def isPlatformAdmin_def)

theorem all_lots_listed_witness:
  "\<exists>ls. fst (ListLots cdemo_env (Some cdemo_admin)
      (run_catalog cdemo_env cdemo_open (new_catalog [''kg''] [''frozen'']))) = Inr ls \<and> length ls = 1"
proof -
  obtain ls where "fst (ListLots cdemo_env (Some cdemo_admin)
      (run_catalog cdemo_env cdemo_open (new_catalog [''kg''] [''frozen'']))) = Inr ls"
    "map lot_row_of ls = insertion_sort (\<lambda>x y. ce_text_before cdemo_env (lw_id x) (lw_id y))
      (cst_lots (run_catalog cdemo_env cdemo_open (new_catalog [''kg''] [''frozen''])))"
    using all_lots_listed [OF cdemo_inj cdemo_ok(3) cdemo_admin, of "[''kg'']" "[''frozen'']"] by auto
  moreover have "map lw_id (cst_lots (run_catalog cdemo_env cdemo_open (new_catalog [''kg''] [''frozen''])))
      = [''lot-aaaaaa'']"
    using cdemo_open_shows unfolding cdemo_start_def cdemo_sees_def by simp
  from arg_cong [OF this, of length]
  have "length (cst_lots (run_catalog cdemo_env cdemo_open (new_catalog [''kg''] [''frozen'']))) = 1"
    by simp
  ultimately show ?thesis
    by (metis length_map stable_sort.length_sort)
qed

theorem closed_at_last_price_seen_witness:
  "\<exists>r t. r \<in> set (cst_lots (run_catalog cdemo_env cdemo_open (new_catalog [''kg''] [''frozen''])))
    \<and> lw_cur_price r = 120
    \<and> HandleAuctionClosed cdemo_env 7 ''A'' (run_catalog cdemo_env cdemo_open (new_catalog [''kg''] [''frozen'']))
        = (Inr (), t)
    \<and> r\<lparr>lw_status := ''CLOSED'', lw_final_price := 120\<rparr> \<in> set (cst_lots t)
    \<and> HandleAuctionWon cdemo_env 8 ''A'' 150 t = (Inr (), t)"
proof -
  let ?s = "run_catalog cdemo_env cdemo_open (new_catalog [''kg''] [''frozen''])"
  obtain r where r: "r \<in> set (cst_lots ?s)" "lw_status r = ''PUBLISHED''" "lw_auction r = Some ''A''"
      "lw_cur_price r = 120"
    using cdemo_open_shows unfolding cdemo_start_def cdemo_sees_def by (auto simp: map_eq_Cons_conv)
  obtain res t where t: "HandleAuctionClosed cdemo_env 7 ''A'' ?s = (res, t)"
    by (cases "HandleAuctionClosed cdemo_env 7 ''A'' ?s")
  show ?thesis
    using closed_at_last_price_seen [OF cdemo_inj cdemo_ok(3) r(1-3) t, of 8 150] r t by auto
qed

theorem publish_lot_checks_witness:
  "\<exists>p t ev. PublishLot cdemo_env 5 cdemo_actor ''lot-aaaaaa''
      (run_catalog cdemo_env cdemo_ready (new_catalog [''kg''] [''frozen''])) = (Inr (), t)
    \<and> p_status p = ProductStatusPublished
    \<and> product_row_of p \<in> set (cst_products (run_catalog cdemo_env cdemo_ready (new_catalog [''kg''] [''frozen''])))
    \<and> CatLotPublished ev \<in> set (catalog_payloads t)"
proof -
  let ?s = "run_catalog cdemo_env cdemo_ready (new_catalog [''kg''] [''frozen''])"
  obtain t where t: "PublishLot cdemo_env 5 cdemo_actor ''lot-aaaaaa'' ?s = (Inr (), t)"
    using cdemo_ready_shows unfolding cdemo_start_def by (auto split: prod.splits)
  show ?thesis
    using publish_lot_checks [OF cdemo_inj cdemo_ok(2) t] t by fastforce
qed

theorem long_lot_breaks_listing_witness:
  "\<exists>t. CreateLot cdemo_env 3 cdemo_actor (cdemo_lot\<lparr>cl_minutes := 307445735\<rparr>)
      (run_catalog cdemo_env cdemo_product (new_catalog [''kg''] [''frozen''])) = (Inr ''lot-aaaaaa'', t)
    \<and> ListLots cdemo_env (Some cdemo_admin) t = (Inl (CatalogError ErrInvalidSchedule), t)"
proof -
  obtain t where t: "CreateLot cdemo_env 3 cdemo_actor (cdemo_lot\<lparr>cl_minutes := 307445735\<rparr>)
      (run_catalog cdemo_env cdemo_product (new_catalog [''kg''] [''frozen''])) = (Inr ''lot-aaaaaa'', t)"
    using cdemo_long_shows unfolding cdemo_start_def by (auto split: prod.splits)
  show ?thesis
    using long_lot_breaks_listing [OF cdemo_inj cdemo_ok(1) t _ cdemo_admin] t by simp
qed


end
