(* ===== verification/Outbox_Append.thy ===== *)
theory Outbox_Append
  imports Outbox Transactions
begin

section \<open>Methods that only append to the outbox\<close>

text \<open>
  No method of a context changes or removes a row of the outbox: it appends rows that have not been
  sent, under identifiers no other row has. \<open>appends rows P m\<close> says so of a method \<open>m\<close>, where \<open>rows\<close>
  is the outbox of its store and the new rows satisfy \<open>P\<close>, for instance \<open>own_row ids ty\<close>: identifiers that
  the context draws, and the type of the event; the rules of the collection
  \<open>appends_intro\<close> follow the shape of a method.
\<close>

definition unsent :: "'p outbox_row \<Rightarrow> bool" where
  "unsent r \<longleftrightarrow> ob_published_at r = None \<and> ob_locked_at r = None \<and> ob_failed_at r = None
     \<and> ob_attempts r = 0"

definition own_row :: "(nat \<Rightarrow> string) \<Rightarrow> ('p \<Rightarrow> string) \<Rightarrow> 'p outbox_row \<Rightarrow> bool" where
  "own_row ids ty r \<longleftrightarrow> ob_id r \<in> range ids \<and> ob_event_type r = ty (ob_payload r)"

definition extends :: "('p outbox_row \<Rightarrow> bool) \<Rightarrow> 'p outbox_row list \<Rightarrow> 'p outbox_row list \<Rightarrow> bool" where
  "extends P rs rs' \<longleftrightarrow> (\<exists>new. rs' = rs @ new \<and> list_all unsent new \<and> list_all P new
     \<and> (distinct (map ob_id rs) \<longrightarrow> distinct (map ob_id rs')))"

lemma extends_refl [simp]: "extends P rs rs"
  by (simp add: extends_def)

lemma extends_trans:
  assumes "extends P rs rs'" "extends P rs' rs''"
  shows "extends P rs rs''"
proof -
  obtain new where n: "rs' = rs @ new" "list_all unsent new" "list_all P new"
    using assms(1) unfolding extends_def by blast
  obtain new' where n': "rs'' = rs' @ new'" "list_all unsent new'" "list_all P new'"
    using assms(2) unfolding extends_def by blast
  have "distinct (map ob_id rs) \<longrightarrow> distinct (map ob_id rs'')"
    using assms unfolding extends_def by blast
  then show ?thesis
    unfolding extends_def using n n' by (intro exI [of _ "new @ new'"]) simp
qed

lemma extends_insert:
  "unsent r \<Longrightarrow> P r \<Longrightarrow> extends P rs (snd (outbox_insert dup r rs))"
  by (auto simp: extends_def outbox_insert_def list_ex_iff)

definition appends :: "('s \<Rightarrow> 'p outbox_row list) \<Rightarrow> ('p outbox_row \<Rightarrow> bool) \<Rightarrow> ('s, 'e, 'a) exec \<Rightarrow> bool" where
  "appends rows P m \<longleftrightarrow> (\<forall>s. extends P (rows s) (rows (snd (m s))))"

named_theorems appends_intro \<open>methods that only append to the outbox\<close>

lemma appends_quiet: "(\<And>s. rows (snd (m s)) = rows s) \<Longrightarrow> appends rows P m"
  by (simp add: appends_def)

lemma appendsD: "appends rows P m \<Longrightarrow> m s = (r, t) \<Longrightarrow> extends P (rows s) (rows t)"
  unfolding appends_def by (metis snd_conv)

lemma appends_bind [appends_intro]:
  assumes "appends rows P m" "\<And>a. appends rows P (f a)"
  shows "appends rows P (bindE m f)"
  unfolding appends_def
proof
  fix s
  show "extends P (rows s) (rows (snd (bindE m f s)))"
  proof (cases "m s")
    case (Pair r t)
    then have "extends P (rows s) (rows t)"
      by (rule appendsD [OF assms(1)])
    then show ?thesis
      using Pair assms(2) unfolding appends_def
      by (cases r) (auto simp: bindE_def intro: extends_trans)
  qed
qed

lemma appends_catch [appends_intro]:
  assumes "appends rows P m" "\<And>e. appends rows P (h e)"
  shows "appends rows P (catchE m h)"
  unfolding appends_def
proof
  fix s
  show "extends P (rows s) (rows (snd (catchE m h s)))"
  proof (cases "m s")
    case (Pair r t)
    then have "extends P (rows s) (rows t)"
      by (rule appendsD [OF assms(1)])
    then show ?thesis
      using Pair assms(2) unfolding appends_def
      by (cases r) (auto simp: catchE_def intro: extends_trans)
  qed
qed

lemma appends_basic [appends_intro]:
  "appends rows P (retE a)" "appends rows P (failE e)" "appends rows P (readE f)"
  "appends rows P (liftE r)" "appends rows P (optE e x)"
  by (simp_all add: appends_def retE_def failE_def readE_def liftE_def optE_def split: option.split)

lemma appends_cases [appends_intro]:
  "appends rows P m \<Longrightarrow> appends rows P n \<Longrightarrow> appends rows P (if b then m else n)"
  "appends rows P m' \<Longrightarrow> (\<And>a. appends rows P (f a))
    \<Longrightarrow> appends rows P (case x of None \<Rightarrow> m' | Some a \<Rightarrow> f a)"
  "(\<And>a b. appends rows P (g a b)) \<Longrightarrow> appends rows P (case p of (a, b) \<Rightarrow> g a b)"
  by (simp_all split: option.split prod.split)

lemma appends_for [appends_intro]: "(\<And>x. appends rows P (f x)) \<Longrightarrow> appends rows P (forE f xs)"
  by (induction xs) (auto intro: appends_basic appends_bind)

lemma appends_tx [appends_intro]: "appends rows P m \<Longrightarrow> appends rows P (db_tx m)"
  by (simp add: appends_def db_tx_atomically atomically_def split: prod.split sum.split)
    (metis snd_conv)

lemma appends_uow [appends_intro]: "appends rows P m \<Longrightarrow> appends rows P (db_uow m)"
  by (simp add: db_uow_plain)

end
