(* ===== verification/Outbox_Relay.thy ===== *)
theory Outbox_Relay
  imports Outbox_Append Sorting
begin

section \<open>The outbox relay and the event bus\<close>

text \<open>
  \<open>internal/infra/outbox/relay.go\<close>, \<open>internal/infra/outbox/postgres/repository.go\<close> and
  \<open>internal/infra/eventbus/inmemory/bus.go\<close>. The outbox is reached through an \<open>outbox_table\<close>: its rows
  and the update of the row with an identifier. \<open>clock k i\<close> is the \<open>i\<close>-th reading of the clock while the
  \<open>k\<close>-th message of a run is handled: the relay takes the one with \<open>i = 0\<close>, the handlers the others. The
  database orders text by \<open>re_before\<close> and returns updated rows in the order \<open>re_returned\<close>. The statements
  of the repository succeed, the payloads written by the platform can be decoded, and no handler
  panics: a panic ends the process, and the run with it.
\<close>

subsection \<open>events.Envelope, bus.go\<close>

record 'p envelope =
  en_type :: string
  en_payload :: 'p
  en_occurredAt :: time
  en_meta :: "string \<rightharpoonup> string"

type_synonym ('p, 's, 'e) handler = "'p envelope \<Rightarrow> ('s, 'e, unit) exec"
type_synonym ('p, 's, 'e) bus = "(string \<times> ('p, 's, 'e) handler) list"

definition Subscribe ::
  "string \<Rightarrow> ('p, 's, 'e) handler \<Rightarrow> ('p, 's, 'e) bus \<Rightarrow> ('p, 's, 'e) bus" where
  "Subscribe eventType h bus = (if eventType = '''' then bus else bus @ [(eventType, h)])"

fun run_handlers ::
  "('p, 's, 'e) handler list \<Rightarrow> 'p envelope \<Rightarrow> 's \<Rightarrow> 'e list \<times> 's" where
  "run_handlers [] envelope s = ([], s)"
| "run_handlers (h # hs) envelope s =
     (case h envelope s of (r, t) \<Rightarrow>
      case run_handlers hs envelope t of (errs, u) \<Rightarrow>
        ((case r of Inl e \<Rightarrow> e # errs | Inr _ \<Rightarrow> errs), u))"

definition bus_Publish :: "('p, 's, 'e) bus \<Rightarrow> 'p envelope \<Rightarrow> ('s, 'e list, unit) exec" where
  "bus_Publish bus envelope s =
     (case run_handlers (map snd (filter (\<lambda>(t, h). t = en_type envelope) bus)) envelope s of
        (errs, t) \<Rightarrow> (if errs = [] then Inr () else Inl errs, t))"

subsection \<open>postgres/repository.go\<close>

record 'p message =
  mg_id :: string
  mg_type :: string
  mg_source :: string
  mg_payload :: 'p
  mg_occurredAt :: time
  mg_attempts :: int
  mg_correlation :: string
  mg_causation :: string
  mg_company :: string
  mg_user :: string

datatype outbox_mark = Locked time | PublishedAt time | FailedWith int string "time option"

fun mark_row :: "outbox_mark \<Rightarrow> 'p outbox_row \<Rightarrow> 'p outbox_row" where
  "mark_row (Locked t) r = r\<lparr>ob_locked_at := Some t\<rparr>"
| "mark_row (PublishedAt t) r = r\<lparr>ob_published_at := Some t\<rparr>"
| "mark_row (FailedWith n e f) r = r\<lparr>ob_attempts := n, ob_last_error := Some e, ob_failed_at := f\<rparr>"

record ('p, 's) outbox_table =
  tb_rows :: "'s \<Rightarrow> 'p outbox_row list"
  tb_update :: "string \<Rightarrow> outbox_mark \<Rightarrow> 's \<Rightarrow> 's"

record ('p, 'e) relay_env =
  re_before :: "string \<Rightarrow> string \<Rightarrow> bool"
  re_returned :: "'p outbox_row list \<Rightarrow> 'p outbox_row list"
  re_decodes :: "string \<Rightarrow> bool"
  re_text :: "'e \<Rightarrow> string"

definition message_of :: "'p outbox_row \<Rightarrow> 'p message" where
  "message_of r = \<lparr>mg_id = ob_id r, mg_type = ob_event_type r, mg_source = ob_source r,
     mg_payload = ob_payload r, mg_occurredAt = ob_occurred_at r, mg_attempts = ob_attempts r,
     mg_correlation = ob_correlation r, mg_causation = ob_causation r, mg_company = ob_company r,
     mg_user = ob_user r\<rparr>"

definition deliverable :: "time \<Rightarrow> 'p outbox_row \<Rightarrow> bool" where
  "deliverable now r \<longleftrightarrow> ob_published_at r = None \<and> ob_failed_at r = None
     \<and> (case ob_locked_at r of None \<Rightarrow> True | Some t \<Rightarrow> t < now - 60000000000)"

definition older :: "('p, 'e) relay_env \<Rightarrow> 'p outbox_row \<Rightarrow> 'p outbox_row \<Rightarrow> bool" where
  "older env x y \<longleftrightarrow> ob_created_at x < ob_created_at y
     \<or> ob_created_at x = ob_created_at y \<and> re_before env (ob_id x) (ob_id y)"

definition update_all ::
  "('p, 's) outbox_table \<Rightarrow> outbox_mark \<Rightarrow> string list \<Rightarrow> 's \<Rightarrow> 's" where
  "update_all tbl m ids s = fold (\<lambda>i. tb_update tbl i m) ids s"

definition ListUnpublished ::
  "('p, 'e) relay_env \<Rightarrow> ('p, 's) outbox_table \<Rightarrow> time \<Rightarrow> nat \<Rightarrow> 's \<Rightarrow> 'p message list \<times> 's" where
  "ListUnpublished env tbl now limit s =
     (let rows = take limit (insertion_sort (older env) (filter (deliverable now) (tb_rows tbl s)))
      in (map message_of (re_returned env rows), update_all tbl (Locked now) (map ob_id rows) s))"

definition MarkPublished :: "('p, 's) outbox_table \<Rightarrow> time \<Rightarrow> string list \<Rightarrow> 's \<Rightarrow> 's" where
  "MarkPublished tbl now ids s = update_all tbl (PublishedAt now) ids s"

definition RecordFailure ::
  "('p, 's) outbox_table \<Rightarrow> string \<Rightarrow> int \<Rightarrow> string \<Rightarrow> time option \<Rightarrow> 's \<Rightarrow> 's" where
  "RecordFailure tbl i attempts errMsg failedAt s =
     tb_update tbl i (FailedWith attempts errMsg failedAt) s"

subsection \<open>relay.go\<close>

definition maxAttempts :: int where
  "maxAttempts = 5"

datatype 'e relay_error = MissingDecoder string | HandlerErrors "'e list"

definition metaFromMessage :: "'p message \<Rightarrow> string \<rightharpoonup> string" where
  "metaFromMessage m =
     [''source_context'' \<mapsto> mg_source m]
     ++ (if mg_correlation m \<noteq> '''' then [''correlation_id'' \<mapsto> mg_correlation m] else Map.empty)
     ++ (if mg_causation m \<noteq> '''' then [''causation_id'' \<mapsto> mg_causation m] else Map.empty)
     ++ (if mg_company m \<noteq> '''' then [''company_id'' \<mapsto> mg_company m] else Map.empty)
     ++ (if mg_user m \<noteq> '''' then [''user_id'' \<mapsto> mg_user m] else Map.empty)"

definition envelope_of :: "'p message \<Rightarrow> 'p envelope" where
  "envelope_of m = \<lparr>en_type = mg_type m, en_payload = mg_payload m, en_occurredAt = mg_occurredAt m,
     en_meta = metaFromMessage m\<rparr>"

definition recordFailure :: "('p, 'e relay_error) relay_env \<Rightarrow> ('p, 's) outbox_table \<Rightarrow> time
    \<Rightarrow> 'p message \<Rightarrow> 'e relay_error \<Rightarrow> 's \<Rightarrow> 's" where
  "recordFailure env tbl now m e s =
     (let attempts = mg_attempts m + 1 in
      RecordFailure tbl (mg_id m) attempts (re_text env e)
        (if attempts \<ge> maxAttempts then Some now else None) s)"

text \<open>One message: the error that was recorded, if any.\<close>

definition relay_one :: "('p, 'e relay_error) relay_env \<Rightarrow> ('p, 's) outbox_table
    \<Rightarrow> ('p, 's, 'e) bus \<Rightarrow> time \<Rightarrow> 'p message \<Rightarrow> 's \<Rightarrow> 'e relay_error option \<times> 's" where
  "relay_one env tbl bus now m s =
     (if \<not> re_decodes env (mg_type m) then
        let e = MissingDecoder (mg_type m) in (Some e, recordFailure env tbl now m e s)
      else case bus_Publish bus (envelope_of m) s of
        (Inl errs, t) \<Rightarrow>
          let e = HandlerErrors errs in (Some e, recordFailure env tbl now m e t)
      | (Inr _, t) \<Rightarrow> (None, t))"

text \<open>The loop of \<open>RunOnce\<close>: the identifiers to mark as published and the first error.\<close>

fun relay_batch :: "('p, 'e relay_error) relay_env \<Rightarrow> ('p, 's) outbox_table
    \<Rightarrow> ((nat \<Rightarrow> time) \<Rightarrow> ('p, 's, 'e) bus) \<Rightarrow> (nat \<Rightarrow> nat \<Rightarrow> time) \<Rightarrow> nat \<Rightarrow> 'p message list \<Rightarrow> 's
    \<Rightarrow> (string list \<times> 'e relay_error option) \<times> 's" where
  "relay_batch env tbl bus clock k [] s = (([], None), s)"
| "relay_batch env tbl bus clock k (m # ms) s =
     (case relay_one env tbl (bus (clock k)) (clock k 0) m s of (e, t) \<Rightarrow>
      case relay_batch env tbl bus clock (Suc k) ms t of ((published, firstErr), u) \<Rightarrow>
        ((if e = None then mg_id m # published else published,
          if e = None then firstErr else e), u))"

definition RunOnce :: "('p, 'e relay_error) relay_env \<Rightarrow> ('p, 's) outbox_table
    \<Rightarrow> ((nat \<Rightarrow> time) \<Rightarrow> ('p, 's, 'e) bus) \<Rightarrow> (nat \<Rightarrow> nat \<Rightarrow> time) \<Rightarrow> nat
    \<Rightarrow> ('s, 'e relay_error, unit) exec" where
  "RunOnce env tbl bus clock limit s =
     (case ListUnpublished env tbl (clock 0 0) limit s of (msgs, t) \<Rightarrow>
      if msgs = [] then (Inr (), t) else
      case relay_batch env tbl bus clock 1 msgs t of ((published, firstErr), u) \<Rightarrow>
        (case firstErr of None \<Rightarrow> Inr () | Some e \<Rightarrow> Inl e,
         MarkPublished tbl (clock (Suc (length msgs)) 0) published u))"

definition claimed_ids ::
  "('p, 'e) relay_env \<Rightarrow> ('p, 's) outbox_table \<Rightarrow> time \<Rightarrow> nat \<Rightarrow> 's \<Rightarrow> string list" where
  "claimed_ids env tbl now limit s = map mg_id (fst (ListUnpublished env tbl now limit s))"

end
