(* ===== verification/Integration.thy ===== *)
theory Integration
  imports Outbox_Relay Billing_System Trading_System Deals_System Catalog_System
begin

section \<open>The integration runtime (internal/integration/runtime)\<close>

text \<open>
  The process that moves events between the contexts. A \<open>world\<close> holds the stores of the contexts; the
  wallet the trading context reserves deposits in is the store of billing. Each handler of
  \<open>event_handlers.go\<close> is a definition over the world: the use cases it calls, in their order, each
  inside the context it belongs to. \<open>clock i\<close> is the \<open>i\<close>-th reading of the clock while a message is
  handled. The dependencies are those \<open>cmd/integration\<close> passes, none of them nil.
\<close>

datatype company_event = CompanyCreated string

datatype platform_event =
    CatalogEvent catalog_event
  | TradingEvent auction_event
  | DealsEvent deal_event
  | BillingEvent billing_event
  | IdentityEvent company_event

datatype platform_error =
    InCatalog cat_error | InTrading trading_error | InDeals deals_error | InBilling billing_error
  | UnexpectedPayload string | MissingAuctionSchedule | EmptyWinnerCompanyID

record identity_outbox =
  io_rows :: "company_event outbox_row list"
  io_ids :: nat

record world =
  w_catalog :: catalog_store
  w_trading :: "billing_store trading_store"
  w_deals :: deals_store
  w_identity :: identity_outbox

type_synonym 'a platform = "(world, platform_error, 'a) exec"

record platform_env =
  pe_catalog :: catalog_env
  pe_trading :: trading_env
  pe_deals :: deals_env
  pe_billing :: billing_env
  pe_id :: "nat \<Rightarrow> string"
  pe_order_invoices :: "(deal_invoice \<Rightarrow> deal_invoice \<Rightarrow> bool) \<Rightarrow> deal_invoice list \<Rightarrow> deal_invoice list"
  pe_text_before :: "string \<Rightarrow> string \<Rightarrow> bool"
  pe_returned :: "platform_event outbox_row list \<Rightarrow> platform_event outbox_row list"
  pe_error_text :: "platform_error relay_error \<Rightarrow> string"

text \<open>Running a method of a context, and going on after some of its errors.\<close>

definition inside :: "('t \<Rightarrow> 's) \<Rightarrow> ('s \<Rightarrow> 't \<Rightarrow> 't) \<Rightarrow> ('e \<Rightarrow> 'f) \<Rightarrow> ('s, 'e, 'a) exec \<Rightarrow> ('t, 'f, 'a) exec"
  where "inside get put wrap m = catchE (zoomE get put m) (\<lambda>e. failE (wrap e))"

definition in_catalog :: "'a catalog \<Rightarrow> 'a platform" where
  "in_catalog = inside w_catalog (\<lambda>c w. w\<lparr>w_catalog := c\<rparr>) InCatalog"

definition in_trading :: "(billing_store, 'a) trading \<Rightarrow> 'a platform" where
  "in_trading = inside w_trading (\<lambda>c w. w\<lparr>w_trading := c\<rparr>) InTrading"

definition in_deals :: "'a deals \<Rightarrow> 'a platform" where
  "in_deals = inside w_deals (\<lambda>c w. w\<lparr>w_deals := c\<rparr>) InDeals"

definition in_billing :: "'a billing \<Rightarrow> 'a platform" where
  "in_billing = inside (\<lambda>w. ts_wallet (w_trading w))
     (\<lambda>c w. w\<lparr>w_trading := (w_trading w)\<lparr>ts_wallet := c\<rparr>\<rparr>) InBilling"

definition unless_error :: "('e \<Rightarrow> bool) \<Rightarrow> ('s, 'e, unit) exec \<Rightarrow> ('s, 'e, unit) exec" where
  "unless_error skip m = catchE m (\<lambda>e. if skip e then retE () else failE e)"

subsection \<open>runtime.go: what the handlers take from an envelope\<close>

definition valueOrEmpty :: "(string \<rightharpoonup> string) \<Rightarrow> string \<Rightarrow> string" where
  "valueOrEmpty meta key = (case meta key of None \<Rightarrow> '''' | Some v \<Rightarrow> v)"

definition tradingMetaFromEnvelope :: "'p envelope \<Rightarrow> command_meta" where
  "tradingMetaFromEnvelope envelope =
     (let value = valueOrEmpty (en_meta envelope) in
      \<lparr>cm_company = value ''company_id'', cm_user = value ''user_id'', cm_actor = '''',
       cm_correlation = value ''correlation_id'', cm_causation = value ''causation_id''\<rparr>)"

definition dealSnapshotFromLot :: "lot_published \<Rightarrow> product_snapshot" where
  "dealSnapshotFromLot evt = (let p = lp_snapshot evt in
     \<lparr>ps_product = cs_product p, ps_name = cs_name p, ps_description = '''', ps_category = '''',
      ps_weight = cs_weight p, ps_unit = cs_unit p, ps_size = cs_size p,
      ps_processing = cs_processing p, ps_volume = 0, ps_origin = ''''\<rparr>)"

definition auctionIDForLot :: "platform_env \<Rightarrow> lot_published \<Rightarrow> string platform" where
  "auctionIDForLot env evt =
     (if lp_auction evt \<noteq> '''' then retE (lp_auction evt) else in_trading (next_id (pe_trading env)))"

subsection \<open>event\_handlers.go: a lot has been published\<close>

definition cannot_publish :: "platform_error \<Rightarrow> bool" where
  "cannot_publish e \<longleftrightarrow> e = InTrading (AuctionError ErrAuctionCannotBePublished)
     \<or> e = InTrading (AuctionError ErrInvalidStateTransition)"

definition lot_published_steps ::
  "platform_env \<Rightarrow> (nat \<Rightarrow> time) \<Rightarrow> platform_event envelope \<Rightarrow> lot_published \<Rightarrow> unit platform" where
  "lot_published_steps env clock envelope evt =
     (let step = (if lp_minBidStep evt \<le> 0 then 1 else lp_minBidStep evt) in
      if lp_startsAt evt = 0 \<or> lp_endsAt evt = 0 then failE MissingAuctionSchedule else
      bindE (auctionIDForLot env evt) (\<lambda>newID.
      bindE (if lp_auction evt = '''' then in_catalog (GetLotAuctionID (lp_lot evt)) else retE '''')
        (\<lambda>existing.
      let auctionID = (if existing \<noteq> '''' then existing else newID) in
      bindE (in_trading (CreateAuction_with (retE auctionID) (lp_lot evt) (lp_startsAt evt)
               (lp_endsAt evt) (lp_startPrice evt) step)) (\<lambda>_.
      bindE (unless_error cannot_publish (in_trading
               (PublishAuction (pe_trading env) (clock 1) (tradingMetaFromEnvelope envelope) auctionID)))
        (\<lambda>_.
      bindE (if lp_auction evt = '''' \<and> existing = ''''
             then unless_error (\<lambda>e. e = InCatalog (CatalogError ErrAlreadyAssigned))
               (in_catalog (AssignAuctionID (pe_catalog env) (clock 2) (lp_lot evt) auctionID))
             else retE ()) (\<lambda>_.
      in_deals (CreateProjection auctionID (lp_seller evt) (dealSnapshotFromLot evt)
        (lp_startPrice evt) (en_occurredAt envelope))))))))"

type_synonym platform_handler = "platform_env \<Rightarrow> (nat \<Rightarrow> time) \<Rightarrow> (platform_event, world, platform_error) handler"

definition lotPublished_Execute :: platform_handler where
  "lotPublished_Execute env clock envelope = (case en_payload envelope of
      CatalogEvent (CatLotPublished evt) \<Rightarrow> lot_published_steps env clock envelope evt
    | _ \<Rightarrow> failE (UnexpectedPayload ''LotPublished''))"

subsection \<open>What happens to an auction\<close>

definition ExecuteBidPlaced :: platform_handler where
  "ExecuteBidPlaced env clock envelope = (case en_payload envelope of
      TradingEvent (BidPlaced auctionID company amount placedAt endsAt) \<Rightarrow>
        in_catalog (HandleBidPlaced (pe_catalog env) (clock 1) auctionID amount)
    | _ \<Rightarrow> failE (UnexpectedPayload ''BidPlaced''))"

definition ExecuteAuctionClosed :: platform_handler where
  "ExecuteAuctionClosed env clock envelope = (case en_payload envelope of
      TradingEvent (AuctionClosed auctionID) \<Rightarrow>
        in_catalog (HandleAuctionClosed (pe_catalog env) (clock 1) auctionID)
    | _ \<Rightarrow> failE (UnexpectedPayload ''AuctionClosed''))"

definition ExecuteAuctionCancelled :: platform_handler where
  "ExecuteAuctionCancelled env clock envelope = (case en_payload envelope of
      TradingEvent (AuctionCancelled auctionID) \<Rightarrow>
        in_catalog (HandleAuctionCancelled (pe_catalog env) (clock 1) auctionID)
    | _ \<Rightarrow> failE (UnexpectedPayload ''AuctionCancelled''))"

definition auctionWon_Execute :: platform_handler where
  "auctionWon_Execute env clock envelope = (case en_payload envelope of
      TradingEvent (AuctionWon auctionID lotID winners finalPrice) \<Rightarrow>
        if winners = [] then failE EmptyWinnerCompanyID else
        bindE (in_deals (CreateDealSelectionFromAuctionWon (pe_deals env) (clock 1) auctionID winners
                 finalPrice (en_occurredAt envelope))) (\<lambda>_.
        bindE (in_catalog (HandleAuctionWon (pe_catalog env) (clock 2) auctionID finalPrice)) (\<lambda>_.
        in_billing (db_tx (ReleaseAuctionDepositsExceptCandidates (pe_billing env) (clock 3) auctionID
          winners ''LOST_AUCTION''))))
    | _ \<Rightarrow> failE (UnexpectedPayload ''AuctionWon''))"

subsection \<open>What happens to a deal\<close>

text \<open>The metadata of the relay never has an \<open>auction_id\<close>; the handler asks for it all the same.\<close>

definition dealCancelled_Execute :: platform_handler where
  "dealCancelled_Execute env clock envelope = (case en_payload envelope of
      DealsEvent (DealCancelled dealID reason cancelledBy at') \<Rightarrow>
        if reason = DealCancelReasonPaymentTimeout then retE () else
        unless_error (\<lambda>e. e = InDeals AppNoAvailableWinner)
          (in_deals (HandleDealDeclined (pe_deals env) (clock 1)
            (valueOrEmpty (en_meta envelope) ''auction_id'') dealID))
    | _ \<Rightarrow> failE (UnexpectedPayload ''DealCancelled''))"

definition winnerRejected_Execute :: platform_handler where
  "winnerRejected_Execute env clock envelope = (case en_payload envelope of
      DealsEvent (WinnerRejected selectionID dealID auctionID company at' reason) \<Rightarrow>
        in_billing (db_tx (CaptureAuctionDeposit (pe_billing env) (clock 1) company auctionID reason))
    | _ \<Rightarrow> failE (UnexpectedPayload ''WinnerRejected''))"

definition paymentRequested_Execute :: platform_handler where
  "paymentRequested_Execute env clock envelope = (case en_payload envelope of
      DealsEvent (PaymentRequested dealID auctionID buyer seller cur goods invoiceNumber due at') \<Rightarrow>
        in_billing (db_tx (bindE (CreateDealInvoice (pe_billing env) (clock 1)
          \<lparr>cic_deal = dealID, cic_auction = auctionID, cic_buyer = buyer, cic_seller = seller,
           cic_goods = goods, cic_currency = (if cur = '''' then CurrencyRUB else cur),
           cic_due = (case due of None \<Rightarrow> 0 | Some t \<Rightarrow> t)\<rparr>) (\<lambda>_. retE ())))
    | _ \<Rightarrow> failE (UnexpectedPayload ''PaymentRequested''))"

definition dealInvoicePaid_Execute :: platform_handler where
  "dealInvoicePaid_Execute env clock envelope = (case en_payload envelope of
      BillingEvent (DealInvoicePaid invoiceID dealID auctionID buyer goods feeDue amount cur paidAt) \<Rightarrow>
        in_deals (HandleDealInvoicePaid (pe_deals env) (clock 1)
          \<lparr>ie_invoice = invoiceID, ie_deal = dealID, ie_auction = auctionID, ie_buyer = buyer,
           ie_goods = goods, ie_fee_due = feeDue, ie_amount = amount, ie_paidAt = paidAt\<rparr>)
    | _ \<Rightarrow> failE (UnexpectedPayload ''DealInvoicePaid''))"

definition dealInvoiceExpired_Execute :: platform_handler where
  "dealInvoiceExpired_Execute env clock envelope = (case en_payload envelope of
      BillingEvent (DealInvoiceExpired invoiceID dealID auctionID buyer amount cur expiredAt) \<Rightarrow>
        in_deals (HandleDealInvoiceExpired (pe_deals env) (clock 1)
          \<lparr>ie_invoice = invoiceID, ie_deal = dealID, ie_auction = auctionID, ie_buyer = buyer,
           ie_goods = 0, ie_fee_due = 0, ie_amount = amount, ie_paidAt = 0\<rparr>)
    | _ \<Rightarrow> failE (UnexpectedPayload ''DealInvoiceExpired''))"

definition invoice_matches :: "deal_event \<Rightarrow> deal_invoice \<Rightarrow> unit billing" where
  "invoice_matches evt i = (case evt of
      WinnerSelectionFinalized selectionID dealID auctionID company finalPrice goods feeDue at' \<Rightarrow>
        if inv_status i \<noteq> invoice_status.InvoicePaid then failE ErrInvoiceNotPayable
        else if inv_auction i \<noteq> auctionID \<or> inv_buyer i \<noteq> company then failE ErrSellerPayoutInvoiceMismatch
        else if inv_goods i \<noteq> goods \<or> inv_fee_due i \<noteq> feeDue then failE ErrSellerPayoutInvoiceMismatch
        else retE ()
    | _ \<Rightarrow> retE ())"

definition winnerSelectionFinalized_Execute :: platform_handler where
  "winnerSelectionFinalized_Execute env clock envelope = (case en_payload envelope of
      DealsEvent (WinnerSelectionFinalized selectionID dealID auctionID company finalPrice goods feeDue at') \<Rightarrow>
        in_billing (db_tx (
          bindE (invoices_LoadByDealID dealID) (\<lambda>i.
          bindE (invoice_matches (WinnerSelectionFinalized selectionID dealID auctionID company finalPrice
                   goods feeDue at') i) (\<lambda>_.
          bindE (SettleWinnerDepositAfterInvoicePaid (pe_billing env) (clock 1) auctionID company goods
                   feeDue ''WINNER_FINALIZED'') (\<lambda>_.
          bindE (ReleaseAuctionDepositsExceptCandidates (pe_billing env) (clock 2) auctionID [company]
                   ''WINNER_FINALIZED'') (\<lambda>_.
          bindE (CreateSellerPayout (pe_billing env) (clock 3)
                   \<lparr>cpc_deal = dealID, cpc_auction = auctionID, cpc_buyer = company, cpc_goods = goods,
                    cpc_fee_due = feeDue\<rparr>) (\<lambda>_.
          retE ())))))))
    | _ \<Rightarrow> failE (UnexpectedPayload ''WinnerSelectionFinalized''))"

subsection \<open>A company has been created\<close>

definition companyCreated_Execute :: platform_handler where
  "companyCreated_Execute env clock envelope = (case en_payload envelope of
      IdentityEvent (CompanyCreated companyID) \<Rightarrow>
        in_billing (db_tx (CreateAccount (pe_billing env) companyID))
    | _ \<Rightarrow> failE (UnexpectedPayload ''CompanyCreated''))"

subsection \<open>The bus of the runtime and its decoders\<close>

definition registerIntegrationHandlers ::
  "platform_env \<Rightarrow> (nat \<Rightarrow> time) \<Rightarrow> (platform_event, world, platform_error) bus" where
  "registerIntegrationHandlers env clock =
     fold (\<lambda>(eventType, h). Subscribe eventType (h env clock))
       [(''catalog.LotPublished'', lotPublished_Execute),
        (''trading.BidPlaced'', ExecuteBidPlaced),
        (''trading.AuctionClosed'', ExecuteAuctionClosed),
        (''trading.AuctionCancelled'', ExecuteAuctionCancelled),
        (''trading.AuctionWon'', auctionWon_Execute),
        (''deals.DealCancelled'', dealCancelled_Execute),
        (''deals.WinnerRejected'', winnerRejected_Execute),
        (''identity.CompanyCreated'', companyCreated_Execute),
        (''deals.PaymentRequested'', paymentRequested_Execute),
        (''billing.DealInvoicePaid'', dealInvoicePaid_Execute),
        (''billing.DealInvoiceExpired'', dealInvoiceExpired_Execute),
        (''deals.WinnerSelectionFinalized'', winnerSelectionFinalized_Execute)] []"

definition DefaultDecoders :: "string \<Rightarrow> bool" where
  "DefaultDecoders eventType \<longleftrightarrow> eventType \<in> set [
     ''catalog.ProductCreated'', ''catalog.ProductUpdated'', ''catalog.ProductPublished'',
     ''catalog.ProductUnpublished'', ''catalog.LotCreated'', ''catalog.LotPublished'',
     ''catalog.LotUnpublished'', ''catalog.LotClosed'', ''catalog.LotPriceUpdated'',
     ''catalog.LotAuctionLinked'',
     ''trading.AuctionPublished'', ''trading.BidPlaced'', ''trading.AuctionClosed'',
     ''trading.AuctionWon'', ''trading.AuctionCancelled'',
     ''deals.DealCreated'', ''deals.DealConfirmationRequested'', ''deals.DealConfirmationApproved'',
     ''deals.DealConfirmationRejected'', ''deals.DealConfirmed'', ''deals.ContractPrepared'',
     ''deals.ContractSigned'', ''deals.PaymentRequested'', ''deals.DealPaid'',
     ''deals.ShipmentRequested'', ''deals.DealShipped'', ''deals.DealCompleted'',
     ''deals.DealCancelled'', ''deals.WinnerRejected'', ''deals.WinnerConfirmed'',
     ''deals.NextWinnerSelected'', ''deals.WinnerSelectionFailed'',
     ''deals.WinnerSelectionFinalized'', ''deals.PriceUpdated'',
     ''identity.CompanyCreated'',
     ''billing.AccountCreated'', ''billing.BalanceToppedUp'', ''billing.AuctionDepositReserved'',
     ''billing.AuctionDepositReleased'', ''billing.AuctionDepositCaptured'',
     ''billing.PlatformFeeCaptured'', ''billing.DealInvoiceCreated'', ''billing.DealInvoicePaid'',
     ''billing.DealInvoiceExpired'', ''billing.SellerPayoutCreated'',
     ''billing.SellerPayoutMarkedReady'', ''billing.SellerPayoutMarkedPaid'']"

subsection \<open>The schedulers\<close>

text \<open>\<open>RunCloseExpired\<close> is in theory Trading.\<close>

definition RunCancelExpiredDeals :: "platform_env \<Rightarrow> time \<Rightarrow> (nat \<Rightarrow> time) \<Rightarrow> int \<Rightarrow> unit platform" where
  "RunCancelExpiredDeals env now clock limit =
     bindE (in_deals (ListExpiredForFallback (pe_deals env) now limit)) (\<lambda>ids.
     forE (\<lambda>(k, dealID). unless_error (\<lambda>_. True) (in_deals (CancelDeal (pe_deals env) (clock k)
         \<lparr>dm_company = ''system'', dm_user = ''system'', dm_correlation = ''scheduler-deal-deadline'',
          dm_causation = ''scheduler-deal-deadline''\<rparr> dealID DealCancelReasonConfirmationTimeout)))
       (zip [0..<length ids] ids))"

definition due_before :: "deal_invoice \<Rightarrow> deal_invoice \<Rightarrow> bool" where
  "due_before x y \<longleftrightarrow> inv_due_at x < inv_due_at y"

definition ListExpiredInvoices :: "platform_env \<Rightarrow> time \<Rightarrow> int \<Rightarrow> string list billing" where
  "ListExpiredInvoices env now limit = readE (\<lambda>s.
     let limit' = (if limit \<le> 0 then 100 else limit) in
     map inv_id (take (nat limit') (pe_order_invoices env due_before
       (filter (\<lambda>i. inv_status i = InvoicePaymentPending \<and> inv_due_at i \<le> now) (bs_invoices s)))))"

definition RunExpireDealInvoices :: "platform_env \<Rightarrow> time \<Rightarrow> (nat \<Rightarrow> time) \<Rightarrow> int \<Rightarrow> unit platform" where
  "RunExpireDealInvoices env now clock limit = in_billing (db_tx (
     bindE (ListExpiredInvoices env now limit) (\<lambda>ids.
     forE (\<lambda>(k, invoiceID). unless_error (\<lambda>e. e = ErrInvoiceNotExpired)
         (ExpireDealInvoice (pe_billing env) (clock k) invoiceID))
       (zip [0..<length ids] ids))))"

subsection \<open>The outbox of the platform\<close>

text \<open>
  \<open>identity/postgres/outbox_repository.go\<close>, and \<open>outbox_messages\<close> as the relay sees it: the rows of all
  contexts. Its primary key is kept per context here; \<open>platform_good\<close> (theory Platform) says that
  contexts draw different identifiers.
\<close>

definition PublishCompanyCreated :: "platform_env \<Rightarrow> time \<Rightarrow> string \<Rightarrow> (identity_outbox, unit, unit) exec"
  where
  "PublishCompanyCreated env now companyID s =
     zoomE io_rows (\<lambda>rows t. t\<lparr>io_rows := rows\<rparr>) (outbox_insert ()
       \<lparr>ob_id = pe_id env (io_ids s), ob_event_id = pe_id env (Suc (io_ids s)),
        ob_event_type = ''identity.CompanyCreated'', ob_aggregate = companyID,
        ob_payload = CompanyCreated companyID, ob_occurred_at = now, ob_created_at = now,
        ob_correlation = '''', ob_causation = '''', ob_company = companyID, ob_user = '''',
        ob_source = ''identity'', ob_published_at = None, ob_locked_at = None, ob_attempts = 0,
        ob_failed_at = None, ob_last_error = None\<rparr>)
       (s\<lparr>io_ids := Suc (Suc (io_ids s))\<rparr>)"

definition map_row :: "('p \<Rightarrow> 'q) \<Rightarrow> 'p outbox_row \<Rightarrow> 'q outbox_row" where
  "map_row f r = \<lparr>ob_id = ob_id r, ob_event_id = ob_event_id r, ob_event_type = ob_event_type r,
     ob_aggregate = ob_aggregate r, ob_payload = f (ob_payload r), ob_occurred_at = ob_occurred_at r,
     ob_created_at = ob_created_at r, ob_correlation = ob_correlation r,
     ob_causation = ob_causation r, ob_company = ob_company r, ob_user = ob_user r,
     ob_source = ob_source r, ob_published_at = ob_published_at r, ob_locked_at = ob_locked_at r,
     ob_attempts = ob_attempts r, ob_failed_at = ob_failed_at r, ob_last_error = ob_last_error r\<rparr>"

definition platform_rows :: "world \<Rightarrow> platform_event outbox_row list" where
  "platform_rows w = map (map_row CatalogEvent) (cst_outbox (w_catalog w))
     @ map (map_row TradingEvent) (ts_outbox (w_trading w))
     @ map (map_row DealsEvent) (dst_outbox (w_deals w))
     @ map (map_row BillingEvent) (bs_outbox (ts_wallet (w_trading w)))
     @ map (map_row IdentityEvent) (io_rows (w_identity w))"

definition mark_id :: "string \<Rightarrow> outbox_mark \<Rightarrow> 'p outbox_row list \<Rightarrow> 'p outbox_row list" where
  "mark_id i m rows = row_update (\<lambda>r. ob_id r = i) (mark_row m) rows"

definition platform_update :: "string \<Rightarrow> outbox_mark \<Rightarrow> world \<Rightarrow> world" where
  "platform_update i m w = (let c = w_catalog w; t = w_trading w; d = w_deals w; y = w_identity w; b = ts_wallet t in
     w\<lparr>w_catalog := c\<lparr>cst_outbox := mark_id i m (cst_outbox c)\<rparr>,
       w_trading := t\<lparr>ts_outbox := mark_id i m (ts_outbox t),
                      ts_wallet := b\<lparr>bs_outbox := mark_id i m (bs_outbox b)\<rparr>\<rparr>,
       w_deals := d\<lparr>dst_outbox := mark_id i m (dst_outbox d)\<rparr>,
       w_identity := y\<lparr>io_rows := mark_id i m (io_rows y)\<rparr>\<rparr>)"

definition outbox_messages :: "(platform_event, world) outbox_table" where
  "outbox_messages = \<lparr>tb_rows = platform_rows, tb_update = platform_update\<rparr>"

definition relay_env_of :: "platform_env \<Rightarrow> (platform_event, platform_error relay_error) relay_env" where
  "relay_env_of env = \<lparr>re_before = pe_text_before env, re_returned = pe_returned env,
     re_decodes = DefaultDecoders, re_text = pe_error_text env\<rparr>"

text \<open>\<open>runtime.Relay.RunOnce(ctx, runtime.Bus, limit)\<close>.\<close>

definition runtime_RunOnce ::
  "platform_env \<Rightarrow> (nat \<Rightarrow> nat \<Rightarrow> time) \<Rightarrow> nat \<Rightarrow> (world, platform_error relay_error, unit) exec" where
  "runtime_RunOnce env clock limit =
     RunOnce (relay_env_of env) outbox_messages (registerIntegrationHandlers env) clock limit"

end
