(* ===== verification/Relay_Correct.thy ===== *)
theory Relay_Correct
  imports Outbox_Relay
begin

section \<open>What the relay does to a message\<close>

text \<open>
  The contract \<open>relay_client\<close> between the relay and the platform, and what the relay guarantees under it:
  which messages a run claims, how it leaves each of them (\<open>relay_round\<close>), that no other relay claims
  them within the minute, and that every run refines the life cycle of a message, a specification that
  bounds how often a message is attempted (\<open>life_run_counts\<close>).
\<close>

subsection \<open>What the platform promises the relay\<close>

text \<open>
  Whatever else runs appends unsent rows under new identifiers and touches no other row
  (\<open>rows_kept\<close>). The contract \<open>relay_client\<close> asks this of every handler of the bus, in the states
  \<open>good\<close> describes: there, rows have identifiers of their own and the database returns the rows it
  updates, each once.
\<close>

definition row_of_id :: "('p, 's) outbox_table \<Rightarrow> string \<Rightarrow> 's \<Rightarrow> 'p outbox_row option" where
  "row_of_id tbl i s = row_select (\<lambda>r. ob_id r = i) (tb_rows tbl s)"

definition ids_distinct :: "('p, 's) outbox_table \<Rightarrow> 's \<Rightarrow> bool" where
  "ids_distinct tbl s \<longleftrightarrow> distinct (map ob_id (tb_rows tbl s))"

definition same_or_new :: "('p, 's) outbox_table \<Rightarrow> string \<Rightarrow> 's \<Rightarrow> 's \<Rightarrow> bool" where
  "same_or_new tbl i s t \<longleftrightarrow> row_of_id tbl i t = row_of_id tbl i s
     \<or> row_of_id tbl i s = None \<and> (\<exists>r. row_of_id tbl i t = Some r \<and> unsent r)"

definition rows_kept :: "('p, 's) outbox_table \<Rightarrow> 's \<Rightarrow> 's \<Rightarrow> bool" where
  "rows_kept tbl s t \<longleftrightarrow> (\<forall>i. same_or_new tbl i s t)"

lemma same_refl [simp]: "same_or_new tbl i s s"
  by (simp add: same_or_new_def)

lemma same_trans: "same_or_new tbl i s t \<Longrightarrow> same_or_new tbl i t u \<Longrightarrow> same_or_new tbl i s u"
  by (auto simp: same_or_new_def)

lemma same_some: "same_or_new tbl i s t \<Longrightarrow> row_of_id tbl i s = Some r \<Longrightarrow> row_of_id tbl i t = Some r"
  by (auto simp: same_or_new_def)

lemma kept_refl [simp]: "rows_kept tbl s s"
  by (simp add: rows_kept_def)

lemma kept_trans: "rows_kept tbl s t \<Longrightarrow> rows_kept tbl t u \<Longrightarrow> rows_kept tbl s u"
  unfolding rows_kept_def by (blast intro: same_trans)

lemma kept_some: "rows_kept tbl s t \<Longrightarrow> row_of_id tbl i s = Some r \<Longrightarrow> row_of_id tbl i t = Some r"
  by (auto simp: rows_kept_def dest: same_some)

lemma mark_row_id [simp]: "ob_id (mark_row m r) = ob_id r"
  by (cases m) simp_all

lemma mark_row_twice [simp]: "mark_row m (mark_row m r) = mark_row m r"
  by (cases m) simp_all

lemma count_distinct: "distinct xs \<Longrightarrow> x \<in> set xs \<Longrightarrow> count_list xs x = 1"
  by (induction xs) (auto simp: count_list_0_iff)

text \<open>Everything between the start of the platform and now: rounds of the relay and other work.\<close>

inductive relay_trace :: "('p, 'e relay_error) relay_env \<Rightarrow> ('p, 's) outbox_table
    \<Rightarrow> ((nat \<Rightarrow> time) \<Rightarrow> ('p, 's, 'e) bus) \<Rightarrow> ('s \<Rightarrow> bool) \<Rightarrow> 's \<Rightarrow> string list \<Rightarrow> 's \<Rightarrow> bool"
  for env tbl bus good s where
  start: "relay_trace env tbl bus good s [] s"
| other: "relay_trace env tbl bus good s is t \<Longrightarrow> rows_kept tbl t u \<Longrightarrow> good u
    \<Longrightarrow> relay_trace env tbl bus good s is u"
| round: "relay_trace env tbl bus good s is t
    \<Longrightarrow> relay_trace env tbl bus good s (is @ claimed_ids env tbl (clock 0 0) limit t)
          (snd (RunOnce env tbl bus clock limit t))"

text \<open>
  The life of a message: it waits, with the number of failed deliveries, until it has been delivered
  or has failed five times. A round of the platform delivers some of the messages, each with an
  outcome, and new messages start to wait.
\<close>

datatype message_life = Waiting int | Delivered | Given_up

definition attempt :: "bool \<Rightarrow> int \<Rightarrow> message_life" where
  "attempt ok n = (if ok then Delivered else if n + 1 \<ge> 5 then Given_up else Waiting (n + 1))"

definition life_round :: "(string \<Rightarrow> bool option) \<Rightarrow> (string \<Rightarrow> message_life option)
    \<Rightarrow> (string \<Rightarrow> message_life option) \<Rightarrow> bool" where
  "life_round outcome L L' \<longleftrightarrow> (\<forall>i. case outcome i of
       None \<Rightarrow> L' i = L i \<or> L i = None \<and> L' i = Some (Waiting 0)
     | Some ok \<Rightarrow> \<exists>n. L i = Some (Waiting n) \<and> L' i = Some (attempt ok n))"

definition life_of :: "'p outbox_row \<Rightarrow> message_life" where
  "life_of r = (if ob_published_at r \<noteq> None then Delivered
     else if ob_failed_at r \<noteq> None then Given_up else Waiting (ob_attempts r))"

definition lives :: "('p, 's) outbox_table \<Rightarrow> 's \<Rightarrow> string \<Rightarrow> message_life option" where
  "lives tbl s i = map_option life_of (row_of_id tbl i s)"

text \<open>Runs of the specification, with the number of times each message has been attempted.\<close>

inductive life_run :: "(string \<Rightarrow> message_life option) \<Rightarrow> (string \<Rightarrow> nat)
    \<Rightarrow> (string \<Rightarrow> message_life option) \<Rightarrow> bool" for L where
  start: "life_run L (\<lambda>_. 0) L"
| step: "life_run L n L' \<Longrightarrow> life_round outcome L' L''
    \<Longrightarrow> life_run L (\<lambda>i. n i + (if i \<in> dom outcome then 1 else 0)) L''"

fun life_counts :: "message_life option \<Rightarrow> nat \<Rightarrow> bool" where
  "life_counts None n \<longleftrightarrow> n = 0"
| "life_counts (Some (Waiting k)) n \<longleftrightarrow> k = int n \<and> n < 5"
| "life_counts (Some Delivered) n \<longleftrightarrow> 0 < n \<and> n \<le> 5"
| "life_counts (Some Given_up) n \<longleftrightarrow> n = 5"

lemma life_run_counts:
  assumes "life_run L n L'" "\<And>i. L i = None \<or> L i = Some (Waiting 0)"
  shows "life_counts (L' i) (n i)"
  using assms(1)
proof (induction arbitrary: i rule: life_run.induct)
  case start
  then show ?case
    using assms(2) [of i] by auto
next
  case (step n L' outcome L'')
  show ?case
  proof (cases "outcome i")
    case None
    then have "L'' i = L' i \<or> L' i = None \<and> L'' i = Some (Waiting 0)"
      using step(2) [unfolded life_round_def, THEN spec, of i] by simp
    then show ?thesis
      using step(3) [of i] None by auto
  next
    case (Some ok)
    then obtain k where "L' i = Some (Waiting k)" "L'' i = Some (attempt ok k)"
      using step(2) [unfolded life_round_def, THEN spec, of i] by auto
    then show ?thesis
      using step(3) [of i] Some by (auto simp: attempt_def)
  qed
qed

locale relay_client =
  fixes env :: "('p, 'e relay_error) relay_env"
    and tbl :: "('p, 's) outbox_table"
    and bus :: "(nat \<Rightarrow> time) \<Rightarrow> ('p, 's, 'e) bus"
    and good :: "'s \<Rightarrow> bool"
  assumes update: "tb_rows tbl (tb_update tbl i m s)
      = map (\<lambda>r. if ob_id r = i then mark_row m r else r) (tb_rows tbl s)"
    and good_distinct: "good s \<Longrightarrow> ids_distinct tbl s"
    and good_returned: "good s \<Longrightarrow> mset (re_returned env rs) = mset rs"
    and good_update: "good s \<Longrightarrow> good (tb_update tbl i m s)"
    and client: "good s \<Longrightarrow> (t, h) \<in> set (bus reads)
      \<Longrightarrow> rows_kept tbl s (snd (h e s)) \<and> good (snd (h e s))"
begin

lemma row_update: "row_of_id tbl j (tb_update tbl i m s) =
    (if j = i then map_option (mark_row m) (row_of_id tbl i s) else row_of_id tbl j s)"
proof -
  have "row_select (\<lambda>r. ob_id r = j) (map (\<lambda>r. if ob_id r = i then mark_row m r else r) rs) =
      (if j = i then map_option (mark_row m) (row_select (\<lambda>r. ob_id r = i) rs)
       else row_select (\<lambda>r. ob_id r = j) rs)" for rs :: "'p outbox_row list"
    by (induction rs) (auto simp: row_select_Cons)
  then show ?thesis
    by (simp add: row_of_id_def update)
qed

lemma row_update_all: "row_of_id tbl j (update_all tbl m ids s) =
    (if j \<in> set ids then map_option (mark_row m) (row_of_id tbl j s) else row_of_id tbl j s)"
  by (induction ids arbitrary: s) (auto simp: update_all_def row_update option.map_comp comp_def)

lemma good_update_all: "good s \<Longrightarrow> good (update_all tbl m ids s)"
  by (induction ids arbitrary: s) (auto simp: update_all_def good_update)

lemma handlers_keep: "good s \<Longrightarrow> set hs \<subseteq> snd ` set (bus reads)
    \<Longrightarrow> rows_kept tbl s (snd (run_handlers hs e s)) \<and> good (snd (run_handlers hs e s))"
proof (induction hs arbitrary: s)
  case (Cons h hs)
  then obtain t where "(t, h) \<in> set (bus reads)"
    by auto
  with Cons.prems(1) have "rows_kept tbl s (snd (h e s)) \<and> good (snd (h e s))"
    by (rule client)
  then show ?case
    using Cons.IH [of "snd (h e s)"] Cons.prems(2) by (auto split: prod.split intro: kept_trans)
qed simp

lemma publish_keeps:
  "good s \<Longrightarrow> bus_Publish (bus reads) e s = (r, t) \<Longrightarrow> rows_kept tbl s t \<and> good t"
  using handlers_keep [of s "map snd (filter (\<lambda>(t, h). t = en_type e) (bus reads))" reads e]
  by (fastforce simp: bus_Publish_def split: prod.splits)

definition failed_row :: "time \<Rightarrow> int \<Rightarrow> 'p outbox_row \<Rightarrow> 'p outbox_row \<Rightarrow> bool" where
  "failed_row now n r r' \<longleftrightarrow>
     (\<exists>err. r' = mark_row (FailedWith (n + 1) err (if n + 1 \<ge> 5 then Some now else None)) r)"

lemma relay_one_shape:
  assumes "good s" "relay_one env tbl (bus reads) now m s = (e, t)"
  shows "good t" and "if e = None then rows_kept tbl s t
    else (\<exists>u err. rows_kept tbl s u \<and> t = tb_update tbl (mg_id m) (FailedWith (mg_attempts m + 1) err
      (if mg_attempts m + 1 \<ge> 5 then Some now else None)) u)"
  using assms publish_keeps [of s reads "envelope_of m"]
  by (auto simp: relay_one_def recordFailure_def RecordFailure_def Let_def maxAttempts_def
      intro: kept_refl good_update split: if_splits prod.splits sum.splits)

lemma relay_one_other:
  assumes "good s" "relay_one env tbl (bus reads) now m s = (e, t)" "i \<noteq> mg_id m"
  shows "same_or_new tbl i s t"
  using relay_one_shape(2) [OF assms(1,2)] assms(3)
  by (auto simp: rows_kept_def same_or_new_def row_update split: if_splits)

lemma relay_one_own:
  assumes g: "good s" and one: "relay_one env tbl (bus reads) now m s = (e, t)"
    and r: "row_of_id tbl (mg_id m) s = Some r"
  shows "if e = None then row_of_id tbl (mg_id m) t = Some r
    else \<exists>r'. row_of_id tbl (mg_id m) t = Some r' \<and> failed_row now (mg_attempts m) r r'"
proof (cases "e = None")
  case True
  then show ?thesis
    using relay_one_shape(2) [OF g one] r by (auto dest: kept_some)
next
  case False
  then obtain u err where u: "rows_kept tbl s u" "t = tb_update tbl (mg_id m)
      (FailedWith (mg_attempts m + 1) err (if mg_attempts m + 1 \<ge> 5 then Some now else None)) u"
    using relay_one_shape(2) [OF g one] by auto
  have "row_of_id tbl (mg_id m) t = Some (mark_row (FailedWith (mg_attempts m + 1) err
      (if mg_attempts m + 1 \<ge> 5 then Some now else None)) r)"
    using kept_some [OF u(1) r] unfolding u(2) row_update by simp
  moreover have "failed_row now (mg_attempts m) r (mark_row (FailedWith (mg_attempts m + 1) err
      (if mg_attempts m + 1 \<ge> 5 then Some now else None)) r)"
    unfolding failed_row_def by (rule exI) (rule refl)
  ultimately show ?thesis
    unfolding if_not_P [OF False] by blast
qed

subsection \<open>The batch\<close>

lemma batch_step:
  assumes "relay_batch env tbl bus clock k (m # ms) s = ((P, e), t)" "good s"
  obtains e1 u P' e' where
    "relay_one env tbl (bus (clock k)) (clock k 0) m s = (e1, u)" "good u"
    "relay_batch env tbl bus clock (Suc k) ms u = ((P', e'), t)"
    "P = (if e1 = None then mg_id m # P' else P')" "e = (if e1 = None then e' else e1)"
proof -
  obtain e1 u where one: "relay_one env tbl (bus (clock k)) (clock k 0) m s = (e1, u)"
    by (rule prod.exhaust)
  obtain P' e' t' where rest: "relay_batch env tbl bus clock (Suc k) ms u = ((P', e'), t')"
    by (metis prod.exhaust)
  show ?thesis
    by (rule that [of e1 u P' e'])
      (use assms one rest relay_one_shape(1) [OF assms(2) one] in auto)
qed

lemma batch_good:
  "relay_batch env tbl bus clock k ms s = ((P, e), t) \<Longrightarrow> good s \<Longrightarrow> good t"
proof (induction ms arbitrary: k s P e)
  case (Cons m ms)
  from Cons.prems show ?case
    by (rule batch_step) (rule Cons.IH)
qed simp

lemma batch_other:
  "relay_batch env tbl bus clock k ms s = ((P, e), t) \<Longrightarrow> good s \<Longrightarrow> i \<notin> mg_id ` set ms
    \<Longrightarrow> same_or_new tbl i s t \<and> i \<notin> set P"
proof (induction ms arbitrary: k s P e)
  case (Cons m ms)
  from Cons.prems(1,2) obtain e1 u P' e' where
    one: "relay_one env tbl (bus (clock k)) (clock k 0) m s = (e1, u)" and u: "good u"
    and rest: "relay_batch env tbl bus clock (Suc k) ms u = ((P', e'), t)"
    and P: "P = (if e1 = None then mg_id m # P' else P')"
    by (rule batch_step)
  have "same_or_new tbl i s u"
    using relay_one_other [OF Cons.prems(2) one] Cons.prems(3) by simp
  then show ?case
    using Cons.IH [OF rest u] Cons.prems(3) P by (auto intro: same_trans)
qed simp

lemma batch_member:
  "relay_batch env tbl bus clock k ms s = ((P, e), t) \<Longrightarrow> good s \<Longrightarrow> distinct (map mg_id ms)
    \<Longrightarrow> m \<in> set ms \<Longrightarrow> row_of_id tbl (mg_id m) s = Some r
    \<Longrightarrow> mg_id m \<in> set P \<and> row_of_id tbl (mg_id m) t = Some r
      \<or> mg_id m \<notin> set P \<and> (\<exists>r' now. row_of_id tbl (mg_id m) t = Some r'
          \<and> failed_row now (mg_attempts m) r r')"
proof (induction ms arbitrary: k s P e)
  case (Cons x ms)
  from Cons.prems(1,2) obtain e1 u P' e' where
    one: "relay_one env tbl (bus (clock k)) (clock k 0) x s = (e1, u)" and u: "good u"
    and rest: "relay_batch env tbl bus clock (Suc k) ms u = ((P', e'), t)"
    and P: "P = (if e1 = None then mg_id x # P' else P')"
    by (rule batch_step)
  show ?case
  proof (cases "m = x")
    case True
    then have "mg_id m \<notin> mg_id ` set ms"
      using Cons.prems(3) by simp
    then have after: "same_or_new tbl (mg_id m) u t" "mg_id m \<notin> set P'"
      using batch_other [OF rest u] by blast+
    show ?thesis
      using relay_one_own [OF Cons.prems(2) one] Cons.prems(5) True after P
      by (cases "e1 = None") (auto dest: same_some)
  next
    case False
    then have m: "m \<in> set ms"
      using Cons.prems(4) by simp
    then have "mg_id m \<noteq> mg_id x"
      using Cons.prems(3) by (metis distinct.simps(2) image_eqI list.simps(9) list.set_map)
    with m show ?thesis
      using Cons.IH [OF rest u] Cons.prems same_some [OF relay_one_other [OF Cons.prems(2) one]] P
      by auto
  qed
qed simp

text \<open>\<open>RunOnce\<close> reports no error exactly when every message has been delivered.\<close>

lemma batch_error:
  "relay_batch env tbl bus clock k ms s = ((P, e), t) \<Longrightarrow> good s \<Longrightarrow> distinct (map mg_id ms)
    \<Longrightarrow> e = None \<longleftrightarrow> mg_id ` set ms \<subseteq> set P"
proof (induction ms arbitrary: k s P e)
  case (Cons x ms)
  from Cons.prems(1,2) obtain e1 u P' e' where
    rest: "relay_batch env tbl bus clock (Suc k) ms u = ((P', e'), t)" and u: "good u"
    and P: "P = (if e1 = None then mg_id x # P' else P')" "e = (if e1 = None then e' else e1)"
    by (rule batch_step)
  have x: "mg_id x \<notin> mg_id ` set ms"
    using Cons.prems(3) by simp
  then have "mg_id x \<notin> set P'"
    using batch_other [OF rest u] by blast
  then show ?case
    using Cons.IH [OF rest u] Cons.prems(3) subset_insert [OF x] P by simp
qed simp

subsection \<open>Claiming\<close>

lemma find_own: "good s \<Longrightarrow> r \<in> set (tb_rows tbl s) \<Longrightarrow> row_of_id tbl (ob_id r) s = Some r"
  using good_distinct [of s] by (simp add: ids_distinct_def row_of_id_def row_select_key)

definition to_claim :: "time \<Rightarrow> nat \<Rightarrow> 's \<Rightarrow> 'p outbox_row list" where
  "to_claim now limit s =
     take limit (insertion_sort (older env) (filter (deliverable now) (tb_rows tbl s)))"

lemma to_claim_rows: "set (to_claim now limit s) \<subseteq> {r \<in> set (tb_rows tbl s). deliverable now r}"
  using set_take_subset [of limit "insertion_sort (older env) (filter (deliverable now) (tb_rows tbl s))"]
  unfolding to_claim_def by (auto simp: stable_sort.set_sort)

lemma to_claim_distinct: "good s \<Longrightarrow> distinct (map ob_id (to_claim now limit s))"
proof -
  assume "good s"
  then have "distinct (map ob_id (filter (deliverable now) (tb_rows tbl s)))"
    using good_distinct by (simp add: ids_distinct_def distinct_map_filter)
  then have "distinct (map ob_id (insertion_sort (older env) (filter (deliverable now) (tb_rows tbl s))))"
    by (metis mset_map mset_eq_imp_distinct_iff stable_sort.perm)
  then show ?thesis
    unfolding to_claim_def by (metis distinct_take take_map)
qed

lemma list_unpublished: "ListUnpublished env tbl now limit s =
    (map message_of (re_returned env (to_claim now limit s)),
     update_all tbl (Locked now) (map ob_id (to_claim now limit s)) s)"
  by (simp add: ListUnpublished_def to_claim_def Let_def)

lemma claimed_set: "good s \<Longrightarrow> set (claimed_ids env tbl now limit s) = ob_id ` set (to_claim now limit s)"
  using mset_eq_setD [OF good_returned [of s "to_claim now limit s"]]
  by (simp add: claimed_ids_def list_unpublished image_image message_of_def)

lemma list_claims:
  assumes g: "good s" and l: "ListUnpublished env tbl now limit s = (ms, t)"
  shows "distinct (map mg_id ms)" "good t"
    and "m \<in> set ms \<Longrightarrow> \<exists>r. row_of_id tbl (mg_id m) s = Some r \<and> deliverable now r \<and> m = message_of r
      \<and> row_of_id tbl (mg_id m) t = Some (mark_row (Locked now) r)"
    and "i \<notin> mg_id ` set ms \<Longrightarrow> row_of_id tbl i t = row_of_id tbl i s"
proof -
  let ?rows = "to_claim now limit s"
  have ms: "ms = map message_of (re_returned env ?rows)"
    and t: "t = update_all tbl (Locked now) (map ob_id ?rows) s"
    using l by (simp_all add: list_unpublished)
  have same: "set (re_returned env ?rows) = set ?rows"
    by (rule mset_eq_setD [OF good_returned [OF g]])
  have "distinct (map ob_id (re_returned env ?rows))"
    using to_claim_distinct [OF g] by (metis mset_map mset_eq_imp_distinct_iff good_returned [OF g])
  then show "distinct (map mg_id ms)"
    by (simp add: ms comp_def message_of_def)
  show "good t"
    by (simp add: t good_update_all g)
  show "i \<notin> mg_id ` set ms \<Longrightarrow> row_of_id tbl i t = row_of_id tbl i s"
    by (simp add: t row_update_all ms image_image message_of_def same)
  assume m: "m \<in> set ms"
  then obtain r where r: "r \<in> set ?rows" "m = message_of r"
    using same by (auto simp: ms)
  then have "row_of_id tbl (ob_id r) s = Some r" "deliverable now r"
    using to_claim_rows find_own [OF g] by blast+
  then show "\<exists>r. row_of_id tbl (mg_id m) s = Some r \<and> deliverable now r \<and> m = message_of r
      \<and> row_of_id tbl (mg_id m) t = Some (mark_row (Locked now) r)"
    using r by (intro exI [of _ r]) (simp add: t row_update_all message_of_def)
qed

text \<open>The oldest messages are claimed, as many as the limit allows.\<close>

lemma claims_oldest:
  assumes g: "good s" and w: "weak_order (older env)"
    and c: "row_of_id tbl i s = Some c" "i \<in> set (claimed_ids env tbl now limit s)"
    and r: "r \<in> set (tb_rows tbl s)" "deliverable now r" "ob_id r \<notin> set (claimed_ids env tbl now limit s)"
  shows "\<not> older env r c"
proof -
  define xs where "xs = insertion_sort (older env) (filter (deliverable now) (tb_rows tbl s))"
  have "\<exists>x \<in> set (take limit xs). ob_id x = i"
    using c(2) claimed_set [OF g] by (auto simp: to_claim_def xs_def)
  then obtain x where x: "x \<in> set (take limit xs)" "ob_id x = i"
    by blast
  then have "x \<in> set (tb_rows tbl s)"
    using to_claim_rows [of now limit s] by (auto simp: to_claim_def xs_def)
  then have "x = c"
    using find_own [OF g, of x] x(2) c(1) by simp
  moreover have "r \<in> set xs" "r \<notin> set (take limit xs)"
    using r claimed_set [OF g] by (auto simp: to_claim_def xs_def stable_sort.set_sort)
  then have "r \<in> set (drop limit xs)"
    by (metis append_take_drop_id Un_iff set_append)
  moreover have "\<forall>x \<in> set (take limit xs). \<forall>y \<in> set (drop limit xs). \<not> older env y x"
    using stable_sort.ordered [OF w, of "filter (deliverable now) (tb_rows tbl s)"]
    unfolding xs_def [symmetric]
    by (subst (asm) append_take_drop_id [of limit xs, symmetric]) (simp only: sorted_wrt_append, blast)
  ultimately show ?thesis
    using x(1) by blast
qed

lemma claims_number: "good s \<Longrightarrow> length (claimed_ids env tbl now limit s) =
    min limit (length (filter (deliverable now) (tb_rows tbl s)))"
  using mset_eq_length [OF good_returned [of s "to_claim now limit s"]]
  by (simp add: claimed_ids_def list_unpublished to_claim_def stable_sort.length_sort min.commute)

text \<open>Two relays never hold the same message within a minute.\<close>

lemma claims_apart:
  assumes g: "good s" and kept: "rows_kept tbl (snd (ListUnpublished env tbl now limit s)) t"
    and g': "good t" and soon: "now' \<le> now + 60000000000"
  shows "set (claimed_ids env tbl now limit s) \<inter> set (claimed_ids env tbl now' limit' t) = {}"
proof -
  have False if a: "i \<in> set (claimed_ids env tbl now limit s)"
      and b: "i \<in> set (claimed_ids env tbl now' limit' t)" for i
  proof -
    obtain ms u where l: "ListUnpublished env tbl now limit s = (ms, u)"
      by (rule prod.exhaust)
    obtain ms' u' where l': "ListUnpublished env tbl now' limit' t = (ms', u')"
      by (rule prod.exhaust)
    obtain m where "m \<in> set ms" "mg_id m = i"
      using a l by (auto simp: claimed_ids_def)
    then obtain r where "row_of_id tbl i u = Some (mark_row (Locked now) r)"
      using list_claims(3) [OF g l] by blast
    then have "row_of_id tbl i t = Some (mark_row (Locked now) r)"
      using kept l by (auto dest: kept_some)
    moreover obtain m' where "m' \<in> set ms'" "mg_id m' = i"
      using b l' by (auto simp: claimed_ids_def)
    then obtain r' where "row_of_id tbl i t = Some r'" "deliverable now' r'"
      using list_claims(3) [OF g' l'] by blast
    ultimately show False
      using soon by (simp add: deliverable_def)
  qed
  then show ?thesis
    by blast
qed

subsection \<open>One run, seen from one message\<close>

definition settled :: "'p outbox_row \<Rightarrow> 'p outbox_row \<Rightarrow> bool" where
  "settled r r' \<longleftrightarrow> ob_payload r' = ob_payload r
     \<and> (ob_published_at r' \<noteq> None \<and> ob_attempts r' = ob_attempts r \<and> ob_failed_at r' = ob_failed_at r
        \<or> ob_published_at r' = None \<and> ob_attempts r' = ob_attempts r + 1
          \<and> (ob_failed_at r' \<noteq> None \<longleftrightarrow> 5 \<le> ob_attempts r'))"

lemma relay_round:
  assumes g: "good s" and run: "RunOnce env tbl bus clock limit s = (res, t)"
    and C: "C = claimed_ids env tbl (clock 0 0) limit s"
  shows "good t" "distinct C"
    and "i \<notin> set C \<Longrightarrow> same_or_new tbl i s t"
    and "i \<in> set C \<Longrightarrow> \<exists>r r'. row_of_id tbl i s = Some r \<and> deliverable (clock 0 0) r
      \<and> row_of_id tbl i t = Some r' \<and> settled r r'"
    and "res = Inr () \<longleftrightarrow>
      (\<forall>i \<in> set C. \<exists>r'. row_of_id tbl i t = Some r' \<and> ob_published_at r' \<noteq> None)"
proof -
  obtain ms u where l: "ListUnpublished env tbl (clock 0 0) limit s = (ms, u)"
    by (rule prod.exhaust)
  note claims = list_claims [OF g l]
  have C_ms: "C = map mg_id ms"
    by (simp add: C claimed_ids_def l)
  then show "distinct C"
    using claims(1) by simp
  obtain P e v where b: "relay_batch env tbl bus clock 1 ms u = ((P, e), v)"
    by (metis prod.exhaust)
  have t': "t = (if ms = [] then u else MarkPublished tbl (clock (Suc (length ms)) 0) P v)"
    and res': "res = (if ms = [] then Inr () else case e of None \<Rightarrow> Inr () | Some e \<Rightarrow> Inl e)"
    using run l b by (auto simp: RunOnce_def split: option.splits if_splits)
  have v: "ms = [] \<Longrightarrow> v = u \<and> P = [] \<and> e = None"
    using b by auto
  have t: "t = update_all tbl (PublishedAt (clock (Suc (length ms)) 0)) P v"
    using v by (auto simp: t' MarkPublished_def update_all_def)
  have res: "res = Inr () \<longleftrightarrow> mg_id ` set ms \<subseteq> set P"
    using batch_error [OF b claims(2,1)] v by (auto simp: res' split: option.split)
  show "good t"
    using batch_good [OF b claims(2)] by (simp add: t good_update_all)
  show "same_or_new tbl i s t" if "i \<notin> set C"
  proof -
    have "i \<notin> mg_id ` set ms"
      using that C_ms by simp
    then have "same_or_new tbl i u v" "i \<notin> set P" "row_of_id tbl i u = row_of_id tbl i s"
      using batch_other [OF b claims(2)] claims(4) by blast+
    then show ?thesis
      by (simp add: same_or_new_def t row_update_all)
  qed
  have own: "\<exists>r r'. row_of_id tbl i s = Some r \<and> deliverable (clock 0 0) r
      \<and> row_of_id tbl i t = Some r' \<and> settled r r' \<and> (i \<in> set P \<longleftrightarrow> ob_published_at r' \<noteq> None)"
    if i: "i \<in> set C" for i
  proof -
    obtain m where m: "m \<in> set ms" "mg_id m = i"
      using i C_ms by auto
    then obtain r where r: "row_of_id tbl i s = Some r" "deliverable (clock 0 0) r" "m = message_of r"
        "row_of_id tbl i u = Some (mark_row (Locked (clock 0 0)) r)"
      using claims(3) by blast
    have none: "ob_published_at r = None" "ob_failed_at r = None" "mg_attempts m = ob_attempts r"
      using r by (simp_all add: deliverable_def message_of_def)
    consider "i \<in> set P" "row_of_id tbl i v = Some (mark_row (Locked (clock 0 0)) r)"
      | r' now where "i \<notin> set P" "row_of_id tbl i v = Some r'"
          "failed_row now (ob_attempts r) (mark_row (Locked (clock 0 0)) r) r'"
      using batch_member [OF b claims(2,1) m(1)] m(2) r(4) none(3) by auto
    then show ?thesis
    proof cases
      case 1
      then have "row_of_id tbl i t = Some (mark_row (PublishedAt (clock (Suc (length ms)) 0))
          (mark_row (Locked (clock 0 0)) r))"
        by (simp add: t row_update_all)
      then show ?thesis
        using r none 1 by (intro exI conjI) (auto simp: settled_def)
    next
      case 2
      then have "row_of_id tbl i t = Some r'"
        by (simp add: t row_update_all)
      moreover have "settled r r' \<and> ob_published_at r' = None"
        using 2(3) none by (auto simp: settled_def failed_row_def split: if_splits)
      ultimately show ?thesis
        using r 2(1) by blast
    qed
  qed
  then show "\<exists>r r'. row_of_id tbl i s = Some r \<and> deliverable (clock 0 0) r
      \<and> row_of_id tbl i t = Some r' \<and> settled r r'" if "i \<in> set C"
    using that by blast
  show "res = Inr () \<longleftrightarrow>
      (\<forall>i \<in> set C. \<exists>r'. row_of_id tbl i t = Some r' \<and> ob_published_at r' \<noteq> None)"
  proof -
    have "i \<in> set P \<longleftrightarrow> (\<exists>r'. row_of_id tbl i t = Some r' \<and> ob_published_at r' \<noteq> None)"
      if "i \<in> set C" for i
      using own [OF that] by auto
    moreover have "mg_id ` set ms \<subseteq> set P \<longleftrightarrow> (\<forall>i \<in> set C. i \<in> set P)"
      by (auto simp: C_ms)
    ultimately show ?thesis
      unfolding res by blast
  qed
qed

subsection \<open>The life cycle of a message\<close>

lemma same_lives: "same_or_new tbl i s t \<Longrightarrow>
    lives tbl t i = lives tbl s i \<or> lives tbl s i = None \<and> lives tbl t i = Some (Waiting 0)"
  by (auto simp: same_or_new_def lives_def unsent_def life_of_def)

lemma kept_refines: "rows_kept tbl s t \<Longrightarrow> life_round (\<lambda>_. None) (lives tbl s) (lives tbl t)"
  using same_lives by (simp add: life_round_def rows_kept_def)

lemma round_refines:
  assumes g: "good s" and run: "RunOnce env tbl bus clock limit s = (res, t)"
  obtains outcome where "life_round outcome (lives tbl s) (lives tbl t)"
    "dom outcome = set (claimed_ids env tbl (clock 0 0) limit s)"
    "res = Inr () \<longleftrightarrow> False \<notin> ran outcome"
proof -
  define C where "C = claimed_ids env tbl (clock 0 0) limit s"
  note r = relay_round [OF g run C_def]
  define outcome where "outcome i = (if i \<in> set C then
      Some (lives tbl t i = Some Delivered) else None)" for i
  have out: "lives tbl t i = Some (attempt (lives tbl t i = Some Delivered) n) \<and> lives tbl s i = Some (Waiting n)"
    if "row_of_id tbl i s = Some x" "deliverable now x" "row_of_id tbl i t = Some y" "settled x y"
      "n = ob_attempts x" for i x y n now
    using that by (auto simp: lives_def life_of_def deliverable_def settled_def attempt_def)
  have "life_round outcome (lives tbl s) (lives tbl t)"
    unfolding life_round_def
  proof
    fix i
    show "case outcome i of
        None \<Rightarrow> lives tbl t i = lives tbl s i \<or> lives tbl s i = None \<and> lives tbl t i = Some (Waiting 0)
      | Some ok \<Rightarrow> \<exists>n. lives tbl s i = Some (Waiting n) \<and> lives tbl t i = Some (attempt ok n)"
    proof (cases "i \<in> set C")
      case True
      then show ?thesis
        using r(4) [OF True] out by (auto simp: outcome_def)
    next
      case False
      then show ?thesis
        using same_lives [OF r(3) [OF False]] by (simp add: outcome_def)
    qed
  qed
  moreover have "dom outcome = set C"
    by (auto simp: outcome_def split: if_splits)
  moreover have "(\<exists>y. row_of_id tbl i t = Some y \<and> ob_published_at y \<noteq> None)
      \<longleftrightarrow> lives tbl t i = Some Delivered" for i
    by (auto simp: lives_def life_of_def)
  then have "res = Inr () \<longleftrightarrow> False \<notin> ran outcome"
    unfolding r(5) by (auto simp: ran_def outcome_def)
  ultimately show ?thesis
    using that by (simp add: C_def)
qed

lemma trace_refines:
  assumes "relay_trace env tbl bus good s is t" "good s"
  shows "good t \<and> life_run (lives tbl s) (count_list is) (lives tbl t)"
  using assms
proof (induction rule: relay_trace.induct)
  case start
  have "life_run (lives tbl s) (\<lambda>_. 0) (lives tbl s)"
    by (rule life_run.start)
  then show ?case
    using start by (simp add: fun_eq_iff [where f = "count_list []"] comp_def)
next
  case (other \<iota> t u)
  then have "life_run (lives tbl s) (\<lambda>i. count_list \<iota> i + (if i \<in> dom (\<lambda>_. None :: bool option) then 1 else 0))
      (lives tbl u)"
    using life_run.step [OF _ kept_refines] by blast
  then show ?case
    using other by simp
next
  case (round \<iota> t clock limit)
  define C where "C = claimed_ids env tbl (clock 0 0) limit t"
  obtain res u where u: "RunOnce env tbl bus clock limit t = (res, u)"
    by (rule prod.exhaust)
  have g: "good t" and run: "life_run (lives tbl s) (count_list \<iota>) (lives tbl t)"
    using round by auto
  obtain outcome where out: "life_round outcome (lives tbl t) (lives tbl u)" "dom outcome = set C"
    using round_refines [OF g u] by (metis C_def)
  have "count_list (\<iota> @ C) = (\<lambda>i. count_list \<iota> i + (if i \<in> dom outcome then 1 else 0))"
    using relay_round(2) [OF g u C_def] by (auto simp: out(2) count_distinct count_list_0_iff)
  then have "life_run (lives tbl s) (count_list (\<iota> @ C)) (lives tbl u)"
    using life_run.step [OF run out(1)] by simp
  then show ?case
    using relay_round(1) [OF g u refl] unfolding C_def u snd_conv by blast
qed

end

end
