(* ===== verification/Context_Outboxes.thy ===== *)
theory Context_Outboxes
  imports Outbox_Append Billing_System Trading_System Deals_System Catalog_System
begin

section \<open>What the contexts do to their outboxes\<close>

text \<open>
  Every command of billing, trading, deals and catalog only appends to the outbox of its context, with
  identifiers drawn by that context. The rules are those of theory Outbox\_Append; here are their cases
  for the statements of the repositories, and the use cases follow by unfolding.
\<close>

lemma appends_actor [appends_intro]:
  "(\<And>a. appends rows P (f a)) \<Longrightarrow> appends rows P (with_actor c f)"
  by (simp add: with_actor_def appends_basic split: option.split)

lemma appends_bool [appends_intro]: "appends rows P m \<Longrightarrow> appends rows P n
    \<Longrightarrow> appends rows P (case b of True \<Rightarrow> m | False \<Rightarrow> n)"
  by (cases b) simp_all

lemma appends_zoom:
  assumes "appends rows P m" "\<And>s t. rows' (put s t) = rows s" "\<And>t. rows' t = rows (get t)"
  shows "appends rows' P (zoomE get put m)"
  using assms by (auto simp: appends_def zoomE_def split: prod.split) (metis snd_conv)

lemma appends_zoom_other:
  assumes "\<And>s t. rows' (put s t) = rows' t"
  shows "appends rows' P (zoomE get put m)"
  using assms by (simp add: appends_def zoomE_def split: prod.split)

lemma appends_draw:
  assumes "\<And>s. \<exists>i \<in> I. fst (draw s) = Inr i" "\<And>s. rows (snd (draw s)) = rows s"
    and "\<And>i. i \<in> I \<Longrightarrow> appends rows P (f i)"
  shows "appends rows P (bindE draw f)"
  unfolding appends_def
proof
  fix s
  obtain i t where "i \<in> I" "draw s = (Inr i, t)"
    using assms(1) [of s] by (cases "draw s") auto
  moreover have "rows t = rows s"
    using assms(2) [of s] calculation(2) by simp
  ultimately show "extends P (rows s) (rows (snd (bindE draw f s)))"
    using assms(3) [of i] by (simp add: bindE_def appends_def) metis
qed

lemma extends_inserted:
  "outbox_insert dup r rs = (x, rs') \<Longrightarrow> unsent r \<Longrightarrow> P r \<Longrightarrow> extends P rs rs'"
  by (metis extends_insert snd_conv)

lemma appends_insert:
  "unsent r \<Longrightarrow> P r \<Longrightarrow> appends (\<lambda>s. s) P (outbox_insert dup r)"
  by (simp add: appends_def extends_insert)

subsection \<open>Billing\<close>

lemma billing_quiet [appends_intro]:
  "appends bs_outbox P (new_id env)" "appends bs_outbox P (accounts_Create a)"
  "appends bs_outbox P (accounts_ExistsByCompany c)" "appends bs_outbox P (accounts_Load c)"
  "appends bs_outbox P (accounts_Save a)" "appends bs_outbox P (deposits_Find x c)"
  "appends bs_outbox P (deposits_Create d)" "appends bs_outbox P (deposits_Save d)"
  "appends bs_outbox P (deposits_ListByAuction x)" "appends bs_outbox P (ledger_Append e)"
  "appends bs_outbox P (ledger_ExistsByReference c t r y)"
  "appends bs_outbox P (processed_InsertIfNew x c i n)" "appends bs_outbox P (top_ups_Create tu)"
  "appends bs_outbox P (top_ups_Save tu)" "appends bs_outbox P (top_ups_Load i)"
  "appends bs_outbox P (top_ups_LoadByProviderPayment pr i)" "appends bs_outbox P (invoices_Create iv)"
  "appends bs_outbox P (invoices_Save iv)" "appends bs_outbox P (invoices_LoadByDealID i)"
  "appends bs_outbox P (invoices_LoadByID i)" "appends bs_outbox P (payouts_Create p)"
  "appends bs_outbox P (payouts_Save p)" "appends bs_outbox P (payouts_LoadByDealID i)"
  "appends bs_outbox P (payouts_LoadByID i)"
  by (rule appends_quiet; simp add: new_id_def accounts_Create_def accounts_ExistsByCompany_def
      accounts_Load_def accounts_Save_def deposits_Find_def deposits_Create_def deposits_Save_def
      deposits_ListByAuction_def ledger_Append_def ledger_ExistsByReference_def
      processed_InsertIfNew_def top_ups_Create_def top_ups_Save_def top_ups_Load_def
      top_ups_LoadByProviderPayment_def invoices_Create_def invoices_Save_def
      invoices_LoadByDealID_def invoices_LoadByID_def payouts_Create_def payouts_Save_def
      payouts_LoadByDealID_def payouts_LoadByID_def readE_def modifyE_def optE_def
      split: option.split)+

abbreviation billing_appends :: "billing_env \<Rightarrow> 'a billing \<Rightarrow> bool" where
  "billing_appends env \<equiv> appends bs_outbox (own_row (env_id env) billing_event_type)"

lemma billing_publish_appends: "billing_appends env (billing_Publish env a c ev)"
proof -
  have "billing_appends env (\<lambda>s. zoomE bs_outbox (\<lambda>rows t. t\<lparr>bs_outbox := rows\<rparr>)
     (outbox_insert DbUniqueViolation
        \<lparr>ob_id = i, ob_event_id = j, ob_event_type = billing_event_type ev,
         ob_aggregate = a, ob_payload = ev, ob_occurred_at = bs_now s,
         ob_created_at = bs_now s, ob_correlation = [], ob_causation = [],
         ob_company = c, ob_user = [], ob_source = ''billing'',
         ob_published_at = None, ob_locked_at = None, ob_attempts = 0, ob_failed_at = None,
         ob_last_error = None\<rparr>) s)" if "i \<in> range (env_id env)" for i j
    using that
    by (auto simp: appends_def zoomE_def unsent_def own_row_def elim!: extends_inserted split: prod.split)
  then show ?thesis
    unfolding billing_Publish_def by (intro appends_draw [where I = "range (env_id env)"]) (simp_all add: new_id_def)
qed

lemma publish_if_appends [appends_intro]: "billing_appends env (publish_if env a c ev)"
  by (simp add: publish_if_def billing_publish_appends appends_basic)

lemma billing_appends_steps [appends_intro]:
  "billing_appends env (CreateAccount env c)"
  "billing_appends env (settle_settlementAlreadyRecorded c ref)"
  "billing_appends env (fee_settlementAlreadyRecorded c ref)"
  "billing_appends env (appendFeeLedger env acc c dep n ref r now)"
  "billing_appends env (appendReleaseLedger env acc c dep n ref r now)"
  "billing_appends env (publishCaptured env dep c n)"
  "billing_appends env (ConfirmTopUp env now c n x)"
  "billing_appends env (invoice_held i c)"
  "billing_appends env (payout_credited p)"
  "billing_appends env (publish_paid env p now)"
  "billing_appends env (release_one env now x cs r dep)"
  unfolding release_one_def CreateAccount_def settle_settlementAlreadyRecorded_def fee_settlementAlreadyRecorded_def
    appendFeeLedger_def appendReleaseLedger_def publishCaptured_def ConfirmTopUp_def invoice_held_def
    payout_credited_def publish_paid_def Let_def
  by (intro appends_intro)+

lemma exec_command_appends [appends_intro]: "billing_appends env (exec_command env cmd)"
  by (cases cmd; simp only: exec_command.simps void_def bid_deposit_def ReserveAuctionDeposit_def
      ReleaseAuctionDeposit_def CaptureAuctionDeposit_def ReleaseAuctionDepositsExceptCandidates_def
      CapturePlatformFeeFromDeposit_def SettleWinnerDepositAfterInvoicePaid_def
      releaseFullDeposit_def CreateTopUp_def ConfirmTopUpByProvider_def ConfirmTopUpByTopUpID_def
      confirm_executeLoaded_def CreateDealInvoice_def ConfirmDealInvoicePaid_def ExpireDealInvoice_def
      CreateSellerPayout_def MarkSellerPayoutReady_def MarkSellerPayoutFailed_def
      MarkSellerPayoutPaid_def try_load_def from_provider_def Let_def; intro appends_intro)

lemma run_command_appends: "billing_appends env (run_command env cmd)"
  by (cases cmd; simp only: run_command.simps; intro appends_intro)


subsection \<open>Trading\<close>

text \<open>Methods that touch neither the outbox nor the wallet.\<close>

definition silent :: "('w, 'a) trading \<Rightarrow> bool" where
  "silent m \<longleftrightarrow> (\<forall>s. ts_outbox (snd (m s)) = ts_outbox s \<and> ts_wallet (snd (m s)) = ts_wallet s)"

lemma silent_appends: "silent m \<Longrightarrow> appends ts_outbox P m"
    "silent n \<Longrightarrow> appends (\<lambda>s. bs_outbox (ts_wallet s)) Q n"
  by (simp_all add: silent_def appends_quiet)

lemma silent_base:
  "silent (domainE r)" "silent (next_id env)" "silent (auctions_load i)" "silent (auctions_Save au)"
  "silent (TopBids env i)" "silent (nextNonce i)" "silent (chain_insert op')"
  "silent (chain_update p f)" "silent (auctions_set_result i h)" "silent (auctions_mark i g')"
  "silent (winner_insert i w)" "silent (bids_set_hash i c n t h)" "silent (bids_mark i h bf)"
  "silent (bids_Save i b)" "silent (ListExpired env t lim)" "silent (modifyE (\<lambda>s. s\<lparr>ts_winners := ws s\<rparr>))"
  by (auto simp: silent_def domainE_def liftE_def readE_def next_id_def auctions_load_def
      auctions_Save_def TopBids_def nextNonce_def chain_insert_def chain_update_def
      auctions_set_result_def auctions_mark_def modifyE_def winner_insert_def bids_set_hash_def
      bids_mark_def bids_Save_def ListExpired_def Let_def split: option.split)

lemmas silent_steps [appends_intro] = silent_base [THEN silent_appends(1)]
  silent_base [THEN silent_appends(2)]

abbreviation trading_appends :: "trading_env \<Rightarrow> ('w, 'a) trading \<Rightarrow> bool" where
  "trading_appends env \<equiv> appends ts_outbox (own_row (te_id env) eventTypeFor)"

abbreviation wallet_appends :: "billing_env \<Rightarrow> (billing_store, 'a) trading \<Rightarrow> bool" where
  "wallet_appends benv \<equiv> appends (\<lambda>s. bs_outbox (ts_wallet s)) (own_row (env_id benv) billing_event_type)"

lemma trading_outbox_appends [appends_intro]:
  "trading_appends env (outbox_Add env now meta evs)"
  "wallet_appends benv (outbox_Add env now meta evs)"
proof -
  have "trading_appends env (outbox_put (outbox_row_for now meta i j ev) :: ('w, unit) trading)"
    if "i \<in> range (te_id env)" for i j ev
    unfolding outbox_put_def
    by (rule appends_zoom [where rows = "\<lambda>x. x"], rule appends_insert)
      (use that in \<open>simp_all add: unsent_def own_row_def outbox_row_for_def\<close>)
  then show "trading_appends env (outbox_Add env now meta evs :: ('w, unit) trading)"
    unfolding outbox_Add_def by (intro appends_for appends_draw [where I = "range (te_id env)"]) (auto simp: next_id_def)
  show "wallet_appends benv (outbox_Add env now meta evs)"
    unfolding outbox_Add_def outbox_put_def by (intro appends_intro appends_zoom_other) simp
qed

lemma on_wallet_appends [appends_intro]:
  "trading_appends env (on_wallet m)"
  "appends bs_outbox P n \<Longrightarrow> appends (\<lambda>s. bs_outbox (ts_wallet s)) P (on_wallet n)"
  unfolding on_wallet_def by (auto intro: appends_zoom_other appends_zoom)

lemma deposits_appends [appends_intro]:
  "appends bs_outbox (own_row (env_id benv) billing_event_type) (billing_deposits benv now c a p)"
  using exec_command_appends [of benv "CmdBidDeposit now c a p"]
  unfolding billing_deposits_def by (intro appends_intro) simp

lemma wallet_bid_appends:
  "wallet_appends benv (PlaceBid_loaded env (billing_deposits benv) now meta i n t a)"
  "trading_appends env (PlaceBid_loaded env deposits now meta i n t a)"
  unfolding PlaceBid_loaded_def EnqueueBidAnchor_def Let_def by (intro appends_intro)+

lemma trading_appends_steps [appends_intro]:
  "trading_appends env (winners_Save i ws)" "wallet_appends benv (winners_Save i ws)"
  "trading_appends env (mark_target op' f g)" "wallet_appends benv (mark_target op' f g)"
  "trading_appends env (CloseAuction env now meta i)" "wallet_appends benv (CloseAuction env now meta i)"
  "trading_appends env (cancel_with env now meta i ch)" "wallet_appends benv (cancel_with env now meta i ch)"
  "trading_appends env (PublishAuction env now meta i)" "wallet_appends benv (PublishAuction env now meta i)"
  unfolding winners_Save_def mark_target_def CloseAuction_def CloseAuction_loaded_def
    EnqueueAuctionFinalize_def cancel_with_def PublishAuction_def EnqueueAuctionCreate_def
  by (intro appends_intro)+

lemma create_appends [appends_intro]:
  "appends ts_outbox P idf \<Longrightarrow> appends ts_outbox P (CreateAuction_with idf l st e p step)"
  "wallet_appends benv idf' \<Longrightarrow> wallet_appends benv (CreateAuction_with idf' l st e p step)"
  unfolding CreateAuction_with_def Let_def by (intro appends_intro; assumption)+

lemma exec_trading_appends:
  "trading_appends env (exec_trading env deposits cmd)"
  "wallet_appends benv (exec_trading env (billing_deposits benv) cmd)"
  by (cases cmd; simp only: exec_trading.simps void_t_def PlaceBid_def CreateAuction_def
      SellerCancelAuction_def AdminCancelAuction_def closeExpiredAuctionsOnce_def close_one_def
      MarkSubmitted_def MarkSubmitFailed_def MarkConfirmedByTxHash_def MarkFailedByTxHash_def;
      intro appends_intro wallet_bid_appends)+

subsection \<open>Deals\<close>

abbreviation deals_appends :: "deals_env \<Rightarrow> 'a deals \<Rightarrow> bool" where
  "deals_appends env \<equiv> appends dst_outbox (own_row (de_id env) (\<lambda>ev. ''deals.'' @ deal_event_name ev))"

lemma deals_quiet [appends_intro]:
  "appends dst_outbox P (deals_Save d)" "appends dst_outbox P (deals_GetByID i)"
  "appends dst_outbox P (deals_GetByIDForUpdate i)" "appends dst_outbox P (confirmations_Save c)"
  "appends dst_outbox P (confirmations_find now p)" "appends dst_outbox P (projections_Save pj)"
  "appends dst_outbox P (projections_Get i)" "appends dst_outbox P (selections_Save w)"
  "appends dst_outbox P (selections_Get i)" "appends dst_outbox P (selections_GetForUpdate i)"
  "appends dst_outbox P (callE m x)" "appends dst_outbox P (raiseE r)" "appends dst_outbox P (checkE z)"
  by (rule appends_quiet; simp add: deals_Save_def deals_GetByID_def deals_GetByIDForUpdate_def
      confirmations_Save_def confirmations_find_def projections_Save_def projections_Get_def
      selections_Save_def selections_Get_def selections_GetForUpdate_def modifyE_def Let_def
      callE_def raiseE_def checkE_def liftE_def retE_def failE_def
      split: option.split prod.split sum.split)+

lemma deals_outbox_appends [appends_intro]: "deals_appends env (deals_outbox_Add env now evs)"
proof -
  have "deals_appends env (deals_outbox_put (deals_outbox_row now i j ev))"
    if "i \<in> range (de_id env)" for i j ev
    unfolding deals_outbox_put_def
    by (rule appends_zoom [where rows = "\<lambda>x. x"], rule appends_insert)
      (use that in \<open>simp_all add: unsent_def own_row_def deals_outbox_row_def\<close>)
  then show ?thesis
    unfolding deals_outbox_Add_def by (intro appends_for appends_draw [where I = "range (de_id env)"]) (auto simp: deals_newOutboxID_def)
qed

lemma deals_appends_steps [appends_intro]:
  "deals_appends env (first_offer env now a p sel)"
  "deals_appends env (offer_next env now a pre sel)"
  "deals_appends env (declined_auction a i)"
  "deals_appends env (reopen_if_confirmed sel)"
  "deals_appends env (executeDealMutation env now i ch)"
  "deals_appends env (deal_mutation_loaded env now ch d)"
  "deals_appends env (appendAuctionWinnerConfirmedIfNeeded d)"
  unfolding first_offer_def offer_next_def selection_failed_def declined_auction_def
    reopen_if_confirmed_def executeDealMutation_def deal_mutation_loaded_def
    appendAuctionWinnerConfirmedIfNeeded_def Let_def
  by (intro appends_intro)+

lemma find_or_appends [appends_intro]: "appends rows P m \<Longrightarrow> appends rows P (find_or e m)"
  unfolding find_or_def by (intro appends_intro)

lemma exec_deals_appends: "deals_appends env (exec_deals env cmd)"
  by (cases cmd; simp only: exec_deals.simps void_d_def CreateProjection_def
      CreateDealSelectionFromAuctionWon_def HandleDealDeclined_def ConfirmDeal_def PrepareContract_def
      SignContract_def RequestPayment_def RequestShipment_def MarkDealShipped_def CompleteDeal_def
      CancelDeal_def UpdateDealPrice_def RequestDealConfirmation_def ApproveDealConfirmation_def
      RejectDealConfirmation_def HandleDealInvoicePaid_def HandleDealInvoiceExpired_def
      confirmations_GetByID_def confirmations_GetPending_def Let_def; intro appends_intro)

subsection \<open>Catalog\<close>

abbreviation catalog_appends :: "catalog_env \<Rightarrow> 'a catalog \<Rightarrow> bool" where
  "catalog_appends env \<equiv> appends cst_outbox (own_row (ce_id env) (\<lambda>ev. ''catalog.'' @ catalog_event_name ev))"

lemma catalog_quiet [appends_intro]:
  "appends cst_outbox P (callC m x)" "appends cst_outbox P (requireC e b)"
  "appends cst_outbox P (newID env pre)" "appends cst_outbox P (fish_Get i)"
  "appends cst_outbox P (fish_Save fi)" "appends cst_outbox P (products_Get i)"
  "appends cst_outbox P (products_Save p)" "appends cst_outbox P (lots_Get i)"
  "appends cst_outbox P (lots_GetByAuctionID i)" "appends cst_outbox P (lots_Save l)"
  "appends cst_outbox P (validateProductRefs f u c)"
  by (rule appends_quiet; simp add: retE_def failE_def callC_def requireC_def newID_def
      catalog_random_def fish_Get_def fish_Save_def products_Get_def products_Save_def lots_find_def
      lots_Get_def lots_GetByAuctionID_def lots_Save_def validateProductRefs_def fish_Exists_def
      units_Exists_def readE_def modifyE_def processing_types_Exists_def bindE_def Let_def
      split: prod.split sum.split option.split)+

lemma catalog_outbox_appends [appends_intro]: "catalog_appends env (addEvents env now evs)"
proof -
  have "catalog_appends env (zoomE cst_outbox (\<lambda>o' s. s\<lparr>cst_outbox := o'\<rparr>)
      (outbox_insert CatUniqueViolation (catalog_outbox_row now i j ev)))"
    if "i \<in> range (ce_id env)" for i j ev
    by (rule appends_zoom [where rows = "\<lambda>x. x"], rule appends_insert)
      (use that in \<open>simp_all add: unsent_def own_row_def catalog_outbox_row_def\<close>)
  then have "catalog_appends env (catalog_outbox_Add env now evs)"
    unfolding catalog_outbox_Add_def catalog_outbox_one_def
    by (intro appends_for appends_draw [where I = "range (ce_id env)"]) (auto simp: catalog_random_def)
  then show ?thesis
    by (simp add: addEvents_def appends_basic)
qed

lemma save_events_appends [appends_intro]: "catalog_appends env (lot_save_events env now m l)"
  unfolding lot_save_events_def by (intro appends_intro)

lemma exec_catalog_appends: "catalog_appends env (exec_catalog env cmd)"
  by (cases cmd; simp only: exec_catalog.simps void_c_def CreateFish_def UpdateFish_def
      CreateProduct_def UpdateProduct_def PublishProduct_def UnpublishProduct_def CreateLot_def
      AssignAuctionID_def PublishLot_def UnpublishLot_def CloseLot_def HandleAuctionWon_def
      HandleBidPlaced_def HandleAuctionClosed_def HandleAuctionCancelled_def;
      intro appends_intro)

text \<open>The use cases the integration runtime calls.\<close>

lemma catalog_calls [appends_intro]:
  "catalog_appends env (AssignAuctionID env now i a)" "catalog_appends env (HandleBidPlaced env now a p)"
  "catalog_appends env (HandleAuctionClosed env now a)" "catalog_appends env (HandleAuctionCancelled env now a)"
  "catalog_appends env (HandleAuctionWon env now a p)" "catalog_appends env (GetLotAuctionID i)"
  using exec_catalog_appends [of env "CmdAssignAuction now i a"]
    exec_catalog_appends [of env "OnBidPlaced now a p"] exec_catalog_appends [of env "OnAuctionClosed now a"]
    exec_catalog_appends [of env "OnAuctionCancelled now a"] exec_catalog_appends [of env "OnAuctionWon now a p"]
  by (simp_all add: GetLotAuctionID_def appends_bind appends_basic catalog_quiet)

lemma deals_calls [appends_intro]:
  "deals_appends env (CreateProjection a sl sn p t)"
  "deals_appends env (CreateDealSelectionFromAuctionWon env now a cs p t)"
  "deals_appends env (HandleDealDeclined env now a d)" "deals_appends env (HandleDealInvoicePaid env now evt)"
  "deals_appends env (HandleDealInvoiceExpired env now evt)" "deals_appends env (CancelDeal env now meta d r)"
  using exec_deals_appends [of env "LotPublished a sl sn p t"]
    exec_deals_appends [of env "WinnersKnown now a cs p t"] exec_deals_appends [of env "Decline now a d"]
    exec_deals_appends [of env "InvoicePaid now evt"] exec_deals_appends [of env "InvoiceExpired now evt"]
    exec_deals_appends [of env "Cancel now meta d r"]
  by simp_all

lemma billing_calls [appends_intro]:
  "billing_appends env (ReleaseAuctionDepositsExceptCandidates env now a cs r)"
  "billing_appends env (CaptureAuctionDeposit env now c a r)"
  "billing_appends env (SettleWinnerDepositAfterInvoicePaid env now a c g p r)"
  "billing_appends env (ExpireDealInvoice env now i)"
  using exec_command_appends [of env "CmdReleaseExcept now a cs r"]
    exec_command_appends [of env "CmdCapture now c a r"]
    exec_command_appends [of env "CmdSettleWinner now a c g p r"]
    exec_command_appends [of env "CmdInvoiceExpire now i"]
  by simp_all

lemma billing_results [appends_intro]:
  "billing_appends env (bindE (CreateDealInvoice env now cmd) (\<lambda>_. retE ()))"
  "billing_appends env (bindE (CreateSellerPayout env now cmd') (\<lambda>_. retE ()))"
  using exec_command_appends [of env "CmdCreateInvoice now cmd"]
    exec_command_appends [of env "CmdCreatePayout now cmd'"]
  by (simp_all add: void_def)

end
