(* ===== verification/Platform.thy ===== *)
theory Platform
  imports Integration Relay_Correct Context_Outboxes
begin

section \<open>The platform as the relay sees it\<close>

text \<open>
  The rows of the outbox under the handlers of the runtime and the commands of the contexts: they are
  only appended to (\<open>platform_appends\<close>), so the platform is a client of the relay, and the lemmas of
  \<open>relay_client\<close> hold for the runtime. \<open>platform_run\<close> are the runs of the platform: commands of the
  contexts, the schedulers and rounds of the relay, in any order.
\<close>

definition id_sets :: "platform_env \<Rightarrow> string set list" where
  "id_sets env = [range (ce_id (pe_catalog env)), range (te_id (pe_trading env)),
     range (de_id (pe_deals env)), range (env_id (pe_billing env)), range (pe_id env)]"

definition company_event_type :: "company_event \<Rightarrow> string" where
  "company_event_type ev = ''identity.CompanyCreated''"

fun platform_event_type :: "platform_event \<Rightarrow> string" where
  "platform_event_type (CatalogEvent ev) = ''catalog.'' @ catalog_event_name ev"
| "platform_event_type (TradingEvent ev) = eventTypeFor ev"
| "platform_event_type (DealsEvent ev) = ''deals.'' @ deal_event_name ev"
| "platform_event_type (BillingEvent ev) = billing_event_type ev"
| "platform_event_type (IdentityEvent ev) = company_event_type ev"

text \<open>What the rows of each context are.\<close>

definition catalog_row :: "platform_env \<Rightarrow> catalog_event outbox_row \<Rightarrow> bool" where
  "catalog_row env = own_row (ce_id (pe_catalog env)) (\<lambda>ev. ''catalog.'' @ catalog_event_name ev)"

definition trading_row :: "platform_env \<Rightarrow> auction_event outbox_row \<Rightarrow> bool" where
  "trading_row env = own_row (te_id (pe_trading env)) eventTypeFor"

definition deals_row :: "platform_env \<Rightarrow> deal_event outbox_row \<Rightarrow> bool" where
  "deals_row env = own_row (de_id (pe_deals env)) (\<lambda>ev. ''deals.'' @ deal_event_name ev)"

definition billing_row :: "platform_env \<Rightarrow> billing_event outbox_row \<Rightarrow> bool" where
  "billing_row env = own_row (env_id (pe_billing env)) billing_event_type"

definition identity_row :: "platform_env \<Rightarrow> company_event outbox_row \<Rightarrow> bool" where
  "identity_row env = own_row (pe_id env) company_event_type"

lemmas row_kinds = catalog_row_def trading_row_def deals_row_def billing_row_def identity_row_def

definition part_good :: "('p outbox_row \<Rightarrow> bool) \<Rightarrow> 'p outbox_row list \<Rightarrow> bool" where
  "part_good P rows \<longleftrightarrow> distinct (map ob_id rows) \<and> list_all P rows"

text \<open>Contexts draw different identifiers, rows carry them, and \<open>UPDATE ... RETURNING\<close> returns each row once.\<close>

definition platform_good :: "platform_env \<Rightarrow> world \<Rightarrow> bool" where
  "platform_good env w \<longleftrightarrow> sorted_wrt (\<lambda>A B. A \<inter> B = {}) (id_sets env)
     \<and> part_good (catalog_row env) (cst_outbox (w_catalog w))
     \<and> part_good (trading_row env) (ts_outbox (w_trading w))
     \<and> part_good (deals_row env) (dst_outbox (w_deals w))
     \<and> part_good (billing_row env) (bs_outbox (ts_wallet (w_trading w)))
     \<and> part_good (identity_row env) (io_rows (w_identity w))
     \<and> (\<forall>rs. mset (pe_returned env rs) = mset rs)"

definition platform_appends :: "platform_env \<Rightarrow> 'a platform \<Rightarrow> bool" where
  "platform_appends env m \<longleftrightarrow>
     appends (\<lambda>w. cst_outbox (w_catalog w)) (catalog_row env) m
     \<and> appends (\<lambda>w. ts_outbox (w_trading w)) (trading_row env) m
     \<and> appends (\<lambda>w. dst_outbox (w_deals w)) (deals_row env) m
     \<and> appends (\<lambda>w. bs_outbox (ts_wallet (w_trading w))) (billing_row env) m
     \<and> appends (\<lambda>w. io_rows (w_identity w)) (identity_row env) m"

subsection \<open>The handlers only append\<close>

named_theorems platform_intro \<open>methods of the platform that only append to the outbox\<close>

lemma platform_basic [platform_intro]:
  "platform_appends env (retE a)" "platform_appends env (failE e)"
  by (simp_all add: platform_appends_def appends_basic)

lemma platform_bind [platform_intro]:
  "platform_appends env m \<Longrightarrow> (\<And>a. platform_appends env (f a)) \<Longrightarrow> platform_appends env (bindE m f)"
  by (simp add: platform_appends_def appends_bind)

lemma platform_unless [platform_intro]:
  "platform_appends env m \<Longrightarrow> platform_appends env (unless_error skip m)"
  unfolding unless_error_def platform_appends_def by (simp add: appends_catch appends_basic)

lemma platform_cases [platform_intro]:
  "platform_appends env m \<Longrightarrow> platform_appends env n \<Longrightarrow> platform_appends env (if b then m else n)"
  "(\<And>a b. platform_appends env (g a b)) \<Longrightarrow> platform_appends env (case p of (a, b) \<Rightarrow> g a b)"
  by (simp_all split: prod.split)

lemma platform_for [platform_intro]:
  "(\<And>x. platform_appends env (f x)) \<Longrightarrow> platform_appends env (forE f xs)"
  by (simp add: platform_appends_def appends_for)

lemma appends_inside:
  "appends rows P m \<Longrightarrow> (\<And>s t. rows' (put s t) = rows s) \<Longrightarrow> (\<And>t. rows' t = rows (get t))
    \<Longrightarrow> appends rows' P (inside get put wrap m)"
  "(\<And>s t. rows'' (put s t) = rows'' t) \<Longrightarrow> appends rows'' P (inside get put wrap m)"
  unfolding inside_def
  by (intro appends_catch appends_basic appends_zoom appends_zoom_other; simp)+

lemma platform_inside [platform_intro]:
  "catalog_appends (pe_catalog env) m1 \<Longrightarrow> platform_appends env (in_catalog m1)"
  "trading_appends (pe_trading env) m2 \<Longrightarrow> wallet_appends (pe_billing env) m2
    \<Longrightarrow> platform_appends env (in_trading m2)"
  "deals_appends (pe_deals env) m3 \<Longrightarrow> platform_appends env (in_deals m3)"
  "billing_appends (pe_billing env) m4 \<Longrightarrow> platform_appends env (in_billing m4)"
  unfolding platform_appends_def row_kinds in_catalog_def in_trading_def in_deals_def in_billing_def
  by (intro conjI; (erule appends_inside(1) | rule appends_inside(2)); simp)+

lemma next_id_appends: "trading_appends env (next_id env')" "wallet_appends benv (next_id env')"
  by (simp_all add: appends_def next_id_def)

lemma unless_appends [appends_intro]: "appends rows P m \<Longrightarrow> appends rows P (unless_error skip m)"
  unfolding unless_error_def by (intro appends_intro)

lemma invoice_matches_appends [appends_intro]: "appends rows P (invoice_matches evt i)"
  by (simp add: invoice_matches_def appends_basic split: deal_event.split)

lemma lot_published_appends: "platform_appends env (lot_published_steps env clock envelope evt)"
  unfolding lot_published_steps_def auctionIDForLot_def Let_def
  by (intro platform_intro appends_intro next_id_appends)

lemma handlers_append: "(t, h) \<in> set (registerIntegrationHandlers env clock) \<Longrightarrow> platform_appends env (h envelope)"
  unfolding registerIntegrationHandlers_def
  by (auto simp: Subscribe_def lotPublished_Execute_def ExecuteBidPlaced_def ExecuteAuctionClosed_def
      ExecuteAuctionCancelled_def auctionWon_Execute_def dealCancelled_Execute_def
      winnerRejected_Execute_def companyCreated_Execute_def paymentRequested_Execute_def
      dealInvoicePaid_Execute_def dealInvoiceExpired_Execute_def winnerSelectionFinalized_Execute_def
      split: platform_event.split catalog_event.split auction_event.split deal_event.split
        billing_event.split company_event.split
      intro!: platform_intro appends_intro lot_published_appends)

subsection \<open>The platform is a client of the relay\<close>

lemma map_row_fields [simp]:
  "ob_id (map_row f r) = ob_id r" "unsent (map_row f r) = unsent r"
  "ob_payload (map_row f r) = f (ob_payload r)" "ob_attempts (map_row f r) = ob_attempts r"
  "ob_event_type (map_row f r) = ob_event_type r"
  by (simp_all add: map_row_def unsent_def)

lemma map_row_ids [simp]: "ob_id \<circ> map_row f = ob_id"
  by (simp add: comp_def)

lemma map_mark_id: "map (map_row f) (mark_id i m rows) =
    map (\<lambda>r. if ob_id r = i then mark_row m r else r) (map (map_row f) rows)"
proof -
  have "map_row f (mark_row m r) = mark_row m (map_row f r)" for r
    by (cases m) (simp_all add: map_row_def)
  then show ?thesis
    by (simp add: mark_id_def row_update_def)
qed

lemma mark_id_ids [simp]: "map ob_id (mark_id i m rows) = map ob_id rows"
  by (simp add: mark_id_def row_update_def)

lemma own_row_mark [simp]: "own_row ids ty (mark_row m r) = own_row ids ty r"
  by (cases m) (simp_all add: own_row_def)

lemma part_good_mark [simp]: "part_good (own_row ids ty) (mark_id i m rows) = part_good (own_row ids ty) rows"
proof -
  have "own_row ids ty (if b then mark_row m r else r) = own_row ids ty r" for b r
    by simp
  then show ?thesis
    unfolding part_good_def mark_id_ids by (simp add: mark_id_def row_update_def list.pred_map comp_def)
qed

lemma part_good_extends: "part_good P rows \<Longrightarrow> extends P rows rows' \<Longrightarrow> part_good P rows'"
  unfolding part_good_def extends_def by auto

lemma part_ids: "part_good (own_row ids ty) rows \<Longrightarrow> ob_id ` set rows \<subseteq> range ids"
  by (auto simp: part_good_def own_row_def list_all_iff)

lemma disjoint_parts:
  "A \<subseteq> (I :: 'a set) \<Longrightarrow> B \<subseteq> J \<Longrightarrow> C \<subseteq> K \<Longrightarrow> D \<subseteq> L \<Longrightarrow> E \<subseteq> M
    \<Longrightarrow> sorted_wrt (\<lambda>A B. A \<inter> B = {}) [I, J, K, L, M]
    \<Longrightarrow> A \<inter> (B \<union> (C \<union> (D \<union> E))) = {} \<and> B \<inter> (C \<union> (D \<union> E)) = {} \<and> C \<inter> (D \<union> E) = {} \<and> D \<inter> E = {}"
proof -
  have mono: "X \<inter> Y = {}" if "X \<subseteq> P" "Y \<subseteq> Q" "P \<inter> Q = {}" for X Y P Q :: "'a set"
    using that by blast
  assume sub: "A \<subseteq> I" "B \<subseteq> J" "C \<subseteq> K" "D \<subseteq> L" "E \<subseteq> M"
    and dis: "sorted_wrt (\<lambda>A B. A \<inter> B = {}) [I, J, K, L, M]"
  show ?thesis
    unfolding Int_Un_distrib Un_empty
    by (intro conjI; rule mono; (rule sub)?) (use dis in simp_all)
qed

lemma good_ids: "platform_good env w \<Longrightarrow> ids_distinct outbox_messages w"
proof -
  assume g: "platform_good env w"
  note parts = g [unfolded platform_good_def row_kinds id_sets_def]
  have dist: "part_good P rows \<Longrightarrow> distinct (map ob_id rows)" for P :: "'p outbox_row \<Rightarrow> bool" and rows
    by (simp add: part_good_def)
  have "ob_id ` set (cst_outbox (w_catalog w)) \<subseteq> range (ce_id (pe_catalog env))"
    "ob_id ` set (ts_outbox (w_trading w)) \<subseteq> range (te_id (pe_trading env))"
    "ob_id ` set (dst_outbox (w_deals w)) \<subseteq> range (de_id (pe_deals env))"
    "ob_id ` set (bs_outbox (ts_wallet (w_trading w))) \<subseteq> range (env_id (pe_billing env))"
    "ob_id ` set (io_rows (w_identity w)) \<subseteq> range (pe_id env)"
    using parts by (blast dest: part_ids)+
  note apart = disjoint_parts [OF this parts [THEN conjunct1]]
  have "distinct (map ob_id (cst_outbox (w_catalog w)))" "distinct (map ob_id (ts_outbox (w_trading w)))"
    "distinct (map ob_id (dst_outbox (w_deals w)))" "distinct (map ob_id (bs_outbox (ts_wallet (w_trading w))))"
    "distinct (map ob_id (io_rows (w_identity w)))"
    using parts by (blast dest: dist)+
  then have "distinct (map ob_id (platform_rows w))"
    unfolding platform_rows_def map_append map_map map_row_ids distinct_append set_append set_map
    using apart by - (elim conjE, intro conjI; assumption)
  then show ?thesis
    by (simp add: ids_distinct_def outbox_messages_def)
qed

text \<open>Rows are found by their identifiers, old ones and new ones.\<close>

lemma found_row:
  "platform_good env w \<Longrightarrow> row_of_id outbox_messages i w = Some r \<longleftrightarrow>
    r \<in> set (platform_rows w) \<and> ob_id r = i"
  using good_ids [of env w] row_select_key [of ob_id "platform_rows w" r]
    row_select_SomeD [of "\<lambda>r. ob_id r = i" "platform_rows w" r]
  by (auto simp: row_of_id_def ids_distinct_def outbox_messages_def)

lemma extends_row: "extends P rows rows' \<Longrightarrow> r \<in> map_row f ` set rows'
    \<Longrightarrow> r \<in> map_row f ` set rows \<or> unsent r"
  by (auto simp: extends_def list_all_iff)

lemma extends_old: "extends P rows rows' \<Longrightarrow> set rows \<subseteq> set rows'"
  by (auto simp: extends_def)

lemma appended_rows:
  assumes "platform_appends env m" "platform_good env w" "t = snd (m w)"
  shows "rows_kept outbox_messages w t" "platform_good env t"
proof -
  have ext: "extends (catalog_row env) (cst_outbox (w_catalog w)) (cst_outbox (w_catalog t))"
    "extends (trading_row env) (ts_outbox (w_trading w)) (ts_outbox (w_trading t))"
    "extends (deals_row env) (dst_outbox (w_deals w)) (dst_outbox (w_deals t))"
    "extends (billing_row env) (bs_outbox (ts_wallet (w_trading w)))
       (bs_outbox (ts_wallet (w_trading t)))"
    "extends (identity_row env) (io_rows (w_identity w)) (io_rows (w_identity t))"
    using assms(1,3) by (simp_all add: platform_appends_def appends_def)
  show good: "platform_good env t"
    using assms(2) ext [THEN part_good_extends [rotated]] by (simp add: platform_good_def)
  have old: "set (platform_rows w) \<subseteq> set (platform_rows t)"
    using ext [THEN extends_old] by (auto simp: platform_rows_def)
  have new: "r \<in> set (platform_rows w) \<or> unsent r" if "r \<in> set (platform_rows t)" for r
    using that unfolding platform_rows_def set_append set_map Un_iff
    by - (elim disjE; drule ext [THEN extends_row]; blast)
  show "rows_kept outbox_messages w t"
    unfolding rows_kept_def
  proof
    fix i
    show "same_or_new outbox_messages i w t"
    proof (cases "row_of_id outbox_messages i w")
      case (Some r)
      then have "row_of_id outbox_messages i t = Some r"
        using old unfolding found_row [OF assms(2)] found_row [OF good] by blast
      then show ?thesis
        using Some by (simp add: same_or_new_def)
    next
      case None
      then have "unsent r" if "row_of_id outbox_messages i t = Some r" for r
        using that new [of r] found_row [OF assms(2), of i r] unfolding found_row [OF good] by auto
      then show ?thesis
        using None by (cases "row_of_id outbox_messages i t") (auto simp: same_or_new_def)
    qed
  qed
qed

interpretation platform: relay_client "relay_env_of env" outbox_messages "registerIntegrationHandlers env"
  "platform_good env" for env
proof
  show "tb_rows outbox_messages (tb_update outbox_messages i m w) =
      map (\<lambda>r. if ob_id r = i then mark_row m r else r) (tb_rows outbox_messages w)" for i m w
    by (simp add: outbox_messages_def platform_update_def platform_rows_def Let_def map_mark_id)
  show "platform_good env w \<Longrightarrow> ids_distinct outbox_messages w" for w
    by (rule good_ids)
  show "platform_good env w \<Longrightarrow> mset (re_returned (relay_env_of env) rs) = mset rs" for w rs
    by (simp add: platform_good_def relay_env_of_def)
  show "platform_good env w \<Longrightarrow> platform_good env (tb_update outbox_messages i m w)" for i m w
    by (simp add: platform_good_def outbox_messages_def platform_update_def Let_def row_kinds)
  show "rows_kept outbox_messages w (snd (h e w)) \<and> platform_good env (snd (h e w))"
    if "platform_good env w" "(t, h) \<in> set (registerIntegrationHandlers env clock)" for w t h clock e
    using appended_rows [OF handlers_append [OF that(2)] that(1) refl] by blast
qed

subsection \<open>Runs of the platform\<close>

datatype platform_command =
    CatalogCommand catalog_command
  | TradingCommand trading_command
  | DealsCommand deals_command
  | BillingCommand billing_command
  | RegisterCompany time string
  | CancelExpiredDeals time "nat \<Rightarrow> time" int
  | ExpireDealInvoices time "nat \<Rightarrow> time" int

definition in_identity :: "(identity_outbox, unit, unit) exec \<Rightarrow> unit platform" where
  "in_identity m w = (case m (w_identity w) of (r, y) \<Rightarrow> (Inr (), w\<lparr>w_identity := y\<rparr>))"

fun exec_platform :: "platform_env \<Rightarrow> platform_command \<Rightarrow> unit platform" where
  "exec_platform env (CatalogCommand cmd) = in_catalog (exec_catalog (pe_catalog env) cmd)"
| "exec_platform env (TradingCommand cmd) =
     in_trading (exec_trading (pe_trading env) (billing_deposits (pe_billing env)) cmd)"
| "exec_platform env (DealsCommand cmd) = in_deals (exec_deals (pe_deals env) cmd)"
| "exec_platform env (BillingCommand cmd) = in_billing (run_command (pe_billing env) cmd)"
| "exec_platform env (RegisterCompany now c) = in_identity (PublishCompanyCreated env now c)"
| "exec_platform env (CancelExpiredDeals now clock limit) = RunCancelExpiredDeals env now clock limit"
| "exec_platform env (ExpireDealInvoices now clock limit) = RunExpireDealInvoices env now clock limit"

lemma company_appends: "platform_appends env (in_identity (PublishCompanyCreated env now c))"
proof -
  have "appends (\<lambda>w. io_rows (w_identity w)) (identity_row env) (in_identity (PublishCompanyCreated env now c))"
    by (auto simp: appends_def in_identity_def PublishCompanyCreated_def zoomE_def unsent_def
        identity_row_def own_row_def company_event_type_def elim!: extends_inserted split: prod.splits)
  then show ?thesis
    by (simp add: platform_appends_def appends_def in_identity_def split: prod.split)
qed

lemma exec_platform_appends: "platform_appends env (exec_platform env cmd)"
  by (cases cmd; simp only: exec_platform.simps RunCancelExpiredDeals_def RunExpireDealInvoices_def
      ListExpiredForFallback_def ListExpiredInvoices_def;
      intro platform_intro appends_intro exec_catalog_appends exec_trading_appends exec_deals_appends
        run_command_appends company_appends)

inductive platform_run :: "platform_env \<Rightarrow> world \<Rightarrow> string list \<Rightarrow> world \<Rightarrow> bool" for env w where
  start: "platform_run env w [] w"
| command: "platform_run env w is t \<Longrightarrow> platform_run env w is (snd (exec_platform env cmd t))"
| relay: "platform_run env w is t \<Longrightarrow> platform_run env w
    (is @ claimed_ids (relay_env_of env) outbox_messages (clock 0 0) limit t)
    (snd (runtime_RunOnce env clock limit t))"

lemma run_trace: "platform_run env w is t \<Longrightarrow> platform_good env w \<Longrightarrow>
    relay_trace (relay_env_of env) outbox_messages (registerIntegrationHandlers env) (platform_good env) w is t
    \<and> platform_good env t"
proof (induction rule: platform_run.induct)
  case start
  then show ?case
    by (simp add: relay_trace.start)
next
  case (command \<iota> t cmd)
  then show ?case
    using appended_rows [OF exec_platform_appends _ refl] by (blast intro: relay_trace.other)
next
  case (relay \<iota> t clock limit)
  obtain res u where u: "RunOnce (relay_env_of env) outbox_messages (registerIntegrationHandlers env) clock limit t = (res, u)"
    by (rule prod.exhaust)
  have "platform_good env u"
    using relay platform.relay_round(1) [OF _ u refl] by blast
  moreover have "relay_trace (relay_env_of env) outbox_messages (registerIntegrationHandlers env)
      (platform_good env) w (\<iota> @ claimed_ids (relay_env_of env) outbox_messages (clock 0 0) limit t)
      (snd (RunOnce (relay_env_of env) outbox_messages (registerIntegrationHandlers env) clock limit t))"
    by (rule relay_trace.round) (use relay in blast)
  ultimately show ?case
    by (simp add: runtime_RunOnce_def u)
qed

end
