(* ===== verification/Platform_Keeps.thy ===== *)
theory Platform_Keeps
  imports Platform
begin

section \<open>The handlers and the invariants of the contexts\<close>

text \<open>
  \<open>platform_inv\<close> is the invariant of every context at once; a delivery keeps it (\<open>delivery_keeps\<close>), with the
  conditions the commands of the contexts have: an auction starts at a positive time and under an
  identifier trading has drawn, a deal is created at a time no other deal was, amounts are \<open>int64\<close>s. The
  second half is about the handler of LotPublished: what it leaves, and that it can run again.
\<close>

definition platform_inv :: "platform_env \<Rightarrow> world \<Rightarrow> bool" where
  "platform_inv env w \<longleftrightarrow> catalog_inv (pe_catalog env) (w_catalog w)
     \<and> trading_inv (pe_trading env) (w_trading w) \<and> deals_inv (pe_deals env) (w_deals w)
     \<and> billing_inv (pe_billing env) (ts_wallet (w_trading w))"

definition platform_env_ok :: "platform_env \<Rightarrow> bool" where
  "platform_env_ok env \<longleftrightarrow> inj (ce_id (pe_catalog env)) \<and> env_ok (pe_trading env) \<and> inj (de_id (pe_deals env))"

subsection \<open>Weakest preconditions over the world\<close>

lemma wpE_inside: "wpE (inside get put wrap m) Q R w =
    wpE m (\<lambda>a s. Q a (put s w)) (\<lambda>e s. R (wrap e) (put s w)) (get w)"
  by (auto simp: inside_def catchE_def zoomE_def failE_def wpE_def split: prod.split sum.split)

lemma wpE_in:
  "wpE (in_catalog m1) Q1 R w = wpE m1 (\<lambda>a s. Q1 a (w\<lparr>w_catalog := s\<rparr>))
     (\<lambda>e s. R (InCatalog e) (w\<lparr>w_catalog := s\<rparr>)) (w_catalog w)"
  "wpE (in_trading m2) Q2 R w = wpE m2 (\<lambda>a s. Q2 a (w\<lparr>w_trading := s\<rparr>))
     (\<lambda>e s. R (InTrading e) (w\<lparr>w_trading := s\<rparr>)) (w_trading w)"
  "wpE (in_deals m3) Q3 R w = wpE m3 (\<lambda>a s. Q3 a (w\<lparr>w_deals := s\<rparr>))
     (\<lambda>e s. R (InDeals e) (w\<lparr>w_deals := s\<rparr>)) (w_deals w)"
  "wpE (in_billing m4) Q4 R w = wpE m4 (\<lambda>a s. Q4 a (w\<lparr>w_trading := (w_trading w)\<lparr>ts_wallet := s\<rparr>\<rparr>))
     (\<lambda>e s. R (InBilling e) (w\<lparr>w_trading := (w_trading w)\<lparr>ts_wallet := s\<rparr>\<rparr>)) (ts_wallet (w_trading w))"
  by (simp_all add: in_catalog_def in_trading_def in_deals_def in_billing_def wpE_inside)

lemma wpE_unless: "wpE (unless_error skip m) Q R w =
    wpE m Q (\<lambda>e s. if skip e then Q () s else R e s) w"
  by (auto simp: unless_error_def wpE_def catchE_def retE_def failE_def split: prod.split sum.split)

text \<open>A method that keeps the invariant of its context keeps all of them.\<close>

abbreviation plat_ok :: "platform_env \<Rightarrow> 'a platform \<Rightarrow> world \<Rightarrow> bool" where
  "plat_ok env m w \<equiv> wpE m (\<lambda>_. platform_inv env) (\<lambda>_. platform_inv env) w"

lemma snd_wp: "I (snd (m s)) \<Longrightarrow> wpE m (\<lambda>_. I) (\<lambda>_. I) s"
  by (auto simp: wpE_def split: prod.split sum.split)

lemma catalog_step:
  assumes "platform_inv env w" "catalog_inv (pe_catalog env) (snd (m (w_catalog w)))"
  shows "plat_ok env (in_catalog m) w"
  unfolding wpE_in by (rule wpE_mono [OF snd_wp [where I = "catalog_inv (pe_catalog env)" and m = m, OF assms(2)]])
    (use assms(1) in \<open>simp_all add: platform_inv_def\<close>)

lemma deals_step:
  assumes "platform_inv env w" "wpE m (\<lambda>_. deals_inv (pe_deals env)) (\<lambda>_. deals_inv (pe_deals env)) (w_deals w)"
  shows "plat_ok env (in_deals m) w"
  unfolding wpE_in by (rule wpE_mono [OF assms(2)])
    (use assms(1) in \<open>simp_all add: platform_inv_def\<close>)

lemma billing_step:
  assumes "platform_inv env w" "keeps (pe_billing env) m"
  shows "plat_ok env (in_billing (db_tx m)) w"
proof -
  have "trading_inv (pe_trading env) ((w_trading w)\<lparr>ts_wallet := s\<rparr>)" for s
    by (rule inv_frame [of _ "w_trading w"]) (use assms(1) in \<open>simp_all add: platform_inv_def\<close>)
  then show ?thesis
    unfolding wpE_in
    by (intro wpE_mono [OF snd_wp [where I = "billing_inv (pe_billing env)" and m = "db_tx m", OF tx_keeps [OF assms(2)]]])
      (use assms(1) in \<open>simp_all add: platform_inv_def\<close>)
qed

lemma trading_step:
  assumes inv: "platform_inv env w" and q: "quiet m"
    and t: "wpE m (\<lambda>_. trading_inv (pe_trading env)) (\<lambda>_. trading_inv (pe_trading env)) (w_trading w)"
  shows "plat_ok env (in_trading m) w"
proof -
  have "wpE m (\<lambda>_. same_bidders (w_trading w)) (\<lambda>_. same_bidders (w_trading w)) (w_trading w)"
    using q by (simp add: quiet_def)
  then have "wpE m (\<lambda>_ s. trading_inv (pe_trading env) s \<and> ts_wallet s = ts_wallet (w_trading w))
      (\<lambda>_ s. trading_inv (pe_trading env) s \<and> ts_wallet s = ts_wallet (w_trading w)) (w_trading w)"
    using t by (auto simp: wpE_def same_bidders_def split: prod.splits sum.splits)
  then show ?thesis
    unfolding wpE_in by (rule wpE_mono) (use inv in \<open>simp_all add: platform_inv_def\<close>)
qed

lemma plat_bind:
  "plat_ok env m w \<Longrightarrow> (\<And>a t. platform_inv env t \<Longrightarrow> plat_ok env (f a) t) \<Longrightarrow> plat_ok env (bindE m f) w"
  unfolding wpE_bind by (erule wpE_mono) simp_all

lemma plat_unless: "plat_ok env m w \<Longrightarrow> plat_ok env (unless_error skip m) w"
  unfolding wpE_unless by (erule wpE_mono) simp_all

lemma plat_done: "platform_inv env w \<Longrightarrow> plat_ok env (retE a) w" "platform_inv env w \<Longrightarrow> plat_ok env (failE e) w"
  by (simp_all add: wpE_ret wpE_fail)

subsection \<open>Deliveries\<close>

definition auction_drawn :: "platform_env \<Rightarrow> world \<Rightarrow> string \<Rightarrow> bool" where
  "auction_drawn env w i \<longleftrightarrow> i \<in> te_id (pe_trading env) ` {..<ts_ids (w_trading w)}"

text \<open>The auction a published lot names, in the event or in its row, is one that trading has drawn.\<close>

definition lot_link_ok :: "platform_env \<Rightarrow> world \<Rightarrow> lot_published \<Rightarrow> bool" where
  "lot_link_ok env w evt \<longleftrightarrow> (lp_auction evt = '''' \<or> auction_drawn env w (lp_auction evt))
     \<and> (\<forall>r \<in> set (cst_lots (w_catalog w)). \<forall>a. lw_id r = lp_lot evt \<and> lw_auction r = Some a
          \<longrightarrow> auction_drawn env w a)"

fun delivery_ok :: "platform_env \<Rightarrow> (nat \<Rightarrow> time) \<Rightarrow> world \<Rightarrow> platform_event \<Rightarrow> bool" where
  "delivery_ok env clock w (CatalogEvent (CatLotPublished evt)) \<longleftrightarrow>
     0 < lp_startsAt evt \<and> lot_link_ok env w evt"
| "delivery_ok env clock w (TradingEvent (AuctionWon i l cs p)) \<longleftrightarrow>
     fresh_id (pe_deals env) (clock 1) (w_deals w)"
| "delivery_ok env clock w (DealsEvent (DealCancelled d r c t)) \<longleftrightarrow>
     fresh_id (pe_deals env) (clock 1) (w_deals w)"
| "delivery_ok env clock w (BillingEvent (DealInvoiceExpired i d a b n c t)) \<longleftrightarrow>
     fresh_id (pe_deals env) (clock 1) (w_deals w)"
| "delivery_ok env clock w (DealsEvent (PaymentRequested d a b s c g n t u)) \<longleftrightarrow> is_int64 g"
| "delivery_ok env clock w _ \<longleftrightarrow> True"

lemma catalog_command:
  assumes "platform_env_ok env" "platform_inv env w" "catalog_ok cmd"
  shows "plat_ok env (in_catalog (exec_catalog (pe_catalog env) cmd)) w"
  by (rule catalog_step [OF assms(2) exec_catalog_inv [OF _ _ assms(3)]])
    (use assms in \<open>simp_all add: platform_env_ok_def platform_inv_def\<close>)

lemma deals_step':
  assumes "platform_env_ok env" "platform_inv env w" "deals_ok (pe_deals env) (w_deals w) cmd"
  shows "plat_ok env (in_deals (exec_deals (pe_deals env) cmd)) w"
  by (rule deals_step [OF assms(2) exec_deals_wp [OF _ _ assms(3)]])
    (use assms in \<open>simp_all add: platform_env_ok_def platform_inv_def\<close>)

lemma finalize_keeps: "keeps benv (bindE (invoices_LoadByDealID d) (\<lambda>i.
    bindE (invoice_matches evt i) (\<lambda>_.
    bindE (SettleWinnerDepositAfterInvoicePaid benv t1 a c g f r) (\<lambda>_.
    bindE (ReleaseAuctionDepositsExceptCandidates benv t2 a cs r) (\<lambda>_.
    bindE (CreateSellerPayout benv t3 cmd) (\<lambda>_. retE ()))))))"
proof -
  have seq: "keeps benv (bindE m f)" if "keeps benv m" "\<And>a. keeps benv (f a)" for m :: "'a billing" and f :: "'a \<Rightarrow> 'b billing"
    using that unfolding keeps_def wpE_bind by (blast intro: wpE_mono)
  have read: "keeps benv (invoices_LoadByDealID d)" "keeps benv (retE ())" "keeps benv (invoice_matches evt i)" for i
    by (auto simp: keeps_def invoice_matches_def wp_simps split: option.split deal_event.split)
  show ?thesis
    by (intro seq read SettleWinnerDepositAfterInvoicePaid_keeps
        ReleaseAuctionDepositsExceptCandidates_keeps CreateSellerPayout_keeps)
qed

lemma lot_auction_found:
  assumes "catalog_inv cenv s"
  shows "wpE (GetLotAuctionID i) (\<lambda>a t. t = s \<and> (a = '''' \<or> (\<exists>r \<in> set (cst_lots s). lw_id r = i \<and> lw_auction r = Some a)))
    (\<lambda>_ t. t = s) s"
proof -
  have "wpE (lots_find (\<lambda>r. lw_id r = i)) (\<lambda>l t. t = s \<and> lot_row_of l \<in> set (cst_lots s) \<and> l_id l = i) (\<lambda>_ _. True) s"
    by (rule lots_find_wp [OF assms]) simp
  then show ?thesis
    by (auto simp: GetLotAuctionID_def lots_Get_def wpE_def bindE_def retE_def lots_find_def nullIfBlank_def
        split: prod.splits sum.splits option.splits intro!: bexI [of _ "lot_row_of _"])
qed

text \<open>The handler once it knows the auction \<open>i\<close>, and how it gets there.\<close>

definition lot_rest ::
  "platform_env \<Rightarrow> (nat \<Rightarrow> time) \<Rightarrow> platform_event envelope \<Rightarrow> lot_published \<Rightarrow> string \<Rightarrow> string \<Rightarrow> unit platform" where
  "lot_rest env clock envelope evt i existing =
     bindE (in_trading (CreateAuction_with (retE i) (lp_lot evt) (lp_startsAt evt) (lp_endsAt evt)
       (lp_startPrice evt) (if lp_minBidStep evt \<le> 0 then 1 else lp_minBidStep evt))) (\<lambda>_.
     bindE (unless_error cannot_publish (in_trading
       (PublishAuction (pe_trading env) (clock 1) (tradingMetaFromEnvelope envelope) i))) (\<lambda>_.
     bindE (if lp_auction evt = '''' \<and> existing = ''''
            then unless_error (\<lambda>e. e = InCatalog (CatalogError ErrAlreadyAssigned))
              (in_catalog (AssignAuctionID (pe_catalog env) (clock 2) (lp_lot evt) i))
            else retE ()) (\<lambda>_.
     in_deals (CreateProjection i (lp_seller evt) (dealSnapshotFromLot evt) (lp_startPrice evt)
       (en_occurredAt envelope)))))"

definition lot_auction_chosen :: "lot_published \<Rightarrow> world \<Rightarrow> string \<Rightarrow> string \<Rightarrow> bool" where
  "lot_auction_chosen evt w i existing \<longleftrightarrow>
     (if lp_auction evt = '''' then GetLotAuctionID (lp_lot evt) (w_catalog w) = (Inr existing, w_catalog w)
        \<and> (existing \<noteq> '''' \<longrightarrow> i = existing)
      else i = lp_auction evt \<and> existing = '''')"

lemma lot_published_rule:
  assumes inv: "platform_inv env w" and ok: "lot_link_ok env w evt"
    and R: "\<And>e v. platform_inv env v \<Longrightarrow> R e v"
    and rest: "\<And>v i existing n. platform_inv env v \<Longrightarrow> auction_drawn env v i
      \<Longrightarrow> v = w\<lparr>w_trading := (w_trading w)\<lparr>ts_ids := n\<rparr>\<rparr> \<Longrightarrow> lot_auction_chosen evt w i existing
      \<Longrightarrow> wpE (lot_rest env clock envelope evt i existing) Q R v"
  shows "wpE (lot_published_steps env clock envelope evt) Q R w"
proof -
  let ?get = "if lp_auction evt = '''' then in_catalog (GetLotAuctionID (lp_lot evt)) else retE ''''"
  let ?v = "\<lambda>n. w\<lparr>w_trading := (w_trading w)\<lparr>ts_ids := n\<rparr>\<rparr>"
  let ?rest = "\<lambda>i existing. lot_rest env clock envelope evt (if existing \<noteq> '''' then existing else i) existing"
  have chosen: "wpE (bindE ?get (?rest i)) Q R (?v n)"
    if v: "platform_inv env (?v n)" "auction_drawn env (?v n) i" and n: "ts_ids (w_trading w) \<le> n"
      and i: "lp_auction evt \<noteq> '''' \<Longrightarrow> i = lp_auction evt" for i n
  proof (cases "lp_auction evt = ''''")
    case True
    have "wpE (GetLotAuctionID (lp_lot evt)) (\<lambda>a t. t = w_catalog w \<and> GetLotAuctionID (lp_lot evt) (w_catalog w) = (Inr a, t)
        \<and> (a \<noteq> '''' \<longrightarrow> auction_drawn env (?v n) a)) (\<lambda>_ t. t = w_catalog w) (w_catalog w)"
      using lot_auction_found [of "pe_catalog env" "w_catalog w" "lp_lot evt"] inv ok n
      by (fastforce simp: wpE_def platform_inv_def lot_link_ok_def auction_drawn_def split: prod.splits sum.splits)
    then show ?thesis
      using True v R by (simp add: wpE_bind wpE_in) (erule wpE_mono; auto simp: lot_auction_chosen_def intro!: rest)
  next
    case False
    then show ?thesis
      using v i by (simp add: wpE_bind wpE_ret) (auto simp: lot_auction_chosen_def intro!: rest)
  qed
  have "wpE (bindE (auctionIDForLot env evt) (\<lambda>i. bindE ?get (?rest i))) Q R w"
  proof (cases "lp_auction evt = ''''")
    case True
    have "trading_inv (pe_trading env) ((w_trading w)\<lparr>ts_ids := Suc (ts_ids (w_trading w))\<rparr>)"
      by (rule inv_frame [of _ "w_trading w"]) (use inv in \<open>simp_all add: platform_inv_def\<close>)
    then have "platform_inv env (?v (Suc (ts_ids (w_trading w))))"
      using inv by (simp add: platform_inv_def)
    then show ?thesis
      using True chosen [of "Suc (ts_ids (w_trading w))" "te_id (pe_trading env) (ts_ids (w_trading w))"]
      by (simp add: auctionIDForLot_def wpE_bind [of "in_trading _"] wpE_in)
        (simp add: wpE_def [of "next_id _"] next_id_def auction_drawn_def lessThan_Suc)
  next
    case False
    then show ?thesis
      using chosen [of "ts_ids (w_trading w)" "lp_auction evt"] inv ok
      by (simp add: auctionIDForLot_def wpE_bind [of "retE _"] wpE_ret lot_link_ok_def)
  qed
  then show ?thesis
    using R [OF inv] unfolding lot_published_steps_def Let_def lot_rest_def by (simp add: wpE_fail)
qed

lemma lot_published_ok:
  assumes env: "platform_env_ok env" and inv: "platform_inv env w"
    and ok: "0 < lp_startsAt evt" "lot_link_ok env w evt"
  shows "plat_ok env (lot_published_steps env clock envelope evt) w"
proof (rule lot_published_rule [OF inv ok(2)])
  fix v i existing
  assume v: "platform_inv env v" "auction_drawn env v i"
  have create: "plat_ok env (in_trading (CreateAuction_with (retE i) l (lp_startsAt evt) e p n)) v" for l e p n
  proof (intro trading_step [OF v(1)] Create_with_keeps)
    show "quiet (CreateAuction_with (retE i) l (lp_startsAt evt) e p n :: (billing_store, string) trading)"
      unfolding CreateAuction_with_def Let_def by (intro quiet_intro)
  qed (use v ok in \<open>simp_all add: platform_inv_def auction_drawn_def\<close>)
  have rest: "plat_ok env (unless_error cannot_publish (in_trading (PublishAuction (pe_trading env) now meta i))) t"
      "plat_ok env (if b then unless_error skip (in_catalog (AssignAuctionID (pe_catalog env) now l i)) else retE ()) t"
      "plat_ok env (in_deals (CreateProjection i s x p n)) t"
    if t: "platform_inv env t" for t now meta b skip l s x p n
    using that plat_unless [OF catalog_command [OF env t, of "CmdAssignAuction now l i"]]
      deals_step' [OF env t, of "LotPublished i s x p n"]
    by (auto simp: deals_ok_def platform_inv_def
        intro!: plat_done plat_unless trading_step [OF t quiet_publish] tkeepsD [OF Publish_keeps])
  show "plat_ok env (lot_rest env clock envelope evt i existing) v"
    unfolding lot_rest_def by (intro plat_bind create rest)
qed

lemma delivery_wp:
  assumes env: "platform_env_ok env" and inv: "platform_inv env w"
    and h: "(t, h) \<in> set (registerIntegrationHandlers env clock)"
    and ok: "delivery_ok env clock w (en_payload e)"
  shows "plat_ok env (h e) w"
proof -
  have cat: "plat_ok env (in_catalog (HandleBidPlaced (pe_catalog env) now a p)) w"
      "plat_ok env (in_catalog (HandleAuctionClosed (pe_catalog env) now a)) w"
      "plat_ok env (in_catalog (HandleAuctionCancelled (pe_catalog env) now a)) w"
      "platform_inv env v \<Longrightarrow> plat_ok env (in_catalog (HandleAuctionWon (pe_catalog env) now a p)) v"
    for now a p v
    using catalog_command [OF env inv, of "OnBidPlaced now a p"]
      catalog_command [OF env inv, of "OnAuctionClosed now a"]
      catalog_command [OF env inv, of "OnAuctionCancelled now a"]
      catalog_command [OF env, of v "OnAuctionWon now a p"] by simp_all
  have deals: "fresh_id (pe_deals env) now (w_deals w)
        \<Longrightarrow> plat_ok env (in_deals (CreateDealSelectionFromAuctionWon (pe_deals env) now a cs p d)) w"
      "fresh_id (pe_deals env) now (w_deals w) \<Longrightarrow> plat_ok env (in_deals (HandleDealDeclined (pe_deals env) now a i)) w"
      "fresh_id (pe_deals env) now (w_deals w) \<Longrightarrow> plat_ok env (in_deals (HandleDealInvoiceExpired (pe_deals env) now x)) w"
      "plat_ok env (in_deals (HandleDealInvoicePaid (pe_deals env) now x)) w"
    for now a cs p d i x
    using deals_step' [OF env inv, of "WinnersKnown now a cs p d"] deals_step' [OF env inv, of "Decline now a i"]
      deals_step' [OF env inv, of "InvoiceExpired now x"] deals_step' [OF env inv, of "InvoicePaid now x"]
    by (simp_all add: deals_ok_def)
  note bill = billing_step [OF _ ReleaseAuctionDepositsExceptCandidates_keeps]
    billing_step [OF inv CaptureAuctionDeposit_keeps] billing_step [OF inv CreateAccount_keeps']
    billing_step [OF inv finalize_keeps]
  have inv_step: "is_int64 (cic_goods cmd)
      \<Longrightarrow> plat_ok env (in_billing (db_tx (bindE (CreateDealInvoice (pe_billing env) now cmd) (\<lambda>_. retE ())))) w"
    for now cmd
    by (rule billing_step [OF inv void_keeps [unfolded void_def, OF CreateDealInvoice_keeps]])
  show ?thesis
    using h ok unfolding registerIntegrationHandlers_def
    by (auto simp: Subscribe_def lotPublished_Execute_def ExecuteBidPlaced_def ExecuteAuctionClosed_def
        ExecuteAuctionCancelled_def auctionWon_Execute_def dealCancelled_Execute_def
        winnerRejected_Execute_def companyCreated_Execute_def paymentRequested_Execute_def
        dealInvoicePaid_Execute_def dealInvoiceExpired_Execute_def winnerSelectionFinalized_Execute_def
        split: platform_event.split catalog_event.split auction_event.split deal_event.split
          billing_event.split company_event.split
        intro!: plat_done plat_bind plat_unless inv cat deals bill inv_step lot_published_ok [OF env inv])
qed

text \<open>The marks of the relay change nothing the invariants speak of.\<close>

lemma mark_row_payload [simp]: "ob_payload (mark_row m r) = ob_payload r"
  by (cases m) simp_all

lemma mark_id_payloads [simp]: "map ob_payload (mark_id i m rows) = map ob_payload rows"
  by (simp add: mark_id_def row_update_def)

lemma mark_id_id_set [simp]: "ob_id ` set (mark_id i m rows) = ob_id ` set rows"
  by (metis list.set_map mark_id_ids)

lemma marks_keep_inv: "platform_inv env w \<Longrightarrow> platform_inv env (platform_update i m w)"
proof -
  have "stored_selection (s\<lparr>dst_outbox := rows\<rparr>) = stored_selection s" for s :: deals_store and rows
    by (intro ext) (simp add: stored_selection_def)
  then show "platform_inv env w \<Longrightarrow> platform_inv env (platform_update i m w)"
    by (simp add: platform_inv_def platform_update_def Let_def catalog_inv_def catalog_payloads_def
        cat_outbox.ids_used_def trading_inv_def ids_ok_def deals_inv_def stored_deals_def
        payloads_def outbox_ids_ok_def billing_inv_def)
qed

subsection \<open>Commands\<close>

text \<open>
  A bid reserves its deposit outside a transaction, so it has the condition of a bid deposit: the held
  amount of no account overflows (\<open>bid_room\<close>).
\<close>

definition bid_room :: "string \<Rightarrow> billing_store trading_store \<Rightarrow> bool" where
  "bid_room i s \<longleftrightarrow> (\<forall>r \<in> set (ts_auctions s). ar_id r = i \<longrightarrow>
     (\<forall>x \<in> set (bs_accounts (ts_wallet s)). is_int64 (acc_held x + depositFromStartPrice (ar_startPrice r))))"

fun platform_ok :: "platform_env \<Rightarrow> world \<Rightarrow> platform_command \<Rightarrow> bool" where
  "platform_ok env w (CatalogCommand cmd) \<longleftrightarrow> catalog_ok cmd"
| "platform_ok env w (TradingCommand cmd) \<longleftrightarrow> trading_ok (w_trading w) cmd
     \<and> (case cmd of TBid now meta i n t \<Rightarrow> bid_room i (w_trading w) | _ \<Rightarrow> True)"
| "platform_ok env w (DealsCommand cmd) \<longleftrightarrow> deals_ok (pe_deals env) (w_deals w) cmd"
| "platform_ok env w (BillingCommand cmd) \<longleftrightarrow> command_ok (ts_wallet (w_trading w)) cmd"
| "platform_ok env w _ \<longleftrightarrow> True"

lemma bid_start: "au_PlaceBid b a = Inr (evs, a') \<Longrightarrow> au_startPrice a' = au_startPrice a"
  by (auto simp: au_PlaceBid_def Let_def split: if_splits)

lemma bid_billing:
  assumes inv: "billing_inv benv (ts_wallet s)" and room: "bid_room i s"
  shows "wpE (PlaceBid env (billing_deposits benv) now meta i n t)
    (\<lambda>_ s. billing_inv benv (ts_wallet s)) (\<lambda>_ s. billing_inv benv (ts_wallet s)) s"
proof -
  let ?ok = "\<lambda>s. billing_inv benv (ts_wallet s)"
  have quiet_ok: "wpE m (\<lambda>_. ?ok) (\<lambda>_. ?ok) u" if "quiet m" "?ok u" for m :: "(billing_store, 'a) trading" and u
    using that unfolding quiet_def by (auto simp: same_bidders_def intro: wpE_mono)
  have rest: "wpE (bindE (bids_Save i b) (\<lambda>_. bindE (auctions_Save a') (\<lambda>_.
      let h = buildBidHash env i (bid_company b) (bid_amount b) (bid_placedAt b) in
      bindE (EnqueueBidAnchor i (buildAuctionRefHash env i) h (bid_company b) (bid_amount b)
        (bid_placedAt b)) (\<lambda>_. bindE (outbox_Add env now meta evs) (\<lambda>_. retE (r h))))))
      (\<lambda>_. ?ok) (\<lambda>_. ?ok) u" if "?ok u" for u a' evs b and r :: "string \<Rightarrow> place_bid_result"
    unfolding wpE_bind [of "bids_Save i b"]
    unfolding bids_Save_def wpE_modify Let_def EnqueueBidAnchor_def
    by (rule quiet_ok) (intro quiet_intro, use that in simp)
  have loaded: "wpE (PlaceBid_loaded env (billing_deposits benv) now meta i n t a) (\<lambda>_. ?ok) (\<lambda>_. ?ok) s"
    if a: "\<And>x. x \<in> set (bs_accounts (ts_wallet s)) \<Longrightarrow> is_int64 (acc_held x + depositFromStartPrice (au_startPrice a))"
    for a
  proof (cases "NewBid (cm_company meta) n t")
    case (Inl e)
    then show ?thesis using inv by (simp add: PlaceBid_loaded_def wp_simps)
  next
    case b: (Inr b)
    show ?thesis
    proof (cases "au_PlaceBid b a")
      case (Inl e)
      then show ?thesis using inv b by (simp add: PlaceBid_loaded_def wp_simps)
    next
      case (Inr x)
      obtain evs a' where x: "x = (evs, a')" by (cases x)
      have "wpE (billing_deposits benv now (cm_company meta) i (au_startPrice a'))
          (\<lambda>_. billing_inv benv) (\<lambda>_. billing_inv benv) (ts_wallet s)"
        unfolding billing_deposits_wp
        by (rule bid_deposit_keeps_always [OF inv]) (use a bid_start Inr x in simp)
      then have "\<And>res w. billing_deposits benv now (cm_company meta) i (au_startPrice a') (ts_wallet s) = (res, w)
          \<Longrightarrow> billing_inv benv w"
        by (auto simp: wpE_def split: sum.splits)
      then show ?thesis
        unfolding PlaceBid_loaded_def wpE_bind domain_wp b Inr x sum.case prod.case
        by (intro wallet_wp) (auto intro: rest [unfolded wpE_bind])
    qed
  qed
  have "wpE (auctions_load i) (\<lambda>a u. u = s \<and> (\<forall>x \<in> set (bs_accounts (ts_wallet s)).
      is_int64 (acc_held x + depositFromStartPrice (au_startPrice a)))) (\<lambda>_. ?ok) s"
    using inv room unfolding auctions_load_def
    by (auto simp: wpE_def bid_room_def row_auction_def RehydrateAuction_def Let_def
        split: option.split sum.split if_splits dest!: row_select_SomeD)
  then show ?thesis
    unfolding PlaceBid_def db_uow_plain wpE_bind by (rule wpE_mono) (auto intro: loaded)
qed

lemma trading_command_keeps:
  assumes env: "platform_env_ok env" and inv: "platform_inv env w"
    and ok: "platform_ok env w (TradingCommand cmd)"
  shows "plat_ok env (in_trading (exec_trading (pe_trading env) (billing_deposits (pe_billing env)) cmd)) w"
proof -
  let ?m = "exec_trading (pe_trading env) (billing_deposits (pe_billing env)) cmd"
  have t: "wpE ?m (\<lambda>_. trading_inv (pe_trading env)) (\<lambda>_. trading_inv (pe_trading env)) (w_trading w)"
    by (rule exec_trading_wp) (use inv env ok in \<open>simp_all add: platform_inv_def platform_env_ok_def\<close>)
  show ?thesis
  proof (cases "case cmd of TBid _ _ _ _ _ \<Rightarrow> False | _ \<Rightarrow> True")
    case True
    then show ?thesis
      by (intro trading_step [OF inv quiet_command t])
  next
    case False
    then obtain now meta i n x where cmd: "cmd = TBid now meta i n x"
      by (cases cmd) auto
    let ?ok = "\<lambda>s. billing_inv (pe_billing env) (ts_wallet s)"
    have "wpE ?m (\<lambda>_. ?ok) (\<lambda>_. ?ok) (w_trading w)"
      using inv ok by (auto simp: cmd void_wp platform_inv_def intro!: bid_billing)
    with t have "wpE ?m (\<lambda>_ s. trading_inv (pe_trading env) s \<and> ?ok s)
        (\<lambda>_ s. trading_inv (pe_trading env) s \<and> ?ok s) (w_trading w)"
      by (auto simp: wpE_def split: prod.splits sum.splits)
    then show ?thesis
      unfolding wpE_in by (rule wpE_mono) (use inv in \<open>simp_all add: platform_inv_def\<close>)
  qed
qed

lemma plat_for:
  "(\<And>x t. platform_inv env t \<Longrightarrow> plat_ok env (f x) t) \<Longrightarrow> platform_inv env w \<Longrightarrow> plat_ok env (forE f xs) w"
  by (rule wpE_for)

lemma cancel_expired_keeps:
  assumes "platform_env_ok env" "platform_inv env w"
  shows "plat_ok env (RunCancelExpiredDeals env now clock limit) w"
proof -
  have "plat_ok env (in_deals (ListExpiredForFallback denv now limit)) w" for denv
    by (rule deals_step [OF assms(2)])
      (use assms(2) in \<open>simp add: ListExpiredForFallback_def wp_simps platform_inv_def\<close>)
  moreover have "plat_ok env (in_deals (CancelDeal (pe_deals env) now' meta d r)) t"
    if "platform_inv env t" for now' meta d r t
    using deals_step' [OF assms(1) that, of "Cancel now' meta d r"] by (simp add: deals_ok_def)
  ultimately show ?thesis
    unfolding RunCancelExpiredDeals_def
    by (intro plat_bind plat_for) (auto intro: plat_unless split: prod.split)
qed

lemma expire_invoices_keeps: "platform_inv env w \<Longrightarrow> plat_ok env (RunExpireDealInvoices env now clock limit) w"
proof -
  have expire: "keeps benv (unless_error (\<lambda>e. e = ErrInvoiceNotExpired) (ExpireDealInvoice benv t i))" for benv t i
  proof -
    have "wpE (ExpireDealInvoice benv t i) (\<lambda>_. billing_inv benv) (\<lambda>e u. e = ErrInvoiceNotExpired \<longrightarrow> billing_inv benv u) s"
      if "billing_inv benv s" for s
    proof -
      have "wpE (ExpireDealInvoice benv t i) (\<lambda>_ _. True) (\<lambda>e u. e = ErrInvoiceNotExpired \<longrightarrow> billing_inv benv u) s"
        using that unfolding ExpireDealInvoice_def
        by (auto simp: wp_simps inv_MarkExpired_def split: option.split invoice_status.split)
      moreover have "wpE (ExpireDealInvoice benv t i) (\<lambda>_. billing_inv benv) (\<lambda>_ _. True) s"
        using ExpireDealInvoice_keeps that by (simp add: keeps_def)
      ultimately show ?thesis
        by (auto simp: wpE_def split: prod.splits sum.splits)
    qed
    then show ?thesis
      unfolding keeps_def wpE_unless by (auto elim: wpE_mono)
  qed
  have run: "keeps benv (forE (\<lambda>(k, i). unless_error (\<lambda>e. e = ErrInvoiceNotExpired) (ExpireDealInvoice benv (clock k) i)) xs)" for benv xs
    unfolding keeps_def by (intro allI impI wpE_for) (use expire in \<open>auto simp: keeps_def\<close>)
  assume "platform_inv env w"
  then show ?thesis
    unfolding RunExpireDealInvoices_def
    by (rule billing_step)
      (use run in \<open>auto simp: keeps_def wpE_bind ListExpiredInvoices_def wp_simps Let_def\<close>)
qed

lemma command_keeps:
  assumes env: "platform_env_ok env" and inv: "platform_inv env w" and ok: "platform_ok env w cmd"
  shows "platform_inv env (snd (exec_platform env cmd w))"
proof (cases cmd)
  case (BillingCommand cmd')
  have "billing_inv (pe_billing env) (snd (run_command (pe_billing env) cmd' (ts_wallet (w_trading w))))"
    by (rule run_command_inv) (use inv ok BillingCommand in \<open>simp_all add: platform_inv_def\<close>)
  moreover have "trading_inv (pe_trading env) ((w_trading w)\<lparr>ts_wallet := s\<rparr>)" for s
    by (rule inv_frame [of _ "w_trading w"]) (use inv in \<open>simp_all add: platform_inv_def\<close>)
  ultimately show ?thesis
    using inv BillingCommand
    by (auto simp: in_billing_def inside_def catchE_def zoomE_def failE_def platform_inv_def
        split: prod.split sum.split)
next
  case (RegisterCompany now c)
  then show ?thesis
    using inv by (simp add: in_identity_def platform_inv_def split: prod.split)
next
  case (TradingCommand cmd')
  then show ?thesis
    using wp_snd [OF trading_command_keeps [OF env inv]] ok by simp
next
  case (CatalogCommand cmd')
  then show ?thesis
    using wp_snd [OF catalog_command [OF env inv]] ok by simp
next
  case (DealsCommand cmd')
  then show ?thesis
    using wp_snd [OF deals_step' [OF env inv]] ok by simp
next
  case (CancelExpiredDeals now clock limit)
  then show ?thesis
    using wp_snd [OF cancel_expired_keeps [OF env inv]] by simp
next
  case (ExpireDealInvoices now clock limit)
  then show ?thesis
    using wp_snd [OF expire_invoices_keeps [OF inv]] by simp
qed

subsection \<open>Histories\<close>

text \<open>
  Commands of the contexts, deliveries and marks of the relay, in any order. A round of the relay is
  deliveries and marks, so histories have the runs of the platform and every other interleaving.
\<close>

inductive platform_history :: "platform_env \<Rightarrow> world \<Rightarrow> world \<Rightarrow> bool" for env w where
  start: "platform_history env w w"
| command: "platform_history env w t \<Longrightarrow> platform_ok env t cmd
    \<Longrightarrow> platform_history env w (snd (exec_platform env cmd t))"
| delivery: "platform_history env w t \<Longrightarrow> (ty, h) \<in> set (registerIntegrationHandlers env clock)
    \<Longrightarrow> delivery_ok env clock t (en_payload e) \<Longrightarrow> platform_history env w (snd (h e t))"
| mark: "platform_history env w t \<Longrightarrow> platform_history env w (platform_update i m t)"

lemma history_inv:
  "platform_history env w t \<Longrightarrow> platform_env_ok env \<Longrightarrow> platform_inv env w \<Longrightarrow> platform_inv env t"
proof (induction rule: platform_history.induct)
  case (command t cmd)
  then show ?case by (blast intro: command_keeps)
next
  case (delivery t ty h clock e)
  then show ?case by (blast intro: wp_snd [where I = "platform_inv env"] delivery_wp)
next
  case (mark t i m)
  then show ?case by (blast intro: marks_keep_inv)
qed

end
