(* ===== verification/Platform_Lots.thy ===== *)
theory Platform_Lots
  imports Platform_Keeps Catalog_Properties
begin

section \<open>A published lot opens its auction\<close>

text \<open>
  What the handler of LotPublished leaves in the catalog, in trading and in deals when it succeeds
  (\<open>lot_opened\<close>), step by step, and what it does in a world that has all of it already.
\<close>

lemma wpE_both:
  "wpE m Q R s \<Longrightarrow> wpE m Q' R' s \<Longrightarrow> wpE m (\<lambda>a t. Q a t \<and> Q' a t) (\<lambda>e t. R e t \<and> R' e t) s"
  by (auto simp: wpE_def split: prod.splits sum.splits)

subsection \<open>Trading\<close>

definition auction_at :: "string \<Rightarrow> auction \<Rightarrow> 'w trading_store \<Rightarrow> bool" where
  "auction_at i a s \<longleftrightarrow> auctions_load i s = (Inr a, s)"

lemma put_loads:
  assumes a: "auction_ok a bs" and d: "distinct (map ar_id (ts_auctions s))"
  shows "auction_at (au_id a) a (s\<lparr>ts_auctions := put_auction a (ts_auctions s)\<rparr>)"
proof -
  obtain r where r: "r \<in> set (put_auction a (ts_auctions s))" "ar_id r = au_id a" "row_auction r = Inr a"
    using put_row [OF a refl] by blast
  have "row_select (\<lambda>x. ar_id x = ar_id r) (put_auction a (ts_auctions s)) = Some r"
    by (rule row_select_key) (use d put_distinct r(1) in auto)
  with r show ?thesis
    by (simp add: auction_at_def auctions_load_def)
qed

lemma create_leaves:
  assumes inv: "trading_inv env s" and start: "0 < startsAt"
  shows "wpE (CreateAuction_with (retE i) lot startsAt endsAt p step)
    (\<lambda>_ t. \<exists>a. auction_at i a t \<and> (i \<notin> ar_id ` set (ts_auctions s) \<longrightarrow>
      NewAuctionWithPricing i lot startsAt endsAt p (if step \<le> 0 then 1 else step) = Inr a)) (\<lambda>_ _. True) s"
proof (cases "i \<in> ar_id ` set (ts_auctions s)")
  case True
  then obtain r where r: "r \<in> set (ts_auctions s)" "ar_id r = i"
    by auto
  obtain a where "auctions_load i s = (Inr a, s)"
    using load_found [OF inv r] by blast
  with True show ?thesis
    by (auto simp: CreateAuction_with_def db_uow_plain Let_def auction_at_def wpE_def bindE_def catchE_def retE_def)
next
  case False
  then have none: "auctions_load i s = (Inl ErrAuctionNotFound, s)"
    by (auto simp: auctions_load_def row_select_None_iff split: option.split dest: row_select_SomeD)
  have "auction_at i a (s\<lparr>ts_auctions := put_auction a (ts_auctions s)\<rparr>)"
    if "NewAuctionWithPricing i lot startsAt endsAt p st = Inr a" for a st
    using put_loads [OF new_auction_ok [OF that start]] inv that
    by (auto simp: trading_inv_def auctions_ok_def NewAuctionWithPricing_def split: if_splits)
  then show ?thesis
    using False none unfolding CreateAuction_with_def db_uow_plain Let_def wpE_bind wpE_ret wpE_catch
    by (simp add: wpE_def [of "auctions_load i"]) (auto simp: wp_simps split: sum.split)
qed

lemma publish_leaves:
  assumes inv: "trading_inv env s" and env: "env_ok env" and a: "auction_at i a s"
  shows "wpE (PublishAuction env now meta i)
    (\<lambda>_. auction_at i (a\<lparr>au_state := StatePublished\<rparr>))
    (\<lambda>e t. e = AuctionError ErrAuctionCannotBePublished \<and> t = s \<and> au_state a \<noteq> StateDraft) s"
proof (cases "au_state a = StateDraft")
  case False
  then show ?thesis
    using a by (simp add: PublishAuction_def db_uow_plain wpE_bind auction_at_def wpE_def [of "auctions_load i"]
        domain_wp au_Publish_def)
next
  case True
  let ?a = "a\<lparr>au_state := StatePublished\<rparr>"
  obtain r where l: "loaded i s r a"
    using load_wp [OF inv, of i "\<lambda>b t. \<exists>r. loaded i s r b" "\<lambda>_ _. True"] a
    by (auto simp: auction_at_def wpE_def)
  have pub: "au_Publish a = Inr ([AuctionPublished i], ?a)"
    using True l by (simp add: au_Publish_def with_events_def transitionTo_def canTransition_def loaded_def)
  have ok: "auction_ok ?a (auction_bids i (ts_bids s))"
    using publish_ok [OF _ pub] l by (simp add: loaded_def)
  let ?s = "s\<lparr>ts_auctions := put_auction ?a (ts_auctions s)\<rparr>"
  have "trading_inv env ?s"
    using save_inv [OF inv, of ?a "[]"] ok loaded_drawn [OF inv l] l by (simp add: loaded_def)
  moreover have "auction_at i ?a ?s"
    using put_loads [OF ok, where s = s] inv l by (auto simp: trading_inv_def auctions_ok_def loaded_def)
  ultimately have "wpE (bindE (EnqueueAuctionCreate i rh st en step) (\<lambda>_. outbox_Add env now meta evs))
      (\<lambda>_. auction_at i ?a) R ?s" for rh st en step evs R
    unfolding EnqueueAuctionCreate_def wpE_bind
    by (intro enqueue_wp outbox_Add_wp)
      (use env in \<open>auto simp: chain_op_def trading_inv_def ids_ok_def env_ok_def outbox_grows_def
        auction_at_def auctions_load_def split: option.splits\<close>)
  then show ?thesis
    using a pub l
    by (simp add: PublishAuction_def db_uow_plain wpE_bind auction_at_def [of i a] wpE_def [of "auctions_load i"]
        domain_wp save_wp loaded_def)
qed

subsection \<open>Catalog\<close>

definition linked_to :: "string \<Rightarrow> string \<Rightarrow> catalog_store \<Rightarrow> bool" where
  "linked_to lotID i s \<longleftrightarrow> GetLotAuctionID lotID s = (Inr i, s)"

lemma assign_leaves:
  assumes inv: "catalog_inv env s" and inj: "inj (ce_id env)" and free: "linked_to lotID '''' s"
  shows "wpE (AssignAuctionID env now lotID i) (\<lambda>_. linked_to lotID i)
    (\<lambda>e _. e \<noteq> CatalogError ErrAlreadyAssigned) s"
proof -
  have "wpE (lots_Get lotID) (\<lambda>l t. t = s \<and> lot_good l \<and> l_id l = lotID) (\<lambda>_ _. True) s"
    unfolding lots_Get_def by (rule lots_find_wp [OF inv]) simp
  then obtain l where l: "lots_Get lotID s = (Inr l, s)" "lot_good l" "l_id l = lotID" "l_auction l = ''''"
    using free by (auto simp: linked_to_def GetLotAuctionID_def wpE_def bindE_def retE_def split: prod.splits sum.splits)
  let ?l = "l\<lparr>l_auction := i\<rparr>"
  let ?s = "s\<lparr>cst_lots := row_upsert lw_id (lot_row_of ?l) (cst_lots s)\<rparr>"
  have "cat_outbox.ids_used env ?s"
    using inv by (simp add: catalog_inv_def cat_outbox.ids_used_def)
  note added = addEvents_tables [OF inj this]
  have saved: "linked_to lotID i t" if "\<not> is_blank i" "cst_lots t = cst_lots ?s" for t
  proof -
    have "lot_good ?l"
      using lot_methods_ok(1) [of i] l that unfolding lot_method_ok_def lot_AssignAuctionID_def by auto
    moreover have "row_select (\<lambda>r. lw_id r = lotID) (cst_lots t) = Some (lot_row_of ?l)"
      using row_select_upsert_same [of lw_id "lot_row_of ?l"] l(3) that(2) by simp
    ultimately show ?thesis
      by (simp add: linked_to_def GetLotAuctionID_def bindE_def lots_Get_def lots_find_def
          row_lot_saved stored_lot_def retE_def)
  qed
  have events: "wpE (addEvents env now evs) (\<lambda>_. linked_to lotID i) R ?s" if "\<not> is_blank i" for evs R
    by (rule wpE_mono [OF added]) (use saved that in simp_all)
  have "wpE (bindE (lots_Get lotID) (lot_save_events env now (lot_AssignAuctionID i)))
      (\<lambda>_. linked_to lotID i) (\<lambda>e _. e \<noteq> CatalogError ErrAlreadyAssigned) s"
    unfolding wpE_bind
    using l events
    by (auto simp: wpE_def [of "lots_Get lotID"] lot_save_events_def wpE_bind callC_def lot_AssignAuctionID_def
        wpE_def [of "callC _ _"] wpE_def [of "lots_Save _"] lots_Save_def Let_def)
  then show ?thesis
    by (auto simp: AssignAuctionID_def db_tx_atomically atomically_def wpE_def split: prod.splits sum.splits)
qed

subsection \<open>Deals\<close>

definition projected :: "string \<Rightarrow> deal_projection \<Rightarrow> deals_store \<Rightarrow> bool" where
  "projected i p s \<longleftrightarrow> projections_Get i s = (Inr p, s)"

lemma projection_leaves:
  "wpE (CreateProjection i seller snap price at')
    (\<lambda>_ t. (\<exists>p. projected i p t \<and> (i \<notin> pr_auction ` set (dst_projections s) \<longrightarrow>
        p = NewDealProjection i seller snap price at'))
      \<and> i \<noteq> '''' \<and> seller \<noteq> '''' \<and> 0 < price \<and> at' \<noteq> 0) (\<lambda>_ _. True) s"
  using row_select_upsert_same [of pr_auction "projection_row_of (NewDealProjection i seller snap price at')"
      "dst_projections s"]
  by (auto simp: CreateProjection_def wp_simps find_or_def projections_Get_def projections_Save_def projected_def
      wpE_def bindE_def catchE_def retE_def failE_def modifyE_def NewDealProjection_def
      projection_row_of_def row_projection_def image_iff dest: row_select_SomeD split: option.splits)

subsection \<open>The three together\<close>

definition lot_opened :: "string \<Rightarrow> auction \<Rightarrow> deal_projection \<Rightarrow> lot_published \<Rightarrow> world \<Rightarrow> bool" where
  "lot_opened i a p evt w \<longleftrightarrow> auction_at i a (w_trading w) \<and> au_state a \<noteq> StateDraft
     \<and> projected i p (w_deals w)
     \<and> (if lp_auction evt = '''' then linked_to (lp_lot evt) i (w_catalog w) else i = lp_auction evt)"

text \<open>The terms of the event, for an auction and a projection that were not there before.\<close>

definition opened_as_announced :: "string \<Rightarrow> auction \<Rightarrow> deal_projection \<Rightarrow> time \<Rightarrow> lot_published \<Rightarrow> world \<Rightarrow> bool"
  where
  "opened_as_announced i a p at' evt w \<longleftrightarrow>
     (i \<notin> ar_id ` set (ts_auctions (w_trading w)) \<longrightarrow>
        au_state a = StatePublished \<and> au_lot a = lp_lot evt \<and> au_startsAt a = lp_startsAt evt
        \<and> au_endsAt a = lp_endsAt evt \<and> au_startPrice a = lp_startPrice evt
        \<and> au_currentPrice a = lp_startPrice evt \<and> au_leader a = ''''
        \<and> au_minBidStep a = (if lp_minBidStep evt \<le> 0 then 1 else lp_minBidStep evt))
     \<and> (i \<notin> pr_auction ` set (dst_projections (w_deals w)) \<longrightarrow>
        p = NewDealProjection i (lp_seller evt) (dealSnapshotFromLot evt) (lp_startPrice evt) at')"

definition lot_event_ok :: "string \<Rightarrow> time \<Rightarrow> lot_published \<Rightarrow> bool" where
  "lot_event_ok i at' evt \<longleftrightarrow> i \<noteq> '''' \<and> lp_seller evt \<noteq> '''' \<and> 0 < lp_startPrice evt \<and> at' \<noteq> 0"

lemma lot_rest_leaves:
  assumes env: "platform_env_ok env" and inv: "platform_inv env v" and drawn: "auction_drawn env v i"
    and start: "0 < lp_startsAt evt" and chosen: "lot_auction_chosen evt v i existing"
  shows "wpE (lot_rest env clock envelope evt i existing)
    (\<lambda>_ t. \<exists>a p. lot_opened i a p evt t \<and> opened_as_announced i a p (en_occurredAt envelope) evt v
      \<and> lot_event_ok i (en_occurredAt envelope) evt) (\<lambda>_ _. True) v"
proof -
  let ?new = "\<lambda>a. i \<notin> ar_id ` set (ts_auctions (w_trading v)) \<longrightarrow>
      NewAuctionWithPricing i (lp_lot evt) (lp_startsAt evt) (lp_endsAt evt) (lp_startPrice evt)
        (if lp_minBidStep evt \<le> 0 then 1 else lp_minBidStep evt) = Inr a"
  let ?others = "\<lambda>t. w_catalog t = w_catalog v \<and> w_deals t = w_deals v"
  have create: "wpE (in_trading (CreateAuction_with (retE i) (lp_lot evt) (lp_startsAt evt) (lp_endsAt evt)
       (lp_startPrice evt) (if lp_minBidStep evt \<le> 0 then 1 else lp_minBidStep evt)))
     (\<lambda>_ t. trading_inv (pe_trading env) (w_trading t) \<and> (\<exists>a. auction_at i a (w_trading t) \<and> ?new a) \<and> ?others t)
     (\<lambda>_ _. True) v"
    unfolding wpE_in
    by (rule wpE_mono [OF wpE_both [OF create_leaves Create_with_keeps]])
      (use inv start drawn in \<open>auto simp: platform_inv_def auction_drawn_def split: if_splits\<close>)
  have publish: "wpE (unless_error cannot_publish (in_trading (PublishAuction (pe_trading env) now meta i)))
     (\<lambda>_ t. (\<exists>b. auction_at i b (w_trading t) \<and> au_state b \<noteq> StateDraft
        \<and> (b = a\<lparr>au_state := StatePublished\<rparr> \<or> b = a \<and> au_state a \<noteq> StateDraft)) \<and> ?others t) (\<lambda>_ _. True) u"
    if "trading_inv (pe_trading env) (w_trading u)" "auction_at i a (w_trading u)" "?others u" for u a now meta
    unfolding wpE_unless wpE_in
    by (rule wpE_mono [OF publish_leaves [OF that(1) _ that(2)]])
      (use that env in \<open>auto simp: platform_env_ok_def cannot_publish_def\<close>)
  have assign: "wpE (if lp_auction evt = '''' \<and> existing = ''''
       then unless_error (\<lambda>e. e = InCatalog (CatalogError ErrAlreadyAssigned))
         (in_catalog (AssignAuctionID (pe_catalog env) now (lp_lot evt) i)) else retE ())
     (\<lambda>_ t. w_trading t = w_trading u \<and> w_deals t = w_deals v
        \<and> (if lp_auction evt = '''' then linked_to (lp_lot evt) i (w_catalog t) else i = lp_auction evt))
     (\<lambda>_ _. True) u"
    if u: "?others u" for u now
  proof (cases "lp_auction evt = '''' \<and> existing = ''''")
    case True
    have "wpE (AssignAuctionID (pe_catalog env) now (lp_lot evt) i) (\<lambda>_. linked_to (lp_lot evt) i)
        (\<lambda>e _. e \<noteq> CatalogError ErrAlreadyAssigned) (w_catalog u)"
      by (rule assign_leaves)
        (use True u inv env chosen in \<open>auto simp: platform_inv_def platform_env_ok_def
          lot_auction_chosen_def linked_to_def\<close>)
    then show ?thesis
      using True u by (auto simp: wpE_unless wpE_in elim!: wpE_mono)
  next
    case False
    then show ?thesis
      using u chosen by (auto simp: wpE_ret lot_auction_chosen_def linked_to_def split: if_splits)
  qed
  show ?thesis
    unfolding lot_rest_def wpE_bind
  proof (rule wpE_mono [OF create], goal_cases)
    case (1 x t)
    then obtain a where a: "auction_at i a (w_trading t)" "?new a" by blast
    show ?case
    proof (rule wpE_mono [OF publish [OF _ a(1)]], goal_cases)
      case (3 y u)
      then obtain b where b: "auction_at i b (w_trading u)" "au_state b \<noteq> StateDraft"
        "b = a\<lparr>au_state := StatePublished\<rparr> \<or> b = a \<and> au_state a \<noteq> StateDraft" "?others u" by blast
      have terms: "i \<notin> ar_id ` set (ts_auctions (w_trading v)) \<longrightarrow>
        au_state b = StatePublished \<and> au_lot b = lp_lot evt \<and> au_startsAt b = lp_startsAt evt
        \<and> au_endsAt b = lp_endsAt evt \<and> au_startPrice b = lp_startPrice evt
        \<and> au_currentPrice b = lp_startPrice evt \<and> au_leader b = ''''
        \<and> au_minBidStep b = (if lp_minBidStep evt \<le> 0 then 1 else lp_minBidStep evt)"
        using a(2) b(2,3) by (fastforce simp: NewAuctionWithPricing_def split: if_splits)
      show ?case
      proof (rule wpE_mono [OF assign [OF b(4)]], goal_cases)
        case (1 z r)
        show ?case
          unfolding wpE_in
        proof (rule wpE_mono [OF projection_leaves], goal_cases)
          case (1 y q)
          then obtain p where p: "projected i p q" "i \<notin> pr_auction ` set (dst_projections (w_deals v)) \<longrightarrow>
              p = NewDealProjection i (lp_seller evt) (dealSnapshotFromLot evt) (lp_startPrice evt) (en_occurredAt envelope)"
            using \<open>w_trading r = _ \<and> _\<close> by auto
          have "lot_opened i b p evt (r\<lparr>w_deals := q\<rparr>)"
            using b(1,2) p(1) \<open>w_trading r = _ \<and> _\<close> by (simp add: lot_opened_def)
          moreover have "opened_as_announced i b p (en_occurredAt envelope) evt v"
            using terms p(2) by (simp add: opened_as_announced_def)
          ultimately show ?case
            using 1 by (auto simp: lot_event_ok_def)
        qed simp
      qed simp
    qed (use 1 in auto)
  qed simp
qed

lemma lot_published_leaves:
  assumes env: "platform_env_ok env" and inv: "platform_inv env w"
    and ok: "0 < lp_startsAt evt" "lot_link_ok env w evt"
  shows "wpE (lot_published_steps env clock envelope evt)
    (\<lambda>_ t. \<exists>i a p. lot_opened i a p evt t \<and> opened_as_announced i a p (en_occurredAt envelope) evt w
      \<and> lot_event_ok i (en_occurredAt envelope) evt) (\<lambda>_ _. True) w"
proof (rule lot_published_rule [OF inv ok(2)], goal_cases)
  case (2 v i existing n)
  have "lot_auction_chosen evt v i existing"
    using 2(3,4) by (simp add: lot_auction_chosen_def)
  note leaves = lot_rest_leaves [OF env 2(1,2) ok(1) this, of clock envelope]
  have "opened_as_announced i a p at' evt v = opened_as_announced i a p at' evt w" for a p at'
    by (simp add: 2(3) opened_as_announced_def)
  then show ?case
    by (intro wpE_mono [OF leaves]) auto
qed simp

text \<open>Delivered again, the event finds everything as it should be.\<close>

lemma publish_again:
  assumes "auction_at i a s" "au_state a \<noteq> StateDraft"
  shows "CreateAuction_with (retE i) l st e p n s = (Inr i, s)"
    "PublishAuction env now meta i s = (Inl (AuctionError ErrAuctionCannotBePublished), s)"
  using assms by (simp_all add: CreateAuction_with_def PublishAuction_def db_uow_plain Let_def auction_at_def
      bindE_def catchE_def retE_def domainE_def liftE_def au_Publish_def)

lemma project_again:
  assumes "projected i p s" "lot_event_ok i at' evt"
  shows "CreateProjection i (lp_seller evt) snap (lp_startPrice evt) at' s = (Inr (), s)"
  using assms by (simp add: CreateProjection_def projected_def lot_event_ok_def find_or_def bindE_def
      catchE_def retE_def)

lemma rest_again:
  assumes "lot_opened i a p evt w" "lot_event_ok i (en_occurredAt envelope) evt" "existing \<noteq> '''' \<or> lp_auction evt \<noteq> ''''"
  shows "lot_rest env clock envelope evt i existing w = (Inr (), w)"
proof -
  note at = assms(1) [unfolded lot_opened_def]
  note again = publish_again [OF at [THEN conjunct1] at [THEN conjunct2, THEN conjunct1]]
    project_again [OF at [THEN conjunct2, THEN conjunct2, THEN conjunct1] assms(2)]
  show ?thesis
    using assms(3) by (auto simp: lot_rest_def bindE_def in_trading_def in_deals_def inside_def catchE_def
        zoomE_def retE_def unless_error_def failE_def cannot_publish_def again)
qed

lemma lot_published_again:
  assumes opened: "lot_opened i a p evt w" and ok: "lot_event_ok i (en_occurredAt envelope) evt"
    and time: "lp_startsAt evt \<noteq> 0" "lp_endsAt evt \<noteq> 0"
  shows "\<exists>n. lot_published_steps env clock envelope evt w = (Inr (), w\<lparr>w_trading := (w_trading w)\<lparr>ts_ids := n\<rparr>\<rparr>)"
proof (cases "lp_auction evt = ''''")
  case True
  let ?w = "w\<lparr>w_trading := (w_trading w)\<lparr>ts_ids := Suc (ts_ids (w_trading w))\<rparr>\<rparr>"
  have "auction_at i a (s\<lparr>ts_ids := n\<rparr>) = auction_at i a s" for n and s :: "billing_store trading_store"
    by (auto simp: auction_at_def auctions_load_def split: option.splits)
  then have "lot_opened i a p evt ?w"
    using opened by (simp add: lot_opened_def)
  from rest_again [OF this ok, of i] have "lot_rest env clock envelope evt i i ?w = (Inr (), ?w)"
    using ok by (simp add: lot_event_ok_def)
  then have "lot_published_steps env clock envelope evt w = (Inr (), ?w)"
    using True time opened ok unfolding lot_published_steps_def Let_def lot_rest_def [symmetric]
    by (simp add: lot_opened_def linked_to_def lot_event_ok_def auctionIDForLot_def bindE_def
        in_trading_def in_catalog_def inside_def catchE_def zoomE_def next_id_def)
  then show ?thesis by blast
next
  case False
  then have "lot_rest env clock envelope evt i '''' w = (Inr (), w)"
    using rest_again [OF opened ok] by blast
  then have "lot_published_steps env clock envelope evt w = (Inr (), w)"
    using False time opened unfolding lot_published_steps_def Let_def lot_rest_def [symmetric]
    by (simp add: lot_opened_def auctionIDForLot_def bindE_def retE_def)
  then show ?thesis
    by (intro exI [of _ "ts_ids (w_trading w)"]) simp
qed

end
