(* ===== verification/Platform_Types.thy ===== *)
theory Platform_Types
  imports Platform
begin

section \<open>The types of the messages\<close>

text \<open>
  The relay passes a payload as a bare value and finds its handlers by a string. Each row of the outbox
  carries the type of its own event (\<open>row_types\<close>), one type only has no decoder (\<open>decoded_types\<close>), and a
  handler subscribed to the type of an event never finds another payload (\<open>handlers_typed\<close>).
\<close>

lemma row_types: "platform_good env w \<Longrightarrow> r \<in> set (platform_rows w)
    \<Longrightarrow> ob_event_type r = platform_event_type (ob_payload r)"
  by (auto simp: platform_good_def part_good_def row_kinds own_row_def platform_rows_def list_all_iff)

fun platform_fee_demand :: "platform_event \<Rightarrow> bool" where
  "platform_fee_demand (BillingEvent (PlatformFeePaymentRequired a c n cur)) \<longleftrightarrow> True"
| "platform_fee_demand _ \<longleftrightarrow> False"

lemma decoded_types: "DefaultDecoders (platform_event_type ev) \<longleftrightarrow> \<not> platform_fee_demand ev"
proof (cases ev)
  case (CatalogEvent e)
  then show ?thesis by (cases e) (simp_all add: DefaultDecoders_def)
next
  case (TradingEvent e)
  then show ?thesis by (cases e) (simp_all add: DefaultDecoders_def)
next
  case (DealsEvent e)
  then show ?thesis by (cases e) (simp_all add: DefaultDecoders_def)
next
  case (BillingEvent e)
  then show ?thesis by (cases e) (simp_all add: DefaultDecoders_def)
next
  case (IdentityEvent e)
  then show ?thesis by (simp add: DefaultDecoders_def company_event_type_def)
qed

definition typed :: "'a platform \<Rightarrow> bool" where
  "typed m \<longleftrightarrow> (\<forall>w x. fst (m w) \<noteq> Inl (UnexpectedPayload x))"

named_theorems typed_intro \<open>methods of the platform that never refuse a payload\<close>

lemma typed_basic [typed_intro]:
  "typed (retE a)" "typed (failE EmptyWinnerCompanyID)" "typed (failE MissingAuctionSchedule)"
  by (simp_all add: typed_def retE_def failE_def)

lemma typed_bind [typed_intro]: "typed m \<Longrightarrow> (\<And>a. typed (f a)) \<Longrightarrow> typed (bindE m f)"
  by (auto simp: typed_def bindE_def split: prod.split sum.split) (metis fst_conv)+

lemma typed_unless [typed_intro]: "typed m \<Longrightarrow> typed (unless_error skip m)"
  by (auto simp: typed_def unless_error_def catchE_def retE_def failE_def split: prod.split sum.split)
    (metis fst_conv)

lemma typed_cases [typed_intro]: "typed m \<Longrightarrow> typed n \<Longrightarrow> typed (if b then m else n)"
  by simp

lemma typed_in [typed_intro]: "typed (in_catalog m1)" "typed (in_trading m2)" "typed (in_deals m3)" "typed (in_billing m4)"
  by (simp_all add: typed_def in_catalog_def in_trading_def in_deals_def in_billing_def inside_def
      catchE_def zoomE_def failE_def split: prod.split sum.split)

lemma lot_published_typed: "typed (lot_published_steps env clock envelope evt)"
  unfolding lot_published_steps_def auctionIDForLot_def Let_def by (intro typed_intro)

lemma event_names:
  "catalog_event_name cev = ''LotPublished'' \<longleftrightarrow> (\<exists>e. cev = CatLotPublished e)"
  "eventTypeFor tev = ''trading.BidPlaced'' \<longleftrightarrow> (\<exists>a c n t u. tev = BidPlaced a c n t u)"
  "eventTypeFor tev = ''trading.AuctionClosed'' \<longleftrightarrow> (\<exists>a. tev = AuctionClosed a)"
  "eventTypeFor tev = ''trading.AuctionCancelled'' \<longleftrightarrow> (\<exists>a. tev = AuctionCancelled a)"
  "eventTypeFor tev = ''trading.AuctionWon'' \<longleftrightarrow> (\<exists>a l c p. tev = AuctionWon a l c p)"
  "deal_event_name dev = ''DealCancelled'' \<longleftrightarrow> (\<exists>d r c t. dev = DealCancelled d r c t)"
  "deal_event_name dev = ''WinnerRejected'' \<longleftrightarrow> (\<exists>s d a c t r. dev = WinnerRejected s d a c t r)"
  "deal_event_name dev = ''PaymentRequested'' \<longleftrightarrow>
     (\<exists>d a b s c g n t u. dev = PaymentRequested d a b s c g n t u)"
  "deal_event_name dev = ''WinnerSelectionFinalized'' \<longleftrightarrow>
     (\<exists>s d a c p g f t. dev = WinnerSelectionFinalized s d a c p g f t)"
  "billing_event_type bev = ''billing.DealInvoicePaid'' \<longleftrightarrow>
     (\<exists>i d a b g f n c t. bev = DealInvoicePaid i d a b g f n c t)"
  "billing_event_type bev = ''billing.DealInvoiceExpired'' \<longleftrightarrow>
     (\<exists>i d a b n c t. bev = DealInvoiceExpired i d a b n c t)"
  by (cases cev; simp) ((cases tev; simp)+, (cases dev; simp)+, (cases bev; simp)+)

lemma other_context [simp]:
  "eventTypeFor tev \<noteq> CHR ''c'' # x" "eventTypeFor tev \<noteq> CHR ''d'' # x"
  "eventTypeFor tev \<noteq> CHR ''i'' # x" "eventTypeFor tev \<noteq> CHR ''b'' # x"
  "billing_event_type bev \<noteq> CHR ''c'' # x" "billing_event_type bev \<noteq> CHR ''d'' # x"
  "billing_event_type bev \<noteq> CHR ''i'' # x" "billing_event_type bev \<noteq> CHR ''t'' # x"
  by (cases tev; simp)+ (cases bev; simp)+

lemma company_created: "\<exists>c. cev = CompanyCreated c"
  by (cases cev) simp

lemma event_of_type:
  "platform_event_type ev = ''catalog.LotPublished'' \<longleftrightarrow> (\<exists>e. ev = CatalogEvent (CatLotPublished e))"
  "platform_event_type ev = ''trading.BidPlaced'' \<longleftrightarrow> (\<exists>a c n t u. ev = TradingEvent (BidPlaced a c n t u))"
  "platform_event_type ev = ''trading.AuctionClosed'' \<longleftrightarrow> (\<exists>a. ev = TradingEvent (AuctionClosed a))"
  "platform_event_type ev = ''trading.AuctionCancelled'' \<longleftrightarrow> (\<exists>a. ev = TradingEvent (AuctionCancelled a))"
  "platform_event_type ev = ''trading.AuctionWon'' \<longleftrightarrow> (\<exists>a l c p. ev = TradingEvent (AuctionWon a l c p))"
  "platform_event_type ev = ''deals.DealCancelled'' \<longleftrightarrow> (\<exists>d r c t. ev = DealsEvent (DealCancelled d r c t))"
  "platform_event_type ev = ''deals.WinnerRejected'' \<longleftrightarrow>
     (\<exists>s d a c t r. ev = DealsEvent (WinnerRejected s d a c t r))"
  "platform_event_type ev = ''identity.CompanyCreated'' \<longleftrightarrow> (\<exists>c. ev = IdentityEvent (CompanyCreated c))"
  "platform_event_type ev = ''deals.PaymentRequested'' \<longleftrightarrow>
     (\<exists>d a b s c g n t u. ev = DealsEvent (PaymentRequested d a b s c g n t u))"
  "platform_event_type ev = ''billing.DealInvoicePaid'' \<longleftrightarrow>
     (\<exists>i d a b g f n c t. ev = BillingEvent (DealInvoicePaid i d a b g f n c t))"
  "platform_event_type ev = ''billing.DealInvoiceExpired'' \<longleftrightarrow>
     (\<exists>i d a b n c t. ev = BillingEvent (DealInvoiceExpired i d a b n c t))"
  "platform_event_type ev = ''deals.WinnerSelectionFinalized'' \<longleftrightarrow>
     (\<exists>s d a c p g f t. ev = DealsEvent (WinnerSelectionFinalized s d a c p g f t))"
  by (cases ev; simp add: company_event_type_def company_created event_names)+

lemma handlers_typed:
  assumes "(platform_event_type (en_payload e), h) \<in> set (registerIntegrationHandlers env clock)"
  shows "typed (h e)"
  using assms unfolding registerIntegrationHandlers_def
  by (auto simp: Subscribe_def event_of_type lotPublished_Execute_def ExecuteBidPlaced_def
      ExecuteAuctionClosed_def ExecuteAuctionCancelled_def auctionWon_Execute_def
      dealCancelled_Execute_def winnerRejected_Execute_def companyCreated_Execute_def
      paymentRequested_Execute_def dealInvoicePaid_Execute_def dealInvoiceExpired_Execute_def
      winnerSelectionFinalized_Execute_def intro!: typed_intro lot_published_typed)

end
