(* ===== verification/Platform_Properties.thy ===== *)
theory Platform_Properties
  imports Platform_Lots Platform_Types
begin

section \<open>Properties of the relay and the integration runtime\<close>

text \<open>
  What the outbox relay guarantees for the platform, through the interpretation \<open>platform\<close> of
  \<open>relay_client\<close>, and what the handlers do. The witnesses run a small platform.
\<close>

subsection \<open>A small platform\<close>

definition small_ids :: "char \<Rightarrow> nat \<Rightarrow> string" where
  "small_ids c n = c # replicate n CHR ''x''"

definition small_env :: platform_env where
  "small_env = \<lparr>
     pe_catalog = \<lparr>ce_id = small_ids CHR ''c'', ce_text_before = (\<lambda>x y. length x < length y)\<rparr>,
     pe_trading = \<lparr>te_id = small_ids CHR ''t'', te_keccak = (\<lambda>x. x), te_sort_slice = insertion_sort,
       te_order_bids = insertion_sort, te_order_rows = insertion_sort\<rparr>,
     pe_deals = \<lparr>de_id = small_ids CHR ''d'', de_local = (\<lambda>t. t), de_sort_func = insertion_sort,
       de_order_rows = insertion_sort\<rparr>,
     pe_billing = \<lparr>env_id = small_ids CHR ''b'', env_events = True, env_provider = ''fake'',
       env_return_url = '''', env_base_url = '''', env_create_top_up = fake_provider_top_up,
       env_create_invoice = fake_provider_invoice\<rparr>,
     pe_id = small_ids CHR ''i'', pe_order_invoices = insertion_sort,
     pe_text_before = (\<lambda>x y. length x < length y), pe_returned = rev, pe_error_text = (\<lambda>_. ''error'')\<rparr>"

definition empty_world :: world where
  "empty_world = \<lparr>w_catalog = new_catalog [] [], w_trading = empty_trading empty_store,
     w_deals = empty_deals, w_identity = \<lparr>io_rows = [], io_ids = 0\<rparr>\<rparr>"

lemma small_disjoint: "sorted_wrt (\<lambda>A B. A \<inter> B = {}) (id_sets small_env)"
  by (auto simp: id_sets_def small_env_def small_ids_def)

lemma empty_world_good: "platform_good small_env empty_world"
  using small_disjoint
  by (simp add: platform_good_def part_good_def empty_world_def new_catalog_def empty_trading_def
      empty_store_def empty_deals_def) (simp add: small_env_def)

text \<open>A company registers; another message has a type no decoder knows.\<close>

definition first_world :: world where
  "first_world = (let w = snd (exec_platform small_env (RegisterCompany 1 ''acme'') empty_world);
       t = w_trading w in
     w\<lparr>w_trading := t\<lparr>ts_wallet := snd (billing_Publish (pe_billing small_env) ''a1'' ''acme''
        (PlatformFeePaymentRequired ''a1'' ''acme'' 5 CurrencyRUB) (ts_wallet t))\<rparr>\<rparr>)"

lemma first_world_good: "platform_good small_env first_world"
proof -
  have w: "platform_good small_env (snd (exec_platform small_env (RegisterCompany 1 ''acme'') empty_world))"
    by (rule appended_rows(2) [OF exec_platform_appends empty_world_good refl])
  have "first_world = snd (in_billing (billing_Publish (pe_billing small_env) ''a1'' ''acme''
      (PlatformFeePaymentRequired ''a1'' ''acme'' 5 CurrencyRUB))
      (snd (exec_platform small_env (RegisterCompany 1 ''acme'') empty_world)))"
    by (simp add: first_world_def in_billing_def inside_def catchE_def zoomE_def Let_def failE_def
        split: prod.split sum.split)
  then show ?thesis
    using appended_rows(2) [OF platform_inside(4) [OF billing_publish_appends] w refl] by metis
qed

text \<open>Rounds of the relay, each with its readings of the clock.\<close>

fun relay_rounds :: "platform_env \<Rightarrow> (nat \<Rightarrow> nat \<Rightarrow> time) list \<Rightarrow> world \<Rightarrow> string list \<times> world" where
  "relay_rounds env [] w = ([], w)"
| "relay_rounds env (clock # clocks) w =
     (let t = snd (runtime_RunOnce env clock 100 w) in
      case relay_rounds env clocks t of (is, u) \<Rightarrow>
        (claimed_ids (relay_env_of env) outbox_messages (clock 0 0) 100 w @ is, u))"

lemma rounds_run: "platform_run env w is t \<Longrightarrow> relay_rounds env clocks t = (js, u)
    \<Longrightarrow> platform_run env w (is @ js) u"
proof (induction clocks arbitrary: "is" t js)
  case (Cons clock clocks)
  obtain ks where ks: "relay_rounds env clocks (snd (runtime_RunOnce env clock 100 t)) = (ks, u)"
    "js = claimed_ids (relay_env_of env) outbox_messages (clock 0 0) 100 t @ ks"
    using Cons.prems(2) by (auto simp: Let_def split: prod.splits)
  show ?case
    using Cons.IH [OF platform_run.relay [OF Cons.prems(1)] ks(1)] ks(2) by simp
qed simp

definition minutes_apart :: "nat \<Rightarrow> (nat \<Rightarrow> nat \<Rightarrow> time) list" where
  "minutes_apart n = map (\<lambda>k _ _. 120000000000 * int k) [1..<Suc n]"

lemma first_world_unsent: "list_all unsent (platform_rows first_world)"
  by code_simp

definition last_world :: world where
  "last_world = snd (relay_rounds small_env (minutes_apart 6) first_world)"

lemma small_run: "platform_run small_env first_world
    [''i'', ''b'', ''bxxx'', ''b'', ''b'', ''b'', ''b''] last_world"
proof -
  have "fst (relay_rounds small_env (minutes_apart 6) first_world)
      = [''i'', ''b'', ''bxxx'', ''b'', ''b'', ''b'', ''b'']"
    by code_simp
  then have "relay_rounds small_env (minutes_apart 6) first_world
      = ([''i'', ''b'', ''bxxx'', ''b'', ''b'', ''b'', ''b''], last_world)"
    by (simp add: last_world_def prod_eq_iff)
  from rounds_run [OF platform_run.start this] show ?thesis
    by simp
qed

subsection \<open>Messages\<close>







lemma older_weak: "weak_order (pe_text_before env) \<Longrightarrow> weak_order (older (relay_env_of env))"
  unfolding weak_order_def older_def relay_env_of_def by (auto, metis+)

text \<open>
  a round claims as many of the messages that wait as its limit allows, the oldest first.
\<close>

theorem relay_claims_the_oldest_messages:
  assumes "platform_good env w" "weak_order (pe_text_before env)"
    and "C = claimed_ids (relay_env_of env) outbox_messages now limit w"
  shows "length C = min limit (length (filter (deliverable now) (platform_rows w)))
    \<and> (\<forall>c r. c \<in> set (platform_rows w) \<and> ob_id c \<in> set C \<and> r \<in> set (platform_rows w)
         \<and> deliverable now r \<and> ob_id r \<notin> set C \<longrightarrow> \<not> older (relay_env_of env) r c)"
  using platform.claims_number [OF assms(1), of now limit] found_row [OF assms(1)]
    platform.claims_oldest [OF assms(1) older_weak [OF assms(2)]]
  by (auto simp: assms(3) outbox_messages_def)

theorem relay_claims_the_oldest_messages_witness:
  "length [''b''] = min 1 (length (filter (deliverable 5) (platform_rows first_world)))
   \<and> [''b''] = claimed_ids (relay_env_of small_env) outbox_messages 5 1 first_world"
proof -
  have C: "[''b''] = claimed_ids (relay_env_of small_env) outbox_messages 5 1 first_world"
    by code_simp
  have "weak_order (pe_text_before small_env)"
    by (auto simp: weak_order_def small_env_def)
  then show ?thesis
    using relay_claims_the_oldest_messages [OF first_world_good _ C] C by blast
qed

fun run_platform :: "platform_env \<Rightarrow> platform_command list \<Rightarrow> world \<Rightarrow> world" where
  "run_platform env [] w = w"
| "run_platform env (cmd # cmds) w = run_platform env cmds (snd (exec_platform env cmd w))"

lemma run_platform_kept: "platform_good env w \<Longrightarrow>
    rows_kept outbox_messages w (run_platform env cmds w) \<and> platform_good env (run_platform env cmds w)"
proof (induction cmds arbitrary: w)
  case (Cons cmd cmds)
  then show ?case
    using appended_rows [OF exec_platform_appends Cons.prems refl, of cmd]
      Cons.IH [of "snd (exec_platform env cmd w)"] by (auto intro: kept_trans)
qed simp

text \<open>
  C34: two relays never hold the same message within a minute. Whatever commands the contexts run after
  one relay has claimed its messages, a relay that claims no later than a minute afterwards gets
  others, so a message is not handled twice at a time.
\<close>

theorem relays_hold_different_messages:
  assumes "platform_good env w"
    and "t = run_platform env cmds (snd (ListUnpublished (relay_env_of env) outbox_messages now limit w))"
    and "now' \<le> now + 60000000000"
  shows "set (claimed_ids (relay_env_of env) outbox_messages now limit w)
    \<inter> set (claimed_ids (relay_env_of env) outbox_messages now' limit' t) = {}"
proof -
  have "platform_good env (snd (ListUnpublished (relay_env_of env) outbox_messages now limit w))"
    by (rule platform.list_claims(2) [OF assms(1) prod.collapse [symmetric]])
  from run_platform_kept [OF this, of cmds] show ?thesis
    by (intro platform.claims_apart [OF assms(1) _ _ assms(3)]) (simp_all add: assms(2))
qed

theorem relays_hold_different_messages_witness:
  "\<exists>t. t = run_platform small_env [RegisterCompany 7 ''orion'']
        (snd (ListUnpublished (relay_env_of small_env) outbox_messages 5 100 first_world))
     \<and> set [''i'', ''b''] \<inter> set (claimed_ids (relay_env_of small_env) outbox_messages 9 100 t) = {}
     \<and> claimed_ids (relay_env_of small_env) outbox_messages 9 100 t \<noteq> []"
proof -
  define t where "t = run_platform small_env [RegisterCompany 7 ''orion'']
      (snd (ListUnpublished (relay_env_of small_env) outbox_messages 5 100 first_world))"
  have "claimed_ids (relay_env_of small_env) outbox_messages 5 100 first_world = [''i'', ''b'']"
      "claimed_ids (relay_env_of small_env) outbox_messages 9 100 t = [''ixx'']"
    unfolding t_def by code_simp+
  then show ?thesis
    using relays_hold_different_messages [OF first_world_good t_def, of 9 100] t_def by auto
qed

subsection \<open>The contexts\<close>

lemma small_env_ok: "platform_env_ok small_env"
  by (simp add: platform_env_ok_def env_ok_def small_env_def small_ids_def inj_def stable_sort.slice_sort_axioms)

lemma empty_world_inv: "platform_inv small_env empty_world"
proof -
  have "trading_inv env (empty_trading w)" for env and w :: billing_store
    by (simp add: trading_inv_def auctions_ok_def ids_ok_def empty_trading_def)
  moreover have "inj (env_id (pe_billing small_env))"
    by (simp add: small_env_def small_ids_def inj_def)
  ultimately show ?thesis
    using new_catalog_inv empty_inv empty_store_inv
    by (simp add: platform_inv_def empty_world_def) (simp add: empty_trading_def)
qed


definition created_envelope :: "platform_event envelope" where
  "created_envelope = envelope_of (message_of (hd (platform_rows
     (snd (exec_platform small_env (RegisterCompany 1 ''acme'') empty_world)))))"

definition account_world :: world where
  "account_world = snd (companyCreated_Execute small_env int created_envelope
     (snd (exec_platform small_env (RegisterCompany 1 ''acme'') empty_world)))"

lemma account_history: "platform_history small_env empty_world account_world"
  unfolding account_world_def
proof (rule platform_history.delivery)
  show "platform_history small_env empty_world (snd (exec_platform small_env (RegisterCompany 1 ''acme'') empty_world))"
    by (rule platform_history.command [OF platform_history.start]) simp
  show "(''identity.CompanyCreated'', companyCreated_Execute small_env int) \<in> set (registerIntegrationHandlers small_env int)"
    by (simp add: registerIntegrationHandlers_def Subscribe_def)
  have "en_payload created_envelope = IdentityEvent (CompanyCreated ''acme'')"
    by code_simp
  then show "delivery_ok small_env int (snd (exec_platform small_env (RegisterCompany 1 ''acme'') empty_world))
      (en_payload created_envelope)"
    by simp
qed




subsection \<open>A published lot\<close>

definition lot_env :: platform_env where
  "lot_env = small_env\<lparr>pe_catalog := cdemo_env\<rparr>"

definition lot_world :: world where
  "lot_world = empty_world\<lparr>w_catalog := cdemo_run (cdemo_product
     @ [CmdCreateLot 3 cdemo_actor cdemo_lot, CmdPublishLot 5 cdemo_actor ''lot-aaaaaa''])\<rparr>"

definition lot_event :: lot_published where
  "lot_event = \<lparr>lp_lot = ''lot-aaaaaa'', lp_auction = '''', lp_seller = ''S'', lp_product = ''prod-a'',
     lp_snapshot = \<lparr>cs_product = ''prod-a'', cs_name = ''cod'', cs_weight = 0x4024000000000000,
       cs_unit = ''kg'', cs_size = ''L'', cs_processing = ''frozen''\<rparr>,
     lp_startPrice = 100, lp_minBidStep = 5, lp_startsAt = 1000, lp_endsAt = 1800000001000,
     lp_status = LotStatusPublished\<rparr>"

definition lot_envelope :: "platform_event envelope" where
  "lot_envelope = envelope_of (message_of (last (map (map_row CatalogEvent) (cst_outbox (w_catalog lot_world)))))"

definition lot_sold_world :: world where
  "lot_sold_world = snd (lotPublished_Execute lot_env int lot_envelope lot_world)"

lemma lot_world_ok:
  "platform_env_ok lot_env" "platform_inv lot_env lot_world"
  "en_payload lot_envelope = CatalogEvent (CatLotPublished lot_event)"
  "lot_link_ok lot_env lot_world lot_event" "0 < lp_startsAt lot_event"
proof -
  show "platform_env_ok lot_env"
    using small_env_ok cdemo_inj by (simp add: platform_env_ok_def lot_env_def)
  have "catalog_inv cdemo_env (w_catalog lot_world)"
    unfolding lot_world_def by (simp, rule cdemo_inv) (simp add: cdemo_ok cdemo_lot_def)
  then show "platform_inv lot_env lot_world"
    using empty_world_inv by (simp add: platform_inv_def lot_env_def) (simp add: lot_world_def)
  show "en_payload lot_envelope = CatalogEvent (CatLotPublished lot_event)"
    by code_simp
  have "map lw_auction (cst_lots (w_catalog lot_world)) = [None]"
    by code_simp
  then have "lw_auction r = None" if "r \<in> set (cst_lots (w_catalog lot_world))" for r
    using that by (metis in_set_conv_nth length_map nth_map list.size(3) length_Cons less_Suc0 nth_Cons_0)
  then show "lot_link_ok lot_env lot_world lot_event"
    by (auto simp: lot_link_ok_def lot_event_def)
  show "0 < lp_startsAt lot_event"
    by (simp add: lot_event_def)
qed

lemma lot_runs: "case lotPublished_Execute lot_env int lot_envelope lot_world of (res, t) \<Rightarrow>
    res = Inr () \<and> fst (GetLotAuctionID ''lot-aaaaaa'' (w_catalog t)) = Inr ''t''"
  by code_simp

lemma lot_delivered: "lotPublished_Execute lot_env int lot_envelope lot_world = (Inr (), lot_sold_world)"
  using lot_runs by (simp add: lot_sold_world_def prod_eq_iff split: prod.splits)



text \<open>
  C5: the relay delivers at least once, and a second delivery of a LotPublished does no harm: it succeeds,
  with whatever readings of the clock, and changes nothing but the count of identifiers trading has drawn.
\<close>

theorem second_delivery_of_lot_is_harmless:
  assumes "platform_env_ok env" "platform_inv env w" "en_payload e = CatalogEvent (CatLotPublished evt)"
    and "0 < lp_startsAt evt" "lot_link_ok env w evt" "lotPublished_Execute env clock e w = (Inr (), t)"
  shows "\<exists>n. lotPublished_Execute env clock' e t = (Inr (), t\<lparr>w_trading := (w_trading t)\<lparr>ts_ids := n\<rparr>\<rparr>)"
proof -
  have run: "lot_published_steps env clock e evt w = (Inr (), t)"
    using assms(3,6) by (simp add: lotPublished_Execute_def)
  then obtain i a p where "lot_opened i a p evt t" "lot_event_ok i (en_occurredAt e) evt"
    using lot_published_leaves [OF assms(1,2,4,5), of clock e] by (auto simp: wpE_def)
  moreover have "lp_startsAt evt \<noteq> 0" "lp_endsAt evt \<noteq> 0"
    using run by (auto simp: lot_published_steps_def failE_def Let_def split: if_splits)
  ultimately show ?thesis
    using lot_published_again assms(3) by (simp add: lotPublished_Execute_def)
qed

theorem second_delivery_of_lot_is_harmless_witness:
  "\<exists>n. lotPublished_Execute lot_env (\<lambda>k. 7) lot_envelope lot_sold_world
     = (Inr (), lot_sold_world\<lparr>w_trading := (w_trading lot_sold_world)\<lparr>ts_ids := n\<rparr>\<rparr>)"
  by (rule second_delivery_of_lot_is_harmless [OF lot_world_ok(1-3,5,4) lot_delivered])

end
