(* ===== verification/Calldata.thy ===== *)
theory Calldata
  imports Go_Format Go_Text
begin

section \<open>Call data for the anchoring contract (internal/blockchain/evm/calldata.go)\<close>

text \<open>
  The arguments of a contract call: four bytes of selector and words of 32 bytes, written in
  hexadecimal. Byte strings are strings; Keccak is the parameter \<open>keccak\<close>, which gives 32 bytes.
  \<open>call_words\<close> reads the words back.
\<close>

datatype calldata_error =
    MinBidStepNotPositive | InvalidStartsEnds | NegativeNonce | PlacedAtNotPositive
  | FinalPriceNotPositive | WordLength int | WordByte

definition createAuctionSignature :: string where
  "createAuctionSignature = ''createAuction(bytes32,uint256,uint64,uint64,uint64)''"

definition anchorBidSignature :: string where
  "anchorBidSignature = ''anchorBid(bytes32,bytes32,uint64,uint64)''"

definition finalizeSignature :: string where
  "finalizeSignature = ''finalizeAuction(bytes32,bytes32,bytes32,uint256,uint64)''"

definition methodSelector :: "(string \<Rightarrow> string) \<Rightarrow> string \<Rightarrow> string" where
  "methodSelector keccak signature = take 4 (keccak signature)"

definition keccakWord :: "(string \<Rightarrow> string) \<Rightarrow> string \<Rightarrow> string" where
  "keccakWord keccak value = take 32 (keccak value)"

definition hex_value :: "char \<Rightarrow> nat" where
  "hex_value c = (let n = byte_of c in if n \<le> 57 then n - 48 else if n \<le> 70 then n - 55 else n - 87)"

fun hex_decode :: "string \<Rightarrow> string" where
  "hex_decode (x # y # s) = char_of (16 * hex_value x + hex_value y) # hex_decode s"
| "hex_decode s = []"

definition asBytes32Word :: "string \<Rightarrow> calldata_error + string" where
  "asBytes32Word value =
     (let lower = map to_lower (TrimSpace value);
          normalized = (if take 2 lower = ''0x'' then drop 2 lower else lower) in
      if length normalized \<noteq> 64 then Inl (WordLength (int (length normalized)))
      else if \<not> hex_decodable normalized then Inl WordByte
      else Inr (hex_decode normalized))"

text \<open>\<open>big.Int.Bytes\<close>: big-endian, without leading zeros.\<close>

function big_bytes :: "nat \<Rightarrow> string" where
  "big_bytes n = (if n = 0 then [] else big_bytes (n div 256) @ [char_of (n mod 256)])"
  by auto
termination by (relation "measure (\<lambda>n. n)") auto

declare big_bytes.simps [simp del]

definition uint256Word :: "int \<Rightarrow> string" where
  "uint256Word value =
     (let b = big_bytes (nat \<bar>value\<bar>) in
      if length b > 32 then drop (length b - 32) b else replicate (32 - length b) (char_of (0 :: nat)) @ b)"

definition BuildCreateAuctionCallData ::
  "(string \<Rightarrow> string) \<Rightarrow> string \<Rightarrow> int \<Rightarrow> int \<Rightarrow> int \<Rightarrow> int \<Rightarrow> calldata_error + string" where
  "BuildCreateAuctionCallData keccak auctionRefHash minBidStep startsAtUnix endsAtUnix nonce =
     (if minBidStep \<le> 0 then Inl MinBidStepNotPositive
      else if startsAtUnix \<le> 0 \<or> endsAtUnix \<le> 0 \<or> startsAtUnix \<ge> endsAtUnix then Inl InvalidStartsEnds
      else if nonce < 0 then Inl NegativeNonce
      else case asBytes32Word auctionRefHash of Inl e \<Rightarrow> Inl e | Inr auctionWord \<Rightarrow>
        Inr (''0x'' @ hex_encode (methodSelector keccak createAuctionSignature @ auctionWord
          @ uint256Word minBidStep @ uint256Word startsAtUnix @ uint256Word endsAtUnix
          @ uint256Word nonce)))"

definition BuildAnchorBidCallData ::
  "(string \<Rightarrow> string) \<Rightarrow> string \<Rightarrow> string \<Rightarrow> int \<Rightarrow> int \<Rightarrow> calldata_error + string" where
  "BuildAnchorBidCallData keccak auctionRefHash bidHash nonce placedAtUnix =
     (if nonce < 0 then Inl NegativeNonce
      else if placedAtUnix \<le> 0 then Inl PlacedAtNotPositive
      else case asBytes32Word auctionRefHash of Inl e \<Rightarrow> Inl e | Inr auctionWord \<Rightarrow>
      case asBytes32Word bidHash of Inl e \<Rightarrow> Inl e | Inr bidWord \<Rightarrow>
        Inr (''0x'' @ hex_encode (methodSelector keccak anchorBidSignature @ auctionWord @ bidWord
          @ uint256Word nonce @ uint256Word placedAtUnix)))"

definition BuildFinalizeAuctionCallData ::
  "(string \<Rightarrow> string) \<Rightarrow> string \<Rightarrow> string \<Rightarrow> string \<Rightarrow> int \<Rightarrow> int \<Rightarrow> calldata_error + string" where
  "BuildFinalizeAuctionCallData keccak auctionRefHash resultHash winnerCompanyID finalPrice nonce =
     (if finalPrice \<le> 0 then Inl FinalPriceNotPositive
      else if nonce < 0 then Inl NegativeNonce
      else case asBytes32Word auctionRefHash of Inl e \<Rightarrow> Inl e | Inr auctionWord \<Rightarrow>
      case asBytes32Word resultHash of Inl e \<Rightarrow> Inl e | Inr resultWord \<Rightarrow>
        Inr (''0x'' @ hex_encode (methodSelector keccak finalizeSignature @ auctionWord @ resultWord
          @ keccakWord keccak (''company|'' @ winnerCompanyID) @ uint256Word finalPrice
          @ uint256Word nonce)))"

subsection \<open>Reading call data\<close>

fun words_of :: "nat \<Rightarrow> string \<Rightarrow> string list" where
  "words_of 0 s = []"
| "words_of (Suc n) s = take 32 s # words_of n (drop 32 s)"

text \<open>The selector and the first \<open>n\<close> words.\<close>

definition call_words :: "nat \<Rightarrow> string \<Rightarrow> string \<times> string list" where
  "call_words n d = (let b = hex_decode (drop 2 d) in (take 4 b, words_of n (drop 4 b)))"

definition word_value :: "string \<Rightarrow> int" where
  "word_value w = foldl (\<lambda>n c. 256 * n + of_char c) 0 w"

lemma hex_value_digit: "n < 16 \<Longrightarrow> hex_value (digit (int n)) = n"
proof -
  have "\<forall>n \<in> set [0..<16]. hex_value (digit (int n)) = n"
    by code_simp
  then show "n < 16 \<Longrightarrow> ?thesis"
    by simp
qed

lemma int_of_char: "(of_char c :: int) = int (of_char c)" "(of_char (char_of n) :: int) = int (n mod 256)"
  using of_nat_of_char [of c, where ?'a = int] of_nat_of_char [of "char_of n", where ?'a = int]
  by (simp_all only: of_char_of)

lemma hex_decode_encode [simp]: "hex_decode (hex_encode bs) = bs"
proof (induction bs)
  case (Cons c bs)
  have n: "of_char c < (256 :: nat)"
    by (rule nat_of_char_less_256)
  have "hex_value (digit (of_char c div 16)) = of_char c div 16" "hex_value (digit (of_char c mod 16)) = of_char c mod 16"
    using less_mult_imp_div_less [of "of_char c" 16 16] n hex_value_digit [of "of_char c div 16"] hex_value_digit [of "of_char c mod 16"]
    by (simp_all add: zdiv_int zmod_int int_of_char(1))
  then show ?case
    using Cons by (simp add: hex_encode_def)
qed (simp add: hex_encode_def)

lemma word_value_append: "word_value (x @ [c]) = 256 * word_value x + of_char c"
  by (simp add: word_value_def)

lemma big_bytes_value: "word_value (big_bytes n) = int n"
proof (induction n rule: big_bytes.induct)
  case (1 n)
  show ?case
  proof (cases "n = 0")
    case True
    then show ?thesis by (simp add: big_bytes.simps [of 0] word_value_def)
  next
    case False
    then have "word_value (big_bytes n) = 256 * int (n div 256) + of_char (char_of (n mod 256))"
      using 1 by (simp add: big_bytes.simps [of n] word_value_append)
    then show ?thesis by (simp only: int_of_char(2)) (simp add: zdiv_int zmod_int)
  qed
qed

lemma big_bytes_length: "n < 256 ^ k \<Longrightarrow> length (big_bytes n) \<le> k"
proof (induction k arbitrary: n)
  case 0
  then show ?case by (simp add: big_bytes.simps [of 0])
next
  case (Suc k)
  then have "n div 256 < 256 ^ k"
    by (simp add: less_mult_imp_div_less)
  with Suc.IH show ?case
    by (subst big_bytes.simps) simp
qed

lemma word_value_zeros: "word_value (replicate n (char_of (0 :: nat)) @ b) = word_value b"
proof -
  have "foldl (\<lambda>n c. 256 * n + of_char c) 0 (replicate n (char_of (0 :: nat))) = (0 :: int)"
    by (induction n) (simp_all only: replicate.simps foldl.simps int_of_char(2), simp_all)
  then show ?thesis by (simp add: word_value_def)
qed

lemma uint256Word_value: "0 \<le> v \<Longrightarrow> v < 2 ^ 256 \<Longrightarrow> word_value (uint256Word v) = v"
proof -
  assume v: "0 \<le> v" "v < 2 ^ 256"
  then have "nat \<bar>v\<bar> < 256 ^ 32"
    by (simp add: nat_less_iff)
  then have "length (big_bytes (nat \<bar>v\<bar>)) \<le> 32"
    by (rule big_bytes_length)
  with v show ?thesis
    by (simp add: uint256Word_def Let_def word_value_zeros big_bytes_value)
qed

lemma word_lengths:
  "length (uint256Word v) = 32" "asBytes32Word h = Inr w \<Longrightarrow> length w = 32"
proof -
  show "length (uint256Word v) = 32"
    by (simp add: uint256Word_def Let_def)
  have "length (hex_decode s) = length s div 2" for s
    by (induction s rule: hex_decode.induct) simp_all
  then show "asBytes32Word h = Inr w \<Longrightarrow> length w = 32"
    by (auto simp: asBytes32Word_def Let_def split: if_splits)
qed

end
