(* ===== verification/Chain_Worker.thy ===== *)
theory Chain_Worker
  imports Trading_System Calldata
begin

section \<open>The chain anchoring worker (internal/integration/chainanchor, internal/blockchain/evm)\<close>

text \<open>
  The worker takes the operations trading has queued, sends each as a transaction to an EVM node and
  follows it: first by its receipt, then by the logs of the contract. The node is a parameter
  (\<open>chain_node\<close>): what it answers to the calls \<open>client.go\<close> makes, as the strings the code parses. The
  writes to the queue are theory Trading\_Chain; they commit one by one.
\<close>

datatype node_error = NodeError string | MissingTransactionField | EmptyTxHash | EmptyBlockNumber | BadHexNumber string

datatype submit_error = CalldataFailed calldata_error | SendFailed node_error

datatype worker_error = NodeFailed node_error | QueueFailed trading_error | BadSyncBlock

record chain_node =
  nd_send :: "nat \<Rightarrow> string \<Rightarrow> node_error + string"
  nd_block :: "nat \<Rightarrow> node_error + string"
  nd_receipt :: "nat \<Rightarrow> string \<Rightarrow> node_error + (string \<times> string) option"
  nd_logs :: "string \<Rightarrow> string \<Rightarrow> string list \<Rightarrow> node_error + (string \<times> string) list"

record worker =
  wk_from :: string
  wk_contract :: string
  wk_confirmations :: int
  wk_keccak :: "string \<Rightarrow> string"
  wk_text :: "submit_error \<Rightarrow> string"

type_synonym ('w, 'a) worker_run = "('w trading_store, worker_error, 'a) exec"

subsection \<open>client.go\<close>

definition parseHexUint64 :: "string \<Rightarrow> int option" where
  "parseHexUint64 value =
     (let t = TrimSpace value; v = (if take 2 t = ''0x'' then drop 2 t else t) in
      if v = '''' then Some 0
      else if \<not> list_all is_hex_char v then None
      else let n = foldl (\<lambda>n c. 16 * n + int (hex_value c)) 0 v in
        if n < 18446744073709551616 then Some n else None)"

definition hex_number :: "string \<Rightarrow> node_error + int" where
  "hex_number value = (case parseHexUint64 value of None \<Rightarrow> Inl (BadHexNumber value) | Some n \<Rightarrow> Inr n)"

function hex_digits :: "int \<Rightarrow> string" where
  "hex_digits n = (if n < 16 then [digit n] else hex_digits (n div 16) @ [digit (n mod 16)])"
  by auto
termination by (relation "measure nat") auto

declare hex_digits.simps [simp del]

definition SendTransaction :: "chain_node \<Rightarrow> nat \<Rightarrow> string \<Rightarrow> string \<Rightarrow> string \<Rightarrow> node_error + string" where
  "SendTransaction node k from to data =
     (if from = '''' \<or> to = '''' \<or> data = '''' then Inl MissingTransactionField
      else case nd_send node k data of Inl e \<Rightarrow> Inl e
      | Inr txHash \<Rightarrow> if txHash = '''' then Inl EmptyTxHash else Inr txHash)"

definition BlockNumber :: "chain_node \<Rightarrow> nat \<Rightarrow> node_error + int" where
  "BlockNumber node k = (case nd_block node k of Inl e \<Rightarrow> Inl e
     | Inr raw \<Rightarrow> if raw = '''' then Inl EmptyBlockNumber else hex_number raw)"

text \<open>Status and block of a receipt, when there is one.\<close>

definition GetTransactionReceipt :: "chain_node \<Rightarrow> nat \<Rightarrow> string \<Rightarrow> node_error + (int \<times> int) option" where
  "GetTransactionReceipt node k txHash = (case nd_receipt node k txHash of
      Inl e \<Rightarrow> Inl e
    | Inr None \<Rightarrow> Inr None
    | Inr (Some (rawStatus, rawBlock)) \<Rightarrow>
        case hex_number rawStatus of Inl e \<Rightarrow> Inl e | Inr status \<Rightarrow>
        case hex_number rawBlock of Inl e \<Rightarrow> Inl e | Inr block \<Rightarrow> Inr (Some (status, block)))"

fun decode_logs :: "(string \<times> string) list \<Rightarrow> node_error + (string \<times> int) list" where
  "decode_logs [] = Inr []"
| "decode_logs ((txHash, rawBlock) # raw) =
     (case hex_number rawBlock of Inl e \<Rightarrow> Inl e | Inr block \<Rightarrow>
      case decode_logs raw of Inl e \<Rightarrow> Inl e | Inr logs \<Rightarrow> Inr ((txHash, block) # logs))"

definition GetLogs :: "chain_node \<Rightarrow> int \<Rightarrow> int \<Rightarrow> string list \<Rightarrow> node_error + (string \<times> int) list" where
  "GetLogs node fromBlock toBlock topics =
     (case nd_logs node (''0x'' @ hex_digits fromBlock) (''0x'' @ hex_digits toBlock) topics of
        Inl e \<Rightarrow> Inl e | Inr raw \<Rightarrow> decode_logs raw)"

definition signatureHash :: "(string \<Rightarrow> string) \<Rightarrow> string \<Rightarrow> string" where
  "signatureHash keccak signature = ''0x'' @ hex_encode (keccak signature)"

definition contract_topics :: "(string \<Rightarrow> string) \<Rightarrow> string list" where
  "contract_topics keccak = map (signatureHash keccak)
     [''AuctionCreated(bytes32,uint256,uint64,uint64,uint64,address)'',
      ''BidAnchored(bytes32,bytes32,uint64,uint64,address)'',
      ''AuctionFinalized(bytes32,bytes32,bytes32,uint256,uint64,address)'']"

subsection \<open>worker.go\<close>

definition SetConfirmations :: "int \<Rightarrow> worker \<Rightarrow> worker" where
  "SetConfirmations confirmations w = w\<lparr>wk_confirmations := (if confirmations = 0 then 1 else confirmations)\<rparr>"

definition retryDelay :: int where
  "retryDelay = 10000000000"

definition syncKey :: string where
  "syncKey = ''chain.logs.last_block''"

definition hasEnoughConfirmations :: "worker \<Rightarrow> int \<Rightarrow> int \<Rightarrow> bool" where
  "hasEnoughConfirmations w currentBlock txBlock =
     (if wk_confirmations w \<le> 1 then currentBlock \<ge> txBlock
      else if currentBlock < txBlock then False
      else (currentBlock - txBlock + 1) mod 18446744073709551616 \<ge> wk_confirmations w)"

definition queue :: "('w, 'a) trading \<Rightarrow> ('w, 'a) worker_run" where
  "queue m = catchE m (\<lambda>e s. (Inl (QueueFailed e), s))"

definition ignoring :: "('w, unit) trading \<Rightarrow> ('w, unit) worker_run" where
  "ignoring m s = (Inr (), snd (m s))"

definition node :: "node_error + 'a \<Rightarrow> ('w, 'a) worker_run" where
  "node r = liftE (map_sum NodeFailed (\<lambda>a. a) r)"

definition unix :: "time \<Rightarrow> int" where
  "unix t = t div 1000000000 - 62135596800"

text \<open>The call data of an operation, or the error text it is marked with.\<close>

definition call_data :: "worker \<Rightarrow> chain_operation \<Rightarrow> string + string" where
  "call_data w op' =
     (let built = (\<lambda>r. case r of Inl e \<Rightarrow> Inl (wk_text w (CalldataFailed e)) | Inr d \<Rightarrow> Inr d) in
      if co_type op' = ''AUCTION_CREATE'' then
        (case (co_startsAt op', co_endsAt op', co_minBidStep op') of
           (Some startsAt, Some endsAt, Some step) \<Rightarrow> built (BuildCreateAuctionCallData (wk_keccak w)
             (co_ref_hash op') step (unix startsAt) (unix endsAt) (co_nonce op'))
         | _ \<Rightarrow> Inl ''missing auction create payload'')
      else if co_type op' = ''BID_ANCHOR'' then
        (case (co_bid_hash op', co_placedAt op') of
           (Some h, Some placedAt) \<Rightarrow> built (BuildAnchorBidCallData (wk_keccak w) (co_ref_hash op') h
             (co_nonce op') (unix placedAt))
         | _ \<Rightarrow> Inl ''missing bid hash'')
      else if co_type op' = ''AUCTION_FINALIZE'' then
        (case (co_result_hash op', co_winner op', co_final_price op') of
           (Some h, Some winner, Some price) \<Rightarrow> built (BuildFinalizeAuctionCallData (wk_keccak w)
             (co_ref_hash op') h winner price (co_nonce op'))
         | _ \<Rightarrow> Inl ''missing finalize payload'')
      else Inl ''unknown op type'')"

definition submit_one :: "worker \<Rightarrow> chain_node \<Rightarrow> (nat \<Rightarrow> time) \<Rightarrow> nat \<Rightarrow> chain_operation \<Rightarrow> ('w, unit) worker_run"
  where
  "submit_one w nd clock k op' =
     (let failed = (\<lambda>text. ignoring (MarkSubmitFailed (co_id op') text (clock k + retryDelay))) in
      case call_data w op' of Inl text \<Rightarrow> failed text
      | Inr data \<Rightarrow>
        case SendTransaction nd k (wk_from w) (wk_contract w) data of
          Inl e \<Rightarrow> failed (wk_text w (SendFailed e))
        | Inr txHash \<Rightarrow> queue (MarkSubmitted (co_id op') txHash (wk_from w)))"

definition submitPending :: "worker \<Rightarrow> chain_node \<Rightarrow> (nat \<Rightarrow> time) \<Rightarrow> ('w, unit) worker_run" where
  "submitPending w nd clock =
     bindE (queue (ListReadyForSubmit (clock 0) 100)) (\<lambda>ops.
     forE (\<lambda>(k, op'). submit_one w nd clock k op') (zip [1..<Suc (length ops)] ops))"

definition reconcile_one ::
  "worker \<Rightarrow> chain_node \<Rightarrow> (nat \<Rightarrow> time) \<Rightarrow> int \<Rightarrow> nat \<Rightarrow> chain_operation \<Rightarrow> ('w, unit) worker_run" where
  "reconcile_one w nd clock currentBlock k op' = (case co_tx op' of None \<Rightarrow> retE () | Some txHash \<Rightarrow>
     if txHash = '''' then retE () else
     case GetTransactionReceipt nd k txHash of
       Inl e \<Rightarrow> ignoring (MarkFailedByTxHash txHash (wk_text w (SendFailed e)) (clock k + retryDelay))
     | Inr None \<Rightarrow> retE ()
     | Inr (Some (status, block)) \<Rightarrow>
         if status = 1 then
           (if \<not> hasEnoughConfirmations w currentBlock block then retE ()
            else queue (MarkConfirmedByTxHash txHash (wrap64 block)))
         else queue (MarkFailedByTxHash txHash ''transaction reverted'' (clock k + retryDelay)))"

definition reconcileSentReceipts :: "worker \<Rightarrow> chain_node \<Rightarrow> (nat \<Rightarrow> time) \<Rightarrow> ('w, unit) worker_run" where
  "reconcileSentReceipts w nd clock =
     bindE (queue (ListSubmitted 100)) (\<lambda>ops.
     bindE (node (BlockNumber nd 0)) (\<lambda>currentBlock.
     forE (\<lambda>(k, op'). reconcile_one w nd clock currentBlock k op') (zip [0..<length ops] ops)))"

definition sync_block :: "('w, int) worker_run" where
  "sync_block = bindE (queue (GetSyncBlock syncKey)) (\<lambda>b.
     case b of None \<Rightarrow> failE BadSyncBlock | Some n \<Rightarrow> retE n)"

definition syncEvents :: "worker \<Rightarrow> chain_node \<Rightarrow> ('w, unit) worker_run" where
  "syncEvents w nd =
     bindE (node (BlockNumber nd 1)) (\<lambda>current.
     bindE sync_block (\<lambda>stored.
     let fromBlock = (if stored = 0 then current else stored) in
     if fromBlock > current then queue (SetSyncBlock syncKey current)
     else if \<not> hasEnoughConfirmations w current fromBlock then retE ()
     else
       let toBlock = (current - (wk_confirmations w - 1)) mod 18446744073709551616 in
       bindE (node (GetLogs nd fromBlock toBlock (contract_topics (wk_keccak w)))) (\<lambda>logs.
       bindE (forE (\<lambda>(txHash, block). queue (MarkConfirmedByTxHash txHash (wrap64 block))) logs) (\<lambda>_.
       queue (SetSyncBlock syncKey ((toBlock + 1) mod 18446744073709551616))))))"

definition worker_RunOnce :: "worker \<Rightarrow> chain_node \<Rightarrow> (nat \<Rightarrow> nat \<Rightarrow> time) \<Rightarrow> ('w, unit) worker_run" where
  "worker_RunOnce w nd clock =
     bindE (submitPending w nd (clock 0)) (\<lambda>_.
     bindE (reconcileSentReceipts w nd (clock 1)) (\<lambda>_.
     syncEvents w nd))"

end
