(* ===== verification/Worker_Correct.thy ===== *)
theory Worker_Correct
  imports Chain_Worker
begin

section \<open>What the worker does to the queue\<close>

text \<open>
  \<open>holds_on s t\<close>: what was confirmed in \<open>s\<close> is confirmed in \<open>t\<close>. Every statement of the worker keeps it: the
  operations it submits and fails are not confirmed, because it has listed them as ready or as sent and
  changes one operation at a time.
\<close>

definition chain_ok :: "'w trading_store \<Rightarrow> bool" where
  "chain_ok s \<longleftrightarrow> distinct (map co_id (ts_chain s)) \<and> tx_unique (ts_chain s)"

definition confirmed :: "chain_operation \<Rightarrow> bool" where
  "confirmed x \<longleftrightarrow> co_status x = ''CONFIRMED''"

definition holds_on :: "'w trading_store \<Rightarrow> 'w trading_store \<Rightarrow> bool" where
  "holds_on s t \<longleftrightarrow> (\<forall>x \<in> set (ts_chain s). confirmed x \<longrightarrow>
     (\<exists>y \<in> set (ts_chain t). co_id y = co_id x \<and> co_tx y = co_tx x \<and> confirmed y))"

lemma holds_on_refl [simp]: "holds_on s s"
  by (auto simp: holds_on_def)

lemma holds_on_trans: "holds_on s t \<Longrightarrow> holds_on t u \<Longrightarrow> holds_on s u"
  unfolding holds_on_def by (metis (no_types, lifting))

text \<open>A run of the worker and a method of the queue keep what they find confirmed.\<close>

lemma wpE_queue: "wpE (queue m) Q R s = wpE m Q (\<lambda>e. R (QueueFailed e)) s"
  by (auto simp: queue_def wpE_def catchE_def split: prod.split sum.split)

lemma wpE_ignoring: "wpE m (\<lambda>_. Q ()) (\<lambda>_. Q ()) s \<Longrightarrow> wpE (ignoring m) Q R s"
  by (auto simp: ignoring_def wpE_def split: prod.splits sum.splits)

lemma wpE_node: "wpE (node r) Q R s = (case r of Inl e \<Rightarrow> R (NodeFailed e) s | Inr a \<Rightarrow> Q a s)"
  by (simp add: node_def wpE_def liftE_def split: sum.split)

lemma mark_target_chain: "wpE (mark_target x f g) (\<lambda>_ t. ts_chain t = ts_chain s) (\<lambda>_ t. ts_chain t = ts_chain s) s"
  by (auto simp: mark_target_def bids_mark_def auctions_mark_def wp_simps split: option.split)

lemma chain_update_wp:
  assumes ok: "chain_ok s" and id: "\<And>x. co_id (f x) = co_id x"
    and Q: "\<And>t. chain_ok t \<Longrightarrow> ts_chain t = row_update p (\<lambda>x. (f x)\<lparr>co_updated := ts_now s\<rparr>) (ts_chain s) \<Longrightarrow> Q t"
    and R: "Q s" and m: "\<And>t. Q t \<Longrightarrow> wpE m (\<lambda>_. Q) (\<lambda>_. Q) t"
  shows "wpE (bindE (chain_update p f) (\<lambda>found. case found of None \<Rightarrow> m | Some x \<Rightarrow> mark_target x (g x) (h x)))
    (\<lambda>_. Q) (\<lambda>_. Q) s"
proof -
  let ?rows = "row_update p (\<lambda>x. (f x)\<lparr>co_updated := ts_now s\<rparr>) (ts_chain s)"
  have ids: "map co_id ?rows = map co_id (ts_chain s)"
    by (rule map_row_update) (simp add: id)
  have updated: "Q t" if "ts_chain t = ?rows" "tx_unique ?rows" for t
    using that ok ids by (intro Q) (simp_all add: chain_ok_def)
  have "wpE (mark_target x (g x) (h x)) (\<lambda>_. Q) (\<lambda>_. Q) (s\<lparr>ts_chain := ?rows\<rparr>)" if "tx_unique ?rows" for x
    by (rule wpE_mono [OF mark_target_chain]) (use that in \<open>auto intro: updated\<close>)
  then show ?thesis
    unfolding wpE_bind
    by (auto simp: chain_update_def wpE_def [of "chain_update p f"] Let_def R
        intro!: m updated split: option.split)
qed

lemma holds_on_update:
  assumes "holds_on s t" "ts_chain u = row_update p f (ts_chain t)"
    and "\<And>x. x \<in> set (ts_chain t) \<Longrightarrow> confirmed x \<Longrightarrow> p x \<Longrightarrow>
      co_id (f x) = co_id x \<and> co_tx (f x) = co_tx x \<and> confirmed (f x)"
  shows "holds_on s u"
proof (rule holds_on_trans [OF assms(1)], unfold holds_on_def, intro ballI impI)
  fix x assume "x \<in> set (ts_chain t)" "confirmed x"
  then show "\<exists>y \<in> set (ts_chain u). co_id y = co_id x \<and> co_tx y = co_tx x \<and> confirmed y"
    using assms(3) row_update_mem_if [of x "ts_chain t" p f] by (auto simp: assms(2) split: if_splits)
qed

subsection \<open>Submitting\<close>

definition open_ids :: "int set \<Rightarrow> 'w trading_store \<Rightarrow> bool" where
  "open_ids is t \<longleftrightarrow> (\<forall>x \<in> set (ts_chain t). co_id x \<in> is \<longrightarrow> \<not> confirmed x)"

lemma open_update:
  "open_ids is t \<Longrightarrow> ts_chain u = row_update p f (ts_chain t) \<Longrightarrow> (\<And>x. \<not> confirmed (f x)) \<Longrightarrow> (\<And>x. co_id (f x) = co_id x)
    \<Longrightarrow> open_ids is u"
  by (auto simp: open_ids_def set_row_update split: if_splits)

lemma mark_one_keeps:
  assumes "chain_ok t" "holds_on s t" "open_ids is t" "i \<in> is"
  shows "wpE (MarkSubmitted i tx from) (\<lambda>_ u. chain_ok u \<and> holds_on s u \<and> open_ids is u)
      (\<lambda>_ u. chain_ok u \<and> holds_on s u \<and> open_ids is u) t"
    "wpE (MarkSubmitFailed i e at') (\<lambda>_ u. chain_ok u \<and> holds_on s u \<and> open_ids is u)
      (\<lambda>_ u. chain_ok u \<and> holds_on s u \<and> open_ids is u) t"
proof -
  have hit: "\<not> confirmed x" if "x \<in> set (ts_chain t)" "co_id x = i" for x
    using that assms by (auto simp: open_ids_def)
  show "wpE (MarkSubmitted i tx from) (\<lambda>_ u. chain_ok u \<and> holds_on s u \<and> open_ids is u)
      (\<lambda>_ u. chain_ok u \<and> holds_on s u \<and> open_ids is u) t"
    unfolding MarkSubmitted_def
    by (rule chain_update_wp [OF assms(1)])
      (use assms hit in \<open>auto simp: wp_simps confirmed_def elim!: holds_on_update open_update\<close>)
  show "wpE (MarkSubmitFailed i e at') (\<lambda>_ u. chain_ok u \<and> holds_on s u \<and> open_ids is u)
      (\<lambda>_ u. chain_ok u \<and> holds_on s u \<and> open_ids is u) t"
    unfolding MarkSubmitFailed_def
    by (rule chain_update_wp [OF assms(1)])
      (use assms hit in \<open>auto simp: wp_simps confirmed_def elim!: holds_on_update open_update\<close>)
qed

lemma submit_keeps:
  assumes "chain_ok s"
  shows "wpE (submitPending w nd clock) (\<lambda>_ t. chain_ok t \<and> holds_on s t) (\<lambda>_ t. chain_ok t \<and> holds_on s t) s"
proof -
  have loop: "wpE (forE (\<lambda>(k, x). submit_one w nd clock k x) (zip ks ops))
      (\<lambda>_ t. chain_ok t \<and> holds_on s t) (\<lambda>_ t. chain_ok t \<and> holds_on s t) s"
    if ops: "set ops \<subseteq> {x \<in> set (ts_chain s). \<not> confirmed x}" for ks ops
  proof -
    let ?I = "\<lambda>t. chain_ok t \<and> holds_on s t \<and> open_ids (co_id ` set ops) t"
    have "open_ids (co_id ` set ops) s"
    proof (unfold open_ids_def, intro ballI impI)
      fix x assume x: "x \<in> set (ts_chain s)" "co_id x \<in> co_id ` set ops"
      then obtain y where y: "y \<in> set ops" "co_id y = co_id x" by auto
      with x(1) ops assms have "y = x"
        by (auto simp: chain_ok_def distinct_map dest: inj_onD)
      with y(1) ops show "\<not> confirmed x" by auto
    qed
    then have "?I s"
      using assms by simp
    moreover have "wpE (submit_one w nd clock k x) (\<lambda>_. ?I) (\<lambda>_. ?I) t" if "x \<in> set ops" "?I t" for k x t
      using that unfolding submit_one_def Let_def
      by (auto simp: wpE_queue split: sum.split intro!: wpE_ignoring mark_one_keeps)
    ultimately have "wpE (forE (\<lambda>(k, x). submit_one w nd clock k x) (zip ks ops)) (\<lambda>_. ?I) (\<lambda>_. ?I) s"
      by (intro wpE_for) (auto dest!: set_zip_rightD split: prod.split)
    then show ?thesis
      by (rule wpE_mono) auto
  qed
  show ?thesis
    unfolding submitPending_def wpE_bind wpE_queue ListReadyForSubmit_def chain_list_def wpE_read
    by (rule loop) (auto simp: ready_op_def confirmed_def dest: in_set_takeD)
qed

subsection \<open>Following\<close>

lemma tx_distinct:
  assumes "chain_ok s" "set ops \<subseteq> set (ts_chain s)" "distinct ops" "\<And>x. x \<in> set ops \<Longrightarrow> co_tx x \<noteq> None"
  shows "distinct (map co_tx ops)"
proof -
  have "inj_on co_tx {x \<in> set (ts_chain s). co_tx x \<noteq> None}"
    using assms(1) by (simp add: chain_ok_def tx_unique_def filter_map comp_def distinct_map)
  then have "inj_on co_tx (set ops)"
    by (rule inj_on_subset) (use assms(2,4) in auto)
  with assms(3) show ?thesis
    by (simp add: distinct_map)
qed

text \<open>No operation with one of these transactions is confirmed.\<close>

definition open_txs :: "string option set \<Rightarrow> 'w trading_store \<Rightarrow> bool" where
  "open_txs txs t \<longleftrightarrow> (\<forall>x \<in> set (ts_chain t). co_tx x \<in> txs \<longrightarrow> \<not> confirmed x)"

lemma open_txs_update:
  "open_txs txs t \<Longrightarrow> ts_chain u = row_update (\<lambda>x. co_tx x = Some tx) f (ts_chain t) \<Longrightarrow> Some tx \<notin> txs
    \<Longrightarrow> (\<And>x. co_tx (f x) = co_tx x) \<Longrightarrow> open_txs txs u"
  by (auto simp: open_txs_def set_row_update split: if_splits)

lemma mark_tx_keeps:
  fixes t :: "'w trading_store"
  assumes "chain_ok t" "holds_on s t" "open_txs txs t" "Some tx \<notin> txs"
  shows "wpE (MarkConfirmedByTxHash tx b) (\<lambda>_ u. chain_ok u \<and> holds_on s u \<and> open_txs txs u)
      (\<lambda>_ u. chain_ok u \<and> holds_on s u \<and> open_txs txs u) t"
    "open_txs {Some tx} t \<Longrightarrow> wpE (MarkFailedByTxHash tx e at') (\<lambda>_ u. chain_ok u \<and> holds_on s u \<and> open_txs txs u)
      (\<lambda>_ u. chain_ok u \<and> holds_on s u \<and> open_txs txs u) t"
proof -
  show "wpE (MarkConfirmedByTxHash tx b) (\<lambda>_ u. chain_ok u \<and> holds_on s u \<and> open_txs txs u)
      (\<lambda>_ u. chain_ok u \<and> holds_on s u \<and> open_txs txs u) t"
    unfolding MarkConfirmedByTxHash_def
    by (rule chain_update_wp [OF assms(1)])
      (use assms in \<open>auto simp: wp_simps confirmed_def elim!: holds_on_update open_txs_update\<close>)
  assume "open_txs {Some tx} t"
  then have hit: "\<not> confirmed x" if "x \<in> set (ts_chain t)" "co_tx x = Some tx" for x
    using that by (auto simp: open_txs_def)
  show "wpE (MarkFailedByTxHash tx e at') (\<lambda>_ u. chain_ok u \<and> holds_on s u \<and> open_txs txs u)
      (\<lambda>_ u. chain_ok u \<and> holds_on s u \<and> open_txs txs u) t"
    unfolding MarkFailedByTxHash_def
    by (rule chain_update_wp [OF assms(1)])
      (use assms hit in \<open>auto simp: wp_simps confirmed_def elim!: holds_on_update open_txs_update\<close>)
qed

lemma reconcile_loop:
  "chain_ok t \<Longrightarrow> holds_on s t \<Longrightarrow> distinct (map co_tx ops) \<Longrightarrow> open_txs (co_tx ` set ops) t
    \<Longrightarrow> wpE (forE (\<lambda>(k, x). reconcile_one w nd clock cur k x) (zip ks ops))
      (\<lambda>_ t. chain_ok t \<and> holds_on s t) (\<lambda>_ t. chain_ok t \<and> holds_on s t) t"
proof (induction ops arbitrary: ks t)
  case (Cons x ops)
  show ?case
  proof (cases ks)
    case (Cons k ks')
    let ?I = "\<lambda>u. chain_ok u \<and> holds_on s u \<and> open_txs (co_tx ` set ops) u"
    have sub: "open_txs (co_tx ` set ops) t" "co_tx x = Some tx \<Longrightarrow> open_txs {Some tx} t" for tx
      using Cons.prems(4) by (auto simp: open_txs_def)
    have "wpE (reconcile_one w nd clock cur k x) (\<lambda>_. ?I) (\<lambda>_. ?I) t"
      using Cons.prems(1-3) sub unfolding reconcile_one_def
      by (auto simp: wp_simps wpE_queue split: option.split sum.split
          intro!: wpE_ignoring mark_tx_keeps)
    then show ?thesis
      using Cons Cons.IH Cons.prems(3) by (auto simp: wpE_bind elim!: wpE_mono)
  qed (use Cons.prems in \<open>simp add: wp_simps\<close>)
qed (simp add: wp_simps)

lemma reconcile_keeps:
  assumes "chain_ok s"
  shows "wpE (reconcileSentReceipts w nd clock) (\<lambda>_ t. chain_ok t \<and> holds_on s t) (\<lambda>_ t. chain_ok t \<and> holds_on s t) s"
proof -
  have loop: "wpE (forE (\<lambda>(k, x). reconcile_one w nd clock cur k x) (zip ks (take n (sort_key co_id (filter sent (ts_chain s))))))
      (\<lambda>_ t. chain_ok t \<and> holds_on s t) (\<lambda>_ t. chain_ok t \<and> holds_on s t) s"
    if sent: "\<And>x. sent x \<Longrightarrow> co_tx x \<noteq> None \<and> \<not> confirmed x" for cur ks n sent
  proof (rule reconcile_loop [OF assms holds_on_refl])
    let ?ops = "take n (sort_key co_id (filter sent (ts_chain s)))"
    have ops: "set ?ops \<subseteq> {x \<in> set (ts_chain s). sent x}"
      by (auto dest: in_set_takeD)
    have "distinct ?ops"
      using assms by (simp add: chain_ok_def distinct_map)
    then show tx: "distinct (map co_tx ?ops)"
      using assms ops sent by (intro tx_distinct [of s]) auto
    show "open_txs (co_tx ` set ?ops) s"
    proof (unfold open_txs_def, intro ballI impI)
      fix x assume x: "x \<in> set (ts_chain s)" "co_tx x \<in> co_tx ` set ?ops"
      then obtain y where y: "y \<in> set ?ops" "co_tx y = co_tx x" by auto
      have "inj_on co_tx {x \<in> set (ts_chain s). co_tx x \<noteq> None}"
        using assms by (simp add: chain_ok_def tx_unique_def filter_map comp_def distinct_map)
      then have "y = x"
        by (rule inj_onD) (use x y ops sent in auto)
      with y(1) ops sent show "\<not> confirmed x" by auto
    qed
  qed
  show ?thesis
    unfolding reconcileSentReceipts_def wpE_bind wpE_queue ListSubmitted_def chain_list_def wpE_read wpE_node
    using assms by (auto split: sum.split intro!: loop simp: confirmed_def)
qed

lemma sync_keeps:
  assumes "chain_ok s"
  shows "wpE (syncEvents w nd) (\<lambda>_ t. chain_ok t \<and> holds_on s t) (\<lambda>_ t. chain_ok t \<and> holds_on s t) s"
proof -
  let ?I = "\<lambda>t. chain_ok t \<and> holds_on s t"
  have set: "wpE (queue (SetSyncBlock key b)) (\<lambda>_. ?I) (\<lambda>_. ?I) t" if "?I t" for key b t
    using that by (simp add: wpE_queue SetSyncBlock_def wp_simps chain_ok_def holds_on_def)
  have mark: "wpE (MarkConfirmedByTxHash tx b) (\<lambda>_. ?I) (\<lambda>_. ?I) t" if "?I t" for tx b t
    by (rule wpE_mono [OF mark_tx_keeps(1) [of t s "{}"]]) (use that in \<open>auto simp: open_txs_def\<close>)
  have logs: "wpE (forE (\<lambda>(tx, b). queue (MarkConfirmedByTxHash tx (wrap64 b))) logs) (\<lambda>_. ?I) (\<lambda>_. ?I) s" for logs
    using assms mark by (intro wpE_for) (auto simp: wpE_queue split: prod.split)
  show ?thesis
    unfolding syncEvents_def sync_block_def GetSyncBlock_def Let_def
    using assms by (auto simp: wpE_bind wpE_node wpE_queue [of "readE _"] wp_simps
        split: sum.split option.split intro!: set wpE_mono [OF logs])
qed

lemma worker_keeps:
  assumes "chain_ok s"
  shows "chain_ok (snd (worker_RunOnce w nd clock s)) \<and> holds_on s (snd (worker_RunOnce w nd clock s))"
proof (rule wp_snd [where I = "\<lambda>t. chain_ok t \<and> holds_on s t"])
  have after: "wpE m (\<lambda>_ t. chain_ok t \<and> holds_on s t) (\<lambda>_ t. chain_ok t \<and> holds_on s t) u"
    if "wpE m (\<lambda>_ t. chain_ok t \<and> holds_on u t) (\<lambda>_ t. chain_ok t \<and> holds_on u t) u" "holds_on s u" for m u
    by (rule wpE_mono [OF that(1)]) (use that(2) holds_on_trans in blast)+
  show "wpE (worker_RunOnce w nd clock) (\<lambda>_ t. chain_ok t \<and> holds_on s t) (\<lambda>_ t. chain_ok t \<and> holds_on s t) s"
    unfolding worker_RunOnce_def wpE_bind
    by (intro wpE_mono [OF submit_keeps [OF assms]])
      (auto intro!: wpE_mono [OF after [OF reconcile_keeps]] after sync_keeps)
qed

subsection \<open>The blocks the worker has scanned\<close>

text \<open>A number that is stored is read back.\<close>

lemma dec_digits_value: "0 \<le> n \<Longrightarrow> foldl (\<lambda>n c. 10 * n + (of_char c - 48)) 0 (dec_digits n) = n
    \<and> list_all (\<lambda>c. c \<in> set ''0123456789'') (dec_digits n) \<and> dec_digits n \<noteq> []"
proof (induction n rule: dec_digits.induct)
  case (1 n)
  have digit: "of_char (digit d) = d + (48 :: int) \<and> digit d \<in> set ''0123456789''" if "0 \<le> d" "d < 10" for d
  proof -
    have "\<forall>d \<in> set [0..9]. of_char (digit d) = d + (48 :: int) \<and> digit d \<in> set ''0123456789''"
      by code_simp
    with that show ?thesis by simp
  qed
  show ?case
  proof (cases "n < 10")
    case True
    then show ?thesis
      using 1(2) digit [of n] by (simp add: dec_digits.simps [of n])
  next
    case False
    then show ?thesis
      using 1 digit [of "n mod 10"] by (simp add: dec_digits.simps [of n])
  qed
qed

lemma parse_format: "0 \<le> n \<Longrightarrow> n < 18446744073709551616 \<Longrightarrow> parse_uint64 (format_int n) = Some n"
  using dec_digits_value [of n] by (simp add: parse_uint64_def format_int_def Let_def)

lemma map_of_upsert: "map_of (row_upsert fst (k, v) rows) k = Some v"
proof -
  have "list_ex (\<lambda>r. fst r = k) rows \<Longrightarrow> map_of (row_update (\<lambda>r. fst r = k) (\<lambda>_. (k, v)) rows) k = Some v"
    by (induction rows) (auto simp: row_update_def)
  moreover have "\<not> list_ex (\<lambda>r. fst r = k) rows \<Longrightarrow> map_of rows k = None"
    by (auto simp: list_ex_iff map_of_eq_None_iff)
  ultimately show ?thesis
    by (simp add: row_upsert_def map_add_def)
qed

lemma stored_block: "0 \<le> n \<Longrightarrow> n < 18446744073709551616 \<Longrightarrow> SetSyncBlock key n s = (Inr (), t)
    \<Longrightarrow> GetSyncBlock key t = (Inr (Some n), t)"
  by (auto simp: SetSyncBlock_def modifyE_def GetSyncBlock_def readE_def parse_format map_of_upsert)

definition all_confirmed :: "string set \<Rightarrow> 'w trading_store \<Rightarrow> bool" where
  "all_confirmed txs t \<longleftrightarrow> (\<forall>x \<in> set (ts_chain t). \<forall>tx \<in> txs. co_tx x = Some tx \<longrightarrow> confirmed x)"

lemma mark_confirms:
  assumes "all_confirmed txs s"
  shows "wpE (MarkConfirmedByTxHash tx b) (\<lambda>_. all_confirmed (insert tx txs)) (\<lambda>_ _. True) s"
proof -
  let ?rows = "row_update (\<lambda>x. co_tx x = Some tx) (\<lambda>x. (x\<lparr>co_status := ''CONFIRMED'', co_block := Some b\<rparr>)
      \<lparr>co_updated := ts_now s\<rparr>) (ts_chain s)"
  have rows: "all_confirmed (insert tx txs) t" if "ts_chain t = ?rows" for t :: "'w trading_store"
    using assms that by (auto simp: all_confirmed_def confirmed_def set_row_update split: if_splits)
  have "wpE (mark_target x f g) (\<lambda>_. all_confirmed (insert tx txs)) (\<lambda>_ _. True) (s\<lparr>ts_chain := ?rows\<rparr>)" for x f g
    by (rule wpE_mono [OF mark_target_chain]) (auto intro: rows)
  then show ?thesis
    unfolding MarkConfirmedByTxHash_def wpE_bind
    by (auto simp: wpE_def [of "chain_update _ _"] chain_update_def Let_def wp_simps rows split: option.split)
qed

lemma logs_confirm:
  fixes s :: "'w trading_store"
  shows "all_confirmed txs s \<Longrightarrow> wpE (forE (\<lambda>(tx, b). queue (MarkConfirmedByTxHash tx (wrap64 b))) logs)
    (\<lambda>_. all_confirmed (txs \<union> fst ` set logs)) (\<lambda>_ _. True) s"
proof (induction logs arbitrary: txs s)
  case (Cons l logs)
  obtain tx b where l: "l = (tx, b)" by (cases l)
  have "all_confirmed (insert tx txs) u \<Longrightarrow> wpE (forE (\<lambda>(tx, b). queue (MarkConfirmedByTxHash tx (wrap64 b))) logs)
      (\<lambda>_. all_confirmed (txs \<union> fst ` set (l # logs))) (\<lambda>_ _. True) u" for u :: "'w trading_store"
    using Cons.IH [of "insert tx txs" u] by (simp add: l)
  then show ?case
    using wpE_mono [OF mark_confirms [OF Cons.prems, of tx "wrap64 b"]]
    by (simp add: wpE_bind wpE_queue l)
qed (simp add: wp_simps)

lemma block_range: "BlockNumber nd k = Inr n \<Longrightarrow> 0 \<le> n \<and> n < 18446744073709551616"
proof -
  have "0 \<le> a \<Longrightarrow> 0 \<le> foldl (\<lambda>n c. 16 * n + int (hex_value c)) a v" for a v
    by (induction v arbitrary: a) simp_all
  then show "BlockNumber nd k = Inr n \<Longrightarrow> 0 \<le> n \<and> n < 18446744073709551616"
    by (auto simp: BlockNumber_def hex_number_def parseHexUint64_def Let_def split: sum.splits if_splits)
qed

lemma stored_range: "GetSyncBlock key s = (Inr (Some n), s) \<Longrightarrow> 0 \<le> n"
proof -
  have digit: "0 \<le> (of_char c :: int) - 48" if "c \<in> set ''0123456789''" for c
    using that by auto
  have "0 \<le> a \<Longrightarrow> list_all (\<lambda>c. c \<in> set ''0123456789'') v
      \<Longrightarrow> 0 \<le> foldl (\<lambda>n c. 10 * n + (of_char c - 48)) (a :: int) v" for a v
  proof (induction v arbitrary: a)
    case (Cons c v)
    have "0 \<le> 10 * a + (of_char c - 48)"
      using Cons.prems digit [of c] by (simp del: set_simps)
    then show ?case
      using Cons by simp
  qed simp
  from this [of 0] show "GetSyncBlock key s = (Inr (Some n), s) \<Longrightarrow> 0 \<le> n"
    by (auto simp: GetSyncBlock_def readE_def parse_uint64_def Let_def split: option.splits if_splits)
qed

lemma bind_known: "m s = (Inr a, t) \<Longrightarrow> bindE m f s = f a t"
  by (simp add: bindE_def)

text \<open>A pass over the logs that has succeeded. \<open>first\<close> is the first block it had to look at.\<close>

lemma sync_scans:
  fixes s :: "'w trading_store"
  assumes conf: "1 \<le> wk_confirmations w" and block: "BlockNumber nd 1 = Inr current" "current + 1 < 18446744073709551616"
    and stored: "GetSyncBlock syncKey s = (Inr (Some stored), s)"
    and run: "syncEvents w nd s = (Inr (), t)" and first: "first = (if stored = 0 then current else stored)"
    and scan: "first \<le> current" "wk_confirmations w \<le> current - first + 1" and last: "last' = current - (wk_confirmations w - 1)"
  shows "\<exists>logs. GetLogs nd first last' (contract_topics (wk_keccak w)) = Inr logs \<and> first \<le> last'
    \<and> all_confirmed (fst ` set logs) t \<and> GetSyncBlock syncKey t = (Inr (Some (last' + 1)), t)"
proof -
  have enough: "hasEnoughConfirmations w current first" and range: "0 \<le> last'" "last' < 18446744073709551615"
    using conf scan first last block(2) block_range [OF block(1)] stored_range [OF stored] by (auto simp: hasEnoughConfirmations_def split: if_splits)
  have reads: "node (BlockNumber nd 1) s = (Inr current, s)" "sync_block s = (Inr stored, s)"
    using block(1) stored by (simp_all add: node_def liftE_def sync_block_def bindE_def queue_def catchE_def retE_def)
  have "(if current < first then queue (SetSyncBlock syncKey current)
      else if \<not> hasEnoughConfirmations w current first then retE ()
      else bindE (node (GetLogs nd first (last' mod 18446744073709551616) (contract_topics (wk_keccak w)))) (\<lambda>logs.
       bindE (forE (\<lambda>(txHash, block). queue (MarkConfirmedByTxHash txHash (wrap64 block))) logs) (\<lambda>_.
       queue (SetSyncBlock syncKey ((last' mod 18446744073709551616 + 1) mod 18446744073709551616))))) s = (Inr (), t)"
    using run unfolding syncEvents_def bind_known [where m = "node (BlockNumber nd 1)" and a = current, OF reads(1)]
      bind_known [where m = sync_block and a = stored, OF reads(2)] Let_def first [symmetric] last [symmetric] .
  then have steps: "bindE (node (GetLogs nd first last' (contract_topics (wk_keccak w)))) (\<lambda>logs.
       bindE (forE (\<lambda>(txHash, block). queue (MarkConfirmedByTxHash txHash (wrap64 block))) logs) (\<lambda>_.
       queue (SetSyncBlock syncKey (last' + 1)))) s = (Inr (), t)"
    using enough scan(1) range by simp
  obtain logs where logs: "GetLogs nd first last' (contract_topics (wk_keccak w)) = Inr logs"
    "bindE (forE (\<lambda>(txHash, block). queue (MarkConfirmedByTxHash txHash (wrap64 block))) logs) (\<lambda>_.
       queue (SetSyncBlock syncKey (last' + 1))) s = (Inr (), t)"
    using steps by (cases "GetLogs nd first last' (contract_topics (wk_keccak w))")
      (auto simp: bindE_def [of "node _"] bindE_def [of "liftE _"] node_def liftE_def)
  obtain u where u: "forE (\<lambda>(txHash, block). queue (MarkConfirmedByTxHash txHash (wrap64 block))) logs s = (Inr (), u)"
    "queue (SetSyncBlock syncKey (last' + 1)) u = (Inr (), t)"
    using logs(2) by (auto simp: bindE_def split: prod.splits sum.splits)
  have "all_confirmed (fst ` set logs) u"
    using logs_confirm [of "{}" s logs] u(1) by (simp add: all_confirmed_def wpE_def)
  moreover have set: "SetSyncBlock syncKey (last' + 1) u = (Inr (), t)"
    using u(2) by (auto simp: queue_def catchE_def split: prod.splits sum.splits)
  ultimately have "all_confirmed (fst ` set logs) t"
    by (auto simp: SetSyncBlock_def modifyE_def all_confirmed_def)
  moreover have "GetSyncBlock syncKey t = (Inr (Some (last' + 1)), t)"
    by (rule stored_block [OF _ _ set]) (use range in simp_all)
  moreover have "first \<le> last'"
    using scan(2) last by simp
  ultimately show ?thesis
    using logs(1) by blast
qed

end
