(* ===== verification/Worker_Properties.thy ===== *)
theory Worker_Properties
  imports Worker_Correct
begin

section \<open>Properties of the chain anchoring worker\<close>

text \<open>
  What the worker writes into a transaction, that it never takes a confirmation back, and which blocks
  it has looked at. The witnesses use a node that knows two blocks and a hash that gives 32 zero bytes.
\<close>

subsection \<open>Call data\<close>

lemma words_of_append: "length a = 32 \<Longrightarrow> words_of (Suc n) (a @ s) = a # words_of n s"
  by simp

lemmas calldata_simps = call_words_def Let_def eval_nat_numeral words_of_append word_lengths methodSelector_def
  drop_append

text \<open>The fields of an operation are columns of type \<open>BIGINT\<close>, its times lie after 1970.\<close>

definition op_in_range :: "chain_operation \<Rightarrow> bool" where
  "op_in_range x \<longleftrightarrow> co_nonce x < 9223372036854775808
     \<and> (\<forall>v \<in> set_option (co_minBidStep x) \<union> set_option (co_final_price x). v < 9223372036854775808)
     \<and> (\<forall>t \<in> set_option (co_startsAt x) \<union> set_option (co_endsAt x) \<union> set_option (co_placedAt x). unix t < 9223372036854775808)"

lemma create_words:
  assumes "\<And>s. length (keccak s) = 32" "BuildCreateAuctionCallData keccak h step a b n = Inr d"
  shows "\<exists>r. asBytes32Word h = Inr r \<and> 0 < step \<and> 0 < a \<and> 0 < b \<and> 0 \<le> n
    \<and> call_words 5 d = (take 4 (keccak createAuctionSignature), [r, uint256Word step, uint256Word a, uint256Word b, uint256Word n])"
  using assms
  by (auto simp: BuildCreateAuctionCallData_def calldata_simps split: if_splits sum.splits)

lemma anchor_words:
  assumes "\<And>s. length (keccak s) = 32" "BuildAnchorBidCallData keccak h b n at' = Inr d"
  shows "\<exists>r x. asBytes32Word h = Inr r \<and> asBytes32Word b = Inr x \<and> 0 \<le> n \<and> 0 < at'
    \<and> call_words 4 d = (take 4 (keccak anchorBidSignature), [r, x, uint256Word n, uint256Word at'])"
  using assms
  by (auto simp: BuildAnchorBidCallData_def calldata_simps split: if_splits sum.splits)

lemma finalize_words:
  assumes "\<And>s. length (keccak s) = 32" "BuildFinalizeAuctionCallData keccak h b win p n = Inr d"
  shows "\<exists>r x. asBytes32Word h = Inr r \<and> asBytes32Word b = Inr x \<and> 0 \<le> n \<and> 0 < p
    \<and> call_words 5 d = (take 4 (keccak finalizeSignature),
        [r, x, keccak (''company|'' @ win), uint256Word p, uint256Word n])"
  using assms
  by (auto simp: BuildFinalizeAuctionCallData_def calldata_simps keccakWord_def split: if_splits sum.splits)

text \<open>
  C38: what the worker sends to the contract is what the operation says. When it can build the call data
  of an operation, the data read back as the selector of the method of that type, the hashes of the
  operation and, in the order of the signature, its amounts, times and nonce.
\<close>

theorem call_data_reads_back:
  assumes "\<And>s. length (wk_keccak w s) = 32" "op_in_range x" "call_data w x = Inr d"
  shows "case call_words (if co_type x = ''BID_ANCHOR'' then 4 else 5) d of (selector, ws) \<Rightarrow>
    asBytes32Word (co_ref_hash x) = Inr (ws ! 0) \<and>
    (if co_type x = ''AUCTION_CREATE'' then selector = methodSelector (wk_keccak w) createAuctionSignature
       \<and> map (\<lambda>v. Some (word_value v)) (drop 1 ws) =
           [co_minBidStep x, map_option unix (co_startsAt x), map_option unix (co_endsAt x), Some (co_nonce x)]
     else if co_type x = ''BID_ANCHOR'' then selector = methodSelector (wk_keccak w) anchorBidSignature
       \<and> map_option asBytes32Word (co_bid_hash x) = Some (Inr (ws ! 1))
       \<and> map (\<lambda>v. Some (word_value v)) (drop 2 ws) = [Some (co_nonce x), map_option unix (co_placedAt x)]
     else co_type x = ''AUCTION_FINALIZE'' \<and> selector = methodSelector (wk_keccak w) finalizeSignature
       \<and> map_option asBytes32Word (co_result_hash x) = Some (Inr (ws ! 1))
       \<and> map_option (\<lambda>c. wk_keccak w (''company|'' @ c)) (co_winner x) = Some (ws ! 2)
       \<and> map (\<lambda>v. Some (word_value v)) (drop 3 ws) = [co_final_price x, Some (co_nonce x)])"
proof -
  have small: "word_value (uint256Word v) = v" if "0 \<le> v" "v < 9223372036854775808" for v
    by (rule uint256Word_value) (use that in simp_all)
  consider (create) a b step where "co_type x = ''AUCTION_CREATE''" "co_startsAt x = Some a" "co_endsAt x = Some b"
      "co_minBidStep x = Some step"
      "BuildCreateAuctionCallData (wk_keccak w) (co_ref_hash x) step (unix a) (unix b) (co_nonce x) = Inr d"
    | (anchor) h at' where "co_type x = ''BID_ANCHOR''" "co_bid_hash x = Some h" "co_placedAt x = Some at'"
      "BuildAnchorBidCallData (wk_keccak w) (co_ref_hash x) h (co_nonce x) (unix at') = Inr d"
    | (finalize) h c p where "co_type x = ''AUCTION_FINALIZE''" "co_result_hash x = Some h" "co_winner x = Some c"
      "co_final_price x = Some p"
      "BuildFinalizeAuctionCallData (wk_keccak w) (co_ref_hash x) h c p (co_nonce x) = Inr d"
    using assms(3) by (auto simp: call_data_def Let_def split: if_splits option.splits sum.splits)
  then show ?thesis
  proof cases
    case create
    from create_words [OF assms(1) create(5)] show ?thesis
      using assms(2) create(1-4) small by (auto simp: op_in_range_def methodSelector_def)
  next
    case anchor
    from anchor_words [OF assms(1) anchor(4)] show ?thesis
      using assms(2) anchor(1-3) small by (auto simp: op_in_range_def methodSelector_def)
  next
    case finalize
    from finalize_words [OF assms(1) finalize(5)] show ?thesis
      using assms(2) finalize(1-4) small by (auto simp: op_in_range_def methodSelector_def)
  qed
qed

definition zero_word :: string where
  "zero_word = replicate 32 (CHR 0x00)"

definition demo_worker :: worker where
  "demo_worker = SetConfirmations 0 \<lparr>wk_from = ''0xaa'', wk_contract = ''0xbb'', wk_confirmations = 2,
     wk_keccak = (\<lambda>_. zero_word), wk_text = (\<lambda>_. ''error'')\<rparr>"

text \<open>The bid that was placed one second after 1970, with nonce 1.\<close>

definition demo_op :: chain_operation where
  "demo_op = (chain_op ''BID_ANCHOR'' 1 ''auction'' (''0x'' @ replicate 64 (CHR ''a'')))
     \<lparr>co_bid_hash := Some (replicate 64 (CHR ''b'')), co_placedAt := Some 62135596801000000000\<rparr>"

theorem call_data_reads_back_witness:
  "\<exists>d. call_data demo_worker demo_op = Inr d
     \<and> map word_value (drop 2 (snd (call_words 4 d))) = [1, 1]
     \<and> snd (call_words 4 d) ! 1 = replicate 32 (CHR 0xBB)"
proof -
  have len: "length (wk_keccak demo_worker s) = 32" for s
    by (simp add: demo_worker_def SetConfirmations_def zero_word_def)
  have range: "op_in_range demo_op" and type: "co_type demo_op = ''BID_ANCHOR''"
    by (simp_all add: op_in_range_def demo_op_def chain_op_def unix_def)
  have fields: "co_nonce demo_op = 1" "map_option unix (co_placedAt demo_op) = Some 1"
    "map_option asBytes32Word (co_bid_hash demo_op) = Some (Inr (replicate 32 (CHR 0xBB)))"
    by code_simp+
  have "case call_data demo_worker demo_op of Inl _ \<Rightarrow> False | Inr _ \<Rightarrow> True"
    by code_simp
  then obtain d where d: "call_data demo_worker demo_op = Inr d"
    by (auto split: sum.splits)
  show ?thesis
    using call_data_reads_back [OF len range d] d type fields
    by (cases "call_words 4 d") (auto simp: map_eq_Cons_conv)
qed

subsection \<open>Runs of the worker\<close>

text \<open>Any number of runs, each with what the node answers and the readings of the clock.\<close>

fun worker_runs :: "worker \<Rightarrow> (chain_node \<times> (nat \<Rightarrow> nat \<Rightarrow> time)) list \<Rightarrow> 'w trading_store \<Rightarrow> 'w trading_store" where
  "worker_runs w [] s = s"
| "worker_runs w ((nd, clock) # runs) s = worker_runs w runs (snd (worker_RunOnce w nd clock s))"

lemma worker_runs_keep: "chain_ok s \<Longrightarrow> holds_on s (worker_runs w runs s)"
proof (induction runs arbitrary: s)
  case (Cons r runs)
  then show ?case
    using worker_keeps [of s] holds_on_trans by (cases r) (simp, blast)
qed simp

text \<open>
  C35: an operation that is confirmed stays confirmed, with its transaction, whatever the node answers in
  any number of runs of the worker, failing runs included. \<open>chain_ok\<close> is what the primary key of the
  table and the unique index of the transaction hashes give.
\<close>

theorem confirmed_stays_confirmed:
  assumes "chain_ok s" "x \<in> set (ts_chain s)" "co_status x = ''CONFIRMED''"
  shows "\<exists>y \<in> set (ts_chain (worker_runs w runs s)). co_id y = co_id x \<and> co_tx y = co_tx x \<and> co_status y = ''CONFIRMED''"
  using worker_runs_keep [OF assms(1), of w runs] assms(2,3) by (auto simp: holds_on_def confirmed_def)

text \<open>A node at block 2 that has mined everything in block 1, and one that fails.\<close>

definition demo_node :: chain_node where
  "demo_node = \<lparr>nd_send = (\<lambda>k d. Inr ''0xcc''), nd_block = (\<lambda>_. Inr ''0x2''),
     nd_receipt = (\<lambda>_ _. Inr (Some (''0x1'', ''0x1''))), nd_logs = (\<lambda>_ _ _. Inr [(''0xcc'', ''0x1'')])\<rparr>"

definition dead_node :: chain_node where
  "dead_node = \<lparr>nd_send = (\<lambda>k d. Inl (NodeError ''down'')), nd_block = (\<lambda>_. Inr ''0x2''),
     nd_receipt = (\<lambda>_ _. Inl (NodeError ''down'')), nd_logs = (\<lambda>_ _ _. Inl (NodeError ''down''))\<rparr>"

definition demo_confirmed :: chain_operation where
  "demo_confirmed = demo_op\<lparr>co_id := 1, co_tx := Some ''0xcc'', co_status := ''CONFIRMED'', co_block := Some 1\<rparr>"

text \<open>The operation is confirmed, and another one waits to be sent.\<close>

definition demo_queue :: "unit trading_store" where
  "demo_queue = (empty_trading ())\<lparr>ts_chain := [demo_confirmed, demo_op\<lparr>co_id := 2, co_nonce := 2\<rparr>]\<rparr>"

definition demo_run :: "chain_node \<Rightarrow> chain_node \<times> (nat \<Rightarrow> nat \<Rightarrow> time)" where
  "demo_run nd = (nd, \<lambda>_ _. 5)"

lemma demo_chain_ok: "chain_ok demo_queue"
  by (simp add: chain_ok_def tx_unique_def demo_queue_def demo_confirmed_def demo_op_def chain_op_def)

theorem confirmed_stays_confirmed_witness:
  "\<exists>y \<in> set (ts_chain (worker_runs demo_worker [demo_run dead_node, demo_run demo_node] demo_queue)).
     co_id y = 1 \<and> co_tx y = Some ''0xcc'' \<and> co_status y = ''CONFIRMED''"
proof -
  have "demo_confirmed \<in> set (ts_chain demo_queue)" "co_id demo_confirmed = 1"
    "co_tx demo_confirmed = Some ''0xcc''" "co_status demo_confirmed = ''CONFIRMED''"
    by (simp_all add: demo_queue_def demo_confirmed_def)
  then show ?thesis
    using confirmed_stays_confirmed [OF demo_chain_ok] by metis
qed

subsection \<open>The log scan\<close>

text \<open>
  C36: the log scan skips no block. A scan that succeeds asks the node for all blocks from the first one it has
  not asked for (the stored number) to the last one with enough confirmations, confirms every operation
  whose transaction has a log there, and stores the next number.
\<close>

theorem scanned_blocks_are_settled:
  fixes s :: "'w trading_store"
  assumes conf: "1 \<le> wk_confirmations w" and block: "BlockNumber nd 1 = Inr current" "current + 1 < 18446744073709551616"
    and stored: "GetSyncBlock syncKey s = (Inr (Some stored), s)" "stored \<noteq> 0"
    and scan: "stored + wk_confirmations w \<le> current + 1" and run: "syncEvents w nd s = (Inr (), t)"
  shows "\<exists>logs last'. GetLogs nd stored last' (contract_topics (wk_keccak w)) = Inr logs
    \<and> stored \<le> last' \<and> last' + wk_confirmations w = current + 1
    \<and> (\<forall>x \<in> set (ts_chain t). co_tx x \<in> Some ` fst ` set logs \<longrightarrow> co_status x = ''CONFIRMED'')
    \<and> GetSyncBlock syncKey t = (Inr (Some (last' + 1)), t)"
proof -
  have "\<exists>logs. GetLogs nd stored (current - (wk_confirmations w - 1)) (contract_topics (wk_keccak w)) = Inr logs
      \<and> stored \<le> current - (wk_confirmations w - 1) \<and> all_confirmed (fst ` set logs) t
      \<and> GetSyncBlock syncKey t = (Inr (Some (current - (wk_confirmations w - 1) + 1)), t)"
    by (rule sync_scans [OF conf block stored(1) run]) (use conf scan stored(2) in auto)
  then show ?thesis
    by (fastforce simp: all_confirmed_def confirmed_def)
qed

definition scanning_queue :: "unit trading_store" where
  "scanning_queue = demo_queue\<lparr>ts_chain := [demo_op\<lparr>co_tx := Some ''0xcc'', co_status := ''SENT''\<rparr>],
     ts_sync := [(syncKey, ''1'')]\<rparr>"

theorem scanned_blocks_are_settled_witness:
  "GetSyncBlock syncKey (snd (syncEvents demo_worker demo_node scanning_queue))
     = (Inr (Some 3), snd (syncEvents demo_worker demo_node scanning_queue))"
proof -
  have steps: "1 \<le> wk_confirmations demo_worker" "BlockNumber demo_node 1 = Inr 2"
    "wk_confirmations demo_worker = 1" "fst (syncEvents demo_worker demo_node scanning_queue) = Inr ()"
    by code_simp+
  have stored: "GetSyncBlock syncKey scanning_queue = (Inr (Some 1), scanning_queue)"
    by (simp add: GetSyncBlock_def readE_def scanning_queue_def parse_uint64_def Let_def)
  show ?thesis
    using scanned_blocks_are_settled [OF steps(1,2) _ stored, of "snd (syncEvents demo_worker demo_node scanning_queue)"]
      steps(3,4) by (auto simp: prod_eq_iff)
qed

text \<open>Sending and following operations does not touch the stored block.\<close>

definition sync_is :: "(string \<times> string) list \<Rightarrow> 'w trading_store \<Rightarrow> bool" where
  "sync_is b t \<longleftrightarrow> ts_sync t = b"

lemma update_sync: "sync_is b s \<Longrightarrow> wpE (chain_update p f) (\<lambda>_. sync_is b) (\<lambda>_. sync_is b) s"
  by (auto simp: chain_update_def wpE_def Let_def sync_is_def)

lemma target_sync: "sync_is b s \<Longrightarrow> wpE (mark_target x f g) (\<lambda>_. sync_is b) (\<lambda>_. sync_is b) s"
  by (auto simp: mark_target_def bids_mark_def auctions_mark_def wp_simps sync_is_def split: option.split)

lemma marks_sync:
  assumes "sync_is b s"
  shows "wpE (MarkSubmitted i tx from) (\<lambda>_. sync_is b) (\<lambda>_. sync_is b) s"
    "wpE (MarkSubmitFailed i e at') (\<lambda>_. sync_is b) (\<lambda>_. sync_is b) s"
    "wpE (MarkConfirmedByTxHash tx n) (\<lambda>_. sync_is b) (\<lambda>_. sync_is b) s"
    "wpE (MarkFailedByTxHash tx e at') (\<lambda>_. sync_is b) (\<lambda>_. sync_is b) s"
  unfolding MarkSubmitted_def MarkSubmitFailed_def MarkConfirmedByTxHash_def MarkFailedByTxHash_def wpE_bind
  by (rule wpE_mono [OF update_sync [OF assms]]; auto simp: wp_simps intro: target_sync split: option.split)+

lemma submit_sync: "sync_is b s \<Longrightarrow> wpE (submitPending w nd clock) (\<lambda>_. sync_is b) (\<lambda>_. sync_is b) s"
  unfolding submitPending_def wpE_bind wpE_queue ListReadyForSubmit_def chain_list_def wpE_read
  by (auto simp: submit_one_def Let_def wpE_queue wp_simps marks_sync intro!: wpE_for wpE_ignoring split: option.split sum.split)

lemma reconcile_sync: "sync_is b s \<Longrightarrow> wpE (reconcileSentReceipts w nd clock) (\<lambda>_. sync_is b) (\<lambda>_. sync_is b) s"
  unfolding reconcileSentReceipts_def wpE_bind wpE_queue ListSubmitted_def chain_list_def wpE_read wpE_node
  by (auto simp: reconcile_one_def wpE_queue wp_simps marks_sync intro!: wpE_for wpE_ignoring split: option.split sum.split)

lemma scan_idle:
  assumes "sync_is b s" "map_of b syncKey = None" "2 \<le> wk_confirmations w"
  shows "snd (syncEvents w nd s) = s"
proof -
  have "sync_block s = (Inr 0, s)"
    using assms(1,2) by (simp add: sync_block_def queue_def catchE_def bindE_def GetSyncBlock_def readE_def sync_is_def retE_def)
  moreover have "\<not> hasEnoughConfirmations w n n" for n
    using assms(3) by (simp add: hasEnoughConfirmations_def)
  ultimately show ?thesis
    by (cases "BlockNumber nd 1")
      (simp_all add: syncEvents_def bindE_def [of "node _"] bindE_def [of "liftE _"] bind_known [of sync_block s 0 s] node_def liftE_def retE_def)
qed

lemma run_sync:
  assumes "sync_is b s" "map_of b syncKey = None" "2 \<le> wk_confirmations w"
  shows "sync_is b (snd (worker_RunOnce w nd clock s))"
proof -
  have "wpE (syncEvents w nd) (\<lambda>_. sync_is b) (\<lambda>_. sync_is b) t" if "sync_is b t" for t :: "'a trading_store"
    using scan_idle [OF that assms(2,3), of nd] that by (auto simp: wpE_def split: prod.split sum.split)
  then have "wpE (worker_RunOnce w nd clock) (\<lambda>_. sync_is b) (\<lambda>_. sync_is b) s"
    unfolding worker_RunOnce_def wpE_bind
    by (intro wpE_mono [OF submit_sync [OF assms(1)]] wpE_mono [OF reconcile_sync])
  then show ?thesis
    by (rule wp_snd)
qed

text \<open>
  C39: a worker that waits for two or more confirmations (two is what \<open>NewWorker\<close> and the deployment
  choose) never starts the log scan. As long as no block is stored, the first block to scan is the
  current one, which has one confirmation; so no number of runs ever stores a block, and in each the scan
  ends without reading a log or changing anything.
\<close>

theorem log_scan_never_starts:
  assumes "2 \<le> wk_confirmations w" "map_of (ts_sync s) syncKey = None"
  shows "map_of (ts_sync (worker_runs w runs s)) syncKey = None
    \<and> snd (syncEvents w nd (worker_runs w runs s)) = worker_runs w runs s"
proof -
  have "sync_is b s \<Longrightarrow> map_of b syncKey = None \<Longrightarrow> sync_is b (worker_runs w runs s)" for b
    using assms(1) by (induction w runs s rule: worker_runs.induct) (auto intro: run_sync)
  from this [of "ts_sync s"] show ?thesis
    using assms scan_idle by (auto simp: sync_is_def)
qed

theorem log_scan_never_starts_witness:
  "snd (syncEvents (SetConfirmations 2 demo_worker) demo_node
      (worker_runs (SetConfirmations 2 demo_worker) [demo_run dead_node, demo_run demo_node] demo_queue))
    = worker_runs (SetConfirmations 2 demo_worker) [demo_run dead_node, demo_run demo_node] demo_queue"
  using log_scan_never_starts [of "SetConfirmations 2 demo_worker" demo_queue]
  by (simp add: SetConfirmations_def demo_queue_def empty_trading_def)

subsection \<open>Receipts\<close>

text \<open>
  C40: an error while a receipt is read is taken for a failed transaction. The operation, whose transaction
  may well have been mined, is ready to be submitted once more after the delay.
\<close>

theorem receipt_error_resubmits:
  assumes "chain_ok s" "x \<in> set (ts_chain s)" "co_tx x = Some tx" "tx \<noteq> ''''"
    and "GetTransactionReceipt nd k tx = Inl e"
  shows "\<exists>y \<in> set (ts_chain (snd (reconcile_one w nd clock current k x s))).
    co_id y = co_id x \<and> ready_op (clock k + retryDelay) y"
proof -
  let ?f = "\<lambda>y. (y\<lparr>co_status := ''FAILED'', co_last_error := Some (wk_text w (SendFailed e)), co_next_retry := clock k + retryDelay\<rparr>)
    \<lparr>co_updated := ts_now s\<rparr>"
  let ?Q = "\<lambda>t. ts_chain t = row_update (\<lambda>y. co_tx y = Some tx) ?f (ts_chain s)"
  have "map co_tx (row_update (\<lambda>y. co_tx y = Some tx) ?f (ts_chain s)) = map co_tx (ts_chain s)"
    by (rule map_row_update) simp
  then have update: "wpE (MarkFailedByTxHash tx (wk_text w (SendFailed e)) (clock k + retryDelay)) (\<lambda>_. ?Q) (\<lambda>_. ?Q) s"
    using assms(1) unfolding MarkFailedByTxHash_def wpE_bind wpE_def [of "chain_update _ _"]
    by (auto simp: chain_update_def Let_def chain_ok_def tx_unique_def wp_simps split: option.split
        intro!: wpE_mono [OF mark_target_chain])
  have "reconcile_one w nd clock current k x s
      = ignoring (MarkFailedByTxHash tx (wk_text w (SendFailed e)) (clock k + retryDelay)) s"
    using assms(3-5) by (simp add: reconcile_one_def)
  then have "?Q (snd (reconcile_one w nd clock current k x s))"
    using wp_snd [OF update] by (simp add: ignoring_def)
  then show ?thesis
    using row_update_mem_if [OF assms(2), of "\<lambda>y. co_tx y = Some tx" ?f] assms(3)
    by (auto simp: ready_op_def intro!: bexI [where x = "?f x"])
qed

theorem receipt_error_resubmits_witness:
  "\<exists>y \<in> set (ts_chain (snd (reconcile_one demo_worker dead_node (\<lambda>_. 5) 2 0
      (hd (ts_chain scanning_queue)) scanning_queue))). ready_op 10000000005 y"
proof -
  let ?x = "hd (ts_chain scanning_queue)"
  have "chain_ok scanning_queue" "?x \<in> set (ts_chain scanning_queue)" "co_tx ?x = Some ''0xcc''" "''0xcc'' \<noteq> ''''"
    by (simp_all add: chain_ok_def tx_unique_def scanning_queue_def)
  moreover have "GetTransactionReceipt dead_node 0 ''0xcc'' = Inl (NodeError ''down'')"
    by (simp add: GetTransactionReceipt_def dead_node_def)
  ultimately show ?thesis
    using receipt_error_resubmits [of scanning_queue ?x "''0xcc''" dead_node 0 "NodeError ''down''" demo_worker "\<lambda>_. 5" 2]
    by (auto simp: retryDelay_def)
qed

end
