(* ===== verification/Spec2Isabelle.thy ===== *)
theory Spec2Isabelle
  imports Trading_Properties Deals_Properties Catalog_Properties Platform_Properties Worker_Properties
begin

text \<open>
  A verification development for the fish trading platform \<open>Unbelievable_Fish\<close>: Go services for
  billing, trading (auctions), deals and the product catalog, which share one PostgreSQL database
  and talk through an outbox of events.

  A lot that a seller publishes becomes an auction (trading). Bids reserve a deposit in the bidder's
  wallet (billing). Closing an auction ranks its bids and names up to three winner candidates; the
  first one gets a deal (deals), which is confirmed, put under contract, invoiced and paid (billing
  again), shipped and completed, or cancelled, and then passes to the next candidate.

  \<^bold>\<open>Common theories.\<close>
  \<^item> Prelude: the shape of a Go method over a store (\<open>exec\<close>), its weakest preconditions, Go's
    \<open>int64\<close>, SQL tables as lists of rows.
  \<^item> Transactions: \<open>internal/infra/postgresctx\<close> and the units of work; the contracts \<open>runner\<close> and
    \<open>tx_runner\<close>, both interpreted.
  \<^item> Status\_Machine: the contract of an entity whose status only moves forward and whose data are
    fixed (\<open>snapshot_fsm\<close>), interpreted for invoices, payouts and top-ups in Wallet\_Lemmas, for
    auctions in Auction\_Correct and for deals in Deal\_Correct.
  \<^item> Sorting: the contract of \<open>sort.Slice\<close> and \<open>slices.SortFunc\<close> (\<open>slice_sort\<close>: some permutation
    that is ordered), with insertion sort as its interpretation.
  \<^item> Go\_Format: decimal and hexadecimal digits, and the time layouts the code prints.
  \<^item> Go\_Text: \<open>strings.TrimSpace\<close> on the bytes of a string.
  \<^item> Outbox: the table of events every context writes to, and the contract of adding to it
    (\<open>event_outbox\<close>, interpreted for the catalog).

  \<^bold>\<open>Billing.\<close>
  \<^item> Wallet, Wallet\_Lemmas: \<open>internal/billing/wallet\<close>, entity by entity, method by method.
  \<^item> Billing\_Store: \<open>internal/billing/postgres\<close>, one list of rows per table; the constraints of the
    migrations are the errors of the operations.
  \<^item> Billing\_Deposits, Billing\_Payments: \<open>internal/billing/app\<close>, one definition per use case.
  \<^item> Billing\_Invariant: the invariant of the tables (the books balance) and the ways money moves.
  \<^item> Billing\_Correct, Billing\_Payments\_Correct: every use case keeps the invariant.
  \<^item> Billing\_System: the calls the other parts of the platform make and the stores they reach.
  \<^item> Billing\_Effects: what each use case does to amounts and deposits.
  \<^item> Billing\_Properties: the properties of billing with their witnesses.

  \<^bold>\<open>Trading.\<close>
  \<^item> Auction, Auction\_Correct: \<open>internal/trading/auction\<close>: bids, the auction and its methods, the
    ranking of the bids and the winner.
  \<^item> Trading\_Store, Trading\_Chain: \<open>internal/trading/postgres\<close> and the queue of blockchain operations.
  \<^item> Trading: \<open>internal/trading/app\<close>, the adapter of the deposit service, the loops that close expired
    auctions. \<open>PlaceBid\<close> and \<open>CloseAuction\<close> are split where the auction has been loaded, so that
    two calls can be interleaved there.
  \<^item> Trading\_Correct, Trading\_Effects, Trading\_System: invariant, effects, reachable stores.
  \<^item> Trading\_Properties: the properties of trading with their witnesses.

  \<^bold>\<open>Deals.\<close>
  \<^item> Deal\_Types, Deal\_Selection, Deal: \<open>internal/deals/deal\<close>: statuses and events, the selection of
    the winner and the confirmations, the deal with its methods and its factory.
  \<^item> Deals\_Store: \<open>internal/deals/postgres\<close>, with the conversions between columns and entities.
  \<^item> Deals: \<open>internal/deals/app\<close>, one definition per use case.
  \<^item> Deal\_Correct: the deal as a state machine; what a repository saves it loads.
  \<^item> Deals\_Correct, Deals\_Keeps: the invariant (the deals of an auction are the offers to its
    candidates, all but the last cancelled; billing is told once) and that every use case keeps it.
  \<^item> Deals\_System: the commands and the stores they reach.
  \<^item> Deals\_Properties: the properties of deals with their witnesses.

  \<^bold>\<open>Catalog.\<close>
  \<^item> Catalog: \<open>internal/catalog/domain\<close>: fish, products, lots, with their methods and events.
  \<^item> Catalog\_Store: \<open>internal/catalog/postgres\<close>; a lot is rebuilt from its row by calling its methods.
  \<^item> Catalog\_App: \<open>internal/catalog/app\<close>, one definition per method of \<open>CatalogService\<close>.
  \<^item> Catalog\_Correct, Catalog\_Keeps, Catalog\_System: what is saved is loaded, the invariant (each lot is
    announced at most once as published and as closed, with the terms it has) and that every call keeps it.
  \<^item> Catalog\_Properties: the properties of the catalog with their witnesses.

  \<^bold>\<open>Integration.\<close> The contexts never call each other (bids and deposits apart): each appends its events to
  the outbox, and the relay of the integration runtime delivers them to handlers, which call use cases
  of the other contexts.
  \<^item> Outbox\_Append: methods that only append rows to the outbox (\<open>appends\<close>), with its rules.
  \<^item> Outbox\_Relay: \<open>internal/infra/outbox\<close> and \<open>internal/infra/eventbus/inmemory\<close>: claiming, decoding,
    dispatching and marking messages (\<open>RunOnce\<close>).
  \<^item> Relay\_Correct: the abstract life of a message (\<open>message_life\<close>), and the contract \<open>relay_client\<close>
    between the relay and the parts that write messages: under it the outbox refines that life.
  \<^item> Context\_Outboxes: every command of every context only appends.
  \<^item> Integration: \<open>internal/integration/runtime\<close>, handler by handler, over the stores of all contexts
    (\<open>world\<close>), the schedulers, and the message a new company leaves (\<open>internal/identity/postgres\<close>).
  \<^item> Platform: the platform is a \<open>relay_client\<close>; its runs (\<open>platform_run\<close>).
  \<^item> Platform\_Keeps: every delivery and every command keeps the invariants of all four contexts, so
    all histories (\<open>platform_history\<close>) do.
  \<^item> Platform\_Types: messages carry the types their handlers and decoders expect.
  \<^item> Platform\_Lots: what the handler of LotPublished leaves, and that it can run again.
  \<^item> Platform\_Properties: the properties of the relay and the runtime with their witnesses.

  In these theories the statements of the relay succeed, a payload is read back as it was written, no
  handler panics, and handlers run one after the other; several relays and schedulers interleave by
  whole calls. The clock is read once per message by the relay and by each use case (\<open>clock k i\<close>).

  \<^bold>\<open>Chain anchoring.\<close> The operations trading queues (Trading\_Chain) are sent to a contract on an EVM chain by
  a worker of the integration program.
  \<^item> Calldata: \<open>internal/blockchain/evm/calldata.go\<close>, the bytes of a contract call, and reading them back.
  \<^item> Chain\_Worker: \<open>internal/integration/chainanchor\<close> and the methods of \<open>internal/blockchain/evm/client.go\<close>:
    submitting, following receipts, scanning logs. What the node answers is a parameter (\<open>chain_node\<close>).
  \<^item> Worker\_Correct: what every statement of the worker keeps (\<open>holds_on\<close>), and what a log scan covers.
  \<^item> Worker\_Properties: the properties of the worker with their witnesses.

  \<^bold>\<open>Conventions.\<close> A method returning \<open>(value, error)\<close> is a function from the store to a sum and the
  new store; an error keeps the writes made before it until a transaction undoes them. Amounts are
  \<open>int64\<close> with their wrap-around written out, except where a property bounds them (\<open>bids_fit\<close>).
  Times are nanoseconds since the zero time, and a call reads the clock once; that PostgreSQL rounds
  a timestamp to microseconds is not modelled, and neither is a crash between two statements.
  Sequential properties hold of the stores that whole calls reach one after the other (\<open>*_reachable\<close>);
  where the code has no transaction, interleavings are shown as properties of their own.

  \<^bold>\<open>Parameters.\<close> What the source tree does not contain is an argument: the random identifiers (an
  injective sequence), the payment provider, Keccak hashes, how \<open>sort.Slice\<close> and \<open>ORDER BY\<close> order
  ties, the order of text in the database, the order in which an \<open>UPDATE\<close> returns its rows, the deposit
  service where trading is taken alone, and the time zone of the process, in which the identifier of a
  deal is printed (\<open>fresh_id\<close> assumes it new).

  \<^bold>\<open>Not modelled.\<close> The HTTP layers (decoding, encoding, authentication) apart from the time of a bid;
  read-only listings for the user interface; registration, login and tokens (password hashing and JWT are
  library code); the JSON-RPC calls of the EVM node and the Solidity contract;
  configuration and logging; the programs, which compose these parts; the TypeScript front end.
\<close>

end
